(* ===== verification/Prelude.thy ===== *)
theory Prelude
  imports Complex_Main "HOL-Library.Word" "HOL-Library.Sublist" "HOL-Library.Log_Nat"
    "HOL-Library.Monad_Syntax"
begin

text \<open>
  Shared vocabulary of the development: C strings and the string functions of the C library
  the sources use (\<open>strstr\<close>, \<open>atoi\<close>, the decimal conversions of \<open>printf\<close>), C integer
  conversions, status codes, allocation as an oracle, and the generic lemmas and
  collections the component theories use.

  Conventions. A \<open>char*\<close> that may be \<open>NULL\<close> is a \<open>string option\<close>; a \<open>char*\<close> that
  cannot be is a \<open>string\<close>, a list of bytes without the terminator. An operation whose
  C behaviour can be undefined (a \<open>NULL\<close> or dangling pointer is followed) returns an
  \<open>option\<close> whose \<open>None\<close> is the undefined behaviour, called a crash below. An allocation
  may fail: an operation takes an \<open>alloc\<close> oracle that says, for the name of an
  allocation site and the number of the loop iteration, whether that allocation
  succeeds; a theorem quantified over the oracle covers every pattern of failures.
\<close>

named_theorems codes \<open>numeric values of status codes\<close>
named_theorems ctype \<open>character classes of the C library\<close>

type_synonym cstr = "string option"
type_synonym alloc = "string \<Rightarrow> nat \<Rightarrow> bool"

definition all_ok :: alloc where
  "all_ok = (\<lambda>_ _. True)"

lemma all_ok_simp [simp]: "all_ok site i"
  by (simp add: all_ok_def)

subsection \<open>Status codes of \<open>errno.h\<close>\<close>

definition EPERM :: int where [codes]: "EPERM = 1"
definition ENOENT :: int where [codes]: "ENOENT = 2"
definition EINTR :: int where [codes]: "EINTR = 4"
definition EIO :: int where [codes]: "EIO = 5"
definition ENOMEM :: int where [codes]: "ENOMEM = 12"
definition EACCES :: int where [codes]: "EACCES = 13"
definition EEXIST :: int where [codes]: "EEXIST = 17"
definition EINVAL :: int where [codes]: "EINVAL = 22"
definition ENODATA :: int where [codes]: "ENODATA = 61"
definition ETIME :: int where [codes]: "ETIME = 62"
definition ECANCELED :: int where [codes]: "ECANCELED = 125"

subsection \<open>C integers\<close>

text \<open>Conversion of a mathematical integer to a 32-bit \<open>int\<close> (two's complement wrap).\<close>

definition c_int :: "int \<Rightarrow> int" where
  "c_int x = (x + 2 ^ 31) mod 2 ^ 32 - 2 ^ 31"

lemma c_int_range: "- (2 ^ 31) \<le> c_int x" "c_int x < 2 ^ 31"
  by (simp_all add: c_int_def)

lemma c_int_id [simp]: "- (2 ^ 31) \<le> x \<Longrightarrow> x < 2 ^ 31 \<Longrightarrow> c_int x = x"
  by (simp add: c_int_def)

lemma c_int_of_nat [simp]: "n < 2 ^ 31 \<Longrightarrow> c_int (int n) = int n"
  by (rule c_int_id) simp_all

subsection \<open>Characters\<close>

definition isdigit :: "char \<Rightarrow> bool" where
  "isdigit c \<longleftrightarrow> 48 \<le> (of_char c :: nat) \<and> (of_char c :: nat) \<le> 57"

definition isupper :: "char \<Rightarrow> bool" where
  "isupper c \<longleftrightarrow> 65 \<le> (of_char c :: nat) \<and> (of_char c :: nat) \<le> 90"

definition islower :: "char \<Rightarrow> bool" where
  "islower c \<longleftrightarrow> 97 \<le> (of_char c :: nat) \<and> (of_char c :: nat) \<le> 122"

definition isalpha :: "char \<Rightarrow> bool" where
  "isalpha c \<longleftrightarrow> isupper c \<or> islower c"

definition isalnum :: "char \<Rightarrow> bool" where
  "isalnum c \<longleftrightarrow> isalpha c \<or> isdigit c"

definition isspace :: "char \<Rightarrow> bool" where
  "isspace c \<longleftrightarrow> (of_char c :: nat) = 32 \<or> 9 \<le> (of_char c :: nat) \<and> (of_char c :: nat) \<le> 13"

lemmas isclass_defs = isdigit_def isupper_def islower_def isalpha_def isalnum_def isspace_def

declare isclass_defs [ctype]

definition NUL :: char where "NUL = CHR 0x00"

text \<open>The C string that a byte buffer holds: the bytes before the first terminator.\<close>

definition c_string :: "string \<Rightarrow> string" where
  "c_string bs = takeWhile (\<lambda>c. c \<noteq> NUL) bs"

lemma c_string_id [simp]: "NUL \<notin> set s \<Longrightarrow> c_string s = s"
  unfolding c_string_def by (rule takeWhile_eq_all_conv [THEN iffD2]) blast

lemma c_string_no_nul [simp]: "NUL \<notin> set (c_string s)"
  by (auto simp: c_string_def dest: set_takeWhileD)

lemma c_string_append [simp]: "NUL \<notin> set s \<Longrightarrow> c_string (s @ t) = s @ c_string t"
  unfolding c_string_def by (subst takeWhile_append2) auto

subsection \<open>\<open>strstr\<close>\<close>

text \<open>\<open>strstr(s, p)\<close>: the suffix of \<open>s\<close> at the first occurrence of \<open>p\<close>, or \<open>NULL\<close>.\<close>

fun strstr :: "string \<Rightarrow> string \<Rightarrow> string option" where
  "strstr [] p = (if p = [] then Some [] else None)"
| "strstr (c # s) p = (if prefix p (c # s) then Some (c # s) else strstr s p)"

lemma strstr_Some_D: "strstr s p = Some r \<Longrightarrow> prefix p r \<and> suffix r s"
  by (induction s p rule: strstr.induct) (auto split: if_splits intro: suffix_ConsI)

lemma strstr_None_iff: "strstr s p = None \<longleftrightarrow> \<not> sublist p s"
  by (induction s p rule: strstr.induct) (auto simp: sublist_Cons_right)

lemma strstr_Some_iff: "(\<exists>r. strstr s p = Some r) \<longleftrightarrow> sublist p s"
  using strstr_None_iff [of s p] by auto

subsection \<open>Decimal notation\<close>

definition digit_char :: "nat \<Rightarrow> char" where
  "digit_char d = char_of (48 + d)"

definition digit_val :: "char \<Rightarrow> nat" where
  "digit_val c = of_char c - 48"

lemma of_char_digit_char [simp]: "d < 10 \<Longrightarrow> of_char (digit_char d) = (48 + d :: nat)"
  by (simp add: digit_char_def)

lemma digit_val_char [simp]: "d < 10 \<Longrightarrow> digit_val (digit_char d) = d"
  by (simp add: digit_val_def)

lemma isdigit_digit_char [simp]: "d < 10 \<Longrightarrow> isdigit (digit_char d)"
  by (simp add: isdigit_def)

text \<open>\<open>%d\<close> of a natural number, and the value of a run of digits.\<close>

fun dec :: "nat \<Rightarrow> string" where
  "dec n = (if n < 10 then [digit_char n] else dec (n div 10) @ [digit_char (n mod 10)])"

declare dec.simps [simp del]

fun dec_value :: "nat \<Rightarrow> string \<Rightarrow> nat" where
  "dec_value a [] = a"
| "dec_value a (c # s) = dec_value (10 * a + digit_val c) s"

lemma dec_value_append: "dec_value a (s @ t) = dec_value (dec_value a s) t"
  by (induction s arbitrary: a) auto

lemma dec_value_dec [simp]: "dec_value 0 (dec n) = n"
proof (induction n rule: dec.induct)
  case (1 n)
  then show ?case
    by (cases "n < 10") (simp_all add: dec.simps [of n] dec_value_append)
qed

lemma dec_not_Nil [simp]: "dec n \<noteq> []"
  by (subst dec.simps) simp

lemma dec_digits: "c \<in> set (dec n) \<Longrightarrow> isdigit c"
proof (induction n rule: dec.induct)
  case (1 n)
  then show ?case
    by (cases "n < 10") (auto simp: dec.simps [of n])
qed

lemma dec_hd_digit: "isdigit (hd (dec n))"
  by (rule dec_digits [of _ n]) simp

lemma dec_hd_nonzero: "0 < n \<Longrightarrow> hd (dec n) \<noteq> CHR ''0''"
proof (induction n rule: dec.induct)
  case (1 n)
  show ?case
  proof (cases "n < 10")
    case True
    have "digit_val (digit_char n) \<noteq> digit_val (CHR ''0'')"
      using True 1 by (simp add: digit_val_def [of "CHR ''0''"])
    then have "digit_char n \<noteq> CHR ''0''" by metis
    then show ?thesis using True by (simp add: dec.simps [of n])
  next
    case False
    then show ?thesis using 1 by (simp add: dec.simps [of n] hd_append)
  qed
qed

text \<open>The number of digits.\<close>

lemma length_dec_iff: "0 < k \<Longrightarrow> length (dec n) \<le> k \<longleftrightarrow> n < 10 ^ k"
proof (induction k arbitrary: n)
  case (Suc k)
  show ?case
  proof (cases "n < 10")
    case True
    moreover have "(10 :: nat) \<le> 10 ^ Suc k" by simp
    ultimately show ?thesis by (subst dec.simps) (simp add: less_le_trans)
  next
    case False
    show ?thesis
    proof (cases "k = 0")
      case True
      then show ?thesis using False by (subst dec.simps) simp
    next
      case k: False
      then have "length (dec (n div 10)) \<le> k \<longleftrightarrow> n div 10 < 10 ^ k" by (intro Suc.IH) simp
      moreover have "n div 10 < 10 ^ k \<longleftrightarrow> n < 10 ^ Suc k" by (simp add: div_less_iff_less_mult mult.commute)
      ultimately show ?thesis using False by (subst dec.simps) simp
    qed
  qed
qed simp

lemma length_dec_bound: "n < 10 ^ k \<Longrightarrow> 0 < k \<Longrightarrow> length (dec n) \<le> k"
  by (simp add: length_dec_iff)

text \<open>\<open>%d\<close> of an \<open>int\<close>.\<close>

definition print_int :: "int \<Rightarrow> string" where
  "print_int x = (if x < 0 then CHR ''-'' # dec (nat (- x)) else dec (nat x))"

text \<open>
  \<open>atoi\<close>: leading white space, an optional sign, the longest run of digits; the value is
  that of \<open>strtol\<close> (clamped to 64 bits) converted to \<open>int\<close>.
\<close>

definition clamp64 :: "int \<Rightarrow> int" where
  "clamp64 x = max (- (2 ^ 63)) (min (2 ^ 63 - 1) x)"

definition strtol10 :: "string \<Rightarrow> int" where
  "strtol10 s =
     (case dropWhile isspace s of
        [] \<Rightarrow> 0
      | c # t \<Rightarrow>
          if c = CHR ''-'' then clamp64 (- int (dec_value 0 (takeWhile isdigit t)))
          else if c = CHR ''+'' then clamp64 (int (dec_value 0 (takeWhile isdigit t)))
          else clamp64 (int (dec_value 0 (takeWhile isdigit (c # t)))))"

definition atoi :: "string \<Rightarrow> int" where
  "atoi s = c_int (strtol10 s)"

lemma isdigit_not_space: "isdigit c \<Longrightarrow> \<not> isspace c"
  by (auto simp: ctype)

lemma isdigit_not_sign: "isdigit c \<Longrightarrow> c \<noteq> CHR ''-'' \<and> c \<noteq> CHR ''+''"
  by (auto simp: ctype)

lemma takeWhile_isdigit_dec: "takeWhile isdigit (dec n) = dec n"
  by (simp add: dec_digits takeWhile_eq_all_conv)

lemma strtol10_dec: "strtol10 (dec n) = clamp64 (int n)"
proof -
  obtain c t where ct: "dec n = c # t" by (cases "dec n") simp_all
  have "isdigit c" using dec_hd_digit [of n] ct by simp
  then have "strtol10 (dec n) = clamp64 (int (dec_value 0 (takeWhile isdigit (dec n))))"
    using ct by (simp add: strtol10_def isdigit_not_space isdigit_not_sign)
  then show ?thesis by (simp add: takeWhile_isdigit_dec)
qed

lemma atoi_dec: "n < 2 ^ 31 \<Longrightarrow> atoi (dec n) = int n"
  by (simp add: atoi_def strtol10_dec clamp64_def)

lemma atoi_print_int:
  assumes "- (2 ^ 31) \<le> x" "x < 2 ^ 31"
  shows "atoi (print_int x) = x"
proof (cases "x < 0")
  case True
  have "strtol10 (print_int x) = clamp64 x"
    using True by (simp add: strtol10_def print_int_def isspace_def takeWhile_isdigit_dec)
  then show ?thesis using assms by (simp add: atoi_def clamp64_def)
next
  case False
  then show ?thesis using assms atoi_dec [of "nat x"] by (simp add: print_int_def)
qed

subsection \<open>Quoted text\<close>

text \<open>The format \<open>\"%s\"\<close>.\<close>

definition quoted :: "string \<Rightarrow> string" where
  "quoted s = CHR 0x22 # s @ [CHR 0x22]"

lemma quoted_nul: "NUL \<notin> set k \<Longrightarrow> NUL \<notin> set (quoted k)"
  by (simp add: quoted_def NUL_def)

lemma length_quoted [simp]: "length (quoted s) = length s + 2"
  by (simp add: quoted_def)

subsection \<open>Keyed stores\<close>

text \<open>
  The contract of a store that is updated by key: what a lookup returns after an update,
  and that updates keep the store's invariant.
\<close>

locale keyed_store =
  fixes lookup :: "'s \<Rightarrow> 'k \<Rightarrow> 'v option"
    and update :: "'s \<Rightarrow> 'k \<Rightarrow> 'v \<Rightarrow> 's"
    and invar :: "'s \<Rightarrow> bool"
  assumes lookup_update: "invar s \<Longrightarrow> lookup (update s k v) = (lookup s)(k \<mapsto> v)"
    and invar_update: "invar s \<Longrightarrow> invar (update s k v)"
begin

lemma invar_updates: "invar s \<Longrightarrow> invar (fold (\<lambda>(k, v) s. update s k v) kvs s)"
  by (induction kvs arbitrary: s) (auto simp: invar_update)

text \<open>After a sequence of updates every key has the value it was given last.\<close>

lemma lookup_updates:
  "invar s \<Longrightarrow> lookup (fold (\<lambda>(k, v) s. update s k v) kvs s) = lookup s ++ map_of (rev kvs)"
proof (induction kvs arbitrary: s)
  case (Cons kv kvs)
  obtain k v where kv: "kv = (k, v)" by (cases kv)
  have "lookup (fold (\<lambda>(k, v) s. update s k v) kvs (update s k v)) =
      lookup (update s k v) ++ map_of (rev kvs)"
    using Cons by (intro Cons.IH) (simp add: invar_update)
  then show ?case using Cons.prems by (simp add: kv lookup_update map_add_assoc [symmetric]
        fun_eq_iff map_add_def split: option.splits)
qed simp

end

end
