(* ===== verification/Sockets.thy ===== *)
theory Sockets
  imports Prelude
begin

text \<open>
  Reading of HTTP messages from a socket (\<open>src/common/commonutils/SocketUtils.c\<close>).

  A connected socket is the list of the bytes the peer has sent and not yet been read; a
  \<open>read\<close> at the end of the list returns 0. A \<open>read\<close> of several bytes may return
  fewer than are there: \<open>cap n\<close> is the most that a request for \<open>n\<close> bytes gets. Socket
  handles are valid: both callers check them first.
\<close>

type_synonym reader = "nat \<Rightarrow> nat"

definition sock_read :: "reader \<Rightarrow> nat \<Rightarrow> string \<Rightarrow> string \<times> string" where
  "sock_read cap n s = (take (min n (cap n)) s, drop (min n (cap n)) s)"

subsection \<open>ReadUntilStringFound\<close>

text \<open>One byte at a time; \<open>strstr\<close> sees the buffer up to its first NUL byte. The result
  is the buffer, or \<open>NULL\<close>, and what is left to read.\<close>

fun read_until :: "alloc \<Rightarrow> nat \<Rightarrow> string \<Rightarrow> string \<Rightarrow> string \<Rightarrow> cstr \<times> string" where
  "read_until m i what buf [] = (None, [])"
| "read_until m i what buf (c # s) =
     (let buf' = buf @ [c]
      in if strstr (c_string buf') what \<noteq> None then (Some buf', s)
         else if \<not> m ''realloc'' i then (None, s)
         else read_until m (Suc i) what buf' s)"

definition ReadUntilStringFound :: "alloc \<Rightarrow> string \<Rightarrow> string \<Rightarrow> cstr \<times> string" where
  "ReadUntilStringFound m what s =
     (if \<not> m ''buffer'' 0 then (None, s) else read_until m 0 what [] s)"

subsection \<open>ReadUriFromSocket\<close>

definition MAX_MPI_URI_LENGTH :: nat where "MAX_MPI_URI_LENGTH = 32"

text \<open>The loop over the fixed buffer: letters are kept, the first other byte ends it; at the
  end of the input the remaining iterations read nothing.\<close>

fun read_uri_chars :: "nat \<Rightarrow> string \<Rightarrow> string \<times> string" where
  "read_uri_chars 0 s = ([], s)"
| "read_uri_chars (Suc n) [] = read_uri_chars n []"
| "read_uri_chars (Suc n) (c # s) =
     (if isalpha c then (let (u, r) = read_uri_chars n s in (c # u, r)) else ([], s))"

definition ReadUriFromSocket :: "alloc \<Rightarrow> string \<Rightarrow> cstr \<times> string" where
  "ReadUriFromSocket m s =
     (case ReadUntilStringFound m ''POST /'' s of
        (None, r) \<Rightarrow> (None, r)
      | (Some _, r) \<Rightarrow>
          (let (u, r') = read_uri_chars MAX_MPI_URI_LENGTH r
           in ((if m ''returnUri'' 0 then Some u else None), r')))"

subsection \<open>ReadHttpStatusFromSocket\<close>

definition ReadHttpStatusFromSocket :: "alloc \<Rightarrow> reader \<Rightarrow> string \<Rightarrow> int \<times> string" where
  "ReadHttpStatusFromSocket m cap s =
     (case ReadUntilStringFound m ''HTTP/1.1'' s of
        (None, r) \<Rightarrow> (404, r)
      | (Some _, r) \<Rightarrow>
          (case r of
             [] \<Rightarrow> (404, [])
           | c # r1 \<Rightarrow>
               if c \<noteq> CHR '' '' then (404, r1)
               else (case sock_read cap 3 r1 of
                  (ds, r2) \<Rightarrow>
                    (if length ds = 3 \<and> isdigit (ds ! 0) \<and>
                        of_char (CHR ''1'') \<le> (of_char (ds ! 0) :: nat) \<and>
                        (of_char (ds ! 0) :: nat) \<le> of_char (CHR ''5'') \<and>
                        isdigit (ds ! 1) \<and> isdigit (ds ! 2)
                     then atoi ds else 404, r2))))"

subsection \<open>ReadHttpContentLengthFromSocket\<close>

definition CRLF :: string where "CRLF = [CHR 0x0D, CHR 0x0A]"

definition content_length_label :: string where
  "content_length_label = ''Content-Length: ''"

definition ReadHttpContentLengthFromSocket :: "alloc \<Rightarrow> string \<Rightarrow> int \<times> string" where
  "ReadHttpContentLengthFromSocket m s =
     (case ReadUntilStringFound m (CRLF @ CRLF) s of
        (None, r) \<Rightarrow> (0, r)
      | (Some buf, r) \<Rightarrow>
          (case strstr (c_string buf) content_length_label of
             None \<Rightarrow> (0, r)
           | Some found \<Rightarrow>
               (let ds = takeWhile isdigit (take 63 (drop (length content_length_label) found))
                in (if ds = [] then 0 else atoi ds, r))))"

subsection \<open>Framing lemmas\<close>

text \<open>
  What \<open>read_until\<close> returns when allocations succeed: the shortest prefix of the input
  that holds the string.
\<close>

lemma read_until_found:
  assumes "\<And>j. m ''realloc'' j" and "NUL \<notin> set (buf @ pre)" and "pre \<noteq> []"
    and "sublist what (buf @ pre)" and "\<And>k. k < length pre \<Longrightarrow> \<not> sublist what (buf @ take k pre)"
  shows "read_until m i what buf (pre @ r) = (Some (buf @ pre), r)"
  using assms
proof (induction pre arbitrary: buf i)
  case Nil
  then show ?case by simp
next
  case (Cons c pre)
  have nul: "c_string (buf @ [c]) = buf @ [c]" using Cons.prems(2) by (intro c_string_id) auto
  show ?case
  proof (cases "pre = []")
    case True
    then show ?thesis using Cons.prems nul strstr_None_iff [of "buf @ [c]" what] by simp
  next
    case False
    have "\<not> sublist what (buf @ [c])"
      using Cons.prems(5) [of 1] False by (cases pre) simp_all
    then have "strstr (c_string (buf @ [c])) what = None" using nul by (simp add: strstr_None_iff)
    moreover have "read_until m (Suc i) what (buf @ [c]) (pre @ r) = (Some ((buf @ [c]) @ pre), r)"
    proof (rule Cons.IH)
      fix k assume "k < length pre"
      then show "\<not> sublist what ((buf @ [c]) @ take k pre)" using Cons.prems(5) [of "Suc k"] by simp
    qed (use Cons.prems False in auto)
    ultimately show ?thesis using Cons.prems(1) by simp
  qed
qed

text \<open>A separator is met first at the end of \<open>pre @ what\<close> when it does not occur earlier.\<close>

lemma ReadUntilStringFound_found:
  assumes "\<And>site j. m site j" and "NUL \<notin> set pre" and "pre \<noteq> []"
    and "sublist what pre" and "\<And>k. k < length pre \<Longrightarrow> \<not> sublist what (take k pre)"
  shows "ReadUntilStringFound m what (pre @ r) = (Some pre, r)"
  using read_until_found [of m "[]" pre what 0 r] assms
  by (simp add: ReadUntilStringFound_def)

lemma read_uri_chars_letters:
  "(\<forall>c \<in> set u. isalpha c) \<Longrightarrow> length u < n \<Longrightarrow> \<not> isalpha d \<Longrightarrow>
   read_uri_chars n (u @ d # r) = (u, r)"
proof (induction u arbitrary: n)
  case Nil
  then show ?case by (cases n) simp_all
next
  case (Cons c u)
  then show ?case by (cases n) auto
qed

lemma read_uri_chars_result:
  "read_uri_chars n s = (u, r) \<Longrightarrow> (\<forall>c \<in> set u. isalpha c) \<and> length u \<le> n"
proof (induction n s arbitrary: u r rule: read_uri_chars.induct)
  case (3 n c s)
  then show ?case by (cases "read_uri_chars n s") (auto split: if_splits)
qed auto

end
