(* ===== verification/Parson.thy ===== *)
theory Parson
  imports Prelude
begin

text \<open>
  The JSON library every component exchanges data through (\<open>src/common/parson/parson.c\<close>):
  the value type, the accessors, the parser behind \<open>json_parse_string\<close> and the serialisers
  \<open>json_serialize_to_string\<close> and \<open>json_serialize_to_string_pretty\<close>.

  A \<open>JSON_Value*\<close> that may be \<open>NULL\<close> is an \<open>option\<close>; an object is the list of its
  name/value pairs in insertion order. A string value is a byte list that may hold the NUL
  byte (\<open>\u0000\<close>); \<open>json_value_get_string\<close> returns what a C caller sees of it. A
  \<open>double\<close> is the rational it denotes: \<open>strtod\<close> rounds to 53 bits and \<open>%1.17g\<close> prints
  17 significant digits, as the C library does. The library's own allocations are taken
  to succeed: where one fails, the functions return \<open>NULL\<close>, which every caller treats
  as it treats malformed text.
\<close>

unbundle bit_operations_syntax

subsection \<open>Values\<close>

datatype JSON_Value =
    JSONNull
  | JSONString string
  | JSONNumber rat
  | JSONObject "(string \<times> JSON_Value) list"
  | JSONArray "JSON_Value list"
  | JSONBoolean bool

type_synonym JSON_Object = "(string \<times> JSON_Value) list"
type_synonym JSON_Array = "JSON_Value list"

datatype JSON_Value_Type =
  TypeError | TypeNull | TypeString | TypeNumber | TypeObject | TypeArray | TypeBoolean

fun json_value_get_type :: "JSON_Value option \<Rightarrow> JSON_Value_Type" where
  "json_value_get_type None = TypeError"
| "json_value_get_type (Some JSONNull) = TypeNull"
| "json_value_get_type (Some (JSONString _)) = TypeString"
| "json_value_get_type (Some (JSONNumber _)) = TypeNumber"
| "json_value_get_type (Some (JSONObject _)) = TypeObject"
| "json_value_get_type (Some (JSONArray _)) = TypeArray"
| "json_value_get_type (Some (JSONBoolean _)) = TypeBoolean"

fun json_value_get_object :: "JSON_Value option \<Rightarrow> JSON_Object option" where
  "json_value_get_object (Some (JSONObject kvs)) = Some kvs"
| "json_value_get_object _ = None"

fun json_value_get_array :: "JSON_Value option \<Rightarrow> JSON_Array option" where
  "json_value_get_array (Some (JSONArray vs)) = Some vs"
| "json_value_get_array _ = None"

text \<open>The \<open>char*\<close> of a string value, read as a C string.\<close>

fun json_value_get_string :: "JSON_Value option \<Rightarrow> cstr" where
  "json_value_get_string (Some (JSONString bs)) = Some (c_string bs)"
| "json_value_get_string _ = None"

fun json_value_get_number :: "JSON_Value option \<Rightarrow> rat" where
  "json_value_get_number (Some (JSONNumber x)) = x"
| "json_value_get_number _ = 0"

fun json_value_get_boolean :: "JSON_Value option \<Rightarrow> int" where
  "json_value_get_boolean (Some (JSONBoolean b)) = (if b then 1 else 0)"
| "json_value_get_boolean _ = - 1"

subsection \<open>Objects and arrays\<close>

definition json_object_get_value :: "JSON_Object option \<Rightarrow> cstr \<Rightarrow> JSON_Value option" where
  "json_object_get_value obj name =
     (case (obj, name) of (Some kvs, Some k) \<Rightarrow> map_of kvs k | _ \<Rightarrow> None)"

definition json_object_get_string :: "JSON_Object option \<Rightarrow> cstr \<Rightarrow> cstr" where
  "json_object_get_string obj name = json_value_get_string (json_object_get_value obj name)"

definition json_object_get_number :: "JSON_Object option \<Rightarrow> cstr \<Rightarrow> rat" where
  "json_object_get_number obj name = json_value_get_number (json_object_get_value obj name)"

definition json_object_get_object :: "JSON_Object option \<Rightarrow> cstr \<Rightarrow> JSON_Object option" where
  "json_object_get_object obj name = json_value_get_object (json_object_get_value obj name)"

definition json_object_get_array :: "JSON_Object option \<Rightarrow> cstr \<Rightarrow> JSON_Array option" where
  "json_object_get_array obj name = json_value_get_array (json_object_get_value obj name)"

definition json_object_get_boolean :: "JSON_Object option \<Rightarrow> cstr \<Rightarrow> int" where
  "json_object_get_boolean obj name = json_value_get_boolean (json_object_get_value obj name)"

definition json_object_get_count :: "JSON_Object option \<Rightarrow> nat" where
  "json_object_get_count obj = (case obj of None \<Rightarrow> 0 | Some kvs \<Rightarrow> length kvs)"

definition json_object_get_name :: "JSON_Object option \<Rightarrow> nat \<Rightarrow> cstr" where
  "json_object_get_name obj i =
     (case obj of None \<Rightarrow> None
      | Some kvs \<Rightarrow> if json_object_get_count obj \<le> i then None else Some (fst (kvs ! i)))"

definition json_object_has_value_of_type ::
  "JSON_Object option \<Rightarrow> cstr \<Rightarrow> JSON_Value_Type \<Rightarrow> bool" where
  "json_object_has_value_of_type obj name ty =
     (let val = json_object_get_value obj name
      in val \<noteq> None \<and> json_value_get_type val = ty)"

definition json_array_get_count :: "JSON_Array option \<Rightarrow> nat" where
  "json_array_get_count arr = (case arr of None \<Rightarrow> 0 | Some vs \<Rightarrow> length vs)"

definition json_array_get_value :: "JSON_Array option \<Rightarrow> nat \<Rightarrow> JSON_Value option" where
  "json_array_get_value arr i =
     (case arr of None \<Rightarrow> None
      | Some vs \<Rightarrow> if json_array_get_count arr \<le> i then None else Some (vs ! i))"

definition json_array_get_string :: "JSON_Array option \<Rightarrow> nat \<Rightarrow> cstr" where
  "json_array_get_string arr i = json_value_get_string (json_array_get_value arr i)"

definition json_array_get_object :: "JSON_Array option \<Rightarrow> nat \<Rightarrow> JSON_Object option" where
  "json_array_get_object arr i = json_value_get_object (json_array_get_value arr i)"

text \<open>
  \<open>json_object_add\<close> refuses a name the object already has; \<open>json_object_set_value\<close>
  overwrites the value in place, or adds the pair at the end.
\<close>

definition json_object_add :: "JSON_Object \<Rightarrow> string \<Rightarrow> JSON_Value \<Rightarrow> JSON_Object option" where
  "json_object_add kvs k v =
     (if map_of kvs k \<noteq> None then None else Some (kvs @ [(k, v)]))"

fun json_object_set_value :: "JSON_Object \<Rightarrow> string \<Rightarrow> JSON_Value \<Rightarrow> JSON_Object" where
  "json_object_set_value [] k v = [(k, v)]"
| "json_object_set_value ((k', v') # kvs) k v =
     (if k' = k then (k', v) # kvs else (k', v') # json_object_set_value kvs k v)"

lemmas json_get_defs =
  json_object_get_value_def json_object_get_string_def json_object_get_number_def
  json_object_get_object_def json_object_get_array_def json_object_get_boolean_def
  json_object_has_value_of_type_def json_array_get_value_def json_array_get_string_def
  json_array_get_object_def

subsection \<open>Numbers\<close>

text \<open>
  Rounding of a rational to an integer (ties to even), the exponent of the leading digit
  in base \<open>b\<close>, and the nearest double.
\<close>

definition round_half_even :: "rat \<Rightarrow> int" where
  "round_half_even x =
     (let f = \<lfloor>x\<rfloor>; r = x - of_int f
      in if r < 1 / 2 then f else if 1 / 2 < r then f + 1 else if even f then f else f + 1)"

definition lead_exp :: "nat \<Rightarrow> rat \<Rightarrow> int" where
  "lead_exp b x =
     (let (p, q) = quotient_of x;
          d = int (floorlog b (nat p)) - int (floorlog b (nat q))
      in if of_nat b powi d \<le> x then d else d - 1)"

definition round53 :: "rat \<Rightarrow> rat" where
  "round53 x =
     (if x = 0 then 0
      else let ulp = 2 powi (lead_exp 2 \<bar>x\<bar> - 52)
           in sgn x * of_int (round_half_even (\<bar>x\<bar> / ulp)) * ulp)"

definition isxdigit :: "char \<Rightarrow> bool" where
  "isxdigit c \<longleftrightarrow> isdigit c \<or> 97 \<le> (of_char c :: nat) \<and> (of_char c :: nat) \<le> 102
     \<or> 65 \<le> (of_char c :: nat) \<and> (of_char c :: nat) \<le> 70"

text \<open>
  What \<open>strtod\<close> makes of a text that starts with a minus sign or a digit: a decimal
  number (its value, the characters consumed and the rest), a hexadecimal one, an infinity
  or NaN, or nothing.
\<close>

datatype strtod_result = Decimal rat string string | Hexadecimal | NonFinite | NoConversion

definition strtod_exponent :: "string \<Rightarrow> int \<times> string \<times> string" where
  "strtod_exponent s =
     (case s of
        e # t \<Rightarrow>
          if e = CHR ''e'' \<or> e = CHR ''E'' then
            let (sgn_txt, u) = (case t of
                   c # u \<Rightarrow> if c = CHR ''-'' \<or> c = CHR ''+'' then ([c], u) else ([], t)
                 | [] \<Rightarrow> ([], t));
                ds = takeWhile isdigit u
            in if ds = [] then (0, [], s)
               else ((if sgn_txt = ''-'' then - int (dec_value 0 ds) else int (dec_value 0 ds)),
                     e # sgn_txt @ ds, dropWhile isdigit u)
          else (0, [], s)
      | [] \<Rightarrow> (0, [], s))"

definition strtod_mantissa :: "string \<Rightarrow> string \<times> string \<times> string \<times> string" where
  "strtod_mantissa s =
     (let is = takeWhile isdigit s; t = dropWhile isdigit s
      in case t of
           c # u \<Rightarrow>
             if c = CHR ''.'' \<and> (is \<noteq> [] \<or> takeWhile isdigit u \<noteq> [])
             then (is, takeWhile isdigit u, is @ c # takeWhile isdigit u, dropWhile isdigit u)
             else (is, [], is, t)
         | [] \<Rightarrow> (is, [], is, t))"

definition strtod_is_hex :: "string \<Rightarrow> bool" where
  "strtod_is_hex t =
     (case t of
        z # x # h # u \<Rightarrow> z = CHR ''0'' \<and> (x = CHR ''x'' \<or> x = CHR ''X'') \<and>
          (isxdigit h \<or> h = CHR ''.'' \<and> (case u of [] \<Rightarrow> False | h' # _ \<Rightarrow> isxdigit h'))
      | _ \<Rightarrow> False)"

definition tolower :: "char \<Rightarrow> char" where
  "tolower c = (if isupper c then char_of (of_char c + (32 :: nat)) else c)"

definition strtod :: "string \<Rightarrow> strtod_result" where
  "strtod s =
     (let neg = (case s of c # _ \<Rightarrow> c = CHR ''-'' | [] \<Rightarrow> False);
          t = (if neg then tl s else s)
      in if strtod_is_hex t then Hexadecimal
         else if map tolower (take 3 t) = ''inf'' \<or> map tolower (take 3 t) = ''nan'' then NonFinite
         else let (ip, fp, txt, u) = strtod_mantissa t
              in if ip = [] \<and> fp = [] then NoConversion
                 else let (e, etxt, rest) = strtod_exponent u;
                          m = of_nat (dec_value 0 (ip @ fp)) * 10 powi (e - int (length fp))
                      in Decimal (if neg then - m else m)
                           ((if neg then ''-'' else []) @ txt @ etxt) rest)"

text \<open>\<open>%1.17g\<close>.\<close>

definition strip_zeros :: "string \<Rightarrow> string" where
  "strip_zeros s = rev (dropWhile (\<lambda>c. c = CHR ''0'') (rev s))"

definition pad_dec :: "nat \<Rightarrow> nat \<Rightarrow> string" where
  "pad_dec w n = replicate (w - length (dec n)) (CHR ''0'') @ dec n"

definition frac_part :: "nat \<Rightarrow> nat \<Rightarrow> string" where
  "frac_part w n =
     (let ds = (if n = 0 then [] else strip_zeros (pad_dec w n))
      in if ds = [] then [] else CHR ''.'' # ds)"

definition fmt_17g :: "rat \<Rightarrow> string" where
  "fmt_17g x =
     (if x = 0 then ''0''
      else let e0 = lead_exp 10 \<bar>x\<bar>;
               m0 = nat (round_half_even (\<bar>x\<bar> / 10 powi (e0 - 16)));
               (e, m) = (if m0 = 10 ^ 17 then (e0 + 1, 10 ^ 16) else (e0, m0));
               sign = (if x < 0 then ''-'' else [])
           in if - 4 \<le> e \<and> e < 17
              then let w = nat (16 - e)
                   in sign @ dec (m div 10 ^ w) @ frac_part w (m mod 10 ^ w)
              else sign @ dec (m div 10 ^ 16) @ frac_part 16 (m mod 10 ^ 16) @ ''e'' @
                   (if e < 0 then ''-'' else ''+'') @ pad_dec 2 (nat \<bar>e\<bar>))"

text \<open>Conversion of a double to \<open>int\<close>: truncation; out of range, the value the target's
  conversion instruction delivers (\<open>INT_MIN\<close>; the language leaves it undefined).\<close>

definition trunc_rat :: "rat \<Rightarrow> int" where
  "trunc_rat x = (if 0 \<le> x then \<lfloor>x\<rfloor> else \<lceil>x\<rceil>)"

definition double_to_int :: "rat \<Rightarrow> int" where
  "double_to_int x =
     (let t = trunc_rat x in if - (2 ^ 31) \<le> t \<and> t < 2 ^ 31 then t else - (2 ^ 31))"

text \<open>Conversion to \<open>unsigned int\<close>: truncation, reduced to 32 bits by the target's
  64-bit conversion when out of range.\<close>

definition double_to_uint :: "rat \<Rightarrow> 32 word" where
  "double_to_uint x = word_of_int (trunc_rat x)"

subsection \<open>The parser: strings\<close>

text \<open>
  \<open>skip_quotes\<close>: past a quoted string, to the character after the closing quote; the
  result pairs the text between the quotes with the rest.
\<close>

fun skip_quoted :: "string \<Rightarrow> (string \<times> string) option" where
  "skip_quoted [] = None"
| "skip_quoted (c # s) =
     (if c = CHR 0x22 then Some ([], s)
      else if c = CHR 0x5C then
        (case s of [] \<Rightarrow> None
         | e # t \<Rightarrow> map_option (\<lambda>(b, r). (c # e # b, r)) (skip_quoted t))
      else map_option (\<lambda>(b, r). (c # b, r)) (skip_quoted s))"

definition skip_quotes :: "string \<Rightarrow> (string \<times> string) option" where
  "skip_quotes s =
     (case s of [] \<Rightarrow> None | c # t \<Rightarrow> if c \<noteq> CHR 0x22 then None else skip_quoted t)"

definition hex_char_to_int :: "char \<Rightarrow> int" where
  "hex_char_to_int c =
     (let n = int (of_char c)
      in if 48 \<le> n \<and> n \<le> 57 then n - 48
         else if 97 \<le> n \<and> n \<le> 102 then n - 97 + 10
         else if 65 \<le> n \<and> n \<le> 70 then n - 65 + 10
         else - 1)"

fun parse_utf16_hex :: "string \<Rightarrow> (nat \<times> string) option" where
  "parse_utf16_hex (a # b # c # d # s) =
     (let x1 = hex_char_to_int a; x2 = hex_char_to_int b;
          x3 = hex_char_to_int c; x4 = hex_char_to_int d
      in if x1 = - 1 \<or> x2 = - 1 \<or> x3 = - 1 \<or> x4 = - 1 then None
         else Some (nat (x1 * 4096 + x2 * 256 + x3 * 16 + x4), s))"
| "parse_utf16_hex _ = None"

text \<open>The UTF-8 bytes of a code point; the shifts and masks of the source as \<open>div\<close>
  and \<open>mod\<close> by powers of two.\<close>

definition utf8_bytes :: "nat \<Rightarrow> string" where
  "utf8_bytes cp =
     (if cp < 0x80 then [char_of cp]
      else if cp < 0x800 then [char_of (cp div 64 mod 32 + 0xC0), char_of (cp mod 64 + 0x80)]
      else if cp < 0x10000 then
        [char_of (cp div 4096 mod 16 + 0xE0), char_of (cp div 64 mod 64 + 0x80),
         char_of (cp mod 64 + 0x80)]
      else
        [char_of (cp div 262144 mod 8 + 0xF0), char_of (cp div 4096 mod 64 + 0x80),
         char_of (cp div 64 mod 64 + 0x80), char_of (cp mod 64 + 0x80)])"

definition parse_utf16 :: "string \<Rightarrow> (string \<times> string) option" where
  "parse_utf16 s =
     (case parse_utf16_hex s of
        None \<Rightarrow> None
      | Some (cp, r) \<Rightarrow>
          if cp < 0xD800 \<or> 0xDFFF < cp then Some (utf8_bytes cp, r)
          else if cp \<le> 0xDBFF then
            (case r of
               b # u # r' \<Rightarrow>
                 if b \<noteq> CHR 0x5C \<or> u \<noteq> CHR ''u'' then None
                 else (case parse_utf16_hex r' of
                         None \<Rightarrow> None
                       | Some (trail, r'') \<Rightarrow>
                           if trail < 0xDC00 \<or> 0xDFFF < trail then None
                           else Some (utf8_bytes ((cp - 0xD800) mod 1024 * 1024 +
                                        (trail - 0xDC00) mod 1024 + 0x10000), r''))
             | _ \<Rightarrow> None)
          else None)"

lemma parse_utf16_hex_length: "parse_utf16_hex s = Some (n, r) \<Longrightarrow> length r < length s"
  by (induction s rule: parse_utf16_hex.induct) (auto simp: Let_def split: if_splits)

lemma parse_utf16_length: "parse_utf16 s = Some (bs, r) \<Longrightarrow> length r < length s"
  by (fastforce simp: parse_utf16_def dest!: parse_utf16_hex_length
      split: option.splits if_splits list.splits prod.splits)

definition unescape :: "char \<Rightarrow> char option" where
  "unescape e =
     (if e = CHR 0x22 then Some (CHR 0x22)
      else if e = CHR 0x5C then Some (CHR 0x5C)
      else if e = CHR ''/'' then Some (CHR ''/'')
      else if e = CHR ''b'' then Some (CHR 0x08)
      else if e = CHR ''f'' then Some (CHR 0x0C)
      else if e = CHR ''n'' then Some (CHR 0x0A)
      else if e = CHR ''r'' then Some (CHR 0x0D)
      else if e = CHR ''t'' then Some (CHR 0x09)
      else None)"

function (sequential) process_string :: "string \<Rightarrow> string option" where
  "process_string [] = Some []"
| "process_string (c # s) =
     (if c = CHR 0x5C then
        (case s of
           [] \<Rightarrow> None
         | e # t \<Rightarrow>
             if e = CHR ''u'' then
               (case parse_utf16 t of
                  None \<Rightarrow> None
                | Some (bs, r) \<Rightarrow> map_option ((@) bs) (process_string r))
             else
               (case unescape e of
                  None \<Rightarrow> None
                | Some b \<Rightarrow> map_option ((#) b) (process_string t)))
      else if (of_char c :: nat) < 0x20 then None
      else map_option ((#) c) (process_string s))"
  by pat_completeness auto
termination
  by (relation "measure length") (auto dest: parse_utf16_length)

definition get_quoted_string :: "string \<Rightarrow> (string \<times> string) option" where
  "get_quoted_string s =
     (case skip_quotes s of
        None \<Rightarrow> None
      | Some (body, r) \<Rightarrow> map_option (\<lambda>bs. (bs, r)) (process_string body))"

subsection \<open>The parser: values\<close>

abbreviation skip_ws :: "string \<Rightarrow> string" where
  "skip_ws s \<equiv> dropWhile isspace s"

definition MAX_NESTING :: nat where "MAX_NESTING = 2048"

definition parse_boolean_value :: "string \<Rightarrow> (JSON_Value \<times> string) option" where
  "parse_boolean_value s =
     (if prefix ''true'' s then Some (JSONBoolean True, drop 4 s)
      else if prefix ''false'' s then Some (JSONBoolean False, drop 5 s)
      else None)"

definition parse_null_value :: "string \<Rightarrow> (JSON_Value \<times> string) option" where
  "parse_null_value s = (if prefix ''null'' s then Some (JSONNull, drop 4 s) else None)"

definition is_decimal :: "string \<Rightarrow> bool" where
  "is_decimal s \<longleftrightarrow>
     \<not> (1 < length s \<and> s ! 0 = CHR ''0'' \<and> s ! 1 \<noteq> CHR ''.'') \<and>
     \<not> (2 < length s \<and> prefix ''-0'' s \<and> s ! 2 \<noteq> CHR ''.'') \<and>
     CHR ''x'' \<notin> set s \<and> CHR ''X'' \<notin> set s"

text \<open>
  \<open>parse_number_value\<close>: \<open>errno\<close> is set when the value overflows or falls below the
  least normal double. A text on which \<open>strtod\<close> converts nothing yields the number 0
  and consumes nothing.
\<close>

definition parse_number_value :: "string \<Rightarrow> (JSON_Value \<times> string) option" where
  "parse_number_value s =
     (case strtod s of
        NoConversion \<Rightarrow> Some (JSONNumber 0, s)
      | Hexadecimal \<Rightarrow> None
      | NonFinite \<Rightarrow> None
      | Decimal x txt rest \<Rightarrow>
          let d = round53 x
          in if 2 ^ 1024 \<le> \<bar>d\<bar> \<or> x \<noteq> 0 \<and> \<bar>x\<bar> < 2 powi (- 1022) then None
             else if \<not> is_decimal txt then None
             else Some (JSONNumber d, rest))"

definition parse_string_value :: "string \<Rightarrow> (JSON_Value \<times> string) option" where
  "parse_string_value s = map_option (\<lambda>(bs, r). (JSONString bs, r)) (get_quoted_string s)"

definition finish_object :: "JSON_Object \<Rightarrow> string \<Rightarrow> (JSON_Value \<times> string) option" where
  "finish_object kvs s =
     (case skip_ws s of
        c # r \<Rightarrow> if c = CHR ''}'' then Some (JSONObject kvs, r) else None
      | [] \<Rightarrow> None)"

definition finish_array :: "JSON_Array \<Rightarrow> string \<Rightarrow> (JSON_Value \<times> string) option" where
  "finish_array vs s =
     (case skip_ws s of
        c # r \<Rightarrow> if c = CHR '']'' then Some (JSONArray vs, r) else None
      | [] \<Rightarrow> None)"

text \<open>
  The parser proper. \<open>parse_value\<close> takes, in place of the nesting level of the source,
  the number of levels left below \<open>MAX_NESTING\<close>: the source refuses a value at level
  \<open>nesting > MAX_NESTING\<close>, the model at no level left. \<open>parse_members\<close> and
  \<open>parse_items\<close> are the loops of \<open>parse_object_value\<close> and \<open>parse_array_value\<close> over
  the parser \<open>pv\<close> of the level below, with what was read so far as their accumulator; their
  counter starts above the length of the text, and every further iteration follows
  a comma that was consumed, so it is never met.
\<close>

primrec parse_members ::
  "(string \<Rightarrow> (JSON_Value \<times> string) option) \<Rightarrow> nat \<Rightarrow> JSON_Object \<Rightarrow> string \<Rightarrow>
   (JSON_Value \<times> string) option" where
  "parse_members pv 0 kvs s = None"
| "parse_members pv (Suc n) kvs s =
     (if s = [] then finish_object kvs s
      else case get_quoted_string s of
        None \<Rightarrow> None
      | Some (key, s1) \<Rightarrow>
          if NUL \<in> set key then None
          else (case skip_ws s1 of
             [] \<Rightarrow> None
           | c # s2 \<Rightarrow>
               if c \<noteq> CHR '':'' then None
               else (case pv s2 of
                  None \<Rightarrow> None
                | Some (v, s3) \<Rightarrow>
                    (case json_object_add kvs key v of
                       None \<Rightarrow> None
                     | Some kvs' \<Rightarrow>
                         (case skip_ws s3 of
                            [] \<Rightarrow> finish_object kvs' []
                          | d # s4 \<Rightarrow>
                              if d = CHR '','' then parse_members pv n kvs' (skip_ws s4)
                              else finish_object kvs' (d # s4))))))"

definition parse_object_value ::
  "(string \<Rightarrow> (JSON_Value \<times> string) option) \<Rightarrow> string \<Rightarrow> (JSON_Value \<times> string) option" where
  "parse_object_value pv s =
     (case skip_ws (tl s) of
        [] \<Rightarrow> None
      | c # t \<Rightarrow> if c = CHR ''}'' then Some (JSONObject [], t)
                  else parse_members pv (length s + 1) [] (c # t))"

primrec parse_items ::
  "(string \<Rightarrow> (JSON_Value \<times> string) option) \<Rightarrow> nat \<Rightarrow> JSON_Array \<Rightarrow> string \<Rightarrow>
   (JSON_Value \<times> string) option" where
  "parse_items pv 0 vs s = None"
| "parse_items pv (Suc n) vs s =
     (if s = [] then finish_array vs s
      else case pv s of
        None \<Rightarrow> None
      | Some (v, s3) \<Rightarrow>
          (case skip_ws s3 of
             [] \<Rightarrow> finish_array (vs @ [v]) []
           | d # s4 \<Rightarrow>
               if d = CHR '','' then parse_items pv n (vs @ [v]) (skip_ws s4)
               else finish_array (vs @ [v]) (d # s4)))"

definition parse_array_value ::
  "(string \<Rightarrow> (JSON_Value \<times> string) option) \<Rightarrow> string \<Rightarrow> (JSON_Value \<times> string) option" where
  "parse_array_value pv s =
     (case skip_ws (tl s) of
        [] \<Rightarrow> None
      | c # t \<Rightarrow> if c = CHR '']'' then Some (JSONArray [], t)
                  else parse_items pv (length s + 1) [] (c # t))"

primrec parse_value :: "nat \<Rightarrow> string \<Rightarrow> (JSON_Value \<times> string) option" where
  "parse_value 0 s = None"
| "parse_value (Suc levels) s =
     (case skip_ws s of
        [] \<Rightarrow> None
      | c # t \<Rightarrow>
          if c = CHR ''{'' then parse_object_value (parse_value levels) (c # t)
          else if c = CHR ''['' then parse_array_value (parse_value levels) (c # t)
          else if c = CHR 0x22 then parse_string_value (c # t)
          else if c = CHR ''f'' \<or> c = CHR ''t'' then parse_boolean_value (c # t)
          else if c = CHR ''-'' \<or> isdigit c then parse_number_value (c # t)
          else if c = CHR ''n'' then parse_null_value (c # t)
          else None)"

definition BOM :: string where "BOM = [CHR 0xEF, CHR 0xBB, CHR 0xBF]"

definition json_parse_string :: "cstr \<Rightarrow> JSON_Value option" where
  "json_parse_string text =
     (case text of
        None \<Rightarrow> None
      | Some bytes \<Rightarrow>
          let s = c_string bytes;
              s' = (if prefix BOM s then drop 3 s else s)
          in map_option fst (parse_value (MAX_NESTING + 1) s'))"

subsection \<open>The serialiser\<close>

definition hex_digit :: "nat \<Rightarrow> char" where
  "hex_digit d = (if d < 10 then char_of (48 + d) else char_of (87 + d))"

definition escape_char :: "char \<Rightarrow> string" where
  "escape_char c =
     (if c = CHR 0x22 then [CHR 0x5C, CHR 0x22]
      else if c = CHR 0x5C then [CHR 0x5C, CHR 0x5C]
      else if c = CHR 0x08 then [CHR 0x5C, CHR ''b'']
      else if c = CHR 0x0C then [CHR 0x5C, CHR ''f'']
      else if c = CHR 0x0A then [CHR 0x5C, CHR ''n'']
      else if c = CHR 0x0D then [CHR 0x5C, CHR ''r'']
      else if c = CHR 0x09 then [CHR 0x5C, CHR ''t'']
      else if (of_char c :: nat) < 0x20 then
        [CHR 0x5C, CHR ''u'', CHR ''0'', CHR ''0'',
         hex_digit (of_char c div 16), hex_digit (of_char c mod 16)]
      else if c = CHR ''/'' then [CHR 0x5C, CHR ''/'']
      else [c])"

definition json_serialize_string :: "string \<Rightarrow> string" where
  "json_serialize_string bs = CHR 0x22 # concat (map escape_char bs) @ [CHR 0x22]"

definition append_indent :: "bool \<Rightarrow> nat \<Rightarrow> string" where
  "append_indent is_pretty level = (if is_pretty then replicate (4 * level) (CHR '' '') else [])"

definition newline :: "bool \<Rightarrow> string" where
  "newline is_pretty = (if is_pretty then [CHR 0x0A] else [])"

text \<open>
  \<open>json_serialize_to_buffer_r\<close>, as the text it writes. The source fetches each value of
  an object by its name; names are distinct, since \<open>json_object_add\<close> and
  \<open>json_object_set_value\<close> keep them so, and the value is the one beside the name.
\<close>

fun json_serialize_r :: "bool \<Rightarrow> nat \<Rightarrow> JSON_Value \<Rightarrow> string"
  and serialize_items :: "bool \<Rightarrow> nat \<Rightarrow> JSON_Value list \<Rightarrow> string"
  and serialize_members :: "bool \<Rightarrow> nat \<Rightarrow> (string \<times> JSON_Value) list \<Rightarrow> string"
where
  "json_serialize_r pretty level JSONNull = ''null''"
| "json_serialize_r pretty level (JSONString bs) = json_serialize_string bs"
| "json_serialize_r pretty level (JSONNumber x) = fmt_17g x"
| "json_serialize_r pretty level (JSONBoolean b) = (if b then ''true'' else ''false'')"
| "json_serialize_r pretty level (JSONArray vs) =
     (if vs = [] then ''[]''
      else ''['' @ newline pretty @ serialize_items pretty level vs @
           append_indent pretty level @ '']'')"
| "json_serialize_r pretty level (JSONObject kvs) =
     (if kvs = [] then ''{}''
      else ''{'' @ newline pretty @ serialize_members pretty level kvs @
           append_indent pretty level @ ''}'')"
| "serialize_items pretty level [] = []"
| "serialize_items pretty level (v # vs) =
     append_indent pretty (level + 1) @ json_serialize_r pretty (level + 1) v @
     (if vs = [] then [] else '','') @ newline pretty @ serialize_items pretty level vs"
| "serialize_members pretty level [] = []"
| "serialize_members pretty level ((k, v) # kvs) =
     append_indent pretty (level + 1) @ json_serialize_string (c_string k) @ '':'' @
     (if pretty then '' '' else []) @ json_serialize_r pretty (level + 1) v @
     (if kvs = [] then [] else '','') @ newline pretty @ serialize_members pretty level kvs"

definition json_serialize_to_string :: "JSON_Value option \<Rightarrow> cstr" where
  "json_serialize_to_string v = map_option (json_serialize_r False 0) v"

definition json_serialize_to_string_pretty :: "JSON_Value option \<Rightarrow> cstr" where
  "json_serialize_to_string_pretty v = map_option (json_serialize_r True 0) v"

subsection \<open>Objects as keyed stores\<close>

lemma map_of_json_object_set_value:
  "map_of (json_object_set_value kvs k v) = (map_of kvs)(k \<mapsto> v)"
  by (induction kvs k v rule: json_object_set_value.induct) (auto simp: fun_eq_iff)

lemma fst_json_object_set_value:
  "fst ` set (json_object_set_value kvs k v) = insert k (fst ` set kvs)"
  by (induction kvs k v rule: json_object_set_value.induct) auto

lemma distinct_json_object_set_value:
  "distinct (map fst kvs) \<Longrightarrow> distinct (map fst (json_object_set_value kvs k v))"
proof (induction kvs k v rule: json_object_set_value.induct)
  case (2 k' v' kvs k v)
  then show ?case using fst_json_object_set_value [of kvs k v] by auto
qed simp

text \<open>A JSON object is such a store; its names stay distinct.\<close>

interpretation json_object: keyed_store map_of json_object_set_value "\<lambda>kvs. distinct (map fst kvs)"
  by unfold_locales (rule map_of_json_object_set_value, rule distinct_json_object_set_value)

end
