(* ===== verification/ParsonText.thy ===== *)
theory ParsonText
  imports Parson
begin

text \<open>
  Text round trips of the JSON library, bottom up: strings (escaping and its inverse),
  integer-valued numbers (\<open>%1.17g\<close> and \<open>strtod\<close>), and whole values, compact or
  pretty-printed.
\<close>

subsection \<open>Strings\<close>

lemma hex_char_to_int_hex_digit [simp]:
  "d < 16 \<Longrightarrow> hex_char_to_int (hex_digit d) = int d"
  by (auto simp: hex_char_to_int_def hex_digit_def Let_def)

lemma hex_char_to_int_0 [simp]: "hex_char_to_int (CHR ''0'') = 0"
  by (simp add: hex_char_to_int_def)

lemma parse_utf16_control:
  assumes "(of_char c :: nat) < 32"
  shows "parse_utf16 (CHR ''0'' # CHR ''0'' # hex_digit (of_char c div 16) #
           hex_digit (of_char c mod 16) # s) = Some ([c], s)"
proof -
  let ?n = "of_char c :: nat"
  have "?n div 16 < 16" "?n mod 16 < 16" using assms by simp_all
  then have "parse_utf16_hex (CHR ''0'' # CHR ''0'' # hex_digit (?n div 16) #
      hex_digit (?n mod 16) # s) = Some (?n, s)"
    by (simp add: Let_def nat_add_distrib)
      (metis add.commute div_mult_mod_eq nat_int of_nat_add of_nat_mult of_nat_numeral mult.commute)
  then show ?thesis using assms by (simp add: parse_utf16_def utf8_bytes_def)
qed

lemma control_ne: "(of_char c :: nat) < 32 \<Longrightarrow> c \<noteq> CHR 0x22 \<and> c \<noteq> CHR 0x5C"
  by auto

lemma escape_char_control:
  assumes "(of_char c :: nat) < 32" and "c \<notin> {CHR 0x08, CHR 0x0C, CHR 0x0A, CHR 0x0D, CHR 0x09}"
  shows "escape_char c = [CHR 0x5C, CHR ''u'', CHR ''0'', CHR ''0'',
      hex_digit (of_char c div 16), hex_digit (of_char c mod 16)]"
proof -
  have "c \<noteq> CHR 0x08" "c \<noteq> CHR 0x0C" "c \<noteq> CHR 0x0A" "c \<noteq> CHR 0x0D" "c \<noteq> CHR 0x09"
    using assms(2) by blast+
  then show ?thesis
    unfolding escape_char_def using control_ne [OF assms(1)] assms(1) by presburger
qed

lemma process_string_escape:
  "process_string (escape_char c @ s) = map_option ((#) c) (process_string s)"
proof (cases "(of_char c :: nat) < 32 \<and> c \<notin> {CHR 0x08, CHR 0x0C, CHR 0x0A, CHR 0x0D, CHR 0x09}")
  case True
  then have "escape_char c = [CHR 0x5C, CHR ''u'', CHR ''0'', CHR ''0'',
      hex_digit (of_char c div 16), hex_digit (of_char c mod 16)]"
    by (intro escape_char_control) blast+
  moreover have "parse_utf16 (CHR ''0'' # CHR ''0'' # hex_digit (of_char c div 16) #
      hex_digit (of_char c mod 16) # s) = Some ([c], s)"
    using True by (intro parse_utf16_control) blast
  ultimately show ?thesis by (cases "process_string s") simp_all
next
  case False
  then show ?thesis by (auto simp: escape_char_def unescape_def)
qed

lemma process_string_escaped: "process_string (concat (map escape_char bs)) = Some bs"
  by (induction bs) (simp_all add: process_string_escape del: process_string.simps(2))

lemma hex_digit_plain: "d < 16 \<Longrightarrow> hex_digit d \<noteq> CHR 0x22 \<and> hex_digit d \<noteq> CHR 0x5C"
proof -
  assume "d < 16"
  then have "hex_char_to_int (hex_digit d) \<noteq> - 1" by simp
  then show ?thesis by (auto simp: hex_char_to_int_def)
qed

lemma skip_quoted_escape:
  "skip_quoted (escape_char c @ s) = map_option (\<lambda>(b, r). (escape_char c @ b, r)) (skip_quoted s)"
proof (cases "(of_char c :: nat) < 32 \<and> c \<notin> {CHR 0x08, CHR 0x0C, CHR 0x0A, CHR 0x0D, CHR 0x09}")
  case True
  then have e: "escape_char c = [CHR 0x5C, CHR ''u'', CHR ''0'', CHR ''0'',
      hex_digit (of_char c div 16), hex_digit (of_char c mod 16)]"
    by (intro escape_char_control) blast+
  have "(of_char c :: nat) div 16 < 16" "(of_char c :: nat) mod 16 < 16"
    using True by (simp_all add: less_mult_imp_div_less)
  then have "hex_digit (of_char c div 16) \<noteq> CHR 0x22" "hex_digit (of_char c div 16) \<noteq> CHR 0x5C"
    "hex_digit (of_char c mod 16) \<noteq> CHR 0x22" "hex_digit (of_char c mod 16) \<noteq> CHR 0x5C"
    by (blast dest: hex_digit_plain)+
  then show ?thesis
    unfolding e by (cases "skip_quoted s") (simp_all add: split_beta)
next
  case False
  then show ?thesis by (cases "skip_quoted s") (auto simp: escape_char_def)
qed

lemma skip_quoted_escaped:
  "skip_quoted (concat (map escape_char bs) @ CHR 0x22 # r) = Some (concat (map escape_char bs), r)"
  by (induction bs) (simp_all add: skip_quoted_escape)

lemma get_quoted_string_serialized [simp]:
  "get_quoted_string (json_serialize_string bs @ r) = Some (bs, r)"
  using skip_quoted_escaped [of bs r] process_string_escaped [of bs]
  by (simp add: get_quoted_string_def skip_quotes_def json_serialize_string_def)

text \<open>A string without quotes, backslashes and control characters is its own escaped form.\<close>

definition plain_char :: "char \<Rightarrow> bool" where
  "plain_char c \<longleftrightarrow> c \<noteq> CHR 0x22 \<and> c \<noteq> CHR 0x5C \<and> 32 \<le> (of_char c :: nat)"

lemma process_string_plain: "\<forall>c \<in> set s. plain_char c \<Longrightarrow> process_string s = Some s"
  by (induction s) (auto simp: plain_char_def)

lemma skip_quoted_plain:
  "\<forall>c \<in> set s. plain_char c \<Longrightarrow> skip_quoted (s @ CHR 0x22 # r) = Some (s, r)"
  by (induction s) (auto simp: plain_char_def)

lemma get_quoted_string_plain:
  "\<forall>c \<in> set s. plain_char c \<Longrightarrow> get_quoted_string (CHR 0x22 # s @ CHR 0x22 # r) = Some (s, r)"
  by (simp add: get_quoted_string_def skip_quotes_def skip_quoted_plain process_string_plain)

subsection \<open>Integer-valued numbers\<close>

lemma round_half_even_of_int [simp]: "round_half_even (of_int z) = z"
  by (simp add: round_half_even_def)

lemma floorlog_pos: "0 < k \<Longrightarrow> 1 < b \<Longrightarrow> 0 < floorlog b k"
  by (simp add: floorlog_def)

lemma lead_exp_nat:
  assumes "0 < k" and "1 < b"
  shows "lead_exp b (of_nat k) = int (floorlog b k) - 1" (is "_ = ?d")
proof -
  have q: "quotient_of (of_nat k :: rat) = (int k, 1)"
    using quotient_of_int [of "int k"] by simp
  have one: "floorlog b 1 = 1"
    using floorlog_power [of 1 b 0] assms by (simp add: floorlog_def)
  have d: "?d = int (floorlog b k - 1)" using floorlog_pos [OF assms] by simp
  have le: "b ^ (floorlog b k - 1) \<le> k" using floorlog_bounds [of k b] assms by simp
  have "of_nat b powi ?d = (of_nat (b ^ (floorlog b k - 1)) :: rat)"
    unfolding d by (simp only: power_int_of_nat of_nat_power)
  then have "of_nat b powi ?d \<le> (of_nat k :: rat)" using le by (simp only: of_nat_le_iff)
  then show ?thesis using q one by (simp add: lead_exp_def Let_def)
qed

lemma scaled_int:
  assumes "e \<le> (p :: int)" and "(b :: rat) \<noteq> 0"
  shows "of_nat k / b powi (e - p) = of_nat k * b ^ nat (p - e)"
proof -
  have "b powi (e - p) = inverse (b ^ nat (p - e))"
    using assms by (simp add: power_int_def power_inverse)
  then show ?thesis by (simp add: field_simps)
qed

lemma round53_nat:
  assumes "k < 2 ^ 53"
  shows "round53 (of_nat k) = of_nat k"
proof (cases "k = 0")
  case False
  let ?e = "int (floorlog 2 k) - 1"
  have e: "lead_exp 2 (of_nat k) = ?e" using False by (intro lead_exp_nat) simp_all
  have "floorlog 2 k \<le> 53" using assms by (intro floorlog_leI) simp_all
  then have le: "?e \<le> 52" by simp
  have sc: "(of_nat k :: rat) / 2 powi (?e - 52) = of_nat k * 2 ^ nat (52 - ?e)"
    by (rule scaled_int [OF le]) simp
  have r: "round_half_even (of_nat k * 2 ^ nat (52 - ?e)) = int k * 2 ^ nat (52 - ?e)"
    using round_half_even_of_int [of "int k * 2 ^ nat (52 - ?e)"] by simp
  have "(2 :: rat) ^ nat (52 - ?e) * 2 powi (?e - 52) = 1"
    using le by (simp add: power_int_def power_mult_distrib [symmetric])
  then have "(of_nat k :: rat) * 2 ^ nat (52 - ?e) * 2 powi (?e - 52) = of_nat k"
    by (simp add: mult.assoc)
  moreover have "sgn (of_nat k :: rat) = 1" using False by simp
  ultimately show ?thesis using False e sc r by (simp add: round53_def Let_def)
qed (simp add: round53_def)

lemma round53_minus: "round53 (- x) = - round53 x"
  by (simp add: round53_def Let_def sgn_minus)

lemma fmt_17g_nat:
  assumes "0 < k" and "k < 10 ^ 17" and x: "\<bar>x\<bar> = (of_nat k :: rat)"
  shows "fmt_17g x = (if x < 0 then ''-'' else []) @ dec k"
proof -
  let ?e = "int (floorlog 10 k) - 1"
  have e: "lead_exp 10 (of_nat k) = ?e" using assms by (intro lead_exp_nat) simp_all
  have "floorlog 10 k \<le> 17" using assms by (intro floorlog_leI) simp_all
  then have le: "?e \<le> 16" by simp
  have pos: "0 < floorlog 10 k" using assms by (intro floorlog_pos) simp_all
  let ?w = "nat (16 - ?e)"
  have sc: "(of_nat k :: rat) / 10 powi (?e - 16) = of_nat k * 10 ^ ?w"
    by (rule scaled_int [OF le]) simp
  have r: "round_half_even (of_nat k * 10 ^ ?w) = int (k * 10 ^ ?w)"
    using round_half_even_of_int [of "int k * 10 ^ ?w"] by simp
  have w: "floorlog 10 k + ?w = 17" using le pos by simp
  have "k < 10 ^ floorlog 10 k" using floorlog_bounds [of k 10] assms by simp
  then have "k * 10 ^ ?w < 10 ^ floorlog 10 k * 10 ^ ?w" by simp
  then have lt: "k * 10 ^ ?w < 10 ^ 17" using w by (simp only: power_add [symmetric])
  have "x \<noteq> 0" using x assms(1) by auto
  moreover have "- 4 \<le> ?e" "?e < 17" using le pos by simp_all
  ultimately show ?thesis
    using e sc r lt x by (simp add: fmt_17g_def Let_def frac_part_def del: of_nat_mult)
qed

text \<open>What may follow a number in a serialised value.\<close>

definition num_stop :: "string \<Rightarrow> bool" where
  "num_stop r \<longleftrightarrow> (case r of [] \<Rightarrow> True | c # _ \<Rightarrow>
     c = CHR '','' \<or> c = CHR '']'' \<or> c = CHR ''}'' \<or> c = CHR 0x0A \<or> c = CHR '' '')"

lemma num_stop_Cons [simp]:
  "num_stop (CHR '','' # r)" "num_stop (CHR '']'' # r)" "num_stop (CHR ''}'' # r)"
  "num_stop (CHR 0x0A # r)" "num_stop (CHR '' '' # r)" "num_stop []"
  by (simp_all add: num_stop_def)

lemma num_stop_hd:
  assumes "num_stop (c # r)"
  shows "\<not> isdigit c" "c \<noteq> CHR ''.''" "c \<noteq> CHR ''e''" "c \<noteq> CHR ''E''" "c \<noteq> CHR ''x''" "c \<noteq> CHR ''X''"
  using assms by (auto simp: num_stop_def isdigit_def)

lemma span_dec:
  assumes "num_stop r"
  shows "takeWhile isdigit (dec k @ r) = dec k" "dropWhile isdigit (dec k @ r) = r"
proof -
  have all: "\<forall>c \<in> set (dec k). isdigit c" using dec_digits by blast
  have stop: "takeWhile isdigit r = []" "dropWhile isdigit r = r"
    using num_stop_hd(1) assms by (cases r; simp)+
  show "takeWhile isdigit (dec k @ r) = dec k" using all stop by (simp add: takeWhile_append2)
  show "dropWhile isdigit (dec k @ r) = r" using all stop by (simp add: dropWhile_append2)
qed

lemma strtod_mantissa_dec:
  "num_stop r \<Longrightarrow> strtod_mantissa (dec k @ r) = (dec k, [], dec k, r)"
  unfolding strtod_mantissa_def Let_def span_dec
  by (cases r) (simp_all add: num_stop_hd)

lemma strtod_exponent_stop: "num_stop r \<Longrightarrow> strtod_exponent r = (0, [], r)"
  by (cases r) (auto simp: strtod_exponent_def num_stop_hd)

lemma dec_0 [simp]: "dec 0 = ''0''"
proof -
  have "char_of (of_char (CHR ''0'') :: nat) = CHR ''0''" by (rule char_of_char)
  then show ?thesis by (simp add: dec.simps digit_char_def)
qed

lemma strtod_not_hex:
  assumes "num_stop r"
  shows "\<not> strtod_is_hex (dec k @ r)"
proof (cases "k = 0")
  case True
  then show ?thesis
    using assms num_stop_hd(5,6) by (cases r) (auto simp: strtod_is_hex_def split: list.splits)
next
  case False
  then have "hd (dec k) \<noteq> CHR ''0''" by (simp add: dec_hd_nonzero)
  then show ?thesis
    by (cases "dec k") (auto simp: strtod_is_hex_def split: list.splits)
qed

lemma isdigit_tolower: "isdigit c \<Longrightarrow> tolower c = c"
  by (simp add: tolower_def isdigit_def isupper_def)

lemma strtod_finite:
  "map tolower (take 3 (dec k @ r)) \<noteq> ''inf'' \<and> map tolower (take 3 (dec k @ r)) \<noteq> ''nan''"
proof -
  obtain c t where ct: "dec k = c # t" by (cases "dec k") simp_all
  have "isdigit c" using dec_hd_digit [of k] ct by simp
  then have "tolower c = c" "c \<noteq> CHR ''i''" "c \<noteq> CHR ''n''"
    by (auto simp: isdigit_tolower isdigit_def)
  then show ?thesis using ct by simp
qed

lemma dec_hd_not_minus: "dec k @ r = c # t \<Longrightarrow> c \<noteq> CHR ''-''"
  using dec_hd_digit [of k] isdigit_not_sign by (cases "dec k") auto

lemma strtod_dec:
  assumes "num_stop r"
  shows "strtod (dec k @ r) = Decimal (of_nat k) (dec k) r"
proof -
  have "(case dec k @ r of c # _ \<Rightarrow> c = CHR ''-'' | [] \<Rightarrow> False) = False"
    using dec_hd_not_minus [of k r] by (cases "dec k @ r") simp_all
  then show ?thesis
    using strtod_not_hex [OF assms, of k] strtod_finite [of k r]
    by (simp add: strtod_def Let_def strtod_mantissa_dec strtod_exponent_stop assms)
qed

lemma strtod_neg_dec:
  "num_stop r \<Longrightarrow> strtod (CHR ''-'' # dec k @ r) = Decimal (- of_nat k) (CHR ''-'' # dec k) r"
  using strtod_not_hex [of r k] strtod_finite [of k r]
  by (simp add: strtod_def Let_def strtod_mantissa_dec strtod_exponent_stop)

lemma is_decimal_dec: "is_decimal (dec k)" "0 < k \<Longrightarrow> is_decimal (CHR ''-'' # dec k)"
proof -
  have nox: "CHR ''x'' \<notin> set (dec k)" "CHR ''X'' \<notin> set (dec k)"
    using dec_digits [of "CHR ''x''" k] dec_digits [of "CHR ''X''" k] by (auto simp: isdigit_def)
  have hd: "dec k ! 0 = hd (dec k)" by (cases "dec k") simp_all
  have nz: "hd (dec k) \<noteq> CHR ''0'' \<or> k = 0" using dec_hd_nonzero by blast
  have minus: "dec k ! 0 \<noteq> CHR ''-''" using dec_hd_digit [of k] isdigit_not_sign hd by metis
  show "is_decimal (dec k)"
    using nox nz hd minus by (auto simp: is_decimal_def prefix_def)
  show "is_decimal (CHR ''-'' # dec k)" if "0 < k"
    using nox nz hd that by (auto simp: is_decimal_def prefix_def)
qed

lemma of_nat_small: "k < 2 ^ 53 \<Longrightarrow> (of_nat k :: rat) < 2 ^ 1024"
proof -
  assume "k < 2 ^ 53"
  then have "k < 2 ^ 1024" by (rule less_trans) (rule power_strict_increasing, simp_all)
  then have "(of_nat k :: rat) < of_nat (2 ^ 1024)" by (simp only: of_nat_less_iff)
  then show ?thesis by (simp only: of_nat_power of_nat_numeral)
qed

lemma of_nat_normal: "\<not> ((of_nat k :: rat) \<noteq> 0 \<and> of_nat k < (2 :: rat) powi (- 1022))"
proof -
  define c :: rat where "c = 2 powi (- 1022)"
  have "(inverse 2 :: rat) ^ 1022 \<le> 1" by (intro power_le_one) simp_all
  then have "c \<le> 1" unfolding c_def by (simp only: power_int_minus power_int_numeral power_inverse)
  moreover have "(of_nat k :: rat) = 0 \<or> 1 \<le> (of_nat k :: rat)" by (cases k) simp_all
  ultimately have "\<not> ((of_nat k :: rat) \<noteq> 0 \<and> of_nat k < c)" by linarith
  then show ?thesis by (simp only: c_def not_False_eq_True)
qed

lemma parse_number_value_dec:
  assumes "k < 2 ^ 53" and "num_stop r"
  shows "parse_number_value (dec k @ r) = Some (JSONNumber (of_nat k), r)"
    and "0 < k \<Longrightarrow> parse_number_value (CHR ''-'' # dec k @ r) = Some (JSONNumber (- of_nat k), r)"
proof -
  have rng: "\<not> 2 ^ 1024 \<le> (of_nat k :: rat)" using of_nat_small [OF assms(1)] by (simp only: not_le)
  note nrm = of_nat_normal [of k]
  show "parse_number_value (dec k @ r) = Some (JSONNumber (of_nat k), r)"
    using rng nrm is_decimal_dec(1) [of k] by (simp add: parse_number_value_def strtod_dec assms Let_def round53_nat
        del: power_numeral)
  show "parse_number_value (CHR ''-'' # dec k @ r) = Some (JSONNumber (- of_nat k), r)" if "0 < k"
    using rng nrm is_decimal_dec(2) [OF that]
    by (simp add: parse_number_value_def strtod_neg_dec assms Let_def round53_nat round53_minus
        del: power_numeral)
qed

text \<open>The numbers whose text form is exact: integers below \<open>2 ^ 53\<close> in magnitude.\<close>

definition exact_number :: "rat \<Rightarrow> bool" where
  "exact_number x \<longleftrightarrow> x = of_int \<lfloor>x\<rfloor> \<and> \<bar>\<lfloor>x\<rfloor>\<bar> < 2 ^ 53"

lemma exact_number_cases:
  assumes "exact_number x"
  obtains k where "x = of_nat k" "k < 2 ^ 53" "fmt_17g x = dec k"
    | k where "x = - of_nat k" "0 < k" "k < 2 ^ 53" "fmt_17g x = CHR ''-'' # dec k"
proof -
  define z where "z = \<lfloor>x\<rfloor>"
  have x: "x = of_int z" and z: "\<bar>z\<bar> < 2 ^ 53" using assms by (simp_all add: exact_number_def z_def)
  have k: "nat \<bar>z\<bar> < 10 ^ 17" using z by (simp add: nat_less_iff)
  have abs: "\<bar>x\<bar> = of_nat (nat \<bar>z\<bar>)" by (simp add: x)
  consider "z = 0" | "0 < z" | "z < 0" by linarith
  then show ?thesis
  proof cases
    case 1
    then show ?thesis using that(1) [of 0] x by (simp add: fmt_17g_def)
  next
    case 2
    then show ?thesis using that(1) [of "nat z"] fmt_17g_nat [OF _ k abs] x z by simp
  next
    case 3
    then show ?thesis using that(2) [of "nat (- z)"] fmt_17g_nat [OF _ k abs] x z by simp
  qed
qed

lemma parse_number_value_fmt:
  assumes "exact_number x" and "num_stop r"
  shows "parse_number_value (fmt_17g x @ r) = Some (JSONNumber x, r)"
  by (rule exact_number_cases [OF assms(1)]) (simp_all add: parse_number_value_dec assms(2))

lemma fmt_17g_hd:
  assumes "exact_number x"
  obtains c t where "fmt_17g x = c # t" "c = CHR ''-'' \<or> isdigit c"
proof (rule exact_number_cases [OF assms])
  fix k assume "fmt_17g x = dec k"
  then show thesis using that dec_hd_digit [of k] by (cases "dec k") simp_all
next
  fix k assume "fmt_17g x = CHR ''-'' # dec k"
  then show thesis using that by simp
qed

subsection \<open>Values\<close>

text \<open>
  The values that survive a trip through their text: names without the NUL byte and
  distinct within an object, exact numbers. The depth counts the nesting levels.
\<close>

fun json_ok :: "JSON_Value \<Rightarrow> bool" where
  "json_ok JSONNull = True"
| "json_ok (JSONString _) = True"
| "json_ok (JSONNumber x) = exact_number x"
| "json_ok (JSONBoolean _) = True"
| "json_ok (JSONArray vs) = (\<forall>v \<in> set vs. json_ok v)"
| "json_ok (JSONObject kvs) =
     (distinct (map fst kvs) \<and> (\<forall>kv \<in> set kvs. NUL \<notin> set (fst kv) \<and> json_ok (snd kv)))"

fun json_depth :: "JSON_Value \<Rightarrow> nat" where
  "json_depth (JSONArray vs) = Suc (fold max (map json_depth vs) 0)"
| "json_depth (JSONObject kvs) = Suc (fold max (map (\<lambda>kv. json_depth (snd kv)) kvs) 0)"
| "json_depth _ = 1"

lemma fold_max_ge_start: "(a :: nat) \<le> fold max xs a"
  by (induction xs arbitrary: a) (auto intro: order_trans [OF max.cobounded2])

lemma fold_max_ge: "x \<in> set xs \<Longrightarrow> x \<le> fold max xs (a :: nat)"
proof (induction xs arbitrary: a)
  case (Cons y xs)
  then show ?case using fold_max_ge_start [of "max x a" xs] by (cases "x = y") auto
qed simp

lemma json_depth_item: "v \<in> set vs \<Longrightarrow> json_depth (JSONArray vs) \<le> Suc d \<Longrightarrow> json_depth v \<le> d"
  using fold_max_ge [of "json_depth v" "map json_depth vs" 0] by fastforce

lemma json_depth_member:
  "kv \<in> set kvs \<Longrightarrow> json_depth (JSONObject kvs) \<le> Suc d \<Longrightarrow> json_depth (snd kv) \<le> d"
  using fold_max_ge [of "json_depth (snd kv)" "map (\<lambda>kv. json_depth (snd kv)) kvs" 0] by fastforce

lemma not_isspace_simps [simp]:
  "\<not> isspace (CHR '','')" "\<not> isspace (CHR '']'')" "\<not> isspace (CHR ''}'')"
  "\<not> isspace (CHR ''['')" "\<not> isspace (CHR ''{'')" "\<not> isspace (CHR '':'')"
  "\<not> isspace (CHR 0x22)" "isspace (CHR '' '')"
  by (simp_all add: isspace_def)

lemma skip_ws_indent [simp]:
  "skip_ws (append_indent p l @ s) = skip_ws s" "skip_ws (newline p @ s) = skip_ws s"
proof -
  have "skip_ws (replicate n (CHR '' '') @ s) = skip_ws s" for n
    by (induction n) (simp_all add: isspace_def)
  then show "skip_ws (append_indent p l @ s) = skip_ws s" by (simp add: append_indent_def)
  show "skip_ws (newline p @ s) = skip_ws s" by (simp add: newline_def isspace_def)
qed

lemma num_stop_layout [simp]:
  "num_stop (newline p @ append_indent p l @ CHR '']'' # r)"
  "num_stop (newline p @ append_indent p l @ CHR ''}'' # r)"
  by (cases p; simp add: newline_def append_indent_def)+

text \<open>A serialised value starts with a character that is not white space.\<close>

lemma serialize_hd:
  assumes "json_ok v"
  shows "json_serialize_r p l v \<noteq> [] \<and> \<not> isspace (hd (json_serialize_r p l v))"
proof (cases v)
  case (JSONNumber x)
  then obtain c t where "fmt_17g x = c # t" "c = CHR ''-'' \<or> isdigit c"
    using assms by (auto elim: fmt_17g_hd)
  then show ?thesis using JSONNumber isdigit_not_space by (auto simp: isspace_def)
qed (simp_all add: json_serialize_string_def isspace_def)

lemma serialize_hd_not_bracket:
  assumes "json_ok v"
  shows "json_serialize_r p l v \<noteq> []" and "hd (json_serialize_r p l v) \<noteq> CHR '']''"
proof -
  show "json_serialize_r p l v \<noteq> []" using serialize_hd [OF assms] by blast
  show "hd (json_serialize_r p l v) \<noteq> CHR '']''"
  proof (cases v)
    case (JSONNumber x)
    then obtain c t where "fmt_17g x = c # t" "c = CHR ''-'' \<or> isdigit c"
      using assms by (auto elim: fmt_17g_hd)
    then show ?thesis using JSONNumber by (auto simp: isdigit_def)
  qed (simp_all add: json_serialize_string_def)
qed

lemma skip_ws_serialize:
  "json_ok v \<Longrightarrow> skip_ws (json_serialize_r p l v @ s) = json_serialize_r p l v @ s"
  using serialize_hd [of v p l] by (cases "json_serialize_r p l v") simp_all

lemma skip_ws_serialize_string [simp]:
  "skip_ws (json_serialize_string k @ s) = json_serialize_string k @ s"
  by (simp add: json_serialize_string_def isspace_def)

lemma length_serialize_items:
  "\<forall>v \<in> set vs. json_ok v \<Longrightarrow> length vs \<le> length (serialize_items p l vs)"
proof (induction vs)
  case (Cons v vs)
  then show ?case using serialize_hd [of v p "l + 1"] by (cases "json_serialize_r p (l + 1) v") auto
qed simp

lemma length_serialize_members: "length kvs \<le> length (serialize_members p l kvs)"
proof (induction kvs)
  case (Cons kv kvs)
  then show ?case by (cases kv) (simp add: json_serialize_string_def)
qed simp

text \<open>
  The loops of the parser invert the loops of the serialiser, given that the level below
  inverts each element.
\<close>

lemma parse_items_serialize:
  assumes "\<And>v s. v \<in> set vs \<Longrightarrow> num_stop s \<Longrightarrow>
      pv (json_serialize_r p (l + 1) v @ s) = Some (v, s)"
    and "\<forall>v \<in> set vs. json_ok v" and "vs \<noteq> []" and "length vs \<le> n"
  shows "parse_items pv n acc (skip_ws (serialize_items p l vs @ append_indent p l @ CHR '']'' # r)) =
    Some (JSONArray (acc @ vs), r)"
  using assms
proof (induction vs arbitrary: acc n)
  case (Cons v vs)
  obtain n' where n: "n = Suc n'" using Cons.prems(4) by (cases n) auto
  define s where "s = (if vs = [] then [] else '','') @ newline p @ serialize_items p l vs @
    append_indent p l @ CHR '']'' # r"
  have start: "skip_ws (serialize_items p l (v # vs) @ append_indent p l @ CHR '']'' # r) =
      json_serialize_r p (l + 1) v @ s"
    using Cons.prems(2) by (simp add: skip_ws_serialize s_def del: Suc_eq_plus1)
  have stop: "num_stop s" by (cases "vs = []") (simp_all add: s_def)
  have ne: "json_serialize_r p (l + 1) v \<noteq> []" using Cons.prems(2) serialize_hd by simp
  have pv: "pv (json_serialize_r p (l + 1) v @ s) = Some (v, s)"
    using Cons.prems(1) stop by simp
  show ?case
  proof (cases "vs = []")
    case True
    then have "skip_ws s = CHR '']'' # r" by (simp add: s_def)
    then show ?thesis unfolding start using ne pv n True by (simp add: finish_array_def)
  next
    case False
    let ?rest = "newline p @ serialize_items p l vs @ append_indent p l @ CHR '']'' # r"
    have "skip_ws s = CHR '','' # ?rest" using False by (simp add: s_def)
    moreover have "parse_items pv n' (acc @ [v]) (skip_ws ?rest) = Some (JSONArray ((acc @ [v]) @ vs), r)"
      unfolding skip_ws_indent by (rule Cons.IH) (use Cons.prems False n in auto)
    ultimately show ?thesis unfolding start using ne pv n by simp
  qed
qed simp

lemma parse_members_serialize:
  assumes "\<And>kv s. kv \<in> set kvs \<Longrightarrow> num_stop s \<Longrightarrow>
      pv (json_serialize_r p (l + 1) (snd kv) @ s) = Some (snd kv, s)"
    and "\<And>s. pv (CHR '' '' # s) = pv s"
    and "\<forall>kv \<in> set kvs. NUL \<notin> set (fst kv)" and "distinct (map fst (acc @ kvs))"
    and "kvs \<noteq> []" and "length kvs \<le> n"
  shows "parse_members pv n acc (skip_ws (serialize_members p l kvs @ append_indent p l @ CHR ''}'' # r)) =
    Some (JSONObject (acc @ kvs), r)"
  using assms
proof (induction kvs arbitrary: acc n)
  case (Cons kv kvs)
  obtain k v where kv: "kv = (k, v)" by (cases kv)
  obtain n' where n: "n = Suc n'" using Cons.prems(6) by (cases n) auto
  define s where "s = (if kvs = [] then [] else '','') @ newline p @ serialize_members p l kvs @
    append_indent p l @ CHR ''}'' # r"
  define t where "t = CHR '':'' # (if p then '' '' else []) @ json_serialize_r p (l + 1) v @ s"
  have nul: "NUL \<notin> set k" using Cons.prems(3) kv by simp
  have start: "skip_ws (serialize_members p l (kv # kvs) @ append_indent p l @ CHR ''}'' # r) =
      json_serialize_string k @ t"
    using nul by (simp add: kv s_def t_def del: Suc_eq_plus1)
  have ne: "json_serialize_string k @ t \<noteq> []" by (simp add: t_def)
  have stop: "num_stop s" by (cases "kvs = []") (simp_all add: s_def)
  have pv: "pv ((if p then '' '' else []) @ json_serialize_r p (l + 1) v @ s) = Some (v, s)"
    using Cons.prems(1) [of kv s] Cons.prems(2) stop kv by (cases p) simp_all
  have new: "map_of acc k = None" using Cons.prems(4) kv by (auto simp: map_of_eq_None_iff)
  have colon: "skip_ws t = t" by (simp add: t_def)
  have step: "parse_members pv n acc (json_serialize_string k @ t) =
      (case skip_ws s of
         [] \<Rightarrow> finish_object (acc @ [(k, v)]) []
       | d # s4 \<Rightarrow> if d = CHR '','' then parse_members pv n' (acc @ [(k, v)]) (skip_ws s4)
                  else finish_object (acc @ [(k, v)]) (d # s4))"
    using ne nul pv new n colon by (simp add: t_def json_object_add_def)
  show ?case
  proof (cases "kvs = []")
    case True
    then have "skip_ws s = CHR ''}'' # r" by (simp add: s_def)
    then show ?thesis unfolding start step using True kv by (simp add: finish_object_def)
  next
    case False
    let ?rest = "newline p @ serialize_members p l kvs @ append_indent p l @ CHR ''}'' # r"
    have "skip_ws s = CHR '','' # ?rest" using False by (simp add: s_def)
    moreover have "parse_members pv n' (acc @ [(k, v)]) (skip_ws ?rest) =
        Some (JSONObject ((acc @ [(k, v)]) @ kvs), r)"
      unfolding skip_ws_indent by (rule Cons.IH) (use Cons.prems False n kv in auto)
    ultimately show ?thesis unfolding start step using kv by simp
  qed
qed simp

lemma parse_value_space [simp]: "parse_value d (CHR '' '' # s) = parse_value d s"
  by (cases d) simp_all

lemma parse_array_value_serialize:
  assumes "\<And>v s. v \<in> set vs \<Longrightarrow> num_stop s \<Longrightarrow>
      pv (json_serialize_r p (l + 1) v @ s) = Some (v, s)"
    and "\<forall>v \<in> set vs. json_ok v"
  shows "parse_array_value pv (json_serialize_r p l (JSONArray vs) @ s) = Some (JSONArray vs, s)"
proof (cases "vs = []")
  case True
  then show ?thesis by (simp add: parse_array_value_def)
next
  case False
  let ?t = "serialize_items p l vs @ append_indent p l @ CHR '']'' # s"
  let ?n = "Suc (length (json_serialize_r p l (JSONArray vs) @ s))"
  obtain v vs' where vs: "vs = v # vs'" using False by (cases vs) auto
  have "skip_ws ?t \<noteq> []" "hd (skip_ws ?t) \<noteq> CHR '']''"
    using serialize_hd_not_bracket [of v p "l + 1"] assms(2) vs by (simp_all add: skip_ws_serialize)
  then obtain c t where ct: "skip_ws ?t = c # t" "c \<noteq> CHR '']''" by (cases "skip_ws ?t") auto
  have "parse_items pv ?n [] (skip_ws ?t) = Some (JSONArray ([] @ vs), s)"
    using assms False length_serialize_items [of vs p l]
    by (intro parse_items_serialize) (auto simp: trans_le_add1)
  then show ?thesis using False ct by (simp add: parse_array_value_def)
qed

lemma parse_object_value_serialize:
  assumes "\<And>kv s. kv \<in> set kvs \<Longrightarrow> num_stop s \<Longrightarrow>
      pv (json_serialize_r p (l + 1) (snd kv) @ s) = Some (snd kv, s)"
    and "\<And>s. pv (CHR '' '' # s) = pv s"
    and "\<forall>kv \<in> set kvs. NUL \<notin> set (fst kv)" and "distinct (map fst kvs)"
  shows "parse_object_value pv (json_serialize_r p l (JSONObject kvs) @ s) = Some (JSONObject kvs, s)"
proof (cases "kvs = []")
  case True
  then show ?thesis by (simp add: parse_object_value_def)
next
  case False
  let ?t = "serialize_members p l kvs @ append_indent p l @ CHR ''}'' # s"
  let ?n = "Suc (length (json_serialize_r p l (JSONObject kvs) @ s))"
  obtain k v kvs' where kvs: "kvs = (k, v) # kvs'" using False by (cases kvs) auto
  have "skip_ws ?t \<noteq> []" "hd (skip_ws ?t) \<noteq> CHR ''}''"
    by (simp_all add: kvs, simp_all add: json_serialize_string_def)
  then obtain c t where ct: "skip_ws ?t = c # t" "c \<noteq> CHR ''}''" by (cases "skip_ws ?t") auto
  have "parse_members pv ?n [] (skip_ws ?t) = Some (JSONObject ([] @ kvs), s)"
    using assms False length_serialize_members [of kvs p l]
    by (intro parse_members_serialize) (auto simp: trans_le_add1)
  then show ?thesis using False ct by (simp add: parse_object_value_def)
qed

theorem parse_value_serialize:
  assumes "json_ok v" and "json_depth v \<le> d" and "num_stop s"
  shows "parse_value d (json_serialize_r p l v @ s) = Some (v, s)"
  using assms
proof (induction v arbitrary: d l s)
  case JSONNull
  then show ?case by (cases d) (simp_all add: parse_null_value_def isspace_def isdigit_def)
next
  case (JSONString bs)
  then show ?case using get_quoted_string_serialized [of bs s]
    by (cases d) (simp_all add: parse_string_value_def json_serialize_string_def)
next
  case (JSONNumber x)
  obtain d' where d: "d = Suc d'" using JSONNumber.prems(2) by (cases d) simp_all
  obtain c t where ct: "fmt_17g x = c # t" "c = CHR ''-'' \<or> isdigit c"
    using JSONNumber.prems(1) by (auto elim: fmt_17g_hd)
  then have "\<not> isspace c" "c \<notin> {CHR ''{'', CHR ''['', CHR 0x22, CHR ''f'', CHR ''t''}"
    using isdigit_not_space by (auto simp: isspace_def isdigit_def)
  then show ?case
    using d ct parse_number_value_fmt [of x s] JSONNumber.prems by simp
next
  case (JSONBoolean b)
  then show ?case by (cases d) (simp_all add: parse_boolean_value_def isspace_def)
next
  case (JSONArray vs)
  then obtain d' where d: "d = Suc d'" by (cases d) auto
  have "parse_value d' (json_serialize_r p (l + 1) v @ r) = Some (v, r)"
    if "v \<in> set vs" "num_stop r" for v r
    using that JSONArray.IH [of v d' r "l + 1"] JSONArray.prems json_depth_item [of v vs d'] d by simp
  then have "parse_array_value (parse_value d') (json_serialize_r p l (JSONArray vs) @ s) =
      Some (JSONArray vs, s)"
    using JSONArray.prems by (intro parse_array_value_serialize) auto
  then show ?case using d by (cases "vs = []") simp_all
next
  case (JSONObject kvs)
  then obtain d' where d: "d = Suc d'" by (cases d) auto
  have "parse_value d' (json_serialize_r p (l + 1) (snd kv) @ r) = Some (snd kv, r)"
    if "kv \<in> set kvs" "num_stop r" for kv r
    using that JSONObject.IH [of kv "snd kv" d' r "l + 1"] JSONObject.prems
      json_depth_member [of kv kvs d'] d by (simp add: snds.simps)
  then have "parse_object_value (parse_value d') (json_serialize_r p l (JSONObject kvs) @ s) =
      Some (JSONObject kvs, s)"
    using JSONObject.prems by (intro parse_object_value_serialize) auto
  then show ?case using d by (cases "kvs = []") simp_all
qed

subsection \<open>The public functions\<close>

lemma escape_char_no_nul: "NUL \<notin> set (escape_char c)"
proof (cases "(of_char c :: nat) < 32 \<and> c \<notin> {CHR 0x08, CHR 0x0C, CHR 0x0A, CHR 0x0D, CHR 0x09}")
  case True
  then have e: "escape_char c = [CHR 0x5C, CHR ''u'', CHR ''0'', CHR ''0'',
      hex_digit (of_char c div 16), hex_digit (of_char c mod 16)]"
    by (intro escape_char_control) blast+
  have "(of_char c :: nat) div 16 < 16" "(of_char c :: nat) mod 16 < 16"
    using True by (simp_all add: less_mult_imp_div_less)
  moreover have "NUL \<noteq> hex_digit d" if "d < 16" for d
  proof
    assume "NUL = hex_digit d"
    then have "hex_char_to_int NUL = int d" using hex_char_to_int_hex_digit [OF that] by simp
    then show False by (simp add: hex_char_to_int_def NUL_def)
  qed
  ultimately have "NUL \<noteq> hex_digit (of_char c div 16)" "NUL \<noteq> hex_digit (of_char c mod 16)"
    by blast+
  then show ?thesis unfolding e by (simp add: NUL_def)
next
  case False
  then consider "c \<in> {CHR 0x08, CHR 0x0C, CHR 0x0A, CHR 0x0D, CHR 0x09}" | "32 \<le> (of_char c :: nat)"
    by linarith
  then show ?thesis
  proof cases
    case 1
    then show ?thesis by (auto simp: escape_char_def NUL_def)
  next
    case 2
    then have "c \<noteq> NUL" by (auto simp: NUL_def)
    with 2 show ?thesis by (simp add: escape_char_def) (simp add: NUL_def)
  qed
qed

lemma serialize_string_no_nul: "NUL \<notin> set (json_serialize_string bs)"
  using escape_char_no_nul by (auto simp: json_serialize_string_def NUL_def)

lemma dec_no_nul: "NUL \<notin> set (dec k)"
  using dec_digits [of NUL k] by (auto simp: isdigit_def NUL_def)

lemma layout_no_nul [simp]: "NUL \<notin> set (append_indent p l)" "NUL \<notin> set (newline p)"
  by (auto simp: append_indent_def newline_def NUL_def)

lemma serialize_items_no_nul:
  "(\<And>v. v \<in> set vs \<Longrightarrow> NUL \<notin> set (json_serialize_r p (l + 1) v)) \<Longrightarrow>
   NUL \<notin> set (serialize_items p l vs)"
  by (induction vs) (auto simp: NUL_def [symmetric], simp_all add: NUL_def)

lemma serialize_members_no_nul:
  "(\<And>kv. kv \<in> set kvs \<Longrightarrow> NUL \<notin> set (json_serialize_r p (l + 1) (snd kv))) \<Longrightarrow>
   NUL \<notin> set (serialize_members p l kvs)"
proof (induction kvs)
  case (Cons kv kvs)
  obtain k v where kv: "kv = (k, v)" by (cases kv)
  have "NUL \<notin> set (json_serialize_r p (l + 1) v)" using Cons.prems [of kv] kv by simp
  moreover have "NUL \<notin> set (serialize_members p l kvs)" by (rule Cons.IH) (use Cons.prems in simp)
  ultimately show ?case
    using serialize_string_no_nul [of "c_string k"] layout_no_nul(1) [of p "l + 1"] layout_no_nul(2) [of p]
    by (auto simp: kv NUL_def)
qed simp

lemma serialize_no_nul: "json_ok v \<Longrightarrow> NUL \<notin> set (json_serialize_r p l v)"
proof (induction v arbitrary: l)
  case (JSONString bs)
  show ?case by (simp add: serialize_string_no_nul)
next
  case (JSONNumber x)
  then have "exact_number x" by simp
  then show ?case by (rule exact_number_cases) (use dec_no_nul in \<open>auto simp: NUL_def\<close>)
next
  case (JSONArray vs)
  then have "NUL \<notin> set (serialize_items p l vs)" by (intro serialize_items_no_nul) auto
  then show ?case by (auto simp: NUL_def [symmetric], simp_all add: NUL_def)
next
  case (JSONObject kvs)
  then have "NUL \<notin> set (serialize_members p l kvs)"
    by (intro serialize_members_no_nul) (auto simp: snds.simps)
  then show ?case by (auto simp: NUL_def [symmetric], simp_all add: NUL_def)
qed (simp_all add: NUL_def)

lemma serialize_no_BOM:
  assumes "json_ok v"
  shows "\<not> prefix BOM (json_serialize_r p l v)"
proof (cases v)
  case (JSONNumber x)
  then obtain c t where "fmt_17g x = c # t" "c = CHR ''-'' \<or> isdigit c"
    using assms by (auto elim: fmt_17g_hd)
  then show ?thesis using JSONNumber by (auto simp: isdigit_def BOM_def)
qed (simp_all add: json_serialize_string_def BOM_def)

lemma json_parse_string_serialize:
  assumes "json_ok v" and "json_depth v \<le> Suc MAX_NESTING"
  shows "json_parse_string (Some (json_serialize_r p l v)) = Some v"
  using serialize_no_nul [OF assms(1)] serialize_no_BOM [OF assms(1)]
    parse_value_serialize [OF assms, of "[]" p l]
  by (simp add: json_parse_string_def)

subsection \<open>What a parsed value looks like\<close>

text \<open>No object has a name twice or a name with a NUL byte, at any level.\<close>

fun keys_ok :: "JSON_Value \<Rightarrow> bool" where
  "keys_ok (JSONArray vs) = (\<forall>v \<in> set vs. keys_ok v)"
| "keys_ok (JSONObject kvs) =
     (distinct (map fst kvs) \<and> (\<forall>kv \<in> set kvs. NUL \<notin> set (fst kv) \<and> keys_ok (snd kv)))"
| "keys_ok _ = True"

definition parsed_ok :: "nat \<Rightarrow> JSON_Value \<Rightarrow> bool" where
  "parsed_ok d v \<longleftrightarrow> keys_ok v \<and> json_depth v \<le> d"

lemma fold_max_le: "(\<forall>x \<in> set xs. x \<le> d) \<Longrightarrow> a \<le> d \<Longrightarrow> fold max xs a \<le> (d :: nat)"
  by (induction xs arbitrary: a) auto

lemma parsed_ok_array: "(\<forall>v \<in> set vs. parsed_ok d v) \<Longrightarrow> parsed_ok (Suc d) (JSONArray vs)"
  by (auto simp: parsed_ok_def intro!: fold_max_le)

lemma parsed_ok_object:
  "distinct (map fst kvs) \<Longrightarrow> (\<forall>kv \<in> set kvs. NUL \<notin> set (fst kv) \<and> parsed_ok d (snd kv)) \<Longrightarrow>
   parsed_ok (Suc d) (JSONObject kvs)"
  by (auto simp: parsed_ok_def intro!: fold_max_le)

lemma parse_items_ok:
  assumes "\<And>s v r. pv s = Some (v, r) \<Longrightarrow> parsed_ok d v"
  shows "parse_items pv n vs s = Some (v, r) \<Longrightarrow> \<forall>v \<in> set vs. parsed_ok d v \<Longrightarrow> parsed_ok (Suc d) v"
proof (induction n arbitrary: vs s)
  case (Suc n)
  show ?case
  proof (cases "s = []")
    case True
    then show ?thesis using Suc.prems
      by (auto simp: finish_array_def split: list.splits if_splits intro!: parsed_ok_array)
  next
    case False
    then obtain w t where w: "pv s = Some (w, t)" using Suc.prems by (auto split: option.splits)
    have ok: "\<forall>v \<in> set (vs @ [w]). parsed_ok d v" using assms [OF w] Suc.prems by simp
    show ?thesis
      using False w Suc.prems(1) Suc.IH [OF _ ok] parsed_ok_array [OF ok]
      by (auto simp: finish_array_def split: list.splits if_splits)
  qed
qed simp

lemma parse_members_ok:
  assumes "\<And>s v r. pv s = Some (v, r) \<Longrightarrow> parsed_ok d v"
  shows "parse_members pv n kvs s = Some (v, r) \<Longrightarrow> distinct (map fst kvs) \<Longrightarrow>
    \<forall>kv \<in> set kvs. NUL \<notin> set (fst kv) \<and> parsed_ok d (snd kv) \<Longrightarrow> parsed_ok (Suc d) v"
proof (induction n arbitrary: kvs s)
  case (Suc n)
  have fin: "finish_object kvs' t = Some (v, r) \<Longrightarrow> v = JSONObject kvs'" for kvs' t
    by (auto simp: finish_object_def split: list.splits if_splits)
  show ?case
  proof (cases "s = []")
    case True
    then have "v = JSONObject kvs" using Suc.prems(1) fin by simp
    then show ?thesis using Suc.prems(2,3) by (simp only: parsed_ok_object)
  next
    case False
    then obtain k s1 s2 w s3 where step: "get_quoted_string s = Some (k, s1)" "NUL \<notin> set k"
      "skip_ws s1 = CHR '':'' # s2" "pv s2 = Some (w, s3)" "map_of kvs k = None"
      using Suc.prems(1)
      by (auto simp: json_object_add_def split: option.splits list.splits if_splits prod.splits)
    let ?kvs = "kvs @ [(k, w)]"
    have ok: "distinct (map fst ?kvs)" "\<forall>kv \<in> set ?kvs. NUL \<notin> set (fst kv) \<and> parsed_ok d (snd kv)"
      using Suc.prems(2,3) step assms [OF step(4)] by (auto simp: map_of_eq_None_iff)
    show ?thesis
      using Suc.prems(1) False step Suc.IH [OF _ ok] parsed_ok_object [OF ok] fin [of ?kvs]
      by (auto simp: json_object_add_def split: list.splits if_splits)
  qed
qed simp

lemma parse_object_value_ok:
  assumes "\<And>s v r. pv s = Some (v, r) \<Longrightarrow> parsed_ok d v" and "parse_object_value pv s = Some (v, r)"
  shows "parsed_ok (Suc d) v"
proof (cases "skip_ws (tl s)")
  case (Cons c t)
  then show ?thesis
    using assms(2) parse_members_ok [of pv d "length s + 1" "[]" "c # t" v r, OF assms(1)]
    by (cases "c = CHR ''}''") (auto simp: parse_object_value_def parsed_ok_def)
next
  case Nil
  then show ?thesis using assms(2) unfolding parse_object_value_def Nil by simp
qed

lemma parse_array_value_ok:
  assumes "\<And>s v r. pv s = Some (v, r) \<Longrightarrow> parsed_ok d v" and "parse_array_value pv s = Some (v, r)"
  shows "parsed_ok (Suc d) v"
proof (cases "skip_ws (tl s)")
  case (Cons c t)
  then show ?thesis
    using assms(2) parse_items_ok [of pv d "length s + 1" "[]" "c # t" v r, OF assms(1)]
    by (cases "c = CHR '']''") (auto simp: parse_array_value_def parsed_ok_def)
next
  case Nil
  then show ?thesis using assms(2) unfolding parse_array_value_def Nil by simp
qed

lemma parse_primitive_ok:
  "parse_string_value s = Some (v, r) \<Longrightarrow> parsed_ok (Suc d) v"
  "parse_boolean_value s = Some (v, r) \<Longrightarrow> parsed_ok (Suc d) v"
  "parse_null_value s = Some (v, r) \<Longrightarrow> parsed_ok (Suc d) v"
  "parse_number_value s = Some (v, r) \<Longrightarrow> parsed_ok (Suc d) v"
  by (auto simp: parse_string_value_def parse_boolean_value_def parse_null_value_def parse_number_value_def
      parsed_ok_def Let_def split: if_splits strtod_result.splits)

lemma parse_value_ok: "parse_value d s = Some (v, r) \<Longrightarrow> parsed_ok d v"
proof (induction d arbitrary: s v r)
  case (Suc d)
  obtain c t where "skip_ws s = c # t" using Suc.prems by (cases "skip_ws s") simp_all
  then show ?case
    using Suc.prems parse_object_value_ok [of "parse_value d" d, OF Suc.IH]
      parse_array_value_ok [of "parse_value d" d, OF Suc.IH] parse_primitive_ok
    by (simp split: if_splits)
qed simp

text \<open>C10: Every value the parser returns, on any text, has distinct names without NUL bytes in each
  of its objects and is nested at most \<open>MAX_NESTING + 1\<close> levels deep.\<close>

theorem json_parse_string_ok:
  assumes "json_parse_string text = Some v"
  shows "keys_ok v \<and> json_depth v \<le> Suc MAX_NESTING"
  using assms parse_value_ok [of "MAX_NESTING + 1"]
  by (auto simp: json_parse_string_def parsed_ok_def Let_def split: option.splits if_splits)

theorem json_parse_string_ok_witness:
  "json_parse_string (Some (json_serialize_r False 0 (JSONObject [(''A'', JSONNull)]))) = Some (JSONObject [(''A'', JSONNull)]) \<and>
   keys_ok (JSONObject [(''A'', JSONNull)]) \<and> json_depth (JSONObject [(''A'', JSONNull)]) \<le> Suc MAX_NESTING"
proof -
  have "json_parse_string (Some (json_serialize_r False 0 (JSONObject [(''A'', JSONNull)]))) = Some (JSONObject [(''A'', JSONNull)])"
    by (rule json_parse_string_serialize) (simp_all add: NUL_def MAX_NESTING_def)
  from json_parse_string_ok [OF this] this show ?thesis by simp
qed

text \<open>C9: A value of strings, booleans, nulls, integers below \<open>2 ^ 53\<close> and arrays and objects of
  such values, nested no deeper than the parser accepts, is the value of its serialised text,
  compact or pretty; its strings may hold any bytes.\<close>

theorem json_roundtrip:
  assumes "json_ok v" and "json_depth v \<le> Suc MAX_NESTING"
  shows "json_parse_string (json_serialize_to_string (Some v)) = Some v \<and>
    json_parse_string (json_serialize_to_string_pretty (Some v)) = Some v"
  using json_parse_string_serialize [OF assms]
  by (simp add: json_serialize_to_string_def json_serialize_to_string_pretty_def)

theorem json_roundtrip_witness:
  "json_parse_string (json_serialize_to_string_pretty (Some (JSONArray [JSONNumber (- 7), JSONString [CHR 0x22, NUL]]))) =
     Some (JSONArray [JSONNumber (- 7), JSONString [CHR 0x22, NUL]])"
  using json_roundtrip [of "JSONArray [JSONNumber (- 7), JSONString [CHR 0x22, NUL]]"]
  by (simp add: exact_number_def MAX_NESTING_def)

text \<open>Setting a member of an object makes a later get return it, leaves every other member and
  the order of the names as they are, and keeps the names distinct.\<close>

theorem json_object_set_get:
  "json_object_get_value (Some (json_object_set_value kvs k v)) (Some k') =
     (if k' = k then Some v else json_object_get_value (Some kvs) (Some k')) \<and>
   map fst (json_object_set_value kvs k v) = (if k \<in> fst ` set kvs then map fst kvs else map fst kvs @ [k])"
proof
  show "json_object_get_value (Some (json_object_set_value kvs k v)) (Some k') =
     (if k' = k then Some v else json_object_get_value (Some kvs) (Some k'))"
    by (simp add: json_object_get_value_def map_of_json_object_set_value)
  show "map fst (json_object_set_value kvs k v) = (if k \<in> fst ` set kvs then map fst kvs else map fst kvs @ [k])"
    by (induction kvs k v rule: json_object_set_value.induct) auto
qed

end
