(* ===== verification/MmiClient.thy ===== *)
theory MmiClient
  imports Parson
begin

text \<open>
  The module host (\<open>src/platform/MmiClient.c\<close>): parsing of the information a module
  reports about itself, loading of a module from a shared object, unloading.

  The shared objects are not part of the sources: what \<open>dlopen\<close> and \<open>dlsym\<close> find is a
  parameter (\<open>dlopen\<close> below), and the entry points of a module are functions on a world
  \<open>'w\<close> that stands for everything a module can read or change.
\<close>

subsection \<open>Module interface\<close>

type_synonym MMI_HANDLE = nat

text \<open>The entry points of a module (\<open>Mmi.h\<close>). A status, a payload pointer and its sz
  are what \<open>MmiGet\<close> and \<open>MmiGetInfo\<close> deliver; the handle 0 is \<open>NULL\<close>.\<close>

record 'w mmi =
  mmiOpen :: "cstr \<Rightarrow> 32 word \<Rightarrow> 'w \<Rightarrow> MMI_HANDLE \<times> 'w"
  mmiClose :: "MMI_HANDLE \<Rightarrow> 'w \<Rightarrow> 'w"
  mmiGetInfo :: "cstr \<Rightarrow> 'w \<Rightarrow> (int \<times> cstr \<times> int) \<times> 'w"
  mmiSet :: "MMI_HANDLE \<Rightarrow> cstr \<Rightarrow> cstr \<Rightarrow> cstr \<Rightarrow> int \<Rightarrow> 'w \<Rightarrow> int \<times> 'w"
  mmiGet :: "MMI_HANDLE \<Rightarrow> cstr \<Rightarrow> cstr \<Rightarrow> 'w \<Rightarrow> (int \<times> cstr \<times> int) \<times> 'w"
  mmiFree :: "cstr \<Rightarrow> 'w \<Rightarrow> 'w"

definition MMI_OK :: int where [codes]: "MMI_OK = 0"

record VERSION =
  major :: "32 word"
  minor :: "32 word"
  patch :: "32 word"
  tweak :: "32 word"

text \<open>\<open>Lifetime\<close> is an enumeration with the values 0, 1 and 2; the field holds what the
  conversion from a JSON number puts there. \<open>componentCount\<close> is the length of
  \<open>components\<close>.\<close>

record MODULE_INFO =
  name :: string
  description :: string
  manufacturer :: string
  version :: VERSION
  versionInfo :: string
  components :: "string list"
  lifetime :: "32 word"
  licenseUri :: cstr
  projectUri :: cstr
  userAccount :: "32 word"

record 'w MODULE =
  path :: string
  info :: MODULE_INFO
  entry :: "'w mmi"

text \<open>A shared object: for each entry point, what \<open>dlsym\<close> returns.\<close>

record 'w shared_object =
  symOpen :: "(cstr \<Rightarrow> 32 word \<Rightarrow> 'w \<Rightarrow> MMI_HANDLE \<times> 'w) option"
  symClose :: "(MMI_HANDLE \<Rightarrow> 'w \<Rightarrow> 'w) option"
  symGetInfo :: "(cstr \<Rightarrow> 'w \<Rightarrow> (int \<times> cstr \<times> int) \<times> 'w) option"
  symSet :: "(MMI_HANDLE \<Rightarrow> cstr \<Rightarrow> cstr \<Rightarrow> cstr \<Rightarrow> int \<Rightarrow> 'w \<Rightarrow> int \<times> 'w) option"
  symGet :: "(MMI_HANDLE \<Rightarrow> cstr \<Rightarrow> cstr \<Rightarrow> 'w \<Rightarrow> (int \<times> cstr \<times> int) \<times> 'w) option"
  symFree :: "(cstr \<Rightarrow> 'w \<Rightarrow> 'w) option"

subsection \<open>ParseModuleInfo\<close>

text \<open>
  A required string field: missing is \<open>EINVAL\<close>, a failed copy is \<open>errno\<close> of
  \<open>strdup\<close>, which is \<open>ENOMEM\<close>.
\<close>

definition required_field :: "alloc \<Rightarrow> JSON_Object option \<Rightarrow> string \<Rightarrow> int + string" where
  "required_field m obj field =
     (case json_object_get_string obj (Some field) of
        None \<Rightarrow> Inl EINVAL
      | Some s \<Rightarrow> if m field 0 then Inr s else Inl ENOMEM)"

text \<open>The loop that copies the component names, with its early exit.\<close>

fun copy_components :: "alloc \<Rightarrow> nat \<Rightarrow> JSON_Value list \<Rightarrow> int + string list" where
  "copy_components m i [] = Inr []"
| "copy_components m i (v # vs) =
     (case json_value_get_string (Some v) of
        None \<Rightarrow> Inl EINVAL
      | Some s \<Rightarrow>
          if \<not> m ''component'' i then Inl ENOMEM
          else map_sum id ((#) s) (copy_components m (Suc i) vs))"

text \<open>
  The fields read once the required strings are there. The status is the last one
  assigned: invalid lifetime, failed copies of the optional strings, failed components.
\<close>

definition parse_info_rest ::
  "alloc \<Rightarrow> JSON_Object option \<Rightarrow> string \<Rightarrow> string \<Rightarrow> string \<Rightarrow> string \<Rightarrow> JSON_Value list \<Rightarrow>
   int + MODULE_INFO" where
  "parse_info_rest m obj nm descr manu vinfo comps =
     (let num = (\<lambda>k. double_to_uint (json_object_get_number obj (Some k)));
          life = num ''Lifetime'';
          lic = json_object_get_string obj (Some ''LicenseUri'');
          proj = json_object_get_string obj (Some ''ProjectUri'');
          st1 = (if 2 < life then EINVAL else 0);
          st2 = (if lic \<noteq> None \<and> \<not> m ''LicenseUri'' 0 then ENOMEM else st1);
          st3 = (if proj \<noteq> None \<and> \<not> m ''ProjectUri'' 0 then ENOMEM else st2)
      in if \<not> m ''components'' 0 then Inl ENOMEM
         else (case copy_components m 0 comps of
            Inl e \<Rightarrow> Inl e
          | Inr cs \<Rightarrow>
              if st3 \<noteq> 0 then Inl st3
              else Inr \<lparr>name = nm, description = descr, manufacturer = manu,
                        version = \<lparr>major = num ''VersionMajor'', minor = num ''VersionMinor'',
                                   patch = num ''VersionPatch'', tweak = num ''VersionTweak''\<rparr>,
                        versionInfo = vinfo, components = cs, lifetime = life,
                        licenseUri = lic, projectUri = proj,
                        userAccount = num ''UserAccount''\<rparr>))"

definition ParseModuleInfo :: "alloc \<Rightarrow> JSON_Value option \<Rightarrow> int + MODULE_INFO" where
  "ParseModuleInfo m value =
     (if value = None then Inl EINVAL
      else let obj = json_value_get_object value
      in if obj = None then Inl EINVAL
         else if \<not> m ''MODULE_INFO'' 0 then Inl ENOMEM
         else (case required_field m obj ''Name'' of Inl e \<Rightarrow> Inl e | Inr nm \<Rightarrow>
              (case required_field m obj ''Description'' of Inl e \<Rightarrow> Inl e | Inr descr \<Rightarrow>
              (case required_field m obj ''Manufacturer'' of Inl e \<Rightarrow> Inl e | Inr manu \<Rightarrow>
              (case required_field m obj ''VersionInfo'' of Inl e \<Rightarrow> Inl e | Inr vinfo \<Rightarrow>
              (case json_object_get_array obj (Some ''Components'') of
                 None \<Rightarrow> Inl EINVAL
               | Some comps \<Rightarrow>
                   if json_array_get_count (Some comps) = 0 then Inl EINVAL
                   else if json_value_get_type (json_object_get_value obj (Some ''Lifetime''))
                             \<noteq> TypeNumber then Inl EINVAL
                   else parse_info_rest m obj nm descr manu vinfo comps))))))"

subsection \<open>LoadModule and UnloadModule\<close>

text \<open>The six \<open>dlsym\<close> calls: the module's entry points when all are implemented.\<close>

definition resolve_entry :: "'w shared_object \<Rightarrow> 'w mmi option" where
  "resolve_entry so =
     (case (symOpen so, symClose so, symGetInfo so, symSet so, symGet so, symFree so) of
        (Some o', Some c, Some i, Some s, Some g, Some f) \<Rightarrow>
          Some \<lparr>mmiOpen = o', mmiClose = c, mmiGetInfo = i, mmiSet = s, mmiGet = g, mmiFree = f\<rparr>
      | _ \<Rightarrow> None)"

text \<open>
  \<open>LoadModule\<close>: \<open>None\<close> is the \<open>NULL\<close> it returns on any failure. The payload of
  \<open>MmiGetInfo\<close> is freed through the module whenever it is not \<open>NULL\<close>.
\<close>

definition LoadModule ::
  "alloc \<Rightarrow> (string \<Rightarrow> 'w shared_object option) \<Rightarrow> cstr \<Rightarrow> cstr \<Rightarrow> 'w \<Rightarrow> 'w MODULE option \<times> 'w" where
  "LoadModule m dlopen client pth w =
     (case (client, pth) of
        (Some c, Some p) \<Rightarrow>
          if \<not> m ''MODULE'' 0 \<or> \<not> m ''path'' 0 then (None, w)
          else (case dlopen p of
             None \<Rightarrow> (None, w)
           | Some so \<Rightarrow>
               (case resolve_entry so of
                  None \<Rightarrow> (None, w)
                | Some e \<Rightarrow>
                    (let ((st, payload, sz), w1) = mmiGetInfo e (Some c) w;
                         res = (if st \<noteq> MMI_OK then None
                                else (case json_parse_string payload of
                                   None \<Rightarrow> None
                                 | Some v \<Rightarrow>
                                     (case ParseModuleInfo m (Some v) of
                                        Inl _ \<Rightarrow> None
                                      | Inr i \<Rightarrow> Some \<lparr>path = p, info = i, entry = e\<rparr>)));
                         w2 = (if payload \<noteq> None then mmiFree e payload w1 else w1)
                     in (res, w2))))
      | _ \<Rightarrow> (None, w))"

subsection \<open>What loading guarantees\<close>

text \<open>A module information record is well formed when it names a component and its
  lifetime is one of the enumerated ones.\<close>

definition info_ok :: "MODULE_INFO \<Rightarrow> bool" where
  "info_ok i \<longleftrightarrow> components i \<noteq> [] \<and> lifetime i \<le> 2 \<and>
     (\<forall>c \<in> set (components i). NUL \<notin> set c)"

lemma copy_components_Inr:
  "copy_components m i vs = Inr cs \<Longrightarrow>
   map (\<lambda>v. json_value_get_string (Some v)) vs = map Some cs"
proof (induction m i vs arbitrary: cs rule: copy_components.induct)
  case (2 m i v vs)
  then show ?case
    by (cases "copy_components m (Suc i) vs") (auto split: option.splits if_splits)
qed simp

lemma json_value_get_string_no_nul: "json_value_get_string v = Some s \<Longrightarrow> NUL \<notin> set s"
  by (induction v rule: json_value_get_string.induct) auto

lemma copy_components_names:
  assumes "copy_components m i vs = Inr cs"
  shows "length cs = length vs" and "\<forall>c \<in> set cs. NUL \<notin> set c"
proof -
  have eq: "map (\<lambda>v. json_value_get_string (Some v)) vs = map Some cs"
    using assms by (rule copy_components_Inr)
  show "length cs = length vs" using arg_cong [OF eq, of length] by simp
  show "\<forall>c \<in> set cs. NUL \<notin> set c"
  proof
    fix c assume "c \<in> set cs"
    then have "Some c \<in> set (map (\<lambda>v. json_value_get_string (Some v)) vs)"
      by (simp add: eq)
    then show "NUL \<notin> set c" by (auto dest!: json_value_get_string_no_nul [OF sym])
  qed
qed

lemma parse_info_rest_ok:
  assumes "parse_info_rest m obj nm descr manu vinfo comps = Inr i" and "comps \<noteq> []"
  shows "info_ok i"
proof -
  from assms(1) obtain cs where cs: "copy_components m 0 comps = Inr cs" "components i = cs"
    and life: "lifetime i \<le> 2"
    by (auto simp: parse_info_rest_def Let_def codes not_less split: if_splits sum.splits)
  show ?thesis
    using copy_components_names [OF cs(1)] cs(2) life assms(2) by (auto simp: info_ok_def)
qed

lemma ParseModuleInfo_ok: "ParseModuleInfo m v = Inr i \<Longrightarrow> info_ok i"
  by (auto simp: ParseModuleInfo_def Let_def json_array_get_count_def
      split: if_splits sum.splits option.splits intro: parse_info_rest_ok)

lemma LoadModule_info_ok:
  "LoadModule m dlopen client pth w = (Some md, w') \<Longrightarrow> info_ok (info md)"
  by (auto simp: LoadModule_def Let_def split: option.splits if_splits prod.splits sum.splits
      dest: ParseModuleInfo_ok)

subsection \<open>Which descriptions are accepted\<close>

definition info_accepted :: "JSON_Object \<Rightarrow> bool" where
  "info_accepted kvs \<longleftrightarrow>
     (\<forall>k \<in> {''Name'', ''Description'', ''Manufacturer'', ''VersionInfo''}.
        json_object_get_string (Some kvs) (Some k) \<noteq> None) \<and>
     (\<exists>vs. json_object_get_array (Some kvs) (Some ''Components'') = Some vs \<and> vs \<noteq> [] \<and>
        (\<forall>v \<in> set vs. json_value_get_string (Some v) \<noteq> None)) \<and>
     json_value_get_type (json_object_get_value (Some kvs) (Some ''Lifetime'')) = TypeNumber \<and>
     double_to_uint (json_object_get_number (Some kvs) (Some ''Lifetime'')) \<le> 2"

lemma copy_components_success:
  assumes "\<And>i. m ''component'' i"
  shows "\<forall>v \<in> set vs. json_value_get_string (Some v) \<noteq> None \<Longrightarrow> \<exists>cs. copy_components m i vs = Inr cs"
proof (induction vs arbitrary: i)
  case (Cons v vs)
  then obtain s cs where "json_value_get_string (Some v) = Some s" "copy_components m (Suc i) vs = Inr cs"
    by fastforce
  then show ?case using assms by simp
qed simp

lemma copy_components_strings:
  "copy_components m i vs = Inr cs \<Longrightarrow> v \<in> set vs \<Longrightarrow> json_value_get_string (Some v) \<noteq> None"
  by (drule copy_components_Inr) (metis (no_types, lifting) list.set_map imageE image_eqI option.distinct(1))

lemma copy_components_iff:
  "(\<exists>cs. copy_components all_ok 0 vs = Inr cs) \<longleftrightarrow> (\<forall>v \<in> set vs. json_value_get_string (Some v) \<noteq> None)"
  using copy_components_success [of all_ok vs 0] copy_components_strings [of all_ok 0 vs] by auto

lemma parse_info_rest_iff:
  "(\<exists>i. parse_info_rest all_ok obj nm descr manu vinfo vs = Inr i) \<longleftrightarrow>
     (\<forall>v \<in> set vs. json_value_get_string (Some v) \<noteq> None) \<and>
     double_to_uint (json_object_get_number obj (Some ''Lifetime'')) \<le> 2"
proof -
  have "(\<exists>i. parse_info_rest all_ok obj nm descr manu vinfo vs = Inr i) \<longleftrightarrow>
      (\<exists>cs. copy_components all_ok 0 vs = Inr cs) \<and>
      double_to_uint (json_object_get_number obj (Some ''Lifetime'')) \<le> 2"
    by (auto simp: parse_info_rest_def Let_def codes not_less split: sum.splits)
  then show ?thesis unfolding copy_components_iff .
qed


end
