(* ===== verification/ModulesManager.thy ===== *)
theory ModulesManager
  imports MmiClient
begin

text \<open>
  The modules manager (\<open>src/platform/ModulesManager.c\<close>): the loaded modules, the client
  sessions with one module session per module, the list of reported objects, and the MPI
  operations on them.

  A linked list is the list of its elements; \<open>Live []\<close> is the \<open>NULL\<close> head. A head whose
  elements were freed and that was not reset is \<open>Freed\<close>: following it is a crash
  (\<open>None\<close> in the result of an operation). The state is threaded with the world \<open>'w\<close> the
  modules act on.
\<close>

subsection \<open>State\<close>

datatype 'a head = Live "'a list" | Freed

record 'w MODULE_SESSION =
  module :: "'w MODULE"
  handle :: MMI_HANDLE

record 'w SESSION =
  uuid :: string
  client :: string
  modules :: "'w MODULE_SESSION list"

record REPORTED_OBJECT =
  component :: cstr
  object :: cstr

record 'w manager =
  g_sessions :: "'w SESSION head"
  g_modules :: "'w MODULE head"
  g_reported :: "REPORTED_OBJECT head"
  g_reportedTotal :: nat

definition initial_manager :: "'w manager" where
  "initial_manager = \<lparr>g_sessions = Live [], g_modules = Live [], g_reported = Live [],
     g_reportedTotal = 0\<rparr>"

subsection \<open>LoadModules\<close>

text \<open>
  What the manager finds on the device: the contents of files, directory listings (each
  entry with whether it is a regular file; \<open>None\<close> when \<open>opendir\<close> fails), shared objects,
  and the version string the build compiles in.
\<close>

record 'w device =
  read_file :: "string \<Rightarrow> cstr"
  opendir :: "string \<Rightarrow> (bool \<times> string) list option"
  dlopen :: "string \<Rightarrow> 'w shared_object option"
  osconfig_version :: string

text \<open>The directory entries that are taken for modules.\<close>

definition is_module_file :: "bool \<times> string \<Rightarrow> bool" where
  "is_module_file e \<longleftrightarrow>
     (case e of (reg, nm) \<Rightarrow> reg \<and> nm \<noteq> '''' \<and> nm \<noteq> ''.'' \<and> nm \<noteq> ''..'' \<and>
        strstr nm ''.so'' \<noteq> None)"

text \<open>The loop over the directory: a loaded module is put at the head of the list. The
  oracle \<open>ma i\<close> is that of the i-th entry.\<close>

fun load_entries ::
  "(nat \<Rightarrow> alloc) \<Rightarrow> (string \<Rightarrow> 'w shared_object option) \<Rightarrow> cstr \<Rightarrow> string \<Rightarrow> nat \<Rightarrow>
   (bool \<times> string) list \<Rightarrow> 'w MODULE list \<times> 'w \<Rightarrow> 'w MODULE list \<times> 'w" where
  "load_entries ma dl clientName dir i [] (mods, w) = (mods, w)"
| "load_entries ma dl clientName dir i (e # es) (mods, w) =
     (if \<not> is_module_file e \<or> \<not> ma i ''LoadModules.path'' 0
      then load_entries ma dl clientName dir (Suc i) es (mods, w)
      else (case LoadModule (ma i) dl clientName (Some (dir @ ''/'' @ snd e)) w of
              (None, w') \<Rightarrow> load_entries ma dl clientName dir (Suc i) es (mods, w')
            | (Some md, w') \<Rightarrow> load_entries ma dl clientName dir (Suc i) es (md # mods, w')))"

definition AZURE_OSCONFIG :: string where "AZURE_OSCONFIG = ''Azure OSConfig''"

text \<open>
  The client name: \<open>snprintf\<close> into a buffer of \<open>strlen(AZURE_OSCONFIG) +
  strlen(OSCONFIG_VERSION) + 5\<close> bytes, the terminator included.
\<close>

definition make_client_name :: "string \<Rightarrow> int \<Rightarrow> string" where
  "make_client_name osv ver =
     take (length AZURE_OSCONFIG + length osv + 4)
       (AZURE_OSCONFIG @ '' '' @ print_int ver @ '';'' @ osv)"

text \<open>
  One element of the \<open>Reported\<close> array: the entry the loop leaves behind and whether it
  was counted.
\<close>

definition load_reported :: "alloc \<Rightarrow> nat \<Rightarrow> JSON_Value \<Rightarrow> REPORTED_OBJECT \<times> bool" where
  "load_reported m i v =
     (case json_value_get_object (Some v) of
        None \<Rightarrow> (\<lparr>component = None, object = None\<rparr>, False)
      | Some kvs \<Rightarrow>
          (case json_object_get_string (Some kvs) (Some ''ComponentName'') of
             None \<Rightarrow> (\<lparr>component = None, object = None\<rparr>, False)
           | Some c \<Rightarrow>
               if \<not> m ''reported.component'' i then (\<lparr>component = None, object = None\<rparr>, False)
               else (case json_object_get_string (Some kvs) (Some ''ObjectName'') of
                  None \<Rightarrow> (\<lparr>component = Some c, object = None\<rparr>, False)
                | Some ob \<Rightarrow>
                    if \<not> m ''reported.object'' i then (\<lparr>component = Some c, object = None\<rparr>, False)
                    else (\<lparr>component = Some c, object = Some ob\<rparr>, True))))"

fun load_reported_all :: "alloc \<Rightarrow> nat \<Rightarrow> JSON_Value list \<Rightarrow> REPORTED_OBJECT list \<times> nat" where
  "load_reported_all m i [] = ([], 0)"
| "load_reported_all m i (v # vs) =
     (let (r, counted) = load_reported m i v; (rs, n) = load_reported_all m (Suc i) vs
      in (r # rs, (if counted then Suc n else n)))"

text \<open>The second part of \<open>LoadModules\<close>: the reported objects of the configuration.\<close>

definition load_reported_config ::
  "alloc \<Rightarrow> JSON_Object option \<Rightarrow> 'w manager \<Rightarrow> 'w manager" where
  "load_reported_config m configObject st =
     (case json_object_get_array configObject (Some ''Reported'') of
        None \<Rightarrow> st
      | Some vs \<Rightarrow>
          if vs = [] \<or> \<not> m ''reported'' 0 then st
          else let (rs, n) = load_reported_all m 0 vs
               in st\<lparr>g_reported := Live rs, g_reportedTotal := n\<rparr>)"

text \<open>
  The first part: \<open>mods\<close> are the modules before the call, those of the directory are put
  in front of them.
\<close>

definition load_modules_dir ::
  "alloc \<Rightarrow> (nat \<Rightarrow> alloc) \<Rightarrow> 'w device \<Rightarrow> string \<Rightarrow> int \<Rightarrow> 'w MODULE list \<Rightarrow> 'w \<Rightarrow>
   'w MODULE list \<times> 'w" where
  "load_modules_dir m ma dev dir ver mods w =
     (let clientName = (if m ''clientName'' 0
                        then Some (make_client_name (osconfig_version dev) ver) else None)
      in case opendir dev dir of
           None \<Rightarrow> (mods, w)
         | Some es \<Rightarrow> load_entries ma (dlopen dev) clientName dir 0 es (mods, w))"

definition LoadModules ::
  "alloc \<Rightarrow> (nat \<Rightarrow> alloc) \<Rightarrow> 'w device \<Rightarrow> cstr \<Rightarrow> cstr \<Rightarrow> 'w manager \<Rightarrow> 'w \<Rightarrow>
   ('w manager \<times> 'w) option" where
  "LoadModules m ma dev directory configJson st w =
     (case (directory, configJson) of
        (Some dir, Some cfg) \<Rightarrow>
          (case json_parse_string (read_file dev cfg) of
             None \<Rightarrow> Some (st, w)
           | Some config \<Rightarrow>
               (case json_value_get_object (Some config) of
                  None \<Rightarrow> Some (st, w)
                | Some configObject \<Rightarrow>
                    (let ver = double_to_int (json_object_get_number (Some configObject) (Some ''ModelVersion''))
                     in if ver = 0 then Some (load_reported_config m (Some configObject) st, w)
                        else (case g_modules st of
                           Freed \<Rightarrow> None
                         | Live mods \<Rightarrow>
                             (let (mods', w') = load_modules_dir m ma dev dir ver mods w
                              in Some (load_reported_config m (Some configObject)
                                        (st\<lparr>g_modules := Live mods'\<rparr>), w'))))))
      | _ \<Rightarrow> Some (st, w))"

text \<open>\<open>AreModulesLoadedAndLoadIfNot\<close> compares the head with \<open>NULL\<close>, which a dangling
  head is not.\<close>

definition AreModulesLoadedAndLoadIfNot ::
  "alloc \<Rightarrow> (nat \<Rightarrow> alloc) \<Rightarrow> 'w device \<Rightarrow> cstr \<Rightarrow> cstr \<Rightarrow> 'w manager \<Rightarrow> 'w \<Rightarrow>
   ('w manager \<times> 'w) option" where
  "AreModulesLoadedAndLoadIfNot m ma dev directory configJson st w =
     (case g_modules st of
        Live [] \<Rightarrow> LoadModules m ma dev directory configJson st w
      | _ \<Rightarrow> Some (st, w))"

subsection \<open>UnloadModules\<close>

text \<open>
  \<open>FreeSessions\<close> closes every module session of every session, in list order.
\<close>

definition close_module_sessions :: "'w MODULE_SESSION list \<Rightarrow> 'w \<Rightarrow> 'w" where
  "close_module_sessions mss w =
     fold (\<lambda>ms. mmiClose (entry (module ms)) (handle ms)) mss w"

definition FreeSessions :: "'w SESSION list \<Rightarrow> 'w \<Rightarrow> 'w" where
  "FreeSessions ss w = fold (\<lambda>s. close_module_sessions (modules s)) ss w"

text \<open>
  The head after its elements were freed: \<open>FreeSessions\<close>, \<open>FreeModules\<close> and
  \<open>FreeReportedObjects\<close> reset their parameter, not the global variable.
\<close>

definition freed_head :: "'a head \<Rightarrow> 'a head" where
  "freed_head h = (case h of Live [] \<Rightarrow> Live [] | _ \<Rightarrow> Freed)"

definition UnloadModules :: "'w manager \<Rightarrow> 'w \<Rightarrow> ('w manager \<times> 'w) option" where
  "UnloadModules st w =
     (case (g_sessions st, g_modules st, g_reported st) of
        (Live ss, Live mods, Live rs) \<Rightarrow>
          Some (st\<lparr>g_sessions := freed_head (Live ss), g_modules := freed_head (Live mods),
                   g_reported := freed_head (Live rs), g_reportedTotal := 0\<rparr>,
                FreeSessions ss w)
      | _ \<Rightarrow> None)"

subsection \<open>Sessions\<close>

definition uuidTemplate :: string where
  "uuidTemplate = ''xxxxxxxx-xxxx-Mxxx-Nxxx-xxxxxxxxxxxx''"

definition uuid_hex :: string where "uuid_hex = ''0123456789ABCDEF-''"

text \<open>\<open>rnd i\<close> is the i-th value of \<open>rand()\<close>.\<close>

definition uuid_char :: "nat \<Rightarrow> char \<Rightarrow> char" where
  "uuid_char r t =
     (let random = r mod 16
      in if t = CHR ''x'' then uuid_hex ! random
         else if t = CHR ''-'' then CHR ''-''
         else if t = CHR ''M'' then uuid_hex ! (random mod 4 + 8)
         else if t = CHR ''N'' then CHR ''4''
         else CHR '' '')"

definition GenerateUuid :: "alloc \<Rightarrow> (nat \<Rightarrow> nat) \<Rightarrow> cstr" where
  "GenerateUuid m rnd =
     (if \<not> m ''uuid'' 0 then None
      else Some (map (\<lambda>i. uuid_char (rnd i) (uuidTemplate ! i)) [0..<length uuidTemplate]))"

text \<open>The loop of \<open>MpiOpen\<close>: each module is opened and its session put in front.\<close>

fun open_modules ::
  "alloc \<Rightarrow> nat \<Rightarrow> string \<Rightarrow> 32 word \<Rightarrow> 'w MODULE list \<Rightarrow> 'w MODULE_SESSION list \<times> 'w \<Rightarrow>
   'w MODULE_SESSION list \<times> 'w" where
  "open_modules m i clientName maxSize [] (mss, w) = (mss, w)"
| "open_modules m i clientName maxSize (md # mds) (mss, w) =
     (if \<not> m ''moduleSession'' i then open_modules m (Suc i) clientName maxSize mds (mss, w)
      else let (h, w') = mmiOpen (entry md) (Some clientName) maxSize w
           in open_modules m (Suc i) clientName maxSize mds (\<lparr>module = md, handle = h\<rparr> # mss, w'))"

text \<open>
  \<open>MpiOpen\<close> returns the UUID it generated also when the session could not be
  allocated.
\<close>

definition MpiOpen ::
  "alloc \<Rightarrow> (nat \<Rightarrow> nat) \<Rightarrow> cstr \<Rightarrow> 32 word \<Rightarrow> 'w manager \<Rightarrow> 'w \<Rightarrow> (cstr \<times> 'w manager \<times> 'w) option" where
  "MpiOpen m rnd clientName maxSize st w =
     (case clientName of
        None \<Rightarrow> Some (None, st, w)
      | Some cn \<Rightarrow>
          (case g_modules st of
             Live [] \<Rightarrow> Some (None, st, w)
           | h \<Rightarrow>
               (case GenerateUuid m rnd of
                  None \<Rightarrow> Some (None, st, w)
                | Some u \<Rightarrow>
                    if \<not> m ''session'' 0 \<or> \<not> m ''session.client'' 0 \<or> \<not> m ''session.uuid'' 0
                    then Some (Some u, st, w)
                    else (case (h, g_sessions st) of
                       (Live mds, Live ss) \<Rightarrow>
                         (let (mss, w') = open_modules m 0 cn maxSize mds ([], w)
                          in Some (Some u,
                               st\<lparr>g_sessions := Live (\<lparr>uuid = u, client = cn, modules = mss\<rparr> # ss)\<rparr>, w'))
                     | _ \<Rightarrow> None))))"

definition FindSession :: "'w SESSION list \<Rightarrow> string \<Rightarrow> 'w SESSION option" where
  "FindSession ss u = find (\<lambda>s. uuid s = u) ss"

text \<open>Unlinking of the session that \<open>FindSession\<close> found.\<close>

fun remove_session :: "string \<Rightarrow> 'w SESSION list \<Rightarrow> 'w SESSION list" where
  "remove_session u [] = []"
| "remove_session u (s # ss) = (if uuid s = u then ss else s # remove_session u ss)"

definition MpiClose :: "cstr \<Rightarrow> 'w manager \<Rightarrow> 'w \<Rightarrow> ('w manager \<times> 'w) option" where
  "MpiClose hdl st w =
     (case hdl of
        None \<Rightarrow> Some (st, w)
      | Some u \<Rightarrow>
          (case g_sessions st of
             Freed \<Rightarrow> None
           | Live ss \<Rightarrow>
               (case FindSession ss u of
                  None \<Rightarrow> Some (st, w)
                | Some s \<Rightarrow>
                    Some (st\<lparr>g_sessions := Live (remove_session u ss)\<rparr>,
                          close_module_sessions (modules s) w))))"

subsection \<open>Routing to a module\<close>

text \<open>
  \<open>ComponentExists\<close> compares with \<open>strcmp\<close>: a \<open>NULL\<close> name crashes as soon as the
  module has a component.
\<close>

definition ComponentExists :: "'w MODULE \<Rightarrow> cstr \<Rightarrow> bool option" where
  "ComponentExists md c =
     (case c of
        Some nm \<Rightarrow> Some (nm \<in> set (components (info md)))
      | None \<Rightarrow> if components (info md) = [] then Some False else None)"

fun FindModuleSession ::
  "'w MODULE_SESSION list \<Rightarrow> cstr \<Rightarrow> 'w MODULE_SESSION option option" where
  "FindModuleSession [] c = Some None"
| "FindModuleSession (ms # mss) c =
     (case ComponentExists (module ms) c of
        None \<Rightarrow> None
      | Some True \<Rightarrow> Some (Some ms)
      | Some False \<Rightarrow> FindModuleSession mss c)"

definition MPI_OK :: int where [codes]: "MPI_OK = 0"

text \<open>The common first half of \<open>MpiSet\<close> and \<open>MpiGet\<close>: the module session a call is for,
  or the status that ends it.\<close>

definition route ::
  "string \<Rightarrow> string \<Rightarrow> 'w manager \<Rightarrow> (int + 'w MODULE_SESSION) option" where
  "route u c st =
     (case g_sessions st of
        Freed \<Rightarrow> None
      | Live ss \<Rightarrow>
          (case FindSession ss u of
             None \<Rightarrow> Some (Inl EINVAL)
           | Some s \<Rightarrow>
               (case FindModuleSession (modules s) (Some c) of
                  None \<Rightarrow> None
                | Some None \<Rightarrow> Some (Inl EINVAL)
                | Some (Some ms) \<Rightarrow> Some (Inr ms))))"

definition MpiSet ::
  "cstr \<Rightarrow> cstr \<Rightarrow> cstr \<Rightarrow> cstr \<Rightarrow> int \<Rightarrow> 'w manager \<Rightarrow> 'w \<Rightarrow> (int \<times> 'w) option" where
  "MpiSet hdl cmp obj payload sz st w =
     (case (hdl, cmp, obj) of
        (Some u, Some c, Some ob) \<Rightarrow>
          (case route u c st of
             None \<Rightarrow> None
           | Some (Inl e) \<Rightarrow> Some (e, w)
           | Some (Inr ms) \<Rightarrow> Some (mmiSet (entry (module ms)) (handle ms) cmp obj payload sz w))
      | _ \<Rightarrow> Some (EINVAL, w))"

text \<open>The two output pointers of \<open>MpiGet\<close> are never \<open>NULL\<close> in its callers; the result
  has what is stored there, \<open>None\<close> when nothing is.\<close>

definition MpiGet ::
  "cstr \<Rightarrow> cstr \<Rightarrow> cstr \<Rightarrow> 'w manager \<Rightarrow> 'w \<Rightarrow> ((int \<times> (cstr \<times> int) option) \<times> 'w) option" where
  "MpiGet hdl cmp obj st w =
     (case (hdl, cmp, obj) of
        (Some u, Some c, Some ob) \<Rightarrow>
          (case route u c st of
             None \<Rightarrow> None
           | Some (Inl e) \<Rightarrow> Some ((e, None), w)
           | Some (Inr ms) \<Rightarrow>
               (let ((status, payload, sz), w') = mmiGet (entry (module ms)) (handle ms) cmp obj w
                in Some ((status, Some (payload, sz)), w')))
      | _ \<Rightarrow> Some ((EINVAL, None), w))"

subsection \<open>MpiSetDesired\<close>

text \<open>The inner loop: every object of one component is set; the status is that of the
  last one.\<close>

fun set_objects ::
  "'w MODULE_SESSION \<Rightarrow> string \<Rightarrow> JSON_Object \<Rightarrow> int \<times> 'w \<Rightarrow> int \<times> 'w" where
  "set_objects ms c [] (status, w) = (status, w)"
| "set_objects ms c ((ob, v) # kvs) (status, w) =
     (let js = json_serialize_r False 0 v
      in set_objects ms c kvs
           (mmiSet (entry (module ms)) (handle ms) (Some c) (Some ob) (Some js)
              (c_int (int (length js))) w))"

text \<open>The outer loop: a component with no module sets the status to \<open>EINVAL\<close> and the
  loop goes on. A component whose value is not an object has no objects.\<close>

fun set_components ::
  "'w MODULE_SESSION list \<Rightarrow> JSON_Object \<Rightarrow> int \<times> 'w \<Rightarrow> (int \<times> 'w) option" where
  "set_components mss [] (status, w) = Some (status, w)"
| "set_components mss ((c, v) # kvs) (status, w) =
     (case FindModuleSession mss (Some c) of
        None \<Rightarrow> None
      | Some None \<Rightarrow> set_components mss kvs (EINVAL, w)
      | Some (Some ms) \<Rightarrow>
          set_components mss kvs
            (case json_value_get_object (Some v) of
               None \<Rightarrow> (status, w)
             | Some objs \<Rightarrow> set_objects ms c objs (status, w)))"

text \<open>
  The payload is the caller's buffer of \<open>payloadSizeBytes\<close> bytes and the byte after it;
  \<open>MpiSetDesired\<close> copies both and parses the copy.
\<close>

definition MpiSetDesired ::
  "alloc \<Rightarrow> cstr \<Rightarrow> cstr \<Rightarrow> int \<Rightarrow> 'w manager \<Rightarrow> 'w \<Rightarrow> (int \<times> 'w) option" where
  "MpiSetDesired m hdl payload sz st w =
     (case (hdl, payload) of
        (Some u, Some text) \<Rightarrow>
          if sz \<le> 0 then Some (EINVAL, w)
          else (case g_sessions st of
             Freed \<Rightarrow> None
           | Live ss \<Rightarrow>
               (case FindSession ss u of
                  None \<Rightarrow> Some (EINVAL, w)
                | Some s \<Rightarrow>
                    if \<not> m ''MpiSetDesired.json'' 0 then Some (ENOMEM, w)
                    else if length text < nat sz then None
                    else (case json_parse_string (Some (take (nat sz + 1) text)) of
                       None \<Rightarrow> Some (EINVAL, w)
                     | Some rt \<Rightarrow>
                         (case json_value_get_object (Some rt) of
                            None \<Rightarrow> Some (MPI_OK, w)
                          | Some kvs \<Rightarrow> set_components (modules s) kvs (MPI_OK, w)))))
      | _ \<Rightarrow> Some (EINVAL, w))"

subsection \<open>MpiGetReported\<close>

text \<open>\<open>memcpy\<close> of \<open>n\<close> bytes from a payload: undefined unless the payload has them.\<close>

definition buffer_bytes :: "cstr \<Rightarrow> int \<Rightarrow> string option" where
  "buffer_bytes buf n =
     (if n < 0 then None
      else case buf of
        None \<Rightarrow> if n = 0 then Some [] else None
      | Some bs \<Rightarrow> if nat n \<le> length bs then Some (take (nat n) bs) else None)"

text \<open>The value of a component in the report: an object, created when it is not there.\<close>

definition put_reported :: "JSON_Object \<Rightarrow> string \<Rightarrow> string \<Rightarrow> JSON_Value \<Rightarrow> JSON_Object" where
  "put_reported rt c ob v =
     (let cv = (case json_object_get_value (Some rt) (Some c) of
                  None \<Rightarrow> JSONObject [] | Some x \<Rightarrow> x)
      in case json_value_get_object (Some cv) of
           None \<Rightarrow> rt
         | Some kvs \<Rightarrow> json_object_set_value rt c (JSONObject (json_object_set_value kvs ob v)))"

text \<open>One iteration. \<open>malloc\<close> of a negative size fails. A \<open>NULL\<close> object name makes \<open>json_object_set_value\<close> fail, which
  leaves the component's (possibly new) object in place.\<close>

definition report_one ::
  "alloc \<Rightarrow> nat \<Rightarrow> 'w MODULE_SESSION list \<Rightarrow> REPORTED_OBJECT \<Rightarrow> JSON_Object \<times> 'w \<Rightarrow>
   (JSON_Object \<times> 'w) option" where
  "report_one m i mss r rw =
     (case rw of (rt, w) \<Rightarrow>
       (case FindModuleSession mss (component r) of
          None \<Rightarrow> None
        | Some None \<Rightarrow> Some (rt, w)
        | Some (Some ms) \<Rightarrow>
            (let ((status, payload, sz), w1) =
                   mmiGet (entry (module ms)) (handle ms) (component r) (object r) w;
                 w2 = mmiFree (entry (module ms)) payload w1
             in if status \<noteq> MMI_OK \<or> sz < - 1 \<or> \<not> m ''payloadJson'' i then Some (rt, w2)
                else (case buffer_bytes payload sz of
                   None \<Rightarrow> None
                 | Some bytes \<Rightarrow>
                     (case json_parse_string (Some bytes) of
                        None \<Rightarrow> Some (rt, w2)
                      | Some v \<Rightarrow>
                          (case (component r, object r) of
                             (Some c, Some ob) \<Rightarrow> Some (put_reported rt c ob v, w2)
                           | (Some c, None) \<Rightarrow>
                               Some ((if json_object_get_value (Some rt) (Some c) = None
                                      then json_object_set_value rt c (JSONObject []) else rt), w2)
                           | _ \<Rightarrow> Some (rt, w2)))))))"

fun report_all ::
  "alloc \<Rightarrow> nat \<Rightarrow> 'w MODULE_SESSION list \<Rightarrow> REPORTED_OBJECT list \<Rightarrow> JSON_Object \<times> 'w \<Rightarrow>
   (JSON_Object \<times> 'w) option" where
  "report_all m i mss [] rw = Some rw"
| "report_all m i mss (r # rs) rw =
     (case report_one m i mss r rw of
        None \<Rightarrow> None
      | Some rw' \<Rightarrow> report_all m (Suc i) mss rs rw')"

definition MpiGetReported ::
  "alloc \<Rightarrow> cstr \<Rightarrow> 'w manager \<Rightarrow> 'w \<Rightarrow> ((int \<times> (cstr \<times> int) option) \<times> 'w) option" where
  "MpiGetReported m hdl st w =
     (case hdl of
        None \<Rightarrow> Some ((EINVAL, None), w)
      | Some u \<Rightarrow>
          (case g_sessions st of
             Freed \<Rightarrow> None
           | Live ss \<Rightarrow>
               (case FindSession ss u of
                  None \<Rightarrow> Some ((EINVAL, None), w)
                | Some s \<Rightarrow>
                    if \<not> m ''rootValue'' 0 then Some ((ENOMEM, None), w)
                    else
                      (case (if g_reportedTotal st = 0 then Some ([], w)
                             else case g_reported st of
                               Freed \<Rightarrow> None
                             | Live rs \<Rightarrow>
                                 report_all m 0 (modules s) (take (g_reportedTotal st) rs) ([], w)) of
                         None \<Rightarrow> None
                       | Some (rt, w') \<Rightarrow>
                           let js = json_serialize_r True 0 (JSONObject rt)
                           in Some ((MPI_OK, Some (Some js, c_int (int (length js)))), w')))))"

subsection \<open>The invariant\<close>

text \<open>
  Nothing was freed, every module session belongs to a loaded module, every loaded module
  has a well formed description, and the reported objects that are counted are there.
\<close>

definition session_ok :: "'w MODULE list \<Rightarrow> 'w SESSION \<Rightarrow> bool" where
  "session_ok mods s \<longleftrightarrow> (\<forall>ms \<in> set (modules s). module ms \<in> set mods)"

definition manager_ok :: "'w manager \<Rightarrow> bool" where
  "manager_ok st \<longleftrightarrow>
     (\<exists>ss mods rs. g_sessions st = Live ss \<and> g_modules st = Live mods \<and> g_reported st = Live rs \<and>
        (\<forall>s \<in> set ss. session_ok mods s) \<and> (\<forall>md \<in> set mods. info_ok (info md)) \<and>
        g_reportedTotal st \<le> length rs)"

lemma manager_okE:
  assumes "manager_ok st"
  obtains ss mods rs where "g_sessions st = Live ss" "g_modules st = Live mods"
    "g_reported st = Live rs" "\<forall>s \<in> set ss. session_ok mods s"
    "\<forall>md \<in> set mods. info_ok (info md)" "g_reportedTotal st \<le> length rs"
  using assms by (auto simp: manager_ok_def)

lemma manager_ok_initial: "manager_ok initial_manager"
  by (simp add: manager_ok_def initial_manager_def)

lemma length_load_reported_all: "length (fst (load_reported_all m i vs)) = length vs"
  by (induction vs arbitrary: i) (auto simp: split_beta Let_def)

lemma load_reported_all_count: "snd (load_reported_all m i vs) \<le> length vs"
  by (induction vs arbitrary: i) (auto simp: split_beta Let_def le_SucI)

lemma manager_ok_load_reported_config:
  "manager_ok st \<Longrightarrow> manager_ok (load_reported_config m obj st)"
  by (auto simp: manager_ok_def load_reported_config_def split_beta Let_def
      length_load_reported_all load_reported_all_count split: option.splits)

lemma load_entries_keeps:
  "load_entries ma dl cn dir i es (mods, w) = (mods', w') \<Longrightarrow>
   (\<forall>md \<in> set mods. info_ok (info md)) \<Longrightarrow>
   (\<forall>md \<in> set mods'. info_ok (info md)) \<and> set mods \<subseteq> set mods'"
proof (induction es arbitrary: i mods w)
  case (Cons e es)
  show ?case
  proof (cases "LoadModule (ma i) dl cn (Some (dir @ ''/'' @ snd e)) w")
    case (Pair r w1)
    show ?thesis
    proof (cases r)
      case None
      then show ?thesis using Cons Pair by (auto split: if_splits)
    next
      case (Some md)
      then have "info_ok (info md)" using Pair LoadModule_info_ok by auto
      then show ?thesis
        using Cons.prems Cons.IH [of "Suc i" mods w] Cons.IH [of "Suc i" "md # mods" w1] Pair Some
        by (auto split: if_splits)
    qed
  qed
qed auto

lemma session_ok_mono: "session_ok mods s \<Longrightarrow> set mods \<subseteq> set mods' \<Longrightarrow> session_ok mods' s"
  by (auto simp: session_ok_def)

lemma manager_ok_LoadModules:
  assumes "manager_ok st"
  shows "\<exists>st' w'. LoadModules m ma dev directory configJson st w = Some (st', w') \<and> manager_ok st'"
proof -
  from assms obtain ss mods rs where st: "g_sessions st = Live ss" "g_modules st = Live mods"
    "g_reported st = Live rs" "\<forall>s \<in> set ss. session_ok mods s"
    "\<forall>md \<in> set mods. info_ok (info md)" "g_reportedTotal st \<le> length rs"
    by (rule manager_okE)
  have dir: "manager_ok (st\<lparr>g_modules := Live mods'\<rparr>)"
    if "load_modules_dir m ma dev dir ver mods w = (mods', w')" for dir ver mods' w'
  proof -
    have "(\<forall>md \<in> set mods'. info_ok (info md)) \<and> set mods \<subseteq> set mods'"
      using that st(5) by (auto simp: load_modules_dir_def Let_def dest: load_entries_keeps split: option.splits)
    then show ?thesis using st by (auto simp: manager_ok_def intro: session_ok_mono)
  qed
  show ?thesis
    using assms dir st(2)
    by (auto simp: LoadModules_def Let_def intro: manager_ok_load_reported_config split: option.splits prod.splits)
qed

lemma open_modules_members:
  "open_modules m i cn mx mds (mss, w) = (mss', w') \<Longrightarrow>
   module ` set mss' \<subseteq> module ` set mss \<union> set mds"
  by (induction mds arbitrary: i mss w) (fastforce simp: Let_def split: if_splits prod.splits)+

lemma manager_ok_MpiOpen:
  assumes "manager_ok st"
  shows "\<exists>h st' w'. MpiOpen m rnd cn mx st w = Some (h, st', w') \<and> manager_ok st'"
proof -
  from assms obtain ss mods rs where st: "g_sessions st = Live ss" "g_modules st = Live mods"
    "g_reported st = Live rs" "\<forall>s \<in> set ss. session_ok mods s"
    "\<forall>md \<in> set mods. info_ok (info md)" "g_reportedTotal st \<le> length rs"
    by (rule manager_okE)
  have "session_ok mods \<lparr>uuid = u, client = c, modules = mss\<rparr>"
    if "open_modules m 0 c mx mods ([], w) = (mss, w')" for u c mss w'
    using open_modules_members [OF that] by (auto simp: session_ok_def)
  then show ?thesis
    using st assms
    by (auto simp: MpiOpen_def manager_ok_def split: option.splits list.splits prod.splits)
qed

lemma set_remove_session: "set (remove_session u ss) \<subseteq> set ss"
  by (induction u ss rule: remove_session.induct) auto

lemma manager_ok_MpiClose:
  assumes "manager_ok st"
  shows "\<exists>st' w'. MpiClose h st w = Some (st', w') \<and> manager_ok st'"
  using assms set_remove_session
  by (elim manager_okE)
    (fastforce simp: MpiClose_def manager_ok_def split: option.splits)

subsection \<open>Sessions\<close>

lemma FindSession_uuid: "FindSession ss u = Some s \<Longrightarrow> uuid s = u \<and> s \<in> set ss"
  by (auto simp: FindSession_def find_Some_iff)

lemma FindSession_head [simp]: "uuid s = u \<Longrightarrow> FindSession (s # ss) u = Some s"
  by (simp add: FindSession_def)

lemma FindSession_other: "uuid s \<noteq> u \<Longrightarrow> FindSession (s # ss) u = FindSession ss u"
  by (simp add: FindSession_def)

lemma remove_session_other:
  "u' \<noteq> u \<Longrightarrow> FindSession (remove_session u ss) u' = FindSession ss u'"
  by (induction u ss rule: remove_session.induct) (auto simp: FindSession_def)

text \<open>An open that got its memory: the session that is added.\<close>

lemma MpiOpen_all_ok:
  assumes "g_modules st = Live mds" "mds \<noteq> []" "g_sessions st = Live ss"
  shows "\<exists>u mss w'. GenerateUuid all_ok rnd = Some u \<and>
    open_modules all_ok 0 cn mx mds ([], w) = (mss, w') \<and>
    MpiOpen all_ok rnd (Some cn) mx st w =
      Some (Some u, st\<lparr>g_sessions := Live (\<lparr>uuid = u, client = cn, modules = mss\<rparr> # ss)\<rparr>, w')"
  using assms
  by (cases "open_modules all_ok 0 cn mx mds ([], w)")
    (auto simp: MpiOpen_def GenerateUuid_def split: list.splits)

text \<open>Every module gets a session, in the reverse of the list order.\<close>

lemma open_modules_all_ok:
  "open_modules all_ok i cn mx mds (mss, w) = (mss', w') \<Longrightarrow> map module mss' = rev mds @ map module mss"
  by (induction mds arbitrary: i mss w) (auto simp: split_beta Let_def)

subsection \<open>Routing\<close>

lemma FindModuleSession_Some:
  "FindModuleSession mss (Some c) = Some (find (\<lambda>ms. c \<in> set (components (info (module ms)))) mss)"
  by (induction mss) (auto simp: ComponentExists_def)

lemma route_not_crash: "g_sessions st = Live ss \<Longrightarrow> route u c st \<noteq> None"
  by (auto simp: route_def FindModuleSession_Some split: option.splits)

lemma route_eq:
  "g_sessions st = Live ss \<Longrightarrow>
   route u c st = Some (case FindSession ss u of
      None \<Rightarrow> Inl EINVAL
    | Some s \<Rightarrow> (case find (\<lambda>ms. c \<in> set (components (info (module ms)))) (modules s) of
        None \<Rightarrow> Inl EINVAL | Some ms \<Rightarrow> Inr ms))"
  by (auto simp: route_def FindModuleSession_Some split: option.splits)

subsection \<open>The calls of MpiSetDesired\<close>

text \<open>
  The calls a desired configuration makes, in document order: the specification of the two
  loops. An entry is the call for one object or, \<open>None\<close>, a component with no module.
\<close>

definition desired_calls ::
  "'w MODULE_SESSION list \<Rightarrow> JSON_Object \<Rightarrow> ('w MODULE_SESSION \<times> string \<times> string \<times> JSON_Value) option list" where
  "desired_calls mss kvs =
     concat (map (\<lambda>(c, v).
       case find (\<lambda>ms. c \<in> set (components (info (module ms)))) mss of
         None \<Rightarrow> [None]
       | Some ms \<Rightarrow>
           (case json_value_get_object (Some v) of
              None \<Rightarrow> []
            | Some objs \<Rightarrow> map (\<lambda>(ob, x). Some (ms, c, ob, x)) objs)) kvs)"

definition desired_call ::
  "('w MODULE_SESSION \<times> string \<times> string \<times> JSON_Value) option \<Rightarrow> int \<times> 'w \<Rightarrow> int \<times> 'w" where
  "desired_call call sw =
     (case call of
        None \<Rightarrow> (EINVAL, snd sw)
      | Some (ms, c, ob, v) \<Rightarrow>
          (let js = json_serialize_r False 0 v
           in mmiSet (entry (module ms)) (handle ms) (Some c) (Some ob) (Some js)
                (c_int (int (length js))) (snd sw)))"

lemma desired_call_None [simp]: "desired_call None sw = (EINVAL, snd sw)"
  by (simp add: desired_call_def)

lemma set_objects_fold:
  "set_objects ms c objs sw = fold desired_call (map (\<lambda>(ob, v). Some (ms, c, ob, v)) objs) sw"
proof (induction objs arbitrary: sw)
  case Nil
  show ?case by (cases sw) simp
next
  case (Cons kv objs)
  then show ?case by (cases kv; cases sw) (simp add: desired_call_def Let_def)
qed

lemma set_components_fold:
  "set_components mss kvs sw = Some (fold desired_call (desired_calls mss kvs) sw)"
proof (induction kvs arbitrary: sw)
  case Nil
  then show ?case by (cases sw) (simp add: desired_calls_def)
next
  case (Cons kv kvs)
  obtain c v status w where eq: "kv = (c, v)" "sw = (status, w)" by (cases kv; cases sw)
  show ?case
    by (auto simp: eq FindModuleSession_Some Cons.IH set_objects_fold desired_calls_def
        split: option.splits)
qed

text \<open>The status of a desired configuration is that of its last call.\<close>

lemma desired_last:
  "calls \<noteq> [] \<Longrightarrow> \<exists>w'. fold desired_call calls sw = desired_call (last calls) (s, w')"
proof (induction calls arbitrary: sw)
  case (Cons call calls)
  show ?case
  proof (cases "calls = []")
    case True
    then show ?thesis by (auto simp: desired_call_def split: option.splits prod.splits)
  next
    case False
    then show ?thesis using Cons.IH [of "desired_call call sw"] by simp
  qed
qed simp

subsection \<open>The report of MpiGetReported\<close>

text \<open>The report under construction: an object of objects.\<close>

definition report_ok :: "JSON_Object \<Rightarrow> bool" where
  "report_ok rt \<longleftrightarrow> distinct (map fst rt) \<and>
     (\<forall>c x. map_of rt c = Some x \<longrightarrow> (\<exists>kvs. x = JSONObject kvs \<and> distinct (map fst kvs)))"

definition report_value :: "JSON_Object \<Rightarrow> string \<times> string \<Rightarrow> JSON_Value option" where
  "report_value rt key =
     (case map_of rt (fst key) of
        Some (JSONObject kvs) \<Rightarrow> map_of kvs (snd key)
      | _ \<Rightarrow> None)"

abbreviation report_put :: "JSON_Object \<Rightarrow> string \<times> string \<Rightarrow> JSON_Value \<Rightarrow> JSON_Object" where
  "report_put rt key v \<equiv> put_reported rt (fst key) (snd key) v"

lemma put_reported_eq:
  assumes "report_ok rt"
  shows "put_reported rt c ob v =
    json_object_set_value rt c (JSONObject (json_object_set_value
      (case map_of rt c of Some (JSONObject kvs) \<Rightarrow> kvs | _ \<Rightarrow> []) ob v))"
proof (cases "map_of rt c")
  case None
  then show ?thesis by (simp add: put_reported_def json_object_get_value_def)
next
  case (Some x)
  then obtain kvs where "x = JSONObject kvs" using assms unfolding report_ok_def by blast
  with Some show ?thesis by (simp add: put_reported_def json_object_get_value_def)
qed

lemma report_value_set:
  "report_value (json_object_set_value rt c (JSONObject kvs)) (c', ob) =
   (if c' = c then map_of kvs ob else report_value rt (c', ob))"
  by (simp add: report_value_def map_of_json_object_set_value)

text \<open>It is a store keyed by component and object names.\<close>

interpretation report: keyed_store report_value report_put report_ok
proof unfold_locales
  fix rt :: JSON_Object and key :: "string \<times> string" and v :: JSON_Value
  assume ok: "report_ok rt"
  let ?kvs = "case map_of rt (fst key) of Some (JSONObject kvs) \<Rightarrow> kvs | _ \<Rightarrow> []"
  have old: "map_of ?kvs ob = report_value rt (fst key, ob)" for ob
    using ok by (auto simp: report_value_def report_ok_def split: option.splits JSON_Value.splits)
  have dist: "distinct (map fst ?kvs)"
  proof (cases "map_of rt (fst key)")
    case (Some x)
    then obtain kvs where "x = JSONObject kvs" "distinct (map fst kvs)"
      using ok unfolding report_ok_def by blast
    with Some show ?thesis by simp
  qed simp
  have "report_value (report_put rt key v) (c, ob) = ((report_value rt)(key \<mapsto> v)) (c, ob)" for c ob
    using old [of ob]
    by (cases key; cases "c = fst key")
      (simp_all add: put_reported_eq [OF ok] report_value_set map_of_json_object_set_value)
  then show "report_value (report_put rt key v) = (report_value rt)(key \<mapsto> v)"
    by (simp add: fun_eq_iff split_paired_all)
  show "report_ok (report_put rt key v)"
    using ok dist
    by (auto simp: put_reported_eq [OF ok] report_ok_def map_of_json_object_set_value
        distinct_json_object_set_value)
qed

text \<open>
  What one reported object contributes: the value its module delivers, when it does, and the
  world afterwards.
\<close>

definition reported_get ::
  "alloc \<Rightarrow> nat \<Rightarrow> 'w MODULE_SESSION list \<Rightarrow> string \<Rightarrow> string \<Rightarrow> 'w \<Rightarrow> JSON_Value option \<times> 'w" where
  "reported_get m i mss c ob w =
     (case find (\<lambda>ms. c \<in> set (components (info (module ms)))) mss of
        None \<Rightarrow> (None, w)
      | Some ms \<Rightarrow>
          (case mmiGet (entry (module ms)) (handle ms) (Some c) (Some ob) w of
             ((status, payload, n), w1) \<Rightarrow>
               (if status \<noteq> MMI_OK \<or> \<not> m ''payloadJson'' i then None
                else json_parse_string (map_option (take (nat n)) payload),
                mmiFree (entry (module ms)) payload w1)))"

fun reported_entries ::
  "alloc \<Rightarrow> nat \<Rightarrow> 'w MODULE_SESSION list \<Rightarrow> (string \<times> string) list \<Rightarrow> 'w \<Rightarrow>
   ((string \<times> string) \<times> JSON_Value) list \<times> 'w" where
  "reported_entries m i mss [] w = ([], w)"
| "reported_entries m i mss ((c, ob) # rs) w =
     (let (r, w1) = reported_get m i mss c ob w;
          (es, w2) = reported_entries m (Suc i) mss rs w1
      in ((case r of None \<Rightarrow> es | Some v \<Rightarrow> ((c, ob), v) # es), w2))"

abbreviation complete_report :: "string \<times> string \<Rightarrow> REPORTED_OBJECT" where
  "complete_report key \<equiv> \<lparr>component = Some (fst key), object = Some (snd key)\<rparr>"

text \<open>
  The contract of a module the manager relies on: a successful \<open>MmiGet\<close> delivers a payload
  that has the announced number of bytes.
\<close>

locale mmi_module =
  fixes e :: "'w mmi"
  assumes get_delivers:
    "mmiGet e h c ob w = ((MMI_OK, p, n), w') \<Longrightarrow> \<exists>bs. p = Some bs \<and> 0 \<le> n \<and> nat n \<le> length bs"
begin

lemma get_buffer:
  "mmiGet e h c ob w = ((MMI_OK, p, n), w') \<Longrightarrow>
   buffer_bytes p n = map_option (take (nat n)) p \<and> p \<noteq> None \<and> \<not> n < - 1"
  using get_delivers [of h c ob w p n w'] by (auto simp: buffer_bytes_def)

end

lemma report_one_eq:
  assumes "\<forall>ms \<in> set mss. mmi_module (entry (module ms))"
  shows "report_one m i mss (complete_report (c, ob)) (rt, w) =
    (case reported_get m i mss c ob w of
       (None, w') \<Rightarrow> Some (rt, w') | (Some v, w') \<Rightarrow> Some (put_reported rt c ob v, w'))"
proof (cases "find (\<lambda>ms. c \<in> set (components (info (module ms)))) mss")
  case None
  then show ?thesis by (simp add: report_one_def reported_get_def FindModuleSession_Some)
next
  case (Some ms)
  then have ms: "mmi_module (entry (module ms))" using assms by (auto simp: find_Some_iff)
  obtain status p n w1 where get:
    "mmiGet (entry (module ms)) (handle ms) (Some c) (Some ob) w = ((status, p, n), w1)"
    by (metis prod.exhaust)
  show ?thesis
    using mmi_module.get_buffer [OF ms, of "handle ms" "Some c" "Some ob" w p n w1] get Some
    by (cases p) (auto simp: report_one_def reported_get_def FindModuleSession_Some Let_def
        split: option.splits)
qed

lemma report_all_eq:
  assumes "\<forall>ms \<in> set mss. mmi_module (entry (module ms))"
  shows "report_all m i mss (map complete_report keys) (rt, w) =
    (case reported_entries m i mss keys w of
       (es, w') \<Rightarrow> Some (fold (\<lambda>(k, v) rt. report_put rt k v) es rt, w'))"
proof (induction keys arbitrary: i rt w)
  case (Cons key keys)
  obtain c ob where key: "key = (c, ob)" by (cases key)
  obtain r w1 where r: "reported_get m i mss c ob w = (r, w1)" by (cases "reported_get m i mss c ob w")
  show ?case
    using report_one_eq [OF assms, of m i c ob rt w] r
    by (cases r) (simp_all add: key Cons.IH Let_def split: prod.splits)
qed simp

end
