(* ===== verification/MpiClient.thy ===== *)
theory MpiClient
  imports Sockets ParsonText ModulesManager
begin

text \<open>
  The MPI client (\<open>src/common/mpiclient/MpiClient.c\<close>) through which the adapters and the
  agents reach the platform: one request and one response per call, over a local socket.
  \<open>CallMpiFree\<close> frees a payload and has no other effect.

  The names of the client's calls are those of \<open>MpiServer.c\<close>, with the suffix \<open>_client\<close>. The
  output pointers of the calls are never \<open>NULL\<close> in their callers.
\<close>

subsection \<open>The transport\<close>

text \<open>
  What the operating system answers: the status of \<open>CheckFileAccess\<close> and \<open>SetFileAccess\<close> on the
  socket, the \<open>errno\<close> with which a socket call fails, if it does, the \<open>errno\<close> a short read
  leaves, the bytes the peer in state \<open>'s\<close> writes back to a request, and the portions in
  which they are read.
\<close>

record 's transport =
  checkAccess :: int
  setAccess :: int
  socketError :: "int option"
  connectError :: "int option"
  sendError :: "int option"
  readErrno :: int
  exchange :: "string \<Rightarrow> 's \<Rightarrow> string \<times> 's"
  readCap :: reader

definition errno_or_EIO :: "int \<Rightarrow> int" where
  "errno_or_EIO e = (if e \<noteq> 0 then e else EIO)"

subsection \<open>CallMpi\<close>

text \<open>The text of a request before the content length, and \<open>strlen(dataFormat)\<close>.\<close>

definition request_head :: "string \<Rightarrow> string" where
  "request_head uri =
     ''POST /'' @ uri @ ''/ HTTP/1.1'' @ CRLF @ ''Host: OSConfig'' @ CRLF @ ''User-Agent: OSConfig'' @ CRLF @
     ''Accept: */*'' @ CRLF @ ''Content-Type: application/json'' @ CRLF @ ''Content-Length: ''"

definition data_format_length :: nat where
  "data_format_length = length (request_head ''%s'' @ ''%d'' @ CRLF @ CRLF @ ''%s'')"

text \<open>\<open>snprintf\<close> into a buffer of the estimated size.\<close>

definition request_data :: "string \<Rightarrow> string \<Rightarrow> string" where
  "request_data uri request =
     (let estimated = length uri + data_format_length + length request +
                        length (print_int (c_int (int (length request)))) + 1
      in take (estimated - 1)
           (request_head uri @ print_int (c_int (int (length request))) @ CRLF @ CRLF @ request))"

text \<open>
  The part that reads the response: the status, the buffer and the size. \<open>malloc\<close> of a
  negative size fails; for the size \<open>-1\<close> it is asked for no bytes and the failing \<open>read\<close>
  returns the announced size.
\<close>

definition read_response ::
  "alloc \<Rightarrow> 's transport \<Rightarrow> string \<Rightarrow> int \<times> cstr \<times> int" where
  "read_response m io input =
     (case ReadHttpStatusFromSocket m (readCap io) input of
        (http, r1) \<Rightarrow>
          (let status = (if http = 200 then MPI_OK else http)
           in case ReadHttpContentLengthFromSocket m r1 of
                (n, r2) \<Rightarrow>
                  if n < - 1 \<or> \<not> m ''CallMpi.response'' 0 then (ENOMEM, None, 0)
                  else if n = - 1 then (status, Some [], n)
                  else (case sock_read (readCap io) (nat n) r2 of
                     (b, _) \<Rightarrow>
                       ((if int (length b) \<noteq> n then errno_or_EIO (readErrno io) else status),
                        Some b, n))))"

definition CallMpi ::
  "alloc \<Rightarrow> 's transport \<Rightarrow> cstr \<Rightarrow> cstr \<Rightarrow> 's \<Rightarrow> (int \<times> cstr \<times> int) \<times> 's" where
  "CallMpi m io nm request st =
     (case (nm, request) of
        (Some uri, Some body) \<Rightarrow>
          if checkAccess io \<noteq> 0 \<and> setAccess io \<noteq> 0 then ((setAccess io, None, 0), st)
          else if \<not> m ''CallMpi.data'' 0 then ((ENOMEM, None, 0), st)
          else (case socketError io of
             Some e \<Rightarrow> ((errno_or_EIO e, None, 0), st)
           | None \<Rightarrow>
               (case connectError io of
                  Some e \<Rightarrow> ((errno_or_EIO e, None, 0), st)
                | None \<Rightarrow>
                    (case sendError io of
                       Some e \<Rightarrow> ((errno_or_EIO e, None, 0), st)
                     | None \<Rightarrow>
                         (let (input, st') = exchange io (request_data uri body) st
                          in (read_response m io input, st')))))
      | _ \<Rightarrow> ((EINVAL, None, 0), st))"

text \<open>A buffer is read as the C string it holds.\<close>

definition ParseString :: "alloc \<Rightarrow> cstr \<Rightarrow> cstr" where
  "ParseString m jsonString =
     (case json_parse_string jsonString of
        None \<Rightarrow> None
      | Some v \<Rightarrow>
          (case json_value_get_string (Some v) of
             None \<Rightarrow> None
           | Some s \<Rightarrow> if m ''ParseString.strdup'' 0 then Some s else None))"

text \<open>The status in the body of an error response.\<close>

definition status_from_response :: "alloc \<Rightarrow> cstr \<Rightarrow> int" where
  "status_from_response m response =
     (case ParseString m response of None \<Rightarrow> EINVAL | Some s \<Rightarrow> atoi s)"

subsection \<open>Opening and closing\<close>

text \<open>The unsigned size is printed with \<open>%d\<close>.\<close>

definition open_request :: "string \<Rightarrow> 32 word \<Rightarrow> string" where
  "open_request clientName maxSize =
     (let number = print_int (sint maxSize);
          requestSize = length (''{ \"ClientName\": \"%s\", \"MaxPayloadSizeBytes\": %d }'') +
                          length clientName + length number + 1
      in take (requestSize - 1)
           (''{ \"ClientName\": \"'' @ clientName @ ''\", \"MaxPayloadSizeBytes\": '' @ number @ '' }''))"

text \<open>The handle is the JSON string with its quotes.\<close>

definition CallMpiOpen_client ::
  "alloc \<Rightarrow> 's transport \<Rightarrow> cstr \<Rightarrow> 32 word \<Rightarrow> 's \<Rightarrow> cstr \<times> 's" where
  "CallMpiOpen_client m io clientName maxSize st =
     (case clientName of
        None \<Rightarrow> (None, st)
      | Some cn \<Rightarrow>
          if \<not> m ''CallMpiOpen.request'' 0 then (None, st)
          else (let ((status, response, sz), st') =
                      CallMpi m io (Some ''MpiOpen'') (Some (open_request cn maxSize)) st
                in (if status = MPI_OK \<and> ParseString m response \<noteq> None
                    then map_option c_string response else None, st')))"

definition close_request :: "string \<Rightarrow> string" where
  "close_request hdl =
     take (length (''{ \"ClientSession\": %s }'') + length hdl)
       (''{ \"ClientSession\": '' @ hdl @ '' }'')"

definition CallMpiClose_client :: "alloc \<Rightarrow> 's transport \<Rightarrow> cstr \<Rightarrow> 's \<Rightarrow> 's" where
  "CallMpiClose_client m io hdl st =
     (case hdl of
        None \<Rightarrow> st
      | Some h \<Rightarrow>
          if h = [] \<or> \<not> m ''CallMpiClose.request'' 0 then st
          else snd (CallMpi m io (Some ''MpiClose'') (Some (close_request h)) st))"

subsection \<open>Setting and getting\<close>

text \<open>
  The payload is printed up to its terminator, and cut where the buffer that
  \<open>payloadSizeBytes\<close> gives ends.
\<close>

definition set_request :: "string \<Rightarrow> string \<Rightarrow> string \<Rightarrow> string \<Rightarrow> nat \<Rightarrow> string" where
  "set_request hdl c ob payload sz =
     take (length (''{ \"ClientSession\": %s, \"ComponentName\": \"%s\", \"ObjectName\": \"%s\", \"Payload\": %s }'') +
             length hdl + length c + length ob + sz)
       (''{ \"ClientSession\": '' @ hdl @ '', \"ComponentName\": \"'' @ c @ ''\", \"ObjectName\": \"'' @ ob @
        ''\", \"Payload\": '' @ payload @ '' }'')"

definition CallMpiSet_client ::
  "alloc \<Rightarrow> 's transport \<Rightarrow> cstr \<Rightarrow> cstr \<Rightarrow> cstr \<Rightarrow> cstr \<Rightarrow> int \<Rightarrow> 's \<Rightarrow> int \<times> 's" where
  "CallMpiSet_client m io g_mpiHandle componentName propertyName payload payloadSizeBytes st =
     (case g_mpiHandle of
        None \<Rightarrow> (EPERM, st)
      | Some h \<Rightarrow>
          if h = [] then (EPERM, st)
          else (case (componentName, propertyName, payload) of
             (Some c, Some ob, Some p) \<Rightarrow>
               if payloadSizeBytes \<le> 0 then (EINVAL, st)
               else if \<not> m ''CallMpiSet.request'' 0 then (ENOMEM, st)
               else (let ((status, response, sz), st') =
                           CallMpi m io (Some ''MpiSet'')
                             (Some (set_request h c ob p (nat payloadSizeBytes))) st
                     in (if response \<noteq> None \<and> 0 < sz then status_from_response m response
                         else status, st'))
           | _ \<Rightarrow> (EINVAL, st)))"

definition get_request :: "string \<Rightarrow> string \<Rightarrow> string \<Rightarrow> string" where
  "get_request hdl c ob =
     take (length (''{ \"ClientSession\": %s, \"ComponentName\": \"%s\", \"ObjectName\": \"%s\" }'') +
             length hdl + length c + length ob)
       (''{ \"ClientSession\": '' @ hdl @ '', \"ComponentName\": \"'' @ c @ ''\", \"ObjectName\": \"'' @ ob @ ''\" }'')"

text \<open>
  What \<open>CallMpiGet\<close> and \<open>CallMpiGetReported\<close> make of a response. With status 500 the body
  is a status; \<open>keep\<close> is whether a malformed one is left in place (\<open>CallMpiGet\<close>) or freed.
  Otherwise the size must be the length of the payload; \<open>strlen\<close> of a buffer of no bytes is
  undefined (\<open>None\<close>).
\<close>

definition get_result ::
  "alloc \<Rightarrow> bool \<Rightarrow> int \<times> cstr \<times> int \<Rightarrow> (int \<times> cstr \<times> int) option" where
  "get_result m keep r =
     (case r of (status, payload, n) \<Rightarrow>
        if status = 500 then
          if payload \<noteq> None \<and> 0 < n then Some (status_from_response m payload, None, 0)
          else Some (EINVAL, (if keep then (payload, n) else (None, 0)))
        else (case payload of
           None \<Rightarrow> Some (status, None, n)
         | Some b \<Rightarrow>
             if n < 0 then None
             else if n \<noteq> int (length (c_string b)) then Some (EINVAL, None, 0)
             else Some (status, payload, n)))"

text \<open>\<open>old\<close> is what the output parameters hold before the call.\<close>

definition CallMpiGet_client ::
  "alloc \<Rightarrow> 's transport \<Rightarrow> cstr \<Rightarrow> cstr \<Rightarrow> cstr \<Rightarrow> cstr \<times> int \<Rightarrow> 's \<Rightarrow>
   (int \<times> cstr \<times> int) option \<times> 's" where
  "CallMpiGet_client m io g_mpiHandle componentName propertyName old st =
     (case g_mpiHandle of
        None \<Rightarrow> (Some (EPERM, old), st)
      | Some h \<Rightarrow>
          if h = [] then (Some (EPERM, old), st)
          else (case (componentName, propertyName) of
             (Some c, Some ob) \<Rightarrow>
               if \<not> m ''CallMpiGet.request'' 0 then (Some (ENOMEM, None, 0), st)
               else (let (r, st') = CallMpi m io (Some ''MpiGet'') (Some (get_request h c ob)) st
                     in (get_result m True r, st'))
           | _ \<Rightarrow> (Some (EINVAL, old), st)))"

definition set_desired_request :: "string \<Rightarrow> string \<Rightarrow> nat \<Rightarrow> string" where
  "set_desired_request hdl payload sz =
     take (length (''{ \"ClientSession\": %s, \"Payload\": %s }'') + length hdl + sz)
       (''{ \"ClientSession\": '' @ hdl @ '', \"Payload\": '' @ payload @ '' }'')"

definition CallMpiSetDesired_client ::
  "alloc \<Rightarrow> 's transport \<Rightarrow> cstr \<Rightarrow> cstr \<Rightarrow> int \<Rightarrow> 's \<Rightarrow> int \<times> 's" where
  "CallMpiSetDesired_client m io g_mpiHandle payload payloadSizeBytes st =
     (case g_mpiHandle of
        None \<Rightarrow> (EPERM, st)
      | Some h \<Rightarrow>
          if h = [] then (EPERM, st)
          else (case payload of
             None \<Rightarrow> (EINVAL, st)
           | Some p \<Rightarrow>
               if payloadSizeBytes \<le> 0 then (EINVAL, st)
               else if \<not> m ''CallMpiSetDesired.request'' 0 then (ENOMEM, st)
               else (let ((status, response, sz), st') =
                           CallMpi m io (Some ''MpiSetDesired'')
                             (Some (set_desired_request h p (nat payloadSizeBytes))) st
                     in (if response \<noteq> None \<and> 0 < sz then status_from_response m response
                         else status, st'))))"

definition CallMpiGetReported_client ::
  "alloc \<Rightarrow> 's transport \<Rightarrow> cstr \<Rightarrow> cstr \<times> int \<Rightarrow> 's \<Rightarrow> (int \<times> cstr \<times> int) option \<times> 's" where
  "CallMpiGetReported_client m io g_mpiHandle old st =
     (case g_mpiHandle of
        None \<Rightarrow> (Some (EPERM, old), st)
      | Some h \<Rightarrow>
          if h = [] then (Some (EPERM, old), st)
          else if \<not> m ''CallMpiGetReported.request'' 0 then (Some (ENOMEM, None, 0), st)
          else (let (r, st') = CallMpi m io (Some ''MpiGetReported'') (Some (close_request h)) st
                in (get_result m False r, st')))"

end
