(* ===== verification/JsonText.thy ===== *)
theory JsonText
  imports ParsonText
begin

text \<open>
  Texts that components write by format strings rather than through the serialiser: an
  object with its members in a fixed layout, a quoted string, a number. The parser reads them
  as the values they denote as long as the strings in them need no escapes.
\<close>

abbreviation plain :: "string \<Rightarrow> bool" where
  "plain s \<equiv> \<forall>c \<in> set s. plain_char c"

lemma not_plain_nul: "\<not> plain_char NUL"
  by (simp add: plain_char_def NUL_def)

lemma plain_nul: "plain k \<Longrightarrow> NUL \<notin> set k"
  using not_plain_nul by blast

text \<open>A text that the parser reads as a value, at any place inside an object.\<close>

definition value_text :: "string \<Rightarrow> JSON_Value \<Rightarrow> bool" where
  "value_text t v \<longleftrightarrow> NUL \<notin> set t \<and> (\<forall>s. num_stop s \<longrightarrow> parse_value MAX_NESTING (t @ s) = Some (v, s))"

fun members_text :: "string \<Rightarrow> string \<Rightarrow> (string \<times> string) list \<Rightarrow> string" where
  "members_text sep stop [] = stop"
| "members_text sep stop [(k, t)] = quoted k @ '': '' @ t @ stop"
| "members_text sep stop ((k, t) # kts) = quoted k @ '': '' @ t @ sep @ members_text sep stop kts"

text \<open>The layouts in use: with and without a space after a comma and before the end.\<close>

definition member_layout :: "string \<Rightarrow> string \<Rightarrow> bool" where
  "member_layout sep stop \<longleftrightarrow> (sep = '', '' \<or> sep = '','') \<and> (stop = '' }'' \<or> stop = ''}'')"

lemma get_quoted_string_quoted:
  "plain k \<Longrightarrow> get_quoted_string (quoted k @ s) = Some (k, s)"
  using get_quoted_string_plain [of k s] by (simp add: quoted_def)

lemma value_text_nul: "value_text t v \<Longrightarrow> NUL \<notin> set t"
  by (simp add: value_text_def)

lemma value_text_parse: "value_text t v \<Longrightarrow> num_stop s \<Longrightarrow> parse_value MAX_NESTING (t @ s) = Some (v, s)"
  unfolding value_text_def by blast

lemma parse_members_member:
  assumes "s \<noteq> []" and "get_quoted_string s = Some (k, s1)" and "NUL \<notin> set k"
    and "skip_ws s1 = CHR '':'' # s2" and "pv s2 = Some (v, s3)" and "map_of acc k = None"
  shows "parse_members pv (Suc n) acc s =
    (case skip_ws s3 of
       [] \<Rightarrow> finish_object (acc @ [(k, v)]) []
     | d # s' \<Rightarrow> if d = CHR '','' then parse_members pv n (acc @ [(k, v)]) (skip_ws s')
                  else finish_object (acc @ [(k, v)]) (d # s'))"
  using assms by (simp add: json_object_add_def)

lemma parse_member_step:
  assumes "plain k" and "map_of acc k = None" and "value_text t v" and "num_stop s"
  shows "parse_members (parse_value MAX_NESTING) (Suc n) acc (quoted k @ '': '' @ t @ s) =
    (case skip_ws s of
       [] \<Rightarrow> finish_object (acc @ [(k, v)]) []
     | d # s' \<Rightarrow> if d = CHR '','' then parse_members (parse_value MAX_NESTING) n (acc @ [(k, v)]) (skip_ws s')
                  else finish_object (acc @ [(k, v)]) (d # s'))"
proof (rule parse_members_member)
  show "quoted k @ '': '' @ t @ s \<noteq> []" by (simp add: quoted_def)
  show "get_quoted_string (quoted k @ '': '' @ t @ s) = Some (k, '': '' @ t @ s)"
    by (rule get_quoted_string_quoted [OF assms(1)])
  show "NUL \<notin> set k" by (rule plain_nul [OF assms(1)])
  show "skip_ws ('': '' @ t @ s) = CHR '':'' # CHR '' '' # t @ s" by (simp add: isspace_def)
  show "parse_value MAX_NESTING (CHR '' '' # t @ s) = Some (v, s)"
    using value_text_parse [OF assms(3,4)] by simp
qed (rule assms(2))

lemma skip_ws_members: "kts \<noteq> [] \<Longrightarrow> skip_ws (members_text sep stop kts) = members_text sep stop kts"
  by (cases "(sep, stop, kts)" rule: members_text.cases) (auto simp: quoted_def)

lemma parse_members_text:
  assumes "list_all2 (\<lambda>(k, t) (k', v). k' = k \<and> value_text t v) kts kvs" and "kts \<noteq> []"
    and "\<forall>(k, t) \<in> set kts. plain k" and "member_layout sep stop"
    and "distinct (map fst kts)" and "fst ` set kts \<inter> fst ` set acc = {}" and "length kts \<le> n"
  shows "parse_members (parse_value MAX_NESTING) n acc (members_text sep stop kts) =
    Some (JSONObject (acc @ kvs), [])"
  using assms
proof (induction sep stop kts arbitrary: kvs acc n rule: members_text.induct)
  case (2 sep stop k t)
  then obtain v where kvs: "kvs = [(k, v)]" "value_text t v" by (auto simp: list_all2_Cons1)
  obtain n' where n: "n = Suc n'" using 2 by (cases n) auto
  have "map_of acc k = None" using 2 by (auto simp: map_of_eq_None_iff)
  then show ?case
    using 2 parse_member_step [of k acc t v stop n'] kvs
    by (auto simp: n finish_object_def member_layout_def simp del: append.simps parse_members.simps)
next
  case (3 sep stop k t x xs)
  then obtain v kvs' where kvs: "kvs = (k, v) # kvs'" "value_text t v"
    "list_all2 (\<lambda>(k, t) (k', v). k' = k \<and> value_text t v) (x # xs) kvs'" by (auto simp: list_all2_Cons1)
  obtain n' where n: "n = Suc n'" "length (x # xs) \<le> n'" using 3 by (cases n) auto
  let ?s = "members_text sep stop (x # xs)"
  have "map_of acc k = None" using 3 by (auto simp: map_of_eq_None_iff)
  moreover have "parse_members (parse_value MAX_NESTING) n' (acc @ [(k, v)]) ?s =
      Some (JSONObject ((acc @ [(k, v)]) @ kvs'), [])"
    using 3 kvs n by (intro "3.IH") auto
  moreover have "skip_ws ?s = ?s" by (rule skip_ws_members) simp
  moreover have "sep = '', '' \<or> sep = '',''" using 3 by (simp add: member_layout_def)
  ultimately show ?case
    using 3 parse_member_step [of k acc t v "sep @ ?s" n'] kvs
    by (auto simp: n simp del: parse_members.simps)
qed simp

lemma members_text_nul:
  "(\<And>k t. (k, t) \<in> set kts \<Longrightarrow> NUL \<notin> set k \<and> NUL \<notin> set t) \<Longrightarrow> member_layout sep stop \<Longrightarrow>
   NUL \<notin> set (members_text sep stop kts)"
proof (induction sep stop kts rule: members_text.induct)
  case (3 sep stop k t x xs)
  then have "NUL \<notin> set (members_text sep stop (x # xs))" by (meson list.set_intros(2))
  moreover have "NUL \<notin> set k \<and> NUL \<notin> set t" using 3(2) by (meson list.set_intros(1))
  moreover have "NUL \<notin> set sep" using 3(3) by (auto simp: member_layout_def NUL_def)
  ultimately show ?case using quoted_nul [of k] by (simp add: NUL_def)
next
  case (2 sep stop k t)
  then have "NUL \<notin> set k \<and> NUL \<notin> set t" by (meson list.set_intros(1))
  moreover have "NUL \<notin> set stop" using 2(2) by (auto simp: member_layout_def NUL_def)
  ultimately show ?case using quoted_nul [of k] by (simp add: NUL_def)
qed (auto simp: member_layout_def NUL_def)

text \<open>An object, written in either layout, with members that are value texts.\<close>

lemma json_parse_members:
  assumes "list_all2 (\<lambda>(k, t) (k', v). k' = k \<and> value_text t v) kts kvs" and "kts \<noteq> []"
    and "\<forall>(k, t) \<in> set kts. plain k" and "distinct (map fst kts)" and "member_layout sep stop"
    and "start = ''{ '' \<or> start = ''{''"
  shows "json_parse_string (Some (start @ members_text sep stop kts)) = Some (JSONObject kvs)"
proof -
  let ?s = "members_text sep stop kts"
  have nul: "NUL \<notin> set ?s"
  proof (rule members_text_nul)
    fix k t assume "(k, t) \<in> set kts"
    then show "NUL \<notin> set k \<and> NUL \<notin> set t"
      using assms(1,3) plain_nul [of k] value_text_nul [of t]
      by (fastforce simp: list_all2_conv_all_nth in_set_conv_nth)
  qed (rule assms(5))
  obtain c s where cs: "?s = c # s" "\<not> isspace c" "c \<noteq> CHR ''}''"
    using assms(2) by (cases "(sep, stop, kts)" rule: members_text.cases) (auto simp: quoted_def)
  have len: "length kts \<le> length ?s"
    by (induction sep stop kts rule: members_text.induct) simp_all
  have "parse_value (MAX_NESTING + 1) (start @ ?s) = Some (JSONObject kvs, [])"
    using parse_members_text [OF assms(1-3,5,4), of "[]" "length (start @ ?s) + 1"] len cs assms(6)
    by (auto simp: parse_object_value_def simp del: parse_members.simps)
  moreover have "NUL \<notin> set start" "\<not> prefix BOM (start @ ?s)"
    using assms(6) by (auto simp: BOM_def NUL_def)
  ultimately show ?thesis using nul by (simp add: json_parse_string_def)
qed

subsection \<open>Values\<close>

lemma value_text_quoted: "plain u \<Longrightarrow> value_text (quoted u) (JSONString u)"
proof -
  assume u: "plain u"
  have "parse_value MAX_NESTING (quoted u @ s) = Some (JSONString u, s)" for s
  proof -
    obtain n where n: "MAX_NESTING = Suc n" by (metis MAX_NESTING_def not0_implies_Suc zero_neq_numeral)
    show ?thesis
      unfolding n using get_quoted_string_quoted [OF u, of s] by (simp add: quoted_def isspace_def parse_string_value_def)
  qed
  then show ?thesis using plain_nul [OF u] by (simp add: value_text_def quoted_nul)
qed

lemma value_text_serialized:
  "json_ok v \<Longrightarrow> json_depth v \<le> MAX_NESTING \<Longrightarrow> value_text (json_serialize_r False 0 v) v"
  using parse_value_serialize serialize_no_nul by (auto simp: value_text_def)

lemma print_int_exact: "\<bar>k\<bar> < 2 ^ 53 \<Longrightarrow> fmt_17g (of_int k) = print_int k"
proof -
  assume k: "\<bar>k\<bar> < 2 ^ 53"
  then have "exact_number (of_int k)" by (simp add: exact_number_def)
  then show ?thesis
  proof (cases rule: exact_number_cases)
    case (1 j)
    then have "k = int j" by (metis of_int_eq_iff of_int_of_nat_eq)
    then show ?thesis using 1(3) by (simp add: print_int_def)
  next
    case (2 j)
    then have "k = - int j" by (metis of_int_eq_iff of_int_minus of_int_of_nat_eq)
    then show ?thesis using 2(2,4) by (simp add: print_int_def)
  qed
qed

lemma value_text_number: "\<bar>k\<bar> < 2 ^ 53 \<Longrightarrow> value_text (print_int k) (JSONNumber (of_int k))"
  using value_text_serialized [of "JSONNumber (of_int k)"] print_int_exact [of k]
  by (simp add: exact_number_def MAX_NESTING_def)

lemma plain_print_int: "plain (print_int x)"
proof -
  have "isdigit c \<Longrightarrow> plain_char c" for c by (auto simp: plain_char_def isdigit_def)
  moreover have "plain_char (CHR ''-'')" by (simp add: plain_char_def)
  ultimately show ?thesis by (auto simp: print_int_def dest: dec_digits)
qed

lemma json_parse_quoted:
  assumes "plain s"
  shows "json_parse_string (Some (quoted s)) = Some (JSONString s)"
proof -
  have "parse_value (MAX_NESTING + 1) (quoted s) = Some (JSONString s, [])"
    using get_quoted_string_quoted [OF assms, of "[]"]
    by (simp add: quoted_def isspace_def parse_string_value_def)
  moreover have "NUL \<notin> set (quoted s)" using plain_nul [OF assms] by (rule quoted_nul)
  moreover have "\<not> prefix BOM (quoted s)" by (simp add: BOM_def quoted_def)
  ultimately show ?thesis by (simp add: json_parse_string_def)
qed

end
