(* ===== verification/MpiServer.thy ===== *)
theory MpiServer
  imports ModulesManager Sockets
begin

text \<open>
  The MPI server (\<open>src/platform/MpiServer.c\<close>): the REST dispatch of a request body to the
  MPI operations, and the worker that serves one connection after the other.

  The dispatch takes the MPI operations as a record of functions on a state \<open>'s\<close>, as
  \<open>HandleMpiCall\<close> takes \<open>MPI_CALLS\<close>; \<open>None\<close> is a crash of the operation. The worker
  instantiates it with the operations of the modules manager.
\<close>

subsection \<open>HTTP status codes\<close>

datatype HTTP_STATUS =
  HTTP_OK | HTTP_BAD_REQUEST | HTTP_NOT_FOUND | HTTP_INTERNAL_SERVER_ERROR

fun http_code :: "HTTP_STATUS \<Rightarrow> int" where
  "http_code HTTP_OK = 200"
| "http_code HTTP_BAD_REQUEST = 400"
| "http_code HTTP_NOT_FOUND = 404"
| "http_code HTTP_INTERNAL_SERVER_ERROR = 500"

fun HttpReasonAsString :: "HTTP_STATUS \<Rightarrow> string" where
  "HttpReasonAsString HTTP_OK = ''OK''"
| "HttpReasonAsString HTTP_BAD_REQUEST = ''Bad Request''"
| "HttpReasonAsString HTTP_NOT_FOUND = ''Not Found''"
| "HttpReasonAsString HTTP_INTERNAL_SERVER_ERROR = ''Internal Server Error''"

subsection \<open>The MPI operations as the dispatcher sees them\<close>

text \<open>A response is the pointer and the size in the two output parameters.\<close>

type_synonym response = "cstr \<times> int"

record 's MPI_CALLS =
  mpiOpen :: "cstr \<Rightarrow> 32 word \<Rightarrow> 's \<Rightarrow> (cstr \<times> 's) option"
  mpiClose :: "cstr \<Rightarrow> 's \<Rightarrow> 's option"
  mpiSet :: "cstr \<Rightarrow> cstr \<Rightarrow> cstr \<Rightarrow> cstr \<Rightarrow> int \<Rightarrow> 's \<Rightarrow> (int \<times> 's) option"
  mpiGet :: "cstr \<Rightarrow> cstr \<Rightarrow> cstr \<Rightarrow> 's \<Rightarrow> ((int \<times> response option) \<times> 's) option"
  mpiSetDesired :: "cstr \<Rightarrow> cstr \<Rightarrow> int \<Rightarrow> 's \<Rightarrow> (int \<times> 's) option"
  mpiGetReported :: "cstr \<Rightarrow> 's \<Rightarrow> ((int \<times> response option) \<times> 's) option"

text \<open>An operation that stores no response leaves the output parameters as they were.\<close>

definition stored :: "response \<Rightarrow> response option \<Rightarrow> response" where
  "stored resp r = (case r of None \<Rightarrow> resp | Some r' \<Rightarrow> r')"

definition SetErrorResponse :: "alloc \<Rightarrow> int \<Rightarrow> response \<Rightarrow> HTTP_STATUS \<times> response" where
  "SetErrorResponse m mpiStatus resp =
     (if mpiStatus = MPI_OK then (HTTP_OK, resp)
      else (HTTP_INTERNAL_SERVER_ERROR,
            if m ''SetErrorResponse'' 0
            then (let body = quoted (print_int mpiStatus) in (Some body, int (length body)))
            else (None, snd resp)))"

subsection \<open>HandleMpiCall\<close>

definition MPI_OPEN_URI :: string where "MPI_OPEN_URI = ''MpiOpen''"
definition MPI_CLOSE_URI :: string where "MPI_CLOSE_URI = ''MpiClose''"
definition MPI_SET_URI :: string where "MPI_SET_URI = ''MpiSet''"
definition MPI_GET_URI :: string where "MPI_GET_URI = ''MpiGet''"
definition MPI_SET_DESIRED_URI :: string where "MPI_SET_DESIRED_URI = ''MpiSetDesired''"
definition MPI_GET_REPORTED_URI :: string where "MPI_GET_REPORTED_URI = ''MpiGetReported''"

lemmas mpi_uris = MPI_OPEN_URI_def MPI_CLOSE_URI_def MPI_SET_URI_def MPI_GET_URI_def
  MPI_SET_DESIRED_URI_def MPI_GET_REPORTED_URI_def

type_synonym 's reply = "(HTTP_STATUS \<times> response \<times> 's) option"

text \<open>A member of the request that must be a string: \<open>None\<close> is \<open>HTTP_BAD_REQUEST\<close>.\<close>

definition string_member :: "JSON_Object \<Rightarrow> string \<Rightarrow> cstr" where
  "string_member kvs k =
     (case json_object_get_value (Some kvs) (Some k) of
        None \<Rightarrow> None
      | Some v \<Rightarrow>
          if json_value_get_type (Some v) \<noteq> TypeString then None
          else json_value_get_string (Some v))"

definition handle_open ::
  "alloc \<Rightarrow> 's MPI_CALLS \<Rightarrow> JSON_Object \<Rightarrow> response \<Rightarrow> 's \<Rightarrow> 's reply" where
  "handle_open m handlers kvs resp st =
     (case string_member kvs ''ClientName'' of
        None \<Rightarrow> Some (HTTP_BAD_REQUEST, resp, st)
      | Some cl \<Rightarrow>
          (case json_object_get_value (Some kvs) (Some ''MaxPayloadSizeBytes'') of
             None \<Rightarrow> Some (HTTP_BAD_REQUEST, resp, st)
           | Some v \<Rightarrow>
               if json_value_get_type (Some v) \<noteq> TypeNumber then Some (HTTP_BAD_REQUEST, resp, st)
               else (let maxSize = double_to_int (json_value_get_number (Some v))
                     in if maxSize < 0 then Some (HTTP_BAD_REQUEST, resp, st)
                        else (case mpiOpen handlers (Some cl) (word_of_int maxSize) st of
                           None \<Rightarrow> None
                         | Some (None, st') \<Rightarrow> Some (HTTP_INTERNAL_SERVER_ERROR, resp, st')
                         | Some (Some u, st') \<Rightarrow>
                             if m ''response'' 0
                             then Some (HTTP_OK, (Some (quoted u), int (length (quoted u))), st')
                             else Some (HTTP_INTERNAL_SERVER_ERROR, (None, snd resp), st')))))"

definition handle_set ::
  "alloc \<Rightarrow> 's MPI_CALLS \<Rightarrow> JSON_Object \<Rightarrow> string \<Rightarrow> string \<Rightarrow> string \<Rightarrow> response \<Rightarrow> 's \<Rightarrow> 's reply" where
  "handle_set m handlers kvs cl cmp obj resp st =
     (case json_object_get_value (Some kvs) (Some ''Payload'') of
        None \<Rightarrow> Some (HTTP_BAD_REQUEST, resp, st)
      | Some v \<Rightarrow>
          (case json_serialize_to_string (Some v) of
             None \<Rightarrow> Some (HTTP_BAD_REQUEST, resp, st)
           | Some payload \<Rightarrow>
               (case mpiSet handlers (Some cl) (Some cmp) (Some obj) (Some payload)
                       (c_int (int (length payload))) st of
                  None \<Rightarrow> None
                | Some (status, st') \<Rightarrow>
                    (let (http, resp') = SetErrorResponse m status resp in Some (http, resp', st')))))"

definition handle_get ::
  "alloc \<Rightarrow> 's MPI_CALLS \<Rightarrow> string \<Rightarrow> string \<Rightarrow> string \<Rightarrow> response \<Rightarrow> 's \<Rightarrow> 's reply" where
  "handle_get m handlers cl cmp obj resp st =
     (case mpiGet handlers (Some cl) (Some cmp) (Some obj) st of
        None \<Rightarrow> None
      | Some ((status, out), st') \<Rightarrow>
          (let (http, resp') = SetErrorResponse m status (stored resp out)
           in Some (http, resp', st')))"

definition handle_set_desired ::
  "alloc \<Rightarrow> 's MPI_CALLS \<Rightarrow> JSON_Object \<Rightarrow> string \<Rightarrow> response \<Rightarrow> 's \<Rightarrow> 's reply" where
  "handle_set_desired m handlers kvs cl resp st =
     (case json_object_get_value (Some kvs) (Some ''Payload'') of
        None \<Rightarrow> Some (HTTP_BAD_REQUEST, resp, st)
      | Some v \<Rightarrow>
          (case json_serialize_to_string (Some v) of
             None \<Rightarrow> Some (HTTP_BAD_REQUEST, resp, st)
           | Some payload \<Rightarrow>
               (case mpiSetDesired handlers (Some cl) (Some payload)
                       (c_int (int (length payload))) st of
                  None \<Rightarrow> None
                | Some (status, st') \<Rightarrow>
                    (let (http, resp') = SetErrorResponse m status resp in Some (http, resp', st')))))"

definition handle_get_reported ::
  "alloc \<Rightarrow> 's MPI_CALLS \<Rightarrow> string \<Rightarrow> response \<Rightarrow> 's \<Rightarrow> 's reply" where
  "handle_get_reported m handlers cl resp st =
     (case mpiGetReported handlers (Some cl) st of
        None \<Rightarrow> None
      | Some ((status, out), st') \<Rightarrow>
          (let (http, resp') = SetErrorResponse m status (stored resp out)
           in Some (http, resp', st')))"

text \<open>The requests that carry a client session.\<close>

definition handle_session ::
  "alloc \<Rightarrow> 's MPI_CALLS \<Rightarrow> string \<Rightarrow> JSON_Object \<Rightarrow> response \<Rightarrow> 's \<Rightarrow> 's reply" where
  "handle_session m handlers uri kvs resp st =
     (case string_member kvs ''ClientSession'' of
        None \<Rightarrow> Some (HTTP_BAD_REQUEST, resp, st)
      | Some cl \<Rightarrow>
          if uri = MPI_CLOSE_URI then
            map_option (\<lambda>st'. (HTTP_OK, resp, st')) (mpiClose handlers (Some cl) st)
          else if uri = MPI_SET_URI \<or> uri = MPI_GET_URI then
            (case string_member kvs ''ComponentName'' of
               None \<Rightarrow> Some (HTTP_BAD_REQUEST, resp, st)
             | Some cmp \<Rightarrow>
                 (case string_member kvs ''ObjectName'' of
                    None \<Rightarrow> Some (HTTP_BAD_REQUEST, resp, st)
                  | Some obj \<Rightarrow>
                      if uri = MPI_SET_URI then handle_set m handlers kvs cl cmp obj resp st
                      else handle_get m handlers cl cmp obj resp st))
          else if uri = MPI_SET_DESIRED_URI then handle_set_desired m handlers kvs cl resp st
          else handle_get_reported m handlers cl resp st)"

definition HandleMpiCall ::
  "alloc \<Rightarrow> 's MPI_CALLS \<Rightarrow> cstr \<Rightarrow> cstr \<Rightarrow> response \<Rightarrow> 's \<Rightarrow> 's reply" where
  "HandleMpiCall m handlers uri requestBody resp st =
     (case (uri, requestBody) of
        (Some u, Some body) \<Rightarrow>
          (case json_parse_string (Some body) of
             None \<Rightarrow> Some (HTTP_BAD_REQUEST, resp, st)
           | Some v \<Rightarrow>
               (case json_value_get_object (Some v) of
                  None \<Rightarrow> Some (HTTP_BAD_REQUEST, resp, st)
                | Some kvs \<Rightarrow>
                    if u = MPI_OPEN_URI then handle_open m handlers kvs resp st
                    else if u \<in> {MPI_CLOSE_URI, MPI_SET_URI, MPI_GET_URI, MPI_SET_DESIRED_URI,
                                 MPI_GET_REPORTED_URI}
                    then handle_session m handlers u kvs resp st
                    else Some (HTTP_NOT_FOUND, resp, st)))
      | _ \<Rightarrow> Some (HTTP_BAD_REQUEST, resp, st))"

subsection \<open>The server state and its MPI operations\<close>

text \<open>
  \<open>g_mpiCall\<close> describes the call in progress, for the message the signal handler writes
  when a module crashes; it is set before a call and cleared after it. The last two fields
  are the variables that start and stop the worker thread.
\<close>

record 'w server =
  manager :: "'w manager"
  world :: 'w
  g_mpiCall :: string
  g_serverActive :: bool
  g_mpiServerWorkerError :: int

definition initial_server :: "'w \<Rightarrow> 'w server" where
  "initial_server w = \<lparr>manager = initial_manager, world = w, g_mpiCall = [], g_serverActive = False,
     g_mpiServerWorkerError = - 1\<rparr>"

definition MPI_CALL_MESSAGE_LENGTH :: nat where "MPI_CALL_MESSAGE_LENGTH = 256"

definition object_message :: "string \<Rightarrow> string \<Rightarrow> string \<Rightarrow> string" where
  "object_message uri c ob =
     take (MPI_CALL_MESSAGE_LENGTH - 1)
       ('' during '' @ uri @ '' to '' @ c @ ''.'' @ ob @ [CHR 0x0A])"

definition model_message :: "string \<Rightarrow> string" where
  "model_message uri =
     take (MPI_CALL_MESSAGE_LENGTH - 1) ('' during '' @ uri @ [CHR 0x0A])"

definition CallMpiOpen ::
  "alloc \<Rightarrow> (nat \<Rightarrow> nat) \<Rightarrow> cstr \<Rightarrow> 32 word \<Rightarrow> 'w server \<Rightarrow> (cstr \<times> 'w server) option" where
  "CallMpiOpen m rnd clientName maxSize st =
     (case MpiOpen m rnd clientName maxSize (manager st) (world st) of
        None \<Rightarrow> None
      | Some (h, mg, w) \<Rightarrow> Some (h, st\<lparr>manager := mg, world := w\<rparr>))"

definition CallMpiClose :: "cstr \<Rightarrow> 'w server \<Rightarrow> 'w server option" where
  "CallMpiClose hdl st =
     (case MpiClose hdl (manager st) (world st) of
        None \<Rightarrow> None
      | Some (mg, w) \<Rightarrow> Some (st\<lparr>manager := mg, world := w\<rparr>))"

definition CallMpiSet ::
  "cstr \<Rightarrow> cstr \<Rightarrow> cstr \<Rightarrow> cstr \<Rightarrow> int \<Rightarrow> 'w server \<Rightarrow> (int \<times> 'w server) option" where
  "CallMpiSet hdl cmp obj payload sz st =
     (let st1 = st\<lparr>g_mpiCall := object_message MPI_SET_URI (the cmp) (the obj)\<rparr>
      in case MpiSet hdl cmp obj payload sz (manager st1) (world st1) of
           None \<Rightarrow> None
         | Some (status, w) \<Rightarrow> Some (status, st1\<lparr>world := w, g_mpiCall := []\<rparr>))"

definition CallMpiGet ::
  "cstr \<Rightarrow> cstr \<Rightarrow> cstr \<Rightarrow> 'w server \<Rightarrow> ((int \<times> response option) \<times> 'w server) option" where
  "CallMpiGet hdl cmp obj st =
     (let st1 = st\<lparr>g_mpiCall := object_message MPI_GET_URI (the cmp) (the obj)\<rparr>
      in case MpiGet hdl cmp obj (manager st1) (world st1) of
           None \<Rightarrow> None
         | Some (out, w) \<Rightarrow> Some (out, st1\<lparr>world := w, g_mpiCall := []\<rparr>))"

definition CallMpiSetDesired ::
  "alloc \<Rightarrow> cstr \<Rightarrow> cstr \<Rightarrow> int \<Rightarrow> 'w server \<Rightarrow> (int \<times> 'w server) option" where
  "CallMpiSetDesired m hdl payload sz st =
     (let st1 = st\<lparr>g_mpiCall := model_message MPI_SET_DESIRED_URI\<rparr>
      in case MpiSetDesired m hdl payload sz (manager st1) (world st1) of
           None \<Rightarrow> None
         | Some (status, w) \<Rightarrow> Some (status, st1\<lparr>world := w, g_mpiCall := []\<rparr>))"

definition CallMpiGetReported ::
  "alloc \<Rightarrow> cstr \<Rightarrow> 'w server \<Rightarrow> ((int \<times> response option) \<times> 'w server) option" where
  "CallMpiGetReported m hdl st =
     (let st1 = st\<lparr>g_mpiCall := model_message MPI_GET_REPORTED_URI\<rparr>
      in case MpiGetReported m hdl (manager st1) (world st1) of
           None \<Rightarrow> None
         | Some (out, w) \<Rightarrow> Some (out, st1\<lparr>world := w, g_mpiCall := []\<rparr>))"

definition mpiCalls :: "alloc \<Rightarrow> (nat \<Rightarrow> nat) \<Rightarrow> 'w server MPI_CALLS" where
  "mpiCalls m rnd =
     \<lparr>mpiOpen = CallMpiOpen m rnd, mpiClose = CallMpiClose, mpiSet = CallMpiSet,
      mpiGet = CallMpiGet, mpiSetDesired = CallMpiSetDesired m,
      mpiGetReported = CallMpiGetReported m\<rparr>"

lemma mpiCalls_simps [simp]:
  "mpiOpen (mpiCalls m rnd) = CallMpiOpen m rnd"
  "mpiClose (mpiCalls m rnd) = CallMpiClose"
  "mpiSet (mpiCalls m rnd) = CallMpiSet"
  "mpiGet (mpiCalls m rnd) = CallMpiGet"
  "mpiSetDesired (mpiCalls m rnd) = CallMpiSetDesired m"
  "mpiGetReported (mpiCalls m rnd) = CallMpiGetReported m"
  by (simp_all add: mpiCalls_def)

subsection \<open>The worker\<close>

text \<open>
  The body of a request of announced length \<open>n\<close>. A negative length is converted to
  \<open>size_t\<close>: \<open>malloc\<close> fails, except for \<open>-1\<close>, where \<open>malloc(0)\<close> succeeds, \<open>read\<close>
  returns the error value \<open>-1\<close>, which equals the announced length, and the dispatcher
  parses a buffer of no bytes: a crash.
\<close>

definition read_body ::
  "alloc \<Rightarrow> reader \<Rightarrow> int \<Rightarrow> string \<Rightarrow> (HTTP_STATUS \<times> cstr) option" where
  "read_body m cap n s =
     (if n = 0 then Some (HTTP_OK, None)
      else if n = - 1 then (if m ''requestBody'' 0 then None else Some (HTTP_BAD_REQUEST, None))
      else if n < 0 \<or> \<not> m ''requestBody'' 0 then Some (HTTP_BAD_REQUEST, None)
      else (let (b, r) = sock_read cap (nat n) s
            in if int (length b) = n then Some (HTTP_OK, Some b)
               else Some (HTTP_BAD_REQUEST, Some b)))"

definition response_header :: "HTTP_STATUS \<Rightarrow> int \<Rightarrow> string" where
  "response_header status n =
     ''HTTP/1.1 '' @ print_int (http_code status) @ '' '' @ HttpReasonAsString status @ CRLF @
     ''Server: OSConfig'' @ CRLF @ ''Content-Type: application/json'' @ CRLF @
     ''Content-Length: '' @ print_int n @ CRLF @ CRLF"

text \<open>\<open>strlen\<close> of \<open>responseFormat\<close>.\<close>

definition response_format_length :: int where
  "response_format_length = int (length
     (''HTTP/1.1 %d %s'' @ CRLF @ ''Server: OSConfig'' @ CRLF @ ''Content-Type: application/json'' @ CRLF @
      ''Content-Length: %d'' @ CRLF @ CRLF @ ''%.*s''))"

text \<open>
  The bytes written back: \<open>snprintf\<close> into a buffer of the estimated size, the body cut to
  the response size by the precision of \<open>%.*s\<close> (a negative precision is none).
\<close>

definition format_response :: "alloc \<Rightarrow> HTTP_STATUS \<Rightarrow> response \<Rightarrow> string option" where
  "format_response m status resp =
     (case resp of (body, n) \<Rightarrow>
       (let estimated = response_format_length + 3 + int (length (HttpReasonAsString status)) + 16 + n + 1;
            bytes = c_string (case body of None \<Rightarrow> [] | Some b \<Rightarrow> b)
        in if \<not> m ''httpReason'' 0 then None
           else if estimated < 0 \<or> \<not> m ''buffer'' 0 then Some []
           else if estimated = 0 then None
           else Some (take (nat (estimated - 1))
                  (response_header status n @ (if n < 0 then bytes else take (nat n) bytes)))))"

text \<open>One connection: the bytes the client sent, the bytes written back, the new state.\<close>

definition serve_connection ::
  "alloc \<Rightarrow> (nat \<Rightarrow> alloc) \<Rightarrow> 'w device \<Rightarrow> reader \<Rightarrow> (nat \<Rightarrow> nat) \<Rightarrow> string \<Rightarrow> 'w server \<Rightarrow>
   (string \<times> 'w server) option" where
  "serve_connection m ma dev cap rnd input st0 =
     (case AreModulesLoadedAndLoadIfNot m ma dev (Some ''/usr/lib/osconfig'')
             (Some ''/etc/osconfig/osconfig.json'') (manager st0) (world st0) of
        None \<Rightarrow> None
      | Some (mg, w) \<Rightarrow>
          (let st = st0\<lparr>manager := mg, world := w\<rparr>
           in case ReadUriFromSocket m input of
                (None, _) \<Rightarrow>
                  map_option (\<lambda>out. (out, st)) (format_response m HTTP_BAD_REQUEST (None, 0))
              | (Some uri, r1) \<Rightarrow>
                  (case ReadHttpContentLengthFromSocket m r1 of
                     (n, r2) \<Rightarrow>
                       (case read_body m cap n r2 of
                          None \<Rightarrow> None
                        | Some (HTTP_OK, body) \<Rightarrow>
                            (case HandleMpiCall m (mpiCalls m rnd) (Some uri) body (None, 0) st of
                               None \<Rightarrow> None
                             | Some (status, resp, st') \<Rightarrow>
                                 map_option (\<lambda>out. (out, st')) (format_response m status resp))
                        | Some (status, body) \<Rightarrow>
                            map_option (\<lambda>out. (out, st)) (format_response m status (None, 0))))))"

subsection \<open>Start and stop\<close>

text \<open>What the system calls of \<open>MpiInitialize\<close> return: whether \<open>socket\<close>, \<open>bind\<close> and
  \<open>listen\<close> succeed, and the result of \<open>pthread_create\<close>.\<close>

record socket_calls =
  socket_ok :: bool
  bind_ok :: bool
  listen_ok :: bool
  pthread_create :: int

definition MpiInitialize :: "socket_calls \<Rightarrow> 'w server \<Rightarrow> 'w server" where
  "MpiInitialize io st =
     (if socket_ok io \<and> bind_ok io \<and> listen_ok io
      then st\<lparr>g_serverActive := True, g_mpiServerWorkerError := pthread_create io\<rparr>
      else st)"

text \<open>
  \<open>MpiShutdown\<close> waits for the worker, if it was started, and unloads the modules. The
  worker ends between two connections, so that no call is in progress.
\<close>

definition MpiShutdown :: "'w server \<Rightarrow> 'w server option" where
  "MpiShutdown st =
     (case UnloadModules (manager st) (world st) of
        None \<Rightarrow> None
      | Some (mg, w) \<Rightarrow>
          Some (st\<lparr>manager := mg, world := w, g_serverActive := False,
            g_mpiServerWorkerError :=
              (if g_mpiServerWorkerError st = 0 then - 1 else g_mpiServerWorkerError st)\<rparr>))"

end
