(* ===== verification/ManagerProps.thy ===== *)
theory ManagerProps
  imports ParsonText ModulesManager
begin

text \<open>
  Correctness of the modules manager: the abstract view of its sessions and the refinement
  of \<open>MpiOpen\<close>, \<open>MpiClose\<close>, \<open>MpiSet\<close> and \<open>MpiGet\<close> to it, the states that sequences of
  operations reach, the calls of a desired configuration, the contents of a report, and what
  is left after \<open>UnloadModules\<close>.
\<close>

subsection \<open>A recording module\<close>

text \<open>
  A module whose world is the list of the calls made to it, and a manager that has loaded
  it twice, for the components \<open>A\<close> and \<open>B\<close>: the concrete inputs of the witnesses.
\<close>

datatype mmi_call =
  Opened string
| Closed nat
| WasSet nat string string string
| WasGot nat string string
| WasFreed

definition recorder :: "mmi_call list mmi" where
  "recorder =
     \<lparr>mmiOpen = (\<lambda>cn mx w. (Suc (length w), w @ [Opened (the cn)])),
      mmiClose = (\<lambda>h w. w @ [Closed h]),
      mmiGetInfo = (\<lambda>cn w. ((MMI_OK, None, 0), w)),
      mmiSet = (\<lambda>h c ob p n w. (MMI_OK, w @ [WasSet h (the c) (the ob) (the p)])),
      mmiGet = (\<lambda>h c ob w. ((MMI_OK, Some ''[1]'', 3), w @ [WasGot h (the c) (the ob)])),
      mmiFree = (\<lambda>p w. w @ [WasFreed])\<rparr>"

definition recorder_module :: "string list \<Rightarrow> mmi_call list MODULE" where
  "recorder_module cs =
     \<lparr>path = ''/usr/lib/osconfig/recorder.so'',
      info = \<lparr>name = ''Recorder'', description = '''', manufacturer = '''',
              version = \<lparr>major = 1, minor = 0, patch = 0, tweak = 0\<rparr>, versionInfo = '''',
              components = cs, lifetime = 1, licenseUri = None, projectUri = None, userAccount = 0\<rparr>,
      entry = recorder\<rparr>"

definition recorder_manager :: "mmi_call list manager" where
  "recorder_manager =
     \<lparr>g_sessions = Live [], g_modules = Live [recorder_module [''A''], recorder_module [''B'']],
      g_reported = Live [\<lparr>component = Some ''A'', object = Some ''x''\<rparr>], g_reportedTotal = 1\<rparr>"

lemmas recorder_defs = recorder_manager_def recorder_module_def recorder_def

lemma recorder_get:
  "mmiGet recorder h c ob w = ((MMI_OK, Some ''[1]'', 3), w @ [WasGot h (the c) (the ob)])"
  "mmiFree recorder p w = w @ [WasFreed]"
  by (simp_all add: recorder_def)

lemma recorder_contract: "mmi_module recorder"
  by unfold_locales (auto simp: recorder_def)

definition recorder_modules :: "mmi_call list MODULE_SESSION list" where
  "recorder_modules = [\<lparr>module = recorder_module [''B''], handle = 2\<rparr>,
     \<lparr>module = recorder_module [''A''], handle = 1\<rparr>]"

definition recorder_session :: "mmi_call list manager" where
  "recorder_session = recorder_manager\<lparr>g_sessions := Live [\<lparr>uuid = ''U'', client = ''me'',
     modules = recorder_modules\<rparr>]\<rparr>"

lemma recorder_session_fields [simp]:
  "g_sessions recorder_session = Live [\<lparr>uuid = ''U'', client = ''me'', modules = recorder_modules\<rparr>]"
  "g_modules recorder_session = Live [recorder_module [''A''], recorder_module [''B'']]"
  "g_reported recorder_session = Live [\<lparr>component = Some ''A'', object = Some ''x''\<rparr>]"
  "g_reportedTotal recorder_session = 1"
  "components (info (recorder_module cs)) = cs" "lifetime (info (recorder_module cs)) = 1"
  "entry (recorder_module cs) = recorder"
  by (simp_all add: recorder_session_def recorder_manager_def recorder_module_def)

lemma recorder_session_ok: "manager_ok recorder_session"
  by (simp add: manager_ok_def recorder_modules_def session_ok_def info_ok_def NUL_def)

subsection \<open>The abstract view of sessions\<close>

text \<open>
  What a client can observe of the sessions: for every open session, the module session
  that answers for a component.
\<close>

definition component_table :: "'w MODULE_SESSION list \<Rightarrow> string \<Rightarrow> 'w MODULE_SESSION option" where
  "component_table mss c = find (\<lambda>ms. c \<in> set (components (info (module ms)))) mss"

definition abs_sessions ::
  "'w manager \<Rightarrow> string \<Rightarrow> (string \<Rightarrow> 'w MODULE_SESSION option) option" where
  "abs_sessions st u =
     (case g_sessions st of
        Freed \<Rightarrow> None
      | Live ss \<Rightarrow> map_option (\<lambda>s. component_table (modules s)) (FindSession ss u))"

definition uuids :: "'w manager \<Rightarrow> string list" where
  "uuids st = (case g_sessions st of Freed \<Rightarrow> [] | Live ss \<Rightarrow> map uuid ss)"

lemma FindSession_None: "FindSession ss u = None \<longleftrightarrow> u \<notin> uuid ` set ss"
  by (auto simp: FindSession_def find_None_iff)

lemma FindSession_Nil [simp]: "FindSession [] u = None"
  by (simp add: FindSession_def)

lemma FindSession_remove:
  "distinct (map uuid ss) \<Longrightarrow> FindSession (remove_session u ss) u = None"
  by (induction ss) (auto simp: FindSession_None FindSession_other)

lemma abs_sessions_open:
  assumes "MpiOpen m rnd (Some cn) mx st w = Some (Some u, st', w')" "st' \<noteq> st"
  shows "\<exists>mds ss mss. g_modules st = Live mds \<and> mds \<noteq> [] \<and> g_sessions st = Live ss \<and>
    open_modules m 0 cn mx mds ([], w) = (mss, w') \<and>
    st' = st\<lparr>g_sessions := Live (\<lparr>uuid = u, client = cn, modules = mss\<rparr> # ss)\<rparr> \<and>
    abs_sessions st' = (abs_sessions st)(u \<mapsto> component_table mss)"
  using assms
  by (auto simp: MpiOpen_def abs_sessions_def fun_eq_iff FindSession_other
      split: head.splits list.splits option.splits if_splits prod.splits)

lemma abs_sessions_close:
  assumes "MpiClose (Some u) st w = Some (st', w')"  "distinct (uuids st)"
  shows "abs_sessions st' = (abs_sessions st)(u := None)"
proof -
  obtain ss where ss: "g_sessions st = Live ss"
    using assms(1) by (cases "g_sessions st") (auto simp: MpiClose_def)
  then have "distinct (map uuid ss)" using assms(2) by (simp add: uuids_def)
  then show ?thesis
    using assms(1) ss
    by (auto simp: MpiClose_def abs_sessions_def fun_eq_iff FindSession_remove remove_session_other
        split: option.splits)
qed

lemma mpi_open_close:
  assumes "MpiOpen m rnd (Some cn) mx st w = Some (Some u, st', w')" and "st' \<noteq> st"
  shows "\<exists>mds mss. g_modules st = Live mds \<and> open_modules m 0 cn mx mds ([], w) = (mss, w') \<and>
    MpiClose (Some u) st' w'' = Some (st, close_module_sessions mss w'')"
  using abs_sessions_open [OF assms] by (auto simp: MpiClose_def)

lemma open_modules_handles:
  assumes "\<And>i. m ''moduleSession'' i"
  shows "open_modules m i cn mx mds (mss, w) = (mss', w') \<Longrightarrow>
    map module mss' = rev mds @ map module mss"
  using assms by (induction mds arbitrary: i mss w) (auto simp: split_beta Let_def)

lemma recorder_opened:
  "\<exists>u mss. MpiOpen all_ok (\<lambda>_. 0) (Some ''me'') 4 recorder_manager [] =
     Some (Some u, recorder_manager\<lparr>g_sessions := Live [\<lparr>uuid = u, client = ''me'', modules = mss\<rparr>]\<rparr>,
           [Opened ''me'', Opened ''me''])"
  by (simp add: MpiOpen_def GenerateUuid_def recorder_defs)

text \<open>A session that \<open>MpiOpen\<close> creates has one module session for every loaded module,
  in the reverse of the list order, whatever other allocation fails; closing it restores
  the manager's state and closes exactly those module sessions, each once.\<close>

theorem MpiOpen_MpiClose:
  assumes "\<And>i. m ''moduleSession'' i"
    and "MpiOpen m rnd (Some cn) mx st w = Some (Some u, st', w')" and "st' \<noteq> st"
  shows "\<exists>mds mss. g_modules st = Live mds \<and> open_modules m 0 cn mx mds ([], w) = (mss, w') \<and>
    map module mss = rev mds \<and>
    MpiClose (Some u) st' w'' = Some (st, close_module_sessions mss w'')"
  using mpi_open_close [OF assms(2,3), of w''] open_modules_handles [of m, OF assms(1)] by fastforce

theorem MpiOpen_MpiClose_witness:
  "\<exists>u st' mss. MpiOpen all_ok (\<lambda>_. 0) (Some ''me'') 4 recorder_manager [] =
      Some (Some u, st', [Opened ''me'', Opened ''me'']) \<and>
    map module mss = rev [recorder_module [''A''], recorder_module [''B'']] \<and>
    MpiClose (Some u) st' [] = Some (recorder_manager, close_module_sessions mss [])"
proof -
  obtain u mss where op: "MpiOpen all_ok (\<lambda>_. 0) (Some ''me'') 4 recorder_manager [] =
     Some (Some u, recorder_manager\<lparr>g_sessions := Live [\<lparr>uuid = u, client = ''me'', modules = mss\<rparr>]\<rparr>,
           [Opened ''me'', Opened ''me''])"
    using recorder_opened by blast
  have "recorder_manager\<lparr>g_sessions := Live [\<lparr>uuid = u, client = ''me'', modules = mss\<rparr>]\<rparr> \<noteq> recorder_manager"
    by (simp add: recorder_manager_def)
  from MpiOpen_MpiClose [OF _ op this, of "[]"] op show ?thesis
    by (fastforce simp: recorder_manager_def)
qed

text \<open>C6: \<open>MpiClose\<close> removes the session it is given from the abstract view and leaves every
  other session and the loaded modules as they were; it never crashes in a well formed
  state.\<close>

theorem MpiClose_refines:
  assumes "manager_ok st" and "distinct (uuids st)"
  shows "\<exists>st' w'. MpiClose (Some u) st w = Some (st', w') \<and>
    abs_sessions st' = (abs_sessions st)(u := None) \<and> distinct (uuids st') \<and>
    g_modules st' = g_modules st"
proof -
  obtain st' w' where close: "MpiClose (Some u) st w = Some (st', w')"
    using manager_ok_MpiClose [OF assms(1)] by blast
  have rem: "distinct (map uuid ss) \<Longrightarrow> distinct (map uuid (remove_session u ss))" for ss :: "'a SESSION list"
    by (induction ss) (use set_remove_session in fastforce)+
  have "distinct (uuids st')" "g_modules st' = g_modules st"
    using close assms(2)
    by (auto simp: MpiClose_def uuids_def rem split: head.splits option.splits)
  with close abs_sessions_close [OF close assms(2)] show ?thesis by blast
qed

theorem MpiClose_refines_witness:
  "manager_ok recorder_session \<and> distinct (uuids recorder_session) \<and>
   (\<exists>st' w'. MpiClose (Some ''U'') recorder_session [] = Some (st', w') \<and>
      abs_sessions st' = (abs_sessions recorder_session)(''U'' := None) \<and> distinct (uuids st') \<and>
      g_modules st' = g_modules recorder_session)"
proof -
  have d: "distinct (uuids recorder_session)" by (simp add: uuids_def)
  show ?thesis using MpiClose_refines [OF recorder_session_ok d, of "''U''" "[]"] recorder_session_ok d by simp
qed



subsection \<open>Reachable states\<close>

text \<open>
  The steps of a running platform, one operation each, with every allocation pattern, device
  and argument.
\<close>

inductive manager_step :: "'w manager \<times> 'w \<Rightarrow> 'w manager \<times> 'w \<Rightarrow> bool" where
  load: "AreModulesLoadedAndLoadIfNot m ma dev dir cfg st w = Some s' \<Longrightarrow> manager_step (st, w) s'"
| open_session: "MpiOpen m rnd cn mx st w = Some (h, s') \<Longrightarrow> manager_step (st, w) s'"
| close_session: "MpiClose h st w = Some s' \<Longrightarrow> manager_step (st, w) s'"
| set_object: "MpiSet h c ob p n st w = Some (status, w') \<Longrightarrow> manager_step (st, w) (st, w')"
| get_object: "MpiGet h c ob st w = Some (out, w') \<Longrightarrow> manager_step (st, w) (st, w')"
| set_desired: "MpiSetDesired m h p n st w = Some (status, w') \<Longrightarrow> manager_step (st, w) (st, w')"
| get_reported: "MpiGetReported m h st w = Some (out, w') \<Longrightarrow> manager_step (st, w) (st, w')"

inductive_cases manager_stepE: "manager_step (st, w) (st', w')"

lemma manager_step_ok: "manager_step s s' \<Longrightarrow> manager_ok (fst s) \<Longrightarrow> manager_ok (fst s')"
proof (induction rule: manager_step.induct)
  case (load m ma dev dir cfg st w s')
  then show ?case
    using manager_ok_LoadModules [of st m ma dev dir cfg w]
    by (auto simp: AreModulesLoadedAndLoadIfNot_def split: head.splits list.splits)
next
  case (open_session m rnd cn mx st w h s')
  then show ?case using manager_ok_MpiOpen [of st m rnd cn mx w] by auto
next
  case (close_session h st w s')
  then show ?case using manager_ok_MpiClose [of st h w] by auto
qed auto

lemma manager_steps_ok: "manager_step\<^sup>*\<^sup>* s s' \<Longrightarrow> manager_ok (fst s) \<Longrightarrow> manager_ok (fst s')"
  by (induction rule: rtranclp_induct) (auto dest: manager_step_ok)

lemma set_desired_runs:
  assumes "manager_ok st" "nat n \<le> length text"
  shows "MpiSetDesired m h (Some text) n st w \<noteq> None"
  using assms by (auto simp: MpiSetDesired_def set_components_fold split: option.splits elim!: manager_okE)



subsection \<open>Desired configurations\<close>

text \<open>C7: A desired configuration that arrives as the serialised text of an object makes exactly
  the calls \<open>desired_calls\<close> lists, one \<open>MmiSet\<close> per object of every component, in document
  order, with the serialised object as payload, and no other.\<close>

theorem MpiSetDesired_refines:
  assumes "g_sessions st = Live ss" and "FindSession ss u = Some s" and "m ''MpiSetDesired.json'' 0"
    and "json_ok (JSONObject kvs)" and "json_depth (JSONObject kvs) \<le> Suc MAX_NESTING"
    and "text = json_serialize_r False 0 (JSONObject kvs)"
  shows "MpiSetDesired m (Some u) (Some text) (int (length text)) st w =
    Some (fold desired_call (desired_calls (modules s) kvs) (MPI_OK, w))"
proof -
  have "text \<noteq> []" using serialize_hd [OF assms(4), of False 0] assms(6) by (simp only: not_False_eq_True simp_thms)
  then show ?thesis
    using assms json_parse_string_serialize [OF assms(4,5), of False 0]
    by (simp add: MpiSetDesired_def set_components_fold del: json_serialize_r.simps)
qed

theorem MpiSetDesired_refines_witness:
  "MpiSetDesired all_ok (Some ''U'')
     (Some (json_serialize_r False 0 (JSONObject [(''A'', JSONObject [(''x'', JSONBoolean True)])])))
     (int (length (json_serialize_r False 0 (JSONObject [(''A'', JSONObject [(''x'', JSONBoolean True)])]))))
     recorder_session [] = Some (MPI_OK, [WasSet 1 ''A'' ''x'' ''true''])"
proof -
  let ?kvs = "[(''A'', JSONObject [(''x'', JSONBoolean True)])]"
  have ok: "json_ok (JSONObject ?kvs)" "json_depth (JSONObject ?kvs) \<le> Suc MAX_NESTING"
    by (simp_all add: NUL_def MAX_NESTING_def)
  show ?thesis
    using MpiSetDesired_refines [OF _ FindSession_head _ ok refl, of recorder_session _ "[]" "''U''" all_ok "[]"]
    by (simp add: recorder_modules_def desired_calls_def desired_call_def codes
        del: json_serialize_r.simps(4) json_ok.simps json_depth.simps) (simp add: recorder_def codes)
qed

text \<open>The status of a desired configuration is that of its last call alone: an earlier
  failure, also \<open>EINVAL\<close> for a component no module has, is reported as success when the last
  object is accepted.\<close>

theorem MpiSetDesired_last_status:
  assumes "set_components mss kvs (MPI_OK, w) = Some (status, w')"
    and "desired_calls mss kvs = calls @ [Some (ms, c, ob, v)]"
  shows "\<exists>w''. status = fst (mmiSet (entry (module ms)) (handle ms) (Some c) (Some ob)
      (Some (json_serialize_r False 0 v)) (c_int (int (length (json_serialize_r False 0 v)))) w'')"
proof -
  have eq: "fold desired_call (calls @ [Some (ms, c, ob, v)]) (MPI_OK, w) = (status, w')"
    using assms by (simp add: set_components_fold)
  obtain s' w'' where "fold desired_call calls (MPI_OK, w) = (s', w'')" by fastforce
  with eq show ?thesis
    by (intro exI [of _ w'']) (simp add: desired_call_def Let_def)
qed

theorem MpiSetDesired_last_status_witness:
  "\<exists>mss. set_components mss [(''Nope'', JSONObject []), (''A'', JSONObject [(''x'', JSONBoolean True)])]
      (MPI_OK, []) = Some (MMI_OK, [WasSet 1 ''A'' ''x'' ''true'']) \<and>
    (\<exists>w''. MMI_OK = fst (mmiSet recorder 1 (Some ''A'') (Some ''x'') (Some ''true'') 4 w''))"
proof (intro exI conjI)
  let ?ms = "\<lparr>module = recorder_module [''A''], handle = 1\<rparr> :: mmi_call list MODULE_SESSION"
  let ?kvs = "[(''Nope'', JSONObject []), (''A'', JSONObject [(''x'', JSONBoolean True)])]"
  show run: "set_components [?ms] ?kvs (MPI_OK, []) = Some (MMI_OK, [WasSet 1 ''A'' ''x'' ''true''])"
    by (simp add: recorder_defs ComponentExists_def)
  have "desired_calls [?ms] ?kvs = [None] @ [Some (?ms, ''A'', ''x'', JSONBoolean True)]"
    by (simp add: desired_calls_def recorder_module_def)
  from MpiSetDesired_last_status [OF run this]
  show "MMI_OK = fst (mmiSet recorder 1 (Some ''A'') (Some ''x'') (Some ''true'') 4 [])"
    by (simp add: recorder_defs)
qed

subsection \<open>Reports\<close>

text \<open>C8: \<open>MpiGetReported\<close> asks every module for its configured objects and returns the
  serialised text of an object of objects that has, for every component and object, the value
  the module delivered last, and nothing else.\<close>

theorem MpiGetReported_report:
  assumes "g_sessions st = Live ss" and "FindSession ss u = Some s" and "m ''rootValue'' 0"
    and "g_reported st = Live (map complete_report keys @ rest)" and "g_reportedTotal st = length keys"
    and "\<forall>ms \<in> set (modules s). mmi_module (entry (module ms))"
  shows "\<exists>rt es w'. reported_entries m 0 (modules s) keys w = (es, w') \<and>
    report_ok rt \<and> report_value rt = map_of (rev es) \<and>
    MpiGetReported m (Some u) st w =
      Some ((MPI_OK, Some (Some (json_serialize_r True 0 (JSONObject rt)),
         c_int (int (length (json_serialize_r True 0 (JSONObject rt)))))), w')"
proof -
  obtain es w' where es: "reported_entries m 0 (modules s) keys w = (es, w')" by fastforce
  let ?rt = "fold (\<lambda>(k, v) rt. report_put rt k v) es []"
  have ok: "report_ok []" by (simp add: report_ok_def)
  have "report_value [] = Map.empty" by (auto simp: report_value_def)
  then have "report_value ?rt = map_of (rev es)" using report.lookup_updates [OF ok, of es] by simp
  moreover have "report_ok ?rt" by (rule report.invar_updates [OF ok])
  moreover have "MpiGetReported m (Some u) st w = Some ((MPI_OK, Some (Some (json_serialize_r True 0 (JSONObject ?rt)),
      c_int (int (length (json_serialize_r True 0 (JSONObject ?rt)))))), w')"
    using report_all_eq [OF assms(6), of m 0 keys "[]" w] es assms(1-5)
    by (cases keys) (simp_all add: MpiGetReported_def Let_def del: json_serialize_r.simps)
  ultimately show ?thesis using es by blast
qed

lemma fmt_17g_one: "fmt_17g 1 = ''1''"
proof -
  have "digit_char 1 = CHR ''1''" by code_simp
  then show ?thesis by (simp add: fmt_17g_nat [of 1] dec.simps)
qed

theorem MpiGetReported_report_witness:
  "\<exists>rt. report_value rt (''A'', ''x'') = Some (JSONArray [JSONNumber 1]) \<and>
     MpiGetReported all_ok (Some ''U'') recorder_session [] =
       Some ((MPI_OK, Some (Some (json_serialize_r True 0 (JSONObject rt)),
         c_int (int (length (json_serialize_r True 0 (JSONObject rt)))))),
         [WasGot 1 ''A'' ''x'', WasFreed])"
proof -
  have v: "json_parse_string (Some ''[1]'') = Some (JSONArray [JSONNumber 1])"
    using json_parse_string_serialize [of "JSONArray [JSONNumber 1]" False 0]
    by (simp add: exact_number_def MAX_NESTING_def fmt_17g_one newline_def append_indent_def)
  obtain rt where "report_value rt = [(''A'', ''x'') \<mapsto> JSONArray [JSONNumber 1]]"
    "MpiGetReported all_ok (Some ''U'') recorder_session [] =
       Some ((MPI_OK, Some (Some (json_serialize_r True 0 (JSONObject rt)),
         c_int (int (length (json_serialize_r True 0 (JSONObject rt)))))),
         [WasGot 1 ''A'' ''x'', WasFreed])"
    using MpiGetReported_report [of recorder_session _ "''U''", OF _ FindSession_head,
        of _ "[]" all_ok "[(''A'', ''x'')]" "[]" "[]"]
    by (auto simp: recorder_modules_def recorder_contract reported_get_def v recorder_get simp del: json_serialize_r.simps)
  then show ?thesis by (intro exI [of _ rt]) simp
qed

lemma load_reported_complete:
  assumes "json_value_get_object (Some v) = Some kvs"
    and "json_object_get_string (Some kvs) (Some ''ComponentName'') = Some c"
    and "json_object_get_string (Some kvs) (Some ''ObjectName'') = Some ob"
  shows "load_reported all_ok i v = (complete_report (c, ob), True)"
  using assms by (simp add: load_reported_def)

lemma load_reported_all_positive:
  "(\<exists>v \<in> set vs. \<forall>i. snd (load_reported m i v)) \<Longrightarrow> 0 < snd (load_reported_all m i vs)"
  by (induction vs arbitrary: i) (auto simp: split_beta Let_def)

text \<open>When the first element of the configured \<open>Reported\<close> array has no component name and a
  later one is complete, the count is positive while the first entry holds \<open>NULL\<close>: every
  \<open>MpiGetReported\<close> on a session with a module then crashes.\<close>

theorem reported_hole_crashes:
  assumes "manager_ok st" and "g_sessions st = Live ss" and "FindSession ss u = Some s"
    and "modules s \<noteq> []"
    and "json_object_get_array cfg (Some ''Reported'') = Some (v # vs)"
    and "json_object_get_string (json_value_get_object (Some v)) (Some ''ComponentName'') = None"
    and "v' \<in> set vs" and "json_value_get_object (Some v') = Some kvs"
    and "json_object_get_string (Some kvs) (Some ''ComponentName'') = Some c"
    and "json_object_get_string (Some kvs) (Some ''ObjectName'') = Some ob"
  shows "MpiGetReported all_ok (Some u) (load_reported_config all_ok cfg st) w = None"
proof -
  obtain ms mss where mss: "modules s = ms # mss" using assms(4) by (cases "modules s") auto
  have "info_ok (info (module ms))"
    using assms(1-3) mss FindSession_uuid [OF assms(3)] by (auto simp: session_ok_def elim!: manager_okE)
  then have none: "FindModuleSession (modules s) None = None"
    by (simp add: mss ComponentExists_def info_ok_def)
  have "component (fst (load_reported all_ok 0 v)) = None"
    using assms(6) by (auto simp: load_reported_def split: option.splits)
  then obtain r rs n where ld: "load_reported_all all_ok 0 (v # vs) = (r # rs, n)" "component r = None"
    by (auto simp: split_beta Let_def)
  have "0 < snd (load_reported_all all_ok 0 (v # vs))"
    using assms(7) load_reported_complete [OF assms(8-10)]
    by (intro load_reported_all_positive bexI [of _ v']) auto
  then obtain k where "n = Suc k" using ld by (cases n) auto
  then show ?thesis
    using ld assms(2,3,5) none
    by (simp add: load_reported_config_def MpiGetReported_def report_one_def del: load_reported_all.simps)
qed

theorem reported_hole_crashes_witness:
  "MpiGetReported all_ok (Some ''U'') (load_reported_config all_ok
     (Some [(''Reported'', JSONArray [JSONObject [],
        JSONObject [(''ComponentName'', JSONString ''A''), (''ObjectName'', JSONString ''x'')]])])
     recorder_session) [] = None"
proof -
  let ?kvs = "[(''ComponentName'', JSONString ''A''), (''ObjectName'', JSONString ''x'')]"
  show ?thesis
    by (rule reported_hole_crashes [OF recorder_session_ok recorder_session_fields(1) FindSession_head,
          where v = "JSONObject []" and vs = "[JSONObject ?kvs]" and v' = "JSONObject ?kvs" and kvs = ?kvs])
      (simp_all add: recorder_modules_def json_get_defs)
qed

subsection \<open>Unloading\<close>

text \<open>\<open>UnloadModules\<close> closes every module session of every session, in list order. It leaves
  the list heads dangling: a later \<open>AreModulesLoadedAndLoadIfNot\<close> takes the freed list for
  loaded modules and loads nothing, the next \<open>MpiOpen\<close> follows it, and a second
  \<open>UnloadModules\<close> frees it again.\<close>

theorem unload_then_open:
  assumes "manager_ok st" and "g_modules st = Live mds" and "mds \<noteq> []"
  shows "\<exists>ss st' w'. g_sessions st = Live ss \<and> UnloadModules st w = Some (st', w') \<and>
    w' = fold (\<lambda>ms. mmiClose (entry (module ms)) (handle ms)) (concat (map modules ss)) w \<and>
    AreModulesLoadedAndLoadIfNot m ma dev dir cfg st' w' = Some (st', w') \<and>
    MpiOpen all_ok rnd (Some cn) mx st' w' = None \<and> UnloadModules st' w' = None"
proof -
  from assms(1) obtain ss rs where st: "g_sessions st = Live ss" "g_reported st = Live rs"
    by (rule manager_okE)
  have "FreeSessions ss w =
      fold (\<lambda>ms. mmiClose (entry (module ms)) (handle ms)) (concat (map modules ss)) w"
    by (induction ss arbitrary: w) (simp_all add: FreeSessions_def close_module_sessions_def)
  with st assms(2,3) show ?thesis
    by (auto simp: UnloadModules_def AreModulesLoadedAndLoadIfNot_def MpiOpen_def GenerateUuid_def
        freed_head_def split: list.splits)
qed

theorem unload_then_open_witness:
  "\<exists>st'. UnloadModules recorder_session [] = Some (st', [Closed 2, Closed 1]) \<and>
     MpiOpen all_ok (\<lambda>_. 0) (Some ''me'') 4 st' [Closed 2, Closed 1] = None"
  using unload_then_open [OF recorder_session_ok, of _ "[]"]
  by (fastforce simp: recorder_modules_def recorder_def)

subsection \<open>Names\<close>

definition uuid_pattern :: "nat \<Rightarrow> char list" where
  "uuid_pattern i =
     (if i \<in> {8, 13, 18, 23} then ''-'' else if i = 14 then ''89AB'' else if i = 19 then ''4''
      else ''0123456789ABCDEF'')"

lemma uuid_hex_nth: "r < 16 \<Longrightarrow> uuid_hex ! r \<in> set ''0123456789ABCDEF''"
proof -
  assume r: "r < 16"
  have "\<forall>r \<in> set [0..<16]. uuid_hex ! r \<in> set ''0123456789ABCDEF''" by code_simp
  with r show ?thesis by simp
qed

lemma uuid_variant_nth: "r < 4 \<Longrightarrow> uuid_hex ! (r + 8) \<in> set ''89AB''"
proof -
  assume r: "r < 4"
  have "\<forall>r \<in> set [0..<4]. uuid_hex ! (r + 8) \<in> set ''89AB''" by code_simp
  with r show ?thesis by simp
qed

lemma uuid_template_nth:
  "i < 36 \<Longrightarrow> uuidTemplate ! i =
     (if i \<in> {8, 13, 18, 23} then CHR ''-'' else if i = 14 then CHR ''M'' else if i = 19 then CHR ''N''
      else CHR ''x'')"
proof -
  assume i: "i < 36"
  have "\<forall>i \<in> set [0..<36]. uuidTemplate ! i =
     (if i \<in> set [8, 13, 18, 23] then CHR ''-'' else if i = 14 then CHR ''M'' else if i = 19 then CHR ''N''
      else CHR ''x'')" by code_simp
  with i show ?thesis by simp
qed

lemma generate_uuid_shape:
  "\<exists>u. GenerateUuid all_ok rnd = Some u \<and> length u = 36 \<and>
     (\<forall>i < 36. u ! i \<in> set (uuid_pattern i))"
proof -
  let ?u = "map (\<lambda>i. uuid_char (rnd i) (uuidTemplate ! i)) [0..<length uuidTemplate]"
  have len: "length uuidTemplate = 36" by (simp add: uuidTemplate_def)
  have "uuid_char (rnd i) (uuidTemplate ! i) \<in> set (uuid_pattern i)" if "i < 36" for i
    using uuid_template_nth [OF that] uuid_hex_nth [of "rnd i mod 16"]
      uuid_variant_nth [of "rnd i mod 16 mod 4"]
    by (auto simp: uuid_char_def uuid_pattern_def Let_def)
  then show ?thesis by (simp add: GenerateUuid_def len)
qed

text \<open>A generated UUID has 36 characters of the pattern \<open>8-4-4-4-12\<close> in upper case hexadecimal;
  the digit 4 stands at the variant position 19 and one of \<open>8 9 A B\<close> at the version
  position 14.\<close>

theorem GenerateUuid_format:
  "\<exists>u. GenerateUuid all_ok rnd = Some u \<and>
     list_all2 (\<lambda>c cs. c \<in> set cs) u (map uuid_pattern [0..<36])"
proof -
  obtain u where "GenerateUuid all_ok rnd = Some u" "length u = 36"
    "\<forall>i < 36. u ! i \<in> set (uuid_pattern i)"
    using generate_uuid_shape by blast
  then show ?thesis by (simp add: list_all2_conv_all_nth)
qed

text \<open>The client name fits its buffer untruncated exactly for model versions of at most two
  characters.\<close>

theorem make_client_name_fits:
  "make_client_name osv ver = AZURE_OSCONFIG @ '' '' @ print_int ver @ '';'' @ osv \<longleftrightarrow>
     - 10 < ver \<and> ver < 100"
proof -
  have "make_client_name osv ver = AZURE_OSCONFIG @ '' '' @ print_int ver @ '';'' @ osv \<longleftrightarrow>
      length (print_int ver) \<le> 2"
    by (simp add: make_client_name_def take_all_iff del: append.simps take_append)
  also have "\<dots> \<longleftrightarrow> - 10 < ver \<and> ver < 100"
    using length_dec_iff [of 2 "nat ver"] length_dec_iff [of 1 "nat (- ver)"]
    by (auto simp: print_int_def)
  finally show ?thesis .
qed

end

