(* ===== verification/ServerProps.thy ===== *)
theory ServerProps
  imports MpiServer ManagerProps
begin

text \<open>
  Correctness of the MPI server: a contract of the MPI operations under which the dispatcher
  never crashes, its instance for the operations of the modules manager, the error branches
  of the dispatcher, and the text of a response.
\<close>

subsection \<open>The contract of the MPI operations\<close>

text \<open>
  What \<open>HandleMpiCall\<close> relies on: on arguments that are not \<open>NULL\<close> every operation returns
  and keeps the invariant; a desired configuration comes with its length.
\<close>

locale mpi_contract =
  fixes handlers :: "'s MPI_CALLS" and inv :: "'s \<Rightarrow> bool"
  assumes open_ok: "inv s \<Longrightarrow> \<exists>h s'. mpiOpen handlers (Some cn) mx s = Some (h, s') \<and> inv s'"
    and close_ok: "inv s \<Longrightarrow> \<exists>s'. mpiClose handlers (Some h) s = Some s' \<and> inv s'"
    and set_ok: "inv s \<Longrightarrow>
      \<exists>status s'. mpiSet handlers (Some h) (Some c) (Some ob) (Some p) n s = Some (status, s') \<and> inv s'"
    and get_ok: "inv s \<Longrightarrow>
      \<exists>out s'. mpiGet handlers (Some h) (Some c) (Some ob) s = Some (out, s') \<and> inv s'"
    and set_desired_ok: "inv s \<Longrightarrow>
      \<exists>status s'. mpiSetDesired handlers (Some h) (Some p) (c_int (int (length p))) s =
        Some (status, s') \<and> inv s'"
    and get_reported_ok: "inv s \<Longrightarrow>
      \<exists>out s'. mpiGetReported handlers (Some h) s = Some (out, s') \<and> inv s'"
begin

lemma open_cases: "inv s \<Longrightarrow> mpiOpen handlers (Some cn) mx s = r \<Longrightarrow> \<exists>h s'. r = Some (h, s') \<and> inv s'"
  using open_ok by blast

lemma set_cases:
  "inv s \<Longrightarrow> mpiSet handlers (Some h) (Some c) (Some ob) (Some p) n s = r \<Longrightarrow>
   \<exists>status s'. r = Some (status, s') \<and> inv s'"
  using set_ok by blast

lemma set_desired_cases:
  "inv s \<Longrightarrow> mpiSetDesired handlers (Some h) (Some p) (c_int (int (length p))) s = r \<Longrightarrow>
   \<exists>status s'. r = Some (status, s') \<and> inv s'"
  using set_desired_ok by blast

lemma open_safe:
  "inv s \<Longrightarrow> \<exists>http r s'. handle_open m handlers kvs resp s = Some (http, r, s') \<and> inv s'"
  by (auto simp: handle_open_def Let_def dest: open_cases split: option.splits)

lemma set_safe:
  "inv s \<Longrightarrow> \<exists>http r s'. handle_set m handlers kvs cl c ob resp s = Some (http, r, s') \<and> inv s'"
  by (auto simp: handle_set_def split_beta Let_def dest: set_cases split: option.splits)

lemma set_desired_safe:
  "inv s \<Longrightarrow> \<exists>http r s'. handle_set_desired m handlers kvs cl resp s = Some (http, r, s') \<and> inv s'"
  by (auto simp: handle_set_desired_def split_beta Let_def dest: set_desired_cases split: option.splits)

lemma get_safe:
  assumes "inv s"
  shows "\<exists>http r s'. handle_get m handlers cl c ob resp s = Some (http, r, s') \<and> inv s'"
    and "\<exists>http r s'. handle_get_reported m handlers cl resp s = Some (http, r, s') \<and> inv s'"
  using get_ok [OF assms, of cl c ob] get_reported_ok [OF assms, of cl]
  by (auto simp: handle_get_def handle_get_reported_def split_beta Let_def)

lemma session_safe:
  assumes "inv s"
  shows "\<exists>http r s'. handle_session m handlers uri kvs resp s = Some (http, r, s') \<and> inv s'"
proof (cases "string_member kvs ''ClientSession''")
  case None
  then show ?thesis using assms by (simp add: handle_session_def)
next
  case (Some cl)
  then show ?thesis
    using assms close_ok [OF assms, of cl] set_safe [OF assms] get_safe [OF assms] set_desired_safe [OF assms]
    by (auto simp: handle_session_def split: option.splits)
qed

lemma handle_safe:
  assumes "inv s"
  shows "\<exists>http r s'. HandleMpiCall m handlers uri body resp s = Some (http, r, s') \<and> inv s'"
  using assms open_safe [OF assms] session_safe [OF assms]
  by (auto simp: HandleMpiCall_def split: option.splits)

end

subsection \<open>The server invariant\<close>

definition reports_ok :: "'w manager \<Rightarrow> bool" where
  "reports_ok st \<longleftrightarrow>
     (\<forall>rs. g_reported st = Live rs \<longrightarrow> (\<forall>r \<in> set (take (g_reportedTotal st) rs). component r \<noteq> None)) \<and>
     (\<forall>mds. g_modules st = Live mds \<longrightarrow> (\<forall>md \<in> set mds. mmi_module (entry md)))"

definition server_ok :: "'w server \<Rightarrow> bool" where
  "server_ok st \<longleftrightarrow> manager_ok (manager st) \<and> reports_ok (manager st) \<and> g_mpiCall st = []"

lemma report_one_runs:
  assumes "component r \<noteq> None" and "\<forall>ms \<in> set mss. mmi_module (entry (module ms))"
  shows "report_one m i mss r rw \<noteq> None"
proof -
  obtain c where c: "component r = Some c" using assms(1) by auto
  have "\<exists>bs. buffer_bytes p n = Some bs"
    if "find (\<lambda>ms. c \<in> set (components (info (module ms)))) mss = Some ms"
      "mmiGet (entry (module ms)) h x ob w = ((MMI_OK, p, n), w')" for ms h x ob w p n w'
    using mmi_module.get_buffer [OF _ that(2)] assms(2) that(1) by (auto simp: find_Some_iff)
  then show ?thesis
    by (cases rw)
      (fastforce simp: report_one_def c FindModuleSession_Some Let_def split: option.splits prod.splits)
qed

lemma report_all_runs:
  assumes "\<forall>ms \<in> set mss. mmi_module (entry (module ms))"
  shows "\<forall>r \<in> set rs. component r \<noteq> None \<Longrightarrow> report_all m i mss rs rw \<noteq> None"
  using report_one_runs [OF _ assms]
  by (induction rs arbitrary: i rw) (auto split: option.splits)

lemma get_reported_runs:
  assumes "manager_ok st" and "reports_ok st"
  shows "MpiGetReported m h st w \<noteq> None"
proof -
  from assms(1) obtain ss mods rs where st: "g_sessions st = Live ss" "g_modules st = Live mods"
    "g_reported st = Live rs" "\<forall>s \<in> set ss. session_ok mods s" by (rule manager_okE)
  have run: "report_all m 0 (modules s) (take (g_reportedTotal st) rs) ([], w) \<noteq> None"
    if "FindSession ss u = Some s" for u s
  proof (rule report_all_runs)
    show "\<forall>ms \<in> set (modules s). mmi_module (entry (module ms))"
      using FindSession_uuid [OF that] st assms(2) by (auto simp: session_ok_def reports_ok_def)
    show "\<forall>r \<in> set (take (g_reportedTotal st) rs). component r \<noteq> None"
      using st(3) assms(2) by (simp add: reports_ok_def)
  qed
  show ?thesis
    by (auto simp: MpiGetReported_def st Let_def split: option.splits dest: run)
qed

lemma reports_ok_sessions [simp]: "reports_ok (st\<lparr>g_sessions := h\<rparr>) \<longleftrightarrow> reports_ok st"
  by (simp add: reports_ok_def)

lemma MpiOpen_reports:
  "MpiOpen m rnd cn mx st w = Some (h, st', w') \<Longrightarrow> reports_ok st' \<longleftrightarrow> reports_ok st"
  by (auto simp: MpiOpen_def split: option.splits head.splits list.splits if_splits prod.splits)

lemma MpiClose_reports:
  "MpiClose h st w = Some (st', w') \<Longrightarrow> reports_ok st' \<longleftrightarrow> reports_ok st"
  by (auto simp: MpiClose_def split: option.splits head.splits)

lemma c_int_le: "nat (c_int (int n)) \<le> n"
proof -
  have "(int n + 2 ^ 31) mod 2 ^ 32 \<le> int n + 2 ^ 31" by (rule zmod_le_nonneg_dividend) simp
  then show ?thesis by (simp add: c_int_def)
qed

text \<open>The operations of the modules manager meet the contract.\<close>

interpretation mpid: mpi_contract "mpiCalls m rnd" server_ok for m rnd
proof unfold_locales
  fix s :: "'a server" and cn mx
  assume s: "server_ok s"
  then show "\<exists>h s'. mpiOpen (mpiCalls m rnd) (Some cn) mx s = Some (h, s') \<and> server_ok s'"
    using manager_ok_MpiOpen [of "manager s" m rnd "Some cn" mx "world s"]
    by (auto simp: CallMpiOpen_def server_ok_def MpiOpen_reports)
next
  fix s :: "'a server" and h
  assume s: "server_ok s"
  then show "\<exists>s'. mpiClose (mpiCalls m rnd) (Some h) s = Some s' \<and> server_ok s'"
    using manager_ok_MpiClose [of "manager s" "Some h" "world s"]
    by (auto simp: CallMpiClose_def server_ok_def MpiClose_reports)
next
  fix s :: "'a server" and h c ob p n
  assume s: "server_ok s"
  then have "manager_ok (manager s)" by (simp add: server_ok_def)
  then obtain ss where ss: "g_sessions (manager s) = Live ss" by (rule manager_okE)
  have run: "MpiSet (Some h) (Some c) (Some ob) (Some p) n (manager s) (world s) \<noteq> None"
    "MpiGet (Some h) (Some c) (Some ob) (manager s) (world s) \<noteq> None"
    using route_eq [OF ss] by (auto simp: MpiSet_def MpiGet_def split: option.splits prod.splits)
  show "\<exists>status s'. mpiSet (mpiCalls m rnd) (Some h) (Some c) (Some ob) (Some p) n s =
      Some (status, s') \<and> server_ok s'"
    using run(1) s by (auto simp: CallMpiSet_def server_ok_def Let_def)
  show "\<exists>out s'. mpiGet (mpiCalls m rnd) (Some h) (Some c) (Some ob) s = Some (out, s') \<and> server_ok s'"
    using run(2) s by (auto simp: CallMpiGet_def server_ok_def Let_def)
next
  fix s :: "'a server" and h p
  assume s: "server_ok s"
  then show "\<exists>status s'. mpiSetDesired (mpiCalls m rnd) (Some h) (Some p) (c_int (int (length p))) s =
      Some (status, s') \<and> server_ok s'"
    using set_desired_runs [of "manager s" "c_int (int (length p))" p m "Some h" "world s"] c_int_le [of "length p"]
    by (auto simp: CallMpiSetDesired_def server_ok_def Let_def)
next
  fix s :: "'a server" and h
  assume s: "server_ok s"
  then show "\<exists>out s'. mpiGetReported (mpiCalls m rnd) (Some h) s = Some (out, s') \<and> server_ok s'"
    using get_reported_runs [of "manager s" m "Some h" "world s"]
    by (auto simp: CallMpiGetReported_def server_ok_def Let_def)
qed

text \<open>C11: \<open>HandleMpiCall\<close> with the operations of the modules manager returns a response for every
  URI and every request body, valid or not, and leaves the server in a well formed state with
  no call in progress, whatever allocations fail.\<close>

theorem HandleMpiCall_safe:
  assumes "server_ok st"
  shows "\<exists>http resp' st'. HandleMpiCall m (mpiCalls m rnd) uri body resp st = Some (http, resp', st') \<and>
    server_ok st'"
  using assms by (rule mpid.handle_safe)

lemma server_ok_initial: "server_ok (initial_server w)"
  by (simp add: server_ok_def initial_server_def manager_ok_initial reports_ok_def)
    (simp add: initial_manager_def)

theorem HandleMpiCall_safe_witness:
  "\<exists>http resp' st'. HandleMpiCall all_ok (mpiCalls all_ok (\<lambda>_. 0)) (Some ''MpiOpen'') (Some ''{]'')
     (None, 0) (initial_server ()) = Some (http, resp', st') \<and> server_ok st'"
  by (rule HandleMpiCall_safe [OF server_ok_initial])

subsection \<open>Error branches\<close>

definition mpi_uri :: "string \<Rightarrow> bool" where
  "mpi_uri u \<longleftrightarrow> u \<in> {MPI_OPEN_URI, MPI_CLOSE_URI, MPI_SET_URI, MPI_GET_URI, MPI_SET_DESIRED_URI,
     MPI_GET_REPORTED_URI}"

lemma SetErrorResponse_status:
  "fst (SetErrorResponse m status resp) \<in> {HTTP_OK, HTTP_INTERNAL_SERVER_ERROR}"
  by (simp add: SetErrorResponse_def)

lemma SetErrorResponse_not:
  "SetErrorResponse m status resp = (http, r) \<Longrightarrow> http \<noteq> HTTP_BAD_REQUEST \<and> http \<noteq> HTTP_NOT_FOUND"
  using SetErrorResponse_status [of m status resp] by auto

lemma handle_open_refused:
  "handle_open m handlers kvs resp st = Some (http, resp', st') \<Longrightarrow> http \<noteq> HTTP_NOT_FOUND \<and>
   (http = HTTP_BAD_REQUEST \<longrightarrow> resp' = resp \<and> st' = st)"
  by (auto simp: handle_open_def Let_def split: option.splits if_splits)

lemma handle_session_refused:
  "handle_session m handlers uri kvs resp st = Some (http, resp', st') \<Longrightarrow> http \<noteq> HTTP_NOT_FOUND \<and>
   (http = HTTP_BAD_REQUEST \<longrightarrow> resp' = resp \<and> st' = st)"
  by (auto simp: handle_session_def handle_set_def handle_get_def handle_set_desired_def
      handle_get_reported_def dest: SetErrorResponse_not split: option.splits if_splits prod.splits)

text \<open>A request the dispatcher refuses changes nothing: with \<open>HTTP_BAD_REQUEST\<close> or
  \<open>HTTP_NOT_FOUND\<close> no operation was called and no response was stored. \<open>HTTP_NOT_FOUND\<close> is the
  answer exactly to an unknown URI with a JSON object as body.\<close>

theorem HandleMpiCall_refused:
  assumes "HandleMpiCall m handlers (Some u) (Some body) resp st = Some (http, resp', st')"
  shows "(http \<in> {HTTP_BAD_REQUEST, HTTP_NOT_FOUND} \<longrightarrow> resp' = resp \<and> st' = st) \<and>
    (http = HTTP_NOT_FOUND \<longleftrightarrow>
       \<not> mpi_uri u \<and> json_value_get_object (json_parse_string (Some body)) \<noteq> None)"
  using assms
  by (auto simp: HandleMpiCall_def mpi_uri_def dest: handle_open_refused handle_session_refused
      split: option.splits if_splits)

theorem HandleMpiCall_refused_witness:
  "HandleMpiCall all_ok (mpiCalls all_ok (\<lambda>_. 0)) (Some ''MpiReboot'') (Some ''{}'') (None, 0)
     (initial_server ()) = Some (HTTP_NOT_FOUND, (None, 0), initial_server ())"
proof -
  have p: "json_parse_string (Some ''{}'') = Some (JSONObject [])"
    using json_parse_string_serialize [of "JSONObject []" False 0] by (simp add: MAX_NESTING_def)
  then have "HandleMpiCall all_ok (mpiCalls all_ok (\<lambda>_. 0)) (Some ''MpiReboot'') (Some ''{}'') (None, 0)
     (initial_server ()) = Some (HTTP_NOT_FOUND, (None, 0), initial_server ())"
    by (simp add: HandleMpiCall_def mpi_uris)
  from HandleMpiCall_refused [OF this] this show ?thesis by simp
qed

subsection \<open>Responses\<close>

lemma format_response_total:
  assumes "0 \<le> n" and "n < 2 ^ 31"
  shows "format_response all_ok status (Some body, n) =
    Some (response_header status n @ take (nat n) (c_string body))"
proof -
  have "length (dec (nat n)) \<le> 10"
    using assms by (intro length_dec_bound) (simp_all add: nat_less_iff)
  then have "int (length (response_header status n)) + n \<le>
      response_format_length + 3 + int (length (HttpReasonAsString status)) + 16 + n"
    using assms(1)
    by (cases status) (simp_all add: response_header_def response_format_length_def print_int_def CRLF_def dec.simps)
  moreover have "0 \<le> response_format_length" by (simp add: response_format_length_def)
  moreover define e where
    "e = response_format_length + 3 + int (length (HttpReasonAsString status)) + 16 + n + 1"
  ultimately have e: "0 < e" "length (response_header status n @ take (nat n) (c_string body)) \<le> nat (e - 1)"
    using assms(1) by simp_all
  show ?thesis
    unfolding format_response_def prod.case Let_def e_def [symmetric]
    using assms(1) e(1) by (simp add: take_all [OF e(2)] del: take_append)
qed

text \<open>The buffer of a response is large enough for every response size an \<open>int\<close> can hold: the
  text written back is the complete header followed by the first \<open>n\<close> bytes of the body.\<close>

theorem format_response_complete:
  assumes "0 \<le> n" and "n < 2 ^ 31"
  shows "format_response all_ok status (Some body, n) =
    Some (response_header status n @ take (nat n) (c_string body))"
  using assms by (rule format_response_total)

theorem format_response_complete_witness:
  "format_response all_ok HTTP_OK (Some ''[1]'', 3) = Some (response_header HTTP_OK 3 @ ''[1]'')"
  using format_response_complete [of 3 HTTP_OK "''[1]''"] by (simp add: NUL_def)

end
