(* ===== verification/Platform.thy ===== *)
theory Platform
  imports ServerProps
begin

text \<open>
  The platform process (\<open>src/platform/Main.c\<close>): initialisation, the main loop with its
  refresh, the signal handlers and the end of the process, with the worker of the MPI server
  running between the iterations.
\<close>

subsection \<open>State and operations\<close>

record 'w platform =
  server :: "'w server"
  g_lastTime :: "32 word"
  g_stopSignal :: int
  g_refreshSignal :: int

definition SIGHUP :: int where [codes]: "SIGHUP = 1"
definition SIGILL :: int where [codes]: "SIGILL = 4"
definition SIGABRT :: int where [codes]: "SIGABRT = 6"
definition SIGBUS :: int where [codes]: "SIGBUS = 7"
definition SIGFPE :: int where [codes]: "SIGFPE = 8"
definition SIGSEGV :: int where [codes]: "SIGSEGV = 11"

definition ERROR_MESSAGE_CRASH :: string where
  "ERROR_MESSAGE_CRASH = ''[ERROR] OSConfig Platform crash due to ''"

definition crash_message :: "int \<Rightarrow> cstr" where
  "crash_message sig =
     (if sig = SIGSEGV then Some (ERROR_MESSAGE_CRASH @ ''segmentation fault (SIGSEGV)'')
      else if sig = SIGFPE then Some (ERROR_MESSAGE_CRASH @ ''fatal arithmetic error (SIGFPE)'')
      else if sig = SIGILL then Some (ERROR_MESSAGE_CRASH @ ''illegal instruction (SIGILL)'')
      else if sig = SIGABRT then Some (ERROR_MESSAGE_CRASH @ ''abnormal termination (SIGABRT)'')
      else if sig = SIGBUS then Some (ERROR_MESSAGE_CRASH @ ''illegal memory access (SIGBUS)'')
      else None)"

text \<open>The handler returns to the process or ends it with what it appended to the log; the two
  flags are whether the log opens and whether the first \<open>write\<close> succeeds.\<close>

datatype 'w interrupt = Returns "'w platform" | Exits int string

definition SignalInterrupt :: "bool \<Rightarrow> bool \<Rightarrow> int \<Rightarrow> 'w platform \<Rightarrow> 'w interrupt" where
  "SignalInterrupt opens writes sig p =
     (case crash_message sig of
        None \<Rightarrow> Returns (p\<lparr>g_stopSignal := sig\<rparr>)
      | Some msg \<Rightarrow>
          Exits sig
            (if opens \<and> writes
             then msg @ (if g_mpiCall (server p) \<noteq> [] then g_mpiCall (server p) else [CHR 0x0A])
             else []))"

definition SignalReloadConfiguration :: "int \<Rightarrow> 'w platform \<Rightarrow> 'w platform" where
  "SignalReloadConfiguration sig p = p\<lparr>g_refreshSignal := sig\<rparr>"

definition ScheduleRefresh :: "'w platform \<Rightarrow> 'w platform" where
  "ScheduleRefresh p = p\<lparr>g_refreshSignal := SIGHUP\<rparr>"

definition Refresh :: "socket_calls \<Rightarrow> 'w platform \<Rightarrow> 'w platform option" where
  "Refresh io p =
     (case MpiShutdown (server p) of
        None \<Rightarrow> None
      | Some s \<Rightarrow> Some (p\<lparr>server := MpiInitialize io s\<rparr>))"

definition InitializePlatform :: "socket_calls \<Rightarrow> 32 word \<Rightarrow> 'w platform \<Rightarrow> 'w platform" where
  "InitializePlatform io now p = p\<lparr>g_lastTime := now, server := MpiInitialize io (server p)\<rparr>"

definition TerminatePlatform :: "'w platform \<Rightarrow> 'w platform option" where
  "TerminatePlatform p = map_option (\<lambda>s. p\<lparr>server := s\<rparr>) (MpiShutdown (server p))"

definition DOWORK_INTERVAL :: "32 word" where "DOWORK_INTERVAL = 30"

text \<open>\<open>MpiDoWork\<close> does nothing; the clock is read twice.\<close>

definition PlatformDoWork :: "32 word \<Rightarrow> 32 word \<Rightarrow> 'w platform \<Rightarrow> 'w platform" where
  "PlatformDoWork now now' p =
     (if DOWORK_INTERVAL \<le> now - g_lastTime p then p\<lparr>g_lastTime := now'\<rparr> else p)"

text \<open>The body of the main loop; signals are handled between iterations.\<close>

definition main_iteration ::
  "socket_calls \<Rightarrow> 32 word \<Rightarrow> 32 word \<Rightarrow> 'w platform \<Rightarrow> 'w platform option" where
  "main_iteration io now now' p =
     (let p1 = PlatformDoWork now now' p
      in if g_refreshSignal p1 \<noteq> 0 then Refresh io (p1\<lparr>g_refreshSignal := 0\<rparr>) else Some p1)"

definition initial_platform :: "'w \<Rightarrow> 'w platform" where
  "initial_platform w = \<lparr>server = initial_server w, g_lastTime = 0, g_stopSignal = 0, g_refreshSignal = 0\<rparr>"

subsection \<open>What loading keeps\<close>

text \<open>
  The device a platform runs on: modules that deliver what they announce, and a configuration
  whose reported objects name their component.
\<close>

definition device_ok :: "'w device \<Rightarrow> bool" where
  "device_ok dev \<longleftrightarrow>
     (\<forall>p so e. dlopen dev p = Some so \<and> resolve_entry so = Some e \<longrightarrow> mmi_module e) \<and>
     (\<forall>cfg kvs vs v. json_parse_string (read_file dev cfg) = Some (JSONObject kvs) \<and>
        json_object_get_array (Some kvs) (Some ''Reported'') = Some vs \<and> v \<in> set vs \<longrightarrow>
        json_object_get_string (json_value_get_object (Some v)) (Some ''ComponentName'') \<noteq> None)"

lemma load_reported_component:
  assumes "\<And>i. m ''reported.component'' i"
    and "json_object_get_string (json_value_get_object (Some v)) (Some ''ComponentName'') \<noteq> None"
  shows "component (fst (load_reported m i v)) \<noteq> None"
  using assms by (auto simp: load_reported_def json_object_get_string_def json_object_get_value_def
      split: option.splits)

lemma load_reported_all_component:
  assumes "\<And>i. m ''reported.component'' i"
  shows "\<forall>v \<in> set vs. json_object_get_string (json_value_get_object (Some v)) (Some ''ComponentName'') \<noteq> None \<Longrightarrow>
    r \<in> set (fst (load_reported_all m i vs)) \<Longrightarrow> component r \<noteq> None"
proof (induction vs arbitrary: i)
  case (Cons v vs)
  then show ?case
    using load_reported_component [of m v i, OF assms] by (auto simp: split_beta Let_def)
qed simp

lemma LoadModule_entry:
  "LoadModule m dl c p w = (Some md, w') \<Longrightarrow>
   \<exists>q so. dl q = Some so \<and> resolve_entry so = Some (entry md)"
  by (fastforce simp: LoadModule_def Let_def split: option.splits if_splits prod.splits sum.splits)

lemma load_entries_contract:
  assumes "\<And>p so e. dl p = Some so \<Longrightarrow> resolve_entry so = Some e \<Longrightarrow> mmi_module e"
  shows "load_entries ma dl cn dir i es (mods, w) = (mods', w') \<Longrightarrow>
    \<forall>md \<in> set mods. mmi_module (entry md) \<Longrightarrow> \<forall>md \<in> set mods'. mmi_module (entry md)"
proof (induction es arbitrary: i mods w)
  case (Cons e es)
  obtain r w1 where ld: "LoadModule (ma i) dl cn (Some (dir @ ''/'' @ snd e)) w = (r, w1)" by fastforce
  have "\<forall>md. r = Some md \<longrightarrow> mmi_module (entry md)"
    using ld assms by (auto dest!: LoadModule_entry)
  then show ?case
    using Cons.prems ld Cons.IH [of "Suc i" mods w] Cons.IH [of "Suc i" mods w1]
      Cons.IH [of "Suc i" "the r # mods" w1]
    by (cases r) (auto split: if_splits)
qed simp

lemma reports_ok_load_reported_config:
  assumes "reports_ok st" and "\<And>i. m ''reported.component'' i"
    and "\<And>vs v. json_object_get_array obj (Some ''Reported'') = Some vs \<Longrightarrow> v \<in> set vs \<Longrightarrow>
      json_object_get_string (json_value_get_object (Some v)) (Some ''ComponentName'') \<noteq> None"
  shows "reports_ok (load_reported_config m obj st)"
proof (cases "json_object_get_array obj (Some ''Reported'')")
  case None
  then show ?thesis using assms(1) by (simp add: load_reported_config_def)
next
  case (Some vs)
  then show ?thesis
    using assms(1) load_reported_all_component [of m, OF assms(2), of vs] assms(3) [OF Some]
    by (fastforce simp: load_reported_config_def reports_ok_def split_beta Let_def dest: in_set_takeD)
qed

lemma reports_ok_LoadModules:
  assumes "reports_ok st" and "device_ok dev" and "\<And>i. m ''reported.component'' i"
    and "LoadModules m ma dev directory configJson st w = Some (st', w')"
  shows "reports_ok st'"
proof -
  have entries: "\<And>p so e. dlopen dev p = Some so \<Longrightarrow> resolve_entry so = Some e \<Longrightarrow> mmi_module e"
    using assms(2) by (auto simp: device_ok_def)
  have config: "reports_ok (load_reported_config m (Some kvs) st1)"
    if "reports_ok st1" "json_parse_string (read_file dev cfg) = Some (JSONObject kvs)" for st1 kvs cfg
    using that assms(2) by (intro reports_ok_load_reported_config assms(3)) (auto simp: device_ok_def)
  have dir: "reports_ok (st\<lparr>g_modules := Live mods'\<rparr>)"
    if "g_modules st = Live mods" "load_modules_dir m ma dev dir ver mods w = (mods', w1)" for mods mods' w1 dir ver
    using that assms(1) load_entries_contract [of "dlopen dev" ma _ dir 0 _ mods w mods' w1, OF entries]
    by (auto simp: load_modules_dir_def Let_def reports_ok_def split: option.splits)
  show ?thesis
    using assms(1,4) config dir
    by (auto simp: LoadModules_def Let_def split: option.splits head.splits prod.splits if_splits
        elim!: json_value_get_object.elims)
qed

lemma serve_connection_keeps:
  assumes "server_ok st" and "device_ok dev" and "\<And>i. m ''reported.component'' i"
    and "serve_connection m ma dev cap rnd input st = Some (out, st')"
  shows "server_ok st'"
proof -
  obtain mg w where ld: "AreModulesLoadedAndLoadIfNot m ma dev (Some ''/usr/lib/osconfig'')
      (Some ''/etc/osconfig/osconfig.json'') (manager st) (world st) = Some (mg, w)"
    using assms(4) by (auto simp: serve_connection_def split: option.splits)
  have "manager_ok mg"
    using manager_step_ok [OF manager_step.load [OF ld]] assms(1) by (simp add: server_ok_def)
  moreover have "reports_ok mg"
    using ld assms(1) reports_ok_LoadModules [of "manager st" dev m, OF _ assms(2,3)]
    by (auto simp: AreModulesLoadedAndLoadIfNot_def server_ok_def split: head.splits list.splits)
  ultimately have ok: "server_ok (st\<lparr>manager := mg, world := w\<rparr>)"
    using assms(1) by (simp add: server_ok_def)
  have call: "server_ok s'" if
    "HandleMpiCall m (mpiCalls m rnd) uri body resp (st\<lparr>manager := mg, world := w\<rparr>) = Some (http, resp', s')"
    for uri body resp http resp' s'
    using mpid.handle_safe [OF ok, of m m rnd uri body resp] that by auto
  show ?thesis
    using assms(4) ld ok
    by (auto simp: serve_connection_def Let_def dest: call
        split: option.splits prod.splits HTTP_STATUS.splits)
qed

subsection \<open>Reachable states\<close>

text \<open>
  The steps of a platform that has not been refreshed: the worker serves a connection, a
  signal arrives, the main loop goes round.
\<close>

inductive platform_step :: "'w device \<Rightarrow> 'w platform \<Rightarrow> 'w platform \<Rightarrow> bool" for dev where
  connection: "g_serverActive (server p) \<Longrightarrow> \<forall>i. m ''reported.component'' i \<Longrightarrow>
    serve_connection m ma dev cap rnd input (server p) = Some (out, s) \<Longrightarrow>
    platform_step dev p (p\<lparr>server := s\<rparr>)"
| stop_signal: "SignalInterrupt opens writes sig p = Returns p' \<Longrightarrow> platform_step dev p p'"
| reload_signal: "platform_step dev p (SignalReloadConfiguration sig p)"
| iteration: "g_stopSignal p = 0 \<Longrightarrow> g_refreshSignal p = 0 \<Longrightarrow>
    main_iteration io now now' p = Some p' \<Longrightarrow> platform_step dev p p'"

inductive_cases platform_stepE: "platform_step dev p p'"

lemma server_ok_MpiInitialize [simp]: "server_ok (MpiInitialize io st) \<longleftrightarrow> server_ok st"
  by (simp add: MpiInitialize_def server_ok_def)

lemma platform_step_ok:
  "platform_step dev p p' \<Longrightarrow> device_ok dev \<Longrightarrow> server_ok (server p) \<Longrightarrow> server_ok (server p')"
proof (induction rule: platform_step.induct)
  case (connection p m ma cap rnd input out s)
  then show ?case using serve_connection_keeps [of "server p" dev m] by auto
qed (auto simp: SignalInterrupt_def SignalReloadConfiguration_def main_iteration_def PlatformDoWork_def
      split: option.splits if_splits)


definition empty_device :: "'w device" where
  "empty_device = \<lparr>read_file = (\<lambda>_. None), opendir = (\<lambda>_. None), dlopen = (\<lambda>_. None), osconfig_version = ''1''\<rparr>"

lemma empty_device_ok: "device_ok empty_device"
  by (simp add: device_ok_def empty_device_def json_parse_string_def)


subsection \<open>The refresh\<close>

lemma refresh_dangling:
  assumes "server_ok (server p)" and "g_modules (manager (server p)) = Live mds" and "mds \<noteq> []"
    and "socket_ok io" and "bind_ok io" and "listen_ok io"
  shows "\<exists>p' ss. Refresh io p = Some p' \<and> g_serverActive (server p') \<and>
    g_sessions (manager (server p)) = Live ss \<and>
    world (server p') = FreeSessions ss (world (server p)) \<and>
    g_modules (manager (server p')) = Freed \<and>
    AreModulesLoadedAndLoadIfNot m ma dev dir cfg (manager (server p')) w = Some (manager (server p'), w) \<and>
    CallMpiOpen all_ok rnd (Some cn) mx (server p') = None"
proof -
  from assms(1) obtain ss rs where st: "g_sessions (manager (server p)) = Live ss"
    "g_reported (manager (server p)) = Live rs"
    unfolding server_ok_def by (auto elim: manager_okE)
  with assms show ?thesis
    by (auto simp: Refresh_def MpiShutdown_def UnloadModules_def MpiInitialize_def freed_head_def
        AreModulesLoadedAndLoadIfNot_def CallMpiOpen_def MpiOpen_def GenerateUuid_def split: list.splits)
qed

text \<open>A refresh of a platform that has loaded modules closes every module session but leaves the
  freed lists in place: the restarted server keeps accepting connections, loads nothing, and
  the first client that opens a session makes it follow a dangling pointer.\<close>

theorem refresh_leaves_dangling:
  assumes "server_ok (server p)" and "g_modules (manager (server p)) = Live mds" and "mds \<noteq> []"
    and "socket_ok io" and "bind_ok io" and "listen_ok io"
  shows "\<exists>p' ss. Refresh io p = Some p' \<and> g_serverActive (server p') \<and>
    g_sessions (manager (server p)) = Live ss \<and>
    world (server p') = FreeSessions ss (world (server p)) \<and>
    g_modules (manager (server p')) = Freed \<and>
    AreModulesLoadedAndLoadIfNot m ma dev dir cfg (manager (server p')) w = Some (manager (server p'), w) \<and>
    CallMpiOpen all_ok rnd (Some cn) mx (server p') = None"
  using assms by (rule refresh_dangling)

definition recorder_platform :: "mmi_call list platform" where
  "recorder_platform = initial_platform []\<lparr>server := (initial_server [])\<lparr>manager := recorder_session\<rparr>\<rparr>"

lemma recorder_platform_ok: "server_ok (server recorder_platform)"
  by (simp add: recorder_platform_def server_ok_def recorder_session_ok reports_ok_def
      recorder_contract initial_server_def)

theorem refresh_leaves_dangling_witness:
  "\<exists>p'. Refresh \<lparr>socket_ok = True, bind_ok = True, listen_ok = True, pthread_create = 0\<rparr> recorder_platform =
      Some p' \<and> g_serverActive (server p') \<and> world (server p') = [Closed 2, Closed 1] \<and>
     CallMpiOpen all_ok (\<lambda>_. 0) (Some ''me'') 4 (server p') = None"
  using refresh_leaves_dangling [OF recorder_platform_ok, of _ "\<lparr>socket_ok = True, bind_ok = True,
      listen_ok = True, pthread_create = 0\<rparr>"]
  by (fastforce simp: recorder_platform_def FreeSessions_def close_module_sessions_def recorder_modules_def
      recorder_def initial_server_def initial_platform_def)

text \<open>A crash during a call to a module leaves one line in the log: the name of the signal and
  the call, its component and object included as long as they fit; with no call in progress,
  only the name of the signal.\<close>

theorem crash_names_call:
  assumes "g_mpiCall (server p) = object_message uri c ob" and "sig \<in> {SIGSEGV, SIGFPE, SIGILL, SIGABRT, SIGBUS}"
    and "length uri + length c + length ob < 242"
  shows "\<exists>msg. crash_message sig = Some msg \<and> SignalInterrupt True True sig p =
    Exits sig (msg @ '' during '' @ uri @ '' to '' @ c @ ''.'' @ ob @ [CHR 0x0A])"
  using assms
  by (auto simp: SignalInterrupt_def object_message_def MPI_CALL_MESSAGE_LENGTH_def crash_message_def codes)

theorem crash_names_call_witness:
  "\<exists>msg. crash_message SIGSEGV = Some msg \<and> SignalInterrupt True True SIGSEGV
     ((initial_platform ())\<lparr>server := (initial_server ())\<lparr>g_mpiCall := object_message ''MpiSet'' ''A'' ''x''\<rparr>\<rparr>) =
    Exits SIGSEGV (msg @ '' during '' @ ''MpiSet'' @ '' to '' @ ''A'' @ ''.'' @ ''x'' @ [CHR 0x0A])"
  by (rule crash_names_call) simp_all

end
