(* ===== verification/MpiExchange.thy ===== *)
theory MpiExchange
  imports MpiClient JsonText Platform
begin

text \<open>
  The client and the server together: a request the client formats is read back by the
  server, the response the server formats is read back by the client, so that a call through
  the socket is the call of the operation itself.
\<close>

subsection \<open>Separators\<close>

lemma prefix_stop: "x \<notin> set w \<Longrightarrow> prefix w (p @ x # b) \<longleftrightarrow> prefix w p"
proof (induction p arbitrary: w)
  case Nil
  then show ?case by (cases w) auto
next
  case (Cons a p)
  then show ?case by (cases w) auto
qed

lemma sublist_stop: "x \<notin> set w \<Longrightarrow> sublist w (a @ x # b) \<longleftrightarrow> sublist w a \<or> sublist w b"
proof (induction a)
  case Nil
  then show ?case by (cases w) (auto simp: sublist_Cons_right)
next
  case (Cons y a)
  then show ?case using prefix_stop [of x w "y # a" b] by (auto simp: sublist_Cons_right)
qed

lemma sublist_skip: "set d \<inter> set w = {} \<Longrightarrow> w \<noteq> [] \<Longrightarrow> sublist w (d @ b) \<longleftrightarrow> sublist w b"
proof (induction d)
  case (Cons y d)
  then have "\<not> prefix w (y # d @ b)" by (cases w) auto
  then show ?case using Cons by (auto simp: sublist_Cons_right)
qed simp

lemma sublist_too_long: "length s < length w \<Longrightarrow> \<not> sublist w s"
  using sublist_length_le by fastforce

lemma ReadUntilStringFound_first:
  assumes "\<And>site j. m site j" and "NUL \<notin> set pre" and "sublist what pre"
    and "\<not> sublist what (butlast pre)" and "pre \<noteq> []"
  shows "ReadUntilStringFound m what (pre @ r) = (Some pre, r)"
proof (rule ReadUntilStringFound_found)
  fix k assume "k < length pre"
  then have "prefix (take k pre) (butlast pre)"
    using take_is_prefix [of k "butlast pre"] by (simp add: take_butlast)
  then show "\<not> sublist what (take k pre)"
    using assms(4) by (meson prefix_imp_sublist sublist_order.order_trans)
qed (use assms in auto)

lemma dec_no_CRLF: "set (dec n) \<inter> set (CRLF @ CRLF) = {}"
  by (auto simp: CRLF_def isdigit_def dest!: dec_digits)

lemma content_length_read:
  assumes "\<And>site j. m site j" and "NUL \<notin> set a" and "\<not> sublist (CRLF @ CRLF) a"
    and "\<And>t. strstr (a @ content_length_label @ t) content_length_label = Some (content_length_label @ t)"
    and "n < 10 ^ 60"
  shows "ReadHttpContentLengthFromSocket m (a @ content_length_label @ dec n @ CRLF @ CRLF @ r) =
    (atoi (dec n), r)"
proof -
  let ?pre = "a @ content_length_label @ dec n @ CRLF @ CRLF"
  let ?l = "''Content-Length:''"
  have label: "content_length_label = ?l @ [CHR '' '']" by (simp add: content_length_label_def)
  have nul: "NUL \<notin> set ?pre" using assms(2) dec_no_nul by (auto simp: CRLF_def NUL_def label)
  have "\<not> sublist (CRLF @ CRLF) (a @ ?l)"
    using assms(3) sublist_stop [of "CHR ''C''" "CRLF @ CRLF" a "''ontent-Length:''"]
    by (simp add: CRLF_def sublist_Cons_right)
  then have "\<not> sublist (CRLF @ CRLF) ((a @ ?l) @ CHR '' '' # dec n @ butlast (CRLF @ CRLF))"
    using sublist_skip [OF dec_no_CRLF, of n "butlast (CRLF @ CRLF)"]
    by (subst sublist_stop) (simp_all add: CRLF_def sublist_Cons_right)
  then have "\<not> sublist (CRLF @ CRLF) (butlast ?pre)"
    by (simp add: label butlast_append CRLF_def)
  moreover have "sublist (CRLF @ CRLF) ?pre"
    unfolding sublist_def by (intro exI [of _ "a @ content_length_label @ dec n"] exI [of _ "[]"]) simp
  ultimately have until: "ReadUntilStringFound m (CRLF @ CRLF) (?pre @ r) = (Some ?pre, r)"
    using nul assms(1) by (intro ReadUntilStringFound_first) auto
  have "length (dec n) \<le> 60" using assms(5) by (intro length_dec_bound) simp_all
  then have cut: "take 63 (dec n @ CRLF @ CRLF) = dec n @ take (63 - length (dec n)) (CRLF @ CRLF)"
    by (subst take_append) simp
  have none: "takeWhile isdigit (take k (CRLF @ CRLF)) = []" for k
    by (cases k) (simp_all add: CRLF_def isdigit_def)
  have ds: "takeWhile isdigit (take 63 (dec n @ CRLF @ CRLF)) = dec n"
    unfolding cut using dec_digits [of _ n] by (subst takeWhile_append2) (auto simp only: none append_Nil2)
  show ?thesis
    using until assms(4) [of "dec n @ CRLF @ CRLF"] ds nul
    by (simp add: ReadHttpContentLengthFromSocket_def)
qed

subsection \<open>Requests\<close>

definition request_rest :: string where
  "request_rest = '' HTTP/1.1'' @ CRLF @ ''Host: OSConfig'' @ CRLF @ ''User-Agent: OSConfig'' @ CRLF @
     ''Accept: */*'' @ CRLF @ ''Content-Type: application/json'' @ CRLF"

lemma request_data_eq:
  assumes "length body < 2 ^ 31"
  shows "request_data uri body = ''POST /'' @ uri @ CHR ''/'' # request_rest @ content_length_label @
    dec (length body) @ CRLF @ CRLF @ body"
  using assms
  by (simp add: request_data_def request_head_def data_format_length_def Let_def print_int_def
      request_rest_def content_length_label_def CRLF_def)

lemma not_sublist_strstr: "strstr s p = None \<Longrightarrow> \<not> sublist p s"
  by (simp add: strstr_None_iff)

lemma request_rest_frame:
  "NUL \<notin> set request_rest" "\<not> sublist (CRLF @ CRLF) request_rest"
  "strstr (request_rest @ content_length_label @ t) content_length_label = Some (content_length_label @ t)"
proof -
  show "NUL \<notin> set request_rest" by code_simp
  show "\<not> sublist (CRLF @ CRLF) request_rest" by (rule not_sublist_strstr) code_simp
  show "strstr (request_rest @ content_length_label @ t) content_length_label = Some (content_length_label @ t)"
    by (simp add: request_rest_def content_length_label_def CRLF_def)
qed

lemma ReadUri_request:
  assumes "\<And>site j. m site j" and "\<forall>c \<in> set uri. isalpha c" and "length uri < MAX_MPI_URI_LENGTH"
  shows "ReadUriFromSocket m (''POST /'' @ uri @ CHR ''/'' # r) = (Some uri, r)"
proof -
  have "\<not> sublist ''POST /'' ''POST ''" by (rule sublist_too_long) simp
  then have "ReadUntilStringFound m ''POST /'' (''POST /'' @ uri @ CHR ''/'' # r) =
      (Some ''POST /'', uri @ CHR ''/'' # r)"
    using assms(1) by (intro ReadUntilStringFound_first) (auto simp: NUL_def)
  moreover have "\<not> isalpha (CHR ''/'')" by (simp add: ctype)
  ultimately show ?thesis
    using assms by (simp add: ReadUriFromSocket_def read_uri_chars_letters)
qed

text \<open>The server reads back the URI, the length and the body of what the client sends.\<close>

lemma request_read:
  assumes "\<And>site j. m site j" and "\<forall>c \<in> set uri. isalpha c" and "length uri < MAX_MPI_URI_LENGTH"
    and "length body < 2 ^ 31"
  shows "\<exists>r. ReadUriFromSocket m (request_data uri body) = (Some uri, r) \<and>
    ReadHttpContentLengthFromSocket m r = (int (length body), body)"
proof (intro exI conjI)
  let ?r = "request_rest @ content_length_label @ dec (length body) @ CRLF @ CRLF @ body"
  show "ReadUriFromSocket m (request_data uri body) = (Some uri, ?r)"
    using ReadUri_request [of m uri ?r] assms by (simp only: request_data_eq [OF assms(4)])
  show "ReadHttpContentLengthFromSocket m ?r = (int (length body), body)"
    using content_length_read [of m request_rest "length body" body] assms(1,4) request_rest_frame
      atoi_dec [OF assms(4)] by simp
qed

subsection \<open>Responses\<close>

definition response_rest :: "HTTP_STATUS \<Rightarrow> string" where
  "response_rest status = '' '' @ HttpReasonAsString status @ CRLF @ ''Server: OSConfig'' @ CRLF @
     ''Content-Type: application/json'' @ CRLF"

lemma response_rest_frame:
  "NUL \<notin> set (response_rest status)" "\<not> sublist (CRLF @ CRLF) (response_rest status)"
  "strstr (response_rest status @ content_length_label @ t) content_length_label = Some (content_length_label @ t)"
proof -
  show "NUL \<notin> set (response_rest status)" by (induct status) code_simp+
  show "\<not> sublist (CRLF @ CRLF) (response_rest status)"
    by (rule not_sublist_strstr, induct status) code_simp+
  show "strstr (response_rest status @ content_length_label @ t) content_length_label = Some (content_length_label @ t)"
    by (cases status) (simp_all add: response_rest_def content_length_label_def CRLF_def)
qed

lemma response_header_eq:
  "0 \<le> n \<Longrightarrow> response_header status n = ''HTTP/1.1'' @ CHR '' '' # print_int (http_code status) @
     response_rest status @ content_length_label @ dec (nat n) @ CRLF @ CRLF"
  by (simp add: response_header_def response_rest_def content_length_label_def print_int_def)

lemma http_code_text:
  "length (print_int (http_code status)) = 3 \<and>
   atoi (print_int (http_code status)) = http_code status \<and>
   (\<forall>c \<in> set (print_int (http_code status)). isdigit c) \<and>
   49 \<le> (of_char (print_int (http_code status) ! 0) :: nat) \<and>
   (of_char (print_int (http_code status) ! 0) :: nat) \<le> 53"
  by (induct status) code_simp+

lemma ReadHttpStatus_response:
  assumes "\<And>site j. m site j" and "\<And>n. n \<le> cap n" and "0 \<le> n"
  shows "ReadHttpStatusFromSocket m cap (response_header status n @ r) =
    (http_code status, response_rest status @ content_length_label @ dec (nat n) @ CRLF @ CRLF @ r)"
proof -
  have "\<not> sublist ''HTTP/1.1'' ''HTTP/1.''" by (rule sublist_too_long) simp
  then have until: "ReadUntilStringFound m ''HTTP/1.1'' (''HTTP/1.1'' @ q) = (Some ''HTTP/1.1'', q)" for q
    using assms(1) by (intro ReadUntilStringFound_first) (auto simp: NUL_def)
  obtain a b c where abc: "print_int (http_code status) = [a, b, c]"
    using http_code_text [of status] by (auto simp: length_Suc_conv numeral_3_eq_3)
  show ?thesis
    using until http_code_text [of status] assms(2) [of 3]
    by (simp add: ReadHttpStatusFromSocket_def response_header_eq [OF assms(3)] abc sock_read_def min_absorb1)
qed

text \<open>The client reads back the status, the size and the body of what the server writes.\<close>

lemma response_read:
  assumes "\<And>site j. m site j" and "\<And>n. n \<le> readCap io n" and "length b < 2 ^ 31"
  shows "read_response m io (response_header status (int (length b)) @ b) =
    ((if status = HTTP_OK then MPI_OK else http_code status), Some b, int (length b))"
proof -
  have "ReadHttpContentLengthFromSocket m (response_rest status @ content_length_label @
      dec (length b) @ CRLF @ CRLF @ b) = (int (length b), b)"
    using content_length_read [of m "response_rest status" "length b" b] assms(1,3) response_rest_frame
      atoi_dec [OF assms(3)] by simp
  then show ?thesis
    using ReadHttpStatus_response [of m "readCap io" "int (length b)" status b] assms
    by (cases status) (simp_all add: read_response_def Let_def sock_read_def min_absorb1)
qed

subsection \<open>One exchange\<close>

definition connected :: "'w device \<Rightarrow> reader \<Rightarrow> (nat \<Rightarrow> nat) \<Rightarrow> 'w server transport" where
  "connected dev cap rnd =
     \<lparr>checkAccess = 0, setAccess = 0, socketError = None, connectError = None, sendError = None,
      readErrno = 0,
      exchange = (\<lambda>data st. case serve_connection all_ok (\<lambda>_. all_ok) dev cap rnd data st of
         None \<Rightarrow> ([], st) | Some r \<Rightarrow> r),
      readCap = cap\<rparr>"

definition response_bytes :: "cstr \<Rightarrow> string" where
  "response_bytes b = (case b of None \<Rightarrow> [] | Some bs \<Rightarrow> bs)"

lemma format_response_bytes:
  assumes "n = int (length (response_bytes b))" and "NUL \<notin> set (response_bytes b)" and "n < 2 ^ 31"
  shows "format_response all_ok status (b, n) = Some (response_header status n @ response_bytes b)"
proof -
  have "format_response all_ok status (b, n) = format_response all_ok status (Some (response_bytes b), n)"
    by (simp add: format_response_def response_bytes_def split: option.splits)
  also have "\<dots> = Some (response_header status n @ response_bytes b)"
    using format_response_total [of n status "response_bytes b"] assms by simp
  finally show ?thesis .
qed

lemma serve_connection_call:
  assumes "g_modules (manager st) = Live mds" and "mds \<noteq> []" and "\<And>n. n \<le> cap n"
    and "\<forall>c \<in> set uri. isalpha c" and "length uri < MAX_MPI_URI_LENGTH"
    and "body \<noteq> []" and "length body < 2 ^ 31"
    and "HandleMpiCall all_ok (mpiCalls all_ok rnd) (Some uri) (Some body) (None, 0) st = Some (http, resp, st')"
  shows "serve_connection all_ok ma dev cap rnd (request_data uri body) st =
    map_option (\<lambda>out. (out, st')) (format_response all_ok http resp)"
proof -
  obtain r where r: "ReadUriFromSocket all_ok (request_data uri body) = (Some uri, r)"
    "ReadHttpContentLengthFromSocket all_ok r = (int (length body), body)"
    using request_read [of all_ok uri body] assms(4,5,7) by auto
  have "AreModulesLoadedAndLoadIfNot all_ok ma dev dir cfg (manager st) (world st) = Some (manager st, world st)"
    for dir cfg using assms(1,2) by (cases mds) (simp_all add: AreModulesLoadedAndLoadIfNot_def)
  moreover have "read_body all_ok cap (int (length body)) body = Some (HTTP_OK, Some body)"
    using assms(3) [of "length body"] assms(6) by (simp add: read_body_def sock_read_def min_absorb1)
  moreover have "st\<lparr>manager := manager st, world := world st\<rparr> = st" by simp
  ultimately show ?thesis using r assms(8) by (simp add: serve_connection_def)
qed

lemma CallMpi_connected:
  assumes "g_modules (manager st) = Live mds" and "mds \<noteq> []" and "\<And>n. n \<le> cap n"
    and "\<forall>c \<in> set uri. isalpha c" and "length uri < MAX_MPI_URI_LENGTH"
    and "body \<noteq> []" and "length body < 2 ^ 31"
    and "HandleMpiCall all_ok (mpiCalls all_ok rnd) (Some uri) (Some body) (None, 0) st = Some (http, (b, n), st')"
    and "n = int (length (response_bytes b))" and "NUL \<notin> set (response_bytes b)" and "n < 2 ^ 31"
  shows "CallMpi all_ok (connected dev cap rnd) (Some uri) (Some body) st =
    ((if http = HTTP_OK then MPI_OK else http_code http, Some (response_bytes b), n), st')"
  using serve_connection_call [OF assms(1-8), of "\<lambda>_. all_ok" dev]
    format_response_bytes [OF assms(9-11), of http]
    response_read [of all_ok "connected dev cap rnd" "response_bytes b" http] assms(3,9,11)
  by (simp add: CallMpi_def connected_def)

subsection \<open>The bodies the client sends\<close>

lemma ParseString_quoted: "plain s \<Longrightarrow> ParseString all_ok (Some (quoted s)) = Some s"
  using plain_nul [of s] by (simp add: ParseString_def json_parse_quoted)

lemma status_roundtrip:
  "- (2 ^ 31) \<le> x \<Longrightarrow> x < 2 ^ 31 \<Longrightarrow> status_from_response all_ok (Some (quoted (print_int x))) = x"
  by (simp add: status_from_response_def ParseString_quoted plain_print_int atoi_print_int)

lemma set_request_eq:
  "set_request (quoted u) c ob p (length p) = ''{ '' @ members_text '', '' '' }''
     [(''ClientSession'', quoted u), (''ComponentName'', quoted c), (''ObjectName'', quoted ob), (''Payload'', p)]"
  by (simp add: set_request_def quoted_def)

lemma get_request_eq:
  "get_request (quoted u) c ob = ''{ '' @ members_text '', '' '' }''
     [(''ClientSession'', quoted u), (''ComponentName'', quoted c), (''ObjectName'', quoted ob)]"
  by (simp add: get_request_def quoted_def)

lemma close_request_eq: "close_request (quoted u) = ''{ '' @ members_text '', '' '' }'' [(''ClientSession'', quoted u)]"
  by (simp add: close_request_def quoted_def)

lemma set_desired_request_eq:
  "set_desired_request (quoted u) p (length p) = ''{ '' @ members_text '', '' '' }'' [(''ClientSession'', quoted u), (''Payload'', p)]"
  by (simp add: set_desired_request_def quoted_def)

lemma open_request_eq:
  "open_request cn mx = ''{ '' @ members_text '', '' '' }''
     [(''ClientName'', quoted cn), (''MaxPayloadSizeBytes'', print_int (sint mx))]"
  by (simp add: open_request_def quoted_def Let_def)

lemma plain_keys:
  "plain ''ClientSession''" "plain ''ComponentName''" "plain ''ObjectName''" "plain ''Payload''"
  "plain ''ClientName''" "plain ''MaxPayloadSizeBytes''"
  by (simp_all add: plain_char_def)

lemma parse_set_request:
  assumes "plain u" "plain c" "plain ob" "json_ok v" "json_depth v \<le> MAX_NESTING"
  shows "json_parse_string (Some (set_request (quoted u) c ob (json_serialize_r False 0 v)
      (length (json_serialize_r False 0 v)))) =
    Some (JSONObject [(''ClientSession'', JSONString u), (''ComponentName'', JSONString c),
      (''ObjectName'', JSONString ob), (''Payload'', v)])"
  unfolding set_request_eq using assms plain_keys
  by (intro json_parse_members) (simp_all add: member_layout_def value_text_quoted value_text_serialized)

lemma parse_get_request:
  assumes "plain u" "plain c" "plain ob"
  shows "json_parse_string (Some (get_request (quoted u) c ob)) =
    Some (JSONObject [(''ClientSession'', JSONString u), (''ComponentName'', JSONString c),
      (''ObjectName'', JSONString ob)])"
  unfolding get_request_eq using assms plain_keys
  by (intro json_parse_members) (simp_all add: member_layout_def value_text_quoted)

lemma parse_close_request:
  "plain u \<Longrightarrow> json_parse_string (Some (close_request (quoted u))) =
    Some (JSONObject [(''ClientSession'', JSONString u)])"
  unfolding close_request_eq using plain_keys
  by (intro json_parse_members) (simp_all add: member_layout_def value_text_quoted)

lemma parse_set_desired_request:
  assumes "plain u" "json_ok v" "json_depth v \<le> MAX_NESTING"
  shows "json_parse_string (Some (set_desired_request (quoted u) (json_serialize_r False 0 v)
      (length (json_serialize_r False 0 v)))) =
    Some (JSONObject [(''ClientSession'', JSONString u), (''Payload'', v)])"
  unfolding set_desired_request_eq using assms plain_keys
  by (intro json_parse_members) (simp_all add: member_layout_def value_text_quoted value_text_serialized)

lemma parse_open_request:
  assumes "plain cn"
  shows "json_parse_string (Some (open_request cn mx)) =
    Some (JSONObject [(''ClientName'', JSONString cn), (''MaxPayloadSizeBytes'', JSONNumber (of_int (sint mx)))])"
proof -
  have "\<bar>sint mx\<bar> < 2 ^ 53" using sint_ge [of mx] sint_lt [of mx] by simp
  then have "value_text (print_int (sint mx)) (JSONNumber (of_int (sint mx)))" by (rule value_text_number)
  then show ?thesis
    unfolding open_request_eq using assms plain_keys
    by (intro json_parse_members) (simp_all add: member_layout_def value_text_quoted)
qed

end
