(* ===== verification/MpiCalls.thy ===== *)
theory MpiCalls
  imports MpiExchange
begin

text \<open>
  The calls of the client on a connected server: each is the operation of the modules manager
  it names, with the status and the payload brought back unchanged.
\<close>

subsection \<open>What the server answers\<close>

lemma mpi_uri_letters:
  "mpi_uri u \<Longrightarrow> (\<forall>c \<in> set u. isalpha c) \<and> length u < MAX_MPI_URI_LENGTH"
  by (auto simp: mpi_uri_def mpi_uris MAX_MPI_URI_LENGTH_def ctype)

text \<open>What the server answers to a request with its parsed body.\<close>

lemma HandleMpiCall_set:
  assumes "plain u" "plain c" "plain ob" "json_ok v" "json_depth v \<le> MAX_NESTING"
    and "p = json_serialize_r False 0 v"
    and "CallMpiSet (Some u) (Some c) (Some ob) (Some p) (c_int (int (length p))) st = Some (status, st')"
  shows "HandleMpiCall all_ok (mpiCalls all_ok rnd) (Some MPI_SET_URI)
      (Some (set_request (quoted u) c ob p (length p))) (None, 0) st =
    (let (http, resp) = SetErrorResponse all_ok status (None, 0) in Some (http, resp, st'))"
  using parse_set_request [OF assms(1-5)] assms(6,7) plain_nul assms(1-3)
  by (simp add: HandleMpiCall_def handle_session_def handle_set_def string_member_def json_get_defs
      json_serialize_to_string_def mpi_uris)

lemma HandleMpiCall_get:
  assumes "plain u" "plain c" "plain ob"
    and "CallMpiGet (Some u) (Some c) (Some ob) st = Some ((status, out), st')"
  shows "HandleMpiCall all_ok (mpiCalls all_ok rnd) (Some MPI_GET_URI)
      (Some (get_request (quoted u) c ob)) (None, 0) st =
    (let (http, resp) = SetErrorResponse all_ok status (stored (None, 0) out) in Some (http, resp, st'))"
  using parse_get_request [OF assms(1-3)] assms(4) plain_nul assms(1-3)
  by (simp add: HandleMpiCall_def handle_session_def handle_get_def string_member_def json_get_defs mpi_uris)

lemma HandleMpiCall_close:
  assumes "plain u" and "CallMpiClose (Some u) st = Some st'"
  shows "HandleMpiCall all_ok (mpiCalls all_ok rnd) (Some MPI_CLOSE_URI)
      (Some (close_request (quoted u))) (None, 0) st = Some (HTTP_OK, (None, 0), st')"
  using parse_close_request [OF assms(1)] assms(2) plain_nul assms(1)
  by (simp add: HandleMpiCall_def handle_session_def string_member_def json_get_defs mpi_uris)

lemma HandleMpiCall_set_desired:
  assumes "plain u" "json_ok v" "json_depth v \<le> MAX_NESTING" and "p = json_serialize_r False 0 v"
    and "CallMpiSetDesired all_ok (Some u) (Some p) (c_int (int (length p))) st = Some (status, st')"
  shows "HandleMpiCall all_ok (mpiCalls all_ok rnd) (Some MPI_SET_DESIRED_URI)
      (Some (set_desired_request (quoted u) p (length p))) (None, 0) st =
    (let (http, resp) = SetErrorResponse all_ok status (None, 0) in Some (http, resp, st'))"
  using parse_set_desired_request [OF assms(1-3)] assms(4,5) plain_nul assms(1)
  by (simp add: HandleMpiCall_def handle_session_def handle_set_desired_def string_member_def json_get_defs
      json_serialize_to_string_def mpi_uris)

lemma HandleMpiCall_get_reported:
  assumes "plain u" and "CallMpiGetReported all_ok (Some u) st = Some ((status, out), st')"
  shows "HandleMpiCall all_ok (mpiCalls all_ok rnd) (Some MPI_GET_REPORTED_URI)
      (Some (close_request (quoted u))) (None, 0) st =
    (let (http, resp) = SetErrorResponse all_ok status (stored (None, 0) out) in Some (http, resp, st'))"
  using parse_close_request [OF assms(1)] assms(2) plain_nul assms(1)
  by (simp add: HandleMpiCall_def handle_session_def handle_get_reported_def string_member_def json_get_defs mpi_uris)

lemma double_to_int_of_int [simp]:
  "- (2 ^ 31) \<le> k \<Longrightarrow> k < 2 ^ 31 \<Longrightarrow> double_to_int (of_int k) = k"
  by (simp add: double_to_int_def trunc_rat_def)

lemma HandleMpiCall_open:
  assumes "plain cn" and "0 \<le> sint mx"
    and "CallMpiOpen all_ok rnd (Some cn) mx st = Some (Some u, st')"
  shows "HandleMpiCall all_ok (mpiCalls all_ok rnd) (Some MPI_OPEN_URI)
      (Some (open_request cn mx)) (None, 0) st = Some (HTTP_OK, (Some (quoted u), int (length (quoted u))), st')"
proof -
  have k: "double_to_int (of_int (sint mx)) = sint mx"
    using sint_ge [of mx] sint_lt [of mx] by (intro double_to_int_of_int) simp_all
  show ?thesis
    using parse_open_request [OF assms(1)] assms(2,3) plain_nul assms(1) k
    by (simp add: HandleMpiCall_def handle_open_def string_member_def json_get_defs mpi_uris)
qed

subsection \<open>Calls through the socket\<close>

text \<open>
  A server with its modules loaded and no call in progress, on a socket from which a read gets
  all the bytes it asks for when they are there.
\<close>

definition ready :: "reader \<Rightarrow> 'w server \<Rightarrow> bool" where
  "ready cap st \<longleftrightarrow> (\<forall>n. n \<le> cap n) \<and> g_mpiCall st = [] \<and>
     (case g_modules (manager st) of Live mds \<Rightarrow> mds \<noteq> [] | Freed \<Rightarrow> False)"

lemma readyE:
  assumes "ready cap st"
  obtains mds where "g_modules (manager st) = Live mds" "mds \<noteq> []" "\<And>n. n \<le> cap n" "g_mpiCall st = []"
  using assms by (auto simp: ready_def split: head.splits)

lemma CallMpi_ready:
  assumes "ready cap st" and "mpi_uri uri" and "body \<noteq> []" and "length body < 2 ^ 31"
    and "HandleMpiCall all_ok (mpiCalls all_ok rnd) (Some uri) (Some body) (None, 0) st = Some (http, (b, n), st')"
    and "n = int (length (response_bytes b))" and "NUL \<notin> set (response_bytes b)" and "n < 2 ^ 31"
  shows "CallMpi all_ok (connected dev cap rnd) (Some uri) (Some body) st =
    ((if http = HTTP_OK then MPI_OK else http_code http, Some (response_bytes b), n), st')"
  using assms(1)
proof (rule readyE)
  fix mds assume "g_modules (manager st) = Live mds" "mds \<noteq> []" "\<And>n. n \<le> cap n"
  then show ?thesis
    using mpi_uri_letters [OF assms(2)] assms(3-8) by (intro CallMpi_connected) auto
qed

lemma mpi_uri_simps [simp]:
  "mpi_uri MPI_OPEN_URI" "mpi_uri MPI_CLOSE_URI" "mpi_uri MPI_SET_URI" "mpi_uri MPI_GET_URI"
  "mpi_uri MPI_SET_DESIRED_URI" "mpi_uri MPI_GET_REPORTED_URI"
  by (simp_all add: mpi_uri_def)

text \<open>The response to an operation that only has a status.\<close>

lemma status_response:
  assumes "- (2 ^ 31) \<le> status" and "status < 2 ^ 31"
  obtains http b where "SetErrorResponse all_ok status (None, 0) = (http, (b, int (length (response_bytes b))))"
    "NUL \<notin> set (response_bytes b)" "length (response_bytes b) < 2 ^ 31"
    "(if response_bytes b \<noteq> [] then status_from_response all_ok (Some (response_bytes b))
      else if http = HTTP_OK then MPI_OK else http_code http) = status"
proof (cases "status = MPI_OK")
  case True
  then show ?thesis using that [of HTTP_OK None] by (simp add: SetErrorResponse_def response_bytes_def)
next
  case False
  let ?b = "quoted (print_int status)"
  have "nat \<bar>status\<bar> < 10 ^ 10" using assms by (simp add: nat_less_iff)
  then have "length (dec (nat \<bar>status\<bar>)) \<le> 10" by (intro length_dec_bound) simp_all
  then have "length ?b < 2 ^ 31" by (auto simp: quoted_def print_int_def split: if_splits)
  then show ?thesis
    using that [of HTTP_INTERNAL_SERVER_ERROR "Some ?b"] False status_roundtrip [OF assms]
      quoted_nul [OF plain_nul [OF plain_print_int]]
    by (simp add: SetErrorResponse_def response_bytes_def Let_def quoted_def)
qed

lemma call_done:
  "g_mpiCall st = [] \<Longrightarrow> st\<lparr>g_mpiCall := x, world := w, g_mpiCall := []\<rparr> = st\<lparr>world := w\<rparr>"
  by (cases st) simp

text \<open>The concrete server of the witnesses.\<close>

definition recorder_server :: "mmi_call list server" where
  "recorder_server = (initial_server [])\<lparr>manager := recorder_session\<rparr>"

lemma recorder_server_fields [simp]:
  "manager recorder_server = recorder_session" "world recorder_server = []" "g_mpiCall recorder_server = []"
  by (simp_all add: recorder_server_def initial_server_def)

lemma recorder_ready: "ready id recorder_server"
  by (simp add: ready_def)

lemma recorder_true: "json_ok (JSONBoolean True)" "json_depth (JSONBoolean True) \<le> MAX_NESTING"
  by (simp_all add: MAX_NESTING_def)

lemma recorder_plain: "plain ''U''" "plain ''A''" "plain ''x''"
  by (simp_all add: plain_char_def)

text \<open>C1: Setting an object through the socket is setting it in the modules manager: for every
  JSON value the client serialises, the module is called once, with that text, and the client
  returns the status the module returned, whatever \<open>int\<close> it is.\<close>

theorem client_MpiSet:
  assumes "ready cap st" and "plain u" "plain c" "plain ob" and "json_ok v" "json_depth v \<le> MAX_NESTING"
    and "p = json_serialize_r False 0 v" and "length u + length c + length ob + length p < 2 ^ 30"
    and "MpiSet (Some u) (Some c) (Some ob) (Some p) (int (length p)) (manager st) (world st) = Some (status, w)"
    and "- (2 ^ 31) \<le> status" "status < 2 ^ 31"
  shows "CallMpiSet_client all_ok (connected dev cap rnd) (Some (quoted u)) (Some c) (Some ob) (Some p)
    (int (length p)) st = (status, st\<lparr>world := w\<rparr>)"
proof -
  let ?body = "set_request (quoted u) c ob p (length p)"
  have idle: "g_mpiCall st = []" using assms(1) by (simp add: ready_def)
  have call: "CallMpiSet (Some u) (Some c) (Some ob) (Some p) (c_int (int (length p))) st =
      Some (status, st\<lparr>world := w\<rparr>)"
    using assms(8,9) by (simp add: CallMpiSet_def call_done [OF idle])
  from status_response [OF assms(10,11)] obtain http b where r:
    "SetErrorResponse all_ok status (None, 0) = (http, (b, int (length (response_bytes b))))"
    "NUL \<notin> set (response_bytes b)" "length (response_bytes b) < 2 ^ 31"
    "(if response_bytes b \<noteq> [] then status_from_response all_ok (Some (response_bytes b))
      else if http = HTTP_OK then MPI_OK else http_code http) = status" by blast
  have "?body \<noteq> [] \<and> length ?body < 2 ^ 31"
    unfolding set_request_eq using assms(8) by (simp add: quoted_def)
  then have "CallMpi all_ok (connected dev cap rnd) (Some MPI_SET_URI) (Some ?body) st =
      ((if http = HTTP_OK then MPI_OK else http_code http, Some (response_bytes b),
        int (length (response_bytes b))), st\<lparr>world := w\<rparr>)"
    using assms(1,8) HandleMpiCall_set [OF assms(2-7) call] r(1-3)
    by (intro CallMpi_ready) simp_all
  moreover have "p \<noteq> []" using serialize_hd [OF assms(5), of False 0] assms(7) by (simp only: simp_thms)
  ultimately show ?thesis
    using r(4) by (simp add: CallMpiSet_client_def quoted_def mpi_uris split: if_splits)
qed

theorem client_MpiSet_witness:
  "CallMpiSet_client all_ok (connected empty_device id (\<lambda>_. 0)) (Some (quoted ''U'')) (Some ''A'') (Some ''x'')
     (Some (json_serialize_r False 0 (JSONBoolean True)))
     (int (length (json_serialize_r False 0 (JSONBoolean True)))) recorder_server =
   (MMI_OK, recorder_server\<lparr>world := [WasSet 1 ''A'' ''x'' ''true'']\<rparr>)"
proof (rule client_MpiSet [OF recorder_ready recorder_plain recorder_true refl])
  show "MpiSet (Some ''U'') (Some ''A'') (Some ''x'') (Some (json_serialize_r False 0 (JSONBoolean True)))
      (int (length (json_serialize_r False 0 (JSONBoolean True)))) (manager recorder_server) (world recorder_server) =
    Some (MMI_OK, [WasSet 1 ''A'' ''x'' ''true''])"
    by (simp add: MpiSet_def route_def recorder_modules_def ComponentExists_def) (simp add: recorder_def)
qed (simp_all add: codes)

text \<open>A desired configuration sent through the socket makes the calls of \<open>MpiSetDesired\<close> on
  the text the client has, and the client returns its status.\<close>

theorem client_MpiSetDesired:
  assumes "ready cap st" and "plain u" and "json_ok v" "json_depth v \<le> MAX_NESTING"
    and "p = json_serialize_r False 0 v" and "length u + length p < 2 ^ 30"
    and "MpiSetDesired all_ok (Some u) (Some p) (int (length p)) (manager st) (world st) = Some (status, w)"
    and "- (2 ^ 31) \<le> status" "status < 2 ^ 31"
  shows "CallMpiSetDesired_client all_ok (connected dev cap rnd) (Some (quoted u)) (Some p)
    (int (length p)) st = (status, st\<lparr>world := w\<rparr>)"
proof -
  let ?body = "set_desired_request (quoted u) p (length p)"
  have idle: "g_mpiCall st = []" using assms(1) by (simp add: ready_def)
  have call: "CallMpiSetDesired all_ok (Some u) (Some p) (c_int (int (length p))) st =
      Some (status, st\<lparr>world := w\<rparr>)"
    using assms(6,7) by (simp add: CallMpiSetDesired_def call_done [OF idle])
  from status_response [OF assms(8,9)] obtain http b where r:
    "SetErrorResponse all_ok status (None, 0) = (http, (b, int (length (response_bytes b))))"
    "NUL \<notin> set (response_bytes b)" "length (response_bytes b) < 2 ^ 31"
    "(if response_bytes b \<noteq> [] then status_from_response all_ok (Some (response_bytes b))
      else if http = HTTP_OK then MPI_OK else http_code http) = status" by blast
  have "?body \<noteq> [] \<and> length ?body < 2 ^ 31"
    unfolding set_desired_request_eq using assms(6) by (simp add: quoted_def)
  then have "CallMpi all_ok (connected dev cap rnd) (Some MPI_SET_DESIRED_URI) (Some ?body) st =
      ((if http = HTTP_OK then MPI_OK else http_code http, Some (response_bytes b),
        int (length (response_bytes b))), st\<lparr>world := w\<rparr>)"
    using assms(1) HandleMpiCall_set_desired [OF assms(2-5) call] r(1-3)
    by (intro CallMpi_ready) simp_all
  moreover have "p \<noteq> []" using serialize_hd [OF assms(3), of False 0] assms(5) by (simp only: simp_thms)
  ultimately show ?thesis
    using r(4) by (simp add: CallMpiSetDesired_client_def quoted_def mpi_uris split: if_splits)
qed

theorem client_MpiSetDesired_witness:
  "CallMpiSetDesired_client all_ok (connected empty_device id (\<lambda>_. 0)) (Some (quoted ''U''))
     (Some (json_serialize_r False 0 (JSONBoolean True)))
     (int (length (json_serialize_r False 0 (JSONBoolean True)))) recorder_server =
   (MPI_OK, recorder_server\<lparr>world := []\<rparr>)"
proof (rule client_MpiSetDesired [OF recorder_ready recorder_plain(1) recorder_true refl])
  have "json_parse_string (Some ''true'') = Some (JSONBoolean True)"
    using json_parse_string_serialize [of "JSONBoolean True" False 0] by (simp add: MAX_NESTING_def)
  then show "MpiSetDesired all_ok (Some ''U'') (Some (json_serialize_r False 0 (JSONBoolean True)))
      (int (length (json_serialize_r False 0 (JSONBoolean True)))) (manager recorder_server) (world recorder_server) =
    Some (MPI_OK, [])"
    by (simp add: MpiSetDesired_def)
qed (simp_all add: codes)

text \<open>The client's view of an operation that delivers a payload: the payload when the status is
  \<open>MPI_OK\<close>, the status alone otherwise.\<close>

definition payload_result :: "int \<Rightarrow> (cstr \<times> int) option \<Rightarrow> int \<times> cstr \<times> int" where
  "payload_result status out =
     (if status = MPI_OK then (case out of Some (Some bs, n) \<Rightarrow> (MPI_OK, Some bs, n) | _ \<Rightarrow> (MPI_OK, Some [], 0))
      else (status, None, 0))"

definition payload_ok :: "int \<Rightarrow> (cstr \<times> int) option \<Rightarrow> bool" where
  "payload_ok status out \<longleftrightarrow> - (2 ^ 31) \<le> status \<and> status < 2 ^ 31 \<and>
     (status = MPI_OK \<longrightarrow> (\<exists>bs. out = Some (Some bs, int (length bs)) \<and> NUL \<notin> set bs \<and> length bs < 2 ^ 31))"

lemma payload_response:
  assumes "payload_ok status out"
  obtains http b where "SetErrorResponse all_ok status (stored (None, 0) out) =
      (http, (b, int (length (response_bytes b))))"
    "NUL \<notin> set (response_bytes b)" "length (response_bytes b) < 2 ^ 31"
    "get_result all_ok keep ((if http = HTTP_OK then MPI_OK else http_code http), Some (response_bytes b),
       int (length (response_bytes b))) = Some (payload_result status out)"
proof (cases "status = MPI_OK")
  case True
  then obtain bs where bs: "out = Some (Some bs, int (length bs))" "NUL \<notin> set bs" "length bs < 2 ^ 31"
    using assms by (auto simp: payload_ok_def)
  then show ?thesis
    using that [of HTTP_OK "Some bs"] True
    by (simp add: SetErrorResponse_def stored_def response_bytes_def get_result_def payload_result_def codes)
next
  case False
  have range: "- (2 ^ 31) \<le> status" "status < 2 ^ 31" using assms by (simp_all add: payload_ok_def)
  have eq: "SetErrorResponse all_ok status (stored (None, 0) out) = SetErrorResponse all_ok status (None, 0)"
    using False by (simp add: SetErrorResponse_def)
  from status_response [OF range] obtain http b where r:
    "SetErrorResponse all_ok status (None, 0) = (http, (b, int (length (response_bytes b))))"
    "NUL \<notin> set (response_bytes b)" "length (response_bytes b) < 2 ^ 31"
    "(if response_bytes b \<noteq> [] then status_from_response all_ok (Some (response_bytes b))
      else if http = HTTP_OK then MPI_OK else http_code http) = status" by blast
  have "http = HTTP_INTERNAL_SERVER_ERROR" "response_bytes b \<noteq> []"
    using r(1) False by (auto simp: SetErrorResponse_def response_bytes_def quoted_def Let_def)
  then show ?thesis
    using that [of http b] r eq False by (simp add: get_result_def payload_result_def)
qed

lemma client_get:
  assumes "ready cap st" and "plain u" "plain c" "plain ob"
    and "length u + length c + length ob < 2 ^ 30"
    and "MpiGet (Some u) (Some c) (Some ob) (manager st) (world st) = Some ((status, out), w)"
    and "payload_ok status out"
  shows "CallMpiGet_client all_ok (connected dev cap rnd) (Some (quoted u)) (Some c) (Some ob) old st =
    (Some (payload_result status out), st\<lparr>world := w\<rparr>)"
proof -
  let ?body = "get_request (quoted u) c ob"
  have idle: "g_mpiCall st = []" using assms(1) by (simp add: ready_def)
  have call: "CallMpiGet (Some u) (Some c) (Some ob) st = Some ((status, out), st\<lparr>world := w\<rparr>)"
    using assms(6) by (simp add: CallMpiGet_def call_done [OF idle])
  from payload_response [OF assms(7), of True] obtain http b where r:
    "SetErrorResponse all_ok status (stored (None, 0) out) = (http, (b, int (length (response_bytes b))))"
    "NUL \<notin> set (response_bytes b)" "length (response_bytes b) < 2 ^ 31"
    "get_result all_ok True ((if http = HTTP_OK then MPI_OK else http_code http), Some (response_bytes b),
       int (length (response_bytes b))) = Some (payload_result status out)" by blast
  have "?body \<noteq> [] \<and> length ?body < 2 ^ 31"
    unfolding get_request_eq using assms(5) by (simp add: quoted_def)
  then have "CallMpi all_ok (connected dev cap rnd) (Some MPI_GET_URI) (Some ?body) st =
      ((if http = HTTP_OK then MPI_OK else http_code http, Some (response_bytes b),
        int (length (response_bytes b))), st\<lparr>world := w\<rparr>)"
    using assms(1) HandleMpiCall_get [OF assms(2-4) call] r(1-3) by (intro CallMpi_ready) simp_all
  then show ?thesis using r(4) by (simp add: CallMpiGet_client_def quoted_def mpi_uris)
qed

text \<open>C2: Getting an object through the socket delivers, byte for byte, the payload the module
  delivered, or the module's status and no payload.\<close>

theorem client_MpiGet:
  assumes "ready cap st" and "plain u" "plain c" "plain ob"
    and "length u + length c + length ob < 2 ^ 30"
    and "MpiGet (Some u) (Some c) (Some ob) (manager st) (world st) = Some ((status, out), w)"
    and "payload_ok status out"
  shows "CallMpiGet_client all_ok (connected dev cap rnd) (Some (quoted u)) (Some c) (Some ob) old st =
    (Some (payload_result status out), st\<lparr>world := w\<rparr>)"
  using assms by (rule client_get)

theorem client_MpiGet_witness:
  "CallMpiGet_client all_ok (connected empty_device id (\<lambda>_. 0)) (Some (quoted ''U'')) (Some ''A'') (Some ''x'')
     (None, 0) recorder_server =
   (Some (MPI_OK, Some ''[1]'', 3), recorder_server\<lparr>world := [WasGot 1 ''A'' ''x'']\<rparr>)"
proof -
  have "MpiGet (Some ''U'') (Some ''A'') (Some ''x'') (manager recorder_server) (world recorder_server) =
      Some ((MMI_OK, Some (Some ''[1]'', 3)), [WasGot 1 ''A'' ''x''])"
    by (simp add: MpiGet_def route_def recorder_modules_def ComponentExists_def recorder_get)
  from client_MpiGet [OF recorder_ready recorder_plain _ this, of empty_device "\<lambda>_. 0" "(None, 0)"] show ?thesis
    by (simp add: payload_ok_def payload_result_def codes NUL_def)
qed

text \<open>A report requested through the socket arrives byte for byte.\<close>

theorem client_MpiGetReported:
  assumes "ready cap st" and "plain u" and "length u < 2 ^ 30"
    and "MpiGetReported all_ok (Some u) (manager st) (world st) = Some ((status, out), w)"
    and "payload_ok status out"
  shows "CallMpiGetReported_client all_ok (connected dev cap rnd) (Some (quoted u)) old st =
    (Some (payload_result status out), st\<lparr>world := w\<rparr>)"
proof -
  let ?body = "close_request (quoted u)"
  have idle: "g_mpiCall st = []" using assms(1) by (simp add: ready_def)
  have call: "CallMpiGetReported all_ok (Some u) st = Some ((status, out), st\<lparr>world := w\<rparr>)"
    using assms(4) by (simp add: CallMpiGetReported_def call_done [OF idle])
  from payload_response [OF assms(5), of False] obtain http b where r:
    "SetErrorResponse all_ok status (stored (None, 0) out) = (http, (b, int (length (response_bytes b))))"
    "NUL \<notin> set (response_bytes b)" "length (response_bytes b) < 2 ^ 31"
    "get_result all_ok False ((if http = HTTP_OK then MPI_OK else http_code http), Some (response_bytes b),
       int (length (response_bytes b))) = Some (payload_result status out)" by blast
  have "?body \<noteq> [] \<and> length ?body < 2 ^ 31"
    unfolding close_request_eq using assms(3) by (simp add: quoted_def)
  then have "CallMpi all_ok (connected dev cap rnd) (Some MPI_GET_REPORTED_URI) (Some ?body) st =
      ((if http = HTTP_OK then MPI_OK else http_code http, Some (response_bytes b),
        int (length (response_bytes b))), st\<lparr>world := w\<rparr>)"
    using assms(1) HandleMpiCall_get_reported [OF assms(2) call] r(1-3) by (intro CallMpi_ready) simp_all
  then show ?thesis using r(4) by (simp add: CallMpiGetReported_client_def quoted_def mpi_uris)
qed

theorem client_MpiGetReported_witness:
  "CallMpiGetReported_client all_ok (connected empty_device id (\<lambda>_. 0)) (Some (quoted ''None'')) (None, 0)
     recorder_server = (Some (EINVAL, None, 0), recorder_server\<lparr>world := []\<rparr>)"
proof -
  have "MpiGetReported all_ok (Some ''None'') (manager recorder_server) (world recorder_server) =
      Some ((EINVAL, None), [])"
    by (simp add: MpiGetReported_def FindSession_other)
  moreover have "plain ''None''" by (simp add: plain_char_def)
  ultimately show ?thesis
    using client_MpiGetReported [OF recorder_ready, of "''None''" EINVAL None "[]" empty_device "\<lambda>_. 0" "(None, 0)"]
    by (simp add: payload_ok_def payload_result_def codes)
qed

lemma generated_uuid_plain:
  assumes "GenerateUuid all_ok rnd = Some u"
  shows "plain u" and "length u = 36"
proof -
  have pat: "\<forall>c \<in> set (uuid_pattern i). plain_char c" for i
    by (simp add: uuid_pattern_def plain_char_def)
  have "length u = 36" "\<forall>i < 36. u ! i \<in> set (uuid_pattern i)"
    using generate_uuid_shape [of rnd] assms by auto
  then show "plain u" "length u = 36" using pat by (metis in_set_conv_nth)+
qed

lemma client_open:
  assumes "ready cap st" and "plain cn" and "length cn < 2 ^ 30" and "0 \<le> sint mx"
    and "CallMpiOpen all_ok rnd (Some cn) mx st = Some (Some u, st')" and "plain u" and "length u = 36"
  shows "CallMpiOpen_client all_ok (connected dev cap rnd) (Some cn) mx st = (Some (quoted u), st')"
proof -
  let ?body = "open_request cn mx"
  have "nat \<bar>sint mx\<bar> < 10 ^ 10" using assms(4) sint_lt [of mx] by (simp add: nat_less_iff)
  then have "length (print_int (sint mx)) \<le> 10"
    using assms(4) length_dec_bound [of "nat (sint mx)" 10] by (simp add: print_int_def)
  then have "?body \<noteq> [] \<and> length ?body < 2 ^ 31"
    unfolding open_request_eq using assms(3) by (simp add: quoted_def)
  moreover have "length (quoted u) < 2 ^ 31" using assms(7) by (simp add: quoted_def)
  ultimately have "CallMpi all_ok (connected dev cap rnd) (Some MPI_OPEN_URI) (Some ?body) st =
      ((MPI_OK, Some (quoted u), int (length (quoted u))), st')"
    using CallMpi_ready [OF assms(1) _ _ _ HandleMpiCall_open [OF assms(2,4,5)], of dev]
      quoted_nul [OF plain_nul [OF assms(6)]]
    by (simp add: response_bytes_def)
  then show ?thesis
    using ParseString_quoted [OF assms(6)] quoted_nul [OF plain_nul [OF assms(6)]]
    by (simp add: CallMpiOpen_client_def mpi_uris)
qed

lemma client_close:
  assumes "ready cap st" and "plain u" and "length u = 36" and "CallMpiClose (Some u) st = Some st'"
  shows "CallMpiClose_client all_ok (connected dev cap rnd) (Some (quoted u)) st = st'"
proof -
  have "close_request (quoted u) \<noteq> [] \<and> length (close_request (quoted u)) < 2 ^ 31"
    unfolding close_request_eq using assms(3) by (simp add: quoted_def)
  then have "CallMpi all_ok (connected dev cap rnd) (Some MPI_CLOSE_URI) (Some (close_request (quoted u))) st =
      ((MPI_OK, Some [], 0), st')"
    using CallMpi_ready [OF assms(1) _ _ _ HandleMpiCall_close [OF assms(2,4)], of dev]
    by (simp add: response_bytes_def)
  then show ?thesis by (simp add: CallMpiClose_client_def mpi_uris quoted_def)
qed

text \<open>C3: A client that opens a session and closes it again leaves the modules manager as it was: in
  between, its session, found under the handle it was given, has one module session for each
  loaded module, and closing closes each of them once.\<close>

theorem client_open_close:
  assumes "ready cap st" and "manager_ok (manager st)" and "plain cn" and "length cn < 2 ^ 30"
    and "0 \<le> sint mx"
  shows "\<exists>u mds mss st'. CallMpiOpen_client all_ok (connected dev cap rnd) (Some cn) mx st = (Some (quoted u), st') \<and>
    g_modules (manager st) = Live mds \<and> map module mss = rev mds \<and>
    abs_sessions (manager st') = (abs_sessions (manager st))(u \<mapsto> component_table mss) \<and>
    CallMpiClose_client all_ok (connected dev cap rnd) (Some (quoted u)) st' =
      st\<lparr>world := close_module_sessions mss (world st')\<rparr>"
proof -
  obtain mds where mds: "g_modules (manager st) = Live mds" "mds \<noteq> []" using assms(1) by (rule readyE)
  obtain ss where ss: "g_sessions (manager st) = Live ss" using assms(2) by (rule manager_okE)
  obtain u mss w where op: "GenerateUuid all_ok rnd = Some u"
    "open_modules all_ok 0 cn mx mds ([], world st) = (mss, w)"
    "MpiOpen all_ok rnd (Some cn) mx (manager st) (world st) = Some (Some u,
       (manager st)\<lparr>g_sessions := Live (\<lparr>uuid = u, client = cn, modules = mss\<rparr> # ss)\<rparr>, w)"
    using MpiOpen_all_ok [OF mds ss] by blast
  define mg where "mg = (manager st)\<lparr>g_sessions := Live (\<lparr>uuid = u, client = cn, modules = mss\<rparr> # ss)\<rparr>"
  let ?st = "st\<lparr>manager := mg, world := w\<rparr>"
  have call: "CallMpiOpen all_ok rnd (Some cn) mx st = Some (Some u, ?st)"
    using op(3) by (simp add: CallMpiOpen_def mg_def)
  have "ready cap ?st" using assms(1) mds by (simp add: ready_def mg_def)
  moreover have "CallMpiClose (Some u) ?st = Some (st\<lparr>world := close_module_sessions mss w\<rparr>)"
  proof -
    have "mg\<lparr>g_sessions := Live ss\<rparr> = manager st" using ss by (simp add: mg_def)
    moreover have "st\<lparr>manager := manager st, world := x\<rparr> = st\<lparr>world := x\<rparr>" for x by simp
    ultimately show ?thesis by (simp add: CallMpiClose_def MpiClose_def mg_def)
  qed
  moreover have "abs_sessions mg = (abs_sessions (manager st))(u \<mapsto> component_table mss)"
    using ss by (simp add: mg_def abs_sessions_def fun_eq_iff FindSession_other)
  moreover have "map module mss = rev mds" using open_modules_all_ok [OF op(2)] by simp
  ultimately show ?thesis
    using client_open [OF assms(1,3,4,5) call generated_uuid_plain [OF op(1)]] mds
      client_close [OF _ generated_uuid_plain [OF op(1)]]
    by (intro exI conjI) auto
qed

theorem client_open_close_witness:
  "\<exists>u mds mss st'. CallMpiOpen_client all_ok (connected empty_device id (\<lambda>_. 0)) (Some ''A'') 4 recorder_server =
      (Some (quoted u), st') \<and>
    g_modules (manager recorder_server) = Live mds \<and> map module mss = rev mds \<and>
    abs_sessions (manager st') = (abs_sessions (manager recorder_server))(u \<mapsto> component_table mss) \<and>
    CallMpiClose_client all_ok (connected empty_device id (\<lambda>_. 0)) (Some (quoted u)) st' =
      recorder_server\<lparr>world := close_module_sessions mss (world st')\<rparr>"
  by (rule client_open_close [OF recorder_ready _ recorder_plain(2)]) (simp_all add: recorder_session_ok)

subsection \<open>A length the server misreads\<close>

lemma request_length_crash:
  assumes "\<forall>c \<in> set uri. isalpha c" and "length uri < MAX_MPI_URI_LENGTH" and "manager_ok (manager st)"
  shows "serve_connection all_ok ma dev cap rnd
    (''POST /'' @ uri @ CHR ''/'' # request_rest @ content_length_label @ dec 4294967295 @ CRLF @ CRLF @ body) st = None"
proof -
  let ?r = "request_rest @ content_length_label @ dec 4294967295 @ CRLF @ CRLF @ body"
  have "atoi (dec 4294967295) = - 1" by (simp add: atoi_def strtol10_dec clamp64_def c_int_def)
  then have "ReadHttpContentLengthFromSocket all_ok ?r = (- 1, body)"
    using content_length_read [of all_ok request_rest 4294967295 body] request_rest_frame by simp
  moreover have "\<exists>mg w. AreModulesLoadedAndLoadIfNot all_ok ma dev (Some ''/usr/lib/osconfig'')
      (Some ''/etc/osconfig/osconfig.json'') (manager st) (world st) = Some (mg, w)"
    using manager_ok_LoadModules [OF assms(3)]
    by (fastforce simp: AreModulesLoadedAndLoadIfNot_def split: head.splits list.splits)
  moreover have "ReadUriFromSocket all_ok (''POST /'' @ uri @ CHR ''/'' # ?r) = (Some uri, ?r)"
    using assms by (intro ReadUri_request) auto
  ultimately show ?thesis
    unfolding serve_connection_def by (auto simp: read_body_def Let_def simp del: append.simps)
qed

text \<open>A request whose header announces 4294967295 bytes makes the server read its body into a
  buffer of no bytes: the length becomes \<open>-1\<close>, \<open>malloc(0)\<close> succeeds, the failing \<open>read\<close> returns the
  announced length, and the dispatcher parses memory that was not allocated.\<close>

theorem content_length_crash:
  assumes "mpi_uri uri" and "manager_ok (manager st)"
  shows "serve_connection all_ok ma dev cap rnd
    (''POST /'' @ uri @ CHR ''/'' # request_rest @ content_length_label @ dec 4294967295 @ CRLF @ CRLF @ body) st = None"
  using request_length_crash [of uri st ma dev cap rnd body] mpi_uri_letters [OF assms(1)] assms(2)
  by simp

theorem content_length_crash_witness:
  "serve_connection all_ok (\<lambda>_. all_ok) empty_device id (\<lambda>_. 0)
     (''POST /'' @ MPI_GET_URI @ CHR ''/'' # request_rest @ content_length_label @ dec 4294967295 @ CRLF @ CRLF @ [])
     recorder_server = None"
  by (rule content_length_crash) (simp_all add: recorder_session_ok)

end
