(* ===== verification/DeviceInfo.thy ===== *)
theory DeviceInfo
  imports JsonText ManagerProps
begin

text \<open>
  The DeviceInfo module (\<open>src/modules/deviceinfo/src/lib/DeviceInfo.c\<close>): the MMI calls of a
  module with one global session shared by all clients.

  The values it reports are read when it is initialised, by functions of
  \<open>src/common/commonutils/DeviceInfoUtils.c\<close> that run commands and read files: what they
  return is a parameter (\<open>probes\<close>). \<open>str\<close> is the C string at an address; \<open>self\<close> is the
  address of the name of the module, which is its session handle.
\<close>

subsection \<open>State\<close>

record deviceinfo =
  g_osName :: cstr
  g_osVersion :: cstr
  g_cpuType :: cstr
  g_cpuVendor :: cstr
  g_cpuModel :: cstr
  g_totalMemory :: nat
  g_freeMemory :: nat
  g_kernelName :: cstr
  g_kernelRelease :: cstr
  g_kernelVersion :: cstr
  g_productVendor :: cstr
  g_productName :: cstr
  g_productVersion :: cstr
  g_systemCapabilities :: cstr
  g_systemConfiguration :: cstr
  g_referenceCount :: int
  g_maxPayloadSizeBytes :: "32 word"

text \<open>What the functions of \<open>DeviceInfoUtils.c\<close> return: for the name of each, its string or,
  for the two sizes, its number; the free memory is read again at every request.\<close>

record probes =
  getString :: "string \<Rightarrow> cstr"
  getTotalMemory :: nat
  getFreeMemory :: nat

definition DeviceInfoInitialize :: "probes \<Rightarrow> deviceinfo \<Rightarrow> deviceinfo" where
  "DeviceInfoInitialize pr st = st
     \<lparr>g_osName := getString pr ''GetOsName'', g_osVersion := getString pr ''GetOsVersion'',
      g_cpuType := getString pr ''GetCpuType'', g_cpuVendor := getString pr ''GetCpuVendor'',
      g_cpuModel := getString pr ''GetCpuModel'', g_totalMemory := getTotalMemory pr,
      g_freeMemory := getFreeMemory pr, g_kernelName := getString pr ''GetOsKernelName'',
      g_kernelRelease := getString pr ''GetOsKernelRelease'',
      g_kernelVersion := getString pr ''GetOsKernelVersion'',
      g_productVendor := getString pr ''GetProductVendor'', g_productName := getString pr ''GetProductName'',
      g_productVersion := getString pr ''GetProductVersion'',
      g_systemCapabilities := getString pr ''GetSystemCapabilities'',
      g_systemConfiguration := getString pr ''GetSystemConfiguration''\<rparr>"

definition DeviceInfoShutdown :: "deviceinfo \<Rightarrow> deviceinfo" where
  "DeviceInfoShutdown st = st
     \<lparr>g_osName := None, g_osVersion := None, g_cpuType := None, g_cpuVendor := None, g_cpuModel := None,
      g_kernelName := None, g_kernelRelease := None, g_kernelVersion := None, g_productVendor := None,
      g_productName := None, g_productVersion := None, g_systemCapabilities := None,
      g_systemConfiguration := None\<rparr>"

subsection \<open>Sessions\<close>

definition g_deviceInfoModuleName :: string where "g_deviceInfoModuleName = ''DeviceInfo module''"
definition g_deviceInfoComponentName :: string where "g_deviceInfoComponentName = ''DeviceInfo''"

definition DeviceInfoMmiOpen ::
  "MMI_HANDLE \<Rightarrow> cstr \<Rightarrow> 32 word \<Rightarrow> deviceinfo \<Rightarrow> MMI_HANDLE \<times> deviceinfo" where
  "DeviceInfoMmiOpen self clientName maxSize st =
     (self, st\<lparr>g_maxPayloadSizeBytes := maxSize, g_referenceCount := g_referenceCount st + 1\<rparr>)"

definition IsValidSession :: "(MMI_HANDLE \<Rightarrow> string) \<Rightarrow> MMI_HANDLE \<Rightarrow> deviceinfo \<Rightarrow> bool" where
  "IsValidSession str h st \<longleftrightarrow>
     \<not> (h = 0 \<or> str h \<noteq> g_deviceInfoModuleName \<or> g_referenceCount st \<le> 0 \<or> g_osName st = None)"

definition DeviceInfoMmiClose :: "(MMI_HANDLE \<Rightarrow> string) \<Rightarrow> MMI_HANDLE \<Rightarrow> deviceinfo \<Rightarrow> deviceinfo" where
  "DeviceInfoMmiClose str h st =
     (if IsValidSession str h st then st\<lparr>g_referenceCount := g_referenceCount st - 1\<rparr> else st)"

subsection \<open>MmiGetInfo\<close>

definition g_deviceInfoModuleInfo :: string where
  "g_deviceInfoModuleInfo =
     ''{\"Name\": \"DeviceInfo\",'' @
     ''\"Description\": \"Provides functionality to observe device information\",'' @
     ''\"Manufacturer\": \"Microsoft\",'' @
     ''\"VersionMajor\": 3,'' @
     ''\"VersionMinor\": 0,'' @
     ''\"VersionInfo\": \"Copper\",'' @
     ''\"Components\": [\"DeviceInfo\"],'' @
     ''\"Lifetime\": 2,'' @
     ''\"UserAccount\": 0}''"

definition DeviceInfoMmiGetInfo :: "alloc \<Rightarrow> cstr \<Rightarrow> deviceinfo \<Rightarrow> (int \<times> cstr \<times> int) \<times> deviceinfo" where
  "DeviceInfoMmiGetInfo m clientName st =
     ((if m ''DeviceInfoMmiGetInfo'' 0
       then (MMI_OK, Some g_deviceInfoModuleInfo, int (length g_deviceInfoModuleInfo))
       else (ENOMEM, None, 0)), st)"

subsection \<open>MmiGet and MmiSet\<close>

text \<open>The memory sizes are printed into a buffer of 10 bytes.\<close>

definition memory_text :: "nat \<Rightarrow> string" where
  "memory_text n = take 9 (dec n)"

text \<open>
  The value of an object, whether it is a string, and the state after the request; \<open>None\<close>
  for an object the module does not have.
\<close>

definition device_value :: "probes \<Rightarrow> string \<Rightarrow> string \<Rightarrow> deviceinfo \<Rightarrow> (cstr \<times> bool) option \<times> deviceinfo" where
  "device_value pr osv objectName st =
     (if objectName = ''osName'' then (Some (g_osName st, True), st)
      else if objectName = ''osVersion'' then (Some (g_osVersion st, True), st)
      else if objectName = ''cpuType'' then (Some (g_cpuType st, True), st)
      else if objectName = ''cpuVendorId'' then (Some (g_cpuVendor st, True), st)
      else if objectName = ''cpuModel'' then (Some (g_cpuModel st, True), st)
      else if objectName = ''totalMemory'' then (Some (Some (memory_text (g_totalMemory st)), False), st)
      else if objectName = ''freeMemory'' then
        (Some (Some (memory_text (getFreeMemory pr)), False), st\<lparr>g_freeMemory := getFreeMemory pr\<rparr>)
      else if objectName = ''kernelName'' then (Some (g_kernelName st, True), st)
      else if objectName = ''kernelRelease'' then (Some (g_kernelRelease st, True), st)
      else if objectName = ''kernelVersion'' then (Some (g_kernelVersion st, True), st)
      else if objectName = ''productVendor'' then (Some (g_productVendor st, True), st)
      else if objectName = ''productName'' then (Some (g_productName st, True), st)
      else if objectName = ''productVersion'' then (Some (g_productVersion st, True), st)
      else if objectName = ''systemCapabilities'' then (Some (g_systemCapabilities st, True), st)
      else if objectName = ''systemConfiguration'' then (Some (g_systemConfiguration st, True), st)
      else if objectName = ''osConfigVersion'' then (Some (Some osv, True), st)
      else (None, st))"

text \<open>The payload: quotes around a string, none around a number, cut to the maximum size of the
  session, and not escaped.\<close>

definition device_payload :: "32 word \<Rightarrow> cstr \<Rightarrow> bool \<Rightarrow> string" where
  "device_payload maxSize value isString =
     (let text = (case value of None \<Rightarrow> [] | Some s \<Rightarrow> s);
          full = (if isString then CHR 0x22 # text @ [CHR 0x22] else text)
      in if 0 < maxSize \<and> unat maxSize < length full then take (unat maxSize) full else full)"

definition DeviceInfoMmiGet ::
  "alloc \<Rightarrow> (MMI_HANDLE \<Rightarrow> string) \<Rightarrow> probes \<Rightarrow> string \<Rightarrow> MMI_HANDLE \<Rightarrow> cstr \<Rightarrow> cstr \<Rightarrow> deviceinfo \<Rightarrow>
   (int \<times> cstr \<times> int) \<times> deviceinfo" where
  "DeviceInfoMmiGet m str pr osv h componentName objectName st =
     (case (componentName, objectName) of
        (Some c, Some ob) \<Rightarrow>
          if \<not> IsValidSession str h st then ((EINVAL, None, 0), st)
          else if c \<noteq> g_deviceInfoComponentName then ((EINVAL, None, 0), st)
          else (case device_value pr osv ob st of
             (None, st') \<Rightarrow> ((EINVAL, None, 0), st')
           | (Some (value, isString), st') \<Rightarrow>
               (let p = device_payload (g_maxPayloadSizeBytes st') value isString
                in if m ''DeviceInfoMmiGet'' 0 then ((MMI_OK, Some p, int (length p)), st')
                   else ((ENOMEM, None, 0), st')))
      | _ \<Rightarrow> ((EINVAL, None, 0), st))"

definition DeviceInfoMmiSet ::
  "MMI_HANDLE \<Rightarrow> cstr \<Rightarrow> cstr \<Rightarrow> cstr \<Rightarrow> int \<Rightarrow> deviceinfo \<Rightarrow> int \<times> deviceinfo" where
  "DeviceInfoMmiSet h componentName objectName payload n st = (EPERM, st)"

definition DeviceInfoMmiFree :: "cstr \<Rightarrow> deviceinfo \<Rightarrow> deviceinfo" where
  "DeviceInfoMmiFree payload st = st"

text \<open>The entry points, as the shared object exports them.\<close>

definition deviceinfo_mmi ::
  "alloc \<Rightarrow> (MMI_HANDLE \<Rightarrow> string) \<Rightarrow> MMI_HANDLE \<Rightarrow> probes \<Rightarrow> string \<Rightarrow> deviceinfo mmi" where
  "deviceinfo_mmi m str self pr osv =
     \<lparr>mmiOpen = DeviceInfoMmiOpen self, mmiClose = DeviceInfoMmiClose str,
      mmiGetInfo = DeviceInfoMmiGetInfo m, mmiSet = DeviceInfoMmiSet,
      mmiGet = DeviceInfoMmiGet m str pr osv, mmiFree = DeviceInfoMmiFree\<rparr>"

subsection \<open>The module contract\<close>

lemma deviceinfo_get_delivers:
  "DeviceInfoMmiGet m str pr osv h c ob st = ((MMI_OK, p, n), st') \<Longrightarrow>
   \<exists>bs. p = Some bs \<and> n = int (length bs)"
  by (auto simp: DeviceInfoMmiGet_def Let_def codes split: option.splits if_splits prod.splits)

interpretation deviceinfo: mmi_module "deviceinfo_mmi m str self pr osv" for m str self pr osv
  by unfold_locales (auto simp: deviceinfo_mmi_def dest!: deviceinfo_get_delivers)

subsection \<open>Loading the module\<close>

lemma dec_digit: "dec 3 = ''3''" "dec 2 = ''2''"
  by (simp_all add: dec.simps; code_simp)+

lemma value_text_digit:
  "value_text ''3'' (JSONNumber 3)" "value_text ''2'' (JSONNumber 2)" "value_text ''0'' (JSONNumber 0)"
  using value_text_number [of 3] value_text_number [of 2] value_text_number [of 0]
  by (simp_all add: print_int_def dec_digit)

definition deviceinfo_members :: "(string \<times> JSON_Value) list" where
  "deviceinfo_members =
     [(''Name'', JSONString ''DeviceInfo''),
      (''Description'', JSONString ''Provides functionality to observe device information''),
      (''Manufacturer'', JSONString ''Microsoft''), (''VersionMajor'', JSONNumber 3),
      (''VersionMinor'', JSONNumber 0), (''VersionInfo'', JSONString ''Copper''),
      (''Components'', JSONArray [JSONString ''DeviceInfo'']), (''Lifetime'', JSONNumber 2),
      (''UserAccount'', JSONNumber 0)]"

lemma value_text_names:
  "value_text (CHR ''['' # quoted ''DeviceInfo'' @ '']'') (JSONArray [JSONString ''DeviceInfo''])"
  using value_text_serialized [of "JSONArray [JSONString ''DeviceInfo'']"]
  by (simp add: MAX_NESTING_def newline_def append_indent_def json_serialize_string_def escape_char_def quoted_def)

lemma deviceinfo_parse: "json_parse_string (Some g_deviceInfoModuleInfo) = Some (JSONObject deviceinfo_members)"
proof -
  let ?kts = "[(''Name'', quoted ''DeviceInfo''),
      (''Description'', quoted ''Provides functionality to observe device information''),
      (''Manufacturer'', quoted ''Microsoft''), (''VersionMajor'', ''3''), (''VersionMinor'', ''0''),
      (''VersionInfo'', quoted ''Copper''),
      (''Components'', CHR ''['' # quoted ''DeviceInfo'' @ '']''), (''Lifetime'', ''2''),
      (''UserAccount'', ''0'')]"
  have eq: "g_deviceInfoModuleInfo = ''{'' @ members_text '','' ''}'' ?kts"
    by (simp add: g_deviceInfoModuleInfo_def quoted_def)
  show ?thesis
    unfolding eq deviceinfo_members_def
    by (rule json_parse_members)
      (simp_all add: value_text_digit value_text_names value_text_quoted plain_char_def member_layout_def)
qed

text \<open>The shared object of the module.\<close>

definition deviceinfo_so ::
  "alloc \<Rightarrow> (MMI_HANDLE \<Rightarrow> string) \<Rightarrow> MMI_HANDLE \<Rightarrow> probes \<Rightarrow> string \<Rightarrow> deviceinfo shared_object" where
  "deviceinfo_so m str self pr osv =
     \<lparr>symOpen = Some (DeviceInfoMmiOpen self), symClose = Some (DeviceInfoMmiClose str),
      symGetInfo = Some (DeviceInfoMmiGetInfo m), symSet = Some DeviceInfoMmiSet,
      symGet = Some (DeviceInfoMmiGet m str pr osv), symFree = Some DeviceInfoMmiFree\<rparr>"

lemma copy_names: "copy_components all_ok 0 [JSONString s] = Inr [c_string s]"
  by simp

text \<open>The platform can load the DeviceInfo module: the text the module describes itself with is
  JSON that \<open>ParseModuleInfo\<close> accepts, and the module that is loaded has the component the
  module answers to.\<close>

theorem LoadModule_DeviceInfo:
  assumes "dl p = Some (deviceinfo_so all_ok str self pr osv)"
  shows "\<exists>md. LoadModule all_ok dl (Some cn) (Some p) st = (Some md, st) \<and>
    entry md = deviceinfo_mmi all_ok str self pr osv \<and> name (info md) = ''DeviceInfo'' \<and>
    components (info md) = [g_deviceInfoComponentName] \<and>
    major (version (info md)) = 3 \<and> lifetime (info md) = 2"
proof -
  have info: "\<exists>i. ParseModuleInfo all_ok (Some (JSONObject deviceinfo_members)) = Inr i \<and>
      name i = ''DeviceInfo'' \<and> components i = [''DeviceInfo''] \<and> major (version i) = 3 \<and> lifetime i = 2"
    by (simp add: ParseModuleInfo_def required_field_def parse_info_rest_def deviceinfo_members_def
        json_get_defs json_array_get_count_def Let_def NUL_def double_to_uint_def trunc_rat_def)
  have entry: "resolve_entry (deviceinfo_so all_ok str self pr osv) = Some (deviceinfo_mmi all_ok str self pr osv)"
    by (simp add: resolve_entry_def deviceinfo_so_def deviceinfo_mmi_def)
  have "mmiGetInfo (deviceinfo_mmi all_ok str self pr osv) (Some cn) st =
      ((MMI_OK, Some g_deviceInfoModuleInfo, int (length g_deviceInfoModuleInfo)), st)"
    "mmiFree (deviceinfo_mmi all_ok str self pr osv) x st = st" for x
    by (simp_all add: deviceinfo_mmi_def DeviceInfoMmiGetInfo_def DeviceInfoMmiFree_def)
  with info entry assms show ?thesis
    by (auto simp: LoadModule_def deviceinfo_parse g_deviceInfoComponentName_def Let_def)
qed

definition no_device :: deviceinfo where
  "no_device = \<lparr>g_osName = None, g_osVersion = None, g_cpuType = None, g_cpuVendor = None, g_cpuModel = None,
     g_totalMemory = 0, g_freeMemory = 0, g_kernelName = None, g_kernelRelease = None, g_kernelVersion = None,
     g_productVendor = None, g_productName = None, g_productVersion = None, g_systemCapabilities = None,
     g_systemConfiguration = None, g_referenceCount = 0, g_maxPayloadSizeBytes = 0\<rparr>"

definition sample_probes :: probes where
  "sample_probes = \<lparr>getString = (\<lambda>_. Some ''Linux''), getTotalMemory = 5, getFreeMemory = 3\<rparr>"

theorem LoadModule_DeviceInfo_witness:
  "\<exists>md. LoadModule all_ok (\<lambda>_. Some (deviceinfo_so all_ok (\<lambda>_. g_deviceInfoModuleName) 1 sample_probes ''1''))
      (Some ''c'') (Some ''p'') no_device = (Some md, no_device) \<and>
    components (info md) = [g_deviceInfoComponentName]"
  using LoadModule_DeviceInfo [of "\<lambda>_. Some (deviceinfo_so all_ok (\<lambda>_. g_deviceInfoModuleName) 1 sample_probes ''1'')"]
  by blast

subsection \<open>Sessions and values\<close>

definition session_open :: "(MMI_HANDLE \<Rightarrow> string) \<Rightarrow> MMI_HANDLE \<Rightarrow> deviceinfo \<Rightarrow> bool" where
  "session_open str self st \<longleftrightarrow> self \<noteq> 0 \<and> str self = g_deviceInfoModuleName \<and>
     0 \<le> g_referenceCount st \<and> g_osName st \<noteq> None"

text \<open>An initialised DeviceInfo module gives every client a valid session and counts them: closing
  undoes an open except for the maximum payload size, which is that of the last client that
  opened, for all clients.\<close>

theorem DeviceInfo_open_close:
  assumes "session_open str self st"
  shows "\<exists>h st'. DeviceInfoMmiOpen self cn mx st = (h, st') \<and> IsValidSession str h st' \<and>
    g_maxPayloadSizeBytes st' = mx \<and>
    DeviceInfoMmiClose str h st' = st\<lparr>g_maxPayloadSizeBytes := mx\<rparr>"
  using assms by (auto simp: DeviceInfoMmiOpen_def IsValidSession_def DeviceInfoMmiClose_def session_open_def)

theorem DeviceInfo_open_close_witness:
  "\<exists>h st'. DeviceInfoMmiOpen 1 None 4 (DeviceInfoInitialize sample_probes no_device) = (h, st') \<and>
     IsValidSession (\<lambda>_. g_deviceInfoModuleName) h st' \<and> g_maxPayloadSizeBytes st' = 4 \<and>
     DeviceInfoMmiClose (\<lambda>_. g_deviceInfoModuleName) h st' =
       (DeviceInfoInitialize sample_probes no_device)\<lparr>g_maxPayloadSizeBytes := 4\<rparr>"
  by (rule DeviceInfo_open_close)
    (simp add: session_open_def DeviceInfoInitialize_def sample_probes_def no_device_def)

lemma device_payload_fits:
  "maxSize = 0 \<or> length v + 2 \<le> unat maxSize \<Longrightarrow> device_payload maxSize (Some v) True = quoted v"
  "maxSize = 0 \<or> length v \<le> unat maxSize \<Longrightarrow> device_payload maxSize (Some v) False = v"
  by (auto simp: device_payload_def quoted_def Let_def)

text \<open>In a valid session the value of a string object is delivered as the JSON string of that
  value, when it fits the maximum size and needs no escape.\<close>

theorem DeviceInfo_get_string:
  assumes "IsValidSession str h st" and "device_value pr osv ob st = (Some (Some v, True), st')"
    and "g_maxPayloadSizeBytes st' = 0 \<or> length v + 2 \<le> unat (g_maxPayloadSizeBytes st')" and "plain v"
  shows "\<exists>p. DeviceInfoMmiGet all_ok str pr osv h (Some g_deviceInfoComponentName) (Some ob) st =
      ((MMI_OK, Some p, int (length p)), st') \<and> json_parse_string (Some p) = Some (JSONString v)"
  using assms device_payload_fits(1) [OF assms(3)] json_parse_quoted [OF assms(4)]
  by (simp add: DeviceInfoMmiGet_def Let_def)

theorem DeviceInfo_get_string_witness:
  "\<exists>p. DeviceInfoMmiGet all_ok (\<lambda>_. g_deviceInfoModuleName) sample_probes ''1'' 1
      (Some g_deviceInfoComponentName) (Some ''osName'')
      (snd (DeviceInfoMmiOpen 1 None 0 (DeviceInfoInitialize sample_probes no_device))) =
     ((MMI_OK, Some p, int (length p)),
      snd (DeviceInfoMmiOpen 1 None 0 (DeviceInfoInitialize sample_probes no_device))) \<and>
     json_parse_string (Some p) = Some (JSONString ''Linux'')"
  by (rule DeviceInfo_get_string)
    (simp_all add: IsValidSession_def DeviceInfoMmiOpen_def DeviceInfoInitialize_def sample_probes_def
      no_device_def device_value_def plain_char_def)

text \<open>The total memory is delivered as the number it is exactly when it has at most nine digits; a
  larger one loses its last digits.\<close>

theorem DeviceInfo_get_memory:
  assumes "IsValidSession str h st" and "g_maxPayloadSizeBytes st = 0"
  shows "\<exists>p. DeviceInfoMmiGet all_ok str pr osv h (Some g_deviceInfoComponentName) (Some ''totalMemory'') st =
      ((MMI_OK, Some p, int (length p)), st) \<and> (p = dec (g_totalMemory st) \<longleftrightarrow> g_totalMemory st < 10 ^ 9)"
proof -
  have len: "length (dec n) \<le> 9 \<longleftrightarrow> n < 10 ^ 9" for n using length_dec_iff [of 9 n] by simp
  have "take 9 (dec n) = dec n \<longleftrightarrow> n < 10 ^ 9" for n using len [of n] by (simp add: take_all_iff)
  then show ?thesis
    using assms device_payload_fits(2) [of 0 "memory_text (g_totalMemory st)"]
    by (simp add: DeviceInfoMmiGet_def device_value_def Let_def memory_text_def)
qed

theorem DeviceInfo_get_memory_witness:
  "\<exists>p. DeviceInfoMmiGet all_ok (\<lambda>_. g_deviceInfoModuleName) sample_probes ''1'' 1
      (Some g_deviceInfoComponentName) (Some ''totalMemory'')
      (snd (DeviceInfoMmiOpen 1 None 0 (DeviceInfoInitialize sample_probes no_device))) =
     ((MMI_OK, Some p, int (length p)),
      snd (DeviceInfoMmiOpen 1 None 0 (DeviceInfoInitialize sample_probes no_device))) \<and> p = dec 5"
proof -
  let ?st = "snd (DeviceInfoMmiOpen 1 None 0 (DeviceInfoInitialize sample_probes no_device))"
  have "IsValidSession (\<lambda>_. g_deviceInfoModuleName) 1 ?st" "g_maxPayloadSizeBytes ?st = 0" "g_totalMemory ?st = 5"
    by (simp_all add: IsValidSession_def DeviceInfoMmiOpen_def DeviceInfoInitialize_def sample_probes_def
      no_device_def)
  then show ?thesis
    using DeviceInfo_get_memory [of "\<lambda>_. g_deviceInfoModuleName" 1 ?st sample_probes "''1''"] by auto
qed

end
