(* ===== verification/UrlUtils.thy ===== *)
theory UrlUtils
  imports Parson
begin

text \<open>
  Percent encoding (\<open>src/common/commonutils/UrlUtils.c\<close>).

  Both loops write into a buffer by an index; they are recursions over the text that is left
  and the indices the source keeps. The \<open>char\<close> arguments of \<open>isalnum\<close> above 127 are not
  alphanumeric in the C locale.
\<close>

subsection \<open>UrlEncode\<close>

definition url_plain :: "char \<Rightarrow> bool" where
  "url_plain c \<longleftrightarrow> isalnum c \<or> c \<in> {CHR ''-'', CHR ''_'', CHR ''.'', CHR ''~''}"

text \<open>\<open>%02X\<close> of a byte.\<close>

definition upper_hex :: "nat \<Rightarrow> char" where
  "upper_hex d = ''0123456789ABCDEF'' ! d"

definition hex_byte :: "char \<Rightarrow> string" where
  "hex_byte c = [upper_hex (of_char c div 16), upper_hex (of_char c mod 16)]"

text \<open>The loop at output index \<open>j\<close> of a buffer of \<open>len\<close> bytes; \<open>None\<close> is the buffer freed.\<close>

fun url_encode_loop :: "nat \<Rightarrow> nat \<Rightarrow> string \<Rightarrow> cstr" where
  "url_encode_loop j len [] = Some []"
| "url_encode_loop j len (c # s) =
     (if \<not> j < len - 1 then Some []
      else if url_plain c then map_option ((#) c) (url_encode_loop (j + 1) len s)
      else if \<not> j + 3 < len then None
      else map_option ((@) (if c = CHR 0x0A then ''%0A'' else CHR ''%'' # hex_byte c))
             (url_encode_loop (j + 3) len s))"

definition UrlEncode :: "alloc \<Rightarrow> cstr \<Rightarrow> cstr" where
  "UrlEncode m target =
     (case target of
        None \<Rightarrow> None
      | Some s \<Rightarrow>
          if s = [] \<or> \<not> m ''UrlEncode'' 0 then None else url_encode_loop 0 (3 * length s + 1) s)"

subsection \<open>UrlDecode\<close>

text \<open>\<open>sscanf("%x")\<close> of two hexadecimal digits.\<close>

definition hex_value :: "char \<Rightarrow> char \<Rightarrow> nat" where
  "hex_value a b = nat (hex_char_to_int a) * 16 + nat (hex_char_to_int b)"

fun url_decode_loop :: "string \<Rightarrow> cstr" where
  "url_decode_loop [] = Some []"
| "url_decode_loop (c # s) =
     (if url_plain c then map_option ((#) c) (url_decode_loop s)
      else if c = CHR ''%'' then
        (case s of
           a # b # r \<Rightarrow>
             if isxdigit a \<and> isxdigit b
             then map_option ((#) (char_of (hex_value a b))) (url_decode_loop r) else None
         | _ \<Rightarrow> None)
      else None)"

text \<open>A decoded NUL byte ends the C string the caller sees.\<close>

definition UrlDecode :: "alloc \<Rightarrow> cstr \<Rightarrow> cstr" where
  "UrlDecode m target =
     (case target of
        None \<Rightarrow> None
      | Some s \<Rightarrow>
          if s = [] \<or> \<not> m ''UrlDecode'' 0 then None else map_option c_string (url_decode_loop s))"

subsection \<open>The round trip\<close>

definition encode_char :: "char \<Rightarrow> string" where
  "encode_char c = (if url_plain c then [c] else CHR ''%'' # hex_byte c)"

lemma hex_byte_newline: "hex_byte (CHR 0x0A) = ''0A''"
  by code_simp

text \<open>The buffer is large enough: the loop never gives up.\<close>

lemma url_encode_loop_total:
  "j + 3 * length s < len \<Longrightarrow> url_encode_loop j len s = Some (concat (map encode_char s))"
proof (induction s arbitrary: j)
  case (Cons c s)
  have "(if c = CHR 0x0A then ''%0A'' else CHR ''%'' # hex_byte c) = CHR ''%'' # hex_byte c"
    by (simp add: hex_byte_newline)
  then show ?case using Cons by (simp add: encode_char_def)
qed simp

lemma upper_hex_value:
  assumes "d < 16"
  shows "isxdigit (upper_hex d)" "hex_char_to_int (upper_hex d) = int d"
proof -
  have "\<forall>d \<in> set [0..<16]. isxdigit (upper_hex d) \<and> hex_char_to_int (upper_hex d) = int d" by code_simp
  then show "isxdigit (upper_hex d)" "hex_char_to_int (upper_hex d) = int d" using assms by simp_all
qed

lemma decode_hex_byte:
  "url_decode_loop (CHR ''%'' # hex_byte c @ r) = map_option ((#) c) (url_decode_loop r)"
proof -
  have n: "(of_char c :: nat) < 256" by simp
  have "hex_value (upper_hex (of_char c div 16)) (upper_hex (of_char c mod 16)) = of_char c"
    using upper_hex_value [of "of_char c div 16"] upper_hex_value [of "of_char c mod 16"] n
    by (simp add: hex_value_def div_less_iff_less_mult)
  moreover have "\<not> url_plain (CHR ''%'')" by (simp add: url_plain_def ctype)
  ultimately show ?thesis
    using upper_hex_value(1) [of "of_char c div 16"] upper_hex_value(1) [of "of_char c mod 16"] n
    by (simp add: hex_byte_def div_less_iff_less_mult)
qed

lemma url_decode_encode: "url_decode_loop (concat (map encode_char s)) = Some s"
proof (induction s)
  case (Cons c s)
  then show ?case by (cases "url_plain c") (simp_all add: encode_char_def decode_hex_byte del: url_decode_loop.simps(2), simp)
qed simp

text \<open>C16: Encoding never runs out of its buffer and leaves only unreserved characters and percent
  escapes; decoding gives every nonempty text back.\<close>

theorem UrlEncode_UrlDecode:
  assumes "s \<noteq> []" and "NUL \<notin> set s"
  shows "\<exists>e. UrlEncode all_ok (Some s) = Some e \<and> length e \<le> 3 * length s \<and>
    (\<forall>c \<in> set e. url_plain c \<or> c = CHR ''%'') \<and> UrlDecode all_ok (Some e) = Some s"
proof (intro exI conjI)
  let ?e = "concat (map encode_char s)"
  show "UrlEncode all_ok (Some s) = Some ?e"
    using assms(1) by (simp add: UrlEncode_def url_encode_loop_total)
  show "length ?e \<le> 3 * length s"
    by (induction s) (auto simp: encode_char_def hex_byte_def)
  have hex: "url_plain (upper_hex d)" if "d < 16" for d
  proof -
    have "\<forall>d \<in> set [0..<16]. url_plain (upper_hex d)" by code_simp
    then show ?thesis using that by simp
  qed
  have "c \<in> set (encode_char x) \<Longrightarrow> url_plain c \<or> c = CHR ''%''" for c x
    using hex [of "of_char x div 16"] hex [of "of_char x mod 16"]
    by (auto simp: encode_char_def hex_byte_def div_less_iff_less_mult split: if_splits)
  then show "\<forall>c \<in> set ?e. url_plain c \<or> c = CHR ''%''" by auto
  have "?e \<noteq> []" using assms(1) by (cases s) (auto simp: encode_char_def)
  then show "UrlDecode all_ok (Some ?e) = Some s"
    using assms(2) by (simp add: UrlDecode_def url_decode_encode)
qed

theorem UrlEncode_UrlDecode_witness:
  "\<exists>e. UrlEncode all_ok (Some ''a/b c'') = Some e \<and> length e \<le> 3 * length ''a/b c'' \<and>
    (\<forall>c \<in> set e. url_plain c \<or> c = CHR ''%'') \<and> UrlDecode all_ok (Some e) = Some ''a/b c''"
  by (rule UrlEncode_UrlDecode) (simp_all add: NUL_def)

end
