(* ===== verification/TextUtils.thy ===== *)
theory TextUtils
  imports Prelude
begin

text \<open>
  The string functions the components share (\<open>src/common/commonutils/OtherUtils.c\<close> and the
  prefix and suffix functions of \<open>src/common/commonutils/DeviceInfoUtils.c\<close>).

  A C string is the list of its bytes without the terminator. A function that works in place
  on its argument returns the string the buffer holds afterwards; one that leaves a \<open>NULL\<close>
  argument alone is defined on the string itself.
\<close>

subsection \<open>Prefixes and suffixes\<close>

definition RemovePrefix :: "string \<Rightarrow> char \<Rightarrow> string" where
  "RemovePrefix target marker = dropWhile (\<lambda>c. c = marker) target"

definition RemovePrefixBlanks :: "string \<Rightarrow> string" where
  "RemovePrefixBlanks target = RemovePrefix target CHR '' ''"

definition RemovePrefixUpToString :: "string \<Rightarrow> string \<Rightarrow> string" where
  "RemovePrefixUpToString target marker =
     (if target = [] \<or> marker = [] \<or> length target \<le> length marker then target
      else case strstr target marker of None \<Rightarrow> target | Some found \<Rightarrow> found)"

definition RemovePrefixUpTo :: "string \<Rightarrow> char \<Rightarrow> string" where
  "RemovePrefixUpTo target marker = RemovePrefixUpToString target [marker]"

definition RemoveTrailingBlanks :: "string \<Rightarrow> string" where
  "RemoveTrailingBlanks target = rev (dropWhile (\<lambda>c. c = CHR '' '') (rev target))"

definition TruncateAtFirst :: "string \<Rightarrow> char \<Rightarrow> string" where
  "TruncateAtFirst target marker = takeWhile (\<lambda>c. c \<noteq> marker) target"

lemma strstr_char: "strstr s [c] = (if c \<in> set s then Some (dropWhile (\<lambda>x. x \<noteq> c) s) else None)"
  by (induction s) auto

lemma RemovePrefixUpTo_eq:
  "RemovePrefixUpTo target marker =
     (if 1 < length target \<and> marker \<in> set target then dropWhile (\<lambda>c. c \<noteq> marker) target else target)"
  by (auto simp: RemovePrefixUpTo_def RemovePrefixUpToString_def strstr_char)

lemma TruncateAtFirst_id: "marker \<notin> set s \<Longrightarrow> TruncateAtFirst s marker = s"
  by (auto simp: TruncateAtFirst_def takeWhile_eq_all_conv)

lemma TruncateAtFirst_append [simp]:
  "marker \<notin> set s \<Longrightarrow> TruncateAtFirst (s @ marker # t) marker = s"
  by (auto simp: TruncateAtFirst_def takeWhile_append)

lemma RemovePrefix_id: "s = [] \<or> hd s \<noteq> c \<Longrightarrow> RemovePrefix s c = s"
  by (cases s) (auto simp: RemovePrefix_def)

lemma RemoveTrailingBlanks_id: "s = [] \<or> last s \<noteq> CHR '' '' \<Longrightarrow> RemoveTrailingBlanks s = s"
  by (cases s rule: rev_cases) (auto simp: RemoveTrailingBlanks_def)

lemma RemoveTrailingBlanks_no_blank: "CHR '' '' \<notin> set s \<Longrightarrow> RemoveTrailingBlanks s = s"
  by (rule RemoveTrailingBlanks_id) (metis last_in_set)

subsection \<open>\<open>strtol\<close>\<close>

text \<open>
  \<open>strtol(s, NULL, base)\<close> for the bases the sources use (8 and 10): leading white space, an
  optional sign, the longest run of digits of the base, clamped to 64 bits.
\<close>

definition digit_of :: "nat \<Rightarrow> char \<Rightarrow> bool" where
  "digit_of base c \<longleftrightarrow> isdigit c \<and> digit_val c < base"

fun base_value :: "nat \<Rightarrow> nat \<Rightarrow> string \<Rightarrow> nat" where
  "base_value base a [] = a"
| "base_value base a (c # s) = base_value base (base * a + digit_val c) s"

definition strtol :: "string \<Rightarrow> nat \<Rightarrow> int" where
  "strtol s base =
     (case dropWhile isspace s of
        [] \<Rightarrow> 0
      | c # t \<Rightarrow>
          if c = CHR ''-'' then clamp64 (- int (base_value base 0 (takeWhile (digit_of base) t)))
          else if c = CHR ''+'' then clamp64 (int (base_value base 0 (takeWhile (digit_of base) t)))
          else clamp64 (int (base_value base 0 (takeWhile (digit_of base) (c # t)))))"

lemma digit_of_10: "digit_of 10 = isdigit"
  by (auto simp: fun_eq_iff digit_of_def isdigit_def digit_val_def)

lemma base_value_10: "base_value 10 a s = dec_value a s"
  by (induction s arbitrary: a) auto

lemma strtol_10: "strtol s 10 = strtol10 s"
  unfolding strtol_def strtol10_def digit_of_10 base_value_10 ..

lemma strtol_print_int: "- (2 ^ 31) \<le> x \<Longrightarrow> x < 2 ^ 31 \<Longrightarrow> c_int (strtol (print_int x) 10) = x"
  using atoi_print_int [of x] by (simp add: strtol_10 atoi_def)

subsection \<open>Lists of integers\<close>

text \<open>
  The loop of \<open>ConvertStringToIntegers\<close>: the text up to the next separator is one number, and
  the loop goes on behind the separator. The i-th round makes a copy of the rest and enlarges
  the array; the numbers are stored in an \<open>int\<close>.
\<close>

function convert_integers :: "alloc \<Rightarrow> nat \<Rightarrow> char \<Rightarrow> nat \<Rightarrow> string \<Rightarrow> int list option" where
  "convert_integers m i separator base s =
     (if s = [] then Some []
      else if \<not> m ''DuplicateString'' i \<or> \<not> m ''realloc'' i then None
      else let value = TruncateAtFirst s separator;
               text = (if separator = CHR '' '' then value else RemoveTrailingBlanks value)
           in map_option (\<lambda>ns. c_int (strtol text base) # ns)
                (convert_integers m (Suc i) separator base (drop (length value + 1) s)))"
  by pat_completeness auto
termination
  by (relation "measure (\<lambda>(m, i, separator, base, s). length s)") auto

declare convert_integers.simps [simp del]

definition ConvertStringToIntegers :: "alloc \<Rightarrow> cstr \<Rightarrow> char \<Rightarrow> nat \<Rightarrow> int \<times> int list" where
  "ConvertStringToIntegers m source separator base =
     (case source of
        None \<Rightarrow> (EINVAL, [])
      | Some s \<Rightarrow>
          (case convert_integers m 0 separator base s of
             None \<Rightarrow> (ENOMEM, [])
           | Some ns \<Rightarrow> (0, ns)))"

text \<open>The text a list of numbers is written as.\<close>

fun join :: "char \<Rightarrow> string list \<Rightarrow> string" where
  "join sep [] = []"
| "join sep [t] = t"
| "join sep (t # ts) = t @ sep # join sep ts"

lemma convert_integers_join:
  assumes "sep \<notin> set (concat ts)" "CHR '' '' \<notin> set (concat ts)" "[] \<notin> set ts"
  shows "convert_integers all_ok i sep base (join sep ts) =
    Some (map (\<lambda>t. c_int (strtol t base)) ts)"
  using assms
proof (induction sep ts arbitrary: i rule: join.induct)
  case (1 sep)
  then show ?case by (simp add: convert_integers.simps)
next
  case (2 sep t)
  then show ?case
    by (simp add: convert_integers.simps [of _ _ _ _ t] convert_integers.simps [of _ _ _ _ "[]"]
        TruncateAtFirst_id RemoveTrailingBlanks_no_blank)
next
  case (3 sep t t' ts)
  then show ?case
    by (subst convert_integers.simps) (simp add: RemoveTrailingBlanks_no_blank all_ok_def)
qed

lemma print_int_chars: "c \<in> set (print_int x) \<Longrightarrow> isdigit c \<or> c = CHR ''-''"
  by (auto simp: print_int_def dest: dec_digits split: if_splits)

lemma print_int_not_Nil: "print_int x \<noteq> []"
  by (simp add: print_int_def)

text \<open>What is written is read back.\<close>

lemma ConvertStringToIntegers_join:
  assumes "\<forall>x \<in> set ns. - (2 ^ 31) \<le> x \<and> x < 2 ^ 31" and "\<not> isdigit sep" "sep \<noteq> CHR ''-''"
  shows "ConvertStringToIntegers all_ok (Some (join sep (map print_int ns))) sep 10 = (0, ns)"
proof -
  have "\<not> isdigit CHR '' ''" by (simp add: isdigit_def)
  then have "sep \<notin> set (concat (map print_int ns))" "CHR '' '' \<notin> set (concat (map print_int ns))"
    using assms(2,3) by (auto dest: print_int_chars)
  moreover have "[] \<notin> set (map print_int ns)" by (auto dest: sym simp: print_int_not_Nil)
  moreover have "map (\<lambda>t. c_int (strtol t 10)) (map print_int ns) = ns"
    using assms(1) by (induction ns) (simp_all add: strtol_print_int)
  ultimately show ?thesis by (simp add: ConvertStringToIntegers_def convert_integers_join)
qed

subsection \<open>Copies with replacements\<close>

definition ConcatenateStrings :: "alloc \<Rightarrow> cstr \<Rightarrow> cstr \<Rightarrow> cstr" where
  "ConcatenateStrings m a b =
     (case (a, b) of
        (Some s, Some t) \<Rightarrow> if m ''ConcatenateStrings'' 0 then Some (s @ t) else None
      | _ \<Rightarrow> None)"

text \<open>\<open>HashString\<close>: the djb2 hash in a 64-bit \<open>size_t\<close>; a \<open>char\<close> is signed and is extended.\<close>

definition hash_char :: "64 word \<Rightarrow> char \<Rightarrow> 64 word" where
  "hash_char h c = (push_bit 5 h + h) + scast (of_nat (of_char c) :: 8 word)"

definition HashString :: "cstr \<Rightarrow> 64 word" where
  "HashString source = (case source of None \<Rightarrow> 0 | Some s \<Rightarrow> foldl hash_char 5381 s)"

text \<open>A backslash followed by the letter n becomes a line feed.\<close>

fun repair_eol :: "string \<Rightarrow> string" where
  "repair_eol (c # d # s) =
     (if c = CHR 0x5C \<and> d = CHR ''n'' then CHR 0x0A # repair_eol s else c # repair_eol (d # s))"
| "repair_eol [c] = [c]"
| "repair_eol [] = []"

definition RepairBrokenEolCharactersIfAny :: "alloc \<Rightarrow> cstr \<Rightarrow> cstr" where
  "RepairBrokenEolCharactersIfAny m v =
     (case v of
        None \<Rightarrow> None
      | Some s \<Rightarrow> if length s \<le> 2 \<or> \<not> m ''RepairBrokenEol'' 0 then None else Some (repair_eol s))"

definition RemoveCharacterFromString :: "alloc \<Rightarrow> cstr \<Rightarrow> char \<Rightarrow> cstr" where
  "RemoveCharacterFromString m source what =
     (case source of
        None \<Rightarrow> None
      | Some s \<Rightarrow>
          if s = [] \<or> \<not> m ''RemoveCharacterFromString'' 0 then None
          else Some (filter (\<lambda>c. c \<noteq> what) s))"

text \<open>A backslash and one of the escaped characters become the replacement; behind the last
  character stands the terminator.\<close>

fun replace_escapes :: "string \<Rightarrow> char \<Rightarrow> string \<Rightarrow> string" where
  "replace_escapes escapes replacement [] = []"
| "replace_escapes escapes replacement [c] =
     (if c = CHR 0x5C \<and> NUL \<in> set escapes then [replacement] else [c])"
| "replace_escapes escapes replacement (c # d # s) =
     (if c = CHR 0x5C \<and> d \<in> set escapes then replacement # replace_escapes escapes replacement s
      else c # replace_escapes escapes replacement (d # s))"

definition ReplaceEscapeSequencesInString :: "alloc \<Rightarrow> cstr \<Rightarrow> cstr \<Rightarrow> char \<Rightarrow> cstr" where
  "ReplaceEscapeSequencesInString m source escapes replacement =
     (case (source, escapes) of
        (Some s, Some es) \<Rightarrow>
          if s = [] \<or> es = [] \<or> \<not> m ''ReplaceEscapeSequences'' 0 then None
          else Some (replace_escapes es replacement s)
      | _ \<Rightarrow> None)"

lemma repair_eol_length: "length (repair_eol s) \<le> length s"
  by (induction s rule: repair_eol.induct) auto

lemma repair_eol_none: "\<not> sublist [CHR 0x5C, CHR ''n''] s \<Longrightarrow> repair_eol s = s"
  by (induction s rule: repair_eol.induct) (auto simp: sublist_Cons_right)

lemma replace_escapes_length: "length (replace_escapes es r s) \<le> length s"
  by (induction es r s rule: replace_escapes.induct) auto

lemma replace_escapes_none: "CHR 0x5C \<notin> set s \<Longrightarrow> replace_escapes es r s = s"
  by (induction es r s rule: replace_escapes.induct) auto

subsection \<open>Daemon names\<close>

definition IsValidDaemonNameCharacter :: "char \<Rightarrow> bool" where
  "IsValidDaemonNameCharacter c \<longleftrightarrow> isalnum c \<or> c = CHR ''_'' \<or> c = CHR ''-'' \<or> c = CHR ''.''"

definition IsValidDaemonName :: "cstr \<Rightarrow> bool" where
  "IsValidDaemonName nm =
     (case nm of
        None \<Rightarrow> False
      | Some s \<Rightarrow> 0 < length s \<and> length s < 256 \<and> list_all IsValidDaemonNameCharacter s)"

end
