(* ===== verification/FileUtils.thy ===== *)
theory FileUtils
  imports TextUtils
begin

text \<open>
  Reading and writing files (\<open>src/common/commonutils/FileUtils.c\<close>): loading a file into a string,
  saving and appending, replacing a file through a temporary one with its owner and access kept,
  and replacing the lines of a file that carry a marker.

  The file system maps paths to nodes; a node has its bytes, owner, group and permission bits. A
  system call or allocation may fail: an operation takes an oracle that gives, for the name of a
  call site and the number of the loop iteration, 0 or the \<open>errno\<close> the call fails with. The oracle of
  a function called at a named place of another is that place's part of the caller's oracle
  (\<open>nested\<close>). What \<open>fputc\<close> and \<open>fputs\<close> accept reaches the file. Logging, the reason texts and the
  SELinux context (restored by a command) are left out.
\<close>

type_synonym sys = "string \<Rightarrow> nat \<Rightarrow> int"

definition sys_ok :: sys where "sys_ok = (\<lambda>_ _. 0)"

lemma sys_ok_simp [simp]: "sys_ok site i = 0"
  by (simp add: sys_ok_def)

definition nested :: "string \<Rightarrow> sys \<Rightarrow> sys" where
  "nested place m = (\<lambda>site i. m (place @ ''.'' @ site) i)"

lemma nested_ok [simp]: "nested place sys_ok = sys_ok"
  by (simp add: nested_def sys_ok_def)

definition EOL :: char where "EOL = CHR 0x0A"

definition EISDIR :: int where [codes]: "EISDIR = 21"

unbundle bit_operations_syntax

subsection \<open>The file system\<close>

text \<open>Permission bits, written in octal in the sources.\<close>

definition MODE_0600 :: "32 word" where "MODE_0600 = 0x180"
definition MODE_0644 :: "32 word" where "MODE_0644 = 0x1A4"
definition MODE_0660 :: "32 word" where "MODE_0660 = 0x1B0"
definition MODE_07777 :: "32 word" where "MODE_07777 = 0xFFF"
definition S_ISVTX :: "32 word" where "S_ISVTX = 0x200"

record inode =
  is_dir :: bool
  bytes :: string
  st_uid :: "32 word"
  st_gid :: "32 word"
  st_mode :: "32 word"

text \<open>\<open>new_file\<close> is what the process creates: an empty file with its user, group and mode.\<close>

record fs =
  node :: "string \<Rightarrow> inode option"
  new_file :: inode
  line_max :: nat

definition put_node :: "string \<Rightarrow> inode option \<Rightarrow> fs \<Rightarrow> fs" where
  "put_node p n st = st\<lparr>node := (node st)(p := n)\<rparr>"

lemma node_put_node [simp]: "node (put_node p n st) q = (if q = p then n else node st q)"
  by (simp add: put_node_def)

lemma put_node_fields [simp]:
  "new_file (put_node p n st) = new_file st" "line_max (put_node p n st) = line_max st"
  by (simp_all add: put_node_def)

lemma put_node_twice [simp]: "put_node p n (put_node p n' st) = put_node p n st"
  by (simp add: put_node_def)

lemma put_node_same: "node st p = n \<Longrightarrow> put_node p n st = st"
  by (simp add: put_node_def fun_upd_idem)

lemma put_node_swap: "p \<noteq> q \<Longrightarrow> put_node p n (put_node q n' st) = put_node q n' (put_node p n st)"
  by (simp add: put_node_def fun_upd_twist)

text \<open>The bytes a reader finds: a directory can be opened, and reading it fails at once.\<close>

definition readable_bytes :: "inode \<Rightarrow> string" where
  "readable_bytes n = (if is_dir n then [] else bytes n)"

definition FileExists :: "cstr \<Rightarrow> fs \<Rightarrow> bool" where
  "FileExists fileName st = (case fileName of None \<Rightarrow> False | Some p \<Rightarrow> node st p \<noteq> None)"

definition DirectoryExists :: "sys \<Rightarrow> cstr \<Rightarrow> fs \<Rightarrow> bool" where
  "DirectoryExists m fileName st =
     (case fileName of
        None \<Rightarrow> False
      | Some p \<Rightarrow> (case node st p of None \<Rightarrow> False | Some n \<Rightarrow> is_dir n \<and> m ''opendir'' 0 = 0))"

lemma FileExists_Some [simp]: "FileExists (Some p) st \<longleftrightarrow> node st p \<noteq> None"
  by (simp add: FileExists_def)

subsection \<open>Loading\<close>

text \<open>The buffer grows by 1024 bytes each time it is full; the result is a C string.\<close>

definition LoadStringFromFile :: "sys \<Rightarrow> cstr \<Rightarrow> bool \<Rightarrow> fs \<Rightarrow> cstr" where
  "LoadStringFromFile m fileName stopAtEol st =
     (case fileName of
        None \<Rightarrow> None
      | Some p \<Rightarrow>
          (case node st p of
             None \<Rightarrow> None
           | Some n \<Rightarrow>
               if m ''fopen'' 0 \<noteq> 0 \<or> m ''flock'' 0 \<noteq> 0 \<or> m ''malloc'' 0 \<noteq> 0 then None
               else (let text = (if stopAtEol then takeWhile (\<lambda>c. c \<noteq> EOL) (readable_bytes n)
                                 else readable_bytes n)
                     in if list_all (\<lambda>k. m ''realloc'' k = 0) [1..<length text div 1024 + 1]
                        then Some (c_string text) else None)))"

lemma LoadStringFromFile_ok [simp]:
  "LoadStringFromFile sys_ok (Some p) False st = map_option (\<lambda>n. c_string (readable_bytes n)) (node st p)"
  by (simp add: LoadStringFromFile_def Let_def list_all_iff split: option.split)

subsection \<open>Saving\<close>

text \<open>
  The loop that writes the payload: the bytes written, and whether the loop noticed no failure. A
  failing \<open>fputc\<close> returns \<open>EOF\<close>, which converted to \<open>char\<close> is the byte 0xFF: the failure goes
  unnoticed when that byte was to be written.
\<close>

fun put_bytes :: "sys \<Rightarrow> nat \<Rightarrow> string \<Rightarrow> string \<times> bool" where
  "put_bytes m i [] = ([], True)"
| "put_bytes m i (c # cs) =
     (let (written, ok) = put_bytes m (Suc i) cs
      in if m ''fputc'' i = 0 then (c # written, ok) else (written, ok \<and> c = CHR 0xFF))"

lemma put_bytes_ok [simp]: "put_bytes sys_ok i cs = (cs, True)"
  by (induction cs arbitrary: i) simp_all

definition RestrictFileAccessToCurrentAccountOnly :: "sys \<Rightarrow> string \<Rightarrow> fs \<Rightarrow> fs" where
  "RestrictFileAccessToCurrentAccountOnly m p st =
     (case node st p of
        None \<Rightarrow> st
      | Some n \<Rightarrow> if m ''chmod'' 0 = 0 then put_node p (Some (n\<lparr>st_mode := MODE_0660\<rparr>)) st else st)"

text \<open>\<open>fopen\<close> for writing: the file is created when it does not exist, emptied in mode \<open>w\<close>.\<close>

definition open_for_writing :: "string \<Rightarrow> string \<Rightarrow> fs \<Rightarrow> fs" where
  "open_for_writing p mode st =
     put_node p (Some (case node st p of
                         None \<Rightarrow> new_file st
                       | Some n \<Rightarrow> if mode = ''w'' then n\<lparr>bytes := []\<rparr> else n)) st"

definition append_bytes :: "string \<Rightarrow> string \<Rightarrow> fs \<Rightarrow> fs" where
  "append_bytes p bs st =
     (case node st p of None \<Rightarrow> st | Some n \<Rightarrow> put_node p (Some (n\<lparr>bytes := bytes n @ bs\<rparr>)) st)"

lemma some_directory_code [code_unfold]: "(\<exists>n. x = Some n \<and> is_dir n) \<longleftrightarrow> (case x of None \<Rightarrow> False | Some n \<Rightarrow> is_dir n)"
  by (cases x) simp_all

text \<open>\<open>payload\<close> is the \<open>payloadSizeBytes\<close> bytes that are to be written. The file is opened, and in
  mode \<open>w\<close> emptied, before it is locked.\<close>

definition SaveToFile :: "sys \<Rightarrow> cstr \<Rightarrow> string \<Rightarrow> cstr \<Rightarrow> fs \<Rightarrow> bool \<times> fs" where
  "SaveToFile m fileName mode payload st =
     (case (fileName, payload) of
        (Some p, Some bs) \<Rightarrow>
          if bs = [] then (False, st)
          else (let st1 = RestrictFileAccessToCurrentAccountOnly m p st
                in if m ''fopen'' 0 \<noteq> 0 \<or> (\<exists>n. node st p = Some n \<and> is_dir n) then (False, st1)
                   else (let st2 = open_for_writing p mode st1
                         in if m ''flock'' 0 \<noteq> 0 then (False, st2)
                            else (let (written, ok) = put_bytes m 0 bs
                                  in (ok, append_bytes p written st2))))
      | _ \<Rightarrow> (False, st))"

definition SavePayloadToFile :: "sys \<Rightarrow> cstr \<Rightarrow> cstr \<Rightarrow> fs \<Rightarrow> bool \<times> fs" where
  "SavePayloadToFile m fileName payload st = SaveToFile m fileName ''w'' payload st"

definition FileEndsInEol :: "sys \<Rightarrow> string \<Rightarrow> fs \<Rightarrow> bool" where
  "FileEndsInEol m p st =
     (case node st p of
        None \<Rightarrow> False
      | Some n \<Rightarrow>
          m ''stat'' 0 = 0 \<and> readable_bytes n \<noteq> [] \<and> m ''fopen'' 0 = 0 \<and> m ''fseek'' 0 = 0 \<and>
          last (readable_bytes n) = EOL)"

definition AppendPayloadToFile :: "sys \<Rightarrow> cstr \<Rightarrow> cstr \<Rightarrow> fs \<Rightarrow> bool \<times> fs" where
  "AppendPayloadToFile m fileName payload st =
     (case (fileName, payload) of
        (Some p, Some bs) \<Rightarrow>
          if bs = [] then (False, st)
          else (let st1 = (if node st p \<noteq> None \<and> \<not> FileEndsInEol (nested ''EndsInEol'' m) p st
                           then snd (SaveToFile (nested ''Eol'' m) fileName ''a'' (Some [EOL]) st)
                           else st)
                in SaveToFile (nested ''Payload'' m) fileName ''a'' payload st1)
      | _ \<Rightarrow> (False, st))"

text \<open>What a file becomes: the node that is written, for a path that is not a directory.\<close>

definition written_node :: "string \<Rightarrow> string \<Rightarrow> fs \<Rightarrow> inode" where
  "written_node p bs st =
     (case node st p of None \<Rightarrow> (new_file st)\<lparr>bytes := bs\<rparr> | Some n \<Rightarrow> n\<lparr>st_mode := MODE_0660, bytes := bs\<rparr>)"

definition plain_file :: "string \<Rightarrow> fs \<Rightarrow> bool" where
  "plain_file p st \<longleftrightarrow> bytes (new_file st) = [] \<and> \<not> is_dir (new_file st) \<and>
     (\<forall>n. node st p = Some n \<longrightarrow> \<not> is_dir n)"

definition file_bytes :: "string \<Rightarrow> fs \<Rightarrow> string" where
  "file_bytes p st = (case node st p of None \<Rightarrow> [] | Some n \<Rightarrow> bytes n)"

lemma bytes_update_same: "bytes n = bs \<Longrightarrow> n\<lparr>bytes := bs\<rparr> = n"
  by simp

lemma SaveToFile_ok:
  assumes "plain_file p st" and "bs \<noteq> []"
  shows "SaveToFile sys_ok (Some p) mode (Some bs) st =
    (True, put_node p (Some (written_node p ((if mode = ''w'' then [] else file_bytes p st) @ bs) st)) st)"
  using assms
  by (auto simp: SaveToFile_def Let_def RestrictFileAccessToCurrentAccountOnly_def open_for_writing_def
      append_bytes_def written_node_def file_bytes_def plain_file_def split: option.splits)

lemma plain_file_write [simp]:
  "plain_file p st \<Longrightarrow> plain_file p (put_node p (Some (written_node p bs st)) st)"
  by (auto simp: plain_file_def written_node_def split: option.splits)

lemma is_dir_written [simp]: "plain_file p st \<Longrightarrow> \<not> is_dir (written_node p bs st)"
  by (auto simp: plain_file_def written_node_def split: option.splits)

lemma bytes_written [simp]: "bytes (written_node p bs st) = bs"
  by (auto simp: written_node_def split: option.splits)

text \<open>A file is left with the text followed by a line feed, unless it has one or is not there.\<close>

definition with_eol :: "string \<Rightarrow> string" where
  "with_eol bs = (if bs \<noteq> [] \<and> last bs = EOL then bs else bs @ [EOL])"

lemma FileEndsInEol_ok:
  "plain_file p st \<Longrightarrow> FileEndsInEol sys_ok p st \<longleftrightarrow> file_bytes p st \<noteq> [] \<and> last (file_bytes p st) = EOL"
  by (auto simp: FileEndsInEol_def file_bytes_def readable_bytes_def plain_file_def split: option.split)

lemma file_bytes_put [simp]: "file_bytes p (put_node p (Some n) st) = bytes n"
  by (simp add: file_bytes_def)

lemma AppendPayloadToFile_ok:
  assumes p: "plain_file p st" and bs: "bs \<noteq> []"
  shows "\<exists>st' n. AppendPayloadToFile sys_ok (Some p) (Some bs) st = (True, st') \<and>
    st' = put_node p (Some n) st \<and> \<not> is_dir n \<and>
    bytes n = (if node st p = None then bs else with_eol (file_bytes p st) @ bs)"
proof (cases "node st p \<noteq> None \<and> \<not> FileEndsInEol sys_ok p st")
  case True
  let ?n = "written_node p (file_bytes p st @ [EOL]) st"
  let ?st = "put_node p (Some ?n) st"
  have "SaveToFile sys_ok (Some p) ''a'' (Some [EOL]) st = (True, ?st)"
    using SaveToFile_ok [OF p, of "[EOL]" "''a''"] by simp
  then have "AppendPayloadToFile sys_ok (Some p) (Some bs) st = SaveToFile sys_ok (Some p) ''a'' (Some bs) ?st"
    using True bs by (simp add: AppendPayloadToFile_def)
  moreover have "\<dots> = (True, put_node p (Some (written_node p (bytes ?n @ bs) ?st)) st)"
    using SaveToFile_ok [of p ?st bs "''a''"] p bs by simp
  ultimately show ?thesis
    using True p bs by (auto simp: with_eol_def FileEndsInEol_ok)
next
  case False
  then have "AppendPayloadToFile sys_ok (Some p) (Some bs) st = SaveToFile sys_ok (Some p) ''a'' (Some bs) st"
    using bs by (auto simp: AppendPayloadToFile_def)
  then show ?thesis
    using SaveToFile_ok [OF p bs, of "''a''"] False p
    by (auto simp: with_eol_def FileEndsInEol_ok file_bytes_def)
qed

subsection \<open>Owner, group and access\<close>

text \<open>
  The identifier \<open>-1\<close> stands for any. A regular file is never expected to have the restricted
  deletion flag.
\<close>

definition found_as :: "sys \<Rightarrow> bool \<Rightarrow> string \<Rightarrow> fs \<Rightarrow> bool" where
  "found_as m directory p st =
     (if directory then DirectoryExists m (Some p) st else FileExists (Some p) st)"

definition desired_mode :: "bool \<Rightarrow> 32 word \<Rightarrow> 32 word" where
  "desired_mode directory access =
     (if directory then access AND MODE_07777 else (access AND MODE_07777) AND NOT S_ISVTX)"

definition CheckAccess ::
  "sys \<Rightarrow> bool \<Rightarrow> cstr \<Rightarrow> 32 word \<Rightarrow> 32 word \<Rightarrow> 32 word \<Rightarrow> fs \<Rightarrow> int" where
  "CheckAccess m directory nm owner grp access st =
     (case nm of
        None \<Rightarrow> EINVAL
      | Some p \<Rightarrow>
          if \<not> found_as m directory p st then 0
          else (case node st p of
             None \<Rightarrow> 0
           | Some n \<Rightarrow>
               if m ''stat'' 0 \<noteq> 0 then - 1
               else if owner \<noteq> - 1 \<and> owner \<noteq> st_uid n \<or> grp \<noteq> - 1 \<and> grp \<noteq> st_gid n then ENOENT
               else if st_mode n AND MODE_07777 \<noteq> desired_mode directory access then ENOENT
               else 0))"

text \<open>\<open>chown\<close> and \<open>chmod\<close>: an identifier \<open>-1\<close> leaves the owner or group as it is; only the
  permission bits of a mode are set.\<close>

definition chown_node :: "32 word \<Rightarrow> 32 word \<Rightarrow> inode \<Rightarrow> inode" where
  "chown_node owner grp n =
     n\<lparr>st_uid := (if owner = - 1 then st_uid n else owner), st_gid := (if grp = - 1 then st_gid n else grp)\<rparr>"

definition SetAccess ::
  "sys \<Rightarrow> bool \<Rightarrow> cstr \<Rightarrow> 32 word \<Rightarrow> 32 word \<Rightarrow> 32 word \<Rightarrow> fs \<Rightarrow> int \<times> fs" where
  "SetAccess m directory nm owner grp access st =
     (case nm of
        None \<Rightarrow> (EINVAL, st)
      | Some p \<Rightarrow>
          if \<not> found_as m directory p st then (0, st)
          else if CheckAccess (nested ''Check'' m) directory nm owner grp access st = 0 then (0, st)
          else (case node st p of
             None \<Rightarrow> (0, st)
           | Some n \<Rightarrow>
               if m ''chown'' 0 \<noteq> 0 then (- 1, st)
               else (let n1 = chown_node owner grp n; st1 = put_node p (Some n1) st
                     in if m ''chmod'' 0 \<noteq> 0 then (m ''chmod'' 0, st1)
                        else (0, put_node p (Some (n1\<lparr>st_mode := access AND MODE_07777\<rparr>)) st))))"

definition GetAccess :: "sys \<Rightarrow> bool \<Rightarrow> cstr \<Rightarrow> fs \<Rightarrow> int \<times> 32 word \<times> 32 word \<times> 32 word" where
  "GetAccess m directory nm st =
     (case nm of
        None \<Rightarrow> (EINVAL, 0, 0, 0)
      | Some p \<Rightarrow>
          if \<not> found_as m directory p st then (ENOENT, 0, 0, 0)
          else (case node st p of
             None \<Rightarrow> (ENOENT, 0, 0, 0)
           | Some n \<Rightarrow> if m ''stat'' 0 \<noteq> 0 then (- 1, 0, 0, 0)
                       else (0, st_uid n, st_gid n, st_mode n AND MODE_07777)))"

text \<open>An access that was set is found by a later check; nothing else of the file changes.\<close>

lemma SetAccess_CheckAccess:
  assumes "node st p = Some n" and "is_dir n = directory"
    and "access AND MODE_07777 = desired_mode directory access"
  shows "\<exists>n'. SetAccess sys_ok directory (Some p) owner grp access st = (0, put_node p (Some n') st) \<and>
    bytes n' = bytes n \<and> is_dir n' = is_dir n \<and>
    CheckAccess sys_ok directory (Some p) owner grp access (put_node p (Some n') st) = 0"
proof (cases "CheckAccess sys_ok directory (Some p) owner grp access st = 0")
  case True
  then show ?thesis
    using assms put_node_same [of st p "Some n"]
    by (intro exI [of _ n]) (simp add: SetAccess_def found_as_def DirectoryExists_def)
next
  case False
  let ?n = "(chown_node owner grp n)\<lparr>st_mode := access AND MODE_07777\<rparr>"
  have mask: "desired_mode directory access AND MODE_07777 = desired_mode directory access"
    unfolding assms(3) [symmetric] by (simp add: and.assoc)
  have "SetAccess sys_ok directory (Some p) owner grp access st = (0, put_node p (Some ?n) st)"
    using False assms(1,2) by (simp add: SetAccess_def found_as_def DirectoryExists_def Let_def)
  moreover have "CheckAccess sys_ok directory (Some p) owner grp access (put_node p (Some ?n) st) = 0"
    using assms mask by (simp add: CheckAccess_def chown_node_def)
  ultimately show ?thesis by (intro exI [of _ ?n]) (simp add: chown_node_def)
qed

subsection \<open>Renaming\<close>

text \<open>\<open>rename\<close> replaces the target; it refuses to replace a directory by a file.\<close>

definition rename :: "sys \<Rightarrow> string \<Rightarrow> string \<Rightarrow> fs \<Rightarrow> int \<times> fs" where
  "rename m original target st =
     (if m ''rename'' 0 \<noteq> 0 then (m ''rename'' 0, st)
      else case node st original of
        None \<Rightarrow> (ENOENT, st)
      | Some n \<Rightarrow>
          if \<not> is_dir n \<and> (\<exists>t. node st target = Some t \<and> is_dir t) then (EISDIR, st)
          else if original = target then (0, st)
          else (0, put_node original None (put_node target (Some n) st)))"

definition RenameFile :: "sys \<Rightarrow> cstr \<Rightarrow> cstr \<Rightarrow> fs \<Rightarrow> int \<times> fs" where
  "RenameFile m original target st =
     (case (original, target) of
        (Some a, Some b) \<Rightarrow> if node st a = None then (EINVAL, st) else rename m a b st
      | _ \<Rightarrow> (EINVAL, st))"

definition RenameFileWithOwnerAndAccess :: "sys \<Rightarrow> cstr \<Rightarrow> cstr \<Rightarrow> fs \<Rightarrow> int \<times> fs" where
  "RenameFileWithOwnerAndAccess m original target st =
     (case (original, target) of
        (Some a, Some b) \<Rightarrow>
          if node st a = None then (EINVAL, st)
          else (let (owner, grp, mode) =
                      (case GetAccess (nested ''Get'' m) False target st of
                         (status, u, g, md) \<Rightarrow> if status \<noteq> 0 then (0, 0, MODE_0644) else (u, g, md));
                    (status, st1) = rename m a b st
                in if status \<noteq> 0 then (status, st1)
                   else (0, snd (SetAccess (nested ''Set'' m) False target owner grp mode st1)))
      | _ \<Rightarrow> (EINVAL, st))"

definition remove_file :: "string \<Rightarrow> fs \<Rightarrow> fs" where
  "remove_file p st = (if node st p = None then st else put_node p None st)"

text \<open>The owner, the group and the access of a file.\<close>

definition attributes :: "inode \<Rightarrow> 32 word \<times> 32 word \<times> 32 word" where
  "attributes n = (st_uid n, st_gid n, st_mode n)"

text \<open>The bits of a regular file: permissions without the restricted deletion flag.\<close>

definition regular_mode :: "32 word \<Rightarrow> bool" where
  "regular_mode mode \<longleftrightarrow> desired_mode False mode = mode \<and> mode AND MODE_07777 = mode"

lemma regular_mode_0644: "regular_mode MODE_0644"
  by (simp add: regular_mode_def desired_mode_def MODE_0644_def MODE_07777_def S_ISVTX_def)

lemma SetAccess_attributes:
  assumes "node st p = Some n" and "regular_mode mode" and "u \<noteq> - 1" "g \<noteq> - 1" and "regular_mode (st_mode n)"
  shows "\<exists>n'. SetAccess sys_ok False (Some p) u g mode st = (0, put_node p (Some n') st) \<and>
    bytes n' = bytes n \<and> is_dir n' = is_dir n \<and> attributes n' = (u, g, mode)"
proof (cases "CheckAccess sys_ok False (Some p) u g mode st = 0")
  case True
  then have "attributes n = (u, g, mode)"
    using assms by (auto simp: CheckAccess_def found_as_def attributes_def regular_mode_def codes split: if_splits)
  then show ?thesis
    using True assms put_node_same [of st p "Some n"]
    by (intro exI [of _ n]) (simp add: SetAccess_def found_as_def)
next
  case False
  let ?n = "(chown_node u g n)\<lparr>st_mode := mode\<rparr>"
  have "SetAccess sys_ok False (Some p) u g mode st = (0, put_node p (Some ?n) st)"
    using False assms(1,2) by (simp add: SetAccess_def found_as_def Let_def regular_mode_def)
  then show ?thesis using assms(3,4) by (intro exI [of _ ?n]) (simp add: chown_node_def attributes_def)
qed

text \<open>The attributes the target ends up with: its own, or those of a new file owned by root.\<close>

definition kept_attributes :: "string \<Rightarrow> fs \<Rightarrow> 32 word \<times> 32 word \<times> 32 word" where
  "kept_attributes p st = (case node st p of None \<Rightarrow> (0, 0, MODE_0644) | Some t \<Rightarrow> attributes t)"

definition regular_node :: "inode \<Rightarrow> bool" where
  "regular_node n \<longleftrightarrow> \<not> is_dir n \<and> regular_mode (st_mode n) \<and> st_uid n \<noteq> - 1 \<and> st_gid n \<noteq> - 1"

lemma RenameFileWithOwnerAndAccess_ok:
  assumes "node st a = Some n" "regular_node n" and "a \<noteq> b" and "\<forall>t. node st b = Some t \<longrightarrow> regular_node t"
  shows "\<exists>n'. RenameFileWithOwnerAndAccess sys_ok (Some a) (Some b) st =
      (0, put_node a None (put_node b (Some n') st)) \<and>
    bytes n' = bytes n \<and> \<not> is_dir n' \<and> attributes n' = kept_attributes b st"
proof -
  obtain u g md where att: "kept_attributes b st = (u, g, md)" by (cases "kept_attributes b st")
  let ?st1 = "put_node a None (put_node b (Some n) st)"
  have "rename sys_ok a b st = (0, ?st1)" using assms by (auto simp: rename_def regular_node_def)
  moreover have "(case GetAccess sys_ok False (Some b) st of
      (status, u, g, md) \<Rightarrow> if status \<noteq> 0 then (0, 0, MODE_0644) else (u, g, md)) = (u, g, md)"
    using att assms(4)
    by (auto simp: GetAccess_def found_as_def kept_attributes_def attributes_def regular_node_def
        regular_mode_def codes split: option.splits)
  ultimately have "RenameFileWithOwnerAndAccess sys_ok (Some a) (Some b) st =
      (0, snd (SetAccess sys_ok False (Some b) u g md ?st1))"
    using assms(1) by (simp add: RenameFileWithOwnerAndAccess_def)
  moreover have "\<exists>n'. SetAccess sys_ok False (Some b) u g md ?st1 = (0, put_node b (Some n') ?st1) \<and>
      bytes n' = bytes n \<and> is_dir n' = is_dir n \<and> attributes n' = (u, g, md)"
    using att assms regular_mode_0644
    by (intro SetAccess_attributes)
      (auto simp: regular_node_def kept_attributes_def attributes_def split: option.splits)
  moreover have "put_node b (Some n') ?st1 = put_node a None (put_node b (Some n') st)" for n'
    using put_node_swap [OF assms(3) [symmetric], of "Some n'" None "put_node b (Some n) st"] by simp
  ultimately show ?thesis using att assms(2) by (auto simp: regular_node_def)
qed

end
