(* ===== verification/FileEdits.thy ===== *)
theory FileEdits
  imports FileUtils
begin

text \<open>
  Files that are replaced through a temporary file (\<open>src/common/commonutils/FileUtils.c\<close>):
  \<open>SecureSaveToFile\<close>, \<open>AppendToFile\<close>, \<open>MakeFileBackupCopy\<close>, \<open>ConcatenateFiles\<close> and
  \<open>ReplaceMarkedLinesInFile\<close>. \<open>rnd\<close> is the value of \<open>rand()\<close> in the name of the temporary file.
\<close>

subsection \<open>Temporary files\<close>

definition strip_slashes :: "string \<Rightarrow> string" where
  "strip_slashes p = rev (dropWhile (\<lambda>c. c = CHR ''/'') (rev p))"

text \<open>\<open>dirname\<close> of the C library.\<close>

definition dirname :: "string \<Rightarrow> string" where
  "dirname p =
     (let q = strip_slashes p
      in if q = [] then (if p = [] then ''.'' else ''/'')
         else (let d = rev (dropWhile (\<lambda>c. c \<noteq> CHR ''/'') (rev q))
               in if d = [] then ''.'' else if strip_slashes d = [] then ''/'' else strip_slashes d))"

definition temp_name :: "string \<Rightarrow> string \<Rightarrow> nat \<Rightarrow> string" where
  "temp_name directory stem rnd = directory @ ''/'' @ stem @ dec rnd"

definition drop_temp :: "sys \<Rightarrow> string \<Rightarrow> fs \<Rightarrow> fs" where
  "drop_temp m p st = (if m ''remove'' 0 = 0 then remove_file p st else st)"

text \<open>The temporary file is filled first: in mode \<open>a\<close> with the text of the file, a line feed when
  that does not end in one, and the payload. The line feed is written in mode \<open>w\<close>.\<close>

definition fill_temp :: "sys \<Rightarrow> string \<Rightarrow> string \<Rightarrow> string \<Rightarrow> string \<Rightarrow> fs \<Rightarrow> bool \<times> fs" where
  "fill_temp m t p mode payload st =
     (if mode = ''a'' \<and> node st p \<noteq> None then
        (case LoadStringFromFile (nested ''Load'' m) (Some p) False st of
           None \<Rightarrow> (False, st)
         | Some fileContents \<Rightarrow>
             (case SaveToFile (nested ''Copy'' m) (Some t) ''a'' (Some fileContents) st of
                (result, st1) \<Rightarrow>
                  if \<not> result then (False, st1)
                  else SaveToFile (nested ''Payload'' m) (Some t) ''a'' (Some payload)
                         (if last fileContents \<noteq> EOL
                          then snd (SaveToFile (nested ''Eol'' m) (Some t) ''w'' (Some [EOL]) st1)
                          else st1)))
      else SaveToFile (nested ''Payload'' m) (Some t) ''w'' (Some payload) st)"

definition InternalSecureSaveToFile :: "sys \<Rightarrow> nat \<Rightarrow> cstr \<Rightarrow> string \<Rightarrow> cstr \<Rightarrow> fs \<Rightarrow> bool \<times> fs" where
  "InternalSecureSaveToFile m rnd fileName mode payload st =
     (case (fileName, payload) of
        (Some p, Some bs) \<Rightarrow>
          if bs = [] \<or> m ''DuplicateString'' 0 \<noteq> 0 \<or> m ''FormatAllocateString'' 0 \<noteq> 0 then (False, st)
          else (let t = temp_name (dirname p) ''~OSConfig'' rnd;
                    (result, st1) = fill_temp m t p mode bs st
                in if \<not> result \<or> node st1 t = None then (False, st1)
                   else (let (status, st2) =
                           RenameFileWithOwnerAndAccess (nested ''Rename'' m) (Some t) (Some p) st1
                         in (status = 0, drop_temp m t st2)))
      | _ \<Rightarrow> (False, st))"

definition SecureSaveToFile :: "sys \<Rightarrow> nat \<Rightarrow> cstr \<Rightarrow> cstr \<Rightarrow> fs \<Rightarrow> bool \<times> fs" where
  "SecureSaveToFile m rnd fileName payload st = InternalSecureSaveToFile m rnd fileName ''w'' payload st"

definition AppendToFile :: "sys \<Rightarrow> nat \<Rightarrow> cstr \<Rightarrow> cstr \<Rightarrow> fs \<Rightarrow> bool \<times> fs" where
  "AppendToFile m rnd fileName payload st = InternalSecureSaveToFile m rnd fileName ''a'' payload st"

definition MakeFileBackupCopy :: "sys \<Rightarrow> nat \<Rightarrow> cstr \<Rightarrow> cstr \<Rightarrow> bool \<Rightarrow> fs \<Rightarrow> bool \<times> fs" where
  "MakeFileBackupCopy m rnd fileName backupName preserveAccess st =
     (case (fileName, backupName) of
        (Some p, Some b) \<Rightarrow>
          if node st p = None then (False, st)
          else (case LoadStringFromFile (nested ''Load'' m) fileName False st of
                  None \<Rightarrow> (False, st)
                | Some contents \<Rightarrow>
                    if preserveAccess then SecureSaveToFile (nested ''Save'' m) rnd backupName (Some contents) st
                    else SavePayloadToFile (nested ''Save'' m) backupName (Some contents) st)
      | _ \<Rightarrow> (False, st))"

definition ConcatenateFiles :: "sys \<Rightarrow> nat \<Rightarrow> cstr \<Rightarrow> cstr \<Rightarrow> bool \<Rightarrow> fs \<Rightarrow> bool \<times> fs" where
  "ConcatenateFiles m rnd firstFileName secondFileName preserveAccess st =
     (case (firstFileName, secondFileName) of
        (Some a, Some b) \<Rightarrow>
          (case LoadStringFromFile (nested ''Load'' m) secondFileName False st of
             None \<Rightarrow> (False, st)
           | Some contents \<Rightarrow>
               if preserveAccess then AppendToFile (nested ''Append'' m) rnd firstFileName (Some contents) st
               else AppendPayloadToFile (nested ''Append'' m) firstFileName (Some contents) st)
      | _ \<Rightarrow> (False, st))"

subsection \<open>Replacing a file keeps its attributes\<close>

definition fs_ok :: "fs \<Rightarrow> bool" where
  "fs_ok st \<longleftrightarrow> bytes (new_file st) = [] \<and> regular_node (new_file st)"

lemma regular_written: "fs_ok st \<Longrightarrow> \<forall>n. node st p = Some n \<longrightarrow> regular_node n \<Longrightarrow> regular_node (written_node p bs st)"
  by (auto simp: fs_ok_def written_node_def regular_node_def regular_mode_def desired_mode_def MODE_0660_def
      MODE_07777_def S_ISVTX_def split: option.splits)

lemma fs_ok_put_node [simp]: "fs_ok (put_node p n st) = fs_ok st"
  by (simp add: fs_ok_def)

lemma fs_ok_plain: "fs_ok st \<Longrightarrow> \<forall>n. node st p = Some n \<longrightarrow> regular_node n \<Longrightarrow> plain_file p st"
  by (auto simp: fs_ok_def plain_file_def regular_node_def)

text \<open>A save without failures, as one step: \<open>saved p bs n\<close> describes the node afterwards.\<close>

lemma SaveToFile_regular:
  assumes "fs_ok st" and "\<forall>n. node st p = Some n \<longrightarrow> regular_node n" and "bs \<noteq> []"
  shows "\<exists>n. SaveToFile sys_ok (Some p) mode (Some bs) st = (True, put_node p (Some n) st) \<and> regular_node n \<and>
    bytes n = (if mode = ''w'' then [] else file_bytes p st) @ bs"
  using SaveToFile_ok [OF fs_ok_plain [OF assms(1,2)] assms(3), of mode] regular_written [OF assms(1,2)]
  by auto

text \<open>The last step of every replacement: the temporary file, when it is a regular one, takes the
  place and the attributes of the file.\<close>

lemma replace_by_temp:
  assumes "node st t = Some n" "regular_node n" and "t \<noteq> p" and "\<forall>f. node st p = Some f \<longrightarrow> regular_node f"
  shows "\<exists>n'. RenameFileWithOwnerAndAccess sys_ok (Some t) (Some p) st =
      (0, put_node t None (put_node p (Some n') st)) \<and>
    drop_temp sys_ok t (put_node t None (put_node p (Some n') st)) = put_node t None (put_node p (Some n') st) \<and>
    bytes n' = bytes n \<and> \<not> is_dir n' \<and> attributes n' = kept_attributes p st"
  using RenameFileWithOwnerAndAccess_ok [OF assms] by (auto simp: drop_temp_def remove_file_def)

lemma put_temp: "node st t = None \<Longrightarrow> t \<noteq> p \<Longrightarrow>
    put_node t None (put_node p x (put_node t y st)) = put_node p x st"
  by (simp add: put_node_def fun_eq_iff fun_upd_def cong: if_cong)

text \<open>What the operations leave behind when nothing fails: the same files, the given one with the
  text and its attributes. The name of the temporary file must be free.\<close>

definition replaced_file :: "string \<Rightarrow> string \<Rightarrow> fs \<Rightarrow> fs \<Rightarrow> bool" where
  "replaced_file p bs st st' \<longleftrightarrow>
     (\<exists>n. st' = put_node p (Some n) st \<and> bytes n = bs \<and> \<not> is_dir n \<and> attributes n = kept_attributes p st)"

definition edit_ready :: "string \<Rightarrow> string \<Rightarrow> fs \<Rightarrow> bool" where
  "edit_ready t p st \<longleftrightarrow> fs_ok st \<and> node st t = None \<and> t \<noteq> p \<and> (\<forall>n. node st p = Some n \<longrightarrow> regular_node n)"

lemma replace_by_fresh_temp:
  assumes "edit_ready t p st" and "regular_node n"
  shows "\<exists>st'. RenameFileWithOwnerAndAccess sys_ok (Some t) (Some p) (put_node t (Some n) st) = (0, st') \<and>
    drop_temp sys_ok t st' = st' \<and> replaced_file p (bytes n) st st'"
proof -
  let ?st = "put_node t (Some n) st"
  have r: "node st t = None" "t \<noteq> p" "\<forall>f. node ?st p = Some f \<longrightarrow> regular_node f"
    using assms(1) by (auto simp: edit_ready_def)
  obtain n' where "RenameFileWithOwnerAndAccess sys_ok (Some t) (Some p) ?st =
      (0, put_node t None (put_node p (Some n') ?st))"
    "drop_temp sys_ok t (put_node t None (put_node p (Some n') ?st)) = put_node t None (put_node p (Some n') ?st)"
    "bytes n' = bytes n" "\<not> is_dir n'" "attributes n' = kept_attributes p ?st"
    using replace_by_temp [OF _ assms(2) r(2,3)] by auto
  moreover have "kept_attributes p ?st = kept_attributes p st" using r(2) by (simp add: kept_attributes_def)
  ultimately show ?thesis using put_temp [OF r(1,2)] by (auto simp: replaced_file_def)
qed

lemma secure_save:
  assumes "edit_ready t p st" and "t = temp_name (dirname p) ''~OSConfig'' rnd" and "bs \<noteq> []"
    and "fill_temp sys_ok t p mode bs st = (True, put_node t (Some n) st)" and "regular_node n"
  shows "\<exists>st'. InternalSecureSaveToFile sys_ok rnd (Some p) mode (Some bs) st = (True, st') \<and>
    replaced_file p (bytes n) st st'"
  using replace_by_fresh_temp [OF assms(1,5)] assms(2-4)
  by (auto simp: InternalSecureSaveToFile_def)

lemma file_bytes_none: "node st p = None \<Longrightarrow> file_bytes p st = []"
  by (simp add: file_bytes_def)

lemma SecureSaveToFile_ok:
  assumes "edit_ready (temp_name (dirname p) ''~OSConfig'' rnd) p st" and "bs \<noteq> []"
  shows "\<exists>st'. SecureSaveToFile sys_ok rnd (Some p) (Some bs) st = (True, st') \<and> replaced_file p bs st st'"
proof -
  let ?t = "temp_name (dirname p) ''~OSConfig'' rnd"
  have t: "fs_ok st" "\<forall>n. node st ?t = Some n \<longrightarrow> regular_node n" using assms(1) by (auto simp: edit_ready_def)
  obtain n where "SaveToFile sys_ok (Some ?t) ''w'' (Some bs) st = (True, put_node ?t (Some n) st)"
    "regular_node n" "bytes n = bs"
    using SaveToFile_regular [OF t assms(2), of "''w''"] by auto
  then show ?thesis
    using secure_save [OF assms(1) refl assms(2), of "''w''" n] by (simp add: SecureSaveToFile_def fill_temp_def)
qed

text \<open>The three saves into the temporary file of an append, one after the other.\<close>

lemma fill_temp_append:
  assumes e: "edit_ready t p st" and f: "node st p = Some f" and bs: "bs \<noteq> []"
    and ne: "bytes f \<noteq> []" "NUL \<notin> set (bytes f)"
  shows "\<exists>n. fill_temp sys_ok t p ''a'' bs st = (True, put_node t (Some n) st) \<and> regular_node n \<and>
    bytes n = (if last (bytes f) = EOL then bytes f @ bs else EOL # bs)"
proof -
  have r: "fs_ok st" "\<forall>n. node st t = Some n \<longrightarrow> regular_node n" "node st t = None" "regular_node f"
    using e f by (auto simp: edit_ready_def)
  have load: "LoadStringFromFile sys_ok (Some p) False st = Some (bytes f)"
    using f r(4) ne by (simp add: readable_bytes_def regular_node_def)
  obtain n1 where n1: "SaveToFile sys_ok (Some t) ''a'' (Some (bytes f)) st = (True, put_node t (Some n1) st)"
    "regular_node n1" "bytes n1 = bytes f"
    using SaveToFile_regular [OF r(1,2) ne(1), of "''a''"] r(3) by (auto simp: file_bytes_none)
  let ?st1 = "put_node t (Some n1) st"
  have r1: "fs_ok ?st1" "\<forall>n. node ?st1 t = Some n \<longrightarrow> regular_node n" using r n1 by auto
  obtain n2 where n2: "SaveToFile sys_ok (Some t) ''w'' (Some [EOL]) ?st1 = (True, put_node t (Some n2) st)"
    "regular_node n2" "bytes n2 = [EOL]"
    using SaveToFile_regular [OF r1, of "[EOL]" "''w''"] by auto
  let ?x = "if last (bytes f) = EOL then n1 else n2"
  let ?st2 = "put_node t (Some ?x) st"
  have r2: "fs_ok ?st2" "\<forall>n. node ?st2 t = Some n \<longrightarrow> regular_node n" using r n1 n2 by auto
  obtain n3 where "SaveToFile sys_ok (Some t) ''a'' (Some bs) ?st2 = (True, put_node t (Some n3) st)"
    "regular_node n3" "bytes n3 = bytes ?x @ bs"
    using SaveToFile_regular [OF r2 bs, of "''a''"] by auto
  then show ?thesis using load n1 n2 f by (auto simp: fill_temp_def split: if_splits)
qed

lemma append_to_file:
  assumes "edit_ready (temp_name (dirname p) ''~OSConfig'' rnd) p st" and "node st p = Some f"
    and "bytes f \<noteq> []" "NUL \<notin> set (bytes f)" and "bs \<noteq> []"
  shows "\<exists>st'. AppendToFile sys_ok rnd (Some p) (Some bs) st = (True, st') \<and>
    replaced_file p (if last (bytes f) = EOL then bytes f @ bs else EOL # bs) st st'"
proof -
  obtain n where n: "fill_temp sys_ok (temp_name (dirname p) ''~OSConfig'' rnd) p ''a'' bs st =
      (True, put_node (temp_name (dirname p) ''~OSConfig'' rnd) (Some n) st)" "regular_node n"
    "bytes n = (if last (bytes f) = EOL then bytes f @ bs else EOL # bs)"
    using fill_temp_append [OF assms(1,2,5,3,4)] by blast
  show ?thesis using secure_save [OF assms(1) refl assms(5) n(1,2)] by (simp add: AppendToFile_def n(3))
qed

end
