(* ===== verification/MarkedLines.thy ===== *)
theory MarkedLines
  imports FileEdits
begin

text \<open>
  \<open>ReplaceMarkedLinesInFile\<close> (\<open>src/common/commonutils/FileUtils.c\<close>): the lines of a configuration
  file that carry a marker are replaced by one new line. The theory has the loop as the code has
  it, a specification over the list of lines, and the proof that they agree.
\<close>

subsection \<open>Lines\<close>

text \<open>Successive calls of \<open>fgets\<close> with a buffer for \<open>k\<close> bytes and the terminator: a line with its
  line feed, cut after \<open>k\<close> bytes.\<close>

definition fgets_chunk :: "nat \<Rightarrow> string \<Rightarrow> string" where
  "fgets_chunk k s = take k (if EOL \<in> set s then takeWhile (\<lambda>c. c \<noteq> EOL) s @ [EOL] else s)"

lemma line_prefix: "EOL \<in> set s \<Longrightarrow> prefix (takeWhile (\<lambda>c. c \<noteq> EOL) s @ [EOL]) s"
  by (induction s) auto

lemma fgets_chunk_prefix: "s = fgets_chunk k s @ drop (length (fgets_chunk k s)) s"
proof -
  have "prefix (if EOL \<in> set s then takeWhile (\<lambda>c. c \<noteq> EOL) s @ [EOL] else s) s"
    using line_prefix [of s] by simp
  then have "prefix (fgets_chunk k s) s"
    unfolding fgets_chunk_def by (rule prefix_order.trans [OF take_is_prefix])
  then obtain z where "fgets_chunk k s @ z = s" by (metis prefix_def)
  then show ?thesis unfolding append_eq_conv_conj by (metis append_take_drop_id)
qed

lemma fgets_chunk_not_Nil: "s \<noteq> [] \<Longrightarrow> 0 < k \<Longrightarrow> fgets_chunk k s \<noteq> []"
  by (auto simp: fgets_chunk_def)

function fgets_lines :: "nat \<Rightarrow> string \<Rightarrow> string list" where
  "fgets_lines k s =
     (if s = [] \<or> k = 0 then []
      else fgets_chunk k s # fgets_lines k (drop (length (fgets_chunk k s)) s))"
  by pat_completeness auto
termination
  by (relation "measure (\<lambda>(k, s). length s)") (auto simp: fgets_chunk_not_Nil)

declare fgets_lines.simps [simp del]

lemma concat_fgets_lines: "0 < k \<Longrightarrow> concat (fgets_lines k s) = s"
proof (induction k s rule: fgets_lines.induct)
  case (1 k s)
  show ?case
  proof (cases "s = []")
    case False
    then have "concat (fgets_lines k s) = fgets_chunk k s @ drop (length (fgets_chunk k s)) s"
      using 1 by (simp add: fgets_lines.simps [of k s])
    then show ?thesis using fgets_chunk_prefix [of s k] by simp
  qed (simp add: fgets_lines.simps)
qed

text \<open>Every line is nonempty, and only the line of a line feed alone begins with one.\<close>

definition line_ok :: "string \<Rightarrow> bool" where
  "line_ok l \<longleftrightarrow> l \<noteq> [] \<and> (hd l = EOL \<longrightarrow> l = [EOL])"

lemma line_ok_chunk:
  assumes "s \<noteq> []" "0 < k"
  shows "line_ok (fgets_chunk k s)"
proof -
  obtain c t where s: "s = c # t" using assms(1) by (cases s) simp_all
  show ?thesis using assms(2) by (cases k) (auto simp: line_ok_def fgets_chunk_def s)
qed

lemma line_ok_fgets: "l \<in> set (fgets_lines k s) \<Longrightarrow> line_ok l"
proof (induction k s rule: fgets_lines.induct)
  case (1 k s)
  have ne: "s \<noteq> []" "k \<noteq> 0" using "1.prems" by (auto simp: fgets_lines.simps [of k s] split: if_splits)
  then have "l = fgets_chunk k s \<or> l \<in> set (fgets_lines k (drop (length (fgets_chunk k s)) s))"
    using "1.prems" by (simp add: fgets_lines.simps [of k s])
  then show ?case using 1 ne line_ok_chunk [of s k] by blast
qed

subsection \<open>The loop\<close>

text \<open>What becomes of one line, and whether a line was replaced by then: \<open>None\<close> is a line left out.\<close>

definition edit_line ::
  "nat \<Rightarrow> string \<Rightarrow> cstr \<Rightarrow> char \<Rightarrow> bool \<Rightarrow> string \<Rightarrow> string option \<times> bool" where
  "edit_line lineMax marker newline commentCharacter replaced line =
     (let c = hd (line @ [NUL])
      in if strstr line marker = None then (Some line, replaced)
         else case newline of
           Some nl \<Rightarrow>
             if commentCharacter \<noteq> c \<and> EOL \<noteq> c \<and> 1 < length nl
             then (if replaced then (None, True) else (Some (take lineMax nl), True))
             else if commentCharacter = c then (Some line, replaced) else (None, replaced)
         | None \<Rightarrow> if commentCharacter = c then (Some line, replaced) else (None, replaced))"

text \<open>The text written, the status (that of the last \<open>fputs\<close> that failed) and whether a line was
  replaced. Each line is seen as a C string.\<close>

fun edit_lines ::
  "sys \<Rightarrow> nat \<Rightarrow> nat \<Rightarrow> string \<Rightarrow> cstr \<Rightarrow> char \<Rightarrow> bool \<Rightarrow> string list \<Rightarrow> string \<times> int \<times> bool" where
  "edit_lines m i lineMax marker newline comment replaced [] = ([], 0, replaced)"
| "edit_lines m i lineMax marker newline comment replaced (l # ls) =
     (let (out, replaced') = edit_line lineMax marker newline comment replaced (c_string l);
          (rest, status, replaced'') = edit_lines m (Suc i) lineMax marker newline comment replaced' ls
      in case out of
           None \<Rightarrow> (rest, status, replaced'')
         | Some line \<Rightarrow>
             if m ''fputs'' i = 0 then (line @ rest, status, replaced'')
             else (rest, if status = 0 then m ''fputs'' i else status, replaced''))"

definition edit_text ::
  "sys \<Rightarrow> nat \<Rightarrow> string \<Rightarrow> cstr \<Rightarrow> char \<Rightarrow> bool \<Rightarrow> string \<Rightarrow> string \<times> int \<times> bool" where
  "edit_text m lineMax marker newline comment prepend contents =
     (case newline of
        Some nl \<Rightarrow>
          if prepend \<and> nl \<noteq> [] then
            (let (rest, status, replaced) =
                   edit_lines m 0 lineMax marker newline comment True (fgets_lines lineMax contents)
             in if m ''fputs.prepend'' 0 = 0 then (nl @ rest, status, replaced)
                else (rest, if status = 0 then m ''fputs.prepend'' 0 else status, replaced))
          else edit_lines m 0 lineMax marker newline comment False (fgets_lines lineMax contents)
      | None \<Rightarrow> edit_lines m 0 lineMax marker newline comment False (fgets_lines lineMax contents))"

definition ReplaceMarkedLinesInFileInternal ::
  "sys \<Rightarrow> nat \<Rightarrow> cstr \<Rightarrow> cstr \<Rightarrow> cstr \<Rightarrow> char \<Rightarrow> bool \<Rightarrow> bool \<Rightarrow> fs \<Rightarrow> int \<times> fs" where
  "ReplaceMarkedLinesInFileInternal m rnd fileName marker newline comment preserveAccess prepend st =
     (case (fileName, marker) of
        (Some p, Some mk) \<Rightarrow>
          (case node st p of
             None \<Rightarrow> (0, st)
           | Some n \<Rightarrow>
               if m ''malloc'' 0 \<noteq> 0 then (ENOMEM, st)
               else if m ''FormatAllocateString'' 0 \<noteq> 0 then (ENOMEM, st)
               else (let directory = (if m ''DuplicateString'' 0 = 0 then dirname p else ''/tmp'');
                         t = temp_name directory ''~OSConfig.ReplacingLines'' rnd;
                         temp = (new_file st)\<lparr>st_mode := MODE_0600\<rparr>
                     in if m ''fopen'' 0 \<noteq> 0 \<or> m ''open'' 0 \<noteq> 0 \<or> node st t \<noteq> None then (EACCES, st)
                        else if m ''fdopen'' 0 \<noteq> 0 then (EACCES, put_node t (Some temp) st)
                        else (let (text, status, replaced) =
                                    edit_text m (line_max st) mk newline comment prepend (readable_bytes n);
                                  st1 = put_node t (Some (temp\<lparr>bytes := text\<rparr>)) st
                              in if status \<noteq> 0 then (status, st1)
                                 else (let st2 = (if \<not> replaced \<and> newline \<noteq> None \<and> \<not> prepend
                                                  then snd (AppendPayloadToFile (nested ''Append'' m) (Some t) newline st1)
                                                  else st1);
                                           (status, st3) =
                                             (if preserveAccess
                                              then RenameFileWithOwnerAndAccess (nested ''Rename'' m) (Some t) fileName st2
                                              else RenameFile (nested ''Rename'' m) (Some t) fileName st2)
                                       in (status, drop_temp m t st3)))))
      | _ \<Rightarrow> (EINVAL, st))"

definition ReplaceMarkedLinesInFile ::
  "sys \<Rightarrow> nat \<Rightarrow> cstr \<Rightarrow> cstr \<Rightarrow> cstr \<Rightarrow> char \<Rightarrow> bool \<Rightarrow> fs \<Rightarrow> int \<times> fs" where
  "ReplaceMarkedLinesInFile m rnd fileName marker newline comment preserveAccess st =
     ReplaceMarkedLinesInFileInternal m rnd fileName marker newline comment preserveAccess False st"

definition ReplaceMarkedLinesInFilePrepend ::
  "sys \<Rightarrow> nat \<Rightarrow> cstr \<Rightarrow> cstr \<Rightarrow> cstr \<Rightarrow> char \<Rightarrow> bool \<Rightarrow> fs \<Rightarrow> int \<times> fs" where
  "ReplaceMarkedLinesInFilePrepend m rnd fileName marker newline comment preserveAccess st =
     ReplaceMarkedLinesInFileInternal m rnd fileName marker newline comment preserveAccess True st"

subsection \<open>The specification\<close>

text \<open>A line counts when it carries the marker and does not begin with the comment character. The
  first such line gives way to the new one, the others are dropped; with none, the new line comes
  last, on a line of its own.\<close>

definition marked :: "string \<Rightarrow> char \<Rightarrow> string \<Rightarrow> bool" where
  "marked marker comment l \<longleftrightarrow> sublist marker l \<and> hd l \<noteq> comment"

definition replace_marked :: "string \<Rightarrow> char \<Rightarrow> string \<Rightarrow> string list \<Rightarrow> string" where
  "replace_marked marker comment newline ls =
     (case dropWhile (\<lambda>l. \<not> marked marker comment l) ls of
        [] \<Rightarrow> with_eol (concat ls) @ newline
      | x # after \<Rightarrow>
          concat (takeWhile (\<lambda>l. \<not> marked marker comment l) ls) @ newline @
          concat (filter (\<lambda>l. \<not> marked marker comment l) after))"

lemma not_marked_eol: "marker \<noteq> [] \<Longrightarrow> EOL \<notin> set marker \<Longrightarrow> \<not> sublist marker [EOL]"
  by (auto simp: sublist_Cons_right prefix_Cons)

lemma edit_line_eq:
  assumes "line_ok l" "marker \<noteq> []" "EOL \<notin> set marker" "1 < length nl" "length nl \<le> k"
  shows "edit_line k marker (Some nl) comment replaced l =
    (if \<not> marked marker comment l then (Some l, replaced) else (if replaced then None else Some nl, True))"
proof -
  have "hd (l @ [NUL]) = hd l" using assms(1) by (simp add: line_ok_def)
  moreover have "hd l \<noteq> EOL" if "sublist marker l"
    using that assms(1) not_marked_eol [OF assms(2,3)] by (auto simp: line_ok_def)
  ultimately show ?thesis
    using assms(4,5) by (auto simp: edit_line_def Let_def marked_def strstr_None_iff)
qed

lemma fputs_ok: "sys_ok ''fputs'' i = 0"
  by simp

lemma edit_lines_replaced:
  assumes "\<forall>l \<in> set ls. line_ok l \<and> NUL \<notin> set l" "marker \<noteq> []" "EOL \<notin> set marker" "1 < length nl" "length nl \<le> k"
  shows "edit_lines sys_ok i k marker (Some nl) comment True ls =
    (concat (filter (\<lambda>l. \<not> marked marker comment l) ls), 0, True)"
  using assms(1)
  by (induction ls arbitrary: i) (simp_all add: edit_line_eq [OF _ assms(2-5)] fputs_ok del: sys_ok_simp)

lemma edit_lines_eq:
  assumes "\<forall>l \<in> set ls. line_ok l \<and> NUL \<notin> set l" "marker \<noteq> []" "EOL \<notin> set marker" "1 < length nl" "length nl \<le> k"
  shows "edit_lines sys_ok i k marker (Some nl) comment False ls =
    (case dropWhile (\<lambda>l. \<not> marked marker comment l) ls of
       [] \<Rightarrow> (concat ls, 0, False)
     | x # after \<Rightarrow>
         (concat (takeWhile (\<lambda>l. \<not> marked marker comment l) ls) @ nl @
          concat (filter (\<lambda>l. \<not> marked marker comment l) after), 0, True))"
  using assms(1)
proof (induction ls arbitrary: i)
  case (Cons l ls)
  show ?case
  proof (cases "marked marker comment l")
    case True
    then show ?thesis using Cons.prems edit_lines_replaced [OF _ assms(2-5), of ls]
      by (simp add: edit_line_eq [OF _ assms(2-5)] fputs_ok del: sys_ok_simp)
  next
    case False
    then show ?thesis
      using Cons
      by (cases "dropWhile (\<lambda>l. \<not> marked marker comment l) ls")
        (auto simp: edit_line_eq [OF _ assms(2-5)] fputs_ok simp del: sys_ok_simp dropWhile_eq_Nil_conv)
  qed
qed simp

subsection \<open>Refinement\<close>

text \<open>When nothing fails, the operation replaces the file by the edited text.\<close>

lemma edit_text_eq:
  assumes "0 < k" "NUL \<notin> set contents" "marker \<noteq> []" "EOL \<notin> set marker" "1 < length nl" "length nl \<le> k"
  shows "edit_text sys_ok k marker (Some nl) comment False contents =
    (case dropWhile (\<lambda>l. \<not> marked marker comment l) (fgets_lines k contents) of
       [] \<Rightarrow> (contents, 0, False)
     | x # after \<Rightarrow> (replace_marked marker comment nl (fgets_lines k contents), 0, True))"
proof -
  have "set l \<subseteq> set contents" if "l \<in> set (fgets_lines k contents)" for l
    using that concat_fgets_lines [OF assms(1), of contents] by (metis set_concat UN_upper)
  then have ls: "\<forall>l \<in> set (fgets_lines k contents). line_ok l \<and> NUL \<notin> set l"
    using line_ok_fgets assms(2) by blast
  show ?thesis
    using edit_lines_eq [OF ls assms(3-6)] concat_fgets_lines [OF assms(1), of contents]
    by (cases "dropWhile (\<lambda>l. \<not> marked marker comment l) (fgets_lines k contents)")
      (simp_all add: edit_text_def replace_marked_def del: dropWhile_eq_Nil_conv sys_ok_simp)
qed

text \<open>The temporary file once the text is complete.\<close>

lemma complete_temp:
  assumes e: "edit_ready t p st" and nl: "newline \<noteq> []"
  shows "\<exists>n. snd (AppendPayloadToFile sys_ok (Some t) (Some newline)
      (put_node t (Some ((new_file st)\<lparr>st_mode := MODE_0600, bytes := text\<rparr>)) st)) = put_node t (Some n) st \<and>
    regular_node n \<and> bytes n = with_eol text @ newline"
proof -
  let ?n = "(new_file st)\<lparr>st_mode := MODE_0600, bytes := text\<rparr>"
  let ?st = "put_node t (Some ?n) st"
  have r: "fs_ok ?st" "\<forall>n. node ?st t = Some n \<longrightarrow> regular_node n"
    using e by (auto simp: edit_ready_def fs_ok_def regular_node_def regular_mode_def desired_mode_def
        MODE_0600_def MODE_07777_def S_ISVTX_def)
  show ?thesis
  proof (cases "FileEndsInEol sys_ok t ?st")
    case True
    then have "AppendPayloadToFile sys_ok (Some t) (Some newline) ?st =
        SaveToFile sys_ok (Some t) ''a'' (Some newline) ?st"
      using nl by (simp add: AppendPayloadToFile_def)
    moreover have "with_eol text = text"
      using True FileEndsInEol_ok [OF fs_ok_plain [OF r]] by (simp add: with_eol_def)
    ultimately show ?thesis using SaveToFile_regular [OF r nl, of "''a''"] by auto
  next
    case False
    obtain n1 where n1: "SaveToFile sys_ok (Some t) ''a'' (Some [EOL]) ?st = (True, put_node t (Some n1) st)"
      "regular_node n1" "bytes n1 = text @ [EOL]"
      using SaveToFile_regular [OF r, of "[EOL]" "''a''"] by auto
    let ?st1 = "put_node t (Some n1) st"
    have r1: "fs_ok ?st1" "\<forall>n. node ?st1 t = Some n \<longrightarrow> regular_node n" using r n1 by auto
    have "AppendPayloadToFile sys_ok (Some t) (Some newline) ?st =
        SaveToFile sys_ok (Some t) ''a'' (Some newline) ?st1"
      using nl False n1 by (simp add: AppendPayloadToFile_def)
    moreover have "with_eol text = text @ [EOL]"
      using False FileEndsInEol_ok [OF fs_ok_plain [OF r]] by (auto simp: with_eol_def)
    ultimately show ?thesis using SaveToFile_regular [OF r1 nl, of "''a''"] n1 by auto
  qed
qed

lemma replace_marked_lines:
  assumes e: "edit_ready (temp_name (dirname p) ''~OSConfig.ReplacingLines'' rnd) p st"
    and f: "node st p = Some f" "NUL \<notin> set (bytes f)" and k: "0 < line_max st"
    and mk: "marker \<noteq> []" "EOL \<notin> set marker" and nl: "1 < length newline" "length newline \<le> line_max st"
  shows "\<exists>st'. ReplaceMarkedLinesInFile sys_ok rnd (Some p) (Some marker) (Some newline) comment True st = (0, st') \<and>
    replaced_file p (replace_marked marker comment newline (fgets_lines (line_max st) (bytes f))) st st'"
proof -
  let ?t = "temp_name (dirname p) ''~OSConfig.ReplacingLines'' rnd"
  let ?ls = "fgets_lines (line_max st) (bytes f)"
  have t: "node st ?t = None" "readable_bytes f = bytes f"
    using e f by (auto simp: edit_ready_def regular_node_def readable_bytes_def)
  have temp: "regular_node ((new_file st)\<lparr>st_mode := MODE_0600, bytes := bs\<rparr>)" for bs
    using e by (auto simp: edit_ready_def fs_ok_def regular_node_def regular_mode_def desired_mode_def
        MODE_0600_def MODE_07777_def S_ISVTX_def)
  note edited = edit_text_eq [OF k f(2) mk nl, of comment]
  show ?thesis
  proof (cases "dropWhile (\<lambda>l. \<not> marked marker comment l) ?ls")
    case Nil
    then have spec: "replace_marked marker comment newline ?ls = with_eol (bytes f) @ newline"
      using concat_fgets_lines [OF k, of "bytes f"]
      by (simp add: replace_marked_def del: dropWhile_eq_Nil_conv)
    obtain n where n: "snd (AppendPayloadToFile sys_ok (Some ?t) (Some newline)
        (put_node ?t (Some ((new_file st)\<lparr>st_mode := MODE_0600, bytes := bytes f\<rparr>)) st)) = put_node ?t (Some n) st"
      "regular_node n" "bytes n = with_eol (bytes f) @ newline"
      using complete_temp [OF e, of newline "bytes f"] nl(1) by (cases newline) auto
    then show ?thesis
      using replace_by_fresh_temp [OF e n(2)] Nil edited t f spec
      by (auto simp: ReplaceMarkedLinesInFile_def ReplaceMarkedLinesInFileInternal_def Let_def
          simp del: dropWhile_eq_Nil_conv)
  next
    case (Cons x after)
    then show ?thesis
      using replace_by_fresh_temp [OF e temp [of "replace_marked marker comment newline ?ls"]] Cons edited t f
      by (auto simp: ReplaceMarkedLinesInFile_def ReplaceMarkedLinesInFileInternal_def Let_def
          simp del: dropWhile_eq_Nil_conv)
  qed
qed

end
