(* ===== verification/FileOptions.thy ===== *)
theory FileOptions
  imports MarkedLines
begin

text \<open>
  Looking for text and options in files (\<open>src/common/commonutils/FileUtils.c\<close>): the searches behind
  the audit checks, the options of a configuration file, and setting one. \<open>exec\<close> is
  \<open>ExecuteCommand\<close>: for a command line, its status and its output. The reason texts the checks
  produce are left out.
\<close>

subsection \<open>Searches\<close>

definition FindTextInFile :: "sys \<Rightarrow> cstr \<Rightarrow> cstr \<Rightarrow> fs \<Rightarrow> int" where
  "FindTextInFile m fileName txt st =
     (case (fileName, txt) of
        (Some p, Some t) \<Rightarrow>
          if t = [] then EINVAL
          else if node st p = None then ENOENT
          else (case LoadStringFromFile m fileName False st of
                  None \<Rightarrow> ENOENT
                | Some contents \<Rightarrow> if strstr contents t \<noteq> None then 0 else ENOENT)
      | _ \<Rightarrow> EINVAL)"

definition CheckTextIsFoundInFile :: "sys \<Rightarrow> cstr \<Rightarrow> cstr \<Rightarrow> fs \<Rightarrow> int" where
  "CheckTextIsFoundInFile m fileName txt st =
     (if fileName \<noteq> None \<and> \<not> FileExists fileName st then ENOENT else FindTextInFile m fileName txt st)"

definition CheckTextIsNotFoundInFile :: "sys \<Rightarrow> cstr \<Rightarrow> cstr \<Rightarrow> fs \<Rightarrow> int" where
  "CheckTextIsNotFoundInFile m fileName txt st =
     (if fileName \<noteq> None \<and> \<not> FileExists fileName st then 0
      else (let result = FindTextInFile m fileName txt st
            in if result = ENOENT then 0 else if result = 0 then ENOENT else result))"

definition CheckFileExists :: "cstr \<Rightarrow> fs \<Rightarrow> int" where
  "CheckFileExists fileName st = (if FileExists fileName st then 0 else ENOENT)"

definition CheckFileNotFound :: "cstr \<Rightarrow> fs \<Rightarrow> int" where
  "CheckFileNotFound fileName st = (if FileExists fileName st then ENOENT else 0)"

text \<open>The comparison covers the shorter of the text and the contents. \<open>MAX_STRING_LENGTH\<close> is 512.\<close>

definition CheckSmallFileContainsText :: "sys \<Rightarrow> cstr \<Rightarrow> cstr \<Rightarrow> fs \<Rightarrow> int" where
  "CheckSmallFileContainsText m fileName txt st =
     (case (fileName, txt) of
        (Some p, Some t) \<Rightarrow>
          if p = [] \<or> t = [] then EINVAL
          else if m ''stat'' 0 = 0 \<and> (\<exists>n. node st p = Some n \<and> 512 < length (bytes n)) then EINVAL
          else (case LoadStringFromFile m fileName False st of
                  None \<Rightarrow> 0
                | Some contents \<Rightarrow>
                    (let k = min (length t) (length contents)
                     in if take k contents = take k t then 0 else ENOENT))
      | _ \<Rightarrow> EINVAL)"

definition GetNumberOfCharacterInstancesInFile :: "sys \<Rightarrow> cstr \<Rightarrow> char \<Rightarrow> fs \<Rightarrow> 32 word" where
  "GetNumberOfCharacterInstancesInFile m fileName what st =
     (case fileName of
        None \<Rightarrow> 0
      | Some p \<Rightarrow>
          (case node st p of
             None \<Rightarrow> 0
           | Some n \<Rightarrow>
               if m ''fopen'' 0 \<noteq> 0 \<or> 128 \<le> (of_char what :: nat) then 0
               else of_nat (count_list (readable_bytes n) what)))"

definition GetNumberOfLinesInFile :: "sys \<Rightarrow> cstr \<Rightarrow> fs \<Rightarrow> 32 word" where
  "GetNumberOfLinesInFile m fileName st = GetNumberOfCharacterInstancesInFile m fileName EOL st"

definition CharacterFoundInFile :: "sys \<Rightarrow> cstr \<Rightarrow> char \<Rightarrow> fs \<Rightarrow> bool" where
  "CharacterFoundInFile m fileName what st \<longleftrightarrow> 0 < GetNumberOfCharacterInstancesInFile m fileName what st"

definition CheckNoLegacyPlusEntriesInFile :: "sys \<Rightarrow> cstr \<Rightarrow> fs \<Rightarrow> int" where
  "CheckNoLegacyPlusEntriesInFile m fileName st =
     (if FileExists fileName st \<and> CharacterFoundInFile m fileName CHR ''+'' st then ENOENT else 0)"

text \<open>An occurrence of the marker whose second position is neither the end nor a letter.\<close>

function marker_hit :: "string \<Rightarrow> string \<Rightarrow> bool" where
  "marker_hit marker s =
     (case strstr s marker of
        None \<Rightarrow> False
      | Some found \<Rightarrow>
          (case found of
             c # d # r \<Rightarrow> \<not> isalpha d \<or> marker_hit marker (d # r)
           | _ \<Rightarrow> False))"
  by pat_completeness auto
termination
proof (relation "measure (\<lambda>(marker, s). length s)", goal_cases)
  case (2 marker s found c t d r)
  then have "suffix found s" using strstr_Some_D by blast
  then have "length found \<le> length s" by (rule suffix_length_le)
  then show ?case using 2 by simp
qed simp

declare marker_hit.simps [simp del]

definition IsValidCommentCharacter :: "char \<Rightarrow> bool" where
  "IsValidCommentCharacter c \<longleftrightarrow> c \<in> set ''#/*;!''"

definition CheckMarkedTextNotFoundInFile ::
  "sys \<Rightarrow> (string \<Rightarrow> int \<times> cstr) \<Rightarrow> cstr \<Rightarrow> cstr \<Rightarrow> cstr \<Rightarrow> char \<Rightarrow> fs \<Rightarrow> int" where
  "CheckMarkedTextNotFoundInFile m exec fileName txt marker comment st =
     (case (fileName, txt, marker) of
        (Some p, Some t, Some mk) \<Rightarrow>
          if t = [] \<or> mk = [] \<or> \<not> IsValidDaemonName txt \<or> \<not> IsValidCommentCharacter comment then EINVAL
          else if node st p = None then EINVAL
          else if m ''FormatAllocateString'' 0 \<noteq> 0 then ENOMEM
          else (case exec (''grep -v '' @ [CHR 0x27] @ ''^'' @ [comment] @ [CHR 0x27] @ '' '' @ p @ '' | grep '' @ t) of
                  (status, Some results) \<Rightarrow> if status = 0 \<and> marker_hit mk results then EEXIST else 0
                | (status, None) \<Rightarrow> 0)
      | _ \<Rightarrow> EINVAL)"

definition CheckTextNotFoundInEnvironmentVariable ::
  "sys \<Rightarrow> (string \<Rightarrow> int \<times> cstr) \<Rightarrow> cstr \<Rightarrow> cstr \<Rightarrow> bool \<Rightarrow> int" where
  "CheckTextNotFoundInEnvironmentVariable m exec variableName txt strictCompare =
     (case (variableName, txt) of
        (Some v, Some t) \<Rightarrow>
          if v = [] \<or> t = [] \<or> \<not> IsValidDaemonName variableName then EINVAL
          else if m ''malloc'' 0 \<noteq> 0 then ENOMEM
          else (case exec (''printenv '' @ v) of
                  (status, Some variableValue) \<Rightarrow>
                    if status \<noteq> 0 then status
                    else if (if strictCompare then variableValue = t else marker_hit t variableValue) then EEXIST
                    else 0
                | (status, None) \<Rightarrow> status)
      | _ \<Rightarrow> EINVAL)"

subsection \<open>Lines that are commented out\<close>

text \<open>Back from an occurrence to the comment mark or the beginning of the line.\<close>

definition commented_out :: "char \<Rightarrow> string \<Rightarrow> bool" where
  "commented_out mark before =
     (case dropWhile (\<lambda>c. c \<noteq> mark \<and> c \<noteq> EOL) (rev before) of [] \<Rightarrow> False | c # _ \<Rightarrow> c = mark)"

text \<open>Whether an occurrence of the text is not commented out; \<open>before\<close> is what precedes \<open>s\<close>.\<close>

function found_uncommented :: "string \<Rightarrow> char \<Rightarrow> string \<Rightarrow> string \<Rightarrow> bool" where
  "found_uncommented t mark before s =
     (if t = [] then False
      else case strstr s t of
        None \<Rightarrow> False
      | Some found \<Rightarrow>
          (let b = before @ take (length s - length found) s
           in \<not> commented_out mark b \<or> found_uncommented t mark (b @ t) (drop (length t) found)))"
  by pat_completeness auto
termination
proof (relation "measure (\<lambda>(t, mark, before, s). length s)", goal_cases)
  case (2 t mark before s found b)
  then have "suffix found s" "prefix t found" using strstr_Some_D by blast+
  then have "length found \<le> length s" "length t \<le> length found"
    by (auto dest: suffix_length_le prefix_length_le)
  moreover have "0 < length t" using 2(1) by simp
  ultimately have "length found - length t < length s" by linarith
  then show ?case by simp
qed simp

declare found_uncommented.simps [simp del]

definition IsLineNotFoundOrCommentedOut :: "sys \<Rightarrow> cstr \<Rightarrow> char \<Rightarrow> cstr \<Rightarrow> fs \<Rightarrow> int" where
  "IsLineNotFoundOrCommentedOut m fileName commentMark txt st =
     (case (fileName, txt) of
        (Some p, Some t) \<Rightarrow>
          if t = [] then EINVAL
          else if node st p = None then 0
          else (case LoadStringFromFile m fileName False st of
                  None \<Rightarrow> ENOENT
                | Some contents \<Rightarrow> if found_uncommented t commentMark [] contents then EEXIST else 0)
      | _ \<Rightarrow> EINVAL)"

definition CheckLineNotFoundOrCommentedOut :: "sys \<Rightarrow> cstr \<Rightarrow> char \<Rightarrow> cstr \<Rightarrow> fs \<Rightarrow> int" where
  "CheckLineNotFoundOrCommentedOut m fileName commentMark txt st =
     (if fileName \<noteq> None \<and> \<not> FileExists fileName st then 0
      else IsLineNotFoundOrCommentedOut m fileName commentMark txt st)"

definition CheckLineFoundNotCommentedOut :: "sys \<Rightarrow> cstr \<Rightarrow> char \<Rightarrow> cstr \<Rightarrow> fs \<Rightarrow> int" where
  "CheckLineFoundNotCommentedOut m fileName commentMark txt st =
     (if fileName \<noteq> None \<and> \<not> FileExists fileName st then ENOENT
      else (let result = IsLineNotFoundOrCommentedOut m fileName commentMark txt st
            in if result = EEXIST then 0 else if result = 0 then EEXIST else result))"

subsection \<open>Options\<close>

text \<open>
  The value behind an occurrence of the option. The buffer is cut at its first comment character;
  an occurrence behind that position is not affected. \<open>before\<close> is what precedes the occurrence.
\<close>

definition option_value :: "char \<Rightarrow> char \<Rightarrow> string \<Rightarrow> string \<Rightarrow> string" where
  "option_value separator comment before found =
     (let v0 = (if comment \<in> set before then found else TruncateAtFirst found comment);
          v1 = RemovePrefixUpTo v0 separator;
          v2 = RemovePrefix v1 separator;
          v3 = RemovePrefixBlanks v2;
          v4 = RemoveTrailingBlanks v3;
          v5 = TruncateAtFirst v4 EOL
      in TruncateAtFirst v5 CHR '' '')"

text \<open>The beginning of the line an occurrence stands on.\<close>

definition line_start :: "string \<Rightarrow> string" where
  "line_start before = rev (takeWhile (\<lambda>c. c \<noteq> EOL) (rev before))"

function find_option :: "string \<Rightarrow> char \<Rightarrow> char \<Rightarrow> string \<Rightarrow> string \<Rightarrow> string option" where
  "find_option opt separator comment before s =
     (case strstr s opt of
        None \<Rightarrow> None
      | Some found \<Rightarrow>
          (let b = before @ take (length s - length found) s
           in if comment \<notin> set (line_start b @ take 1 found) then Some (option_value separator comment b found)
              else case found of
                [] \<Rightarrow> None
              | c # r \<Rightarrow> find_option opt separator comment (b @ [c]) r))"
  by pat_completeness auto
termination
proof (relation "measure (\<lambda>(opt, separator, comment, before, s). length s)", goal_cases)
  case (2 opt separator comment before s found b c r)
  then have "suffix found s" using strstr_Some_D by blast
  then have "length found \<le> length s" by (rule suffix_length_le)
  then show ?case using 2 by simp
qed simp

declare find_option.simps [simp del]

definition GetStringOptionFromBuffer :: "sys \<Rightarrow> cstr \<Rightarrow> cstr \<Rightarrow> char \<Rightarrow> char \<Rightarrow> cstr" where
  "GetStringOptionFromBuffer m buffer opt separator comment =
     (case (buffer, opt) of
        (Some s, Some p) \<Rightarrow>
          if m ''DuplicateString'' 0 \<noteq> 0 then None
          else (case find_option p separator comment [] s of
                  None \<Rightarrow> None
                | Some v \<Rightarrow> if m ''DuplicateString'' 1 = 0 then Some v else None)
      | _ \<Rightarrow> None)"

definition INT_ENOENT :: int where "INT_ENOENT = - 999"

definition GetIntegerOptionFromBuffer :: "sys \<Rightarrow> cstr \<Rightarrow> cstr \<Rightarrow> char \<Rightarrow> char \<Rightarrow> nat \<Rightarrow> int" where
  "GetIntegerOptionFromBuffer m buffer opt separator comment base =
     (case GetStringOptionFromBuffer m buffer opt separator comment of
        None \<Rightarrow> INT_ENOENT
      | Some v \<Rightarrow> c_int (strtol v base))"

definition GetStringOptionFromFile :: "sys \<Rightarrow> cstr \<Rightarrow> cstr \<Rightarrow> char \<Rightarrow> char \<Rightarrow> fs \<Rightarrow> cstr" where
  "GetStringOptionFromFile m fileName opt separator comment st =
     (if opt \<noteq> None \<and> CheckFileExists fileName st = 0 then
        (case LoadStringFromFile (nested ''Load'' m) fileName False st of
           None \<Rightarrow> None
         | Some contents \<Rightarrow> GetStringOptionFromBuffer m (Some contents) opt separator comment)
      else None)"

definition GetIntegerOptionFromFile :: "sys \<Rightarrow> cstr \<Rightarrow> cstr \<Rightarrow> char \<Rightarrow> char \<Rightarrow> nat \<Rightarrow> fs \<Rightarrow> int" where
  "GetIntegerOptionFromFile m fileName opt separator comment base st =
     (if opt \<noteq> None \<and> CheckFileExists fileName st = 0 then
        (case LoadStringFromFile (nested ''Load'' m) fileName False st of
           None \<Rightarrow> INT_ENOENT
         | Some contents \<Rightarrow> GetIntegerOptionFromBuffer m (Some contents) opt separator comment base)
      else INT_ENOENT)"

definition CheckIntegerOptionFromFileEqualWithAny ::
  "sys \<Rightarrow> cstr \<Rightarrow> cstr \<Rightarrow> char \<Rightarrow> char \<Rightarrow> int list \<Rightarrow> nat \<Rightarrow> fs \<Rightarrow> int" where
  "CheckIntegerOptionFromFileEqualWithAny m fileName opt separator comment vals base st =
     (if vals = [] then EINVAL
      else (let v = GetIntegerOptionFromFile m fileName opt separator comment base st
            in if v \<noteq> INT_ENOENT \<and> v \<in> set vals then 0 else ENOENT))"

definition CheckIntegerOptionFromFileLessOrEqualWith ::
  "sys \<Rightarrow> cstr \<Rightarrow> cstr \<Rightarrow> char \<Rightarrow> char \<Rightarrow> int \<Rightarrow> nat \<Rightarrow> fs \<Rightarrow> int" where
  "CheckIntegerOptionFromFileLessOrEqualWith m fileName opt separator comment v base st =
     (let found = GetIntegerOptionFromFile m fileName opt separator comment base st
      in if found \<noteq> INT_ENOENT \<and> found \<le> v then 0 else ENOENT)"

definition SetEtcConfValue :: "sys \<Rightarrow> nat \<Rightarrow> cstr \<Rightarrow> cstr \<Rightarrow> cstr \<Rightarrow> fs \<Rightarrow> int \<times> fs" where
  "SetEtcConfValue m rnd file opt v st =
     (case (file, opt, v) of
        (Some p, Some nm, Some x) \<Rightarrow>
          if nm = [] \<or> x = [] then (EINVAL, st)
          else if node st p = None then (ENOENT, st)
          else if m ''FormatAllocateString.newline'' 0 \<noteq> 0 then (ENOMEM, st)
          else ReplaceMarkedLinesInFile m rnd file opt (Some (nm @ '' '' @ x @ [EOL])) CHR ''#'' True st
      | _ \<Rightarrow> (EINVAL, st))"

definition SetEtcLoginDefValue :: "sys \<Rightarrow> nat \<Rightarrow> cstr \<Rightarrow> cstr \<Rightarrow> fs \<Rightarrow> int \<times> fs" where
  "SetEtcLoginDefValue m rnd opt v st = SetEtcConfValue m rnd (Some ''/etc/login.defs'') opt v st"

subsection \<open>Searching line by line\<close>

lemma prefix_line: "EOL \<notin> set t \<Longrightarrow> prefix t (l @ EOL # r) \<longleftrightarrow> prefix t l"
proof (induction l arbitrary: t)
  case Nil
  then show ?case by (cases t) auto
next
  case (Cons c l)
  then show ?case by (cases t) auto
qed

text \<open>A text without line feeds is found in the first line that has it.\<close>

lemma strstr_line:
  assumes "EOL \<notin> set t" "t \<noteq> []"
  shows "strstr (l @ EOL # r) t =
    (case strstr l t of Some found \<Rightarrow> Some (found @ EOL # r) | None \<Rightarrow> strstr r t)"
proof (induction l)
  case Nil
  have "\<not> prefix t (EOL # r)" using assms by (cases t) auto
  then show ?case using assms(2) by simp
next
  case (Cons c l)
  have "prefix t (c # l @ EOL # r) \<longleftrightarrow> prefix t (c # l)" using prefix_line [OF assms(1), of "c # l" r] by simp
  then show ?case using Cons by simp
qed

lemma strstr_split: "strstr s t = Some found \<Longrightarrow> s = take (length s - length found) s @ found"
  using strstr_Some_D [of s t found] by (auto simp: suffix_def)

lemma takeWhile_no_eol: "EOL \<notin> set l \<Longrightarrow> takeWhile (\<lambda>c. c \<noteq> EOL) l = l"
  by (auto simp: takeWhile_eq_all_conv)

lemma line_start_append:
  "EOL \<notin> set l \<Longrightarrow> before = [] \<or> last before = EOL \<Longrightarrow> line_start (before @ l) = l"
  by (cases before rule: rev_cases) (auto simp: line_start_def takeWhile_append takeWhile_no_eol)

lemma commented_out_line:
  assumes "EOL \<notin> set l" "before = [] \<or> last before = EOL" "mark \<noteq> EOL"
  shows "commented_out mark (before @ l) \<longleftrightarrow> mark \<in> set l"
proof (cases "mark \<in> set l")
  case True
  then obtain a b where l: "rev l = a @ mark # b" "mark \<notin> set a" by (metis set_rev split_list_first)
  then have "\<forall>c \<in> set a. c \<noteq> mark \<and> c \<noteq> EOL" using assms(1) by (metis Un_iff set_append set_rev)
  then have "dropWhile (\<lambda>c. c \<noteq> mark \<and> c \<noteq> EOL) (a @ mark # b @ rev before) = mark # b @ rev before"
    by (simp add: dropWhile_append3)
  then show ?thesis using True l by (simp add: commented_out_def)
next
  case False
  then have "\<forall>c \<in> set (rev l). c \<noteq> mark \<and> c \<noteq> EOL" using assms(1) by auto
  then have "dropWhile (\<lambda>c. c \<noteq> mark \<and> c \<noteq> EOL) (rev l @ rev before) =
      dropWhile (\<lambda>c. c \<noteq> mark \<and> c \<noteq> EOL) (rev before)"
    by (intro dropWhile_append2) blast
  then have "commented_out mark (before @ l) = commented_out mark before" by (simp add: commented_out_def)
  then show ?thesis
    using False assms(2,3) by (cases before rule: rev_cases) (auto simp: commented_out_def)
qed

subsection \<open>Reading an option that was set\<close>

lemma find_option_skip:
  assumes "EOL \<notin> set opt" "opt \<noteq> []" "\<not> sublist opt l"
  shows "find_option opt sep com before (l @ EOL # r) = find_option opt sep com (before @ l @ [EOL]) r"
proof -
  have str: "strstr (l @ EOL # r) opt = strstr r opt"
    using strstr_line [OF assms(1,2), of l r] assms(3) strstr_None_iff [of l opt] by simp
  have b: "before @ take (length (l @ EOL # r) - length found) (l @ EOL # r) =
      (before @ l @ [EOL]) @ take (length r - length found) r" if "strstr r opt = Some found" for found
  proof -
    have "length found \<le> length r" using that strstr_Some_D suffix_length_le by blast
    then show ?thesis by (simp add: Suc_diff_le)
  qed
  show ?thesis
    unfolding find_option.simps [of _ _ _ before] find_option.simps [of _ _ _ "before @ l @ [EOL]"] str
    by (cases "strstr r opt") (simp_all only: option.case b Let_def)
qed

text \<open>In a line that begins with the comment character every occurrence is passed over.\<close>

lemma find_option_comment:
  assumes "EOL \<notin> set opt" "opt \<noteq> []"
  shows "EOL \<notin> set l \<Longrightarrow> com \<in> set (line_start before) \<Longrightarrow>
    find_option opt sep com before (l @ EOL # r) = find_option opt sep com (before @ l @ [EOL]) r"
proof (induction l arbitrary: before rule: length_induct)
  case (1 l)
  show ?case
  proof (cases "strstr l opt")
    case None
    then show ?thesis using find_option_skip [OF assms] strstr_None_iff by blast
  next
    case (Some found)
    obtain c f where found: "found = c # f"
      using strstr_Some_D [OF Some] assms(2) by (cases found) auto
    define a where "a = take (length l - length found) l"
    have l: "l = a @ c # f" using strstr_split [OF Some] by (simp add: a_def found)
    have nl: "EOL \<notin> set a" "EOL \<notin> set f" "c \<noteq> EOL" using "1.prems"(1) by (auto simp: l)
    have start: "line_start (x @ y) = line_start x @ y" if "EOL \<notin> set y" for x y
      using that by (auto simp: line_start_def takeWhile_append takeWhile_eq_all_conv)
    have "strstr (l @ EOL # r) opt = Some (found @ EOL # r)" using strstr_line [OF assms, of l r] Some by simp
    moreover have "take (length (l @ EOL # r) - length (found @ EOL # r)) (l @ EOL # r) = a"
      by (simp add: l found)
    ultimately have "find_option opt sep com before (l @ EOL # r) =
        find_option opt sep com ((before @ a) @ [c]) (f @ EOL # r)"
      using "1.prems"(2) start [OF nl(1), of before]
      by (subst find_option.simps) (simp add: found Let_def)
    also have "\<dots> = find_option opt sep com (((before @ a) @ [c]) @ f @ [EOL]) r"
      using "1.prems"(2) nl start [of "a @ [c]" before] by (intro "1.IH" [rule_format]) (auto simp: l)
    finally show ?thesis by (simp add: l)
  qed
qed

text \<open>Lines before the option: each ends with its line feed, and has no occurrence or is a comment.\<close>

definition passed_over :: "string \<Rightarrow> char \<Rightarrow> string \<Rightarrow> bool" where
  "passed_over opt com l \<longleftrightarrow> (\<exists>t. l = t @ [EOL] \<and> EOL \<notin> set t \<and> (\<not> sublist opt t \<or> t \<noteq> [] \<and> hd t = com))"

lemma find_option_line:
  assumes opt: "EOL \<notin> set opt" "opt \<noteq> []" and "passed_over opt com l" and "before = [] \<or> last before = EOL" and "com \<noteq> EOL"
    and hd: "hd opt \<noteq> com"
  shows "find_option opt sep com before (l @ r) = find_option opt sep com (before @ l) r"
proof -
  obtain t where t: "l = t @ [EOL]" "EOL \<notin> set t" "\<not> sublist opt t \<or> t \<noteq> [] \<and> hd t = com"
    using assms(3) by (auto simp: passed_over_def)
  show ?thesis
  proof (cases "sublist opt t")
    case False
    then show ?thesis using find_option_skip [OF opt False, of sep com before r] by (simp add: t(1))
  next
    case True
    then obtain u where u: "t = com # u" using t(3) by (cases t) auto
    have "\<not> prefix opt (com # u @ EOL # r)" using opt(2) hd by (cases opt) auto
    then have str: "strstr (t @ EOL # r) opt = strstr (u @ EOL # r) opt" by (simp add: u)
    have "find_option opt sep com before (t @ EOL # r) = find_option opt sep com (before @ [com]) (u @ EOL # r)"
    proof -
      have "before @ take (length (t @ EOL # r) - length found) (t @ EOL # r) =
          (before @ [com]) @ take (length (u @ EOL # r) - length found) (u @ EOL # r)"
        if "strstr (u @ EOL # r) opt = Some found" for found
      proof -
        have "length found \<le> length (u @ EOL # r)" using that strstr_Some_D suffix_length_le by blast
        then show ?thesis by (simp add: u Suc_diff_le)
      qed
      then show ?thesis
        unfolding find_option.simps [of _ _ _ before] find_option.simps [of _ _ _ "before @ [com]"] str
        by (cases "strstr (u @ EOL # r) opt") (simp_all only: option.case Let_def)
    qed
    also have "\<dots> = find_option opt sep com ((before @ [com]) @ u @ [EOL]) r"
      using t(2) assms(4,5) line_start_append [of "[com]" before] by (intro find_option_comment [OF opt]) (auto simp: u)
    finally show ?thesis by (simp add: t(1) u)
  qed
qed

lemma find_option_lines:
  assumes "EOL \<notin> set opt" "opt \<noteq> []" "com \<noteq> EOL" "hd opt \<noteq> com"
  shows "\<forall>l \<in> set ls. passed_over opt com l \<Longrightarrow> before = [] \<or> last before = EOL \<Longrightarrow>
    find_option opt sep com before (concat ls @ r) = find_option opt sep com (before @ concat ls) r"
proof (induction ls arbitrary: before)
  case (Cons l ls)
  have l: "passed_over opt com l" using Cons.prems by simp
  then have "last (before @ l) = EOL" by (auto simp: passed_over_def)
  then show ?case
    using Cons find_option_line [OF assms(1,2) l Cons.prems(2) assms(3,4), of sep "concat ls @ r"] by simp
qed simp

text \<open>The line \<open>SetEtcConfValue\<close> writes.\<close>

lemma option_value_line:
  assumes "EOL \<notin> set v" "CHR '' '' \<notin> set v" "v \<noteq> []" "com \<notin> set v" and "com \<noteq> CHR '' ''" "com \<noteq> EOL"
    and "CHR '' '' \<notin> set opt" "com \<notin> set opt"
  shows "option_value CHR '' '' com before (opt @ '' '' @ v @ EOL # r) = v"
proof -
  define x where "x = (if com \<in> set before then r else TruncateAtFirst r com)"
  have v0: "(if com \<in> set before then opt @ '' '' @ v @ EOL # r
      else TruncateAtFirst (opt @ '' '' @ v @ EOL # r) com) = opt @ '' '' @ v @ EOL # x"
    using assms by (auto simp: x_def TruncateAtFirst_def takeWhile_append takeWhile_eq_all_conv)
  have v1: "RemovePrefixUpTo (opt @ '' '' @ v @ EOL # x) CHR '' '' = '' '' @ v @ EOL # x"
    using assms(7) by (auto simp: RemovePrefixUpTo_eq dropWhile_append)
  obtain c v' where v: "v = c # v'" "c \<noteq> CHR '' ''" using assms(2,3) by (cases v) auto
  have v3: "RemovePrefixBlanks (RemovePrefix ('' '' @ v @ EOL # x) CHR '' '') = v @ EOL # x"
    using v by (simp add: RemovePrefixBlanks_def RemovePrefix_def)
  obtain y where "RemoveTrailingBlanks (v @ EOL # x) = v @ EOL # y"
    by (cases "\<forall>c \<in> set x. c = CHR '' ''")
      (auto simp: RemoveTrailingBlanks_def dropWhile_append EOL_def)
  then show ?thesis
    using v0 v1 v3 assms(1,2) unfolding option_value_def Let_def by (simp add: TruncateAtFirst_id)
qed

lemma find_option_set:
  assumes "EOL \<notin> set opt" "opt \<noteq> []" "CHR ''#'' \<notin> set opt" "CHR '' '' \<notin> set opt"
    and "\<forall>l \<in> set pre. passed_over opt CHR ''#'' l"
    and "v \<noteq> []" "EOL \<notin> set v" "CHR '' '' \<notin> set v" "CHR ''#'' \<notin> set v"
  shows "find_option opt CHR '' '' CHR ''#'' [] (concat pre @ opt @ '' '' @ v @ EOL # r) = Some v"
proof -
  let ?rest = "opt @ '' '' @ v @ EOL # r"
  have pre: "concat pre = [] \<or> last (concat pre) = EOL"
    using assms(5) by (cases pre rule: rev_cases) (auto simp: passed_over_def)
  have hd: "hd opt \<noteq> CHR ''#''" using assms(2,3) by (cases opt) auto
  have "find_option opt CHR '' '' CHR ''#'' [] (concat pre @ ?rest) =
      find_option opt CHR '' '' CHR ''#'' (concat pre) ?rest"
    using find_option_lines [OF assms(1,2) _ hd assms(5), of "[]" "CHR '' ''" ?rest] by (simp add: EOL_def)
  also have "\<dots> = Some (option_value CHR '' '' CHR ''#'' (concat pre) ?rest)"
  proof -
    have "strstr ?rest opt = Some ?rest" using assms(2) by (cases opt) auto
    moreover have "take 1 ?rest = [hd opt]" using assms(2) by (cases opt) auto
    moreover have "line_start (concat pre) = []" using line_start_append [of "[]"] pre by simp
    ultimately show ?thesis using hd by (subst find_option.simps) (simp add: Let_def)
  qed
  also have "option_value CHR '' '' CHR ''#'' (concat pre) ?rest = v"
    using assms by (intro option_value_line) (auto simp: EOL_def)
  finally show ?thesis .
qed

end
