(* ===== verification/FileProps.thy ===== *)
theory FileProps
  imports FileOptions
begin

text \<open>
  Properties of the file operations: what an append and a replacement leave behind, that an option
  which was set is read back, and what the search for commented out lines decides.
\<close>

subsection \<open>Options\<close>

lemma chunk_eol: "l \<in> set (fgets_lines k s) \<Longrightarrow> EOL \<notin> set (butlast l)"
proof (induction k s rule: fgets_lines.induct)
  case (1 k s)
  have ne: "s \<noteq> []" "k \<noteq> 0" using "1.prems" by (auto simp: fgets_lines.simps [of k s] split: if_splits)
  have "EOL \<notin> set (butlast (take k (takeWhile (\<lambda>c. c \<noteq> EOL) s @ [EOL])))"
    by (auto simp: butlast_take butlast_append dest!: in_set_takeD in_set_butlastD dest: set_takeWhileD)
  then have "EOL \<notin> set (butlast (fgets_chunk k s))"
    by (auto simp: fgets_chunk_def dest!: in_set_butlastD in_set_takeD)
  then show ?case using 1 ne by (auto simp: fgets_lines.simps [of k s])
qed

lemma unmarked_passed_over:
  assumes "l \<in> set (fgets_lines k s)" "last l = EOL" "\<not> marked opt com l" "com \<noteq> EOL"
  shows "passed_over opt com l"
proof -
  have l: "line_ok l" "EOL \<notin> set (butlast l)" using line_ok_fgets [OF assms(1)] chunk_eol [OF assms(1)] .
  then have eq: "l = butlast l @ [EOL]" using assms(2) by (metis append_butlast_last_id line_ok_def)
  have "sublist opt (butlast l) \<Longrightarrow> sublist opt l" by (subst eq) (auto simp: sublist_append)
  moreover have "butlast l \<noteq> [] \<and> hd (butlast l) = com" if "hd l = com"
    using that assms(4) eq by (metis append_Nil hd_append list.sel(1))
  ultimately show ?thesis using eq l(2) assms(3) by (auto simp: passed_over_def marked_def intro!: exI [of _ "butlast l"])
qed

text \<open>The new text is a list of lines that are passed over, the new line, and more text.\<close>

lemma replace_marked_split:
  assumes "0 < k" "\<forall>l \<in> set (fgets_lines k s). last l = EOL" "com \<noteq> EOL" "opt \<noteq> []" "EOL \<notin> set opt"
  shows "\<exists>pre r. replace_marked opt com newline (fgets_lines k s) = concat pre @ newline @ r \<and>
    (\<forall>l \<in> set pre. passed_over opt com l) \<and> set r \<subseteq> set s \<and> set (concat pre) \<subseteq> insert EOL (set s)"
proof (cases "dropWhile (\<lambda>l. \<not> marked opt com l) (fgets_lines k s)")
  case Nil
  have no: "\<forall>l \<in> set (fgets_lines k s). \<not> marked opt com l" using Nil by simp
  have edited: "replace_marked opt com newline (fgets_lines k s) = with_eol s @ newline"
    using Nil concat_fgets_lines [OF assms(1), of s]
    by (simp add: replace_marked_def del: dropWhile_eq_Nil_conv)
  show ?thesis
  proof (cases "s = []")
    case True
    have "passed_over opt com [EOL]" using assms(4) by (auto simp: passed_over_def)
    then show ?thesis
      using edited True by (intro exI [of _ "[[EOL]]"] exI [of _ "[]"]) (simp add: with_eol_def)
  next
    case False
    have "fgets_lines k s \<noteq> []" using False assms(1) by (simp add: fgets_lines.simps [of k s])
    then obtain ls l where ls: "fgets_lines k s = ls @ [l]" by (metis rev_exhaust)
    then have "last s = EOL"
      using concat_fgets_lines [OF assms(1), of s] assms(2) line_ok_fgets [of l k s]
      by (metis concat.simps concat_append append_Nil2 last_appendR last_in_set line_ok_def in_set_conv_decomp)
    then show ?thesis
      using edited False no assms(2,3) concat_fgets_lines [OF assms(1), of s] unmarked_passed_over
      by (intro exI [of _ "fgets_lines k s"] exI [of _ "[]"]) (auto simp: with_eol_def)
  qed
next
  case (Cons x rest)
  let ?pre = "takeWhile (\<lambda>l. \<not> marked opt com l) (fgets_lines k s)"
  let ?r = "concat (filter (\<lambda>l. \<not> marked opt com l) rest)"
  have ls: "fgets_lines k s = ?pre @ x # rest" using Cons by (metis takeWhile_dropWhile_id)
  have sub: "set (concat (fgets_lines k s)) = set s" using concat_fgets_lines [OF assms(1), of s] by simp
  have "set ?r \<subseteq> set (concat (fgets_lines k s))" by (subst ls) auto
  moreover have "set (concat ?pre) \<subseteq> set (concat (fgets_lines k s))" by (subst (2) ls) auto
  moreover have "\<forall>l \<in> set ?pre. passed_over opt com l"
    using assms(2,3) unmarked_passed_over by (blast dest: set_takeWhileD)
  moreover have "replace_marked opt com newline (fgets_lines k s) = concat ?pre @ newline @ ?r"
    using Cons by (simp add: replace_marked_def)
  ultimately show ?thesis unfolding sub by blast
qed

definition option_text :: "string \<Rightarrow> bool" where
  "option_text s \<longleftrightarrow> s \<noteq> [] \<and> (\<forall>c \<in> set s. c \<noteq> EOL \<and> c \<noteq> CHR '' '' \<and> c \<noteq> CHR ''#'' \<and> c \<noteq> NUL)"

lemma option_textD:
  assumes "option_text s"
  shows "s \<noteq> []" "EOL \<notin> set s" "CHR '' '' \<notin> set s" "CHR ''#'' \<notin> set s" "NUL \<notin> set s"
  using assms by (auto simp: option_text_def)

lemma set_get_option:
  assumes e: "edit_ready (temp_name (dirname p) ''~OSConfig.ReplacingLines'' rnd) p st"
    and f: "node st p = Some f" "NUL \<notin> set (bytes f)"
    and lines: "0 < line_max st" "\<forall>l \<in> set (fgets_lines (line_max st) (bytes f)). last l = EOL"
    and opt: "option_text opt" "option_text v" "length opt + length v + 2 \<le> line_max st"
  shows "\<exists>st'. SetEtcConfValue sys_ok rnd (Some p) (Some opt) (Some v) st = (0, st') \<and>
    GetStringOptionFromFile sys_ok (Some p) (Some opt) CHR '' '' CHR ''#'' st' = Some v \<and>
    kept_attributes p st' = kept_attributes p st \<and> (\<forall>q. q \<noteq> p \<longrightarrow> node st' q = node st q)"
proof -
  let ?nl = "opt @ '' '' @ v @ [EOL]"
  let ?text = "replace_marked opt CHR ''#'' ?nl (fgets_lines (line_max st) (bytes f))"
  note o = option_textD [OF opt(1)] and x = option_textD [OF opt(2)]
  have "1 < length ?nl" "length ?nl \<le> line_max st" using opt(3) by simp_all
  then obtain st' n where st': "SetEtcConfValue sys_ok rnd (Some p) (Some opt) (Some v) st = (0, st')"
    "st' = put_node p (Some n) st" "bytes n = ?text" "\<not> is_dir n" "attributes n = kept_attributes p st"
    using replace_marked_lines [OF e f lines(1) o(1,2), of ?nl "CHR ''#''"] o(1) x(1) f(1)
    by (auto simp: SetEtcConfValue_def replaced_file_def)
  obtain pre r where split: "?text = concat pre @ ?nl @ r" "\<forall>l \<in> set pre. passed_over opt CHR ''#'' l"
    "set r \<subseteq> set (bytes f)" "set (concat pre) \<subseteq> insert EOL (set (bytes f))"
    using replace_marked_split [OF lines(1,2), of "CHR ''#''" opt ?nl] o(1,2) by (auto simp: EOL_def)
  have "NUL \<notin> set ?text" using split f(2) o(5) x(5) by (auto simp: EOL_def NUL_def)
  then have "LoadStringFromFile sys_ok (Some p) False st' = Some ?text"
    using st' by (simp add: readable_bytes_def)
  moreover have "find_option opt CHR '' '' CHR ''#'' [] ?text = Some v"
    using find_option_set [OF o(2,1,4,3) split(2) x(1,2,3,4), of r] split(1) by simp
  ultimately have "GetStringOptionFromFile sys_ok (Some p) (Some opt) CHR '' '' CHR ''#'' st' = Some v"
    using st' by (simp add: GetStringOptionFromFile_def GetStringOptionFromBuffer_def CheckFileExists_def
        del: LoadStringFromFile_ok)
  then show ?thesis using st' by (auto simp: kept_attributes_def)
qed

subsection \<open>Commented out lines\<close>

lemma strstr_first:
  "strstr s t = Some found \<Longrightarrow> s = a @ t @ b \<Longrightarrow> length s - length found \<le> length a"
proof (induction s arbitrary: a)
  case (Cons c s)
  show ?case
  proof (cases "prefix t (c # s)")
    case True
    then have "found = c # s" using Cons.prems(1) by simp
    then show ?thesis by simp
  next
    case False
    then obtain a' where a: "a = c # a'" "s = a' @ t @ b"
      using Cons.prems(2) by (cases a) (auto simp: prefix_def)
    then show ?thesis using Cons.IH [of a'] Cons.prems(1) False by simp
  qed
qed simp

lemma commented_out_append:
  "commented_out mark b \<Longrightarrow> EOL \<notin> set x \<Longrightarrow> commented_out mark (b @ x)"
proof (induction x rule: rev_induct)
  case (snoc c x)
  then show ?case by (auto simp: commented_out_def simp flip: append_assoc)
qed simp

text \<open>The loop skips from one occurrence behind its end; overlapping occurrences stand on the same
  line and are commented out together.\<close>

lemma found_uncommented_iff:
  assumes "EOL \<notin> set t" "t \<noteq> []"
  shows "found_uncommented t mark before s \<longleftrightarrow> (\<exists>a b. s = a @ t @ b \<and> \<not> commented_out mark (before @ a))"
proof (induction s arbitrary: before rule: length_induct)
  case (1 s)
  show ?case
  proof (cases "strstr s t")
    case None
    then have "\<not> sublist t s" using strstr_None_iff by blast
    then show ?thesis using None by (subst found_uncommented.simps) (auto simp: sublist_def)
  next
    case (Some found)
    define p where "p = take (length s - length found) s"
    have s: "s = p @ found" using strstr_split [OF Some] by (simp add: p_def)
    obtain q where q: "found = t @ q" using strstr_Some_D [OF Some] by (auto simp: prefix_def)
    have step: "found_uncommented t mark before s \<longleftrightarrow>
        \<not> commented_out mark (before @ p) \<or> found_uncommented t mark (before @ p @ t) q"
      using Some assms(2) by (subst found_uncommented.simps) (simp add: p_def Let_def q)
    have IH: "found_uncommented t mark (before @ p @ t) q \<longleftrightarrow>
        (\<exists>a b. q = a @ t @ b \<and> \<not> commented_out mark ((before @ p @ t) @ a))"
      using 1 assms(2) s q by auto
    have later: "\<exists>a'. a = p @ t @ a' \<and> q = a' @ t @ b"
      if ab: "s = a @ t @ b" and no: "\<not> commented_out mark (before @ a)" and c: "commented_out mark (before @ p)" for a b
    proof -
      have "length p \<le> length a" using strstr_first [OF Some ab] by (simp add: p_def)
      moreover have "p @ found = a @ t @ b" using ab s by simp
      ultimately obtain x where x: "a = p @ x" "found = x @ t @ b" by (auto simp: append_eq_append_conv2)
      have "length t \<le> length x"
      proof (rule ccontr)
        assume "\<not> length t \<le> length x"
        moreover have "take (length x) (x @ t @ b) = take (length x) (t @ q)" using x(2) q by simp
        ultimately have "x = take (length x) t" by simp
        then have "EOL \<notin> set x" using assms(1) by (metis in_set_takeD)
        then show False using commented_out_append [OF c, of x] no by (simp add: x(1))
      qed
      moreover have "t @ q = x @ t @ b" using x(2) q by simp
      ultimately obtain a' where "x = t @ a'" by (auto simp: append_eq_append_conv2)
      then show ?thesis using x q by simp
    qed
    show ?thesis
    proof (cases "commented_out mark (before @ p)")
      case False
      then show ?thesis using s q step by blast
    next
      case True
      have "(\<exists>a b. s = a @ t @ b \<and> \<not> commented_out mark (before @ a)) \<longleftrightarrow>
          (\<exists>a b. q = a @ t @ b \<and> \<not> commented_out mark ((before @ p @ t) @ a))"
        using later [OF _ _ True] s q by (metis append_assoc)
      then show ?thesis using True step IH by blast
    qed
  qed
qed

subsection \<open>Properties\<close>

text \<open>A small file system for the instances below.\<close>

definition sample_node :: "string \<Rightarrow> inode" where
  "sample_node bs = \<lparr>is_dir = False, bytes = bs, st_uid = 0, st_gid = 7, st_mode = MODE_0644\<rparr>"

definition sample_fs :: "string \<Rightarrow> fs" where
  "sample_fs bs = \<lparr>node = [''/f'' \<mapsto> sample_node bs],
     new_file = \<lparr>is_dir = False, bytes = [], st_uid = 0, st_gid = 0, st_mode = MODE_0660\<rparr>, line_max = 16\<rparr>"

lemma sample_fields [simp]:
  "node (sample_fs bs) p = (if p = ''/f'' then Some (sample_node bs) else None)" "line_max (sample_fs bs) = 16"
  "bytes (sample_node bs) = bs" "\<not> is_dir (sample_node bs)"
  by (simp_all add: sample_fs_def sample_node_def)

lemma sample_temp: "temp_name (dirname ''/f'') stem 0 = ''//'' @ stem @ ''0''"
proof -
  have "dirname ''/f'' = ''/''" by code_simp
  moreover have "dec 0 = ''0''" by (subst dec.simps) code_simp
  ultimately show ?thesis by (simp add: temp_name_def)
qed

lemma sample_ready: "edit_ready (temp_name (dirname ''/f'') stem 0) ''/f'' (sample_fs bs)"
  by (simp add: sample_temp edit_ready_def fs_ok_def regular_node_def regular_mode_def desired_mode_def sample_fs_def
      sample_node_def MODE_0644_def MODE_0660_def MODE_07777_def S_ISVTX_def)

lemma sample_lines: "fgets_lines 16 (''A 1'' @ [EOL]) = [''A 1'' @ [EOL]]"
  by (simp add: fgets_lines.simps fgets_chunk_def EOL_def)

text \<open>An option that \<open>SetEtcConfValue\<close> sets is read back by \<open>GetStringOptionFromFile\<close>, whatever
  comments and other options the file has and whether or not it had the option before; the file
  keeps its owner, group and access, and no other file changes.\<close>

theorem SetEtcConfValue_GetStringOption:
  assumes "edit_ready (temp_name (dirname p) ''~OSConfig.ReplacingLines'' rnd) p st"
    and "node st p = Some f" "NUL \<notin> set (bytes f)"
    and "0 < line_max st" "\<forall>l \<in> set (fgets_lines (line_max st) (bytes f)). last l = EOL"
    and "option_text opt" "option_text v" "length opt + length v + 2 \<le> line_max st"
  shows "\<exists>st'. SetEtcConfValue sys_ok rnd (Some p) (Some opt) (Some v) st = (0, st') \<and>
    GetStringOptionFromFile sys_ok (Some p) (Some opt) CHR '' '' CHR ''#'' st' = Some v \<and>
    kept_attributes p st' = kept_attributes p st \<and> (\<forall>q. q \<noteq> p \<longrightarrow> node st' q = node st q)"
  using assms by (rule set_get_option)

theorem SetEtcConfValue_GetStringOption_witness:
  "\<exists>st'. SetEtcConfValue sys_ok 0 (Some ''/f'') (Some ''A'') (Some ''2'') (sample_fs (''A 1'' @ [EOL])) = (0, st') \<and>
    GetStringOptionFromFile sys_ok (Some ''/f'') (Some ''A'') CHR '' '' CHR ''#'' st' = Some ''2''"
  using SetEtcConfValue_GetStringOption [OF sample_ready [of "''~OSConfig.ReplacingLines''" "''A 1'' @ [EOL]"], of "sample_node (''A 1'' @ [EOL])" "''A''" "''2''"]
  by (auto simp: sample_lines [unfolded EOL_def, simplified] option_text_def EOL_def NUL_def)

text \<open>C18: \<open>ReplaceMarkedLinesInFile\<close> refines its specification on the list of lines: the first line
  that carries the marker and is no comment gives way to the new line, later ones are dropped, all
  others stay in order, and with no such line the new one is added at the end on a line of its
  own. The file keeps its attributes, and the temporary file is gone.\<close>

theorem ReplaceMarkedLinesInFile_refines:
  assumes "edit_ready (temp_name (dirname p) ''~OSConfig.ReplacingLines'' rnd) p st"
    and "node st p = Some f" "NUL \<notin> set (bytes f)" and "0 < line_max st"
    and "marker \<noteq> []" "EOL \<notin> set marker" and "1 < length newline" "length newline \<le> line_max st"
  shows "\<exists>st'. ReplaceMarkedLinesInFile sys_ok rnd (Some p) (Some marker) (Some newline) comment True st = (0, st') \<and>
    replaced_file p (replace_marked marker comment newline (fgets_lines (line_max st) (bytes f))) st st'"
  using assms by (rule replace_marked_lines)

theorem ReplaceMarkedLinesInFile_refines_witness:
  "\<exists>st'. ReplaceMarkedLinesInFile sys_ok 0 (Some ''/f'') (Some ''A'') (Some ''B 2'') CHR ''#'' True
      (sample_fs (''A 1'' @ [EOL])) = (0, st') \<and> replaced_file ''/f'' ''B 2'' (sample_fs (''A 1'' @ [EOL])) st'"
proof -
  have "replace_marked ''A'' CHR ''#'' ''B 2'' [''A 1'' @ [EOL]] = ''B 2''"
    by (simp add: replace_marked_def marked_def)
  then show ?thesis
    using ReplaceMarkedLinesInFile_refines [OF sample_ready [of "''~OSConfig.ReplacingLines''" "''A 1'' @ [EOL]"], of "sample_node (''A 1'' @ [EOL])"
        "''A''" "''B 2''" "CHR ''#''"]
    by (simp add: sample_lines [unfolded EOL_def, simplified] EOL_def NUL_def)
qed

text \<open>\<open>AppendToFile\<close> on a file that exists appends the payload exactly when the file ends with a
  line feed; otherwise the contents of the file are lost, and only a line feed and the payload
  remain, while the call reports success.\<close>

theorem AppendToFile_contents:
  assumes "edit_ready (temp_name (dirname p) ''~OSConfig'' rnd) p st" and "node st p = Some f"
    and "bytes f \<noteq> []" "NUL \<notin> set (bytes f)" and "bs \<noteq> []"
  shows "\<exists>st'. AppendToFile sys_ok rnd (Some p) (Some bs) st = (True, st') \<and>
    replaced_file p (if last (bytes f) = EOL then bytes f @ bs else EOL # bs) st st'"
  using assms by (rule append_to_file)

theorem AppendToFile_contents_witness:
  "\<exists>st'. AppendToFile sys_ok 0 (Some ''/f'') (Some ''new'') (sample_fs ''old'') = (True, st') \<and>
     replaced_file ''/f'' (EOL # ''new'') (sample_fs ''old'') st'"
  using AppendToFile_contents [OF sample_ready [of "''~OSConfig''" "''old''"], of "sample_node ''old''" "''new''"]
  by (simp add: EOL_def NUL_def)

text \<open>Without failures \<open>SavePayloadToFile\<close> stores the payload that \<open>LoadStringFromFile\<close> then returns.
  When the file cannot be locked, the call reports a failure and leaves the file empty.\<close>

theorem SavePayloadToFile_outcomes:
  assumes "plain_file p st" and "bs \<noteq> []" "NUL \<notin> set bs" and "m ''fopen'' 0 = 0" "m ''flock'' 0 \<noteq> 0"
  shows "\<exists>st' st''. SavePayloadToFile sys_ok (Some p) (Some bs) st = (True, st') \<and>
    LoadStringFromFile sys_ok (Some p) False st' = Some bs \<and>
    SavePayloadToFile m (Some p) (Some bs) st = (False, st'') \<and> file_bytes p st'' = []"
proof -
  have "SavePayloadToFile sys_ok (Some p) (Some bs) st = (True, put_node p (Some (written_node p bs st)) st)"
    using SaveToFile_ok [OF assms(1,2), of "''w''"] by (simp add: SavePayloadToFile_def)
  moreover have "readable_bytes (written_node p bs st) = bs" using assms(1) by (simp add: readable_bytes_def)
  moreover have "\<exists>st''. SavePayloadToFile m (Some p) (Some bs) st = (False, st'') \<and> file_bytes p st'' = []"
    using assms
    by (auto simp: SavePayloadToFile_def SaveToFile_def open_for_writing_def plain_file_def
        RestrictFileAccessToCurrentAccountOnly_def file_bytes_def split: option.splits)
  ultimately show ?thesis using assms(3) by auto
qed

theorem SavePayloadToFile_outcomes_witness:
  "\<exists>st' st''. SavePayloadToFile sys_ok (Some ''/f'') (Some ''new'') (sample_fs ''old'') = (True, st') \<and>
     LoadStringFromFile sys_ok (Some ''/f'') False st' = Some ''new'' \<and>
     SavePayloadToFile (\<lambda>site i. if site = ''flock'' then 11 else 0) (Some ''/f'') (Some ''new'') (sample_fs ''old'') =
       (False, st'') \<and> file_bytes ''/f'' st'' = []"
  by (rule SavePayloadToFile_outcomes) (simp_all add: plain_file_def sample_fs_def sample_node_def NUL_def)

text \<open>The two line checks decide whether the text occurs in the file outside a comment, for every
  text without line feeds, although the search skips overlapping occurrences.\<close>

theorem CheckLine_uncommented:
  assumes "node st p = Some f" "\<not> is_dir f" "NUL \<notin> set (bytes f)" and "EOL \<notin> set t" "t \<noteq> []"
  shows "CheckLineNotFoundOrCommentedOut sys_ok (Some p) mark (Some t) st =
      (if \<exists>a b. bytes f = a @ t @ b \<and> \<not> commented_out mark a then EEXIST else 0) \<and>
    CheckLineFoundNotCommentedOut sys_ok (Some p) mark (Some t) st =
      (if \<exists>a b. bytes f = a @ t @ b \<and> \<not> commented_out mark a then 0 else EEXIST)"
  using assms found_uncommented_iff [OF assms(4,5), of mark "[]" "bytes f"]
  by (simp add: CheckLineNotFoundOrCommentedOut_def CheckLineFoundNotCommentedOut_def Let_def
      IsLineNotFoundOrCommentedOut_def readable_bytes_def codes)

theorem CheckLine_uncommented_witness:
  "CheckLineFoundNotCommentedOut sys_ok (Some ''/f'') CHR ''#'' (Some ''A'') (sample_fs ''#AA'') = EEXIST"
proof -
  have "commented_out CHR ''#'' a" if "''#AA'' = a @ ''A'' @ b" for a b
    using that by (auto simp: Cons_eq_append_conv append_eq_Cons_conv commented_out_def EOL_def)
  then show ?thesis
    using CheckLine_uncommented [of "sample_fs ''#AA''" "''/f''" "sample_node ''#AA''" "''A''" "CHR ''#''"]
    by (auto simp: EOL_def NUL_def)
qed

end
