(* ===== verification/ConfigUtils.thy ===== *)
theory ConfigUtils
  imports JsonText FileProps
begin

text \<open>
  Settings of the product's configuration file (\<open>src/common/commonutils/ConfigUtils.c\<close>): values
  read from its JSON text with bounds and defaults, the list of reported properties, and the
  logging level, which is written back by editing the text of the file. The construction of JSON
  values the configuration module uses (\<open>src/common/parson/parson.c\<close>) is here too.
\<close>

subsection \<open>Building values\<close>

text \<open>The bytes of one character, as the leading byte announces them; the parts of a code point are
  joined by shifts, which are products here.\<close>

definition num_bytes_in_utf8_sequence :: "nat \<Rightarrow> nat" where
  "num_bytes_in_utf8_sequence c =
     (if c = 0xC0 \<or> c = 0xC1 \<or> 0xF4 < c \<or> 0x80 \<le> c \<and> c < 0xC0 then 0
      else if c < 0x80 then 1 else if c < 0xE0 then 2 else if c < 0xF0 then 3 else 4)"

definition is_cont :: "nat list \<Rightarrow> nat \<Rightarrow> bool" where
  "is_cont bs i \<longleftrightarrow> i < length bs \<and> 0x80 \<le> bs ! i \<and> bs ! i < 0xC0"

definition verify_utf8_sequence :: "nat list \<Rightarrow> bool" where
  "verify_utf8_sequence bs =
     (let len = num_bytes_in_utf8_sequence (bs ! 0);
          more = (\<lambda>cp i. cp * 64 + bs ! i mod 64);
          cp = (if len = 1 then Some (bs ! 0)
                else if len = 2 \<and> is_cont bs 1 then Some (more (bs ! 0 mod 32) 1)
                else if len = 3 \<and> is_cont bs 1 \<and> is_cont bs 2 then Some (more (more (bs ! 0 mod 16) 1) 2)
                else if len = 4 \<and> is_cont bs 1 \<and> is_cont bs 2 \<and> is_cont bs 3
                then Some (more (more (more (bs ! 0 mod 8) 1) 2) 3)
                else None)
      in case cp of
           None \<Rightarrow> False
         | Some x \<Rightarrow>
             \<not> (x < 0x80 \<and> 1 < len \<or> x < 0x800 \<and> 2 < len \<or> x < 0x10000 \<and> 3 < len) \<and>
             x \<le> 0x10FFFF \<and> \<not> (0xD800 \<le> x \<and> x \<le> 0xDFFF))"

lemma verify_utf8_length: "bs \<noteq> [] \<Longrightarrow> verify_utf8_sequence bs \<Longrightarrow> 0 < num_bytes_in_utf8_sequence (bs ! 0)"
  by (auto simp: verify_utf8_sequence_def Let_def split: if_splits)

function utf8_loop :: "nat list \<Rightarrow> bool" where
  "utf8_loop bs =
     (if bs = [] then True
      else if \<not> verify_utf8_sequence bs then False
      else utf8_loop (drop (num_bytes_in_utf8_sequence (bs ! 0)) bs))"
  by pat_completeness auto
termination
  by (relation "measure length") (auto simp: verify_utf8_length)

declare utf8_loop.simps [simp del]

definition is_valid_utf8 :: "string \<Rightarrow> bool" where
  "is_valid_utf8 s = utf8_loop (map of_char s)"

lemma ascii_valid_utf8: "\<forall>c \<in> set s. (of_char c :: nat) < 128 \<Longrightarrow> is_valid_utf8 s"
  unfolding is_valid_utf8_def
proof (induction s)
  case Nil
  then show ?case by (simp add: utf8_loop.simps)
next
  case (Cons c s)
  then have "num_bytes_in_utf8_sequence (of_char c) = 1" by (simp add: num_bytes_in_utf8_sequence_def)
  then show ?case
    using Cons by (subst utf8_loop.simps) (simp add: verify_utf8_sequence_def)
qed

definition json_value_init_string :: "cstr \<Rightarrow> JSON_Value option" where
  "json_value_init_string s =
     (case s of None \<Rightarrow> None | Some t \<Rightarrow> if is_valid_utf8 t then Some (JSONString t) else None)"

definition json_value_init_number :: "int \<Rightarrow> JSON_Value option" where
  "json_value_init_number k = Some (JSONNumber (of_int k))"

definition json_value_init_boolean :: "bool \<Rightarrow> JSON_Value option" where
  "json_value_init_boolean b = Some (JSONBoolean b)"

text \<open>The setters return whether they succeeded, and the object.\<close>

definition json_object_set :: "JSON_Object \<Rightarrow> string \<Rightarrow> JSON_Value option \<Rightarrow> bool \<times> JSON_Object" where
  "json_object_set kvs k v = (case v of None \<Rightarrow> (False, kvs) | Some x \<Rightarrow> (True, json_object_set_value kvs k x))"

definition json_object_set_number :: "JSON_Object \<Rightarrow> string \<Rightarrow> int \<Rightarrow> bool \<times> JSON_Object" where
  "json_object_set_number kvs k x = json_object_set kvs k (json_value_init_number x)"

definition json_object_set_string :: "JSON_Object \<Rightarrow> string \<Rightarrow> cstr \<Rightarrow> bool \<times> JSON_Object" where
  "json_object_set_string kvs k x = json_object_set kvs k (json_value_init_string x)"

subsection \<open>Settings\<close>

definition config_object :: "cstr \<Rightarrow> JSON_Object option" where
  "config_object jsonString =
     (case jsonString of None \<Rightarrow> None | Some s \<Rightarrow> json_value_get_object (json_parse_string (Some s)))"

definition IsOptionEnabledInJsonConfig :: "cstr \<Rightarrow> string \<Rightarrow> bool" where
  "IsOptionEnabledInJsonConfig jsonString setting =
     (case config_object jsonString of
        None \<Rightarrow> False
      | Some kvs \<Rightarrow> double_to_int (json_object_get_number (Some kvs) (Some setting)) \<noteq> 0)"

definition IsIotHubManagementEnabledInJsonConfig :: "cstr \<Rightarrow> bool" where
  "IsIotHubManagementEnabledInJsonConfig jsonString = IsOptionEnabledInJsonConfig jsonString ''IotHubManagement''"

text \<open>The value 0 is also what is read when there is no such number: it is replaced by the default
  unless one of the bounds is 0.\<close>

definition GetIntegerFromJsonConfig :: "cstr \<Rightarrow> cstr \<Rightarrow> int \<Rightarrow> int \<Rightarrow> int \<Rightarrow> int" where
  "GetIntegerFromJsonConfig valueName jsonString defaultValue minValue maxValue =
     (case valueName of
        None \<Rightarrow> defaultValue
      | Some k \<Rightarrow>
          if maxValue \<le> minValue then defaultValue
          else (case config_object jsonString of
             None \<Rightarrow> defaultValue
           | Some kvs \<Rightarrow>
               (let x = double_to_int (json_object_get_number (Some kvs) (Some k))
                in if x = 0 \<and> minValue \<noteq> 0 \<and> maxValue \<noteq> 0 then defaultValue
                   else if x < minValue then minValue
                   else if maxValue < x then maxValue
                   else x)))"

definition GetLoggingLevelFromJsonConfig :: "cstr \<Rightarrow> int" where
  "GetLoggingLevelFromJsonConfig s = GetIntegerFromJsonConfig (Some ''LoggingLevel'') s 6 0 7"

definition GetMaxLogSizeFromJsonConfig :: "cstr \<Rightarrow> int" where
  "GetMaxLogSizeFromJsonConfig s = GetIntegerFromJsonConfig (Some ''MaxLogSize'') s 1048576 1024 1073741824"

definition GetMaxLogSizeDebugMultiplierFromJsonConfig :: "cstr \<Rightarrow> int" where
  "GetMaxLogSizeDebugMultiplierFromJsonConfig s =
     GetIntegerFromJsonConfig (Some ''MaxLogSizeDebugMultiplier'') s 5 1 10"

definition GetReportingIntervalFromJsonConfig :: "cstr \<Rightarrow> int" where
  "GetReportingIntervalFromJsonConfig s = GetIntegerFromJsonConfig (Some ''ReportingIntervalSeconds'') s 30 1 86400"

definition GetModelVersionFromJsonConfig :: "cstr \<Rightarrow> int" where
  "GetModelVersionFromJsonConfig s = GetIntegerFromJsonConfig (Some ''ModelVersion'') s 16 7 999"

definition GetLocalManagementFromJsonConfig :: "cstr \<Rightarrow> int" where
  "GetLocalManagementFromJsonConfig s = GetIntegerFromJsonConfig (Some ''LocalManagement'') s 0 0 1"

definition GetIotHubProtocolFromJsonConfig :: "cstr \<Rightarrow> int" where
  "GetIotHubProtocolFromJsonConfig s = GetIntegerFromJsonConfig (Some ''IotHubProtocol'') s 0 0 2"

definition GetGitManagementFromJsonConfig :: "cstr \<Rightarrow> int" where
  "GetGitManagementFromJsonConfig s = GetIntegerFromJsonConfig (Some ''GitManagement'') s 0 0 1"

definition GetStringFromJsonConfig :: "alloc \<Rightarrow> cstr \<Rightarrow> cstr \<Rightarrow> cstr" where
  "GetStringFromJsonConfig m valueName jsonString =
     (case valueName of
        None \<Rightarrow> None
      | Some k \<Rightarrow>
          (case config_object jsonString of
             None \<Rightarrow> None
           | Some kvs \<Rightarrow>
               (case json_object_get_string (Some kvs) (Some k) of
                  None \<Rightarrow> None
                | Some v \<Rightarrow> if m ''GetStringFromJsonConfig'' 0 then Some v else None)))"

definition GetGitRepositoryUrlFromJsonConfig :: "alloc \<Rightarrow> cstr \<Rightarrow> cstr" where
  "GetGitRepositoryUrlFromJsonConfig m s = GetStringFromJsonConfig m (Some ''GitRepositoryUrl'') s"

definition GetGitBranchFromJsonConfig :: "alloc \<Rightarrow> cstr \<Rightarrow> cstr" where
  "GetGitBranchFromJsonConfig m s = GetStringFromJsonConfig m (Some ''GitBranch'') s"

lemmas config_getters = GetLoggingLevelFromJsonConfig_def GetMaxLogSizeFromJsonConfig_def
  GetMaxLogSizeDebugMultiplierFromJsonConfig_def GetReportingIntervalFromJsonConfig_def
  GetModelVersionFromJsonConfig_def GetLocalManagementFromJsonConfig_def
  GetIotHubProtocolFromJsonConfig_def GetGitManagementFromJsonConfig_def

text \<open>The result is within the bounds whenever the default is.\<close>

lemma GetInteger_bounds:
  "lo \<le> dflt \<Longrightarrow> dflt \<le> hi \<Longrightarrow>
   lo \<le> GetIntegerFromJsonConfig k s dflt lo hi \<and> GetIntegerFromJsonConfig k s dflt lo hi \<le> hi"
  by (auto simp: GetIntegerFromJsonConfig_def Let_def split: option.splits)

lemma GetInteger_present:
  assumes "config_object s = Some kvs" and "map_of kvs k = Some (JSONNumber (of_int x))"
    and "lo \<le> x" "x \<le> hi" "lo < hi" "- (2 ^ 31) \<le> x" "x < 2 ^ 31" and "x \<noteq> 0 \<or> lo = 0 \<or> hi = 0"
  shows "GetIntegerFromJsonConfig (Some k) s dflt lo hi = x"
proof -
  have "double_to_int (of_int x) = x"
    using assms(6,7) by (simp add: double_to_int_def trunc_rat_def Let_def)
  then show ?thesis
    using assms by (auto simp: GetIntegerFromJsonConfig_def json_get_defs Let_def)
qed

subsection \<open>Reported properties\<close>

record ReportedProperty =
  rp_componentName :: string
  rp_propertyName :: string
  rp_lastPayloadHash :: "64 word"

text \<open>The names are cut to the 255 characters their arrays hold; an element that is not complete
  leaves an empty entry, which is counted.\<close>

definition reported_property :: "JSON_Value \<Rightarrow> ReportedProperty" where
  "reported_property v =
     (let entry = (\<lambda>c ob. \<lparr>rp_componentName = take 255 c, rp_propertyName = take 255 ob, rp_lastPayloadHash = 0\<rparr>)
      in case json_value_get_object (Some v) of
           None \<Rightarrow> entry [] []
         | Some kvs \<Rightarrow>
             (case (json_object_get_string (Some kvs) (Some ''ComponentName''),
                    json_object_get_string (Some kvs) (Some ''ObjectName'')) of
                (Some c, Some ob) \<Rightarrow> entry c ob
              | _ \<Rightarrow> entry [] []))"

definition LoadReportedFromJsonConfig :: "alloc \<Rightarrow> cstr \<Rightarrow> ReportedProperty list" where
  "LoadReportedFromJsonConfig m jsonString =
     (case config_object jsonString of
        None \<Rightarrow> []
      | Some kvs \<Rightarrow>
          (case json_object_get_array (Some kvs) (Some ''Reported'') of
             None \<Rightarrow> []
           | Some vs \<Rightarrow> if m ''LoadReportedFromJsonConfig'' 0 then map reported_property vs else []))"

lemma LoadReported_names:
  "r \<in> set (LoadReportedFromJsonConfig m s) \<Longrightarrow> length (rp_componentName r) < 256 \<and> length (rp_propertyName r) < 256"
  by (auto simp: LoadReportedFromJsonConfig_def reported_property_def Let_def split: option.splits if_splits)

subsection \<open>The logging level\<close>

definition config_file :: string where "config_file = ''/etc/osconfig/osconfig.json''"
definition config_directory :: string where "config_directory = ''/etc/osconfig''"

definition IsLoggingLevelSupported :: "int \<Rightarrow> bool" where
  "IsLoggingLevelSupported level \<longleftrightarrow> 0 \<le> level \<and> level \<le> 7"

definition level_line :: "bool \<Rightarrow> int \<Rightarrow> string" where
  "level_line comma level =
     ''  '' @ quoted ''LoggingLevel'' @ '': '' @ print_int level @ (if comma then '','' else []) @ [EOL]"

definition level_config :: "int \<Rightarrow> string" where
  "level_config level = ''{'' @ [EOL] @ level_line False level @ ''}'' @ [EOL]"

text \<open>What the configuration file is edited to when it exists and when it does not. \<open>errno\<close> is what
  \<open>errno\<close> holds when the file cannot be read.\<close>

definition update_level_file :: "sys \<Rightarrow> nat \<Rightarrow> int \<Rightarrow> fs \<Rightarrow> int \<times> fs" where
  "update_level_file m rnd level st =
     (case LoadStringFromFile (nested ''Load'' m) (Some config_file) False st of
        None \<Rightarrow> (if m ''errno'' 0 = 0 then ENOENT else m ''errno'' 0, st)
      | Some json \<Rightarrow>
          if level = GetLoggingLevelFromJsonConfig (Some json) then (0, st)
          else if m ''FormatAllocateString'' 0 \<noteq> 0 then (ENOMEM, st)
          else ReplaceMarkedLinesInFile (nested ''Replace'' m) rnd (Some config_file) (Some ''LoggingLevel'')
                 (Some (level_line (strstr json '','' \<noteq> None) level)) CHR ''#'' True st)"

definition create_level_file :: "sys \<Rightarrow> inode \<Rightarrow> int \<Rightarrow> fs \<Rightarrow> int \<times> fs" where
  "create_level_file m new_directory level st =
     (let (status, st1) =
            (if m ''FormatAllocateString'' 0 \<noteq> 0 then (ENOMEM, st)
             else (let missing = \<not> DirectoryExists (nested ''Directory'' m) (Some config_directory) st;
                       (made, st0) = (if \<not> missing then (0, st)
                                      else if m ''mkdir'' 0 = 0
                                      then (0, put_node config_directory (Some new_directory) st) else (- 1, st))
                   in if made \<noteq> 0 then (made, st0)
                      else (case SavePayloadToFile (nested ''Save'' m) (Some config_file) (Some (level_config level)) st0 of
                              (ok, st2) \<Rightarrow> (if ok then 0 else if m ''errno'' 0 = 0 then ENOENT else m ''errno'' 0, st2))))
      in (status, RestrictFileAccessToCurrentAccountOnly (nested ''Restrict'' m) config_file st1))"

text \<open>The result, the files, and the logging level of the process.\<close>

definition SetLoggingLevelPersistently ::
  "sys \<Rightarrow> nat \<Rightarrow> inode \<Rightarrow> int \<Rightarrow> fs \<times> int \<Rightarrow> int \<times> fs \<times> int" where
  "SetLoggingLevelPersistently m rnd new_directory level sl =
     (case sl of (st, g_loggingLevel) \<Rightarrow>
       if \<not> IsLoggingLevelSupported level then (EINVAL, st, g_loggingLevel)
       else (let (status, st') =
                   (if FileExists (Some config_file) st then update_level_file m rnd level st
                    else create_level_file m new_directory level st)
             in (status, st', level)))"

end
