(* ===== verification/ConfigProps.thy ===== *)
theory ConfigProps
  imports ConfigUtils
begin

text \<open>
  What the getters of the configuration guarantee for every text, and what the persistent logging
  level does to a configuration file that is one line.
\<close>

subsection \<open>Bounds\<close>

text \<open>For every text, also one that is no JSON, every setting of the configuration is within its
  bounds.\<close>

theorem config_getters_bounds:
  "0 \<le> GetLoggingLevelFromJsonConfig s \<and> GetLoggingLevelFromJsonConfig s \<le> 7 \<and>
   1024 \<le> GetMaxLogSizeFromJsonConfig s \<and> GetMaxLogSizeFromJsonConfig s \<le> 1073741824 \<and>
   1 \<le> GetMaxLogSizeDebugMultiplierFromJsonConfig s \<and> GetMaxLogSizeDebugMultiplierFromJsonConfig s \<le> 10 \<and>
   1 \<le> GetReportingIntervalFromJsonConfig s \<and> GetReportingIntervalFromJsonConfig s \<le> 86400 \<and>
   7 \<le> GetModelVersionFromJsonConfig s \<and> GetModelVersionFromJsonConfig s \<le> 999 \<and>
   GetLocalManagementFromJsonConfig s \<in> {0, 1} \<and> GetGitManagementFromJsonConfig s \<in> {0, 1} \<and>
   GetIotHubProtocolFromJsonConfig s \<in> {0, 1, 2}"
proof -
  have range: "lo \<le> GetIntegerFromJsonConfig k s dflt lo hi \<and> GetIntegerFromJsonConfig k s dflt lo hi \<le> hi"
    if "lo \<le> dflt" "dflt \<le> hi" for k dflt lo hi
    using GetInteger_bounds [OF that] by blast
  have "GetLocalManagementFromJsonConfig s \<in> {0, 1}" "GetGitManagementFromJsonConfig s \<in> {0, 1}"
    "GetIotHubProtocolFromJsonConfig s \<in> {0, 1, 2}"
    using range [of 0 0 1 "Some ''LocalManagement''"] range [of 0 0 1 "Some ''GitManagement''"]
      range [of 0 0 2 "Some ''IotHubProtocol''"]
    unfolding config_getters by (auto simp: le_less)
  then show ?thesis by (simp add: config_getters range)
qed

subsection \<open>The level in a file of one line\<close>

lemma fgets_lines_one:
  assumes "s \<noteq> []" "EOL \<notin> set s" "length s \<le> k"
  shows "fgets_lines k s = [s]"
proof -
  have "0 < k" using assms(1,3) by (cases s) auto
  then show ?thesis using assms by (simp add: fgets_lines.simps fgets_chunk_def)
qed

text \<open>The line alone is, for the parser, a string: no setting is found in it.\<close>

lemma level_line_no_object: "config_object (Some (level_line comma level)) = None"
proof -
  have q: "plain ''LoggingLevel''" by (simp add: plain_char_def)
  define rest where "rest = '': '' @ print_int level @ (if comma then '','' else []) @ [EOL]"
  have nul: "NUL \<notin> set (level_line comma level)"
    using plain_nul [OF q] quoted_nul [OF plain_nul [OF q]] plain_nul [OF plain_print_int [of level]]
    by (auto simp: level_line_def NUL_def EOL_def)
  have "parse_value (MAX_NESTING + 1) (quoted ''LoggingLevel'' @ rest) = Some (JSONString ''LoggingLevel'', rest)"
    using get_quoted_string_quoted [OF q, of rest] by (simp add: quoted_def isspace_def parse_string_value_def)
  moreover have "level_line comma level = ''  '' @ quoted ''LoggingLevel'' @ rest"
    by (simp add: level_line_def rest_def)
  moreover have "skip_ws (''  '' @ t) = skip_ws t" for t by (simp add: isspace_def)
  then have "parse_value (MAX_NESTING + 1) (''  '' @ t) = parse_value (MAX_NESTING + 1) t" for t by simp
  ultimately show ?thesis
    using nul by (simp add: config_object_def json_parse_string_def BOM_def)
qed

lemma no_object_defaults:
  assumes "config_object (Some s) = None"
  shows "GetLoggingLevelFromJsonConfig (Some s) = 6" "GetModelVersionFromJsonConfig (Some s) = 16"
    "GetIotHubProtocolFromJsonConfig (Some s) = 0" "GetGitBranchFromJsonConfig m (Some s) = None"
  using assms by (simp_all add: config_getters GetIntegerFromJsonConfig_def GetGitBranchFromJsonConfig_def
      GetStringFromJsonConfig_def)

text \<open>A configuration file that is one line, as the compact serialiser writes it, is replaced as a
  whole when a logging level is set persistently: the call succeeds, and from then on the file gives
  the default for every setting, the logging level included.\<close>

theorem SetLoggingLevelPersistently_one_line:
  assumes "edit_ready (temp_name (dirname config_file) ''~OSConfig.ReplacingLines'' rnd) config_file st"
    and "node st config_file = Some f" "NUL \<notin> set (bytes f)" "EOL \<notin> set (bytes f)"
    and "sublist ''LoggingLevel'' (bytes f)" "hd (bytes f) \<noteq> CHR ''#''"
    and "length (bytes f) \<le> line_max st" "40 \<le> line_max st"
    and "IsLoggingLevelSupported level" "GetLoggingLevelFromJsonConfig (Some (bytes f)) \<noteq> level"
  shows "\<exists>st' s. SetLoggingLevelPersistently sys_ok rnd nd level (st, g) = (0, st', level) \<and>
    LoadStringFromFile sys_ok (Some config_file) False st' = Some s \<and>
    GetLoggingLevelFromJsonConfig (Some s) = 6 \<and> GetModelVersionFromJsonConfig (Some s) = 16 \<and>
    GetIotHubProtocolFromJsonConfig (Some s) = 0 \<and> GetGitBranchFromJsonConfig m (Some s) = None"
proof -
  define nl where "nl = level_line (strstr (bytes f) '','' \<noteq> None) level"
  have reg: "\<not> is_dir f" using assms(1,2) by (simp add: edit_ready_def regular_node_def)
  have ne: "bytes f \<noteq> []" using assms(5) by auto
  have lv: "0 \<le> level" "level < 10 ^ 1" using assms(9) by (simp_all add: IsLoggingLevelSupported_def)
  then have "length (print_int level) \<le> 1"
    using length_dec_bound [of "nat level" 1] by (simp add: print_int_def nat_less_iff)
  then have nl: "1 < length nl" "length nl \<le> line_max st"
    using assms(8) by (simp_all add: nl_def level_line_def quoted_def)
  obtain st' where st': "ReplaceMarkedLinesInFile sys_ok rnd (Some config_file) (Some ''LoggingLevel'') (Some nl) CHR ''#'' True st =
      (0, st')"
    "replaced_file config_file (replace_marked ''LoggingLevel'' CHR ''#'' nl (fgets_lines (line_max st) (bytes f))) st st'"
    using replace_marked_lines [OF assms(1,2,3) _ _ _ nl, of "''LoggingLevel''" "CHR ''#''"] assms(8) by (auto simp: EOL_def)
  have "replace_marked ''LoggingLevel'' CHR ''#'' nl [bytes f] = nl"
    using assms(5,6) by (simp add: replace_marked_def marked_def)
  then have "LoadStringFromFile sys_ok (Some config_file) False st' = Some (c_string nl)"
    using st'(2) fgets_lines_one [OF ne assms(4,7)] by (auto simp: replaced_file_def readable_bytes_def)
  moreover have "c_string nl = nl"
    using plain_nul [OF plain_print_int [of level]] by (intro c_string_id) (auto simp: nl_def level_line_def quoted_def NUL_def EOL_def)
  moreover have "SetLoggingLevelPersistently sys_ok rnd nd level (st, g) = (0, st', level)"
    using assms(2,3,9,10) st'(1) reg
    by (simp add: SetLoggingLevelPersistently_def update_level_file_def readable_bytes_def nl_def)
  moreover have "config_object (Some nl) = None" unfolding nl_def by (rule level_line_no_object)
  ultimately show ?thesis using no_object_defaults by auto
qed

text \<open>A file of one line, as the compact serialiser writes it.\<close>

definition one_line :: string where
  "one_line = ''{'' @ quoted ''LoggingLevel'' @ '':6}''"

definition one_line_fs :: fs where
  "one_line_fs = (sample_fs [])\<lparr>node := [config_file \<mapsto> sample_node one_line], line_max := 64\<rparr>"

lemma one_line_serialized: "one_line = json_serialize_r False 0 (JSONObject [(''LoggingLevel'', JSONNumber 6)])"
proof -
  have "dec 6 = ''6''" by (subst dec.simps) code_simp
  then have "fmt_17g 6 = ''6''" using print_int_exact [of 6] by (simp add: print_int_def)
  moreover have "NUL \<notin> set ''LoggingLevel''" by (simp add: NUL_def)
  then have "concat (map escape_char (c_string ''LoggingLevel'')) = ''LoggingLevel''" by (simp add: escape_char_def)
  ultimately show ?thesis
    by (simp add: one_line_def quoted_def json_serialize_string_def append_indent_def newline_def)
qed

lemma one_line_level: "GetLoggingLevelFromJsonConfig (Some one_line) = 6"
proof -
  have "json_parse_string (Some one_line) = Some (JSONObject [(''LoggingLevel'', JSONNumber 6)])"
    unfolding one_line_serialized
    by (rule json_parse_string_serialize) (simp_all add: NUL_def exact_number_def MAX_NESTING_def)
  then show ?thesis
    by (simp add: GetLoggingLevelFromJsonConfig_def GetIntegerFromJsonConfig_def config_object_def json_get_defs
        double_to_int_def trunc_rat_def)
qed

theorem SetLoggingLevelPersistently_one_line_witness:
  "\<exists>st' s. SetLoggingLevelPersistently sys_ok 0 (sample_node []) 7 (one_line_fs, 6) = (0, st', 7) \<and>
    LoadStringFromFile sys_ok (Some config_file) False st' = Some s \<and> GetLoggingLevelFromJsonConfig (Some s) = 6"
proof -
  have "dirname config_file = ''/etc/osconfig''" by code_simp
  moreover have "dec 0 = ''0''" by (subst dec.simps) code_simp
  ultimately have "edit_ready (temp_name (dirname config_file) ''~OSConfig.ReplacingLines'' 0) config_file one_line_fs"
    by (simp add: temp_name_def config_file_def edit_ready_def fs_ok_def regular_node_def regular_mode_def
        desired_mode_def one_line_fs_def sample_fs_def sample_node_def MODE_0644_def MODE_0660_def MODE_07777_def S_ISVTX_def)
  moreover have "sublist ''LoggingLevel'' one_line"
    unfolding one_line_def quoted_def sublist_def by (rule exI [of _ "''{'' @ [CHR 0x22]"]) simp
  moreover have "NUL \<notin> set one_line" "EOL \<notin> set one_line" "length one_line \<le> 64" "hd one_line = CHR ''{''"
    by (simp_all add: one_line_def quoted_def NUL_def EOL_def)
  ultimately show ?thesis
    using SetLoggingLevelPersistently_one_line [of 0 one_line_fs "sample_node one_line" 7 "sample_node []" 6 all_ok] one_line_level
    by (simp add: one_line_fs_def IsLoggingLevelSupported_def) blast
qed

end
