(* ===== verification/Configuration.thy ===== *)
theory Configuration
  imports ConfigUtils ManagerProps
begin

text \<open>
  The Configuration module (\<open>src/modules/configuration/src/lib/Configuration.c\<close>): the settings of the
  product's configuration file as MMI objects. A set changes the copy of the setting in memory and
  then rewrites the file.

  An operation that follows a \<open>NULL\<close> pointer returns \<open>None\<close>. For the manager, the world of the module
  is its state or, after such a crash, nothing. \<open>str\<close> is the C string at an address and \<open>self\<close> the
  address of the name of the module, which is its session handle.
\<close>

subsection \<open>State\<close>

record configuration =
  g_modelVersion :: int
  g_refreshInterval :: int
  g_localManagementEnabled :: bool
  g_debugLoggingEnabled :: bool
  g_iotHubManagementEnabled :: bool
  g_iotHubProtocol :: int
  g_gitManagementEnabled :: bool
  g_gitBranch :: cstr
  g_configurationFile :: string
  c_referenceCount :: int
  c_maxPayloadSizeBytes :: "32 word"
  files :: fs

definition g_configurationModuleName :: string where
  "g_configurationModuleName = ''OSConfig Configuration module''"

definition g_configurationComponentName :: string where
  "g_configurationComponentName = ''Configuration''"

definition alloc_of :: "sys \<Rightarrow> alloc" where
  "alloc_of m = (\<lambda>site i. m site i = 0)"

text \<open>The settings of a configuration text.\<close>

definition load_settings :: "sys \<Rightarrow> string \<Rightarrow> configuration \<Rightarrow> configuration" where
  "load_settings m json st = st
     \<lparr>g_modelVersion := GetModelVersionFromJsonConfig (Some json),
      g_refreshInterval := GetReportingIntervalFromJsonConfig (Some json),
      g_localManagementEnabled := GetLocalManagementFromJsonConfig (Some json) \<noteq> 0,
      g_debugLoggingEnabled := GetLoggingLevelFromJsonConfig (Some json) = 7,
      g_iotHubManagementEnabled := IsIotHubManagementEnabledInJsonConfig (Some json),
      g_iotHubProtocol := GetIotHubProtocolFromJsonConfig (Some json),
      g_gitManagementEnabled := GetGitManagementFromJsonConfig (Some json) \<noteq> 0,
      g_gitBranch := GetGitBranchFromJsonConfig (alloc_of m) (Some json)\<rparr>"

definition LoadConfigurationFromFile :: "sys \<Rightarrow> cstr \<Rightarrow> configuration \<Rightarrow> cstr \<times> configuration" where
  "LoadConfigurationFromFile m fileName st =
     (let fileToLoadFrom = (case fileName of None \<Rightarrow> config_file | Some f \<Rightarrow> f)
      in case LoadStringFromFile m (Some fileToLoadFrom) False (files st) of
           None \<Rightarrow> (None, st)
         | Some json \<Rightarrow> (Some json, load_settings m json st))"

definition ConfigurationInitialize :: "sys \<Rightarrow> cstr \<Rightarrow> configuration \<Rightarrow> configuration" where
  "ConfigurationInitialize m configurationFile st =
     (let f = (case configurationFile of None \<Rightarrow> config_file | Some p \<Rightarrow> take 255 p)
      in snd (LoadConfigurationFromFile m (Some f) (st\<lparr>g_configurationFile := f\<rparr>)))"

definition ConfigurationShutdown :: "configuration \<Rightarrow> configuration" where
  "ConfigurationShutdown st = st\<lparr>g_gitBranch := None\<rparr>"

subsection \<open>Rewriting the file\<close>

text \<open>Whether a setting in memory (\<open>old\<close>) differs from the file's (\<open>st\<close>). The branches are compared
  last, with \<open>strcmp\<close>, which must not meet a \<open>NULL\<close>.\<close>

definition settings_differ :: "cstr \<Rightarrow> configuration \<Rightarrow> configuration \<Rightarrow> bool option" where
  "settings_differ gitBranch old st =
     (if g_modelVersion old \<noteq> g_modelVersion st \<or> g_refreshInterval old \<noteq> g_refreshInterval st \<or>
         g_localManagementEnabled old \<noteq> g_localManagementEnabled st \<or>
         g_debugLoggingEnabled old \<noteq> g_debugLoggingEnabled st \<or>
         g_iotHubManagementEnabled old \<noteq> g_iotHubManagementEnabled st \<or>
         g_iotHubProtocol old \<noteq> g_iotHubProtocol st \<or> g_gitManagementEnabled old \<noteq> g_gitManagementEnabled st
      then Some True
      else case (gitBranch, g_gitBranch st) of
        (Some a, Some b) \<Rightarrow> Some (a \<noteq> b)
      | _ \<Rightarrow> None)"

definition flag :: "bool \<Rightarrow> int" where "flag b = (if b then 1 else 0)"

text \<open>The members that are written, in order.\<close>

definition settings_members :: "configuration \<Rightarrow> (string \<times> int) list" where
  "settings_members old =
     [(''ModelVersion'', g_modelVersion old), (''ReportingIntervalSeconds'', g_refreshInterval old),
      (''LocalManagement'', flag (g_localManagementEnabled old)),
      (''DebugLogging'', flag (g_debugLoggingEnabled old)),
      (''IotHubManagement'', flag (g_iotHubManagementEnabled old)),
      (''IotHubProtocol'', g_iotHubProtocol old), (''GitManagement'', flag (g_gitManagementEnabled old))]"

definition set_settings :: "cstr \<Rightarrow> configuration \<Rightarrow> JSON_Object \<Rightarrow> bool \<times> JSON_Object" where
  "set_settings gitBranch old kvs =
     json_object_set_string
       (fold (\<lambda>(k, x) kvs. snd (json_object_set_number kvs k x)) (settings_members old) kvs)
       ''GitBranch'' gitBranch"

text \<open>The settings in memory take back the values they had before the file was loaded.\<close>

definition restore_settings :: "sys \<Rightarrow> bool \<Rightarrow> cstr \<Rightarrow> configuration \<Rightarrow> configuration \<Rightarrow> configuration" where
  "restore_settings m ok gitBranch old st = st
     \<lparr>g_modelVersion := g_modelVersion old, g_refreshInterval := g_refreshInterval old,
      g_localManagementEnabled := g_localManagementEnabled old,
      g_debugLoggingEnabled := g_debugLoggingEnabled old,
      g_iotHubManagementEnabled := g_iotHubManagementEnabled old, g_iotHubProtocol := g_iotHubProtocol old,
      g_gitManagementEnabled := g_gitManagementEnabled old,
      g_gitBranch := (if ok then (if m ''DuplicateString'' 1 = 0 then gitBranch else None) else g_gitBranch st)\<rparr>"

definition UpdateConfigurationFile :: "sys \<Rightarrow> configuration \<Rightarrow> (int \<times> configuration) option" where
  "UpdateConfigurationFile m old =
     (let gitBranch = (if m ''DuplicateString'' 0 = 0 then g_gitBranch old else None)
      in case LoadConfigurationFromFile (nested ''Load'' m) (Some (g_configurationFile old)) old of
           (None, st) \<Rightarrow> Some (ENOENT, st)
         | (Some existing, st) \<Rightarrow>
             (case settings_differ gitBranch old st of
                None \<Rightarrow> None
              | Some False \<Rightarrow> Some (MMI_OK, st)
              | Some True \<Rightarrow>
                  (case json_value_get_object (json_parse_string (Some existing)) of
                     None \<Rightarrow> Some (EINVAL, st)
                   | Some kvs \<Rightarrow>
                       (let (ok, kvs') = set_settings gitBranch old kvs;
                            st1 = restore_settings m ok gitBranch old st
                        in case json_serialize_to_string_pretty (Some (JSONObject kvs')) of
                             None \<Rightarrow> Some (EIO, st1)
                           | Some text \<Rightarrow>
                               (case SavePayloadToFile (nested ''Save'' m) (Some (g_configurationFile old))
                                       (Some text) (files st1) of
                                  (saved, fs') \<Rightarrow>
                                    Some (if saved then MMI_OK else ENOENT, st1\<lparr>files := fs'\<rparr>))))))"

subsection \<open>The MMI calls\<close>

definition ConfigurationMmiOpen ::
  "MMI_HANDLE \<Rightarrow> cstr \<Rightarrow> 32 word \<Rightarrow> configuration \<Rightarrow> MMI_HANDLE \<times> configuration" where
  "ConfigurationMmiOpen self clientName maxSize st =
     (self, st\<lparr>c_maxPayloadSizeBytes := maxSize, c_referenceCount := c_referenceCount st + 1\<rparr>)"

definition IsValidSession :: "(MMI_HANDLE \<Rightarrow> string) \<Rightarrow> MMI_HANDLE \<Rightarrow> configuration \<Rightarrow> bool" where
  "IsValidSession str h st \<longleftrightarrow> h \<noteq> 0 \<and> str h = g_configurationModuleName \<and> 0 < c_referenceCount st"

definition ConfigurationMmiClose :: "(MMI_HANDLE \<Rightarrow> string) \<Rightarrow> MMI_HANDLE \<Rightarrow> configuration \<Rightarrow> configuration" where
  "ConfigurationMmiClose str h st =
     (if IsValidSession str h st then st\<lparr>c_referenceCount := c_referenceCount st - 1\<rparr> else st)"

definition g_configurationModuleInfo :: string where
  "g_configurationModuleInfo =
     ''{\"Name\": \"Configuration\",'' @
     ''\"Description\": \"Provides functionality to manage OSConfig configuration on device\",'' @
     ''\"Manufacturer\": \"Microsoft\",'' @ ''\"VersionMajor\": 1,'' @ ''\"VersionMinor\": 4,'' @
     ''\"VersionInfo\": \"Dilithium\",'' @ ''\"Components\": [\"Configuration\"],'' @ ''\"Lifetime\": 2,'' @
     ''\"UserAccount\": 0}''"

definition ConfigurationMmiGetInfo ::
  "sys \<Rightarrow> cstr \<Rightarrow> configuration \<Rightarrow> (int \<times> cstr \<times> int) \<times> configuration" where
  "ConfigurationMmiGetInfo m clientName st =
     (if m ''MmiGetInfo'' 0 = 0
      then ((MMI_OK, Some g_configurationModuleInfo, int (length g_configurationModuleInfo)), st)
      else ((ENOMEM, None, 0), st))"

text \<open>The value of an object: \<open>None\<close> for an unknown name, \<open>Some None\<close> when it cannot be built.\<close>

definition configuration_value :: "configuration \<Rightarrow> string \<Rightarrow> JSON_Value option option" where
  "configuration_value st objectName =
     (if objectName = ''modelVersion'' then Some (json_value_init_number (g_modelVersion st))
      else if objectName = ''refreshInterval'' then Some (json_value_init_number (g_refreshInterval st))
      else if objectName = ''localManagementEnabled'' then
        Some (json_value_init_boolean (g_localManagementEnabled st))
      else if objectName = ''debugLoggingEnabled'' then Some (json_value_init_boolean (g_debugLoggingEnabled st))
      else if objectName = ''iotHubManagementEnabled'' then
        Some (json_value_init_boolean (g_iotHubManagementEnabled st))
      else if objectName = ''iotHubProtocol'' then
        Some (json_value_init_string (Some (if g_iotHubProtocol st = 1 then ''mqtt''
          else if g_iotHubProtocol st = 2 then ''mqttWebSocket'' else ''auto'')))
      else if objectName = ''gitManagementEnabled'' then Some (json_value_init_boolean (g_gitManagementEnabled st))
      else if objectName = ''gitBranch'' then Some (json_value_init_string (g_gitBranch st))
      else None)"

definition ConfigurationMmiGet ::
  "sys \<Rightarrow> (MMI_HANDLE \<Rightarrow> string) \<Rightarrow> MMI_HANDLE \<Rightarrow> cstr \<Rightarrow> cstr \<Rightarrow> configuration \<Rightarrow>
   (int \<times> cstr \<times> int) \<times> configuration" where
  "ConfigurationMmiGet m str h componentName objectName st =
     (case (componentName, objectName) of
        (Some c, Some ob) \<Rightarrow>
          if \<not> IsValidSession str h st \<or> c \<noteq> g_configurationComponentName then ((EINVAL, None, 0), st)
          else (case configuration_value st ob of
             None \<Rightarrow> ((EINVAL, None, 0), st)
           | Some v \<Rightarrow>
               (case json_serialize_to_string v of
                  None \<Rightarrow> ((ENOENT, None, 0), st)
                | Some text \<Rightarrow>
                    (let limit = c_maxPayloadSizeBytes st;
                         p = (if 0 < limit \<and> unat limit < length text then take (unat limit) text else text)
                     in if m ''MmiGet'' 0 = 0 then ((MMI_OK, Some p, int (length p)), st)
                        else ((ENOMEM, None, 0), st))))
      | _ \<Rightarrow> ((EINVAL, None, 0), st))"

text \<open>The change of the setting in memory, with its status. A value that is not a boolean reads as
  \<open>-1\<close>, which is not \<open>0\<close>.\<close>

definition set_in_memory :: "sys \<Rightarrow> string \<Rightarrow> JSON_Value \<Rightarrow> configuration \<Rightarrow> int \<times> configuration" where
  "set_in_memory m objectName v st =
     (let b = (json_value_get_boolean (Some v) \<noteq> 0)
      in if objectName = ''desiredRefreshInterval'' then
           (MMI_OK, st\<lparr>g_refreshInterval := sint (double_to_uint (json_value_get_number (Some v)))\<rparr>)
         else if objectName = ''desiredLocalManagementEnabled'' then (MMI_OK, st\<lparr>g_localManagementEnabled := b\<rparr>)
         else if objectName = ''desiredDebugLoggingEnabled'' then (MMI_OK, st\<lparr>g_debugLoggingEnabled := b\<rparr>)
         else if objectName = ''desiredIotHubManagementEnabled'' then (MMI_OK, st\<lparr>g_iotHubManagementEnabled := b\<rparr>)
         else if objectName = ''desiredIotHubProtocol'' then
           (case json_value_get_string (Some v) of
              None \<Rightarrow> (EINVAL, st)
            | Some s \<Rightarrow>
                if s = ''auto'' then (MMI_OK, st\<lparr>g_iotHubProtocol := 0\<rparr>)
                else if s = ''mqtt'' then (MMI_OK, st\<lparr>g_iotHubProtocol := 1\<rparr>)
                else if s = ''mqttWebSocket'' then (MMI_OK, st\<lparr>g_iotHubProtocol := 2\<rparr>)
                else (EINVAL, st))
         else if objectName = ''desiredGitManagementEnabled'' then (MMI_OK, st\<lparr>g_gitManagementEnabled := b\<rparr>)
         else if objectName = ''desiredGitBranch'' then
           (case json_value_get_string (Some v) of
              None \<Rightarrow> (EINVAL, st)
            | Some s \<Rightarrow> (MMI_OK, st\<lparr>g_gitBranch := (if m ''DuplicateString.branch'' 0 = 0 then Some s else None)\<rparr>))
         else (EINVAL, st))"

definition ConfigurationMmiSet ::
  "sys \<Rightarrow> (MMI_HANDLE \<Rightarrow> string) \<Rightarrow> MMI_HANDLE \<Rightarrow> cstr \<Rightarrow> cstr \<Rightarrow> cstr \<Rightarrow> int \<Rightarrow> configuration \<Rightarrow>
   (int \<times> configuration) option" where
  "ConfigurationMmiSet m str h componentName objectName payload n st =
     (case (componentName, objectName, payload) of
        (Some c, Some ob, Some p) \<Rightarrow>
          if n \<le> 0 then Some (EINVAL, st)
          else if \<not> IsValidSession str h st \<or> c \<noteq> g_configurationComponentName then Some (EINVAL, st)
          else if m ''malloc'' 0 \<noteq> 0 then Some (ENOMEM, st)
          else if length p < nat n then None
          else (case json_parse_string (Some (take (nat n) p)) of
             None \<Rightarrow> Some (EINVAL, st)
           | Some v \<Rightarrow>
               (case set_in_memory m ob v st of
                  (status, st1) \<Rightarrow>
                    if status \<noteq> MMI_OK then Some (status, st1) else UpdateConfigurationFile m st1))
      | _ \<Rightarrow> Some (EINVAL, st))"

definition ConfigurationMmiFree :: "cstr \<Rightarrow> configuration \<Rightarrow> configuration" where
  "ConfigurationMmiFree payload st = st"

text \<open>The entry points over a world that may have crashed.\<close>

definition configuration_mmi :: "sys \<Rightarrow> (MMI_HANDLE \<Rightarrow> string) \<Rightarrow> MMI_HANDLE \<Rightarrow> configuration option mmi" where
  "configuration_mmi m str self =
     \<lparr>mmiOpen = (\<lambda>cn mx w. case w of None \<Rightarrow> (0, None)
        | Some st \<Rightarrow> (case ConfigurationMmiOpen self cn mx st of (h, st') \<Rightarrow> (h, Some st'))),
      mmiClose = (\<lambda>h. map_option (ConfigurationMmiClose str h)),
      mmiGetInfo = (\<lambda>cn w. case w of None \<Rightarrow> ((EINVAL, None, 0), None)
        | Some st \<Rightarrow> (case ConfigurationMmiGetInfo m cn st of (r, st') \<Rightarrow> (r, Some st'))),
      mmiSet = (\<lambda>h c ob p n w. case w of None \<Rightarrow> (EINVAL, None)
        | Some st \<Rightarrow> (case ConfigurationMmiSet m str h c ob p n st of
             None \<Rightarrow> (EINVAL, None) | Some (status, st') \<Rightarrow> (status, Some st'))),
      mmiGet = (\<lambda>h c ob w. case w of None \<Rightarrow> ((EINVAL, None, 0), None)
        | Some st \<Rightarrow> (case ConfigurationMmiGet m str h c ob st of (r, st') \<Rightarrow> (r, Some st'))),
      mmiFree = (\<lambda>p. map_option (ConfigurationMmiFree p))\<rparr>"

lemma configuration_get_delivers:
  "ConfigurationMmiGet m str h c ob st = ((MMI_OK, p, n), st') \<Longrightarrow> \<exists>bs. p = Some bs \<and> n = int (length bs)"
  by (auto simp: ConfigurationMmiGet_def Let_def codes split: option.splits if_splits dest: sym)

lemma EINVAL_not_ok [simp]: "EINVAL \<noteq> MMI_OK" "ENOENT \<noteq> MMI_OK" "EIO \<noteq> MMI_OK"
  by (simp_all add: codes)

interpretation configuration: mmi_module "configuration_mmi m str self" for m str self
  by unfold_locales
    (auto simp: configuration_mmi_def split: option.splits prod.splits dest!: configuration_get_delivers)

subsection \<open>What is written is loaded again\<close>

text \<open>Setting a member keeps an object fit for a trip through its text.\<close>

lemma set_value_members: "kv \<in> set (json_object_set_value kvs k v) \<Longrightarrow> kv \<in> set kvs \<or> kv = (k, v)"
  by (induction kvs k v rule: json_object_set_value.induct) (auto split: if_splits)

lemma json_ok_set_value:
  assumes "json_ok (JSONObject kvs)" and "json_ok v" and "NUL \<notin> set k"
  shows "json_ok (JSONObject (json_object_set_value kvs k v))"
  using assms distinct_json_object_set_value [of kvs k v] by (auto dest!: set_value_members)

lemma json_depth_set_value:
  assumes "json_depth (JSONObject kvs) \<le> Suc d" and "json_depth v \<le> d"
  shows "json_depth (JSONObject (json_object_set_value kvs k v)) \<le> Suc d"
proof -
  have "json_depth (snd kv) \<le> d" if "kv \<in> set (json_object_set_value kvs k v)" for kv
    using set_value_members [OF that] json_depth_member [OF _ assms(1)] assms(2) by (cases kv) auto
  then show ?thesis by (simp add: fold_max_le)
qed

definition text_ok :: "JSON_Object \<Rightarrow> bool" where
  "text_ok kvs \<longleftrightarrow> json_ok (JSONObject kvs) \<and> json_depth (JSONObject kvs) \<le> Suc MAX_NESTING"

lemma text_ok_set_value:
  "text_ok kvs \<Longrightarrow> json_ok v \<Longrightarrow> json_depth v = 1 \<Longrightarrow> NUL \<notin> set k \<Longrightarrow> text_ok (json_object_set_value kvs k v)"
  unfolding text_ok_def using json_ok_set_value [of kvs v k] json_depth_set_value [of kvs MAX_NESTING v k]
  by (simp add: MAX_NESTING_def del: json_ok.simps json_depth.simps)

lemma set_number_eq: "snd (json_object_set_number kvs k x) = json_object_set_value kvs k (JSONNumber (of_int x))"
  by (simp add: json_object_set_number_def json_object_set_def json_value_init_number_def)

definition settings_ok :: "configuration \<Rightarrow> bool" where
  "settings_ok st \<longleftrightarrow> 7 \<le> g_modelVersion st \<and> g_modelVersion st \<le> 999 \<and> 0 \<le> g_iotHubProtocol st \<and>
     g_iotHubProtocol st \<le> 2 \<and> - (2 ^ 31) \<le> g_refreshInterval st \<and> g_refreshInterval st < 2 ^ 31 \<and>
     (\<forall>b. g_gitBranch st = Some b \<longrightarrow> NUL \<notin> set b)"

lemma exact_int: "- (2 ^ 31) \<le> x \<Longrightarrow> x < 2 ^ 31 \<Longrightarrow> json_ok (JSONNumber (of_int x))"
  by (simp add: exact_number_def)

text \<open>The object that is written: fit for its text, with the settings as members and all other
  members as they were.\<close>

definition written_numbers :: "configuration \<Rightarrow> (string \<rightharpoonup> JSON_Value) \<Rightarrow> string \<rightharpoonup> JSON_Value" where
  "written_numbers old mp = mp(''ModelVersion'' \<mapsto> JSONNumber (of_int (g_modelVersion old)),
      ''ReportingIntervalSeconds'' \<mapsto> JSONNumber (of_int (g_refreshInterval old)),
      ''LocalManagement'' \<mapsto> JSONNumber (of_int (flag (g_localManagementEnabled old))),
      ''DebugLogging'' \<mapsto> JSONNumber (of_int (flag (g_debugLoggingEnabled old))),
      ''IotHubManagement'' \<mapsto> JSONNumber (of_int (flag (g_iotHubManagementEnabled old))),
      ''IotHubProtocol'' \<mapsto> JSONNumber (of_int (g_iotHubProtocol old)),
      ''GitManagement'' \<mapsto> JSONNumber (of_int (flag (g_gitManagementEnabled old))))"

definition written_members :: "cstr \<Rightarrow> configuration \<Rightarrow> (string \<rightharpoonup> JSON_Value) \<Rightarrow> string \<rightharpoonup> JSON_Value" where
  "written_members branch old mp =
     (case json_value_init_string branch of
        Some v \<Rightarrow> (written_numbers old mp)(''GitBranch'' \<mapsto> v)
      | None \<Rightarrow> written_numbers old mp)"

lemma set_settings_object:
  assumes ok: "text_ok kvs" and s: "settings_ok old" and "set_settings branch old kvs = (succ, kvs')"
  shows "text_ok kvs'" and "map_of kvs' = written_members branch old (map_of kvs)"
    and "succ \<longleftrightarrow> (\<exists>b. branch = Some b \<and> is_valid_utf8 b)"
proof -
  define kvs1 where "kvs1 = fold (\<lambda>(k, x) kvs. json_object_set_value kvs k (JSONNumber (of_int x))) (settings_members old) kvs"
  have eq: "json_object_set_string kvs1 ''GitBranch'' branch = (succ, kvs')"
    using assms(3) by (simp add: set_settings_def kvs1_def set_number_eq)
  have num: "json_ok (JSONNumber (of_int (flag b)))" for b by (simp add: flag_def exact_number_def)
  have "json_ok (JSONNumber (of_int (g_modelVersion old)))" "json_ok (JSONNumber (of_int (g_refreshInterval old)))"
    "json_ok (JSONNumber (of_int (g_iotHubProtocol old)))"
    using s by (auto simp: settings_ok_def exact_number_def)
  then have "text_ok kvs1"
    unfolding kvs1_def settings_members_def using ok num
    by (auto simp: NUL_def intro!: text_ok_set_value simp del: json_ok.simps)
  then show "text_ok kvs'"
    using eq by (auto simp: json_object_set_string_def json_object_set_def json_value_init_string_def NUL_def
        intro!: text_ok_set_value split: option.splits if_splits)
  show "map_of kvs' = written_members branch old (map_of kvs)"
  proof -
    have "map_of kvs1 = written_numbers old (map_of kvs)"
      by (simp add: kvs1_def settings_members_def map_of_json_object_set_value written_numbers_def)
    then show ?thesis
      using eq by (cases "json_value_init_string branch")
        (simp_all add: json_object_set_string_def json_object_set_def written_members_def
          map_of_json_object_set_value flip: \<open>map_of kvs1 = _\<close>, auto simp: map_of_json_object_set_value)
  qed
  show "succ \<longleftrightarrow> (\<exists>b. branch = Some b \<and> is_valid_utf8 b)"
    using eq by (auto simp: json_object_set_string_def json_object_set_def json_value_init_string_def
        split: option.splits if_splits)
qed

text \<open>What a reload keeps: the settings, with the interval forced into its bounds. The flag for debug
  logging is not among the members that are read.\<close>

definition stored_interval :: "int \<Rightarrow> int" where
  "stored_interval x = (if x = 0 then 30 else max 1 (min 86400 x))"

definition reloads_to :: "configuration \<Rightarrow> configuration \<Rightarrow> bool" where
  "reloads_to st st' \<longleftrightarrow>
     g_modelVersion st' = g_modelVersion st \<and> g_refreshInterval st' = stored_interval (g_refreshInterval st) \<and>
     g_localManagementEnabled st' = g_localManagementEnabled st \<and>
     g_iotHubManagementEnabled st' = g_iotHubManagementEnabled st \<and> g_iotHubProtocol st' = g_iotHubProtocol st \<and>
     g_gitManagementEnabled st' = g_gitManagementEnabled st \<and> g_gitBranch st' = g_gitBranch st"

lemma double_of_int [simp]: "- (2 ^ 31) \<le> x \<Longrightarrow> x < 2 ^ 31 \<Longrightarrow> double_to_int (of_int x) = x"
  by (simp add: double_to_int_def trunc_rat_def Let_def)

lemma loaded_again: "reloads_to (load_settings m json st) (load_settings m json st')"
  using GetInteger_bounds [of 1 30 86400 "Some ''ReportingIntervalSeconds''" "Some json"]
  by (auto simp: reloads_to_def load_settings_def stored_interval_def GetReportingIntervalFromJsonConfig_def)

end
