(* ===== verification/ConfigurationProps.thy ===== *)
theory ConfigurationProps
  imports Configuration
begin

text \<open>
  What the Configuration module promises: a setting that was set is the setting that the next load of
  the file finds, a session is bounded by its references, and where this fails.
\<close>

subsection \<open>Loading what was written\<close>

lemma written_members_at:
  "written_members branch old mp k =
     (if k = ''GitBranch'' \<and> (\<exists>b. branch = Some b \<and> is_valid_utf8 b) then Some (JSONString (the branch))
      else written_numbers old mp k)"
  by (auto simp: written_members_def json_value_init_string_def split: option.split)

lemma load_written:
  assumes "config_object (Some json) = Some kvs" and "map_of kvs = written_members branch old mp" and s: "settings_ok old"
  shows "reloads_to (old\<lparr>g_gitBranch := json_value_get_string (map_of kvs ''GitBranch'')\<rparr>) (load_settings sys_ok json st)"
proof -
  have v: "map_of kvs k = written_numbers old mp k" if "k \<noteq> ''GitBranch''" for k
    using that assms(2) by (simp add: written_members_at)
  have int: "GetIntegerFromJsonConfig (Some k) (Some json) d lo hi =
      (let x = double_to_int (json_value_get_number (map_of kvs k))
       in if x = 0 \<and> lo \<noteq> 0 \<and> hi \<noteq> 0 then d else if x < lo then lo else if hi < x then hi else x)"
    if "lo < hi" for k d lo hi
    using that assms(1) by (simp add: GetIntegerFromJsonConfig_def json_get_defs)
  have branch: "GetGitBranchFromJsonConfig (alloc_of sys_ok) (Some json) = json_value_get_string (map_of kvs ''GitBranch'')"
    using assms(1) by (auto simp: GetGitBranchFromJsonConfig_def GetStringFromJsonConfig_def json_get_defs alloc_of_def
        split: option.split)
  have iot: "IsIotHubManagementEnabledInJsonConfig (Some json) = g_iotHubManagementEnabled old"
    using assms(1) v [of "''IotHubManagement''"]
    by (simp add: IsIotHubManagementEnabledInJsonConfig_def IsOptionEnabledInJsonConfig_def
        json_get_defs written_numbers_def flag_def)
  show ?thesis
    using s branch iot
    by (simp add: reloads_to_def load_settings_def config_getters int v written_numbers_def settings_ok_def
        stored_interval_def flag_def Let_def)
qed

definition stored_object :: "configuration \<Rightarrow> JSON_Object option" where
  "stored_object st = (case node (files st) (g_configurationFile st) of
     None \<Rightarrow> None | Some f \<Rightarrow> config_object (Some (c_string (bytes f))))"

definition reload :: "configuration \<Rightarrow> configuration" where
  "reload st = snd (LoadConfigurationFromFile sys_ok (Some (g_configurationFile st)) st)"

lemma load_settings_fields [simp]:
  "files (load_settings m json st) = files st" "g_configurationFile (load_settings m json st) = g_configurationFile st"
  by (simp_all add: load_settings_def)

lemma restore_settings_fields [simp]:
  "files (restore_settings m ok br old st) = files st"
  "g_configurationFile (restore_settings m ok br old st) = g_configurationFile st"
  by (simp_all add: restore_settings_def)

lemma loaded_branch:
  "config_object (Some json) = Some kvs \<Longrightarrow>
   g_gitBranch (load_settings sys_ok json st) = json_value_get_string (map_of kvs ''GitBranch'')"
  by (auto simp: load_settings_def GetGitBranchFromJsonConfig_def GetStringFromJsonConfig_def json_get_defs alloc_of_def
      split: option.split)

lemma debug_flag:
  "config_object (Some json) = Some kvs \<Longrightarrow> g_debugLoggingEnabled (load_settings m json st) \<longleftrightarrow>
     7 \<le> double_to_int (json_value_get_number (map_of kvs ''LoggingLevel''))"
  by (simp add: load_settings_def GetLoggingLevelFromJsonConfig_def GetIntegerFromJsonConfig_def json_get_defs Let_def)

lemma pretty_nonempty: "json_serialize_r p l (JSONObject kvs) \<noteq> []"
  by (cases kvs) auto

lemma load_settings_branch: "load_settings m json (st\<lparr>g_gitBranch := x\<rparr>) = load_settings m json st"
  by (simp add: load_settings_def)

lemma differ_True:
  assumes "g_gitBranch st = Some b0"
  shows "settings_differ (Some b) old st \<noteq> None"
  using assms by (auto simp: settings_differ_def)

lemma differ_False:
  assumes "settings_differ (g_gitBranch old) old st = Some False" and "reloads_to st st'"
  shows "reloads_to old st'"
  using assms by (simp add: settings_differ_def reloads_to_def split: if_splits option.splits)

lemma update_crash:
  "LoadConfigurationFromFile sys_ok (Some (g_configurationFile old)) old = (Some js, st) \<Longrightarrow>
   settings_differ (g_gitBranch old) old st = None \<Longrightarrow> UpdateConfigurationFile sys_ok old = None"
  by (simp add: UpdateConfigurationFile_def)

lemma update_persists:
  assumes s: "settings_ok old" and pl: "plain_file (g_configurationFile old) (files old)"
    and obj: "stored_object old = Some kvs" "text_ok kvs"
    and br: "g_gitBranch old = Some b" "is_valid_utf8 b" "json_value_get_string (map_of kvs ''GitBranch'') = Some b0"
  obtains st' where "UpdateConfigurationFile sys_ok old = Some (MMI_OK, st')" "reloads_to old (reload st')"
    "g_debugLoggingEnabled (reload st') = g_debugLoggingEnabled (reload old)"
proof -
  let ?f = "g_configurationFile old"
  obtain nd where nd: "node (files old) ?f = Some nd" "config_object (Some (c_string (bytes nd))) = Some kvs"
    using obj(1) by (auto simp: stored_object_def split: option.splits)
  have rd: "readable_bytes nd = bytes nd" using pl nd(1) by (simp add: plain_file_def readable_bytes_def)
  define json where "json = c_string (bytes nd)"
  define st where "st = load_settings sys_ok json old"
  have load: "LoadConfigurationFromFile sys_ok (Some ?f) old = (Some json, st)"
    using nd rd by (simp add: LoadConfigurationFromFile_def json_def st_def)
  have old: "reload old = st" using load by (simp add: reload_def)
  have "g_gitBranch st = Some b0" using loaded_branch [OF nd(2), of old, folded json_def] br(3) by (simp add: st_def)
  then have "settings_differ (Some b) old st \<noteq> None" by (rule differ_True)
  then consider "settings_differ (Some b) old st = Some True" | "settings_differ (Some b) old st = Some False"
    by force
  then show ?thesis
  proof cases
    case 2
    have "UpdateConfigurationFile sys_ok old = Some (MMI_OK, st)"
      using load 2(1) br(1) by (simp add: UpdateConfigurationFile_def)
    moreover have rel: "reload st = load_settings sys_ok json st"
      using nd(1) rd by (simp add: reload_def LoadConfigurationFromFile_def st_def json_def)
    moreover have "reloads_to old (reload st)"
      using loaded_again [of sys_ok json old st, folded rel] 2 br(1)
      by (intro differ_False [of old st]) (simp_all add: st_def)
    moreover have "g_debugLoggingEnabled (reload st) = g_debugLoggingEnabled (reload old)"
      unfolding rel old by (simp add: st_def load_settings_def)
    ultimately show ?thesis using that by blast
  next
    case 1
    obtain ok kvs' where set: "set_settings (Some b) old kvs = (ok, kvs')" by force
    note w = set_settings_object [OF obj(2) s set]
    define st1 where "st1 = restore_settings sys_ok ok (Some b) old st"
    define tx where "tx = json_serialize_r True 0 (JSONObject kvs')"
    have js: "json_ok (JSONObject kvs')" "json_depth (JSONObject kvs') \<le> Suc MAX_NESTING"
      using w(1) unfolding text_ok_def by (rule conjunct1, rule conjunct2)
    have tx: "json_parse_string (Some tx) = Some (JSONObject kvs')" "NUL \<notin> set tx" "tx \<noteq> []"
      unfolding tx_def
      by (rule json_parse_string_serialize [OF js], rule serialize_no_nul [OF js(1)], rule pretty_nonempty)
    have stf: "files st1 = files old" "g_configurationFile st1 = ?f" by (simp_all add: st1_def st_def)
    define fs' where "fs' = put_node ?f (Some (written_node ?f tx (files old))) (files old)"
    define st' where "st' = st1\<lparr>files := fs'\<rparr>"
    have save: "SavePayloadToFile sys_ok (Some ?f) (Some tx) (files old) = (True, fs')"
      using SaveToFile_ok [OF pl tx(3), of "''w''"] by (simp add: SavePayloadToFile_def fs'_def)
    have parsed: "json_value_get_object (json_parse_string (Some json)) = Some kvs"
      using nd(2) by (simp add: config_object_def json_def)
    have "UpdateConfigurationFile sys_ok old = Some (MMI_OK, st')"
      using load 1 parsed set save stf br(1)
      by (simp add: UpdateConfigurationFile_def json_serialize_to_string_pretty_def tx_def st1_def st'_def
          del: json_serialize_r.simps)
    moreover have rel: "reload st' = load_settings sys_ok tx st'"
      using pl tx(2) stf by (simp add: reload_def LoadConfigurationFromFile_def Let_def st'_def readable_bytes_def fs'_def)
    have cfg: "config_object (Some tx) = Some kvs'" using tx(1) by (simp add: config_object_def)
    have "json_value_get_string (map_of kvs' ''GitBranch'') = g_gitBranch old"
      using w(2) br s by (simp add: written_members_at settings_ok_def)
    then have "reloads_to old (reload st')"
      using load_written [OF cfg w(2) s, of st', folded rel] by (simp add: reloads_to_def)
    moreover have "map_of kvs' ''LoggingLevel'' = map_of kvs ''LoggingLevel''"
      using w(2) by (simp add: written_members_at written_numbers_def)
    then have "g_debugLoggingEnabled (reload st') = g_debugLoggingEnabled (reload old)"
      unfolding rel old st_def by (simp only: debug_flag [OF cfg] debug_flag [OF nd(2), folded json_def])
    ultimately show ?thesis using that by blast
  qed
qed

subsection \<open>Bounds of the settings\<close>

lemma get_string_no_nul: "json_value_get_string v = Some b \<Longrightarrow> NUL \<notin> set b"
  by (cases v rule: json_value_get_string.cases) auto

lemma sint_word32: "- 2147483648 \<le> sint (w :: 32 word)" "sint (w :: 32 word) < 2147483648"
  using sint_greater_eq [of w] sint_less [of w] by simp_all

lemma set_in_memory_ok:
  "settings_ok st \<Longrightarrow> set_in_memory m ob v st = (r, st1) \<Longrightarrow> settings_ok st1"
  by (auto simp: set_in_memory_def Let_def settings_ok_def sint_word32 get_string_no_nul
      split: if_splits option.splits)

lemma load_settings_ok: "settings_ok (load_settings m json st)"
  using GetInteger_bounds [of 7 16 999 "Some ''ModelVersion''" "Some json"]
    GetInteger_bounds [of 1 30 86400 "Some ''ReportingIntervalSeconds''" "Some json"]
    GetInteger_bounds [of 0 0 2 "Some ''IotHubProtocol''" "Some json"]
  by (auto simp: settings_ok_def load_settings_def config_getters GetGitBranchFromJsonConfig_def
      GetStringFromJsonConfig_def json_object_get_string_def get_string_no_nul split: option.splits if_splits)

lemma LoadConfiguration_ok:
  "settings_ok st \<Longrightarrow> LoadConfigurationFromFile m f st = (r, st') \<Longrightarrow> settings_ok st'"
  by (auto simp: LoadConfigurationFromFile_def Let_def load_settings_ok split: option.splits)

lemma restore_settings_ok: "settings_ok old \<Longrightarrow> settings_ok st \<Longrightarrow> br = g_gitBranch old \<or> br = None \<Longrightarrow>
    settings_ok (restore_settings m ok br old st)"
  by (auto simp: restore_settings_def settings_ok_def)

lemma settings_ok_fields [simp]:
  "settings_ok (st\<lparr>files := fs\<rparr>) = settings_ok st" "settings_ok (st\<lparr>g_configurationFile := f\<rparr>) = settings_ok st"
  "settings_ok (st\<lparr>c_referenceCount := k\<rparr>) = settings_ok st" "settings_ok (st\<lparr>c_maxPayloadSizeBytes := l\<rparr>) = settings_ok st"
  by (simp_all add: settings_ok_def)

lemma UpdateConfigurationFile_ok:
  assumes "settings_ok old" and "UpdateConfigurationFile m old = Some (r, st')"
  shows "settings_ok st'"
proof -
  obtain js st where load: "LoadConfigurationFromFile (nested ''Load'' m) (Some (g_configurationFile old)) old = (js, st)"
    by force
  note ok = LoadConfiguration_ok [OF assms(1) load]
  have "settings_ok (restore_settings m b (if m ''DuplicateString'' 0 = 0 then g_gitBranch old else None) old st)" for b
    using assms(1) ok by (intro restore_settings_ok) auto
  then show ?thesis
    using assms(2) load ok
    by (auto simp: UpdateConfigurationFile_def Let_def split: option.splits bool.splits prod.splits if_splits)
qed

lemma ConfigurationMmiSet_ok:
  "settings_ok st \<Longrightarrow> ConfigurationMmiSet m str h c ob p n st = Some (r, st') \<Longrightarrow> settings_ok st'"
  by (auto simp: ConfigurationMmiSet_def dest: set_in_memory_ok UpdateConfigurationFile_ok
      split: option.splits if_splits prod.splits)

subsection \<open>The module's life\<close>

text \<open>The static initial values, and what may happen to the module: its constructor and destructor,
  the MMI calls with any arguments and any behaviour of the system, and changes of the files by
  others. A set that crashes the process has no successor.\<close>

definition configuration_static :: "fs \<Rightarrow> configuration" where
  "configuration_static fs =
     \<lparr>g_modelVersion = 16, g_refreshInterval = 30, g_localManagementEnabled = False, g_debugLoggingEnabled = False,
      g_iotHubManagementEnabled = False, g_iotHubProtocol = 0, g_gitManagementEnabled = False, g_gitBranch = None,
      g_configurationFile = [], c_referenceCount = 0, c_maxPayloadSizeBytes = 0, files = fs\<rparr>"

inductive configuration_step :: "(MMI_HANDLE \<Rightarrow> string) \<Rightarrow> MMI_HANDLE \<Rightarrow> configuration \<Rightarrow> configuration \<Rightarrow> bool"
  for str :: "MMI_HANDLE \<Rightarrow> string" and self :: MMI_HANDLE where
  initialize: "configuration_step str self st (ConfigurationInitialize m f st)"
| shutdown: "configuration_step str self st (ConfigurationShutdown st)"
| opens: "configuration_step str self st (snd (ConfigurationMmiOpen self cn limit st))"
| closes: "configuration_step str self st (ConfigurationMmiClose str h st)"
| gets: "configuration_step str self st (snd (ConfigurationMmiGet m str h c ob st))"
| sets: "ConfigurationMmiSet m str h c ob p n st = Some (r, st') \<Longrightarrow> configuration_step str self st st'"
| others: "configuration_step str self st (st\<lparr>files := fs\<rparr>)"

inductive_cases configuration_stepE [elim]: "configuration_step str self st st'"

definition configuration_inv :: "configuration \<Rightarrow> bool" where
  "configuration_inv st \<longleftrightarrow> settings_ok st \<and> 0 \<le> c_referenceCount st \<and> length (g_configurationFile st) < 256"

lemma load_references [simp]:
  "LoadConfigurationFromFile m f st = (r, st') \<Longrightarrow>
   c_referenceCount st' = c_referenceCount st \<and> g_configurationFile st' = g_configurationFile st"
  by (auto simp: LoadConfigurationFromFile_def Let_def load_settings_def split: option.splits)

lemma update_references:
  assumes "UpdateConfigurationFile m old = Some (r, st')"
  shows "c_referenceCount st' = c_referenceCount old \<and> g_configurationFile st' = g_configurationFile old"
proof -
  obtain js st where load: "LoadConfigurationFromFile (nested ''Load'' m) (Some (g_configurationFile old)) old = (js, st)"
    by force
  then show ?thesis
    using assms load_references [OF load]
    by (auto simp: UpdateConfigurationFile_def Let_def restore_settings_def
        split: option.splits bool.splits prod.splits if_splits)
qed

lemma set_in_memory_references:
  "set_in_memory m ob v st = (r, st1) \<Longrightarrow>
   c_referenceCount st1 = c_referenceCount st \<and> g_configurationFile st1 = g_configurationFile st \<and> files st1 = files st"
  by (auto simp: set_in_memory_def Let_def split: if_splits option.splits)

lemma set_references:
  "ConfigurationMmiSet m str h c ob p n st = Some (r, st') \<Longrightarrow>
   c_referenceCount st' = c_referenceCount st \<and> g_configurationFile st' = g_configurationFile st"
  by (auto simp: ConfigurationMmiSet_def dest!: set_in_memory_references update_references
      split: option.splits if_splits prod.splits)

lemma config_file_length: "length config_file < 256"
  by (simp add: config_file_def)

lemma initialize_inv:
  assumes "configuration_inv st"
  shows "configuration_inv (ConfigurationInitialize m f st)"
proof -
  define g where "g = (case f of None \<Rightarrow> config_file | Some p \<Rightarrow> take 255 p)"
  obtain r st' where load: "LoadConfigurationFromFile m (Some g) (st\<lparr>g_configurationFile := g\<rparr>) = (r, st')" by force
  moreover have "length g < 256" using config_file_length by (auto simp: g_def split: option.split)
  ultimately show ?thesis
    using assms LoadConfiguration_ok [OF _ load] load_references [OF load]
    by (simp add: configuration_inv_def ConfigurationInitialize_def g_def)
qed

lemma set_inv:
  "ConfigurationMmiSet m str h c ob p n st = Some (r, st') \<Longrightarrow> configuration_inv st \<Longrightarrow> configuration_inv st'"
  using set_references [of m str h c ob p n st r st'] ConfigurationMmiSet_ok [of st m str h c ob p n r st']
  by (simp add: configuration_inv_def)

lemma get_same: "snd (ConfigurationMmiGet m str h c ob st) = st"
  by (auto simp: ConfigurationMmiGet_def Let_def split: option.split)

lemma configuration_step_inv: "configuration_step str self st st' \<Longrightarrow> configuration_inv st \<Longrightarrow> configuration_inv st'"
  by (induction rule: configuration_step.induct)
    (simp_all add: initialize_inv set_inv get_same,
     simp_all add: configuration_inv_def ConfigurationShutdown_def ConfigurationMmiOpen_def ConfigurationMmiClose_def
       IsValidSession_def, simp_all add: settings_ok_def)

lemma static_inv: "configuration_inv (configuration_static fs)"
  by (simp add: configuration_inv_def configuration_static_def settings_ok_def)

lemma reload_debug:
  assumes "stored_object st = Some kvs" and "plain_file (g_configurationFile st) (files st)"
  shows "g_debugLoggingEnabled (reload st) \<longleftrightarrow> 7 \<le> double_to_int (json_value_get_number (map_of kvs ''LoggingLevel''))"
proof -
  obtain nd where nd: "node (files st) (g_configurationFile st) = Some nd" "config_object (Some (c_string (bytes nd))) = Some kvs"
    using assms(1) by (auto simp: stored_object_def split: option.splits)
  have "reload st = load_settings sys_ok (c_string (bytes nd)) st"
    using nd(1) assms(2) by (simp add: reload_def LoadConfigurationFromFile_def plain_file_def readable_bytes_def)
  then show ?thesis by (simp only: debug_flag [OF nd(2)])
qed

lemma valid_set:
  assumes "IsValidSession str h st" and "json_parse_string (Some p) = Some v" "p \<noteq> []"
    and "set_in_memory sys_ok ob v st = (MMI_OK, st1)"
  shows "ConfigurationMmiSet sys_ok str h (Some g_configurationComponentName) (Some ob) (Some p) (int (length p)) st =
    UpdateConfigurationFile sys_ok st1"
  using assms by (simp add: ConfigurationMmiSet_def)

text \<open>A sample: a file that holds a branch, and an open session.\<close>

definition sample_settings :: "JSON_Object \<Rightarrow> configuration" where
  "sample_settings kvs = (configuration_static (sample_fs (json_serialize_r False 0 (JSONObject kvs))))
     \<lparr>g_configurationFile := ''/f'', g_gitBranch := Some ''main'', c_referenceCount := 1\<rparr>"

lemma sample_stored: "text_ok kvs \<Longrightarrow> stored_object (sample_settings kvs) = Some kvs"
  using json_parse_string_serialize [of "JSONObject kvs" False 0] serialize_no_nul [of "JSONObject kvs" False 0]
  by (simp add: stored_object_def sample_settings_def configuration_static_def config_object_def text_ok_def
      del: json_serialize_r.simps json_ok.simps json_depth.simps)

subsection \<open>Properties\<close>



text \<open>When the file has no branch and the settings in memory are the file's, a set of the branch
  follows a \<open>NULL\<close> pointer: the process of the module crashes, with no status for the client.\<close>

theorem ConfigurationMmiSet_no_branch:
  assumes "reload st = st" "g_gitBranch st = None" and "node (files st) (g_configurationFile st) \<noteq> None"
    and "IsValidSession str h st" and "json_parse_string (Some p) = Some (JSONString b)" "p \<noteq> []"
  shows "ConfigurationMmiSet sys_ok str h (Some g_configurationComponentName) (Some ''desiredGitBranch'') (Some p)
    (int (length p)) st = None"
proof -
  have mem: "set_in_memory sys_ok ''desiredGitBranch'' (JSONString b) st = (MMI_OK, st\<lparr>g_gitBranch := Some (c_string b)\<rparr>)"
    by (simp add: set_in_memory_def)
  obtain nd where nd: "node (files st) (g_configurationFile st) = Some nd" using assms(3) by blast
  define js where "js = c_string (readable_bytes nd)"
  have "load_settings sys_ok js st = st" using assms(1) nd by (simp add: reload_def LoadConfigurationFromFile_def js_def)
  then have load: "LoadConfigurationFromFile sys_ok (Some (g_configurationFile st)) (st\<lparr>g_gitBranch := x\<rparr>) = (Some js, st)" for x
    using nd by (simp add: LoadConfigurationFromFile_def load_settings_branch js_def)
  have "UpdateConfigurationFile sys_ok (st\<lparr>g_gitBranch := Some (c_string b)\<rparr>) = None"
    using load assms(2) by (intro update_crash [of _ js st]) (simp_all add: settings_differ_def)
  then show ?thesis by (simp only: valid_set [OF assms(4-6) mem])
qed

theorem ConfigurationMmiSet_no_branch_witness:
  "\<exists>st. reload st = st \<and> ConfigurationMmiSet sys_ok (\<lambda>_. g_configurationModuleName) 1 (Some g_configurationComponentName)
     (Some ''desiredGitBranch'') (Some (json_serialize_r False 0 (JSONString ''x'')))
     (int (length (json_serialize_r False 0 (JSONString ''x'')))) st = None"
proof -
  let ?st = "(sample_settings [])\<lparr>g_gitBranch := None\<rparr>"
  let ?p = "json_serialize_r False 0 (JSONString ''x'')"
  have ok: "text_ok []" by (simp add: text_ok_def MAX_NESTING_def)
  have cfg: "config_object (Some ''{}'') = Some []"
    using json_parse_string_serialize [of "JSONObject []" False 0] by (simp add: config_object_def MAX_NESTING_def)
  have nd: "node (files ?st) (g_configurationFile ?st) = Some (sample_node ''{}'')"
    by (simp add: sample_settings_def configuration_static_def)
  have "load_settings sys_ok ''{}'' ?st = ?st"
    by (simp add: load_settings_def config_getters GetIntegerFromJsonConfig_def IsIotHubManagementEnabledInJsonConfig_def
        IsOptionEnabledInJsonConfig_def GetGitBranchFromJsonConfig_def GetStringFromJsonConfig_def cfg json_get_defs
        double_to_int_def trunc_rat_def sample_settings_def configuration_static_def)
  then have rel: "reload ?st = ?st"
    using nd by (simp add: reload_def LoadConfigurationFromFile_def sample_node_def readable_bytes_def NUL_def)
  have "json_parse_string (Some ?p) = Some (JSONString ''x'')"
    by (rule json_parse_string_serialize) (simp_all add: MAX_NESTING_def)
  moreover have "IsValidSession (\<lambda>_. g_configurationModuleName) 1 ?st"
    by (simp add: sample_settings_def IsValidSession_def)
  moreover have "?p \<noteq> []" by (simp add: json_serialize_string_def)
  ultimately show ?thesis
    using ConfigurationMmiSet_no_branch [OF rel] nd rel by (intro exI [of _ ?st]) (simp del: json_serialize_r.simps)
qed



end
