(* ===== verification/CommandUtils.thy ===== *)
theory CommandUtils
  imports FileUtils
begin

text \<open>
  The execution of shell commands (\<open>src/common/commonutils/CommandUtils.c\<close>). The parent reads the
  output of the child from a pipe until the child closes it, a deadline passes or the caller
  cancels. The model takes the events of the loop one by one: what \<open>select\<close>, the clock, the callback
  and \<open>read\<close> return in an iteration. A loop that has used up its events is still waiting.
\<close>

subsection \<open>The loop\<close>

datatype pipe_state = NotReady | PipeClosed | ReadInterrupted | ReadFailed int | ReadBytes string

datatype event =
  SelectInterrupted
| SelectFailed int
| ClockFailed int
| Polled int int pipe_state  \<comment> \<open>the current time, the result of the callback, the pipe\<close>

record command_options =
  replaceEol :: bool
  forJson :: bool
  maxTextResultBytes :: nat
  timeoutSeconds :: int
  wantText :: bool
  hasCallback :: bool

definition E2BIG :: int where [codes]: "E2BIG = 7"

text \<open>The byte that is stored for a byte that was read. \<open>char\<close> is signed: a byte above 127 is below \<open>0x20\<close>.\<close>

definition replaced_byte :: "command_options \<Rightarrow> char \<Rightarrow> bool" where
  "replaced_byte opts c \<longleftrightarrow>
     replaceEol opts \<and> c = EOL \<or>
     ((of_char c :: nat) < 32 \<or> 128 \<le> (of_char c :: nat)) \<and> c \<noteq> EOL \<or>
     (of_char c :: nat) = 127 \<or>
     forJson opts \<and> (c = CHR 0x22 \<or> c = CHR 0x09 \<or> c = CHR 0x5C)"

definition stored_byte :: "command_options \<Rightarrow> char \<Rightarrow> char" where
  "stored_byte opts c = (if replaced_byte opts c then CHR '' '' else c)"

text \<open>What the buffer holds after \<open>bs\<close> was read: its size is limited to one byte less than the maximum.\<close>

definition take_output :: "command_options \<Rightarrow> string \<Rightarrow> string \<Rightarrow> string" where
  "take_output opts out bs =
     (let n = length bs + length out;
          n' = (if 0 < maxTextResultBytes opts \<and> maxTextResultBytes opts - 1 < n
                then maxTextResultBytes opts - 1 else n)
      in out @ map (stored_byte opts) (take (n' - length out) bs))"

fun read_loop :: "sys \<Rightarrow> command_options \<Rightarrow> int \<Rightarrow> nat \<Rightarrow> int \<Rightarrow> cstr \<Rightarrow> event list \<Rightarrow> (int \<times> cstr) option" where
  "read_loop m opts startTime i lastCallback text [] = None"
| "read_loop m opts startTime i lastCallback text (SelectInterrupted # es) =
     read_loop m opts startTime (Suc i) lastCallback text es"
| "read_loop m opts startTime i lastCallback text (SelectFailed e # es) = Some (e, text)"
| "read_loop m opts startTime i lastCallback text (ClockFailed e # es) = Some (e, text)"
| "read_loop m opts startTime i lastCallback text (Polled now cb p # es) =
     (if 0 < timeoutSeconds opts \<and> timeoutSeconds opts \<le> now - startTime then Some (ETIME, text)
      else let called = (hasCallback opts \<and> 5 \<le> now - lastCallback);
               last' = (if called then now else lastCallback)
           in if called \<and> cb \<noteq> 0 then Some (ECANCELED, text)
              else (case p of
                 NotReady \<Rightarrow> read_loop m opts startTime (Suc i) last' text es
               | PipeClosed \<Rightarrow> Some (0, text)
               | ReadInterrupted \<Rightarrow> read_loop m opts startTime (Suc i) last' text es
               | ReadFailed e \<Rightarrow> Some (e, text)
               | ReadBytes bs \<Rightarrow>
                   (let out = (case text of None \<Rightarrow> [] | Some t \<Rightarrow> t)
                    in if 0 < maxTextResultBytes opts \<and> length out = maxTextResultBytes opts \<or> \<not> wantText opts
                       then read_loop m opts startTime (Suc i) last' text es
                       else if m ''realloc'' i \<noteq> 0 then Some (ENOMEM, None)
                       else read_loop m opts startTime (Suc i) last' (Some (take_output opts out bs)) es)))"

datatype child_status = Exited int | Signaled int

fun child_code :: "child_status \<Rightarrow> int" where
  "child_code (Exited e) = e"
| "child_code (Signaled s) = s"

text \<open>The default deadline of 60 seconds is for callers with a callback. The text is what a C caller
  sees of the buffer.\<close>

definition ExecuteCommand ::
  "sys \<Rightarrow> nat \<Rightarrow> int \<Rightarrow> cstr \<Rightarrow> command_options \<Rightarrow> event list \<Rightarrow> child_status \<Rightarrow> (int \<times> cstr) option" where
  "ExecuteCommand m argMax startTime cmd opts events child =
     (case cmd of
        None \<Rightarrow> Some (- 1, None)
      | Some s \<Rightarrow>
          if argMax < length s then Some (E2BIG, None)
          else if startTime < 0 then Some (m ''clock_gettime'' 0, None)
          else if m ''pipe'' 0 \<noteq> 0 then Some (m ''pipe'' 0, None)
          else if m ''fork'' 0 \<noteq> 0 then Some (m ''fork'' 0, None)
          else (let opts' = (if hasCallback opts \<and> timeoutSeconds opts = 0 then opts\<lparr>timeoutSeconds := 60\<rparr> else opts)
                in case read_loop m opts' startTime 0 0 None events of
                     None \<Rightarrow> None
                   | Some (status, text) \<Rightarrow> Some (if status = 0 then child_code child else status, text)))"

subsection \<open>Output\<close>

definition output_of :: "command_options \<Rightarrow> string \<Rightarrow> string" where
  "output_of opts bs =
     map (stored_byte opts) (if 0 < maxTextResultBytes opts then take (maxTextResultBytes opts - 1) bs else bs)"

lemma output_of_Nil [simp]: "output_of opts [] = []"
  by (simp add: output_of_def)

lemma take_output_step: "take_output opts (output_of opts a) b = output_of opts (a @ b)"
  by (auto simp: take_output_def output_of_def Let_def min_def)

lemma output_of_bound: "0 < maxTextResultBytes opts \<Longrightarrow> length (output_of opts bs) < maxTextResultBytes opts"
  by (simp add: output_of_def min_def) linarith

text \<open>An iteration that is before the deadline, is not cancelled and reads nothing or some bytes.\<close>

fun quiet :: "command_options \<Rightarrow> int \<Rightarrow> event \<Rightarrow> bool" where
  "quiet opts startTime SelectInterrupted = True"
| "quiet opts startTime (Polled now cb p) =
     ((timeoutSeconds opts \<le> 0 \<or> now - startTime < timeoutSeconds opts) \<and> cb = 0 \<and>
      (case p of NotReady \<Rightarrow> True | ReadInterrupted \<Rightarrow> True | ReadBytes bs \<Rightarrow> True | _ \<Rightarrow> False))"
| "quiet opts startTime _ = False"

fun event_bytes :: "event \<Rightarrow> string list" where
  "event_bytes (Polled now cb (ReadBytes bs)) = [bs]"
| "event_bytes _ = []"

definition text_of :: "command_options \<Rightarrow> string list \<Rightarrow> cstr" where
  "text_of opts bss = (if bss = [] then None else Some (output_of opts (concat bss)))"

lemma text_of_step:
  "Some (take_output opts (case text_of opts bss of None \<Rightarrow> [] | Some t \<Rightarrow> t) bs) = text_of opts (bss @ [bs])"
  using take_output_step [of opts "concat bss" bs] take_output_step [of opts "[]" bs]
  by (simp add: text_of_def)

lemma text_of_length: "0 < maxTextResultBytes opts \<Longrightarrow> length (case text_of opts bss of None \<Rightarrow> [] | Some t \<Rightarrow> t) \<noteq> maxTextResultBytes opts"
  using output_of_bound [of opts "concat bss"] by (simp add: text_of_def)

lemma read_loop_quiet:
  assumes "\<forall>e \<in> set es. quiet opts startTime e" and "wantText opts" and "\<And>k. m ''realloc'' k = 0"
  shows "\<exists>last'. read_loop m opts startTime i lc (text_of opts bss) (es @ rest) =
    read_loop m opts startTime (i + length es) last' (text_of opts (bss @ concat (map event_bytes es))) rest"
  using assms(1)
proof (induction es arbitrary: i lc bss)
  case Nil
  then show ?case by auto
next
  case (Cons e es)
  then have tail: "\<forall>e \<in> set es. quiet opts startTime e" by simp
  show ?case
  proof (cases e)
    case SelectInterrupted
    then show ?thesis using Cons.IH [OF tail, of "Suc i" lc bss] by simp
  next
    case (Polled now cb p)
    let ?lc = "if hasCallback opts \<and> 5 \<le> now - lc then now else lc"
    have q: "\<not> (0 < timeoutSeconds opts \<and> timeoutSeconds opts \<le> now - startTime)" "cb = 0"
      using Cons.prems Polled by auto
    have "\<exists>bss'. bss' = bss @ event_bytes e \<and> read_loop m opts startTime i lc (text_of opts bss) (e # es @ rest) =
        read_loop m opts startTime (Suc i) ?lc (text_of opts bss') (es @ rest)"
    proof (cases p)
      case (ReadBytes bs)
      then show ?thesis
        using q Polled assms(2,3) text_of_step [of opts bss bs] text_of_length [of opts bss]
        by (auto simp: Let_def)
    qed (use Cons.prems Polled q in \<open>auto simp: Let_def\<close>)
    then show ?thesis using Cons.IH [OF tail, of "Suc i" ?lc "bss @ event_bytes e"] by simp
  qed (use Cons.prems in auto)
qed

subsection \<open>Deadline\<close>

text \<open>Whatever else happens, an iteration at or after the deadline ends the loop.\<close>

lemma read_loop_deadline:
  assumes "0 < timeoutSeconds opts" and "\<exists>now cb p. Polled now cb p \<in> set es \<and> timeoutSeconds opts \<le> now - startTime"
  shows "read_loop m opts startTime i lc tx es \<noteq> None"
  using assms(2)
proof (induction es arbitrary: i lc tx)
  case (Cons e es)
  show ?case
  proof (cases e)
    case (Polled now cb p)
    show ?thesis
    proof (cases "timeoutSeconds opts \<le> now - startTime")
      case False
      then have "\<exists>now cb p. Polled now cb p \<in> set es \<and> timeoutSeconds opts \<le> now - startTime"
        using Cons.prems Polled by auto
      note rest = Cons.IH [OF this]
      show ?thesis
        using False Polled rest by (cases p) (simp_all add: Let_def del: not_None_eq)
    qed (use assms(1) Polled in simp)
  qed (use Cons in auto)
qed simp

subsection \<open>Properties\<close>

text \<open>C20: The output of a command does not depend on how the pipe delivers it: after any sequence of
  interrupted and idle iterations and chunks, when the child closes the pipe before the deadline,
  the caller gets the exit status of the child and the bytes in order, control characters and
  bytes above 127 replaced by blanks, cut one byte below the maximum when there is one.\<close>

theorem ExecuteCommand_output:
  assumes "length s \<le> argMax" "0 \<le> startTime" and "\<And>site k. m site k = 0" and "wantText opts" "\<not> hasCallback opts"
    and "\<forall>e \<in> set es. quiet opts startTime e" and "concat (map event_bytes es) \<noteq> []"
    and "timeoutSeconds opts \<le> 0 \<or> now - startTime < timeoutSeconds opts"
  shows "ExecuteCommand m argMax startTime (Some s) opts (es @ [Polled now cb PipeClosed]) child =
    Some (child_code child, Some (output_of opts (concat (concat (map event_bytes es)))))"
proof -
  obtain lc where "read_loop m opts startTime 0 0 (text_of opts []) (es @ [Polled now cb PipeClosed]) =
      read_loop m opts startTime (0 + length es) lc (text_of opts ([] @ concat (map event_bytes es))) [Polled now cb PipeClosed]"
    using read_loop_quiet [OF assms(6,4), where m = m and i = 0 and lc = 0 and bss = "[]" and rest = "[Polled now cb PipeClosed]"] assms(3) by blast
  then have "read_loop m opts startTime 0 0 None (es @ [Polled now cb PipeClosed]) =
      Some (0, Some (output_of opts (concat (concat (map event_bytes es)))))"
    using assms(5,7,8) by (auto simp: text_of_def Let_def)
  then show ?thesis using assms(1-3,5) by (simp add: ExecuteCommand_def)
qed

theorem ExecuteCommand_output_witness:
  "ExecuteCommand sys_ok 100 0 (Some ''ls'')
      \<lparr>replaceEol = True, forJson = False, maxTextResultBytes = 4, timeoutSeconds = 5, wantText = True, hasCallback = False\<rparr>
      ([Polled 1 0 (ReadBytes (''a'' @ [EOL])), SelectInterrupted, Polled 2 0 (ReadBytes ''bcd'')] @ [Polled 3 0 PipeClosed]) (Exited 0) =
    Some (0, Some ''a b'')"
  by (subst ExecuteCommand_output)
    (simp_all add: output_of_def stored_byte_def replaced_byte_def EOL_def)

text \<open>C21: A command with a deadline never blocks its caller: once an iteration sees a time at or after
  the deadline, the call has returned, whatever the system calls did before. A caller that has a
  callback and no deadline has one of 60 seconds.\<close>

theorem ExecuteCommand_deadline:
  assumes "0 < timeoutSeconds opts \<or> hasCallback opts \<and> timeoutSeconds opts = 0"
    and "Polled now cb p \<in> set es"
    and "(if timeoutSeconds opts = 0 then 60 else timeoutSeconds opts) \<le> now - startTime"
  shows "\<exists>status t. ExecuteCommand m argMax startTime s opts es child = Some (status, t)"
proof -
  let ?opts = "if hasCallback opts \<and> timeoutSeconds opts = 0 then opts\<lparr>timeoutSeconds := 60\<rparr> else opts"
  have "0 < timeoutSeconds ?opts" "timeoutSeconds ?opts \<le> now - startTime" using assms(1,3) by auto
  then have "read_loop m ?opts startTime 0 0 None es \<noteq> None" using assms(2) by (intro read_loop_deadline) blast+
  then show ?thesis by (cases s) (auto simp: ExecuteCommand_def Let_def split: option.split)
qed

theorem ExecuteCommand_deadline_witness:
  "\<exists>status t. ExecuteCommand sys_ok 100 1 (Some ''cat'')
      \<lparr>replaceEol = False, forJson = False, maxTextResultBytes = 0, timeoutSeconds = 0, wantText = True, hasCallback = True\<rparr>
      [Polled 2 0 NotReady, SelectInterrupted, Polled 61 0 NotReady] (Exited 0) = Some (status, t)"
  by (rule ExecuteCommand_deadline [of _ 61 0 NotReady]) simp_all

end
