(* ===== verification/UserAccounts.thy ===== *)
theory UserAccounts
  imports FileProps
begin

text \<open>
  The user database as the checks of the security baseline see it (\<open>src/common/commonutils/UserUtils.c\<close>
  and the macros of \<open>src/common/logging/Reasons.h\<close>): the entries of \<open>passwd\<close>, \<open>shadow\<close> and \<open>group\<close> that the C
  library returns, copied into lists of users and groups.

  The host is a record of the files, the databases and the date. The library calls that search the
  databases are functions of it. A check returns its status and the reason, the text that the
  audit reports: \<open>None\<close> stands for a \<open>NULL\<close> argument, \<open>Some None\<close> for a reason not captured yet. The
  memory for reasons is taken to be there.
\<close>

subsection \<open>Reasons\<close>

type_synonym reason = "cstr option"

definition SECURITY_AUDIT_PASS :: string where
  "SECURITY_AUDIT_PASS = ''PASS''"

definition to_lower :: "char \<Rightarrow> char" where
  "to_lower c = (if isupper c then char_of ((of_char c :: nat) + 32) else c)"

fun lower_first :: "string \<Rightarrow> string" where
  "lower_first [] = []"
| "lower_first (c # s) = to_lower c # s"

definition InternalOsConfigAddReason :: "string \<Rightarrow> string \<Rightarrow> string" where
  "InternalOsConfigAddReason cur msg = cur @ '', also '' @ lower_first msg"

definition OsConfigCaptureReason :: "string \<Rightarrow> reason \<Rightarrow> reason" where
  "OsConfigCaptureReason msg r =
     map_option (\<lambda>cur. case cur of
         None \<Rightarrow> Some msg
       | Some c \<Rightarrow> if prefix SECURITY_AUDIT_PASS c then Some msg else Some (InternalOsConfigAddReason c msg)) r"

definition OsConfigCaptureSuccessReason :: "string \<Rightarrow> reason \<Rightarrow> reason" where
  "OsConfigCaptureSuccessReason msg r =
     map_option (\<lambda>cur. case cur of
         None \<Rightarrow> Some (SECURITY_AUDIT_PASS @ msg)
       | Some c \<Rightarrow> if prefix SECURITY_AUDIT_PASS c then Some (InternalOsConfigAddReason c msg)
                   else Some (SECURITY_AUDIT_PASS @ msg)) r"

text \<open>The verdict of an audit is in its reason: whether it begins with \<open>PASS\<close>.\<close>

definition passes :: "reason \<Rightarrow> bool" where
  "passes r \<longleftrightarrow> (\<exists>c. r = Some (Some c) \<and> prefix SECURITY_AUDIT_PASS c)"

lemma passes_Some [simp]: "passes (Some (Some c)) \<longleftrightarrow> prefix SECURITY_AUDIT_PASS c"
  by (simp add: passes_def)

lemma passes_None [simp]: "\<not> passes None" "\<not> passes (Some None)"
  by (simp_all add: passes_def)

lemma prefix_PASS_added: "prefix SECURITY_AUDIT_PASS (InternalOsConfigAddReason c msg) \<longleftrightarrow> prefix SECURITY_AUDIT_PASS c"
proof
  assume "prefix SECURITY_AUDIT_PASS (InternalOsConfigAddReason c msg)"
  then consider "prefix SECURITY_AUDIT_PASS c"
    | z where "SECURITY_AUDIT_PASS = c @ z" "prefix z ('', also '' @ lower_first msg)"
    by (auto simp: InternalOsConfigAddReason_def prefix_append)
  then show "prefix SECURITY_AUDIT_PASS c"
  proof cases
    case (2 z)
    have "CHR '','' \<notin> set SECURITY_AUDIT_PASS" by (simp add: SECURITY_AUDIT_PASS_def)
    moreover have "set SECURITY_AUDIT_PASS = set c \<union> set z" by (subst 2(1)) simp
    ultimately have "z = []" using 2(2) by (cases z) auto
    then show ?thesis using 2(1) by simp
  qed
qed (simp add: InternalOsConfigAddReason_def)

lemma passes_success [simp]: "passes (OsConfigCaptureSuccessReason msg r) \<longleftrightarrow> r \<noteq> None"
  by (cases r; cases "the r") (auto simp: OsConfigCaptureSuccessReason_def prefix_PASS_added)

lemma passes_failure [simp]: "\<not> prefix SECURITY_AUDIT_PASS msg \<Longrightarrow> \<not> passes (OsConfigCaptureReason msg r)"
  by (cases r; cases "the r") (auto simp: OsConfigCaptureReason_def prefix_PASS_added)

lemma capture_not_None [simp]:
  "OsConfigCaptureReason msg r = None \<longleftrightarrow> r = None" "OsConfigCaptureSuccessReason msg r = None \<longleftrightarrow> r = None"
  by (simp_all add: OsConfigCaptureReason_def OsConfigCaptureSuccessReason_def)

lemma capture_None [simp]: "OsConfigCaptureReason msg None = None" "OsConfigCaptureSuccessReason msg None = None"
  by (simp_all add: OsConfigCaptureReason_def OsConfigCaptureSuccessReason_def)

text \<open>Numbers and quotes in the texts of reasons.\<close>

definition show_u :: "32 word \<Rightarrow> string" where
  "show_u w = dec (unat w)"

definition sq :: "string \<Rightarrow> string" where
  "sq s = [CHR 0x27] @ s @ [CHR 0x27]"

definition show_s :: "cstr \<Rightarrow> string" where
  "show_s s = (case s of None \<Rightarrow> ''(null)'' | Some t \<Rightarrow> t)"

subsection \<open>The host\<close>

record passwd =
  pw_name :: cstr
  pw_uid :: "32 word"
  pw_gid :: "32 word"
  pw_dir :: cstr
  pw_shell :: cstr

record spwd =
  sp_pwdp :: cstr
  sp_lstchg :: int
  sp_min :: int
  sp_max :: int
  sp_warn :: int
  sp_inact :: int
  sp_expire :: int

record group_entry =
  gr_name :: cstr
  gr_gid :: "32 word"
  gr_mem :: "string list option"

text \<open>\<open>getspnam\<close> and \<open>getgrgid\<close> may fail: then the \<open>errno\<close> is given. \<open>getgrouplist\<close> gives all groups of a user.\<close>

record host =
  host_fs :: fs
  getpwent :: "passwd list"
  getspnam :: "string \<Rightarrow> spwd option"
  spnam_errno :: "string \<Rightarrow> int"
  getgrent :: "group_entry list"
  getgrgid :: "32 word \<Rightarrow> group_entry option"
  grgid_errno :: "32 word \<Rightarrow> int"
  getgrouplist :: "string \<Rightarrow> 32 word \<Rightarrow> 32 word list"
  today :: int

datatype PasswordEncryption = unknown | md5 | blowfish | eksBlowfish | unknownBlowfish | sha256 | sha512

record SimplifiedUser =
  username :: cstr
  userId :: "32 word"
  groupId :: "32 word"
  home :: cstr
  shell :: cstr
  isRoot :: bool
  isLocked :: bool
  noLogin :: bool
  cannotLogin :: bool
  hasPassword :: bool
  notInShadow :: bool
  passwordEncryption :: PasswordEncryption
  lastPasswordChange :: int
  minimumPasswordAge :: int
  maximumPasswordAge :: int
  warningPeriod :: int
  inactivityPeriod :: int
  expirationDate :: int

record SimplifiedGroup =
  groupName :: cstr
  gid :: "32 word"
  hasUsers :: bool

subsection \<open>Users\<close>

definition ResetUserEntry :: SimplifiedUser where
  "ResetUserEntry =
     \<lparr>username = None, userId = - 1, groupId = - 1, home = None, shell = None, isRoot = False, isLocked = False,
      noLogin = False, cannotLogin = False, hasPassword = False, notInShadow = False, passwordEncryption = unknown,
      lastPasswordChange = 0, minimumPasswordAge = 0, maximumPasswordAge = 0, warningPeriod = 0,
      inactivityPeriod = 0, expirationDate = 0\<rparr>"

text \<open>An empty field of an entry is not copied.\<close>

definition nonempty :: "cstr \<Rightarrow> cstr" where
  "nonempty s = (case s of None \<Rightarrow> None | Some t \<Rightarrow> if t = [] then None else Some t)"

definition copy_fails :: "sys \<Rightarrow> string \<Rightarrow> nat \<Rightarrow> cstr \<Rightarrow> bool" where
  "copy_fails m site i s \<longleftrightarrow> nonempty s \<noteq> None \<and> m site i \<noteq> 0"

definition CopyUserEntry :: "sys \<Rightarrow> nat \<Rightarrow> passwd \<Rightarrow> int \<times> SimplifiedUser" where
  "CopyUserEntry m i e =
     (if copy_fails m ''pw_name'' i (pw_name e) \<or> copy_fails m ''pw_dir'' i (pw_dir e) \<or>
         copy_fails m ''pw_shell'' i (pw_shell e)
      then (ENOMEM, ResetUserEntry)
      else (0, ResetUserEntry
        \<lparr>username := nonempty (pw_name e), userId := pw_uid e, groupId := pw_gid e,
         isRoot := (pw_uid e = 0 \<and> pw_gid e = 0), home := nonempty (pw_dir e), shell := nonempty (pw_shell e)\<rparr>))"

definition EncryptionName :: "PasswordEncryption \<Rightarrow> string" where
  "EncryptionName e =
     (case e of md5 \<Rightarrow> ''MD5'' | blowfish \<Rightarrow> ''blowfish'' | eksBlowfish \<Rightarrow> ''eksblowfish''
      | unknownBlowfish \<Rightarrow> ''unknown blowFish'' | sha256 \<Rightarrow> ''SHA256'' | sha512 \<Rightarrow> ''SHA512''
      | unknown \<Rightarrow> ''unknown default'')"

definition g_noLoginShell :: "string list" where
  "g_noLoginShell = [''/usr/sbin/nologin'', ''/sbin/nologin'', ''/bin/false'', ''/bin/true'', ''/usr/bin/true'',
     ''/usr/bin/false'', ''/dev/null'', [] ]"

definition IsUserNonLogin :: "SimplifiedUser \<Rightarrow> bool" where
  "IsUserNonLogin u = (case shell u of None \<Rightarrow> False | Some s \<Rightarrow> s \<in> set g_noLoginShell)"

definition IsSystemAccount :: "SimplifiedUser \<Rightarrow> bool" where
  "IsSystemAccount u \<longleftrightarrow> username u = Some ''root'' \<or> IsUserNonLogin u \<or> userId u < 1000"

definition IsSystemGroup :: "SimplifiedGroup \<Rightarrow> bool" where
  "IsSystemGroup g \<longleftrightarrow> groupName g = Some ''root'' \<or> gid g < 1000"

text \<open>The algorithm named in an encrypted password; a string that ends is followed by a NUL byte.\<close>

definition byte_at :: "string \<Rightarrow> nat \<Rightarrow> char" where
  "byte_at s i = (if i < length s then s ! i else NUL)"

definition password_algorithm :: "string \<Rightarrow> PasswordEncryption" where
  "password_algorithm s =
     (if byte_at s 1 = CHR ''1'' then md5
      else if byte_at s 1 = CHR ''2'' then
        (if byte_at s 2 = CHR ''a'' then blowfish else if byte_at s 2 = CHR ''y'' then eksBlowfish else unknownBlowfish)
      else if byte_at s 1 = CHR ''5'' then sha256
      else if byte_at s 1 = CHR ''6'' then sha512
      else unknown)"

definition CheckIfUserHasPassword :: "host \<Rightarrow> SimplifiedUser \<Rightarrow> int \<times> SimplifiedUser" where
  "CheckIfUserHasPassword w u =
     (case username u of
        None \<Rightarrow> (EINVAL, u)
      | Some n \<Rightarrow>
          (let u1 = u\<lparr>noLogin := IsUserNonLogin u\<rparr>
           in if noLogin u1 then (0, u1)
              else (case getspnam w n of
                 Some e \<Rightarrow>
                   (let p = (case sp_pwdp e of None \<Rightarrow> ''n'' | Some p \<Rightarrow> p); control = byte_at p 0
                    in if control = CHR ''$'' then
                         (0, u1\<lparr>passwordEncryption := password_algorithm p, hasPassword := True,
                                lastPasswordChange := sp_lstchg e, minimumPasswordAge := sp_min e,
                                maximumPasswordAge := sp_max e, warningPeriod := sp_warn e,
                                inactivityPeriod := sp_inact e, expirationDate := sp_expire e\<rparr>)
                       else if control = CHR ''!'' then (0, u1\<lparr>hasPassword := False, isLocked := True\<rparr>)
                       else if control = CHR ''*'' then (0, u1\<lparr>hasPassword := False, cannotLogin := True\<rparr>)
                       else (0, u1\<lparr>hasPassword := False\<rparr>))
               | None \<Rightarrow>
                   if spnam_errno w n = 0 then (0, u1\<lparr>hasPassword := False, notInShadow := True\<rparr>)
                   else (ENOENT, u1))))"

text \<open>The loop over the entries: the users before the first entry that fails, and its status.\<close>

fun copy_users :: "sys \<Rightarrow> host \<Rightarrow> nat \<Rightarrow> passwd list \<Rightarrow> int \<times> SimplifiedUser list" where
  "copy_users m w i [] = (0, [])"
| "copy_users m w i (e # es) =
     (case CopyUserEntry m i e of
        (s1, u) \<Rightarrow>
          if s1 \<noteq> 0 then (s1, [])
          else (case CheckIfUserHasPassword w u of
             (s2, u') \<Rightarrow>
               if s2 \<noteq> 0 then (s2, [])
               else (case copy_users m w (Suc i) es of (s, us) \<Rightarrow> (s, u' # us))))"

definition enumerate_failed :: "string \<Rightarrow> int \<Rightarrow> string" where
  "enumerate_failed what status =
     ''Failed to enumerate '' @ what @ '' ('' @ print_int status @ ''). '' @
     (if what = ''user groups'' then ''User group database'' else ''User database'') @
     '' may be corrupt. Automatic remediation is not possible''"

definition EnumerateUsers :: "sys \<Rightarrow> reason \<Rightarrow> host \<Rightarrow> int \<times> SimplifiedUser list \<times> reason" where
  "EnumerateUsers m r w =
     (let n = GetNumberOfLinesInFile (nested ''passwd'' m) (Some ''/etc/passwd'') (host_fs w);
          (status, users) =
            (if n = 0 then (EPERM, [])
             else if m ''malloc.users'' 0 \<noteq> 0 then (ENOMEM, [])
             else copy_users m w 0 (take (unat n) (getpwent w)))
      in (status, users, if status \<noteq> 0 then OsConfigCaptureReason (enumerate_failed ''users'' status) r else r))"

subsection \<open>Groups\<close>

definition no_group :: SimplifiedGroup where
  "no_group = \<lparr>groupName = None, gid = 0, hasUsers = False\<rparr>"

text \<open>The loop over the identifiers of the groups of a user. A group without a name is stored in the
  slot of the next group, which overwrites it; a group that does not exist is left out of the size.\<close>

fun copy_user_groups ::
  "sys \<Rightarrow> host \<Rightarrow> nat \<Rightarrow> 32 word list \<Rightarrow> nat \<Rightarrow> SimplifiedGroup \<Rightarrow> int \<times> nat \<times> SimplifiedGroup list \<times> SimplifiedGroup" where
  "copy_user_groups m w i [] n slot = (0, n, [], slot)"
| "copy_user_groups m w i (g # gs) n slot =
     (case getgrgid w g of
        Some e \<Rightarrow>
          (case nonempty (gr_name e) of
             None \<Rightarrow> copy_user_groups m w (Suc i) gs n \<lparr>groupName = None, gid = gr_gid e, hasUsers = True\<rparr>
           | Some nm \<Rightarrow>
               if m ''malloc.groupName'' i \<noteq> 0 then (ENOMEM, n, [], slot)
               else (case copy_user_groups m w (Suc i) gs n no_group of
                  (s, n', xs, slot') \<Rightarrow> (s, n', \<lparr>groupName = Some nm, gid = gr_gid e, hasUsers = True\<rparr> # xs, slot')))
      | None \<Rightarrow>
          if grgid_errno w g = 0 then copy_user_groups m w (Suc i) gs (n - 1) slot
          else (grgid_errno w g, n, [], slot))"

text \<open>The first call of \<open>getgrouplist\<close> has room for 32 groups; when there are more, a second call follows
  with the room that was asked for. The list is given for the status 0 only.\<close>

definition EnumerateUserGroups :: "sys \<Rightarrow> SimplifiedUser \<Rightarrow> reason \<Rightarrow> host \<Rightarrow> int \<times> SimplifiedGroup list \<times> reason" where
  "EnumerateUserGroups m u r w =
     (case username u of
        None \<Rightarrow> (ENOENT, [], r)
      | Some nm \<Rightarrow>
          (let gids = getgrouplist w nm (groupId u);
               (status, groups) =
                 (if m ''malloc.groupIds'' 0 \<noteq> 0 then (ENOMEM, [])
                  else if 32 < length gids \<and> m ''malloc.groupIds'' 1 \<noteq> 0 then (ENOMEM, [])
                  else if gids = [] then (0, [])
                  else if m ''malloc.groupList'' 0 \<noteq> 0 then (ENOMEM, [])
                  else (case copy_user_groups m w 0 gids (length gids) no_group of
                     (s, n, xs, slot) \<Rightarrow>
                       if s \<noteq> 0 then (s, [])
                       else (0, take n (xs @ slot # replicate n no_group))))
           in (status, groups,
               if status \<noteq> 0 then OsConfigCaptureReason (enumerate_failed ''groups for users'' status) r else r)))"

fun copy_groups :: "sys \<Rightarrow> nat \<Rightarrow> group_entry list \<Rightarrow> int \<times> SimplifiedGroup list" where
  "copy_groups m i [] = (0, [])"
| "copy_groups m i (e # es) =
     (if nonempty (gr_name e) \<noteq> None \<and> m ''malloc.groupName'' i \<noteq> 0 then (ENOMEM, [])
      else (case copy_groups m (Suc i) es of
         (s, gs) \<Rightarrow>
           (s, \<lparr>groupName = nonempty (gr_name e), gid = gr_gid e,
                hasUsers = (case gr_mem e of Some (x # xs) \<Rightarrow> x \<noteq> [] | _ \<Rightarrow> False)\<rparr> # gs)))"

definition EnumerateAllGroups :: "sys \<Rightarrow> reason \<Rightarrow> host \<Rightarrow> int \<times> SimplifiedGroup list \<times> reason" where
  "EnumerateAllGroups m r w =
     (let n = GetNumberOfLinesInFile (nested ''group'' m) (Some ''/etc/group'') (host_fs w);
          (status, groups) =
            (if n = 0 then (EPERM, [])
             else if m ''malloc.groups'' 0 \<noteq> 0 then (ENOMEM, [])
             else copy_groups m 0 (take (unat n) (getgrent w)))
      in (status, groups, if status \<noteq> 0 then OsConfigCaptureReason (enumerate_failed ''user groups'' status) r else r))"

end
