(* ===== verification/UserChecks.thy ===== *)
theory UserChecks
  imports UserAccounts
begin

text \<open>
  Audits and remediations of accounts and groups (\<open>UserUtils.c\<close>). A remediation runs programs of the
  system (\<open>userdel\<close>, \<open>usermod\<close>, \<open>gpasswd\<close> and others) through \<open>ExecuteCommand\<close>: \<open>exec\<close> is what the shell makes of a
  command, its exit status and output and what it changes on the host. \<open>None\<close> is a \<open>NULL\<close> pointer
  that is followed.
\<close>

type_synonym exec = "string \<Rightarrow> host \<Rightarrow> int \<times> cstr \<times> host"

definition ESRCH :: int where [codes]: "ESRCH = 3"

text \<open>A remediation keeps the first error.\<close>

definition first_error :: "int \<Rightarrow> int \<Rightarrow> int" where
  "first_error status s = (if status = 0 then s else status)"

text \<open>The name of an account or a group in a text: system accounts and groups in the clear.\<close>

definition shown_user :: "SimplifiedUser \<Rightarrow> string" where
  "shown_user u = (if IsSystemAccount u then show_s (username u) else ''***'')"

definition shown_group :: "SimplifiedGroup \<Rightarrow> string" where
  "shown_group g = (if IsSystemGroup g then show_s (groupName g) else ''***'')"

subsection \<open>Groups of users\<close>

fun check_user_groups ::
  "sys \<Rightarrow> host \<Rightarrow> SimplifiedGroup list \<Rightarrow> SimplifiedUser list \<Rightarrow> reason \<Rightarrow> int \<times> reason" where
  "check_user_groups m w groups [] r = (0, r)"
| "check_user_groups m w groups (u # us) r =
     (case EnumerateUserGroups m u r w of
        (status, ugs, r1) \<Rightarrow>
          if status \<noteq> 0 then (status, r1)
          else (case find (\<lambda>g. gid g \<notin> gid ` set groups) ugs of
             None \<Rightarrow> check_user_groups m w groups us r1
           | Some g \<Rightarrow>
               (ENOENT, OsConfigCaptureReason
                  (''Group '' @ show_u (gid g) @ '' of user '' @ show_u (userId u) @ '' not found in '' @ sq ''/etc/group'') r1)))"

definition CheckAllEtcPasswdGroupsExistInEtcGroup :: "sys \<Rightarrow> reason \<Rightarrow> host \<Rightarrow> int \<times> reason" where
  "CheckAllEtcPasswdGroupsExistInEtcGroup m r w =
     (case EnumerateUsers (nested ''Users'' m) r w of
        (s1, users, r1) \<Rightarrow>
          if s1 \<noteq> 0 then (s1, r1)
          else (case EnumerateAllGroups (nested ''Groups'' m) r1 w of
             (s2, groups, r2) \<Rightarrow>
               if s2 \<noteq> 0 then (s2, r2)
               else (case check_user_groups (nested ''UserGroups'' m) w groups users r2 of
                  (status, r3) \<Rightarrow>
                    (status,
                     if status = 0
                     then OsConfigCaptureSuccessReason
                       (''All user groups in '' @ sq ''/etc/passwd'' @ '' exist in '' @ sq ''/etc/group'') r3
                     else r3))))"

text \<open>The groups of one user, while no command has failed.\<close>

fun remove_from_groups ::
  "sys \<Rightarrow> exec \<Rightarrow> SimplifiedGroup list \<Rightarrow> SimplifiedUser \<Rightarrow> nat \<Rightarrow> SimplifiedGroup list \<Rightarrow> host \<Rightarrow> int \<times> host" where
  "remove_from_groups m exec groups u i [] w = (0, w)"
| "remove_from_groups m exec groups u i (g # gs) w =
     (if gid g \<in> gid ` set groups then remove_from_groups m exec groups u (Suc i) gs w
      else if m ''FormatAllocateString'' i \<noteq> 0 then (ENOMEM, w)
      else (case exec (''gpasswd -d '' @ show_u (userId u) @ '' '' @ show_u (gid g)) w of
         (s, _, w') \<Rightarrow> if s \<noteq> 0 then (s, w') else remove_from_groups m exec groups u (Suc i) gs w'))"

fun remove_users_from_groups ::
  "sys \<Rightarrow> exec \<Rightarrow> SimplifiedGroup list \<Rightarrow> SimplifiedUser list \<Rightarrow> host \<Rightarrow> int \<times> host" where
  "remove_users_from_groups m exec groups [] w = (0, w)"
| "remove_users_from_groups m exec groups (u # us) w =
     (case EnumerateUserGroups m u None w of
        (s, ugs, _) \<Rightarrow>
          if s \<noteq> 0 then (s, w)
          else (case remove_from_groups m exec groups u 0 ugs w of
             (s', w') \<Rightarrow> if s' \<noteq> 0 then (s', w') else remove_users_from_groups m exec groups us w'))"

definition SetAllEtcPasswdGroupsToExistInEtcGroup :: "sys \<Rightarrow> exec \<Rightarrow> host \<Rightarrow> int \<times> host" where
  "SetAllEtcPasswdGroupsToExistInEtcGroup m exec w =
     (case EnumerateUsers (nested ''Users'' m) None w of
        (s1, users, _) \<Rightarrow>
          if s1 \<noteq> 0 then (s1, w)
          else (case EnumerateAllGroups (nested ''Groups'' m) None w of
             (s2, groups, _) \<Rightarrow>
               if s2 \<noteq> 0 then (s2, w)
               else remove_users_from_groups (nested ''UserGroups'' m) exec groups users w))"

subsection \<open>Duplicates\<close>

text \<open>The first element that occurs more than once: the outer loop stops at it, the inner loop counts
  the elements that are equal to it.\<close>

definition first_duplicate :: "('a \<Rightarrow> 'a \<Rightarrow> bool) \<Rightarrow> 'a list \<Rightarrow> 'a option" where
  "first_duplicate eq xs = find (\<lambda>x. 1 < length (filter (eq x) xs)) xs"

definition CheckNoDuplicateUidsExist :: "sys \<Rightarrow> reason \<Rightarrow> host \<Rightarrow> int \<times> reason" where
  "CheckNoDuplicateUidsExist m r w =
     (case EnumerateUsers m r w of
        (status, users, r1) \<Rightarrow>
          if status \<noteq> 0 then (status, r1)
          else (case first_duplicate (\<lambda>u v. userId u = userId v) users of
             Some u \<Rightarrow>
               (EEXIST, OsConfigCaptureReason
                  (''Uid '' @ show_u (userId u) @ '' appears more than a single time in '' @ sq ''/etc/passwd'') r1)
           | None \<Rightarrow> (0, OsConfigCaptureSuccessReason (''No duplicate uids exist in '' @ sq ''/etc/passwd'') r1)))"

definition CheckNoDuplicateGidsExist :: "sys \<Rightarrow> reason \<Rightarrow> host \<Rightarrow> int \<times> reason" where
  "CheckNoDuplicateGidsExist m r w =
     (case EnumerateAllGroups m r w of
        (status, groups, r1) \<Rightarrow>
          if status \<noteq> 0 then (status, r1)
          else (case first_duplicate (\<lambda>g h. gid g = gid h) groups of
             Some g \<Rightarrow>
               (EEXIST, OsConfigCaptureReason
                  (''Gid '' @ show_u (gid g) @ '' appears more than a single time in '' @ sq ''/etc/group'') r1)
           | None \<Rightarrow>
               (0, OsConfigCaptureSuccessReason (''No duplicate gids (group ids) exist in '' @ sq ''/etc/group'') r1)))"

definition CheckNoDuplicateUserNamesExist :: "sys \<Rightarrow> reason \<Rightarrow> host \<Rightarrow> int \<times> reason" where
  "CheckNoDuplicateUserNamesExist m r w =
     (case EnumerateUsers m r w of
        (status, users, r1) \<Rightarrow>
          if status \<noteq> 0 then (status, r1)
          else (case first_duplicate (\<lambda>u v. username u \<noteq> None \<and> username u = username v) users of
             Some u \<Rightarrow>
               (EEXIST, OsConfigCaptureReason
                  (''User '' @ show_u (userId u) @ '' appears more than a single time in '' @ sq ''/etc/passwd'') r1)
           | None \<Rightarrow> (0, OsConfigCaptureSuccessReason (''No duplicate usernames exist in '' @ sq ''/etc/passwd'') r1)))"

text \<open>The names of groups are compared without a check for \<open>NULL\<close>. The inner loop, with its counter, and
  the outer loop.\<close>

fun name_hits :: "cstr \<Rightarrow> nat \<Rightarrow> SimplifiedGroup list \<Rightarrow> bool option" where
  "name_hits nm hits [] = Some False"
| "name_hits nm hits (g # gs) =
     (case (nm, groupName g) of
        (Some a, Some b) \<Rightarrow>
          if a = b then (if 1 < hits + 1 then Some True else name_hits nm (hits + 1) gs) else name_hits nm hits gs
      | _ \<Rightarrow> None)"

fun duplicate_name :: "SimplifiedGroup list \<Rightarrow> SimplifiedGroup list \<Rightarrow> SimplifiedGroup option option" where
  "duplicate_name groups [] = Some None"
| "duplicate_name groups (g # gs) =
     (case name_hits (groupName g) 0 groups of
        None \<Rightarrow> None
      | Some True \<Rightarrow> Some (Some g)
      | Some False \<Rightarrow> duplicate_name groups gs)"

definition CheckNoDuplicateGroupNamesExist :: "sys \<Rightarrow> reason \<Rightarrow> host \<Rightarrow> (int \<times> reason) option" where
  "CheckNoDuplicateGroupNamesExist m r w =
     (case EnumerateAllGroups m r w of
        (status, groups, r1) \<Rightarrow>
          if status \<noteq> 0 then Some (status, r1)
          else (case duplicate_name groups groups of
             None \<Rightarrow> None
           | Some (Some g) \<Rightarrow>
               Some (EEXIST, OsConfigCaptureReason
                 (''Group '' @ show_u (gid g) @ '' ('' @ sq (shown_group g) @ '') appears more than a single time in '' @
                  sq ''/etc/group'') r1)
           | Some None \<Rightarrow>
               Some (0, OsConfigCaptureSuccessReason (''No duplicate group names exist in '' @ sq ''/etc/group'') r1)))"

subsection \<open>Removal of users\<close>

definition RemoveUser :: "sys \<Rightarrow> exec \<Rightarrow> SimplifiedUser \<Rightarrow> host \<Rightarrow> int \<times> host" where
  "RemoveUser m exec u w =
     (case username u of
        None \<Rightarrow> (EINVAL, w)
      | Some nm \<Rightarrow>
          if userId u = 0 then (EPERM, w)
          else if notInShadow u then (EPERM, w)
          else if m ''FormatAllocateString.userdel'' 0 \<noteq> 0 then (ENOMEM, w)
          else (case exec (''userdel -f '' @ nm) w of (s, _, w') \<Rightarrow> (s, w')))"

definition needs_password :: "SimplifiedUser \<Rightarrow> bool" where
  "needs_password u \<longleftrightarrow> \<not> hasPassword u \<and> \<not> noLogin u \<and> \<not> isLocked u \<and> \<not> cannotLogin u \<and> \<not> notInShadow u"

definition CheckAllUsersHavePasswordsSet :: "sys \<Rightarrow> reason \<Rightarrow> host \<Rightarrow> int \<times> reason" where
  "CheckAllUsersHavePasswordsSet m r w =
     (case EnumerateUsers m r w of
        (s, users, r1) \<Rightarrow>
          if s \<noteq> 0 then (s, r1)
          else (case fold (\<lambda>u (status, r).
                   if needs_password u
                   then (ENOENT, OsConfigCaptureReason
                           (''User '' @ show_u (userId u) @ '' ('' @ sq (shown_user u) @ '')  not found to have a password set'') r)
                   else (status, r)) users (0, r1) of
             (status, r2) \<Rightarrow>
               (status, if status = 0
                        then OsConfigCaptureSuccessReason ''All users who need passwords appear to have passwords set'' r2
                        else r2)))"

text \<open>One step of the loop that removes: the root account is left alone.\<close>

definition RemoveUsersWithoutPasswords :: "sys \<Rightarrow> exec \<Rightarrow> host \<Rightarrow> int \<times> host" where
  "RemoveUsersWithoutPasswords m exec w =
     (case EnumerateUsers (nested ''Users'' m) None w of
        (s, users, _) \<Rightarrow>
          if s \<noteq> 0 then (s, w)
          else fold (\<lambda>u (status, w).
                 if \<not> needs_password u then (status, w)
                 else if userId u = 0 then (EPERM, w)
                 else (case RemoveUser m exec u w of (s', w') \<Rightarrow> (first_error status s', w'))) users (0, w))"

definition uid_zero_not_root :: "SimplifiedUser \<Rightarrow> bool" where
  "uid_zero_not_root u \<longleftrightarrow> username u \<noteq> Some ''root'' \<and> userId u = 0"

definition CheckRootIsOnlyUidZeroAccount :: "sys \<Rightarrow> reason \<Rightarrow> host \<Rightarrow> int \<times> reason" where
  "CheckRootIsOnlyUidZeroAccount m r w =
     (case EnumerateUsers m r w of
        (s, users, r1) \<Rightarrow>
          if s \<noteq> 0 then (s, r1)
          else (case fold (\<lambda>u (status, r).
                   if uid_zero_not_root u
                   then (EACCES, OsConfigCaptureReason
                           (''User '' @ sq (shown_user u) @ '' ('' @ show_u (userId u) @ '', '' @ show_u (groupId u) @
                            '') is not root but has uid 0'') r)
                   else (status, r)) users (0, r1) of
             (status, r2) \<Rightarrow>
               (status, if status = 0
                        then OsConfigCaptureSuccessReason ''All users who are not root have uids (user ids) greater than 0'' r2
                        else r2)))"

definition SetRootIsOnlyUidZeroAccount :: "sys \<Rightarrow> exec \<Rightarrow> host \<Rightarrow> int \<times> host" where
  "SetRootIsOnlyUidZeroAccount m exec w =
     (case EnumerateUsers (nested ''Users'' m) None w of
        (s, users, _) \<Rightarrow>
          if s \<noteq> 0 then (s, w)
          else fold (\<lambda>u (status, w).
                 if uid_zero_not_root u
                 then (case RemoveUser m exec u w of (s', w') \<Rightarrow> (first_error status s', w'))
                 else (status, w)) users (0, w))"

end
