(* ===== verification/UserGroups.thy ===== *)
theory UserGroups
  imports UserChecks
begin

text \<open>
  The special groups \<open>root\<close> and \<open>shadow\<close>, system accounts, and accounts by name (\<open>UserUtils.c\<close>).
\<close>

subsection \<open>The shadow group\<close>

fun find_shadow :: "SimplifiedGroup list \<Rightarrow> SimplifiedGroup option option" where
  "find_shadow [] = Some None"
| "find_shadow (g # gs) =
     (case groupName g of
        None \<Rightarrow> None
      | Some nm \<Rightarrow> if nm = ''shadow'' then Some (Some g) else find_shadow gs)"

definition CheckShadowGroupIsEmpty :: "sys \<Rightarrow> reason \<Rightarrow> host \<Rightarrow> (int \<times> reason) option" where
  "CheckShadowGroupIsEmpty m r w =
     (case EnumerateAllGroups m r w of
        (status, groups, r1) \<Rightarrow>
          if status \<noteq> 0 then Some (status, r1)
          else (case find_shadow groups of
             None \<Rightarrow> None
           | Some (Some g) \<Rightarrow>
               if hasUsers g
               then Some (ENOENT, OsConfigCaptureReason
                      (''Group '' @ sq ''shadow'' @ '' is not empty: '' @ show_u (gid g)) r1)
               else Some (0, OsConfigCaptureSuccessReason (''The '' @ sq ''shadow'' @ '' group is empty'') r1)
           | Some None \<Rightarrow>
               Some (0, OsConfigCaptureSuccessReason (''The '' @ sq ''shadow'' @ '' group is not found'') r1)))"

text \<open>The groups of one user; the status of the user's enumeration is 0 at the start.\<close>

fun leave_shadow ::
  "sys \<Rightarrow> exec \<Rightarrow> SimplifiedUser \<Rightarrow> nat \<Rightarrow> SimplifiedGroup list \<Rightarrow> int \<Rightarrow> host \<Rightarrow> (int \<times> host) option" where
  "leave_shadow m exec u i [] status w = Some (status, w)"
| "leave_shadow m exec u i (g # gs) status w =
     (case groupName g of
        None \<Rightarrow> None
      | Some nm \<Rightarrow>
          if nm \<noteq> ''shadow'' then leave_shadow m exec u (Suc i) gs status w
          else if m ''FormatAllocateString'' i \<noteq> 0
          then leave_shadow m exec u (Suc i) gs (first_error status ENOMEM) w
          else (case exec (''gpasswd -d '' @ show_s (username u) @ '' shadow'') w of
             (s, _, w') \<Rightarrow>
               leave_shadow m exec u (Suc i) gs
                 (first_error status (if s = ESRCH \<or> s = ENOENT then 0 else s)) w'))"

text \<open>Each user overwrites the status of the users before.\<close>

fun all_leave_shadow ::
  "sys \<Rightarrow> exec \<Rightarrow> SimplifiedUser list \<Rightarrow> int \<Rightarrow> host \<Rightarrow> (int \<times> host) option" where
  "all_leave_shadow m exec [] status w = Some (status, w)"
| "all_leave_shadow m exec (u # us) status w =
     (case EnumerateUserGroups m u None w of
        (s, groups, _) \<Rightarrow>
          if s \<noteq> 0 then all_leave_shadow m exec us s w
          else (case leave_shadow m exec u 0 groups 0 w of
             None \<Rightarrow> None
           | Some (s', w') \<Rightarrow> all_leave_shadow m exec us s' w'))"

definition SetShadowGroupEmpty :: "sys \<Rightarrow> exec \<Rightarrow> host \<Rightarrow> (int \<times> host) option" where
  "SetShadowGroupEmpty m exec w =
     (case EnumerateUsers (nested ''Users'' m) None w of
        (s, users, _) \<Rightarrow>
          if s \<noteq> 0 then Some (s, w)
          else all_leave_shadow (nested ''UserGroups'' m) exec users 0 w)"

subsection \<open>The root group\<close>

fun find_root_group :: "SimplifiedGroup list \<Rightarrow> bool option" where
  "find_root_group [] = Some False"
| "find_root_group (g # gs) =
     (case groupName g of
        None \<Rightarrow> None
      | Some nm \<Rightarrow> if nm = ''root'' \<and> gid g = 0 then Some True else find_root_group gs)"

definition CheckRootGroupExists :: "sys \<Rightarrow> reason \<Rightarrow> host \<Rightarrow> (int \<times> reason) option" where
  "CheckRootGroupExists m r w =
     (case EnumerateAllGroups m r w of
        (status, groups, r1) \<Rightarrow>
          (case (if status = 0 then find_root_group groups else Some False) of
             None \<Rightarrow> None
           | Some True \<Rightarrow> Some (status, OsConfigCaptureSuccessReason ''Root group exists with gid 0'' r1)
           | Some False \<Rightarrow> Some (ENOENT, OsConfigCaptureReason ''Root group with gid 0 not found'' r1)))"

definition etc_group :: string where "etc_group = ''/etc/group''"
definition temp_group :: string where "temp_group = ''/etc/~group''"
definition root_line :: string where "root_line = ''root:x:0:'' @ [EOL]"

text \<open>The repair by way of a temporary file, when no root group was found.\<close>

definition repair_group_file :: "sys \<Rightarrow> nat \<Rightarrow> fs \<Rightarrow> int \<times> fs" where
  "repair_group_file m rnd st =
     (case LoadStringFromFile (nested ''Load'' m) (Some etc_group) False st of
        None \<Rightarrow> (EACCES, st)
      | Some original \<Rightarrow>
          (case SavePayloadToFile (nested ''Save'' m) (Some temp_group) (Some root_line) st of
             (saved, st1) \<Rightarrow>
               if \<not> saved then (EPERM, st1)
               else (case ReplaceMarkedLinesInFile (nested ''Replace'' m) rnd (Some temp_group) (Some ''root'') None
                            CHR ''#'' False st1 of
                  (s, st2) \<Rightarrow>
                    if s \<noteq> 0 then (s, st2)
                    else (case LoadStringFromFile (nested ''Reload'' m) (Some temp_group) False st2 of
                       None \<Rightarrow> (EACCES, st2)
                     | Some cleaned \<Rightarrow>
                         (case SavePayloadToFile (nested ''Resave'' m) (Some temp_group) (Some root_line)
                                 (remove_file temp_group st2) of
                            (saved', st3) \<Rightarrow>
                              if \<not> saved' then (s, st3)
                              else (case AppendPayloadToFile (nested ''Append'' m) (Some temp_group) (Some cleaned) st3 of
                                 (appended, st4) \<Rightarrow>
                                   if \<not> appended then (ENOENT, remove_file temp_group st4)
                                   else (case RenameFileWithOwnerAndAccess (nested ''Rename'' m) (Some temp_group)
                                                (Some etc_group) st4 of
                                      (s', st5) \<Rightarrow> (s', remove_file temp_group st5))))))))"

definition RepairRootGroup :: "sys \<Rightarrow> nat \<Rightarrow> host \<Rightarrow> (int \<times> host) option" where
  "RepairRootGroup m rnd w =
     (case EnumerateAllGroups (nested ''Groups'' m) None w of
        (status, groups, _) \<Rightarrow>
          (case (if status = 0 then find_root_group groups else Some False) of
             None \<Rightarrow> None
           | Some True \<Rightarrow> Some (status, w)
           | Some False \<Rightarrow>
               (case repair_group_file m rnd (host_fs w) of (s, st) \<Rightarrow> Some (s, w\<lparr>host_fs := st\<rparr>))))"

definition CheckDefaultRootAccountGroupIsGidZero :: "sys \<Rightarrow> reason \<Rightarrow> host \<Rightarrow> int \<times> reason" where
  "CheckDefaultRootAccountGroupIsGidZero m r w =
     (case EnumerateUsers m r w of
        (s, users, r1) \<Rightarrow>
          if s \<noteq> 0 then (s, r1)
          else (case fold (\<lambda>u (status, r).
                   if username u = Some ''root'' \<and> userId u = 0 \<and> groupId u \<noteq> 0
                   then (EPERM, OsConfigCaptureReason
                           (''Root user '' @ sq ''root'' @ '' ('' @ show_u (userId u) @ '') has default gid '' @
                            show_u (groupId u) @ '' instead of gid 0'') r)
                   else (status, r)) users (0, r1) of
             (status, r2) \<Rightarrow>
               (status, if status = 0 then OsConfigCaptureSuccessReason ''Default root group is gid 0'' r2 else r2)))"

definition SetDefaultRootAccountGroupIsGidZero :: "sys \<Rightarrow> nat \<Rightarrow> host \<Rightarrow> (int \<times> host) option" where
  "SetDefaultRootAccountGroupIsGidZero m rnd w =
     (if fst (CheckDefaultRootAccountGroupIsGidZero (nested ''Check'' m) None w) = 0 then Some (0, w)
      else RepairRootGroup (nested ''Repair'' m) rnd w)"

subsection \<open>Accounts that do not log in\<close>

text \<open>The shells are tried in order until \<open>usermod\<close> accepts one.\<close>

fun try_shells :: "sys \<Rightarrow> exec \<Rightarrow> string \<Rightarrow> nat \<Rightarrow> string list \<Rightarrow> int \<Rightarrow> host \<Rightarrow> int \<times> host" where
  "try_shells m exec nm i [] status w = (status, w)"
| "try_shells m exec nm i (sh # shs) status w =
     (if \<not> FileExists (Some sh) (host_fs w) then try_shells m exec nm (Suc i) shs status w
      else if m ''FormatAllocateString.usermod'' i \<noteq> 0 then (ENOMEM, w)
      else (case exec (''usermod -s '' @ sh @ '' '' @ nm) w of
         (s, _, w') \<Rightarrow> if s = 0 \<or> s = ENOMEM then (s, w') else try_shells m exec nm (Suc i) shs s w'))"

definition SetUserNonLogin :: "sys \<Rightarrow> exec \<Rightarrow> SimplifiedUser \<Rightarrow> host \<Rightarrow> int \<times> host" where
  "SetUserNonLogin m exec u w =
     (case username u of
        None \<Rightarrow> (EINVAL, w)
      | Some nm \<Rightarrow> if IsUserNonLogin u then (0, w) else try_shells m exec nm 0 g_noLoginShell ENOENT w)"

definition can_login_anyway :: "SimplifiedUser \<Rightarrow> bool" where
  "can_login_anyway u \<longleftrightarrow> (isLocked u \<or> noLogin u \<or> cannotLogin u) \<and> hasPassword u \<and> userId u \<noteq> 0"

definition CheckSystemAccountsAreNonLogin :: "sys \<Rightarrow> reason \<Rightarrow> host \<Rightarrow> int \<times> reason" where
  "CheckSystemAccountsAreNonLogin m r w =
     (case EnumerateUsers m r w of
        (s, users, r1) \<Rightarrow>
          if s \<noteq> 0 then (s, r1)
          else (case fold (\<lambda>u (status, r).
                   if can_login_anyway u
                   then (ENOENT, OsConfigCaptureReason
                           (''User '' @ show_u (userId u) @
                            '' is either locked, no-login, or cannot-login, but can login with password'') r)
                   else (status, r)) users (0, r1) of
             (status, r2) \<Rightarrow>
               (status, if status = 0 then OsConfigCaptureSuccessReason ''All system accounts are non-login'' r2 else r2)))"

definition SetSystemAccountsNonLogin :: "sys \<Rightarrow> exec \<Rightarrow> host \<Rightarrow> int \<times> host" where
  "SetSystemAccountsNonLogin m exec w =
     (case EnumerateUsers (nested ''Users'' m) None w of
        (s, users, _) \<Rightarrow>
          if s \<noteq> 0 then (s, w)
          else fold (\<lambda>u (status, w).
                 if \<not> can_login_anyway u then (status, w)
                 else (case SetUserNonLogin m exec u w of
                    (s1, w1) \<Rightarrow>
                      if s1 = 0 then (status, w1)
                      else (case RemoveUser m exec u w1 of (s2, w2) \<Rightarrow> (first_error status s2, w2)))) users (0, w))"

definition CheckRootPasswordForSingleUserMode :: "sys \<Rightarrow> reason \<Rightarrow> host \<Rightarrow> int \<times> reason" where
  "CheckRootPasswordForSingleUserMode m r w =
     (case EnumerateUsers m r w of
        (s, users, r1) \<Rightarrow>
          if s \<noteq> 0 then (s, r1)
          else (let rootHasPassword = (\<exists>u \<in> set users. hasPassword u \<and> isRoot u);
                    usersWithPassword = (\<exists>u \<in> set users. hasPassword u \<and> \<not> isRoot u)
                in if rootHasPassword \<and> \<not> usersWithPassword
                   then (0, OsConfigCaptureSuccessReason ''Single user mode and only root user has password'' r1)
                   else if rootHasPassword then (0, OsConfigCaptureSuccessReason ''Multi-user mode and root has password'' r1)
                   else if usersWithPassword
                   then (0, OsConfigCaptureSuccessReason ''Multi-user mode and root does not have password'' r1)
                   else (ENOENT, OsConfigCaptureReason
                           (''Single user mode and root does not have a password set, must manually set a password '' @
                            ''for root user, automatic remediation is not possible'') r1)))"

subsection \<open>Accounts by name\<close>

text \<open>The names in a list separated by commas, as the loop cuts it.\<close>

function names_in :: "string \<Rightarrow> string list" where
  "names_in s =
     (if s = [] then []
      else let nm = TruncateAtFirst s CHR '','' in nm # names_in (drop (length nm + 1) s))"
  by pat_completeness auto
termination
  by (relation "measure length") auto

declare names_in.simps [simp del]

text \<open>One entry against the names, with the status and whether a name was found so far. \<open>strcmp\<close> with the
  name of an entry that has none is undefined.\<close>

fun match_names ::
  "sys \<Rightarrow> passwd \<Rightarrow> nat \<Rightarrow> nat \<Rightarrow> string list \<Rightarrow> int \<times> bool \<times> reason \<Rightarrow> (int \<times> bool \<times> reason) option" where
  "match_names m e i j [] acc = Some acc"
| "match_names m e i j (nm # names) (status, found, r) =
     (if m (''DuplicateString.'' @ dec i) j \<noteq> 0 then Some (ENOMEM, found, r)
      else case pw_name e of
        None \<Rightarrow> None
      | Some x \<Rightarrow>
          if x = nm
          then match_names m e i (Suc j) names
                 (status, True, OsConfigCaptureReason (''User '' @ show_u (pw_uid e) @ '' is present'') r)
          else match_names m e i (Suc j) names (status, found, r))"

fun match_entries ::
  "sys \<Rightarrow> string list \<Rightarrow> nat \<Rightarrow> passwd list \<Rightarrow> int \<times> bool \<times> reason \<Rightarrow> (int \<times> bool \<times> reason) option" where
  "match_entries m names i [] acc = Some acc"
| "match_entries m names i (e # es) acc =
     (case match_names m e i 0 names acc of None \<Rightarrow> None | Some acc' \<Rightarrow> match_entries m names (Suc i) es acc')"

definition present_failed :: "int \<Rightarrow> string" where
  "present_failed status = ''Failed to check for presence of the requested user accounts ('' @ print_int status @ '')''"

definition CheckUserAccountsNotFound :: "sys \<Rightarrow> cstr \<Rightarrow> reason \<Rightarrow> host \<Rightarrow> (int \<times> reason) option" where
  "CheckUserAccountsNotFound m names r w =
     (case names of
        None \<Rightarrow> Some (EINVAL, r)
      | Some ns \<Rightarrow>
          (let n = GetNumberOfLinesInFile (nested ''passwd'' m) (Some ''/etc/passwd'') (host_fs w)
           in if n = 0 then Some (EPERM, OsConfigCaptureReason (present_failed EPERM) r)
              else (case match_entries m (names_in ns) 0 (take (unat n) (getpwent w)) (0, False, r) of
                 None \<Rightarrow> None
               | Some (status, found, r1) \<Rightarrow>
                   if status \<noteq> 0 then Some (status, OsConfigCaptureReason (present_failed status) r1)
                   else if found then Some (EEXIST, r1)
                   else Some (0, OsConfigCaptureSuccessReason
                     (''None of the requested user accounts ('' @ sq ns @ '') is present'') r1))))"

text \<open>The removal of an entry that is named, once for each time it is named: a later copy of the entry
  resets the status. The loop over the entries ends with the first status that is not 0.\<close>

fun remove_matching ::
  "sys \<Rightarrow> exec \<Rightarrow> passwd \<Rightarrow> nat \<Rightarrow> nat \<Rightarrow> string list \<Rightarrow> int \<Rightarrow> host \<Rightarrow> (int \<times> host) option" where
  "remove_matching m exec e i j [] status w = Some (status, w)"
| "remove_matching m exec e i j (nm # names) status w =
     (if m (''DuplicateString.'' @ dec i) j \<noteq> 0 then Some (ENOMEM, w)
      else case pw_name e of
        None \<Rightarrow> None
      | Some x \<Rightarrow>
          if x \<noteq> nm then remove_matching m exec e i (Suc j) names status w
          else (case CopyUserEntry m i e of
             (s, u) \<Rightarrow>
               if s \<noteq> 0 then Some (s, w)
               else (case RemoveUser m exec u w of (s', w') \<Rightarrow> remove_matching m exec e i (Suc j) names s' w')))"

fun remove_named :: "sys \<Rightarrow> exec \<Rightarrow> string list \<Rightarrow> nat \<Rightarrow> passwd list \<Rightarrow> host \<Rightarrow> (int \<times> host) option" where
  "remove_named m exec names i [] w = Some (0, w)"
| "remove_named m exec names i (e # es) w =
     (case remove_matching m exec e i 0 names 0 w of
        None \<Rightarrow> None
      | Some (status, w') \<Rightarrow>
          if status \<noteq> 0 then Some (status, w') else remove_named m exec names (Suc i) es w')"

definition RemoveUserAccounts :: "sys \<Rightarrow> exec \<Rightarrow> cstr \<Rightarrow> host \<Rightarrow> (int \<times> host) option" where
  "RemoveUserAccounts m exec names w =
     (case names of
        None \<Rightarrow> Some (EINVAL, w)
      | Some ns \<Rightarrow>
          (let n = GetNumberOfLinesInFile (nested ''passwd'' m) (Some ''/etc/passwd'') (host_fs w)
           in if n = 0 then Some (EPERM, w)
              else (case CheckUserAccountsNotFound (nested ''Check'' m) names None w of
                 None \<Rightarrow> None
               | Some (s, _) \<Rightarrow>
                   if s = 0 then Some (0, w)
                   else remove_named m exec (names_in ns) 0 (take (unat n) (getpwent w)) w)))"

definition CheckUserExists :: "cstr \<Rightarrow> reason \<Rightarrow> host \<Rightarrow> int \<times> reason" where
  "CheckUserExists nm r w =
     (case (case nm of None \<Rightarrow> None | Some n \<Rightarrow> find (\<lambda>e. pw_name e = Some n) (getpwent w)) of
        Some e \<Rightarrow> (0, OsConfigCaptureSuccessReason (''User '' @ show_u (pw_uid e) @ '' exists'') r)
      | None \<Rightarrow> (ENOENT, OsConfigCaptureReason (''User '' @ sq (show_s nm) @ '' does not exist'') r))"

definition AddIfMissingSyslogSystemUser :: "exec \<Rightarrow> host \<Rightarrow> int \<times> host" where
  "AddIfMissingSyslogSystemUser exec w =
     (if fst (CheckUserExists (Some ''syslog'') None w) = 0 then (0, w)
      else (case exec ''useradd -r -s /usr/sbin/nologin -d /nonexistent syslog'' w of (s, _, w') \<Rightarrow> (s, w')))"

definition CheckGroupExists :: "sys \<Rightarrow> cstr \<Rightarrow> reason \<Rightarrow> host \<Rightarrow> int \<times> reason" where
  "CheckGroupExists m nm r w =
     (case (case nm of None \<Rightarrow> None | Some n \<Rightarrow> find (\<lambda>e. gr_name e = Some n) (getgrent w)) of
        Some e \<Rightarrow> (0, OsConfigCaptureSuccessReason (''Group '' @ show_u (gr_gid e) @ '' exists'') r)
      | None \<Rightarrow>
          (ENOENT, OsConfigCaptureReason
             (''Group '' @ sq (show_s nm) @ '' does not exist ('' @ print_int (m ''errno'' 0) @ '')'') r))"

definition AddIfMissingAdmSystemGroup :: "sys \<Rightarrow> exec \<Rightarrow> host \<Rightarrow> int \<times> host" where
  "AddIfMissingAdmSystemGroup m exec w =
     (if fst (CheckGroupExists m (Some ''adm'') None w) = 0 then (0, w)
      else (case exec ''groupadd -r adm'' w of (s, _, w') \<Rightarrow> (s, w')))"

definition GroupExists :: "32 word \<Rightarrow> host \<Rightarrow> bool" where
  "GroupExists g w \<longleftrightarrow> getgrgid w g \<noteq> None"

definition RestrictSuToRootGroup :: "sys \<Rightarrow> nat \<Rightarrow> host \<Rightarrow> int \<times> host" where
  "RestrictSuToRootGroup m rnd w =
     (case AppendToFile m rnd (Some ''/etc/pam.d/su'') (Some ''auth required pam_wheel.so use_uid group=root'') (host_fs w) of
        (ok, st) \<Rightarrow> (if ok then 0 else ENOENT, w\<lparr>host_fs := st\<rparr>))"

end
