(* ===== verification/UserPasswords.thy ===== *)
theory UserPasswords
  imports UserGroups
begin

text \<open>
  The ages of passwords: audits and remediations of \<open>UserUtils.c\<close> and the settings of \<open>/etc/login.defs\<close> of
  \<open>DeviceInfoUtils.c\<close>. The commands that read (\<open>cat\<close>, \<open>grep\<close>) change nothing on the host.
\<close>

subsection \<open>Settings of \<open>/etc/login.defs\<close>\<close>

definition atol :: "string \<Rightarrow> int" where
  "atol s = strtol s 10"

definition second_field :: "string \<Rightarrow> string" where
  "second_field s = RemoveTrailingBlanks (RemovePrefixBlanks (RemovePrefixUpTo (RemovePrefixBlanks s) CHR '' ''))"

definition GetPasswordDays :: "sys \<Rightarrow> exec \<Rightarrow> string \<Rightarrow> host \<Rightarrow> int" where
  "GetPasswordDays m exec nm w =
     (if nm = [] then - 1
      else if m ''malloc.command'' 0 \<noteq> 0 then - 1
      else (case exec (''cat /etc/login.defs | grep '' @ nm @ '' | grep -v ^#'') w of
         (s, out, _) \<Rightarrow> (case out of Some t \<Rightarrow> if s = 0 then atol (second_field t) else - 1 | None \<Rightarrow> - 1)))"

definition GetPassMinDays :: "sys \<Rightarrow> exec \<Rightarrow> host \<Rightarrow> int" where
  "GetPassMinDays m exec w = GetPasswordDays m exec ''PASS_MIN_DAYS'' w"

definition GetPassMaxDays :: "sys \<Rightarrow> exec \<Rightarrow> host \<Rightarrow> int" where
  "GetPassMaxDays m exec w = GetPasswordDays m exec ''PASS_MAX_DAYS'' w"

definition GetPassWarnAge :: "sys \<Rightarrow> exec \<Rightarrow> host \<Rightarrow> int" where
  "GetPassWarnAge m exec w = GetPasswordDays m exec ''PASS_WARN_AGE'' w"

definition SetPasswordDays :: "sys \<Rightarrow> exec \<Rightarrow> nat \<Rightarrow> string \<Rightarrow> int \<Rightarrow> host \<Rightarrow> int \<times> host" where
  "SetPasswordDays m exec rnd nm days w =
     (if nm = [] then (EINVAL, w)
      else if m ''FormatAllocateString.days'' 0 \<noteq> 0 then (ENOMEM, w)
      else if days = GetPasswordDays (nested ''Get'' m) exec nm w then (0, w)
      else (case SetEtcLoginDefValue (nested ''Set'' m) rnd (Some nm) (Some (print_int days)) (host_fs w) of
         (s, st) \<Rightarrow> (s, w\<lparr>host_fs := st\<rparr>)))"

definition SetPassMinDays :: "sys \<Rightarrow> exec \<Rightarrow> nat \<Rightarrow> int \<Rightarrow> host \<Rightarrow> int \<times> host" where
  "SetPassMinDays m exec rnd days w = SetPasswordDays m exec rnd ''PASS_MIN_DAYS'' days w"

definition SetPassMaxDays :: "sys \<Rightarrow> exec \<Rightarrow> nat \<Rightarrow> int \<Rightarrow> host \<Rightarrow> int \<times> host" where
  "SetPassMaxDays m exec rnd days w = SetPasswordDays m exec rnd ''PASS_MAX_DAYS'' days w"

definition SetPassWarnAge :: "sys \<Rightarrow> exec \<Rightarrow> nat \<Rightarrow> int \<Rightarrow> host \<Rightarrow> int \<times> host" where
  "SetPassWarnAge m exec rnd days w = SetPasswordDays m exec rnd ''PASS_WARN_AGE'' days w"

subsection \<open>Audits\<close>

text \<open>The loop over the users with a password: the step gives the verdict on a user and its text.\<close>

definition judge :: "bool \<Rightarrow> string \<Rightarrow> int \<times> reason \<Rightarrow> int \<times> reason" where
  "judge good msg acc =
     (case acc of (status, r) \<Rightarrow>
        if good then (status, OsConfigCaptureSuccessReason msg r) else (ENOENT, OsConfigCaptureReason msg r))"

definition judge_users ::
  "(SimplifiedUser \<Rightarrow> bool \<times> string) \<Rightarrow> SimplifiedUser list \<Rightarrow> int \<times> reason \<Rightarrow> int \<times> reason" where
  "judge_users step users acc =
     fold (\<lambda>u acc. if hasPassword u then (case step u of (good, msg) \<Rightarrow> judge good msg acc) else acc) users acc"

definition days_text :: "SimplifiedUser \<Rightarrow> string \<Rightarrow> int \<Rightarrow> string \<Rightarrow> int \<Rightarrow> string \<Rightarrow> string" where
  "days_text u a x b days c = ''User '' @ show_u (userId u) @ a @ print_int x @ b @ print_int days @ c"

definition min_days_step :: "int \<Rightarrow> SimplifiedUser \<Rightarrow> bool \<times> string" where
  "min_days_step days u =
     (if days \<le> minimumPasswordAge u
      then (True, days_text u '' has a minimum time between password changes of '' (minimumPasswordAge u)
              '' days (requested: '' days '')'')
      else (False, days_text u '' minimum time between password changes of '' (minimumPasswordAge u)
              '' days is less than requested '' days '' days''))"

text \<open>The check of the setting in \<open>/etc/login.defs\<close> follows the loop and is made in every case.\<close>

definition CheckMinDaysBetweenPasswordChanges :: "sys \<Rightarrow> exec \<Rightarrow> int \<Rightarrow> reason \<Rightarrow> host \<Rightarrow> int \<times> reason" where
  "CheckMinDaysBetweenPasswordChanges m exec days r w =
     (let defs = GetPassMinDays (nested ''Get'' m) exec w;
          (s1, users, r1) = EnumerateUsers (nested ''Users'' m) r w;
          (status, r2) = (if s1 = 0 then judge_users (min_days_step days) users (0, r1) else (s1, r1));
          r3 = (if status = 0
                then OsConfigCaptureSuccessReason (''All users who have passwords have correct number of minimum days ('' @
                  print_int days @ '') between changes'') r2
                else r2)
      in if defs = - 1 then (ENOENT, OsConfigCaptureReason
              (''There is no configured '' @ sq ''PASS_MIN_DAYS'' @ '' in '' @ sq ''/etc/login.defs'') r3)
         else if defs = 0 then (ENOENT, OsConfigCaptureReason
              (sq ''PASS_MIN_DAYS'' @ '' is configured to default 0 in '' @ sq ''/etc/login.defs'' @
               '' meaning disabled restriction'') r3)
         else if defs < days then (ENOENT, OsConfigCaptureReason
              (''Configured '' @ sq ''PASS_MIN_DAYS'' @ '' in '' @ sq ''/etc/login.defs'' @ '' of '' @ print_int defs @
               '' days is less than requested '' @ print_int days @ '' days'') r3)
         else (status, OsConfigCaptureSuccessReason
              (sq ''PASS_MIN_DAYS'' @ '' is set to '' @ print_int defs @ '' days in '' @ sq ''/etc/login.defs'' @
               '' (requested: '' @ print_int days @ '')'') r3))"

definition max_days_step :: "int \<Rightarrow> SimplifiedUser \<Rightarrow> bool \<times> string" where
  "max_days_step days u =
     (if maximumPasswordAge u < 0
      then (False, days_text u '' has unlimited time between password changes of '' (maximumPasswordAge u)
              '' days(requested: '' days '')'')
      else if maximumPasswordAge u \<le> days
      then (True, days_text u '' has a maximum time between password changes of '' (maximumPasswordAge u)
              '' days(requested: '' days '')'')
      else (False, days_text u '' maximum time between password changes of '' (maximumPasswordAge u)
              '' days is more than requested '' days '' days''))"

definition CheckMaxDaysBetweenPasswordChanges :: "sys \<Rightarrow> exec \<Rightarrow> int \<Rightarrow> reason \<Rightarrow> host \<Rightarrow> int \<times> reason" where
  "CheckMaxDaysBetweenPasswordChanges m exec days r w =
     (let defs = GetPassMaxDays (nested ''Get'' m) exec w;
          (s1, users, r1) = EnumerateUsers (nested ''Users'' m) r w;
          (status, r2) = (if s1 = 0 then judge_users (max_days_step days) users (0, r1) else (s1, r1));
          r3 = (if status = 0
                then OsConfigCaptureSuccessReason (''All users who have passwords have correct number of maximum days ('' @
                  print_int days @ '') between changes'') r2
                else r2)
      in if defs = - 1 then (ENOENT, OsConfigCaptureReason
              (sq ''PASS_MAX_DAYS'' @ '' is not configured in '' @ sq ''/etc/login.defs'') r3)
         else if days < defs then (ENOENT, OsConfigCaptureReason
              (''Configured '' @ sq ''PASS_MAX_DAYS'' @ '' in '' @ sq ''/etc/login.defs'' @ '' of '' @ print_int defs @
               '' days is more than requested '' @ print_int days @ '' days'') r3)
         else (status, OsConfigCaptureSuccessReason
              (sq ''PASS_MAX_DAYS'' @ '' is set to '' @ print_int defs @ '' days in '' @ sq ''/etc/login.defs'' @
               '' (requested: '' @ print_int days @ '')'') r3))"

definition warning_step :: "int \<Rightarrow> SimplifiedUser \<Rightarrow> bool \<times> string" where
  "warning_step days u =
     (if days \<le> warningPeriod u
      then (True, days_text u '' has a password expiration warning time of '' (warningPeriod u) '' days (requested: '' days '')'')
      else (False, days_text u '' password expiration warning time is '' (warningPeriod u)
              '' days, less than requested '' days '' days''))"

definition CheckPasswordExpirationWarning :: "sys \<Rightarrow> exec \<Rightarrow> int \<Rightarrow> reason \<Rightarrow> host \<Rightarrow> int \<times> reason" where
  "CheckPasswordExpirationWarning m exec days r w =
     (let defs = GetPassWarnAge (nested ''Get'' m) exec w;
          (s1, users, r1) = EnumerateUsers (nested ''Users'' m) r w;
          (status, r2) = (if s1 = 0 then judge_users (warning_step days) users (0, r1) else (s1, r1));
          r3 = (if status = 0
                then OsConfigCaptureSuccessReason
                  (''All users who have passwords have correct have correct password expiration warning time of '' @
                   print_int days @ '' days'') r2
                else r2)
      in if defs = - 1 then (ENOENT, OsConfigCaptureReason
              (sq ''PASS_WARN_AGE'' @ '' is not configured in '' @ sq ''/etc/login.defs'') r3)
         else if defs < days then (ENOENT, OsConfigCaptureReason
              (''Configured '' @ sq ''PASS_WARN_AGE'' @ '' in '' @ sq ''/etc/login.defs'' @ '' of '' @ print_int defs @
               '' days is less than requested '' @ print_int days @ '' days'') r3)
         else (status, OsConfigCaptureSuccessReason
              (sq ''PASS_WARN_AGE'' @ '' is set to '' @ print_int defs @ '' days in '' @ sq ''/etc/login.defs'' @
               '' (requested: '' @ print_int days @ '')'') r3))"

definition expiration_step :: "int \<Rightarrow> int \<Rightarrow> SimplifiedUser \<Rightarrow> bool \<times> string" where
  "expiration_step now days u =
     (let who = ''Password for user '' @ show_u (userId u); date = lastPasswordChange u + maximumPasswordAge u
      in if maximumPasswordAge u < 0
         then (False, who @ '' has no expiration date ('' @ print_int (maximumPasswordAge u) @ '')'')
         else if lastPasswordChange u < 0
         then (False, who @ '' has no recorded last change date ('' @ print_int (lastPasswordChange u) @ '')'')
         else if now \<le> date then
           (if date - now \<le> days
            then (True, who @ '' will expire in '' @ print_int (date - now) @ '' days (requested maximum: '' @ print_int days @ '')'')
            else (False, who @ '' will expire in '' @ print_int (date - now) @ '' days, more than requested maximum of '' @
                    print_int days @ '' days''))
         else (True, ''Password for user '' @ [CHR 0x27] @ show_u (userId u) @ '')  expired '' @ print_int (now - date) @
                 '' days ago (current date: '' @ print_int now @ '', expiration date: '' @ print_int date @
                 '' days since the epoch)''))"

definition CheckPasswordExpirationLessThan :: "sys \<Rightarrow> int \<Rightarrow> reason \<Rightarrow> host \<Rightarrow> int \<times> reason" where
  "CheckPasswordExpirationLessThan m days r w =
     (case EnumerateUsers m r w of
        (s, users, r1) \<Rightarrow>
          if s \<noteq> 0 then (s, r1)
          else (case judge_users (expiration_step (today w) days) users (0, r1) of
             (status, r2) \<Rightarrow>
               (status, if status = 0
                        then OsConfigCaptureSuccessReason (''Passwords for all users who have them will expire in '' @
                          print_int days @ '' days or less'') r2
                        else r2)))"

definition recorded_step :: "int \<Rightarrow> SimplifiedUser \<Rightarrow> bool \<times> string" where
  "recorded_step now u =
     (let who = ''User '' @ show_u (userId u)
      in if lastPasswordChange u < 0
         then (True, who @ '' has no recorded last password change date ('' @ print_int (lastPasswordChange u) @ '')'')
         else if lastPasswordChange u \<le> now
         then (True, who @ '' has '' @ print_int (now - lastPasswordChange u) @ '' days since last password change'')
         else (False, who @ '' last recorded password change is in the future (next '' @
                 print_int (lastPasswordChange u - now) @ '' days)''))"

definition CheckUsersRecordedPasswordChangeDates :: "sys \<Rightarrow> reason \<Rightarrow> host \<Rightarrow> int \<times> reason" where
  "CheckUsersRecordedPasswordChangeDates m r w =
     (case EnumerateUsers m r w of
        (s, users, r1) \<Rightarrow>
          if s \<noteq> 0 then (s, r1)
          else (case judge_users (recorded_step (today w)) users (0, r1) of
             (status, r2) \<Rightarrow>
               (status, if status = 0
                        then OsConfigCaptureSuccessReason
                          ''All users who have passwords have dates of last password change in the past'' r2
                        else r2)))"

definition lockout_late :: "int \<Rightarrow> SimplifiedUser \<Rightarrow> bool" where
  "lockout_late days u \<longleftrightarrow> \<not> (\<not> hasPassword u \<and> isRoot u) \<and> days < inactivityPeriod u"

definition CheckLockoutAfterInactivityLessThan :: "sys \<Rightarrow> int \<Rightarrow> reason \<Rightarrow> host \<Rightarrow> int \<times> reason" where
  "CheckLockoutAfterInactivityLessThan m days r w =
     (case EnumerateUsers m r w of
        (s, users, r1) \<Rightarrow>
          if s \<noteq> 0 then (s, r1)
          else (case fold (\<lambda>u (status, r).
                   if lockout_late days u
                   then (ENOENT, OsConfigCaptureReason
                     (days_text u '' password period of inactivity before lockout is '' (inactivityPeriod u)
                        '' days, more than requested '' days '' days'') r)
                   else (status, r)) users (0, r1) of
             (status, r2) \<Rightarrow>
               (status, if status = 0
                        then OsConfigCaptureSuccessReason
                          (''All non-root users who have passwords have correct number of maximum inactivity days ('' @
                           print_int days @ '') before lockout'') r2
                        else r2)))"

subsection \<open>Remediations\<close>

text \<open>The loop that runs \<open>chage\<close> for the users in need of it.\<close>

fun chage_users ::
  "sys \<Rightarrow> exec \<Rightarrow> string \<Rightarrow> int \<Rightarrow> (SimplifiedUser \<Rightarrow> bool) \<Rightarrow> nat \<Rightarrow> SimplifiedUser list \<Rightarrow> int \<Rightarrow> host \<Rightarrow> int \<times> host" where
  "chage_users m exec opt days need i [] status w = (status, w)"
| "chage_users m exec opt days need i (u # us) status w =
     (if \<not> need u then chage_users m exec opt days need (Suc i) us status w
      else if m ''FormatAllocateString.chage'' i \<noteq> 0 then (ENOMEM, w)
      else (case exec (''chage '' @ opt @ '' '' @ print_int days @ '' '' @ show_s (username u)) w of
         (s, _, w') \<Rightarrow> chage_users m exec opt days need (Suc i) us (first_error status s) w'))"

definition chage_all ::
  "sys \<Rightarrow> exec \<Rightarrow> string \<Rightarrow> int \<Rightarrow> (SimplifiedUser \<Rightarrow> bool) \<Rightarrow> host \<Rightarrow> int \<times> host" where
  "chage_all m exec opt days need w =
     (case EnumerateUsers (nested ''Users'' m) None w of
        (s, users, _) \<Rightarrow> if s \<noteq> 0 then (s, w) else chage_users m exec opt days need 0 users 0 w)"

definition SetMinDaysBetweenPasswordChanges :: "sys \<Rightarrow> exec \<Rightarrow> nat \<Rightarrow> int \<Rightarrow> host \<Rightarrow> int \<times> host" where
  "SetMinDaysBetweenPasswordChanges m exec rnd days w =
     (case chage_all m exec ''-m'' days (\<lambda>u. hasPassword u \<and> minimumPasswordAge u < days) w of
        (status, w1) \<Rightarrow>
          (case SetPassMinDays (nested ''Defs'' m) exec rnd days w1 of (s, w2) \<Rightarrow> (first_error status s, w2)))"

text \<open>The last status is combined with \<open>&\<close> instead of \<open>&&\<close>: only its lowest bit counts.\<close>

definition SetMaxDaysBetweenPasswordChanges :: "sys \<Rightarrow> exec \<Rightarrow> nat \<Rightarrow> int \<Rightarrow> host \<Rightarrow> int \<times> host" where
  "SetMaxDaysBetweenPasswordChanges m exec rnd days w =
     (case chage_all m exec ''-M'' days (\<lambda>u. hasPassword u \<and> (days < maximumPasswordAge u \<or> maximumPasswordAge u < 0)) w of
        (status, w1) \<Rightarrow>
          (case SetPassMaxDays (nested ''Defs'' m) exec rnd days w1 of
             (s, w2) \<Rightarrow> (if status = 0 \<and> odd s then s else status, w2)))"

definition SetPasswordExpirationWarning :: "sys \<Rightarrow> exec \<Rightarrow> nat \<Rightarrow> int \<Rightarrow> host \<Rightarrow> int \<times> host" where
  "SetPasswordExpirationWarning m exec rnd days w =
     (case chage_all m exec ''-W'' days (\<lambda>u. hasPassword u \<and> warningPeriod u < days) w of
        (status, w1) \<Rightarrow>
          (case SetPassWarnAge (nested ''Defs'' m) exec rnd days w1 of (s, w2) \<Rightarrow> (first_error status s, w2)))"

definition EnsureUsersHaveDatesOfLastPasswordChanges :: "sys \<Rightarrow> exec \<Rightarrow> host \<Rightarrow> int \<times> host" where
  "EnsureUsersHaveDatesOfLastPasswordChanges m exec w =
     chage_all m exec ''-d'' (today w) (\<lambda>u. hasPassword u \<and> lastPasswordChange u < 0) w"

definition SetLockoutAfterInactivityLessThan :: "sys \<Rightarrow> exec \<Rightarrow> int \<Rightarrow> host \<Rightarrow> int \<times> host" where
  "SetLockoutAfterInactivityLessThan m exec days w = chage_all m exec ''-I'' days (lockout_late days) w"

subsection \<open>The hashing algorithm\<close>

definition CheckPasswordHashingAlgorithm :: "exec \<Rightarrow> PasswordEncryption \<Rightarrow> int \<Rightarrow> reason \<Rightarrow> host \<Rightarrow> int \<times> reason" where
  "CheckPasswordHashingAlgorithm exec algorithm number r w =
     (case exec ''cat /etc/login.defs | grep ENCRYPT_METHOD | grep ^[^#]'' w of
        (s, out, _) \<Rightarrow>
          (case (if s = 0 then out else None) of
             Some t \<Rightarrow>
               (let found = second_field t; wanted = EncryptionName algorithm; n = '' ('' @ print_int number @ '')''
                in (s, if found = wanted
                       then OsConfigCaptureSuccessReason (''The correct user password encryption algorithm '' @ sq wanted @ n @
                              '' is currently set in '' @ sq ''/etc/login.defs'') r
                       else OsConfigCaptureReason (''The user password encryption algorithm currently set in '' @
                              sq ''/etc/login.defs'' @ '' to '' @ sq found @ '' is different from the required '' @ sq wanted @ n @ '' '') r))
           | None \<Rightarrow>
               (let status = (if s = 0 then ENOENT else s)
                in (status, OsConfigCaptureReason (''Failed to read '' @ sq ''ENCRYPT_METHOD'' @ '' from '' @ sq ''/etc/login.defs'' @
                     '' ('' @ print_int status @ '')'') r))))"

definition SetPasswordHashingAlgorithm :: "sys \<Rightarrow> exec \<Rightarrow> nat \<Rightarrow> PasswordEncryption \<Rightarrow> int \<Rightarrow> host \<Rightarrow> int \<times> host" where
  "SetPasswordHashingAlgorithm m exec rnd algorithm number w =
     (if algorithm \<notin> {md5, sha256, sha512} then (EINVAL, w)
      else if fst (CheckPasswordHashingAlgorithm exec algorithm number None w) = 0 then
        (case SetEtcLoginDefValue m rnd (Some ''ENCRYPT_METHOD'') (Some (EncryptionName algorithm)) (host_fs w) of
           (s, st) \<Rightarrow> (s, w\<lparr>host_fs := st\<rparr>))
      else (0, w))"

end
