(* ===== verification/UserHomes.thy ===== *)
theory UserHomes
  imports UserPasswords
begin

text \<open>
  Home directories of users and the files in them whose names begin with a dot (\<open>UserUtils.c\<close>).
\<close>

definition can_login :: "SimplifiedUser \<Rightarrow> bool" where
  "can_login u \<longleftrightarrow> \<not> noLogin u \<and> \<not> cannotLogin u \<and> \<not> isLocked u"

definition MODE_0750 :: "32 word" where "MODE_0750 = 0x1E8"

subsection \<open>Existence\<close>

definition CheckAllUsersHomeDirectoriesExist :: "sys \<Rightarrow> reason \<Rightarrow> host \<Rightarrow> int \<times> reason" where
  "CheckAllUsersHomeDirectoriesExist m r w =
     (case EnumerateUsers m r w of
        (s, users, r1) \<Rightarrow>
          if s \<noteq> 0 then (s, r1)
          else (case fold (\<lambda>u (status, r).
                   if can_login u \<and> home u \<noteq> None \<and> \<not> DirectoryExists (nested ''home'' m) (home u) (host_fs w)
                   then (ENOENT, OsConfigCaptureReason
                           (''The home directory for user '' @ show_u (userId u) @ '' is not found or is not a directory'') r)
                   else (status, r)) users (0, r1) of
             (status, r2) \<Rightarrow>
               (status, if status = 0
                        then OsConfigCaptureSuccessReason ''All users who can login have home directories that exist'' r2
                        else r2)))"

text \<open>\<open>new_dir\<close> is the directory that \<open>mkdir\<close> makes.\<close>

definition make_home :: "sys \<Rightarrow> inode \<Rightarrow> SimplifiedUser \<Rightarrow> int \<Rightarrow> host \<Rightarrow> int \<times> host" where
  "make_home m new_dir u status0 w =
     (case home u of
        None \<Rightarrow> (status0, w)
      | Some h \<Rightarrow>
          (let (s1, w1) =
                 (if DirectoryExists (nested ''home'' m) (Some h) (host_fs w) then (status0, w)
                  else if m ''mkdir'' 0 = 0 then (0, w\<lparr>host_fs := put_node h (Some new_dir) (host_fs w)\<rparr>)
                  else (if m ''errno'' 0 = 0 then EACCES else m ''errno'' 0, w))
           in if DirectoryExists (nested ''home'' m) (Some h) (host_fs w1)
              then (case SetAccess (nested ''access'' m) True (Some h) (userId u) (groupId u) MODE_0750 (host_fs w1) of
                      (s2, st) \<Rightarrow> (s2, w1\<lparr>host_fs := st\<rparr>))
              else (s1, w1)))"

text \<open>The loop, with the status and the status of the last user: a new error replaces an old one only.\<close>

definition SetUserHomeDirectories :: "sys \<Rightarrow> inode \<Rightarrow> host \<Rightarrow> int \<times> host" where
  "SetUserHomeDirectories m new_dir w =
     (case EnumerateUsers (nested ''Users'' m) None w of
        (s, users, _) \<Rightarrow>
          if s \<noteq> 0 then (s, w)
          else (case fold (\<lambda>u (status, s', w).
                   if can_login u \<and> home u \<noteq> None
                   then (case make_home m new_dir u s' w of
                           (s'', w') \<Rightarrow> (if s'' \<noteq> 0 \<and> status \<noteq> 0 then s'' else status, s'', w'))
                   else (status, s', w)) users (0, 0, w) of
             (status, _, w') \<Rightarrow> (status, w')))"

subsection \<open>Ownership and access\<close>

definition CheckHomeDirectoryOwnership :: "sys \<Rightarrow> SimplifiedUser \<Rightarrow> host \<Rightarrow> int" where
  "CheckHomeDirectoryOwnership m u w =
     (case home u of
        None \<Rightarrow> EINVAL
      | Some h \<Rightarrow>
          if \<not> DirectoryExists m (Some h) (host_fs w) then 0
          else (case node (host_fs w) h of
             None \<Rightarrow> 0
           | Some n \<Rightarrow>
               if m ''stat'' 0 \<noteq> 0 then - 1
               else if userId u \<noteq> st_uid n \<or> groupId u \<noteq> st_gid n then ENOENT else 0))"

definition CheckUsersOwnTheirHomeDirectories :: "sys \<Rightarrow> reason \<Rightarrow> host \<Rightarrow> int \<times> reason" where
  "CheckUsersOwnTheirHomeDirectories m r w =
     (case EnumerateUsers m r w of
        (s, users, r1) \<Rightarrow>
          if s \<noteq> 0 then (s, r1)
          else (case fold (\<lambda>u (status, r).
                   if \<not> can_login u then (status, r)
                   else if DirectoryExists (nested ''home'' m) (home u) (host_fs w) then
                     (if CheckHomeDirectoryOwnership (nested ''home'' m) u w = 0 then (status, r)
                      else (ENOENT, OsConfigCaptureReason
                              (''User '' @ show_u (userId u) @ '' does not own their assigned home directory'') r))
                   else (ENOENT, OsConfigCaptureReason
                           (''User '' @ [CHR 0x27] @ show_u (userId u) @ '' assigned home directory does not exist'') r))
                   users (0, r1) of
             (status, r2) \<Rightarrow>
               (status, if status = 0
                        then OsConfigCaptureSuccessReason ''All users who can login own their home directories'' r2 else r2)))"

definition good_mode :: "sys \<Rightarrow> bool \<Rightarrow> 32 word list \<Rightarrow> SimplifiedUser \<Rightarrow> string \<Rightarrow> fs \<Rightarrow> bool" where
  "good_mode m directory modes u p st \<longleftrightarrow>
     (\<exists>x \<in> set modes. CheckAccess m directory (Some p) (userId u) (groupId u) x st = 0)"

definition CheckRestrictedUserHomeDirectories :: "sys \<Rightarrow> 32 word list \<Rightarrow> reason \<Rightarrow> host \<Rightarrow> int \<times> reason" where
  "CheckRestrictedUserHomeDirectories m modes r w =
     (if modes = [] then (EINVAL, r)
      else case EnumerateUsers m r w of
        (s, users, r1) \<Rightarrow>
          if s \<noteq> 0 then (s, r1)
          else (case fold (\<lambda>u (status, r).
                   (case home u of
                      None \<Rightarrow> (status, r)
                    | Some h \<Rightarrow>
                        if can_login u \<and> DirectoryExists (nested ''home'' m) (Some h) (host_fs w) \<and>
                           \<not> good_mode (nested ''access'' m) True modes u h (host_fs w)
                        then (first_error status ENOENT, OsConfigCaptureReason
                                (''User '' @ show_u (userId u) @
                                 '' does not have proper restricted access for their assigned home directory'') r)
                        else (status, r))) users (0, r1) of
             (status, r2) \<Rightarrow>
               (status, if status = 0
                        then OsConfigCaptureSuccessReason
                          ''All users who can login and have home directories have restricted access to them'' r2
                        else r2)))"

definition SetRestrictedUserHomeDirectories ::
  "sys \<Rightarrow> 32 word list \<Rightarrow> 32 word \<Rightarrow> 32 word \<Rightarrow> host \<Rightarrow> int \<times> host" where
  "SetRestrictedUserHomeDirectories m modes modeForRoot modeForOthers w =
     (if modes = [] then (EINVAL, w)
      else case EnumerateUsers (nested ''Users'' m) None w of
        (s, users, _) \<Rightarrow>
          if s \<noteq> 0 then (s, w)
          else fold (\<lambda>u (status, w).
                 (case home u of
                    None \<Rightarrow> (status, w)
                  | Some h \<Rightarrow>
                      if can_login u \<and> DirectoryExists (nested ''home'' m) (Some h) (host_fs w) \<and>
                         \<not> good_mode (nested ''access'' m) True modes u h (host_fs w)
                      then (case SetAccess (nested ''set'' m) True (Some h) (userId u) (groupId u)
                                   (if isRoot u then modeForRoot else modeForOthers) (host_fs w) of
                              (s', st) \<Rightarrow> (first_error status s', w\<lparr>host_fs := st\<rparr>))
                      else (status, w))) users (0, w))"

subsection \<open>Dot files\<close>

definition dot_path :: "string \<Rightarrow> string \<Rightarrow> string" where
  "dot_path h nm = h @ ''/.'' @ nm"

text \<open>The loop of the check for one file name, which removes the file when told to. The call of \<open>remove\<close> may
  fail.\<close>

fun dot_files ::
  "sys \<Rightarrow> string \<Rightarrow> bool \<Rightarrow> nat \<Rightarrow> SimplifiedUser list \<Rightarrow> int \<times> reason \<Rightarrow> host \<Rightarrow> (int \<times> reason) \<times> host" where
  "dot_files m nm removeDotFiles i [] acc w = (acc, w)"
| "dot_files m nm removeDotFiles i (u # us) (status, r) w =
     (case home u of
        None \<Rightarrow> dot_files m nm removeDotFiles (Suc i) us (status, r) w
      | Some h \<Rightarrow>
          if noLogin u \<or> isRoot u \<or> \<not> DirectoryExists (nested ''home'' m) (Some h) (host_fs w)
          then dot_files m nm removeDotFiles (Suc i) us (status, r) w
          else if m ''malloc.dotPath'' i \<noteq> 0 then ((ENOMEM, r), w)
          else if \<not> FileExists (Some (dot_path h nm)) (host_fs w)
          then dot_files m nm removeDotFiles (Suc i) us (status, r) w
          else if removeDotFiles
          then (if m ''remove'' i = 0
                then dot_files m nm removeDotFiles (Suc i) us (status, r)
                       (w\<lparr>host_fs := remove_file (dot_path h nm) (host_fs w)\<rparr>)
                else dot_files m nm removeDotFiles (Suc i) us (ENOENT, r) w)
          else dot_files m nm removeDotFiles (Suc i) us
                 (ENOENT, OsConfigCaptureReason (''User '' @ show_u (userId u) @ '' has file '' @ sq (''.'' @ nm) @ '' ('' @
                    sq (dot_path h nm) @ '')'') r) w)"

definition CheckOrEnsureUsersDontHaveDotFiles ::
  "sys \<Rightarrow> cstr \<Rightarrow> bool \<Rightarrow> reason \<Rightarrow> host \<Rightarrow> (int \<times> reason) \<times> host" where
  "CheckOrEnsureUsersDontHaveDotFiles m nm removeDotFiles r w =
     (case nm of
        None \<Rightarrow> ((EINVAL, r), w)
      | Some n \<Rightarrow>
          (case EnumerateUsers (nested ''Users'' m) r w of
             (s, users, r1) \<Rightarrow>
               if s \<noteq> 0 then ((s, r1), w)
               else (case dot_files m n removeDotFiles 0 users (0, r1) w of
                  ((status, r2), w') \<Rightarrow>
                    ((status, if status = 0
                              then OsConfigCaptureSuccessReason (''No users have '' @ sq (''.'' @ n) @ '' files'') r2
                              else r2), w'))))"

text \<open>The regular files of a directory whose names begin with a dot, in the order of \<open>readdir\<close>: \<open>entries\<close> is what
  \<open>readdir\<close> gives for a directory, each with whether it is a regular file, or \<open>None\<close> when it cannot be opened.\<close>

definition dot_entries :: "(string \<Rightarrow> (string \<times> bool) list option) \<Rightarrow> string \<Rightarrow> string list" where
  "dot_entries entries h =
     (case entries h of
        None \<Rightarrow> []
      | Some es \<Rightarrow> map fst (filter (\<lambda>(nm, regular). regular \<and> nm \<noteq> [] \<and> hd nm = CHR ''.'') es))"

definition CheckUsersRestrictedDotFiles ::
  "sys \<Rightarrow> (string \<Rightarrow> (string \<times> bool) list option) \<Rightarrow> 32 word list \<Rightarrow> reason \<Rightarrow> host \<Rightarrow> int \<times> reason" where
  "CheckUsersRestrictedDotFiles m entries modes r w =
     (if modes = [] then (EINVAL, r)
      else case EnumerateUsers m r w of
        (s, users, r1) \<Rightarrow>
          if s \<noteq> 0 then (s, r1)
          else (case fold (\<lambda>u acc.
                   (case home u of
                      None \<Rightarrow> acc
                    | Some h \<Rightarrow>
                        if can_login u \<and> DirectoryExists (nested ''home'' m) (Some h) (host_fs w)
                        then fold (\<lambda>nm (status, r).
                               if m ''malloc.path'' 0 \<noteq> 0 then (ENOMEM, r)
                               else if good_mode (nested ''access'' m) False modes u (h @ ''/'' @ nm) (host_fs w) then (status, r)
                               else (first_error status ENOENT, OsConfigCaptureReason
                                       (''User '' @ show_u (userId u) @
                                        '' does not has have proper restricted access for their dot file '' @ sq nm) r))
                               (dot_entries entries h) acc
                        else acc)) users (0, r1) of
             (status, r2) \<Rightarrow>
               (status, if status = 0
                        then OsConfigCaptureSuccessReason
                          ''All users who can login have dot files (if any) with proper restricted access'' r2
                        else r2)))"

definition SetUsersRestrictedDotFiles ::
  "sys \<Rightarrow> (string \<Rightarrow> (string \<times> bool) list option) \<Rightarrow> 32 word list \<Rightarrow> 32 word \<Rightarrow> host \<Rightarrow> int \<times> host" where
  "SetUsersRestrictedDotFiles m entries modes mode w =
     (if modes = [] then (EINVAL, w)
      else case EnumerateUsers (nested ''Users'' m) None w of
        (s, users, _) \<Rightarrow>
          if s \<noteq> 0 then (s, w)
          else fold (\<lambda>u acc.
                 (case home u of
                    None \<Rightarrow> acc
                  | Some h \<Rightarrow>
                      if can_login u \<and> DirectoryExists (nested ''home'' m) (Some h) (host_fs (snd acc))
                      then fold (\<lambda>nm (status, w).
                             if m ''malloc.path'' 0 \<noteq> 0 then (ENOMEM, w)
                             else if good_mode (nested ''access'' m) False modes u (h @ ''/'' @ nm) (host_fs w) then (status, w)
                             else (case SetAccess (nested ''set'' m) False (Some (h @ ''/'' @ nm)) (userId u) (groupId u) mode
                                          (host_fs w) of
                                     (s', st) \<Rightarrow> (first_error status s', w\<lparr>host_fs := st\<rparr>)))
                             (dot_entries entries h) acc
                      else acc)) users (0, w))"

end
