(* ===== verification/UserProps.thy ===== *)
theory UserProps
  imports UserHomes
begin

text \<open>
  What the audits and remediations of accounts decide and change: verdicts against statuses, checks that
  can never fail, and repairs that reach their goal or never do.
\<close>

subsection \<open>Users that are enumerated\<close>

text \<open>A user with a password can log in: the flags exclude each other.\<close>

lemma CheckIfUserHasPassword_flags:
  assumes "CheckIfUserHasPassword w u = (0, u')" and "\<not> hasPassword u" "\<not> isLocked u" "\<not> cannotLogin u"
  shows "hasPassword u' \<longrightarrow> \<not> isLocked u' \<and> \<not> noLogin u' \<and> \<not> cannotLogin u'"
  using assms by (auto simp: CheckIfUserHasPassword_def Let_def codes split: option.splits if_splits)

lemma CopyUserEntry_flags:
  "CopyUserEntry m i e = (0, u) \<Longrightarrow> \<not> hasPassword u \<and> \<not> isLocked u \<and> \<not> cannotLogin u \<and> userId u = pw_uid e \<and> username u = nonempty (pw_name e)"
  by (auto simp: CopyUserEntry_def ResetUserEntry_def codes split: if_splits)

lemma copy_users_flags:
  "copy_users m w i es = (s, us) \<Longrightarrow> u \<in> set us \<Longrightarrow> hasPassword u \<Longrightarrow> \<not> isLocked u \<and> \<not> noLogin u \<and> \<not> cannotLogin u"
proof (induction es arbitrary: i s us)
  case (Cons e es)
  obtain u1 where u1: "CopyUserEntry m i e = (0, u1)"
    using Cons.prems by (cases "CopyUserEntry m i e") (auto split: if_splits)
  obtain u2 where u2: "CheckIfUserHasPassword w u1 = (0, u2)"
    using Cons.prems u1 by (cases "CheckIfUserHasPassword w u1") (auto split: if_splits)
  obtain s' us' where rest: "copy_users m w (Suc i) es = (s', us')" by force
  then have "u = u2 \<or> u \<in> set us'" using Cons.prems u1 u2 by auto
  then show ?case
    using Cons.IH [OF rest] CheckIfUserHasPassword_flags [OF u2] CopyUserEntry_flags [OF u1] Cons.prems(3) by blast
qed simp

lemma EnumerateUsers_flags:
  assumes "EnumerateUsers m r w = (s, us, r')" and "u \<in> set us" and "hasPassword u"
  shows "\<not> isLocked u \<and> \<not> noLogin u \<and> \<not> cannotLogin u"
proof -
  let ?n = "unat (GetNumberOfLinesInFile (nested ''passwd'' m) (Some ''/etc/passwd'') (host_fs w))"
  obtain s' us' where c: "copy_users m w 0 (take ?n (getpwent w)) = (s', us')" by force
  then have "u \<in> set us'" using assms(1,2) by (auto simp: EnumerateUsers_def Let_def split: if_splits)
  from copy_users_flags [OF c this assms(3)] show ?thesis .
qed

lemma no_login_anyway:
  "EnumerateUsers m r w = (s, us, r') \<Longrightarrow> \<forall>u \<in> set us. \<not> can_login_anyway u"
  using EnumerateUsers_flags by (fastforce simp: can_login_anyway_def)

lemma fold_skip: "\<forall>u \<in> set us. f u = id \<Longrightarrow> fold f us acc = acc"
  by (induction us arbitrary: acc) auto

lemma EnumerateUsers_reason:
  "EnumerateUsers m r w = (s, us, r') \<Longrightarrow> (r' = None \<longleftrightarrow> r = None) \<and> (s = 0 \<longrightarrow> r' = r)"
  by (auto simp: EnumerateUsers_def Let_def split: prod.splits if_splits)

subsection \<open>Verdicts\<close>

lemma judge_users_reason: "snd (judge_users step us acc) = None \<longleftrightarrow> snd acc = None"
  by (induction us arbitrary: acc) (auto simp: judge_users_def judge_def split: prod.splits)

lemma judge_users_status:
  "fst (judge_users step us acc) = 0 \<longleftrightarrow> fst acc = 0 \<and> (\<forall>u \<in> set us. hasPassword u \<longrightarrow> fst (step u))"
  by (induction us arbitrary: acc) (auto simp: judge_users_def judge_def codes split: prod.splits)

lemma min_days_step_good: "fst (min_days_step days u) \<longleftrightarrow> days \<le> minimumPasswordAge u"
  by (simp add: min_days_step_def)

definition defs_ok :: "int \<Rightarrow> int \<Rightarrow> bool" where
  "defs_ok d days \<longleftrightarrow> d \<noteq> - 1 \<and> d \<noteq> 0 \<and> days \<le> d"

lemma CheckMinDays_parts:
  assumes "EnumerateUsers (nested ''Users'' m) (Some r) w = (s, us, r1)"
  shows "passes (snd (CheckMinDaysBetweenPasswordChanges m exec days (Some r) w)) \<longleftrightarrow> defs_ok (GetPassMinDays (nested ''Get'' m) exec w) days"
    and "fst (CheckMinDaysBetweenPasswordChanges m exec days (Some r) w) = 0 \<longleftrightarrow>
      defs_ok (GetPassMinDays (nested ''Get'' m) exec w) days \<and> s = 0 \<and> (\<forall>u \<in> set us. hasPassword u \<longrightarrow> days \<le> minimumPasswordAge u)"
proof -
  define st where "st = (if s = 0 then judge_users (min_days_step days) us (0, r1) else (s, r1))"
  obtain status r2 where st: "st = (status, r2)" by force
  have "r1 \<noteq> None" using EnumerateUsers_reason [OF assms] by simp
  then have r2: "r2 \<noteq> None" using st judge_users_reason [of "min_days_step days" us "(0, r1)"]
    by (auto simp: st_def split: if_splits)
  have status: "status = 0 \<longleftrightarrow> s = 0 \<and> (\<forall>u \<in> set us. hasPassword u \<longrightarrow> days \<le> minimumPasswordAge u)"
    using st judge_users_status [of "min_days_step days" us "(0, r1)"] by (auto simp: st_def min_days_step_good split: if_splits)
  note simps = CheckMinDaysBetweenPasswordChanges_def Let_def assms st_def [symmetric] st defs_ok_def SECURITY_AUDIT_PASS_def sq_def
  show "passes (snd (CheckMinDaysBetweenPasswordChanges m exec days (Some r) w)) \<longleftrightarrow> defs_ok (GetPassMinDays (nested ''Get'' m) exec w) days"
    using r2 by (simp add: simps del: not_None_eq)
  show "fst (CheckMinDaysBetweenPasswordChanges m exec days (Some r) w) = 0 \<longleftrightarrow>
      defs_ok (GetPassMinDays (nested ''Get'' m) exec w) days \<and> s = 0 \<and> (\<forall>u \<in> set us. hasPassword u \<longrightarrow> days \<le> minimumPasswordAge u)"
    using status by (simp add: simps codes)
qed

subsection \<open>The root group is never repaired\<close>

lemma edit_root_line:
  assumes "10 \<le> k"
  shows "edit_text sys_ok k ''root'' None CHR ''#'' False root_line = ([], 0, False)"
proof -
  have "fgets_lines k root_line = [root_line]"
    using assms by (simp add: fgets_lines.simps fgets_chunk_def root_line_def EOL_def)
  moreover have "c_string root_line = root_line" by (intro c_string_id) (simp add: root_line_def EOL_def NUL_def)
  moreover have "strstr root_line ''root'' \<noteq> None" by (simp add: root_line_def)
  moreover have "hd (root_line @ [NUL]) \<noteq> CHR ''#''" by (simp add: root_line_def)
  ultimately show ?thesis by (simp add: edit_text_def edit_line_def Let_def del: sys_ok_simp not_None_eq)
qed

text \<open>Dropping lines without a replacement and without preserving the access.\<close>

lemma ReplaceMarkedLinesInFile_drop:
  fixes rnd :: nat and p :: string
  defines "t \<equiv> temp_name (dirname p) ''~OSConfig.ReplacingLines'' rnd"
  assumes n: "node st p = Some n" "\<not> is_dir n" and t: "node st t = None" "t \<noteq> p"
    and e: "edit_text sys_ok (line_max st) mk None comment False (readable_bytes n) = (out, 0, replaced)"
  shows "ReplaceMarkedLinesInFile sys_ok rnd (Some p) (Some mk) None comment False st =
    (0, put_node p (Some ((new_file st)\<lparr>st_mode := MODE_0600, bytes := out\<rparr>)) st)"
proof -
  define n2 where "n2 = (new_file st)\<lparr>st_mode := MODE_0600, bytes := out\<rparr>"
  define st1 where "st1 = put_node t (Some n2) st"
  have nodes: "node st1 t = Some n2" "node st1 p = Some n" using n t by (simp_all add: st1_def)
  have swap: "put_node t None (put_node p (Some n2) st1) = put_node p (Some n2) st"
    using t by (simp add: st1_def put_node_swap [of t p] put_node_same)
  have "rename sys_ok t p st1 = (0, put_node p (Some n2) st)"
    using nodes t(2) n(2) swap by (simp add: rename_def)
  moreover have "drop_temp sys_ok t (put_node p (Some n2) st) = put_node p (Some n2) st"
    using t by (simp add: drop_temp_def remove_file_def)
  ultimately show ?thesis
    using n t e nodes
    by (simp add: ReplaceMarkedLinesInFile_def ReplaceMarkedLinesInFileInternal_def Let_def RenameFile_def
        t_def [symmetric] n2_def [symmetric] st1_def [symmetric])
qed

text \<open>The temporary file of the repair is only ever given the line of the root group, which the next
  step deletes again: nothing is left to append.\<close>

lemma repair_group_file_fails:
  assumes "node st etc_group = Some g" "\<not> is_dir g" and "node st temp_group = None"
    and "bytes (new_file st) = []" "\<not> is_dir (new_file st)" and "10 \<le> line_max st"
    and t: "node st (temp_name (dirname temp_group) ''~OSConfig.ReplacingLines'' rnd) = None"
      "temp_name (dirname temp_group) ''~OSConfig.ReplacingLines'' rnd \<noteq> temp_group"
  shows "repair_group_file sys_ok rnd st = (ENOENT, st)"
proof -
  let ?t = "temp_name (dirname temp_group) ''~OSConfig.ReplacingLines'' rnd"
  have plain: "plain_file temp_group st" using assms(3-5) by (simp add: plain_file_def)
  have ne: "root_line \<noteq> []" by (simp add: root_line_def)
  define n1 where "n1 = written_node temp_group root_line st"
  define st1 where "st1 = put_node temp_group (Some n1) st"
  have save: "SavePayloadToFile sys_ok (Some temp_group) (Some root_line) st = (True, st1)"
    using SaveToFile_ok [OF plain ne, of "''w''"] by (simp add: SavePayloadToFile_def st1_def n1_def)
  have n1: "bytes n1 = root_line" "\<not> is_dir n1" using plain by (simp_all add: n1_def)
  have nul: "NUL \<notin> set root_line" by (simp add: root_line_def NUL_def EOL_def)
  define n2 where "n2 = (new_file st)\<lparr>st_mode := MODE_0600, bytes := []\<rparr>"
  have n2: "bytes n2 = []" "\<not> is_dir n2" using assms(5) by (simp_all add: n2_def)
  have "edit_text sys_ok (line_max st1) ''root'' None CHR ''#'' False (readable_bytes n1) = ([], 0, False)"
    using edit_root_line [of "line_max st"] n1 assms(6) by (simp add: st1_def readable_bytes_def)
  from ReplaceMarkedLinesInFile_drop [OF _ n1(2) _ t(2) this]
  have "ReplaceMarkedLinesInFile sys_ok rnd (Some temp_group) (Some ''root'') None CHR ''#'' False st1 =
      (0, put_node temp_group (Some n2) st)"
    using t assms(5) by (simp add: st1_def n2_def)
  moreover have "remove_file temp_group (put_node temp_group (Some n2) st) = st"
    using assms(3) by (simp add: remove_file_def put_node_same)
  moreover have "remove_file temp_group st1 = st"
    using assms(3) by (simp add: remove_file_def st1_def put_node_same)
  ultimately show ?thesis
    using save assms(1,2) n2
    by (simp add: repair_group_file_def readable_bytes_def AppendPayloadToFile_def)
qed

subsection \<open>Changing ages\<close>

text \<open>\<open>chage\<close> sets one field of the shadow entry of one user.\<close>

definition set_min :: "int \<Rightarrow> string \<Rightarrow> host \<Rightarrow> host" where
  "set_min days n w = w\<lparr>getspnam := (getspnam w)(n := map_option (sp_min_update (\<lambda>_. days)) (getspnam w n))\<rparr>"

definition old_enough :: "int \<Rightarrow> host \<Rightarrow> SimplifiedUser \<Rightarrow> bool" where
  "old_enough days w u =
     (case username u of None \<Rightarrow> False
      | Some n \<Rightarrow> (case getspnam w n of None \<Rightarrow> False | Some e \<Rightarrow> days \<le> sp_min e))"

lemma old_enough_set_min:
  "old_enough days w u \<Longrightarrow> old_enough days (set_min days n w) u"
  by (auto simp: old_enough_def set_min_def split: option.splits)

lemma copy_users_shadow:
  "copy_users m w i es = (s, us) \<Longrightarrow> u \<in> set us \<Longrightarrow> hasPassword u \<Longrightarrow>
     \<exists>n e. username u = Some n \<and> getspnam w n = Some e \<and> sp_min e = minimumPasswordAge u"
proof (induction es arbitrary: i s us)
  case (Cons x es)
  obtain u1 where u1: "CopyUserEntry m i x = (0, u1)"
    using Cons.prems by (cases "CopyUserEntry m i x") (auto split: if_splits)
  obtain u2 where u2: "CheckIfUserHasPassword w u1 = (0, u2)"
    using Cons.prems u1 by (cases "CheckIfUserHasPassword w u1") (auto split: if_splits)
  obtain s' us' where rest: "copy_users m w (Suc i) es = (s', us')" by force
  then have cases: "u = u2 \<or> u \<in> set us'" using Cons.prems u1 u2 by auto
  have "\<exists>n e. username u2 = Some n \<and> getspnam w n = Some e \<and> sp_min e = minimumPasswordAge u2" if "hasPassword u2"
    using u2 that CopyUserEntry_flags [OF u1]
    by (auto simp: CheckIfUserHasPassword_def Let_def codes split: option.splits if_splits)
  then show ?case using Cons.IH [OF rest] cases Cons.prems(3) by blast
qed simp

lemma EnumerateUsers_shadow:
  assumes "EnumerateUsers m r w = (s, us, r')" and "u \<in> set us" and "hasPassword u"
  shows "\<exists>n e. username u = Some n \<and> getspnam w n = Some e \<and> sp_min e = minimumPasswordAge u"
proof -
  let ?n = "unat (GetNumberOfLinesInFile (nested ''passwd'' m) (Some ''/etc/passwd'') (host_fs w))"
  obtain s' us' where c: "copy_users m w 0 (take ?n (getpwent w)) = (s', us')" by force
  then have "u \<in> set us'" using assms(1,2) by (auto simp: EnumerateUsers_def Let_def split: if_splits)
  from copy_users_shadow [OF c this assms(3)] show ?thesis .
qed

text \<open>After the loop every user in need was served; a user that is old enough stays so.\<close>

lemma chage_users_old_enough:
  assumes chage: "\<And>n w. \<exists>out. exec (''chage -m '' @ print_int days @ '' '' @ n) w = (0, out, set_min days n w)"
    and "\<forall>u \<in> set us. hasPassword u \<longrightarrow>
      (\<exists>n e. username u = Some n \<and> getspnam w n = Some e) \<and> (days \<le> minimumPasswordAge u \<longrightarrow> old_enough days w u)"
    and "\<And>i. m ''FormatAllocateString.chage'' i = 0"
  shows "\<exists>w'. chage_users m exec ''-m'' days (\<lambda>u. hasPassword u \<and> minimumPasswordAge u < days) i us 0 w = (0, w') \<and>
    (\<forall>v. old_enough days w v \<longrightarrow> old_enough days w' v) \<and> (\<forall>u \<in> set us. hasPassword u \<longrightarrow> old_enough days w' u)"
  using assms(2)
proof (induction us arbitrary: i w)
  case (Cons u us)
  show ?case
  proof (cases "hasPassword u \<and> minimumPasswordAge u < days")
    case False
    then have "hasPassword u \<longrightarrow> old_enough days w u" using Cons.prems by (simp add: not_less)
    then show ?thesis using False Cons.IH [of w "Suc i"] Cons.prems by auto
  next
    case True
    then obtain n e where u: "username u = Some n" "getspnam w n = Some e" using Cons.prems by auto
    obtain out where run: "exec (''chage -m '' @ print_int days @ '' '' @ n) w = (0, out, set_min days n w)" using chage by blast
    let ?w = "set_min days n w"
    have "\<exists>k e. username v = Some k \<and> getspnam ?w k = Some e" if "v \<in> set us" "hasPassword v" for v
      using that Cons.prems by (fastforce simp: set_min_def)
    moreover have "old_enough days ?w v" if "v \<in> set us" "hasPassword v" "days \<le> minimumPasswordAge v" for v
      using that Cons.prems old_enough_set_min by simp
    ultimately have "\<exists>w'. chage_users m exec ''-m'' days (\<lambda>u. hasPassword u \<and> minimumPasswordAge u < days) (Suc i) us 0 ?w = (0, w') \<and>
        (\<forall>v. old_enough days ?w v \<longrightarrow> old_enough days w' v) \<and> (\<forall>u \<in> set us. hasPassword u \<longrightarrow> old_enough days w' u)"
      by (intro Cons.IH) blast
    moreover have "old_enough days ?w u" using u by (simp add: old_enough_def set_min_def)
    ultimately show ?thesis
      using True u run assms(3) old_enough_set_min [of days w _ n] by (auto simp: first_error_def show_s_def)
  qed
qed simp

lemma SetPasswordDays_old_enough:
  "old_enough d (snd (SetPasswordDays m exec rnd nm days w)) u = old_enough d w u"
  by (simp add: SetPasswordDays_def split_def old_enough_def cong: option.case_cong)

subsection \<open>Duplicates\<close>

lemma first_duplicate_None:
  "first_duplicate (\<lambda>x y. f x = f y) xs = None \<longleftrightarrow> distinct (map f xs)"
proof -
  have "(\<forall>x \<in> set xs. length (filter (\<lambda>y. f x = f y) xs) \<le> 1) \<longleftrightarrow> distinct (map f xs)"
  proof (induction xs)
    case (Cons a xs)
    have a: "filter (\<lambda>y. f a = f y) xs = [] \<longleftrightarrow> f a \<notin> f ` set xs" by (auto simp: filter_empty_conv)
    have "length (filter (\<lambda>y. f x = f y) (a # xs)) = length (filter (\<lambda>y. f x = f y) xs)" if "x \<in> set xs" "f a \<notin> f ` set xs" for x
    proof -
      have "f x \<noteq> f a" using that by (metis image_eqI)
      then show ?thesis by simp
    qed
    then show ?case using Cons.IH a by auto
  qed simp
  then show ?thesis by (auto simp: first_duplicate_def find_None_iff not_less)
qed

subsection \<open>Properties\<close>

text \<open>C23: The audit of the minimum age of passwords gives two answers. Its status is 0 exactly when
  \<open>/etc/login.defs\<close> has a suitable setting, the users could be enumerated and every user with a password
  has a minimum age of at least the requested days. The reason that is recorded, which the baseline
  reports, tells of a success as soon as the setting is suitable, whatever the users have: each recorded
  success discards the failures before it.\<close>

theorem CheckMinDays_verdict:
  "passes (snd (CheckMinDaysBetweenPasswordChanges m exec days (Some r) w)) =
     defs_ok (GetPassMinDays (nested ''Get'' m) exec w) days \<and>
   (fst (CheckMinDaysBetweenPasswordChanges m exec days (Some r) w) = 0) =
     (defs_ok (GetPassMinDays (nested ''Get'' m) exec w) days \<and>
      (case EnumerateUsers (nested ''Users'' m) (Some r) w of
         (s, users, _) \<Rightarrow> s = 0 \<and> list_all (\<lambda>u. days \<le> minimumPasswordAge u) (filter hasPassword users)))"
  using CheckMinDays_parts [of m r w _ _ _ exec days]
  by (cases "EnumerateUsers (nested ''Users'' m) (Some r) w") (auto simp: list_all_iff)

text \<open>C24: The audit of system accounts that can log in finds none on any host: a user that was read with
  a password is never marked as locked, without login or unable to log in. The status is the one of
  reading the users, and the remediation leaves every host as it is.\<close>

theorem CheckSystemAccountsAreNonLogin_vacuous:
  "fst (CheckSystemAccountsAreNonLogin m r w) = fst (EnumerateUsers m r w) \<and>
   snd (SetSystemAccountsNonLogin m exec w) = w"
proof
  obtain s us r1 where e: "EnumerateUsers m r w = (s, us, r1)" using prod_cases3 by blast
  show "fst (CheckSystemAccountsAreNonLogin m r w) = fst (EnumerateUsers m r w)"
    using no_login_anyway [OF e] by (simp add: CheckSystemAccountsAreNonLogin_def e fold_skip split_def fun_eq_iff)
  obtain s us r1 where e: "EnumerateUsers (nested ''Users'' m) None w = (s, us, r1)" using prod_cases3 by blast
  show "snd (SetSystemAccountsNonLogin m exec w) = w"
    using no_login_anyway [OF e] by (simp add: SetSystemAccountsNonLogin_def e fold_skip fun_eq_iff)
qed

text \<open>The audit of duplicate user identifiers succeeds exactly when the users can be read and their
  identifiers are distinct.\<close>

theorem CheckNoDuplicateUidsExist_distinct:
  "fst (CheckNoDuplicateUidsExist m r w) = 0 \<longleftrightarrow>
     (case EnumerateUsers m r w of (s, users, _) \<Rightarrow> s = 0 \<and> distinct (map userId users))"
proof -
  obtain s us r1 where e: "EnumerateUsers m r w = (s, us, r1)" using prod_cases3 by blast
  show ?thesis
    using first_duplicate_None [of userId us]
    by (cases "first_duplicate (\<lambda>u v. userId u = userId v) us") (simp_all add: CheckNoDuplicateUidsExist_def e EEXIST_def)
qed

text \<open>The repair of the root group never repairs anything. When \<open>/etc/group\<close> is readable and no group
  \<open>root\<close> with the identifier 0 is found, it returns \<open>ENOENT\<close> and leaves the host as it was, even though no
  system call fails: the temporary file is given the line of the root group in place of the contents of
  \<open>/etc/group\<close>, so that nothing is left of it once the lines of the root group are taken out.\<close>

theorem RepairRootGroup_never:
  assumes "EnumerateAllGroups sys_ok None w = (0, groups, r)" and "find_root_group groups = Some False"
    and "node (host_fs w) etc_group = Some g" "\<not> is_dir g" and "node (host_fs w) temp_group = None"
    and "bytes (new_file (host_fs w)) = []" "\<not> is_dir (new_file (host_fs w))" and "10 \<le> line_max (host_fs w)"
    and "node (host_fs w) (temp_name (dirname temp_group) ''~OSConfig.ReplacingLines'' rnd) = None"
    and "temp_name (dirname temp_group) ''~OSConfig.ReplacingLines'' rnd \<noteq> temp_group"
  shows "RepairRootGroup sys_ok rnd w = Some (ENOENT, w)"
  using assms(1,2) repair_group_file_fails [OF assms(3-10)] by (simp add: RepairRootGroup_def)

text \<open>A host with one user and the group \<open>adm\<close>.\<close>

definition sample_host :: host where
  "sample_host = \<lparr>
     host_fs = \<lparr>node = [etc_group \<mapsto> \<lparr>is_dir = False, bytes = ''adm:x:4:'' @ [EOL], st_uid = 0, st_gid = 0, st_mode = 0\<rparr>,
                       ''/etc/passwd'' \<mapsto> \<lparr>is_dir = False, bytes = ''ann:x:7:7::/h:/s'' @ [EOL], st_uid = 0, st_gid = 0, st_mode = 0\<rparr>],
       new_file = \<lparr>is_dir = False, bytes = [], st_uid = 0, st_gid = 0, st_mode = 0\<rparr>, line_max = 64\<rparr>,
     getpwent = [\<lparr>pw_name = Some ''ann'', pw_uid = 7, pw_gid = 7, pw_dir = Some ''/h'', pw_shell = Some ''/s''\<rparr>],
     getspnam = [''ann'' \<mapsto> \<lparr>sp_pwdp = Some ''$6$x'', sp_lstchg = 1, sp_min = 0, sp_max = 9, sp_warn = 0, sp_inact = 0, sp_expire = 0\<rparr>],
     spnam_errno = (\<lambda>_. 0),
     getgrent = [\<lparr>gr_name = Some ''adm'', gr_gid = 4, gr_mem = None\<rparr>],
     getgrgid = (\<lambda>_. None), grgid_errno = (\<lambda>_. 0), getgrouplist = (\<lambda>_ _. []), today = 20000\<rparr>"

definition sample_user :: SimplifiedUser where
  "sample_user = ResetUserEntry
     \<lparr>username := Some ''ann'', userId := 7, groupId := 7, home := Some ''/h'', shell := Some ''/s'',
      passwordEncryption := sha512, hasPassword := True, lastPasswordChange := 1, maximumPasswordAge := 9\<rparr>"

definition sample_chage :: exec where
  "sample_chage cmd w = (0, None, if take 11 cmd = ''chage -m 7 '' then set_min 7 (drop 11 cmd) w else w)"

theorem RepairRootGroup_never_witness:
  "RepairRootGroup sys_ok 5 sample_host = Some (ENOENT, sample_host)"
proof (rule RepairRootGroup_never [where g = "\<lparr>is_dir = False, bytes = ''adm:x:4:'' @ [EOL], st_uid = 0, st_gid = 0, st_mode = 0\<rparr>"])
  show "EnumerateAllGroups sys_ok None sample_host = (0, [\<lparr>groupName = Some ''adm'', gid = 4, hasUsers = False\<rparr>], None)"
    by code_simp
  show "find_root_group [\<lparr>groupName = Some ''adm'', gid = 4, hasUsers = False\<rparr>] = Some False" by simp
qed (simp_all add: sample_host_def etc_group_def temp_group_def temp_name_def)

text \<open>C22: The remediation of the minimum age of passwords reaches every user. When no system call fails
  and \<open>chage -m\<close> sets the minimum age in the shadow entry of the user it is given, as it is documented to
  do, every user with a password then has a shadow entry with at least the requested minimum age.\<close>

theorem SetMinDays_effective:
  assumes "\<And>n w. \<exists>out. exec (''chage -m '' @ print_int days @ '' '' @ n) w = (0, out, set_min days n w)"
    and "EnumerateUsers sys_ok None w = (0, users, r)" and "u \<in> set users" "hasPassword u"
  shows "old_enough days (snd (SetMinDaysBetweenPasswordChanges sys_ok exec rnd days w)) u"
proof -
  have "\<forall>u \<in> set users. hasPassword u \<longrightarrow>
      (\<exists>n e. username u = Some n \<and> getspnam w n = Some e) \<and> (days \<le> minimumPasswordAge u \<longrightarrow> old_enough days w u)"
    using EnumerateUsers_shadow [OF assms(2)] by (fastforce simp: old_enough_def)
  from chage_users_old_enough [OF assms(1) this, of sys_ok 0]
  obtain w' where w': "chage_all sys_ok exec ''-m'' days (\<lambda>u. hasPassword u \<and> minimumPasswordAge u < days) w = (0, w')"
    and old: "old_enough days w' u"
    using assms(2-4) by (auto simp: chage_all_def)
  then show ?thesis
    by (simp add: SetMinDaysBetweenPasswordChanges_def SetPassMinDays_def SetPasswordDays_old_enough split_def)
qed

theorem SetMinDays_effective_witness:
  "old_enough 7 (snd (SetMinDaysBetweenPasswordChanges sys_ok sample_chage 5 7 sample_host)) sample_user"
proof (rule SetMinDays_effective)
  have seven: "print_int 7 = ''7''" by code_simp
  show "EnumerateUsers sys_ok None sample_host = (0, [sample_user], None)" by code_simp
  show "\<exists>out. sample_chage (''chage -m '' @ print_int 7 @ '' '' @ n) w = (0, out, set_min 7 n w)" for n w
    by (simp add: sample_chage_def seven)
qed (simp_all add: sample_user_def)

end
