(* ===== verification/Runtime.thy ===== *)
theory Runtime
  imports UserHomes CommandUtils
begin

text \<open>
  The state the utilities of the baseline engine run in. A utility reads and changes the host, runs
  commands through \<open>ExecuteCommand\<close> (\<open>shell_exec\<close>: its result, the text it leaves and what the command
  does to the host), draws the random part of names of temporary files (\<open>random\<close>), and asks the
  oracle \<open>faults\<close> whether an allocation or a system call fails. The counter \<open>calls\<close> gives every call a part
  of its own of the oracle and of the random numbers. \<open>readdir_of\<close> gives the entries of a directory, each with
  whether it is a regular file, and \<open>new_dir\<close> is what \<open>mkdir\<close> makes. \<open>why\<close> is the \<open>char** reason\<close> argument: \<open>None\<close> for a
  \<open>NULL\<close> argument, \<open>Some None\<close> for a pointer to \<open>NULL\<close>. A component with global variables extends this
  record with them.
\<close>

record runtime =
  faults :: sys
  calls :: nat
  shell_exec :: exec
  random :: "nat \<Rightarrow> nat"
  readdir_of :: "string \<Rightarrow> (string \<times> bool) list option"
  new_dir :: inode
  host_of :: host
  why :: reason

named_theorems effects \<open>definitions of the basic effects\<close>

definition now :: "'a runtime_scheme \<Rightarrow> sys" where
  "now s = nested (dec (calls s)) (faults s)"

definition tick :: "'a runtime_scheme \<Rightarrow> 'a runtime_scheme" where [effects]:
  "tick s = s\<lparr>calls := Suc (calls s)\<rparr>"

text \<open>Whether a call fails: 0 or its error.\<close>

definition ask :: "string \<Rightarrow> 'a runtime_scheme \<Rightarrow> int \<times> 'a runtime_scheme" where [effects]:
  "ask site s = (now s site 0, tick s)"

text \<open>\<open>FormatAllocateString\<close> and \<open>DuplicateString\<close>: \<open>NULL\<close> without memory.\<close>

definition format_text :: "string \<Rightarrow> 'a runtime_scheme \<Rightarrow> cstr \<times> 'a runtime_scheme" where [effects]:
  "format_text t s = (if now s ''FormatAllocateString'' 0 \<noteq> 0 then None else Some t, tick s)"

definition duplicate :: "string \<Rightarrow> 'a runtime_scheme \<Rightarrow> cstr \<times> 'a runtime_scheme" where [effects]:
  "duplicate t s = (if now s ''DuplicateString'' 0 \<noteq> 0 then None else Some t, tick s)"

text \<open>\<open>ExecuteCommand\<close> with its options for the text, and without a text.\<close>

definition plain_output :: command_options where
  "plain_output = \<lparr>replaceEol = False, forJson = False, maxTextResultBytes = 0, timeoutSeconds = 0,
     wantText = True, hasCallback = False\<rparr>"

definition run_text :: "command_options \<Rightarrow> string \<Rightarrow> 'a runtime_scheme \<Rightarrow> (int \<times> cstr) \<times> 'a runtime_scheme" where [effects]:
  "run_text opts cmd s =
     (case shell_exec s cmd (host_of s) of
        (status, out, w) \<Rightarrow> ((status, map_option (output_of opts) out), s\<lparr>host_of := w\<rparr>))"

definition run :: "string \<Rightarrow> 'a runtime_scheme \<Rightarrow> int \<times> 'a runtime_scheme" where [effects]:
  "run cmd s = (case run_text plain_output cmd s of ((status, _), s') \<Rightarrow> (status, s'))"

text \<open>The texts of the reason.\<close>

definition capture :: "string \<Rightarrow> 'a runtime_scheme \<Rightarrow> 'a runtime_scheme" where [effects]:
  "capture msg s = s\<lparr>why := OsConfigCaptureReason msg (why s)\<rparr>"

definition capture_success :: "string \<Rightarrow> 'a runtime_scheme \<Rightarrow> 'a runtime_scheme" where [effects]:
  "capture_success msg s = s\<lparr>why := OsConfigCaptureSuccessReason msg (why s)\<rparr>"

text \<open>A call with \<open>NULL\<close> for the reason.\<close>

definition quietly :: "('a runtime_scheme \<Rightarrow> 'b \<times> 'a runtime_scheme) \<Rightarrow> 'a runtime_scheme \<Rightarrow> 'b \<times> 'a runtime_scheme" where [effects]:
  "quietly f s = (case f (s\<lparr>why := None\<rparr>) of (x, s') \<Rightarrow> (x, s'\<lparr>why := why s\<rparr>))"

text \<open>Functions of the file utilities and of the user utilities as operations of the runtime.\<close>

definition fs_of :: "'a runtime_scheme \<Rightarrow> fs" where [effects]:
  "fs_of s = host_fs (host_of s)"

definition put_fs :: "fs \<Rightarrow> 'a runtime_scheme \<Rightarrow> 'a runtime_scheme" where [effects]:
  "put_fs st s = s\<lparr>host_of := (host_of s)\<lparr>host_fs := st\<rparr>\<rparr>"

definition read_fs :: "(sys \<Rightarrow> fs \<Rightarrow> 'b) \<Rightarrow> 'a runtime_scheme \<Rightarrow> 'b \<times> 'a runtime_scheme" where [effects]:
  "read_fs f s = (f (now s) (fs_of s), tick s)"

definition edit_fs :: "(sys \<Rightarrow> nat \<Rightarrow> fs \<Rightarrow> 'b \<times> fs) \<Rightarrow> 'a runtime_scheme \<Rightarrow> 'b \<times> 'a runtime_scheme" where [effects]:
  "edit_fs f s = (case f (now s) (random s (calls s)) (fs_of s) of (x, st) \<Rightarrow> (x, tick (put_fs st s)))"

definition check_host :: "(sys \<Rightarrow> reason \<Rightarrow> host \<Rightarrow> 'b \<times> reason) \<Rightarrow> 'a runtime_scheme \<Rightarrow> 'b \<times> 'a runtime_scheme" where [effects]:
  "check_host f s = (case f (now s) (why s) (host_of s) of (x, r) \<Rightarrow> (x, tick (s\<lparr>why := r\<rparr>)))"

definition edit_host :: "(sys \<Rightarrow> exec \<Rightarrow> host \<Rightarrow> 'b \<times> host) \<Rightarrow> 'a runtime_scheme \<Rightarrow> 'b \<times> 'a runtime_scheme" where [effects]:
  "edit_host f s = (case f (now s) (shell_exec s) (host_of s) of (x, w) \<Rightarrow> (x, tick (s\<lparr>host_of := w\<rparr>)))"

subsection \<open>Lines\<close>

definition blank :: "char \<Rightarrow> bool" where
  "blank c \<longleftrightarrow> c = CHR '' '' \<or> c = CHR 0x09"

lemma next_line_shorter: "s \<noteq> [] \<Longrightarrow> length (dropWhile P s) - Suc 0 < length s"
  using length_dropWhile_le [of P s] by (cases s) (auto simp: less_Suc_eq_le intro: le_trans [OF diff_le_self])

text \<open>The lines of a text, each with whether a line feed ends it.\<close>

function text_lines :: "string \<Rightarrow> (string \<times> bool) list" where
  "text_lines s =
     (if s = [] then []
      else (takeWhile (\<lambda>c. c \<noteq> EOL) s, dropWhile (\<lambda>c. c \<noteq> EOL) s \<noteq> []) # text_lines (tl (dropWhile (\<lambda>c. c \<noteq> EOL) s)))"
  by pat_completeness auto
termination
  by (relation "measure length") (simp_all add: next_line_shorter)

declare text_lines.simps [simp del]

subsection \<open>What an operation keeps\<close>

text \<open>
  A relation between the state before and after an operation that holds of the basic effects holds of
  every sequence of them.
\<close>

locale effect_relation =
  fixes rel :: "'a runtime_scheme \<Rightarrow> 'a runtime_scheme \<Rightarrow> bool"
  assumes rel_refl [simp, intro]: "rel s s"
    and rel_trans [trans]: "rel s t \<Longrightarrow> rel t u \<Longrightarrow> rel s u"
    and rel_tick: "rel s (s\<lparr>calls := n\<rparr>)"
    and rel_why: "rel s (s\<lparr>why := r\<rparr>)"
begin

definition keeps :: "('a runtime_scheme \<Rightarrow> 'b \<times> 'a runtime_scheme) \<Rightarrow> bool" where
  "keeps f \<longleftrightarrow> (\<forall>s. rel s (snd (f s)))"

lemma keepsI: "(\<And>s. rel s (snd (f s))) \<Longrightarrow> keeps f"
  by (simp add: keeps_def)

lemma keepsD: "keeps f \<Longrightarrow> rel s (snd (f s))"
  by (simp add: keeps_def)

lemma keeps_step: "rel s t \<Longrightarrow> keeps f \<Longrightarrow> rel s (snd (f t))"
  using rel_trans keepsD by blast

lemma keeps_pair: "keeps f \<Longrightarrow> f s = (x, t) \<Longrightarrow> rel s t"
  using keepsD [of f s] by simp

lemma rel_tick' [simp]: "rel s (tick s)"
  by (simp add: tick_def rel_tick)

lemma rel_capture [simp]: "rel s (capture msg s)" "rel s (capture_success msg s)"
  by (simp_all add: capture_def capture_success_def rel_why)

lemma rel_capture_step: "rel s t \<Longrightarrow> rel s (capture msg t)" "rel s t \<Longrightarrow> rel s (capture_success msg t)"
  using rel_trans rel_capture by blast+

lemma keeps_ask [simp]: "keeps (ask site)"
  by (simp add: keeps_def ask_def)

lemma keeps_format_text [simp]: "keeps (format_text t)"
  by (simp add: keeps_def format_text_def)

lemma keeps_read_fs [simp]: "keeps (read_fs f)"
  by (simp add: keeps_def read_fs_def)

lemma keeps_check_host [simp]: "keeps (check_host f)"
  by (auto simp: keeps_def check_host_def split: prod.splits
      intro: rel_trans [OF rel_why rel_tick'])

lemma keeps_quietly: "keeps f \<Longrightarrow> keeps (quietly f)"
proof (rule keepsI)
  fix s assume f: "keeps f"
  obtain x t where t: "f (s\<lparr>why := None\<rparr>) = (x, t)" by (cases "f (s\<lparr>why := None\<rparr>)")
  have "rel s t" using keeps_step [OF rel_why f, of s None] t by simp
  then show "rel s (snd (quietly f s))"
    using rel_trans rel_why by (simp add: quietly_def t)
qed

end

text \<open>The host stays as it is; the global variables of a component (the extension of the record) stay as
  they are.\<close>

definition same_host :: "'a runtime_scheme \<Rightarrow> 'a runtime_scheme \<Rightarrow> bool" where
  "same_host s t \<longleftrightarrow> host_of t = host_of s \<and> shell_exec t = shell_exec s \<and> faults t = faults s"

interpretation host: effect_relation same_host
  by unfold_locales (auto simp: same_host_def)

definition same_globals :: "'a runtime_scheme \<Rightarrow> 'a runtime_scheme \<Rightarrow> bool" where
  "same_globals s t \<longleftrightarrow> runtime.more t = runtime.more s \<and> shell_exec t = shell_exec s \<and> faults t = faults s"

interpretation globals: effect_relation same_globals
  by unfold_locales (auto simp: same_globals_def)

end
