(* ===== verification/FileChecks.thy ===== *)
theory FileChecks
  imports Runtime FileOptions
begin

text \<open>
  The checks of files with the reasons they give (\<open>FileUtils.c\<close>), as operations of the runtime: what
  the baseline engine calls. The status of a check is the one of the theory \<open>FileOptions\<close> and of
  \<open>CheckAccess\<close>; here are the texts, which decide the verdict of an audit, and the checks that
  run commands or read directories.
\<close>

definition OsConfigIsSuccessReason :: "reason \<Rightarrow> bool" where
  "OsConfigIsSuccessReason r =
     (case r of None \<Rightarrow> False | Some None \<Rightarrow> True | Some (Some t) \<Rightarrow> prefix SECURITY_AUDIT_PASS t)"

definition OsConfigResetReason :: "'a runtime_scheme \<Rightarrow> 'a runtime_scheme" where
  "OsConfigResetReason s = s\<lparr>why := map_option (\<lambda>_. None) (why s)\<rparr>"

text \<open>Success or failure, as the reason so far has it.\<close>

definition capture_same :: "string \<Rightarrow> string \<Rightarrow> 'a runtime_scheme \<Rightarrow> 'a runtime_scheme" where
  "capture_same good bad s = (if OsConfigIsSuccessReason (why s) then capture_success good s else capture bad s)"

text \<open>\<open>0%04o\<close>.\<close>

fun octal :: "nat \<Rightarrow> string" where
  "octal n = (if n < 8 then [digit_char n] else octal (n div 8) @ [digit_char (n mod 8)])"

declare octal.simps [simp del]

definition show_o :: "32 word \<Rightarrow> string" where
  "show_o x = ''0'' @ replicate (4 - length (octal (unat x))) CHR ''0'' @ octal (unat x)"

definition show_d :: "32 word \<Rightarrow> string" where
  "show_d x = print_int (sint x)"

subsection \<open>Existence\<close>

definition CheckFileExists_r :: "cstr \<Rightarrow> 'a runtime_scheme \<Rightarrow> int \<times> 'a runtime_scheme" where
  "CheckFileExists_r fileName s =
     (let status = CheckFileExists fileName (fs_of s)
      in (status, if status = 0 then capture_success (''File '' @ sq (show_s fileName) @ '' exists'') s
                  else capture (''File  '' @ sq (show_s fileName) @ '' is not found'') s))"

definition CheckFileNotFound_r :: "cstr \<Rightarrow> 'a runtime_scheme \<Rightarrow> int \<times> 'a runtime_scheme" where
  "CheckFileNotFound_r fileName s =
     (let status = CheckFileNotFound fileName (fs_of s)
      in (status, if status = 0 then capture_success (''File '' @ sq (show_s fileName) @ '' is not found'') s
                  else capture (''File  '' @ sq (show_s fileName) @ '' exists'') s))"

subsection \<open>Ownership and access\<close>

definition access_text :: "sys \<Rightarrow> bool \<Rightarrow> cstr \<Rightarrow> 32 word \<Rightarrow> 32 word \<Rightarrow> 32 word \<Rightarrow> 'a runtime_scheme \<Rightarrow> 'a runtime_scheme" where
  "access_text m directory nm owner grp access s =
     (case nm of
        None \<Rightarrow> s
      | Some p \<Rightarrow>
          if \<not> found_as m directory p (fs_of s)
          then capture_same (sq p @ '' is not found, nothing to check'') (sq p @ '' is not found'') s
          else (case node (fs_of s) p of
             None \<Rightarrow> s
           | Some n \<Rightarrow>
               if m ''stat'' 0 \<noteq> 0 then s
               else if owner \<noteq> - 1 \<and> owner \<noteq> st_uid n \<or> grp \<noteq> - 1 \<and> grp \<noteq> st_gid n
               then capture (''Ownership of '' @ sq p @ '' ('' @ (show_d (st_uid n)) @ '', '' @ (show_d (st_gid n)) @ '') does not match expected ('' @ show_d owner @ '', '' @ show_d grp @ '')'') s
               else if st_mode n AND MODE_07777 \<noteq> desired_mode directory access
               then capture (''Access to '' @ sq p @ '' ('' @ (show_o (st_mode n AND MODE_07777)) @ '') does not match expected ('' @ (show_o (desired_mode directory access)) @ '')'') s
               else capture_success (sq p @ '' has required access ('' @ (show_o (desired_mode directory access)) @ '') and ownership (uid: '' @ show_d owner @ '', gid: '' @ show_u grp @ '')'') s))"

definition CheckAccess_r :: "bool \<Rightarrow> cstr \<Rightarrow> 32 word \<Rightarrow> 32 word \<Rightarrow> 32 word \<Rightarrow> 'a runtime_scheme \<Rightarrow> int \<times> 'a runtime_scheme" where
  "CheckAccess_r directory nm owner grp access s =
     (CheckAccess (now s) directory nm owner grp access (fs_of s),
      tick (access_text (now s) directory nm owner grp access s))"

definition CheckFileAccess :: "cstr \<Rightarrow> 32 word \<Rightarrow> 32 word \<Rightarrow> 32 word \<Rightarrow> 'a runtime_scheme \<Rightarrow> int \<times> 'a runtime_scheme" where
  "CheckFileAccess = CheckAccess_r False"

definition SetFileAccess :: "cstr \<Rightarrow> 32 word \<Rightarrow> 32 word \<Rightarrow> 32 word \<Rightarrow> 'a runtime_scheme \<Rightarrow> int \<times> 'a runtime_scheme" where
  "SetFileAccess nm owner grp access = edit_fs (\<lambda>m _. SetAccess m False nm owner grp access)"

definition CheckDirectoryAccess :: "cstr \<Rightarrow> 32 word \<Rightarrow> 32 word \<Rightarrow> 32 word \<Rightarrow> 'a runtime_scheme \<Rightarrow> int \<times> 'a runtime_scheme" where
  "CheckDirectoryAccess = CheckAccess_r True"

definition SetDirectoryAccess :: "cstr \<Rightarrow> 32 word \<Rightarrow> 32 word \<Rightarrow> 32 word \<Rightarrow> 'a runtime_scheme \<Rightarrow> int \<times> 'a runtime_scheme" where
  "SetDirectoryAccess nm owner grp access = edit_fs (\<lambda>m _. SetAccess m True nm owner grp access)"

subsection \<open>Text in files\<close>

definition CheckNoLegacyPlusEntriesInFile_r :: "cstr \<Rightarrow> 'a runtime_scheme \<Rightarrow> int \<times> 'a runtime_scheme" where
  "CheckNoLegacyPlusEntriesInFile_r fileName s =
     (case read_fs (\<lambda>m. CheckNoLegacyPlusEntriesInFile m fileName) s of
        (status, s1) \<Rightarrow>
          (status, if status = 0 then capture_success (''There are no '' @ sq ''+'' @ '' lines in file '' @ sq (show_s fileName)) s1
                   else capture (''There are '' @ sq ''+'' @ '' lines in file '' @ sq (show_s fileName)) s1))"

definition CheckTextIsFoundInFile_r :: "cstr \<Rightarrow> cstr \<Rightarrow> 'a runtime_scheme \<Rightarrow> int \<times> 'a runtime_scheme" where
  "CheckTextIsFoundInFile_r fileName t s =
     (if fileName \<noteq> None \<and> \<not> FileExists fileName (fs_of s)
      then (ENOENT, capture (sq (show_s fileName) @ '' not found'') s)
      else (case read_fs (\<lambda>m. FindTextInFile m fileName t) s of
         (result, s1) \<Rightarrow>
           (result, if result = 0 then capture_success (sq (show_s t) @ '' found in '' @ sq (show_s fileName)) s1
                    else if result = ENOENT then capture (sq (show_s t) @ '' not found in '' @ sq (show_s fileName)) s1
                    else s1)))"

definition CheckTextIsNotFoundInFile_r :: "cstr \<Rightarrow> cstr \<Rightarrow> 'a runtime_scheme \<Rightarrow> int \<times> 'a runtime_scheme" where
  "CheckTextIsNotFoundInFile_r fileName t s =
     (if fileName \<noteq> None \<and> \<not> FileExists fileName (fs_of s)
      then (0, capture_success (sq (show_s fileName) @ '' not found'') s)
      else (case read_fs (\<lambda>m. FindTextInFile m fileName t) s of
         (result, s1) \<Rightarrow>
           if result = ENOENT then (0, capture_success (sq (show_s t) @ '' not found in '' @ sq (show_s fileName)) s1)
           else if result = 0 then (ENOENT, capture (sq (show_s t) @ '' found in '' @ sq (show_s fileName)) s1)
           else (result, s1)))"

text \<open>The loop over the occurrences of the marker, with a reason for each that counts.\<close>

function marker_loop :: "string \<Rightarrow> (string \<Rightarrow> string) \<Rightarrow> string \<Rightarrow> 'a runtime_scheme \<Rightarrow> bool \<times> 'a runtime_scheme" where
  "marker_loop mk msg found s =
     (case strstr found mk of
        None \<Rightarrow> (False, s)
      | Some f \<Rightarrow>
          (case f of
             [] \<Rightarrow> (False, s)
           | c # r \<Rightarrow>
               if r = [] then (False, s)
               else if \<not> isalpha (hd r)
               then (case marker_loop mk msg r (capture (msg r) s) of (_, s1) \<Rightarrow> (True, s1))
               else marker_loop mk msg r s))"
  by pat_completeness auto
termination
proof (relation "measure (\<lambda>(mk, msg, found, s). length found)", goal_cases)
  case (2 mk msg found s f c r)
  then have "suffix f found" using strstr_Some_D by blast
  then have "length f \<le> length found" by (rule suffix_length_le)
  then show ?case using 2 by simp
next
  case (3 mk msg found s f c r)
  then have "suffix f found" using strstr_Some_D by blast
  then have "length f \<le> length found" by (rule suffix_length_le)
  then show ?case using 3 by simp
qed simp

declare marker_loop.simps [simp del]

definition one_line :: command_options where
  "one_line = plain_output\<lparr>replaceEol := True\<rparr>"

definition IsValidGrepArgument :: "cstr \<Rightarrow> bool" where
  "IsValidGrepArgument = IsValidDaemonName"

definition CheckMarkedTextNotFoundInFile_r ::
  "cstr \<Rightarrow> cstr \<Rightarrow> cstr \<Rightarrow> char \<Rightarrow> 'a runtime_scheme \<Rightarrow> int \<times> 'a runtime_scheme" where
  "CheckMarkedTextNotFoundInFile_r fileName t marker comment s =
     (case (fileName, t, marker) of
        (Some p, Some x, Some mk) \<Rightarrow>
          if x = [] \<or> mk = [] \<or> \<not> IsValidGrepArgument t \<or> \<not> IsValidCommentCharacter comment then (EINVAL, s)
          else if \<not> FileExists fileName (fs_of s) then (EINVAL, s)
          else (case format_text (''grep -v '' @ sq (''^'' @ [comment]) @ '' '' @ p @ '' | grep '' @ x) s of
             (None, s1) \<Rightarrow> (ENOMEM, s1)
           | (Some cmd, s1) \<Rightarrow>
               (case run_text one_line cmd s1 of
                  ((status, results), s2) \<Rightarrow>
                    (case results of
                       Some out \<Rightarrow>
                         if status = 0
                         then (case marker_loop mk (\<lambda>_. sq x @ '' containing '' @ sq mk @ '' found in '' @ sq p) out s2 of
                            (True, s3) \<Rightarrow> (EEXIST, s3)
                          | (False, s3) \<Rightarrow> (0, capture_success (sq x @ '' containing '' @ sq mk @ '' not found in '' @ sq p) s3))
                         else (0, capture_success (sq x @ '' not found in '' @ sq p @ '' ('' @ print_int status @ '')'') s2)
                     | None \<Rightarrow> (0, capture_success (sq x @ '' not found in '' @ sq p @ '' ('' @ print_int status @ '')'') s2))))
      | _ \<Rightarrow> (EINVAL, s))"

definition CheckTextNotFoundInEnvironmentVariable_r ::
  "cstr \<Rightarrow> cstr \<Rightarrow> bool \<Rightarrow> 'a runtime_scheme \<Rightarrow> int \<times> 'a runtime_scheme" where
  "CheckTextNotFoundInEnvironmentVariable_r variableName t strictCompare s =
     (case (variableName, t) of
        (Some v, Some x) \<Rightarrow>
          if v = [] \<or> x = [] \<or> \<not> IsValidDaemonName variableName then (EINVAL, s)
          else (case ask ''malloc'' s of
             (failed, s1) \<Rightarrow>
               if failed \<noteq> 0 then (ENOMEM, s1)
               else (case run_text one_line (''printenv '' @ v) s1 of
                  ((status, result), s2) \<Rightarrow>
                    (case result of
                       Some variableValue \<Rightarrow>
                         if status \<noteq> 0
                         then (status, capture_success (''Environment variable '' @ sq v @ '' not found ('' @ print_int status @ '')'') s2)
                         else if strictCompare
                         then (if variableValue = x
                               then (EEXIST, capture (sq x @ '' found set for '' @ sq v @ '' ('' @ sq variableValue @ '')'') s2)
                               else (0, capture_success (sq x @ '' not found set for '' @ sq v @ '' to '' @ sq variableValue) s2))
                         else (case marker_loop x (\<lambda>found. sq x @ '' found in '' @ sq v @ '' ('' @ sq found @ '')'') variableValue s2 of
                            (True, s3) \<Rightarrow> (EEXIST, s3)
                          | (False, s3) \<Rightarrow> (0, capture_success (sq x @ '' not found in '' @ sq v) s3))
                     | None \<Rightarrow> (status, capture_success (''Environment variable '' @ sq v @ '' not found ('' @ print_int status @ '')'') s2))))
      | _ \<Rightarrow> (EINVAL, s))"

definition CheckSmallFileContainsText_r :: "cstr \<Rightarrow> cstr \<Rightarrow> 'a runtime_scheme \<Rightarrow> int \<times> 'a runtime_scheme" where
  "CheckSmallFileContainsText_r fileName t s =
     (case read_fs (\<lambda>m st. (CheckSmallFileContainsText m fileName t st, LoadStringFromFile m fileName False st)) s of
        ((status, contents), s1) \<Rightarrow>
          (status,
           if status = EINVAL \<or> contents = None then s1
           else if status = 0 then capture_success (sq (show_s t) @ '' matches contents of '' @ sq (show_s fileName)) s1
           else capture (sq (show_s t) @ '' does not match contents of '' @ sq (show_s fileName)) s1))"

subsection \<open>Text in directories\<close>

fun find_in_entries :: "string \<Rightarrow> string \<Rightarrow> cstr \<Rightarrow> int \<Rightarrow> string list \<Rightarrow> 'a runtime_scheme \<Rightarrow> int \<times> 'a runtime_scheme" where
  "find_in_entries directory t extension status [] s = (status, s)"
| "find_in_entries directory t extension status (d_name # es) s =
     (if d_name \<noteq> ''.'' \<and> d_name \<noteq> ''..'' \<and> (case extension of None \<Rightarrow> True | Some e \<Rightarrow> strstr d_name e \<noteq> None)
      then (case ask ''malloc'' s of
         (failed, s1) \<Rightarrow>
           if failed \<noteq> 0 then (ENOMEM, s1)
           else (case read_fs (\<lambda>m. FindTextInFile m (Some (directory @ ''/'' @ d_name)) (Some t)) s1 of
              (status', s2) \<Rightarrow> if status' = 0 then (0, s2) else find_in_entries directory t extension status' es s2))
      else find_in_entries directory t extension status es s)"

definition FindTextInFolder :: "cstr \<Rightarrow> cstr \<Rightarrow> cstr \<Rightarrow> 'a runtime_scheme \<Rightarrow> int \<times> 'a runtime_scheme" where
  "FindTextInFolder directory t extension s =
     (case (directory, t) of
        (Some d, Some x) \<Rightarrow>
          (case read_fs (\<lambda>m. DirectoryExists m directory) s of
             (False, s1) \<Rightarrow> (EINVAL, s1)
           | (True, s1) \<Rightarrow>
               (case readdir_of s1 d of
                  None \<Rightarrow> (ENOENT, s1)
                | Some es \<Rightarrow> find_in_entries d x extension ENOENT (map fst es) s1))
      | _ \<Rightarrow> (EINVAL, s))"

definition CheckTextNotFoundInFolder :: "cstr \<Rightarrow> cstr \<Rightarrow> cstr \<Rightarrow> 'a runtime_scheme \<Rightarrow> int \<times> 'a runtime_scheme" where
  "CheckTextNotFoundInFolder directory t extension s =
     (case FindTextInFolder directory t extension s of
        (result, s1) \<Rightarrow>
          if result = ENOENT
          then (0, capture_success (''Text '' @ sq (show_s t) @ '' not found in any file under directory '' @ sq (show_s directory)) s1)
          else if result = 0
          then (ENOENT, capture (''Text '' @ sq (show_s t) @ '' found in at least one file under directory '' @ sq (show_s directory)) s1)
          else (result, s1))"

definition CheckTextFoundInFolder :: "cstr \<Rightarrow> cstr \<Rightarrow> cstr \<Rightarrow> 'a runtime_scheme \<Rightarrow> int \<times> 'a runtime_scheme" where
  "CheckTextFoundInFolder directory t extension s =
     (case FindTextInFolder directory t extension s of
        (result, s1) \<Rightarrow>
          (result,
           if result = 0
           then capture_success (''Text '' @ sq (show_s t) @ '' found in at least one file under directory '' @ sq (show_s directory)) s1
           else if result = ENOENT
           then capture (''Text '' @ sq (show_s t) @ '' not found in any file under directory '' @ sq (show_s directory)) s1
           else s1))"

subsection \<open>Lines that are commented out\<close>

definition IsLineNotFoundOrCommentedOut_r :: "cstr \<Rightarrow> char \<Rightarrow> cstr \<Rightarrow> 'a runtime_scheme \<Rightarrow> int \<times> 'a runtime_scheme" where
  "IsLineNotFoundOrCommentedOut_r fileName commentMark t s =
     (case read_fs (\<lambda>m. IsLineNotFoundOrCommentedOut m fileName commentMark t) s of
        (status, s1) \<Rightarrow>
          (status,
           if status = EINVAL then s1
           else if \<not> FileExists fileName (fs_of s)
           then capture_same (sq (show_s fileName) @ '' is not found, nothing to look for'') (sq (show_s fileName) @ '' is not found'') s1
           else if status = ENOENT then capture (''Cannot read from file '' @ sq (show_s fileName)) s1
           else s1))"

definition CheckLineNotFoundOrCommentedOut_r :: "cstr \<Rightarrow> char \<Rightarrow> cstr \<Rightarrow> 'a runtime_scheme \<Rightarrow> int \<times> 'a runtime_scheme" where
  "CheckLineNotFoundOrCommentedOut_r fileName commentMark t s =
     (if fileName \<noteq> None \<and> \<not> FileExists fileName (fs_of s)
      then (0, capture_same (sq (show_s fileName) @ '' not found to look for '' @ sq (show_s t))
                 (sq (show_s fileName) @ '' is not found to look for '' @ sq (show_s t)) s)
      else (case IsLineNotFoundOrCommentedOut_r fileName commentMark t s of
         (result, s1) \<Rightarrow>
           (result,
            if result = EEXIST
            then capture (sq (show_s t) @ '' found in '' @ sq (show_s fileName) @ '' and it's not commented out with '' @ sq ([commentMark])) s1
            else if result = 0
            then capture_success (sq (show_s t) @ '' not found in '' @ sq (show_s fileName) @ '' or it's commented out with '' @ sq ([commentMark])) s1
            else s1)))"

definition CheckLineFoundNotCommentedOut_r :: "cstr \<Rightarrow> char \<Rightarrow> cstr \<Rightarrow> 'a runtime_scheme \<Rightarrow> int \<times> 'a runtime_scheme" where
  "CheckLineFoundNotCommentedOut_r fileName commentMark t s =
     (if fileName \<noteq> None \<and> \<not> FileExists fileName (fs_of s)
      then (ENOENT, capture (sq (show_s fileName) @ '' not found to look for '' @ sq (show_s t)) s)
      else (case IsLineNotFoundOrCommentedOut_r fileName commentMark t s of
         (result, s1) \<Rightarrow>
           if result = EEXIST
           then (0, capture_success (sq (show_s t) @ '' found in '' @ sq (show_s fileName) @ '' and it's not commented out with '' @ sq ([commentMark])) s1)
           else if result = 0
           then (EEXIST, capture (sq (show_s t) @ '' not found in '' @ sq (show_s fileName) @ '' or it's commented out with '' @ sq ([commentMark])) s1)
           else (result, s1)))"

subsection \<open>Text in the output of commands\<close>

definition FindTextInCommandOutput :: "cstr \<Rightarrow> cstr \<Rightarrow> 'a runtime_scheme \<Rightarrow> int \<times> 'a runtime_scheme" where
  "FindTextInCommandOutput cmd t s =
     (case (cmd, t) of
        (Some c, Some x) \<Rightarrow>
          if c = [] \<or> x = [] then (EINVAL, s)
          else (case run_text one_line c s of
             ((status, results), s1) \<Rightarrow>
               if status \<noteq> 0 then (status, s1)
               else (case results of
                  None \<Rightarrow> (ENOENT, s1)
                | Some out \<Rightarrow> (if out \<noteq> [] \<and> strstr out x \<noteq> None then 0 else ENOENT, s1)))
      | _ \<Rightarrow> (EINVAL, s))"

definition CheckTextFoundInCommandOutput :: "cstr \<Rightarrow> cstr \<Rightarrow> 'a runtime_scheme \<Rightarrow> int \<times> 'a runtime_scheme" where
  "CheckTextFoundInCommandOutput cmd t s =
     (case FindTextInCommandOutput cmd t s of
        (result, s1) \<Rightarrow>
          (result,
           if result = 0 then capture_success (sq (show_s t) @ '' found in response from command '' @ sq (show_s cmd)) s1
           else if result = ENOENT then capture (sq (show_s t) @ '' not found in response from command '' @ sq (show_s cmd)) s1
           else capture (''Command '' @ sq (show_s cmd) @ '' failed with '' @ print_int result) s1))"

definition CheckTextNotFoundInCommandOutput :: "cstr \<Rightarrow> cstr \<Rightarrow> 'a runtime_scheme \<Rightarrow> int \<times> 'a runtime_scheme" where
  "CheckTextNotFoundInCommandOutput cmd t s =
     (case FindTextInCommandOutput cmd t s of
        (result, s1) \<Rightarrow>
          if result = ENOENT then (0, capture_success (sq (show_s t) @ '' not found in response from command '' @ sq (show_s cmd)) s1)
          else if result = 0 then (ENOENT, capture (sq (show_s t) @ '' found in response from command '' @ sq (show_s cmd)) s1)
          else (result, capture (''Command '' @ sq (show_s cmd) @ '' failed with '' @ print_int result) s1))"

subsection \<open>Options\<close>

definition show_value :: "nat \<Rightarrow> int \<Rightarrow> string" where
  "show_value base v = (if base = 8 then show_o (word_of_int v) else print_int v)"

definition CheckIntegerOptionFromFileEqualWithAny_r ::
  "cstr \<Rightarrow> cstr \<Rightarrow> char \<Rightarrow> char \<Rightarrow> int list \<Rightarrow> nat \<Rightarrow> 'a runtime_scheme \<Rightarrow> int \<times> 'a runtime_scheme" where
  "CheckIntegerOptionFromFileEqualWithAny_r fileName opt separator comment vals base s =
     (if vals = [] then (EINVAL, s)
      else (case read_fs (\<lambda>m. GetIntegerOptionFromFile m fileName opt separator comment base) s of
         (v, s1) \<Rightarrow>
           if v = INT_ENOENT
           then (ENOENT, capture (''File '' @ sq (show_s fileName) @ '' not found or does not contain option '' @ sq (show_s opt)) s1)
           else if v \<in> set vals
           then (0, capture_success (''Option '' @ sq (show_s opt) @ '' from file '' @ sq (show_s fileName) @ '' set to expected value of '' @ sq (show_value base v)) s1)
           else (ENOENT, capture (''Option '' @ sq (show_s opt) @ '' from file '' @ sq (show_s fileName) @ '' not found or found set to '' @ sq (show_value base v)) s1)))"

definition CheckIntegerOptionFromFileLessOrEqualWith_r ::
  "cstr \<Rightarrow> cstr \<Rightarrow> char \<Rightarrow> char \<Rightarrow> int \<Rightarrow> nat \<Rightarrow> 'a runtime_scheme \<Rightarrow> int \<times> 'a runtime_scheme" where
  "CheckIntegerOptionFromFileLessOrEqualWith_r fileName opt separator comment v base s =
     (case read_fs (\<lambda>m. GetIntegerOptionFromFile m fileName opt separator comment base) s of
        (found, s1) \<Rightarrow>
          if found = INT_ENOENT
          then (ENOENT, capture (''File '' @ sq (show_s fileName) @ '' not found or does not contain option '' @ sq (show_s opt)) s1)
          else if found \<le> v
          then (0, capture_success (''Option '' @ sq (show_s opt) @ '' from file '' @ sq (show_s fileName) @ '' value of '' @ sq (show_value base found) @ '' is less or equal with '' @ sq (show_value base v)) s1)
          else (ENOENT, capture (''Option '' @ sq (show_s opt) @ '' from file '' @ sq (show_s fileName) @ '' not found ('' @ sq (show_value base found) @ '') or not less or equal with '' @ sq (show_value base v)) s1))"

subsection \<open>Postfix\<close>

definition DisablePostfixNetworkListening :: "'a runtime_scheme \<Rightarrow> int \<times> 'a runtime_scheme" where
  "DisablePostfixNetworkListening s =
     (let (found, s1) = read_fs (\<lambda>m. DirectoryExists m (Some ''/etc/postfix/'')) s;
          (status, s2) =
            (if found then (0, s1)
             else (case ask ''mkdir'' s1 of
                (failed, t) \<Rightarrow>
                  if failed \<noteq> 0 \<or> FileExists (Some ''/etc/postfix/'') (fs_of t) then (- 1, t)
                  else (0, put_fs (put_node ''/etc/postfix/'' (Some ((new_dir t)\<lparr>st_mode := MODE_0644\<rparr>)) (fs_of t)) t)))
      in if status \<noteq> 0 then (status, s2)
         else (case edit_fs (\<lambda>m rnd. AppendToFile m rnd (Some ''/etc/postfix/main.cf'') (Some ''inet_interfaces localhost'')) s2 of
            (written, s3) \<Rightarrow> (if written then 0 else ENOENT, s3)))"

definition RestoreSelinuxContext :: "cstr \<Rightarrow> 'a runtime_scheme \<Rightarrow> int \<times> 'a runtime_scheme" where
  "RestoreSelinuxContext target s =
     (case target of
        None \<Rightarrow> (EINVAL, s)
      | Some t \<Rightarrow>
          (case format_text (''restorecon -F '' @ sq t) s of
             (None, s1) \<Rightarrow> (ENOMEM, s1)
           | (Some cmd, s1) \<Rightarrow> run cmd s1))"

end
