(* ===== verification/PackageUtils.thy ===== *)
theory PackageUtils
  imports Runtime
begin

text \<open>
  Packages (\<open>PackageUtils.c\<close>): which package managers are present is found out once; the list of the
  installed packages is kept in a cache, which is filled again after a command that may change it. The
  file-level variables of the C code are the fields of \<open>packages\<close>. glibc copies the conversion
  \<open>%{\<close> of the template for \<open>rpm\<close>, which is not one of \<open>printf\<close>, to the command as it is.
\<close>

record packages = runtime +
  g_checkedPackageManagersPresence :: bool
  g_aptGetIsPresent :: bool
  g_dpkgIsPresent :: bool
  g_tdnfIsPresent :: bool
  g_dnfIsPresent :: bool
  g_yumIsPresent :: bool
  g_zypperIsPresent :: bool
  g_rpmIsPresent :: bool
  g_aptGetUpdateExecuted :: bool
  g_zypperRefreshExecuted :: bool
  g_tdnfCheckUpdateExecuted :: bool
  g_dnfCheckUpdateExecuted :: bool
  g_yumCheckUpdateExecuted :: bool
  g_updateInstalledPackagesCache :: bool
  g_installedPackagesCache :: cstr

definition PackageUtilsCleanup :: "'a packages_scheme \<Rightarrow> 'a packages_scheme" where
  "PackageUtilsCleanup s = s\<lparr>g_installedPackagesCache := None\<rparr>"

definition IsPresent :: "cstr \<Rightarrow> 'a runtime_scheme \<Rightarrow> int \<times> 'a runtime_scheme" where
  "IsPresent what s =
     (case what of
        None \<Rightarrow> (EINVAL, s)
      | Some x \<Rightarrow>
          (case format_text (''command -v '' @ x) s of
             (Some cmd, s1) \<Rightarrow> run cmd s1
           | (None, s1) \<Rightarrow> (ENOMEM, s1)))"

definition is_present :: "string \<Rightarrow> 'a runtime_scheme \<Rightarrow> bool \<times> 'a runtime_scheme" where
  "is_present x s = (case IsPresent (Some x) s of (status, s1) \<Rightarrow> (status = 0, s1))"

definition CheckPackageManagersPresence :: "'a packages_scheme \<Rightarrow> 'a packages_scheme" where
  "CheckPackageManagersPresence s =
     (if g_checkedPackageManagersPresence s then s
      else let s = s\<lparr>g_checkedPackageManagersPresence := True\<rparr>;
               (b, s) = is_present ''apt-get'' s; s = s\<lparr>g_aptGetIsPresent := b\<rparr>;
               (b, s) = is_present ''dpkg'' s; s = s\<lparr>g_dpkgIsPresent := b\<rparr>;
               (b, s) = is_present ''tdnf'' s; s = s\<lparr>g_tdnfIsPresent := b\<rparr>;
               (b, s) = is_present ''dnf'' s; s = s\<lparr>g_dnfIsPresent := b\<rparr>;
               (b, s) = is_present ''yum'' s; s = s\<lparr>g_yumIsPresent := b\<rparr>;
               (b, s) = is_present ''zypper'' s; s = s\<lparr>g_zypperIsPresent := b\<rparr>;
               (b, s) = is_present ''rpm'' s; s = s\<lparr>g_rpmIsPresent := b\<rparr>
           in s)"

text \<open>The templates of the commands are functions of the package manager and the package.\<close>

definition CheckOrInstallPackage ::
  "(string \<Rightarrow> string \<Rightarrow> string) option \<Rightarrow> cstr \<Rightarrow> cstr \<Rightarrow> 'a packages_scheme \<Rightarrow> int \<times> 'a packages_scheme" where
  "CheckOrInstallPackage commandTemplate packageManager packageName s =
     (case (commandTemplate, packageManager, packageName) of
        (Some template, Some pm, Some p) \<Rightarrow>
          if p = [] then (EINVAL, s)
          else (case format_text (template pm p) s of
             (None, s1) \<Rightarrow> (ENOMEM, s1)
           | (Some cmd, s1) \<Rightarrow>
               (case run cmd s1 of (status, s2) \<Rightarrow> (status, s2\<lparr>g_updateInstalledPackagesCache := True\<rparr>)))
      | _ \<Rightarrow> (EINVAL, s))"

definition CheckAllPackages ::
  "(string \<Rightarrow> string) option \<Rightarrow> cstr \<Rightarrow> 'a packages_scheme \<Rightarrow> (int \<times> cstr) \<times> 'a packages_scheme" where
  "CheckAllPackages commandTemplate packageManager s =
     (case (commandTemplate, packageManager) of
        (Some template, Some pm) \<Rightarrow>
          (case format_text (template pm) s of
             (None, s1) \<Rightarrow> ((ENOMEM, None), s1)
           | (Some cmd, s1) \<Rightarrow> run_text plain_output cmd s1)
      | _ \<Rightarrow> ((EINVAL, None), s))"

definition commandTemplateDpkg :: "string \<Rightarrow> string" where
  "commandTemplateDpkg pm = pm @ ''-query -W -f='' @ sq (''${binary:Package}'' @ [EOL])"

definition commandTemplateRpm :: "string \<Rightarrow> string" where
  "commandTemplateRpm pm = pm @ '' -qa --queryformat '' @ quoted (''%{NAME}'' @ [CHR 0x5C] @ ''n'')"

definition commandTemplateYumDnf :: "string \<Rightarrow> string" where
  "commandTemplateYumDnf pm = pm @ '' list installed --cacheonly | awk '' @ sq ''{print $1}''"

definition commandTemplateZypper :: "string \<Rightarrow> string" where
  "commandTemplateZypper pm = pm @ '' search -i''"

definition UpdateInstalledPackagesCache :: "'a packages_scheme \<Rightarrow> int \<times> 'a packages_scheme" where
  "UpdateInstalledPackagesCache s0 =
     (let s = CheckPackageManagersPresence s0;
          ((status, results), s1) =
            (if g_aptGetIsPresent s \<or> g_dpkgIsPresent s then CheckAllPackages (Some commandTemplateDpkg) (Some ''dpkg'') s
             else if g_rpmIsPresent s then CheckAllPackages (Some commandTemplateRpm) (Some ''rpm'') s
             else if g_tdnfIsPresent s then CheckAllPackages (Some commandTemplateYumDnf) (Some ''tdnf'') s
             else if g_dnfIsPresent s then CheckAllPackages (Some commandTemplateYumDnf) (Some ''dnf'') s
             else if g_yumIsPresent s then CheckAllPackages (Some commandTemplateYumDnf) (Some ''yum'') s
             else if g_zypperIsPresent s then CheckAllPackages (Some commandTemplateZypper) (Some ''zypper'') s
             else ((ENOENT, None), s))
      in case results of
           Some t \<Rightarrow>
             if status = 0
             then (case format_text ([EOL] @ t) s1 of
                (Some buffer, s2) \<Rightarrow> (0, s2\<lparr>g_installedPackagesCache := Some buffer\<rparr>)
              | (None, s2) \<Rightarrow> (ENOMEM, s2))
             else (status, s1)
         | None \<Rightarrow> (if status \<noteq> 0 then status else ENOENT, s1))"

definition search_target :: "'a packages_scheme \<Rightarrow> string \<Rightarrow> string" where
  "search_target s p =
     (if g_aptGetIsPresent s \<or> g_dpkgIsPresent s \<or> g_rpmIsPresent s then [EOL] @ p @ [EOL]
      else if g_tdnfIsPresent s \<or> g_dnfIsPresent s \<or> g_yumIsPresent s then [EOL] @ p @ ''.x86_64'' @ [EOL]
      else ''| '' @ p @ '' '')"

definition IsPackageInstalled :: "cstr \<Rightarrow> 'a packages_scheme \<Rightarrow> int \<times> 'a packages_scheme" where
  "IsPackageInstalled packageName s0 =
     (case packageName of
        None \<Rightarrow> (EINVAL, s0)
      | Some p \<Rightarrow>
          if p = [] then (EINVAL, s0)
          else (let s1 = CheckPackageManagersPresence s0;
                    (status, s2) =
                      (if g_updateInstalledPackagesCache s1 \<or> g_installedPackagesCache s1 = None
                       then UpdateInstalledPackagesCache (s1\<lparr>g_updateInstalledPackagesCache := False\<rparr>)
                       else (0, s1))
                in case g_installedPackagesCache s2 of
                     None \<Rightarrow> (ENOENT, s2)
                   | Some cache \<Rightarrow>
                       if status \<noteq> 0 then (status, s2)
                       else (case format_text (search_target s2 p) s2 of
                          (None, s3) \<Rightarrow> (ENOMEM, s3)
                        | (Some searchTarget, s3) \<Rightarrow>
                            (if strstr cache searchTarget \<noteq> None then 0 else ENOENT, s3))))"

definition WildcardsPresent :: "cstr \<Rightarrow> bool" where
  "WildcardsPresent packageName =
     (case packageName of None \<Rightarrow> False | Some p \<Rightarrow> strstr p ''*'' \<noteq> None \<or> strstr p ''^'' \<noteq> None)"

definition installed_text :: "cstr \<Rightarrow> string" where
  "installed_text p =
     (if WildcardsPresent p then ''Some '' @ sq (show_s p) @ '' packages are installed''
      else ''Package '' @ sq (show_s p) @ '' is installed'')"

definition not_installed_text :: "cstr \<Rightarrow> string" where
  "not_installed_text p =
     (if WildcardsPresent p then ''No '' @ sq (show_s p) @ '' packages are installed''
      else ''Package '' @ sq (show_s p) @ '' is not installed'')"

definition CheckPackageInstalled :: "cstr \<Rightarrow> 'a packages_scheme \<Rightarrow> int \<times> 'a packages_scheme" where
  "CheckPackageInstalled packageName s =
     (case IsPackageInstalled packageName s of
        (result, s1) \<Rightarrow>
          if result = 0 then (result, capture_success (installed_text packageName) s1)
          else if result \<noteq> EINVAL \<and> result \<noteq> ENOMEM then (result, capture (not_installed_text packageName) s1)
          else (result, capture (''Internal error: '' @ print_int result) s1))"

definition CheckPackageNotInstalled :: "cstr \<Rightarrow> 'a packages_scheme \<Rightarrow> int \<times> 'a packages_scheme" where
  "CheckPackageNotInstalled packageName s =
     (case IsPackageInstalled packageName s of
        (result, s1) \<Rightarrow>
          if result = 0 then (ENOENT, capture (installed_text packageName) s1)
          else if result \<noteq> EINVAL \<and> result \<noteq> ENOMEM then (0, capture_success (not_installed_text packageName) s1)
          else (result, capture (''Internal error: '' @ print_int result) s1))"

text \<open>The flag \<open>*executed\<close> is read and written by a getter and a setter of its field.\<close>

definition ExecuteSimplePackageCommand ::
  "cstr \<Rightarrow> ('a packages_scheme \<Rightarrow> bool) \<Rightarrow> (bool \<Rightarrow> 'a packages_scheme \<Rightarrow> 'a packages_scheme) \<Rightarrow>
   'a packages_scheme \<Rightarrow> int \<times> 'a packages_scheme" where
  "ExecuteSimplePackageCommand cmd executed set_executed s =
     (case cmd of
        None \<Rightarrow> (EINVAL, s)
      | Some c \<Rightarrow>
          if executed s then (0, s)
          else (case run c s of
             (status, s1) \<Rightarrow>
               (status, if status = 0 then (set_executed True s1)\<lparr>g_updateInstalledPackagesCache := True\<rparr>
                        else set_executed False s1)))"

definition ExecuteAptGetUpdate :: "'a packages_scheme \<Rightarrow> int \<times> 'a packages_scheme" where
  "ExecuteAptGetUpdate =
     ExecuteSimplePackageCommand (Some ''apt-get update'') g_aptGetUpdateExecuted (\<lambda>b. g_aptGetUpdateExecuted_update (\<lambda>_. b))"

definition ExecuteZypperRefresh :: "'a packages_scheme \<Rightarrow> int \<times> 'a packages_scheme" where
  "ExecuteZypperRefresh s =
     (if g_zypperRefreshExecuted s then (0, s)
      else let (status, s1) =
                 (case run ''zypper clean'' s of
                    (c, t) \<Rightarrow> if c \<noteq> 0 then (c, t)
                      else (case run ''zypper refresh'' t of
                         (c, t) \<Rightarrow> if c \<noteq> 0 then (c, t) else run ''zypper refresh --services'' t));
               s2 = (if status = 0 then s1\<lparr>g_zypperRefreshExecuted := True\<rparr> else s1)
           in (status, s2\<lparr>g_updateInstalledPackagesCache := True\<rparr>))"

definition ExecuteTdnfCheckUpdate :: "'a packages_scheme \<Rightarrow> int \<times> 'a packages_scheme" where
  "ExecuteTdnfCheckUpdate =
     ExecuteSimplePackageCommand (Some ''tdnf check-update'') g_tdnfCheckUpdateExecuted (\<lambda>b. g_tdnfCheckUpdateExecuted_update (\<lambda>_. b))"

definition ExecuteDnfCheckUpdate :: "'a packages_scheme \<Rightarrow> int \<times> 'a packages_scheme" where
  "ExecuteDnfCheckUpdate =
     ExecuteSimplePackageCommand (Some ''dnf check-update'') g_dnfCheckUpdateExecuted (\<lambda>b. g_dnfCheckUpdateExecuted_update (\<lambda>_. b))"

definition ExecuteYumCheckUpdate :: "'a packages_scheme \<Rightarrow> int \<times> 'a packages_scheme" where
  "ExecuteYumCheckUpdate =
     ExecuteSimplePackageCommand (Some ''yum check-update'') g_yumCheckUpdateExecuted (\<lambda>b. g_yumCheckUpdateExecuted_update (\<lambda>_. b))"

definition install_template :: "string \<Rightarrow> string \<Rightarrow> string" where
  "install_template pm p = pm @ '' install -y '' @ p"

definition cache_install_template :: "string \<Rightarrow> string \<Rightarrow> string" where
  "cache_install_template pm p = pm @ '' install -y --cacheonly '' @ p"

definition InstallOrUpdatePackage :: "cstr \<Rightarrow> 'a packages_scheme \<Rightarrow> int \<times> 'a packages_scheme" where
  "InstallOrUpdatePackage packageName s0 =
     (let s = CheckPackageManagersPresence s0;
          (status, s1) =
            (if g_aptGetIsPresent s
             then CheckOrInstallPackage (Some install_template) (Some ''apt-get'') packageName (snd (ExecuteAptGetUpdate s))
             else if g_tdnfIsPresent s
             then CheckOrInstallPackage (Some cache_install_template) (Some ''tdnf'') packageName (snd (ExecuteTdnfCheckUpdate s))
             else if g_dnfIsPresent s
             then CheckOrInstallPackage (Some cache_install_template) (Some ''dnf'') packageName (snd (ExecuteDnfCheckUpdate s))
             else if g_yumIsPresent s
             then CheckOrInstallPackage (Some cache_install_template) (Some ''yum'') packageName (snd (ExecuteYumCheckUpdate s))
             else if g_zypperIsPresent s
             then CheckOrInstallPackage (Some install_template) (Some ''zypper'') packageName (snd (ExecuteZypperRefresh s))
             else (ENOENT, s))
      in if status \<noteq> 0 then (status, s1)
         else (case IsPackageInstalled packageName s1 of
            (status, s2) \<Rightarrow>
              if status \<noteq> 0 \<and> (g_tdnfIsPresent s2 \<or> g_dnfIsPresent s2 \<or> g_yumIsPresent s2)
              then (case CheckOrInstallPackage (Some install_template)
                           (Some (if g_tdnfIsPresent s2 then ''tdnf'' else if g_dnfIsPresent s2 then ''dnf'' else ''yum''))
                           packageName s2 of
                 (status, s3) \<Rightarrow> if status = 0 then IsPackageInstalled packageName s3 else (status, s3))
              else (status, s2)))"

definition InstallPackage :: "cstr \<Rightarrow> 'a packages_scheme \<Rightarrow> int \<times> 'a packages_scheme" where
  "InstallPackage packageName s =
     (case IsPackageInstalled packageName s of
        (status, s1) \<Rightarrow> if status \<noteq> 0 then InstallOrUpdatePackage packageName s1 else (0, s1))"

definition UninstallPackage :: "cstr \<Rightarrow> 'a packages_scheme \<Rightarrow> int \<times> 'a packages_scheme" where
  "UninstallPackage packageName s0 =
     (case IsPackageInstalled packageName (CheckPackageManagersPresence s0) of
        (status, s) \<Rightarrow>
          if status = 0
          then (let (status, s1) =
                  (if g_aptGetIsPresent s
                   then CheckOrInstallPackage (Some (\<lambda>pm p. pm @ '' remove -y --purge '' @ p)) (Some ''apt-get'')
                          packageName (snd (ExecuteAptGetUpdate s))
                   else if g_tdnfIsPresent s
                   then CheckOrInstallPackage (Some (\<lambda>pm p. pm @ '' remove -y --force --cacheonly '' @ p)) (Some ''tdnf'')
                          packageName (snd (ExecuteTdnfCheckUpdate s))
                   else if g_dnfIsPresent s
                   then CheckOrInstallPackage (Some (\<lambda>pm p. pm @ '' remove -y --force --cacheonly '' @ p)) (Some ''dnf'')
                          packageName (snd (ExecuteDnfCheckUpdate s))
                   else if g_yumIsPresent s
                   then CheckOrInstallPackage (Some (\<lambda>pm p. pm @ '' remove -y --force --cacheonly '' @ p)) (Some ''yum'')
                          packageName (snd (ExecuteYumCheckUpdate s))
                   else if g_zypperIsPresent s
                   then CheckOrInstallPackage (Some (\<lambda>pm p. pm @ '' remove -y --force '' @ p)) (Some ''zypper'')
                          packageName (snd (ExecuteZypperRefresh s))
                   else (0, s))
                in if status = 0
                   then (case IsPackageInstalled packageName s1 of
                      (installed, s2) \<Rightarrow> (if installed = 0 then ENOENT else 0, s2))
                   else (status, s1))
          else (if status \<noteq> EINVAL then 0 else status, s))"

end
