(* ===== verification/PassUtils.thy ===== *)
theory PassUtils
  imports FileChecks PackageUtils
begin

text \<open>
  Password policy through PAM (\<open>PassUtils.c\<close>): limits on the reuse of passwords, lockout after failed
  attempts (options of the PAM line, or \<open>faillock.conf\<close>), and the requirements for new passwords.
\<close>

abbreviation etcPamdCommonPassword :: string where "etcPamdCommonPassword \<equiv> ''/etc/pam.d/common-password''"
abbreviation etcSecurityPwQualityConf :: string where "etcSecurityPwQualityConf \<equiv> ''/etc/security/pwquality.conf''"
abbreviation etcPamdSystemAuth :: string where "etcPamdSystemAuth \<equiv> ''/etc/pam.d/system-auth''"
abbreviation etcPamdSystemPassword :: string where "etcPamdSystemPassword \<equiv> ''/etc/pam.d/system-password''"
abbreviation etcSecurityFaillockConf :: string where "etcSecurityFaillockConf \<equiv> ''/etc/security/faillock.conf''"

text \<open>A line of a file as \<open>fgets\<close> gives it, and an option of a line.\<close>

definition lines_of_file :: "string \<Rightarrow> fs \<Rightarrow> string list" where
  "lines_of_file p st = map c_string (fgets_lines (line_max st) (case node st p of None \<Rightarrow> [] | Some n \<Rightarrow> readable_bytes n))"

definition first_char :: "string \<Rightarrow> char" where
  "first_char line = hd (line @ [NUL])"

definition int_option :: "string \<Rightarrow> string \<Rightarrow> 'a runtime_scheme \<Rightarrow> int \<times> 'a runtime_scheme" where
  "int_option line opt s = (GetIntegerOptionFromBuffer (now s) (Some line) (Some opt) CHR ''='' CHR ''#'' 10, tick s)"

definition replace_lines :: "string \<Rightarrow> string \<Rightarrow> string \<Rightarrow> 'a runtime_scheme \<Rightarrow> int \<times> 'a runtime_scheme" where
  "replace_lines p marker newline =
     edit_fs (\<lambda>m rnd. ReplaceMarkedLinesInFile m rnd (Some p) (Some marker) (Some newline) CHR ''#'' True)"

definition found :: "string \<Rightarrow> 'a runtime_scheme \<Rightarrow> bool" where
  "found p s = (CheckFileExists (Some p) (fs_of s) = 0)"

subsection \<open>Modules of PAM\<close>

fun find_pam_path :: "string \<Rightarrow> string list \<Rightarrow> 'a runtime_scheme \<Rightarrow> cstr \<times> 'a runtime_scheme" where
  "find_pam_path pamModule [] s = (None, s)"
| "find_pam_path pamModule (d # ds) s =
     (case format_text (d @ pamModule) s of
        (None, s1) \<Rightarrow> (None, s1)
      | (Some p, s1) \<Rightarrow> if found p s1 then (Some p, s1) else find_pam_path pamModule ds s1)"

definition FindPamModule :: "cstr \<Rightarrow> 'a runtime_scheme \<Rightarrow> cstr \<times> 'a runtime_scheme" where
  "FindPamModule pamModule s =
     (case pamModule of
        None \<Rightarrow> (None, s)
      | Some x \<Rightarrow>
          find_pam_path x [''/usr/lib/x86_64-linux-gnu/security/'', ''/usr/lib/security/'', ''/lib/security/'',
            ''/lib64/security/'', ''/lib/x86_64-linux-gnu/security/''] s)"

definition EnsurePamModulePackagesAreInstalled :: "'a packages_scheme \<Rightarrow> 'a packages_scheme" where
  "EnsurePamModulePackagesAreInstalled s =
     fold (\<lambda>p t. snd (InstallPackage (Some p) t))
       [''pam'', ''libpam-modules'', ''pam_pwquality'', ''libpam-pwquality'', ''libpam-cracklib''] s"

subsection \<open>Reuse of passwords\<close>

definition check_remember :: "string \<Rightarrow> int \<Rightarrow> 'a runtime_scheme \<Rightarrow> int \<times> 'a runtime_scheme" where
  "check_remember p remember s =
     (case CheckLineFoundNotCommentedOut_r (Some p) CHR ''#'' (Some ''remember'') s of
        (a, s1) \<Rightarrow>
          if a \<noteq> 0 then (ENOENT, s1)
          else (case CheckIntegerOptionFromFileLessOrEqualWith_r (Some p) (Some ''remember'') CHR ''='' CHR ''#'' remember 10 s1 of
             (b, s2) \<Rightarrow> (if b = 0 then 0 else ENOENT, s2)))"

definition CheckEnsurePasswordReuseIsLimited :: "int \<Rightarrow> 'a runtime_scheme \<Rightarrow> int \<times> 'a runtime_scheme" where
  "CheckEnsurePasswordReuseIsLimited remember s0 =
     (let (status, s1) = (if found etcPamdCommonPassword s0 then check_remember etcPamdCommonPassword remember s0 else (ENOENT, s0));
          (status, s2) = (if status \<noteq> 0 \<and> found etcPamdSystemAuth s1 then check_remember etcPamdSystemAuth remember s1 else (status, s1));
          (status, s3) = (if status \<noteq> 0 \<and> found etcPamdSystemAuth s2 then check_remember etcPamdSystemPassword remember s2 else (status, s2))
      in if status = 0 then (status, s3)
         else (case FindPamModule (Some ''pam_unix.so'')
                 (capture (''Unable to find option '' @ sq ''remember'' @ '' in either '' @ sq etcPamdCommonPassword @ '' or '' @ sq etcPamdSystemAuth @ '' or '' @ sq etcPamdSystemPassword) s3) of
            (pamModule, s4) \<Rightarrow>
              (status,
               if pamModule = None
               then capture (''The PAM module '' @ sq ''pam_unix.so'' @ '' is not available. Automatic remediation is not possible'') s4
               else s4)))"

definition reuse_in_file :: "string \<Rightarrow> string \<Rightarrow> int \<Rightarrow> 'a runtime_scheme \<Rightarrow> int \<times> 'a runtime_scheme" where
  "reuse_in_file p newline status s =
     (if found p s then (case replace_lines p ''remember'' newline s of (s', t) \<Rightarrow> (first_error status s', t)) else (status, s))"

definition SetEnsurePasswordReuseIsLimited :: "int \<Rightarrow> 'a packages_scheme \<Rightarrow> int \<times> 'a packages_scheme" where
  "SetEnsurePasswordReuseIsLimited remember s0 =
     (case FindPamModule (Some ''pam_unix.so'') (EnsurePamModulePackagesAreInstalled s0) of
        (None, s1) \<Rightarrow> (ENOENT, s1)
      | (Some pamModulePath, s1) \<Rightarrow>
          (case format_text (''password required '' @ pamModulePath @ '' sha512 shadow '' @ ''remember'' @ ''='' @ print_int remember @ '' retry=3'' @ [EOL]) s1 of
             (None, s2) \<Rightarrow> (ENOMEM, s2)
           | (Some newline, s2) \<Rightarrow>
               (let (status, s3) = reuse_in_file etcPamdSystemAuth newline 0 s2;
                    (status, s4) = reuse_in_file etcPamdCommonPassword newline status s3
                in reuse_in_file etcPamdSystemPassword newline status s4)))"

subsection \<open>Lockout by options of the PAM line\<close>

text \<open>The loop: the values of \<open>deny\<close> and \<open>unlock_time\<close> read last, and whether a line was found that is not
  commented out. The conditions are evaluated one after the other.\<close>

fun lockout_lines ::
  "string \<Rightarrow> char \<Rightarrow> string list \<Rightarrow> int \<times> int \<times> bool \<Rightarrow> 'a runtime_scheme \<Rightarrow> (int \<times> int \<times> int \<times> bool) \<times> 'a runtime_scheme" where
  "lockout_lines pamSo comment [] (deny, unlockTime, uncommented) s = ((ENOENT, deny, unlockTime, uncommented), s)"
| "lockout_lines pamSo comment (line # ls) (deny, unlockTime, uncommented) s =
     (if first_char line = comment \<or> first_char line = EOL
      then lockout_lines pamSo comment ls (deny, unlockTime, uncommented) s
      else if strstr line ''auth'' = None \<or> strstr line pamSo = None
      then lockout_lines pamSo comment ls (deny, unlockTime, True) s
      else if GetStringOptionFromBuffer (now s) (Some line) (Some ''auth'') CHR '' '' CHR ''#'' \<noteq> Some ''required''
      then lockout_lines pamSo comment ls (deny, unlockTime, True) (tick s)
      else (case int_option line ''deny'' (tick s) of
         (d, s1) \<Rightarrow>
           if d < 0 \<or> 5 < d then lockout_lines pamSo comment ls (d, unlockTime, True) s1
           else (case int_option line ''unlock_time'' s1 of
              (u, s2) \<Rightarrow>
                if u \<le> 0 then lockout_lines pamSo comment ls (d, u, True) s2
                else ((0, d, u, True), s2))))"

definition lockout_texts :: "string \<Rightarrow> string \<Rightarrow> int \<times> int \<times> int \<times> bool \<Rightarrow> 'a runtime_scheme \<Rightarrow> 'a runtime_scheme" where
  "lockout_texts p pamSo r s =
     (case r of (status, deny, unlockTime, uncommented) \<Rightarrow>
        if status = 0
        then capture_success (sq (''auth required '' @ pamSo) @ '' found uncommented with 'deny' set to '' @ print_int deny @ '' and 'unlock_time' set to '' @ print_int unlockTime @ '' in '' @ sq p) s
        else if \<not> uncommented
        then capture (''All lines in '' @ sq p @ '' are commented out or blank, no '' @ sq pamSo @ '' configuration is active'') s
        else (let s1 = (if deny = INT_ENOENT then capture (sq ''deny'' @ '' not found in '' @ sq p @ '' for '' @ sq pamSo) s
                        else capture (sq ''deny'' @ '' found set to '' @ print_int deny @ '' in '' @ sq p @ '' for '' @ sq pamSo @ '' instead of a value between 0 and 5'') s)
              in if unlockTime = INT_ENOENT then capture (sq ''unlock_time'' @ '' not found in '' @ sq p @ '' for '' @ sq pamSo) s1
                 else capture (sq ''unlock_time'' @ '' found set to '' @ print_int unlockTime @ '' in '' @ sq p @ '' for '' @ sq pamSo @ '' instead of a positive value'') s1))"

definition CheckLockoutForFailedPasswordAttempts :: "cstr \<Rightarrow> cstr \<Rightarrow> char \<Rightarrow> 'a runtime_scheme \<Rightarrow> int \<times> 'a runtime_scheme" where
  "CheckLockoutForFailedPasswordAttempts fileName pamSo comment s =
     (case (fileName, pamSo) of
        (Some p, Some so) \<Rightarrow>
          (case CheckFileExists_r fileName s of
             (status, s1) \<Rightarrow>
               if status \<noteq> 0 then (ENOENT, s1)
               else (case ask ''malloc'' s1 of
                  (failed, s2) \<Rightarrow>
                    if failed \<noteq> 0 then (ENOMEM, s2)
                    else (case ask ''fopen'' s2 of
                       (failed, s3) \<Rightarrow>
                         if failed \<noteq> 0 then (EACCES, s3)
                         else (case lockout_lines so comment (lines_of_file p (fs_of s3)) (INT_ENOENT, INT_ENOENT, False) s3 of
                            (r, s4) \<Rightarrow> (fst r, lockout_texts p so r s4)))))
      | _ \<Rightarrow> (EINVAL, s))"

subsection \<open>Lockout by \<open>faillock.conf\<close>\<close>

definition separating :: "char \<Rightarrow> bool" where
  "separating c \<longleftrightarrow> blank c \<or> c = CHR ''=''"

text \<open>A line whose first token is the key, and what follows the key on it.\<close>

definition after_key :: "string \<Rightarrow> string \<Rightarrow> string" where
  "after_key key line = drop (length key) (dropWhile blank line)"

definition key_line :: "string \<Rightarrow> string \<Rightarrow> bool" where
  "key_line key line \<longleftrightarrow>
     (let f = dropWhile blank line
      in f \<noteq> [] \<and> hd f \<noteq> CHR ''#'' \<and> prefix key f \<and> (after_key key line = [] \<or> separating (hd (after_key key line))))"

text \<open>The value is read from the rest of the file.\<close>

function faillock_value :: "string \<Rightarrow> string \<Rightarrow> int" where
  "faillock_value key s =
     (if s = [] then INT_ENOENT
      else let line = takeWhile (\<lambda>c. c \<noteq> EOL) s; rest = dropWhile (\<lambda>c. c \<noteq> EOL) s;
               v = dropWhile separating (after_key key line)
           in if key_line key line \<and> v \<noteq> [] then c_int (strtol (v @ rest) 10) else faillock_value key (tl rest))"
  by pat_completeness auto
termination
  by (relation "measure (\<lambda>(key, s). length s)") (simp_all add: next_line_shorter)

declare faillock_value.simps [simp del]

definition GetFaillockConfIntegerOption :: "cstr \<Rightarrow> cstr \<Rightarrow> 'a runtime_scheme \<Rightarrow> int \<times> 'a runtime_scheme" where
  "GetFaillockConfIntegerOption fileName key s =
     (case (fileName, key) of
        (Some p, Some k) \<Rightarrow>
          (case read_fs (\<lambda>m. LoadStringFromFile m fileName False) s of
             (None, s1) \<Rightarrow> (INT_ENOENT, s1)
           | (Some contents, s1) \<Rightarrow> (faillock_value k contents, s1))
      | _ \<Rightarrow> (INT_ENOENT, s))"

definition CheckLockoutForFailedPasswordAttemptsViaFaillockConf :: "cstr \<Rightarrow> cstr \<Rightarrow> 'a runtime_scheme \<Rightarrow> int \<times> 'a runtime_scheme" where
  "CheckLockoutForFailedPasswordAttemptsViaFaillockConf pamFile faillockConf s =
     (case (pamFile, faillockConf) of
        (Some pam, Some conf) \<Rightarrow>
          if \<not> found conf s then (ENOENT, capture (sq conf @ '' does not exist'') s)
          else (case read_fs (\<lambda>m. CheckLineFoundNotCommentedOut m pamFile CHR ''#'' (Some ''pam_faillock.so'')) s of
             (status, s1) \<Rightarrow>
               if status \<noteq> 0 then (ENOENT, capture (sq ''pam_faillock.so'' @ '' is not referenced uncommented in '' @ sq pam) s1)
               else (case GetFaillockConfIntegerOption faillockConf (Some ''deny'') s1 of
                  (d, s2) \<Rightarrow>
                    if d \<noteq> INT_ENOENT \<and> 5 < d
                    then (ENOENT, capture (sq ''deny'' @ '' from '' @ sq conf @ '' is '' @ print_int d @ '', expected a value less than or equal to '' @ print_int 5) s2)
                    else (let denyValue = (if d = INT_ENOENT then 3 else d)
                          in case GetFaillockConfIntegerOption faillockConf (Some ''unlock_time'') s2 of
                               (u, s3) \<Rightarrow>
                                 if u \<noteq> INT_ENOENT \<and> u \<le> 0
                                 then (ENOENT, capture (sq ''unlock_time'' @ '' from '' @ sq conf @ '' is '' @ print_int u @ '', expected a positive value'') s3)
                                 else (let unlockTimeValue = (if u = INT_ENOENT then 600 else u)
                                       in (0, capture_success (sq ''pam_faillock.so'' @ '' is referenced uncommented in '' @ sq pam @ '' and '' @ sq conf @ '' has '' @ sq ''deny'' @ '' set to '' @ print_int denyValue @ '' (less than or equal to '' @ print_int 5 @ '') and '' @ sq ''unlock_time'' @ '' set to '' @ print_int unlockTimeValue @ '' (greater than 0)'') s3)))))
      | _ \<Rightarrow> (EINVAL, s))"

text \<open>The lines of the file one after the other: the text written for them, and whether a line was
  replaced. \<open>append_key\<close> is what follows the loop.\<close>

function replace_key :: "string \<Rightarrow> string \<Rightarrow> bool \<Rightarrow> string \<Rightarrow> string \<times> bool" where
  "replace_key key formatted replaced s =
     (if s = [] then ([], replaced)
      else let line = takeWhile (\<lambda>c. c \<noteq> EOL) s; rest = dropWhile (\<lambda>c. c \<noteq> EOL) s
           in if \<not> replaced \<and> key_line key line
              then (case replace_key key formatted True (tl rest) of (out, r) \<Rightarrow> (formatted @ out, r))
              else (case replace_key key formatted replaced (tl rest) of (out, r) \<Rightarrow> (line @ take 1 rest @ out, r)))"
  by pat_completeness auto
termination
  by (relation "measure (\<lambda>(key, formatted, replaced, s). length s)") (simp_all add: next_line_shorter)

declare replace_key.simps [simp del]

definition append_key :: "string \<Rightarrow> string \<times> bool \<Rightarrow> string" where
  "append_key formatted r =
     (case r of (out, replaced) \<Rightarrow>
        if replaced then out
        else (if out \<noteq> [] \<and> last out \<noteq> EOL then out @ [EOL] else out) @ formatted)"

definition set_key :: "string \<Rightarrow> string \<Rightarrow> string \<Rightarrow> string" where
  "set_key key formatted contents = append_key formatted (replace_key key formatted False contents)"

definition conf_setting :: "string \<Rightarrow> int \<Rightarrow> string" where
  "conf_setting key v = key @ '' = '' @ print_int v @ [EOL]"

text \<open>The size of the buffer, without the terminator.\<close>

definition newCapacity :: "string \<Rightarrow> string \<Rightarrow> nat" where
  "newCapacity contents formatted = length contents + length formatted + 2"

definition SetFaillockConfOption :: "cstr \<Rightarrow> cstr \<Rightarrow> int \<Rightarrow> 'a runtime_scheme \<Rightarrow> int \<times> 'a runtime_scheme" where
  "SetFaillockConfOption fileName key v s =
     (case (fileName, key) of
        (Some p, Some k) \<Rightarrow>
          if \<not> FileExists fileName (fs_of s) then (ENOENT, s)
          else (case read_fs (\<lambda>m. LoadStringFromFile m fileName False) s of
             (None, s1) \<Rightarrow> (EACCES, s1)
           | (Some contents, s1) \<Rightarrow>
               (case format_text (conf_setting k v) s1 of
                  (None, s2) \<Rightarrow> (ENOMEM, s2)
                | (Some formatted, s2) \<Rightarrow>
                    (case ask ''malloc'' s2 of
                       (failed, s3) \<Rightarrow>
                         if failed \<noteq> 0 then (ENOMEM, s3)
                         else (case edit_fs (\<lambda>m rnd. SecureSaveToFile m rnd fileName (Some (set_key k formatted contents))) s3 of
                            (saved, s4) \<Rightarrow> (if saved then 0 else EACCES, s4)))))
      | _ \<Rightarrow> (EINVAL, s))"

definition SetLockoutForFailedPasswordAttemptsViaFaillockConf :: "cstr \<Rightarrow> int \<Rightarrow> int \<Rightarrow> 'a runtime_scheme \<Rightarrow> int \<times> 'a runtime_scheme" where
  "SetLockoutForFailedPasswordAttemptsViaFaillockConf faillockConf deny unlockTime s =
     (if faillockConf = None then (EINVAL, s)
      else (case SetFaillockConfOption faillockConf (Some ''deny'') deny s of
         (status, s1) \<Rightarrow>
           (case SetFaillockConfOption faillockConf (Some ''unlock_time'') unlockTime s1 of
              (status', s2) \<Rightarrow> (first_error status status', s2))))"

fun modern_in_files :: "cstr list \<Rightarrow> 'a runtime_scheme \<Rightarrow> int \<times> 'a runtime_scheme" where
  "modern_in_files [] s = (ENOENT, s)"
| "modern_in_files (f # fs) s =
     (if f \<noteq> None \<and> CheckFileExists f (fs_of s) = 0
      then (case read_fs (\<lambda>m. CheckLineFoundNotCommentedOut m f CHR ''#'' (Some ''pam_faillock.so'')) s of
         (status, s1) \<Rightarrow> if status = 0 then (0, s1) else modern_in_files fs s1)
      else modern_in_files fs s)"

definition CheckPamFaillockModernModelInUse :: "cstr list \<Rightarrow> cstr \<Rightarrow> 'a runtime_scheme \<Rightarrow> int \<times> 'a runtime_scheme" where
  "CheckPamFaillockModernModelInUse pamFiles faillockConf s =
     (if pamFiles = [] \<or> faillockConf = None then (EINVAL, s)
      else if CheckFileExists faillockConf (fs_of s) \<noteq> 0 then (ENOENT, s)
      else modern_in_files pamFiles s)"

subsection \<open>Remediation of the lockout\<close>

definition pamConfigurations :: "string list" where
  "pamConfigurations = [''/etc/pam.d/login'', ''/etc/pam.d/system-auth'', ''/etc/pam.d/password-auth'', ''/etc/pam.d/common-auth'']"

text \<open>What one round of the loop does to one file: the status of the round, kept from the round before
  when no module is there.\<close>

definition lockout_line_in_file :: "string \<Rightarrow> int \<Rightarrow> 'a runtime_scheme \<Rightarrow> int \<times> 'a runtime_scheme" where
  "lockout_line_in_file p before s =
     (case FindPamModule (Some ''pam_faillock.so'') s of
        (Some a, s1) \<Rightarrow>
          (case format_text (''auth required '' @ a @ '' preauth silent audit deny=3 unlock_time=900 even_deny_root'' @ [EOL]) s1 of
             (None, s2) \<Rightarrow> (ENOMEM, s2)
           | (Some line, s2) \<Rightarrow> replace_lines p ''pam_faillock.so'' line s2)
      | (None, s1) \<Rightarrow>
          (case FindPamModule (Some ''pam_tally2.so'') s1 of
             (Some a, s2) \<Rightarrow>
               (case format_text (''auth required '' @ a @ '' file=/var/log/tallylog onerr=fail audit silent deny=5 unlock_time=900 even_deny_root'' @ [EOL]) s2 of
                  (None, s3) \<Rightarrow> (ENOMEM, s3)
                | (Some line, s3) \<Rightarrow> replace_lines p ''pam_tally2.so'' line s3)
           | (None, s2) \<Rightarrow>
               (case FindPamModule (Some ''pam_tally.so'') s2 of
                  (None, s3) \<Rightarrow> (before, s3)
                | (Some a, s3) \<Rightarrow>
                    (case FindPamModule (Some ''pam_deny.so'') s3 of
                       (None, s4) \<Rightarrow> (before, s4)
                     | (Some b, s4) \<Rightarrow>
                         (case format_text (''auth required '' @ a @ '' onerr=fail deny=3 unlock_time=900'' @ [EOL] @ ''auth required '' @ b @ [EOL]) s4 of
                            (None, s5) \<Rightarrow> (ENOMEM, s5)
                          | (Some line, s5) \<Rightarrow> replace_lines p ''pam_tally.so'' line s5)))))"

fun lockout_in_files :: "string list \<Rightarrow> int \<times> int \<Rightarrow> 'a runtime_scheme \<Rightarrow> (int \<times> int) \<times> 'a runtime_scheme" where
  "lockout_in_files [] (status, before) s = ((status, before), s)"
| "lockout_in_files (p # ps) (status, before) s =
     (if found p s
      then (case lockout_line_in_file p before s of
         (r, s1) \<Rightarrow>
           (let status' = (if r \<noteq> 0 then r else status)
            in if status' = ENOMEM then ((status', r), s1) else lockout_in_files ps (status', r) s1))
      else lockout_in_files ps (status, before) s)"

definition SetLockoutForFailedPasswordAttempts :: "'a packages_scheme \<Rightarrow> int \<times> 'a packages_scheme" where
  "SetLockoutForFailedPasswordAttempts s0 =
     (case CheckPamFaillockModernModelInUse (map Some pamConfigurations) (Some etcSecurityFaillockConf)
             (EnsurePamModulePackagesAreInstalled s0) of
        (modern, s1) \<Rightarrow>
          if modern = 0 then SetLockoutForFailedPasswordAttemptsViaFaillockConf (Some etcSecurityFaillockConf) 3 900 s1
          else (case lockout_in_files pamConfigurations (0, 0) s1 of
             ((status, _), s2) \<Rightarrow>
               if status \<noteq> ENOMEM \<and> found etcSecurityFaillockConf s2
               then (case SetLockoutForFailedPasswordAttemptsViaFaillockConf (Some etcSecurityFaillockConf) 3 900 s2 of
                  (r, s3) \<Rightarrow> (if r \<noteq> 0 then r else status, s3))
               else (status, s2)))"

subsection \<open>Requirements for new passwords\<close>

text \<open>The options of the line in order, read while they have the desired values: the variables of the
  others keep their initial value 0.\<close>

fun read_options :: "string \<Rightarrow> (string \<times> int) list \<Rightarrow> 'a runtime_scheme \<Rightarrow> int list \<times> 'a runtime_scheme" where
  "read_options line [] s = ([], s)"
| "read_options line ((opt, desired) # os) s =
     (case int_option line opt s of
        (v, s1) \<Rightarrow>
          if v = desired then (case read_options line os s1 of (vs, s2) \<Rightarrow> (v # vs, s2))
          else (v # map (\<lambda>_. 0) os, s1))"

definition common_password_text :: "string \<times> int \<Rightarrow> int \<Rightarrow> 'a runtime_scheme \<Rightarrow> 'a runtime_scheme" where
  "common_password_text od v s =
     (case od of (opt, desired) \<Rightarrow>
        let verb = (if opt \<in> {''retry'', ''minlen'', ''dcredit''} then '' is'' else []);
            shown = (if opt \<in> {''retry'', ''minlen''} then print_int v else sq (print_int v))
        in if v = INT_ENOENT then capture (''In '' @ sq etcPamdCommonPassword @ '' '' @ sq opt @ verb @ '' missing'') s
           else if v \<noteq> desired
           then capture (''In '' @ sq etcPamdCommonPassword @ '' '' @ sq opt @ verb @ '' set to '' @ shown @ '' instead of '' @ print_int desired) s
           else s)"

definition common_password_line :: "string \<Rightarrow> bool" where
  "common_password_line line \<longleftrightarrow>
     strstr line ''password'' \<noteq> None \<and> strstr line ''requisite'' \<noteq> None \<and>
     (strstr line ''pam_pwquality.so'' \<noteq> None \<or> strstr line ''pam_cracklib.so'' \<noteq> None \<or> strstr line ''pam_unix.so'' \<noteq> None)"

text \<open>The first line that is not commented out and has the module; \<open>None\<close> when there is none.\<close>

definition find_common_password_line :: "string list \<Rightarrow> string option" where
  "find_common_password_line ls =
     find (\<lambda>l. first_char l \<noteq> CHR ''#'' \<and> first_char l \<noteq> EOL \<and> common_password_line l) ls"

definition CheckRequirementsForCommonPassword ::
  "int \<Rightarrow> int \<Rightarrow> int \<Rightarrow> int \<Rightarrow> int \<Rightarrow> int \<Rightarrow> 'a runtime_scheme \<Rightarrow> int \<times> 'a runtime_scheme" where
  "CheckRequirementsForCommonPassword retry minlen dcredit ucredit ocredit lcredit s =
     (if \<not> FileExists (Some etcPamdCommonPassword) (fs_of s)
      then (ENOENT, capture (etcPamdCommonPassword @ [CHR 0x27] @ '' does not exist'') s)
      else (case ask ''malloc'' s of
         (failed, s1) \<Rightarrow>
           if failed \<noteq> 0 then (ENOMEM, s1)
           else (case ask ''fopen'' s1 of
              (failed, s2) \<Rightarrow>
                (let s3 = (if failed \<noteq> 0 then capture (''Cannot read from '' @ sq etcPamdCommonPassword) s2 else s2);
                     options = [(''retry'', retry), (''minlen'', minlen), (''dcredit'', dcredit), (''ucredit'', ucredit),
                       (''ocredit'', ocredit), (''lcredit'', lcredit)]
                 in case (if failed \<noteq> 0 then None else find_common_password_line (lines_of_file etcPamdCommonPassword (fs_of s3))) of
                      None \<Rightarrow>
                        (ENOENT, capture (sq etcPamdCommonPassword @ '' does not contain a line '' @ sq ''password requisite'' @ '' with retry, minlen, dcredit, ucredit, ocredit, lcredit password creation options'') s3)
                    | Some line \<Rightarrow>
                        (case read_options line options s3 of
                           (vs, s4) \<Rightarrow>
                             if vs = map snd options
                             then (0, capture_success (sq etcPamdCommonPassword @ '' contains uncommented '' @ sq ''password requisite'' @ '' with the expected password creation requirements (retry: '' @ print_int retry @ '', minlen: '' @ print_int minlen @ '', dcredit: '' @ print_int dcredit @ '', ucredit: '' @ print_int ucredit @ '', ocredit: '' @ print_int ocredit @ '', lcredit: '' @ print_int lcredit @ '')'') s4)
                             else (ENOENT, fold (\<lambda>(od, v). common_password_text od v) (zip options vs) s4))))))"

definition CheckPasswordRequirementFromBuffer ::
  "cstr \<Rightarrow> cstr \<Rightarrow> cstr \<Rightarrow> char \<Rightarrow> char \<Rightarrow> int \<Rightarrow> 'a runtime_scheme \<Rightarrow> int \<times> 'a runtime_scheme" where
  "CheckPasswordRequirementFromBuffer buffer opt fileName separator comment desired s =
     (case (buffer, opt, fileName) of
        (Some line, Some o', Some p) \<Rightarrow>
          (let v = GetIntegerOptionFromBuffer (now s) buffer opt separator CHR ''#'' 10; s1 = tick s;
               commented = (first_char line = comment)
           in if v = desired
              then (if commented then (ENOENT, capture (sq o' @ '' is set to correct value '' @ print_int v @ '' in '' @ sq p @ '' but it's commented out'') s1)
                    else (0, capture_success (sq o' @ '' is set to correct value '' @ print_int v @ '' in '' @ sq p) s1))
              else (ENOENT,
                    if commented then capture (sq o' @ '' is set to '' @ print_int v @ '' instead of '' @ print_int desired @ '' in '' @ sq p @ '' and it's commented out'') s1
                    else capture (sq o' @ '' is set to '' @ print_int v @ '' instead of '' @ print_int desired @ '' in '' @ sq p) s1))
      | _ \<Rightarrow> (INT_ENOENT, s))"

text \<open>The first option a line names, and the loop with its two statuses: the one of the line read
  last is kept by a line that names none.\<close>

fun pwquality_lines :: "(string \<times> int) list \<Rightarrow> string list \<Rightarrow> int \<times> int \<Rightarrow> 'a runtime_scheme \<Rightarrow> int \<times> 'a runtime_scheme" where
  "pwquality_lines options [] (status, prev) s = (status, s)"
| "pwquality_lines options (line # ls) (status, prev) s =
     (case find (\<lambda>(opt, desired). strstr line opt \<noteq> None) options of
        None \<Rightarrow> pwquality_lines options ls (first_error status prev, prev) s
      | Some (opt, desired) \<Rightarrow>
          (case CheckPasswordRequirementFromBuffer (Some line) (Some opt) (Some etcSecurityPwQualityConf) CHR ''='' CHR ''#'' desired s of
             (r, s1) \<Rightarrow> pwquality_lines options ls (first_error status r, r) s1))"

definition CheckRequirementsForPwQualityConf ::
  "int \<Rightarrow> int \<Rightarrow> int \<Rightarrow> int \<Rightarrow> int \<Rightarrow> int \<Rightarrow> int \<Rightarrow> 'a runtime_scheme \<Rightarrow> int \<times> 'a runtime_scheme" where
  "CheckRequirementsForPwQualityConf retry minlen minclass dcredit ucredit ocredit lcredit s =
     (if \<not> FileExists (Some etcSecurityPwQualityConf) (fs_of s)
      then (ENOENT, capture (sq etcSecurityPwQualityConf @ '' does not exist'') s)
      else (case ask ''malloc'' s of
         (failed, s1) \<Rightarrow>
           if failed \<noteq> 0 then (ENOMEM, s1)
           else (case ask ''fopen'' s1 of
              (failed, s2) \<Rightarrow>
                if failed \<noteq> 0 then (EACCES, capture (''Cannot read from '' @ sq etcSecurityPwQualityConf) s2)
                else pwquality_lines [(''retry'', retry), (''minlen'', minlen), (''minclass'', minclass), (''dcredit'', dcredit),
                       (''ucredit'', ucredit), (''lcredit'', lcredit), (''ocredit'', ocredit)]
                       (lines_of_file etcSecurityPwQualityConf (fs_of s2)) (0, 0) s2)))"

definition CheckPasswordCreationRequirements ::
  "int \<Rightarrow> int \<Rightarrow> int \<Rightarrow> int \<Rightarrow> int \<Rightarrow> int \<Rightarrow> int \<Rightarrow> 'a runtime_scheme \<Rightarrow> int \<times> 'a runtime_scheme" where
  "CheckPasswordCreationRequirements retry minlen minclass dcredit ucredit ocredit lcredit s =
     (let commonPasswordExists = FileExists (Some etcPamdCommonPassword) (fs_of s);
          pwQualityConfExists = FileExists (Some etcSecurityPwQualityConf) (fs_of s)
      in if \<not> commonPasswordExists \<and> \<not> pwQualityConfExists
         then (ENOENT, capture (''Neither '' @ sq etcPamdCommonPassword @ '' or '' @ sq etcSecurityPwQualityConf @ '' exist'') s)
         else (let (status, s1) =
                     (if commonPasswordExists then CheckRequirementsForCommonPassword retry minlen dcredit ucredit ocredit lcredit s
                      else (ENOENT, s))
               in if status \<noteq> 0 \<and> pwQualityConfExists
                  then CheckRequirementsForPwQualityConf retry minlen minclass dcredit ucredit ocredit lcredit s1
                  else (status, s1)))"

text \<open>The loop over the options of \<open>pwquality.conf\<close>: the status is that of the last replacement.\<close>

fun set_pwquality :: "(string \<times> int) list \<Rightarrow> int \<Rightarrow> 'a runtime_scheme \<Rightarrow> int \<times> 'a runtime_scheme" where
  "set_pwquality [] status s = (status, s)"
| "set_pwquality ((opt, v) # os) status s =
     (case format_text (opt @ '' = '' @ print_int v @ [EOL]) s of
        (None, s1) \<Rightarrow> set_pwquality os status s1
      | (Some line, s1) \<Rightarrow>
          (case replace_lines etcSecurityPwQualityConf opt line s1 of (status', s2) \<Rightarrow> set_pwquality os status' s2))"

definition set_common_password ::
  "int \<Rightarrow> int \<Rightarrow> int \<Rightarrow> int \<Rightarrow> int \<Rightarrow> int \<Rightarrow> 'a packages_scheme \<Rightarrow> int \<times> 'a packages_scheme" where
  "set_common_password retry minlen lcredit ucredit ocredit dcredit s =
     (case FindPamModule (Some ''pam_pwquality.so'') (EnsurePamModulePackagesAreInstalled s) of
        (quality, s1) \<Rightarrow>
          (case FindPamModule (Some ''pam_cracklib.so'') s1 of
             (crack, s2) \<Rightarrow>
               (case FindPamModule (Some ''pam_unix.so'') s2 of
                  (unix, s3) \<Rightarrow>
                    (let choice = (case quality of
                           Some p \<Rightarrow> Some (p, ''pam_pwquality.so'')
                         | None \<Rightarrow> (case crack of Some p \<Rightarrow> Some (p, ''pam_cracklib.so'')
                                    | None \<Rightarrow> map_option (\<lambda>p. (p, ''pam_unix.so'')) unix))
                     in case choice of
                          None \<Rightarrow> (ENOENT, s3)
                        | Some (p, so) \<Rightarrow>
                            (case format_text (''password requisite '' @ p @ '' retry='' @ print_int retry @ '' minlen='' @ print_int minlen @ '' lcredit='' @ print_int lcredit @ '' ucredit='' @ print_int ucredit @ '' ocredit='' @ print_int ocredit @ '' dcredit='' @ print_int dcredit @ [EOL]) s3 of
                               (None, s4) \<Rightarrow> (0, s4)
                             | (Some line, s4) \<Rightarrow> replace_lines etcPamdCommonPassword so line s4)))))"

definition SetPasswordCreationRequirements ::
  "int \<Rightarrow> int \<Rightarrow> int \<Rightarrow> int \<Rightarrow> int \<Rightarrow> int \<Rightarrow> int \<Rightarrow> 'a packages_scheme \<Rightarrow> int \<times> 'a packages_scheme" where
  "SetPasswordCreationRequirements retry minlen minclass dcredit ucredit ocredit lcredit s =
     (let (status, s1) =
            (if found etcPamdCommonPassword s then set_common_password retry minlen lcredit ucredit ocredit dcredit s else (0, s));
          (prev, s2) =
            (if found etcSecurityPwQualityConf s1
             then set_pwquality [(''retry'', retry), (''minlen'', minlen), (''minclass'', minclass), (''dcredit'', dcredit),
                    (''ucredit'', ucredit), (''ocredit'', ocredit), (''lcredit'', lcredit)] 0 s1
             else (0, s1))
      in (if prev = 0 \<or> status = 0 then prev else status, s2))"

end
