(* ===== verification/MountUtils.thy ===== *)
theory MountUtils
  imports FileChecks
begin

text \<open>
  Options of mounted file systems (\<open>MountUtils.c\<close>). The functions of \<open>mntent.h\<close> the code uses are
  modelled on the text of a mount table: \<open>getmntent\<close> reads its entries, with the escapes of blanks
  decoded, \<open>addmntent\<close> writes an entry with the escapes, \<open>hasmntopt\<close> looks for an option.
\<close>

subsection \<open>Mount tables\<close>

record mntent =
  mnt_fsname :: string
  mnt_dir :: string
  mnt_type :: string
  mnt_opts :: string
  mnt_freq :: int
  mnt_passno :: int

fun decode_name :: "string \<Rightarrow> string" where
  "decode_name (a # b # c # d # s) =
     (if a \<noteq> CHR 0x5C then a # decode_name (b # c # d # s)
      else if [b, c, d] = ''040'' then CHR '' '' # decode_name s
      else if [b, c, d] = ''011'' then CHR 0x09 # decode_name s
      else if [b, c, d] = ''012'' then EOL # decode_name s
      else if b = CHR 0x5C then CHR 0x5C # decode_name (c # d # s)
      else if [b, c, d] = ''134'' then CHR 0x5C # decode_name s
      else a # decode_name (b # c # d # s))"
| "decode_name (a # b # s) =
     (if a = CHR 0x5C \<and> b = CHR 0x5C then CHR 0x5C # decode_name s else a # decode_name (b # s))"
| "decode_name s = s"

definition encode_char :: "char \<Rightarrow> string" where
  "encode_char c =
     (if c = CHR '' '' then CHR 0x5C # ''040'' else if c = CHR 0x09 then CHR 0x5C # ''011''
      else if c = EOL then CHR 0x5C # ''012'' else if c = CHR 0x5C then CHR 0x5C # ''134'' else [c])"

definition encode_name :: "string \<Rightarrow> string" where
  "encode_name s = concat (map encode_char s)"

text \<open>A line as \<open>getmntent\<close> sees it: its buffer has 4096 bytes, and the blanks before the line feed are
  removed.\<close>

definition table_line :: "string \<times> bool \<Rightarrow> string" where
  "table_line l =
     (case l of (t, terminated) \<Rightarrow>
        dropWhile blank (if terminated \<and> length t < 4095 then rev (dropWhile blank (rev t)) else take 4095 t))"

definition next_field :: "string option \<Rightarrow> string \<times> string option" where
  "next_field head =
     (case head of
        None \<Rightarrow> ([], None)
      | Some h \<Rightarrow>
          (let r = dropWhile (\<lambda>c. \<not> blank c) h
           in (decode_name (takeWhile (\<lambda>c. \<not> blank c) h), if r = [] then None else Some (dropWhile blank (tl r)))))"

text \<open>\<open>%d\<close> of \<open>sscanf\<close>: the number and the rest of the text.\<close>

definition scan_int :: "string \<Rightarrow> (int \<times> string) option" where
  "scan_int s =
     (let t = dropWhile isspace s;
          (sign, u) = (if t \<noteq> [] \<and> hd t \<in> {CHR ''-'', CHR ''+''} then (if hd t = CHR ''-'' then - 1 else 1, tl t) else (1, t));
          ds = takeWhile isdigit u
      in if ds = [] then None else Some (c_int (clamp64 (sign * int (dec_value 0 ds))), dropWhile isdigit u))"

definition parse_mntent :: "string \<Rightarrow> mntent" where
  "parse_mntent l =
     (let (fsname, h1) = next_field (Some l); (dir, h2) = next_field h1; (type, h3) = next_field h2; (opts, h4) = next_field h3;
          (freq, passno) =
            (case h4 of
               None \<Rightarrow> (0, 0)
             | Some t \<Rightarrow>
                 (case scan_int t of
                    None \<Rightarrow> (0, 0)
                  | Some (a, u) \<Rightarrow> (case scan_int u of None \<Rightarrow> (a, 0) | Some (b, _) \<Rightarrow> (a, b))))
      in \<lparr>mnt_fsname = fsname, mnt_dir = dir, mnt_type = type, mnt_opts = opts, mnt_freq = freq, mnt_passno = passno\<rparr>)"

definition getmntents :: "string \<Rightarrow> mntent list" where
  "getmntents s = map parse_mntent (filter (\<lambda>l. l \<noteq> [] \<and> hd l \<noteq> CHR ''#'') (map table_line (text_lines s)))"

definition addmntent :: "mntent \<Rightarrow> string" where
  "addmntent e =
     encode_name (mnt_fsname e) @ '' '' @ encode_name (mnt_dir e) @ '' '' @ encode_name (mnt_type e) @ '' '' @
     encode_name (mnt_opts e) @ '' '' @ print_int (mnt_freq e) @ '' '' @ print_int (mnt_passno e) @ [EOL]"

text \<open>The search goes on behind the next comma after an occurrence.\<close>

function has_option :: "string \<Rightarrow> string \<Rightarrow> bool" where
  "has_option opt rest =
     (case strstr rest opt of
        None \<Rightarrow> False
      | Some p \<Rightarrow>
          (let before = take (length rest - length p) rest; after = drop (length opt) p
           in if (before = [] \<or> last before = CHR '','') \<and> (after = [] \<or> hd after = CHR ''='' \<or> hd after = CHR '','') then True
              else (case dropWhile (\<lambda>c. c \<noteq> CHR '','') p of [] \<Rightarrow> False | _ # r \<Rightarrow> has_option opt r)))"
  by pat_completeness auto
termination
proof (relation "measure (\<lambda>(opt, rest). length rest)", goal_cases)
  case (2 opt rest p x xa a r)
  have "length (dropWhile (\<lambda>c. c \<noteq> CHR '','') p) \<le> length p" by (rule length_dropWhile_le)
  moreover have "length p \<le> length rest"
    using 2(1) strstr_Some_D suffix_length_le by blast
  ultimately show ?case using 2(5) by simp
qed simp

declare has_option.simps [simp del]

definition hasmntopt :: "mntent \<Rightarrow> string \<Rightarrow> bool" where
  "hasmntopt e opt = has_option opt (mnt_opts e)"

definition table_of :: "string \<Rightarrow> fs \<Rightarrow> mntent list" where
  "table_of p st = (case node st p of None \<Rightarrow> [] | Some n \<Rightarrow> getmntents (readable_bytes n))"

subsection \<open>The audit\<close>

definition CheckForMountCreds :: "cstr \<Rightarrow> cstr" where
  "CheckForMountCreds options =
     (case options of
        None \<Rightarrow> None
      | Some o' \<Rightarrow> if list_ex (\<lambda>w. strstr o' w \<noteq> None) [''username'', ''password'', ''domain''] then None else options)"

text \<open>The entries a rule is about: by a part of the directory or of the type.\<close>

definition mount_match :: "cstr \<Rightarrow> cstr \<Rightarrow> mntent \<Rightarrow> bool" where
  "mount_match mountDirectory mountType e \<longleftrightarrow>
     (case mountDirectory of None \<Rightarrow> False | Some d \<Rightarrow> strstr (mnt_dir e) d \<noteq> None) \<or>
     (case mountType of None \<Rightarrow> False | Some t \<Rightarrow> strstr (mnt_type e) t \<noteq> None)"

definition option_place :: "string \<Rightarrow> nat \<Rightarrow> mntent \<Rightarrow> string" where
  "option_place p lineNumber e = sq p @ '' at line '' @ dec lineNumber @ '' ('' @ sq (show_s (CheckForMountCreds (Some (mnt_opts e)))) @ '')''"

definition option_texts :: "string \<Rightarrow> cstr \<Rightarrow> cstr \<Rightarrow> string \<Rightarrow> nat \<Rightarrow> mntent \<Rightarrow> 'a runtime_scheme \<Rightarrow> 'a runtime_scheme" where
  "option_texts p mountDirectory mountType desiredOption lineNumber e s =
     (let there = hasmntopt e desiredOption;
          s1 = (case mountDirectory of
             None \<Rightarrow> s
           | Some d \<Rightarrow>
               if there then capture_success (''Option '' @ sq desiredOption @ '' for mount directory '' @ sq d @ '' found in '' @ option_place p lineNumber e) s
               else capture (''Option '' @ sq desiredOption @ '' for mount directory '' @ sq d @ '' is missing from file '' @ option_place p lineNumber e) s)
      in case mountType of
           None \<Rightarrow> s1
         | Some t \<Rightarrow>
             if there then capture_success (''Option '' @ sq desiredOption @ '' for mount type '' @ sq t @ '' found in '' @ option_place p lineNumber e) s1
             else capture (''Option '' @ sq desiredOption @ '' for mount type '' @ sq t @ '' missing from file '' @ option_place p lineNumber e) s1)"

fun check_entries ::
  "string \<Rightarrow> cstr \<Rightarrow> cstr \<Rightarrow> string \<Rightarrow> nat \<Rightarrow> mntent list \<Rightarrow> int \<times> bool \<Rightarrow> 'a runtime_scheme \<Rightarrow> (int \<times> bool) \<times> 'a runtime_scheme" where
  "check_entries p mountDirectory mountType desiredOption lineNumber [] r s = (r, s)"
| "check_entries p mountDirectory mountType desiredOption lineNumber (e # es) r s =
     (if mount_match mountDirectory mountType e
      then check_entries p mountDirectory mountType desiredOption (Suc lineNumber) es
             (if hasmntopt e desiredOption then fst r else ENOENT, True)
             (option_texts p mountDirectory mountType desiredOption lineNumber e s)
      else check_entries p mountDirectory mountType desiredOption (Suc lineNumber) es r s)"

definition CheckFileSystemMountingOption :: "cstr \<Rightarrow> cstr \<Rightarrow> cstr \<Rightarrow> cstr \<Rightarrow> 'a runtime_scheme \<Rightarrow> int \<times> 'a runtime_scheme" where
  "CheckFileSystemMountingOption mountFileName mountDirectory mountType desiredOption s =
     (case (mountFileName, desiredOption) of
        (Some p, Some opt) \<Rightarrow>
          if mountDirectory = None \<and> mountType = None then (EINVAL, s)
          else if \<not> FileExists mountFileName (fs_of s)
          then (0, capture_same (sq p @ '' is not found, nothing to check'') (sq p @ '' is not found'') s)
          else (case ask ''setmntent'' s of
             (failed, s1) \<Rightarrow>
               if failed \<noteq> 0
               then (failed, capture (''Cannot access '' @ sq p @ '', setmntent() failed ('' @ print_int failed @ '')'') s1)
               else (case check_entries p mountDirectory mountType opt 1 (table_of p (fs_of s1)) (0, False) s1 of
                  ((status, matchFound), s2) \<Rightarrow>
                    if matchFound then (status, s2)
                    else (let s3 = (case mountDirectory of None \<Rightarrow> s2 | Some d \<Rightarrow>
                                capture_success (''Found no entries about mount directory '' @ sq d @ '' in '' @ sq p @ '' to look for option '' @ sq opt) s2)
                          in (0, case mountType of None \<Rightarrow> s3 | Some t \<Rightarrow>
                                capture_success (''Found no entries about mount type '' @ sq t @ '' in '' @ sq p @ '' to look for option '' @ sq opt) s3))))
      | _ \<Rightarrow> (EINVAL, s))"

subsection \<open>The remediation\<close>

text \<open>\<open>addmntent\<close> entry by entry: the text written, and the status of the last one.\<close>

fun add_entries :: "sys \<Rightarrow> nat \<Rightarrow> mntent list \<Rightarrow> int \<times> string" where
  "add_entries m i [] = (0, [])"
| "add_entries m i (e # es) =
     (if m ''addmntent'' i \<noteq> 0 then (1, [])
      else (case add_entries m (Suc i) es of (status, t) \<Rightarrow> (status, addmntent e @ t)))"

text \<open>The target is emptied before the source is opened. A source that cannot be opened is closed all the
  same, which \<open>endmntent\<close> accepts.\<close>

definition CopyMountTableFile :: "sys \<Rightarrow> cstr \<Rightarrow> cstr \<Rightarrow> fs \<Rightarrow> int \<times> fs" where
  "CopyMountTableFile m source target st =
     (case (source, target) of
        (Some a, Some b) \<Rightarrow>
          if \<not> FileExists source st then (EINVAL, st)
          else if m ''setmntent.target'' 0 \<noteq> 0 then (m ''setmntent.target'' 0, st)
          else (let st1 = open_for_writing b ''w'' st
                in if m ''setmntent.source'' 0 \<noteq> 0 then (m ''setmntent.source'' 0, st1)
                   else (case add_entries m 0 (table_of a st1) of (status, t) \<Rightarrow> (status, append_bytes b t st1)))
      | _ \<Rightarrow> (EINVAL, st))"

text \<open>0 when the text is there.\<close>

definition LineAlreadyExistsInFile :: "sys \<Rightarrow> cstr \<Rightarrow> cstr \<Rightarrow> fs \<Rightarrow> int" where
  "LineAlreadyExistsInFile m fileName t st =
     (case (fileName, t) of
        (Some p, Some x) \<Rightarrow>
          if x = [] then EINVAL
          else if \<not> FileExists fileName st then ENOENT
          else (case LoadStringFromFile m fileName False st of
             None \<Rightarrow> EACCES
           | Some contents \<Rightarrow> if strstr contents x = None then EEXIST else 0)
      | _ \<Rightarrow> EINVAL)"

definition new_line :: "string option \<Rightarrow> mntent \<Rightarrow> string" where
  "new_line added e =
     (case added of
        None \<Rightarrow> [EOL] @ mnt_fsname e @ '' '' @ mnt_dir e @ '' '' @ mnt_type e @ '' '' @ mnt_opts e @ '' '' @ (print_int (mnt_freq e)) @ '' '' @ (print_int (mnt_passno e))
      | Some opt \<Rightarrow> [EOL] @ mnt_fsname e @ '' '' @ mnt_dir e @ '' '' @ mnt_type e @ '' '' @ mnt_opts e @ '','' @ opt @ '' '' @ (print_int (mnt_freq e)) @ '' '' @ (print_int (mnt_passno e)))"

text \<open>One entry goes to the first temporary file, unless its line is there: whether the loop stops, and
  the status, which stays as it was when nothing is written.\<close>

definition collect_entry :: "string \<Rightarrow> string option \<Rightarrow> mntent \<Rightarrow> int \<Rightarrow> 'a runtime_scheme \<Rightarrow> (bool \<times> int) \<times> 'a runtime_scheme" where
  "collect_entry tempOne added e status s =
     (case format_text (new_line added e) s of
        (None, s1) \<Rightarrow> ((True, ENOMEM), s1)
      | (Some newLine, s1) \<Rightarrow>
          (case read_fs (\<lambda>m. LineAlreadyExistsInFile m (Some tempOne) (Some newLine)) s1 of
             (there, s2) \<Rightarrow>
               if there = 0 then ((False, status), s2)
               else (case edit_fs (\<lambda>m _. AppendPayloadToFile m (Some tempOne) (Some newLine)) s2 of
                  (written, s3) \<Rightarrow> if written then ((False, 0), s3) else ((True, ENOENT), s3))))"

text \<open>The loop over a table: the entries that match get the option; the others are copied from
  \<open>/etc/fstab\<close> and skipped in \<open>/etc/mtab\<close> (\<open>others\<close>).\<close>

fun collect_entries ::
  "string \<Rightarrow> cstr \<Rightarrow> cstr \<Rightarrow> string \<Rightarrow> bool \<Rightarrow> mntent list \<Rightarrow> int \<Rightarrow> bool \<Rightarrow> 'a runtime_scheme \<Rightarrow> (int \<times> bool) \<times> 'a runtime_scheme" where
  "collect_entries tempOne mountDirectory mountType opt others [] status matchFound s = ((status, matchFound), s)"
| "collect_entries tempOne mountDirectory mountType opt others (e # es) status matchFound s =
     (let match = mount_match mountDirectory mountType e;
          matchFound' = (matchFound \<or> match);
          ((stop, status'), s1) =
            (if match then collect_entry tempOne (if hasmntopt e opt then None else Some opt) e status s
             else if others then collect_entry tempOne None e status s
             else ((False, status), s))
      in if stop then ((status', matchFound'), s1)
         else collect_entries tempOne mountDirectory mountType opt others es status' matchFound' s1)"

abbreviation tempFileNameOne :: string where "tempFileNameOne \<equiv> ''/etc/~xtab1''"
abbreviation tempFileNameTwo :: string where "tempFileNameTwo \<equiv> ''/etc/~xtab2''"
abbreviation tempFileNameThree :: string where "tempFileNameThree \<equiv> ''/etc/~xtab3''"

text \<open>The comments of \<open>/etc/fstab\<close>, in the third temporary file, go before the new table.\<close>

definition keep_comments :: "sys \<Rightarrow> nat \<Rightarrow> fs \<Rightarrow> fs" where
  "keep_comments m rnd st =
     (case MakeFileBackupCopy (nested ''Copy'' m) rnd (Some ''/etc/fstab'') (Some tempFileNameThree) False st of
        (copied, st1) \<Rightarrow>
          if \<not> copied then st1
          else (case ReplaceMarkedLinesInFile (nested ''Paths'' m) rnd (Some tempFileNameThree) (Some ''/'') None CHR ''#'' False st1 of
             (a, st2) \<Rightarrow>
               if a \<noteq> 0 then st2
               else (case ReplaceMarkedLinesInFile (nested ''Uuids'' m) (Suc rnd) (Some tempFileNameThree) (Some ''UUID'') None CHR ''#'' False st2 of
                  (b, st3) \<Rightarrow>
                    if b \<noteq> 0 then st3
                    else (case ConcatenateFiles (nested ''Join'' m) rnd (Some tempFileNameThree) (Some tempFileNameTwo) False st3 of
                       (joined, st4) \<Rightarrow>
                         if joined then snd (RenameFile (nested ''Rename'' m) (Some tempFileNameThree) (Some tempFileNameTwo) st4) else st4))))"

definition install_table :: "sys \<Rightarrow> nat \<Rightarrow> fs \<Rightarrow> int \<times> fs" where
  "install_table m rnd st =
     (case CopyMountTableFile (nested ''Table'' m) (Some tempFileNameOne) (Some tempFileNameTwo) st of
        (status, st1) \<Rightarrow>
          if status \<noteq> 0 then (status, st1)
          else RenameFileWithOwnerAndAccess (nested ''Install'' m) (Some tempFileNameTwo) (Some ''/etc/fstab'')
                 (keep_comments (nested ''Comments'' m) rnd st1))"

definition remove_temps :: "sys \<Rightarrow> fs \<Rightarrow> fs" where
  "remove_temps m st =
     drop_temp (nested ''Three'' m) tempFileNameThree (drop_temp (nested ''Two'' m) tempFileNameTwo
       (drop_temp (nested ''One'' m) tempFileNameOne st))"

text \<open>The entries of both tables, and whether one matches. A failure to open a table is the status.\<close>

definition collect_tables :: "cstr \<Rightarrow> cstr \<Rightarrow> string \<Rightarrow> 'a runtime_scheme \<Rightarrow> (int \<times> bool) \<times> 'a runtime_scheme" where
  "collect_tables mountDirectory mountType opt s =
     (case ask ''setmntent'' s of
        (failed, s1) \<Rightarrow>
          if failed \<noteq> 0 then ((failed, False), s1)
          else (case collect_entries tempFileNameOne mountDirectory mountType opt True (table_of ''/etc/fstab'' (fs_of s1)) 0 False s1 of
             ((status, matchFound), s2) \<Rightarrow>
               if matchFound \<or> \<not> FileExists (Some ''/etc/mtab'') (fs_of s2) then ((status, matchFound), s2)
               else (case ask ''setmntent'' s2 of
                  (failed, s3) \<Rightarrow>
                    if failed \<noteq> 0 then ((failed, False), s3)
                    else collect_entries tempFileNameOne mountDirectory mountType opt False (table_of ''/etc/mtab'' (fs_of s3)) status False s3)))"

definition SetFileSystemMountingOption :: "cstr \<Rightarrow> cstr \<Rightarrow> cstr \<Rightarrow> 'a runtime_scheme \<Rightarrow> int \<times> 'a runtime_scheme" where
  "SetFileSystemMountingOption mountDirectory mountType desiredOption s =
     (case desiredOption of
        None \<Rightarrow> (EINVAL, s)
      | Some opt \<Rightarrow>
          if mountDirectory = None \<and> mountType = None then (EINVAL, s)
          else if \<not> FileExists (Some ''/etc/fstab'') (fs_of s) then (0, s)
          else (case ask ''FormatAllocateString.names'' s of
             (failed, s1) \<Rightarrow>
               if failed \<noteq> 0 then (ENOMEM, s1)
               else (case collect_tables mountDirectory mountType opt s1 of
                  ((status, matchFound), s2) \<Rightarrow>
                    (let (status', s3) =
                           (if matchFound \<and> status = 0
                            then (case edit_fs install_table s2 of
                               (r, t) \<Rightarrow> (r, if r = 0 then snd (run ''mount -a'' t) else t))
                            else (status, s2))
                     in (status', snd (edit_fs (\<lambda>m _ st. ((), remove_temps m st)) s3))))))"

end
