(* ===== verification/DaemonUtils.thy ===== *)
theory DaemonUtils
  imports Runtime
begin

text \<open>
  Services (\<open>DaemonUtils.c\<close>): the commands of \<open>systemctl\<close>, run only for a valid name.
\<close>

definition ExecuteSystemctlCommand :: "cstr \<Rightarrow> cstr \<Rightarrow> 'a runtime_scheme \<Rightarrow> int \<times> 'a runtime_scheme" where
  "ExecuteSystemctlCommand cmd daemonName s =
     (case (cmd, daemonName) of
        (Some c, Some d) \<Rightarrow>
          if \<not> IsValidDaemonName daemonName then (EINVAL, s)
          else (case format_text (''systemctl '' @ c @ '' '' @ d) s of
             (None, s1) \<Rightarrow> (ENOMEM, s1)
           | (Some formattedCommand, s1) \<Rightarrow> run formattedCommand s1)
      | _ \<Rightarrow> (EINVAL, s))"

definition IsDaemonActive :: "cstr \<Rightarrow> 'a runtime_scheme \<Rightarrow> bool \<times> 'a runtime_scheme" where
  "IsDaemonActive daemonName s =
     (if IsValidDaemonName daemonName
      then (case ExecuteSystemctlCommand (Some ''is-active'') daemonName s of (status, s1) \<Rightarrow> (status = 0, s1))
      else (False, s))"

definition CheckDaemonActive :: "cstr \<Rightarrow> 'a runtime_scheme \<Rightarrow> bool \<times> 'a runtime_scheme" where
  "CheckDaemonActive daemonName s =
     (case IsDaemonActive daemonName s of
        (result, s1) \<Rightarrow>
          (result,
           if result then capture_success (''Service '' @ sq (show_s daemonName) @ '' is active'') s1
           else capture (''Service '' @ sq (show_s daemonName) @ '' is inactive'') s1))"

definition CheckDaemonNotActive :: "cstr \<Rightarrow> 'a runtime_scheme \<Rightarrow> bool \<times> 'a runtime_scheme" where
  "CheckDaemonNotActive daemonName s =
     (case IsDaemonActive daemonName s of
        (True, s1) \<Rightarrow> (False, capture (''Service '' @ sq (show_s daemonName) @ '' is active'') s1)
      | (False, s1) \<Rightarrow> (True, capture_success (''Service '' @ sq (show_s daemonName) @ '' is inactive'') s1))"

definition CommandDaemon :: "cstr \<Rightarrow> cstr \<Rightarrow> 'a runtime_scheme \<Rightarrow> bool \<times> 'a runtime_scheme" where
  "CommandDaemon cmd daemonName s =
     (if \<not> IsValidDaemonName daemonName then (False, s)
      else (case ExecuteSystemctlCommand cmd daemonName s of (result, s1) \<Rightarrow> (result = 0, s1)))"

definition EnableDaemon :: "cstr \<Rightarrow> 'a runtime_scheme \<Rightarrow> bool \<times> 'a runtime_scheme" where
  "EnableDaemon = CommandDaemon (Some ''enable'')"

definition StartDaemon :: "cstr \<Rightarrow> 'a runtime_scheme \<Rightarrow> bool \<times> 'a runtime_scheme" where
  "StartDaemon = CommandDaemon (Some ''start'')"

definition EnableAndStartDaemon :: "cstr \<Rightarrow> 'a runtime_scheme \<Rightarrow> bool \<times> 'a runtime_scheme" where
  "EnableAndStartDaemon daemonName s =
     (if \<not> IsValidDaemonName daemonName then (False, s)
      else (case EnableDaemon daemonName s of
         (False, s1) \<Rightarrow> (False, s1)
       | (True, s1) \<Rightarrow>
           (case IsDaemonActive daemonName s1 of
              (False, s2) \<Rightarrow> (case StartDaemon daemonName s2 of (started, s3) \<Rightarrow> (started, s3))
            | (True, s2) \<Rightarrow> (True, s2))))"

definition StopDaemon :: "cstr \<Rightarrow> 'a runtime_scheme \<Rightarrow> bool \<times> 'a runtime_scheme" where
  "StopDaemon = CommandDaemon (Some ''stop'')"

definition DisableDaemon :: "cstr \<Rightarrow> 'a runtime_scheme \<Rightarrow> bool \<times> 'a runtime_scheme" where
  "DisableDaemon = CommandDaemon (Some ''disable'')"

definition StopAndDisableDaemon :: "cstr \<Rightarrow> 'a runtime_scheme \<Rightarrow> 'a runtime_scheme" where
  "StopAndDisableDaemon daemonName s =
     (case StopDaemon daemonName s of
        (True, s1) \<Rightarrow> snd (DisableDaemon daemonName s1)
      | (False, s1) \<Rightarrow> s1)"

definition RestartDaemon :: "cstr \<Rightarrow> 'a runtime_scheme \<Rightarrow> bool \<times> 'a runtime_scheme" where
  "RestartDaemon = CommandDaemon (Some ''restart'')"

definition MaskDaemon :: "cstr \<Rightarrow> 'a runtime_scheme \<Rightarrow> bool \<times> 'a runtime_scheme" where
  "MaskDaemon = CommandDaemon (Some ''mask'')"

end
