(* ===== verification/SshUtils.thy ===== *)
theory SshUtils
  imports FileChecks DaemonUtils PackageUtils
begin

text \<open>
  The audit and the remediation of the SSH server (\<open>SshUtils.c\<close>). Audits read the effective options
  from \<open>sshd -T\<close>; remediations only remember the desired values, and \<open>SshAuditCleanup\<close> writes them to the
  configuration of the server when the session was not an audit only. The variables \<open>g_desired...\<close>
  are the values of a function, by their names in the code.
\<close>

record baseline = packages +
  desired :: "string \<Rightarrow> cstr"
  g_auditOnlySession :: bool

abbreviation sshServerService :: string where "sshServerService \<equiv> ''sshd''"
abbreviation sshServerConfiguration :: string where "sshServerConfiguration \<equiv> ''/etc/ssh/sshd_config''"
abbreviation sshServerConfigurationBackup :: string where "sshServerConfigurationBackup \<equiv> ''/etc/ssh/sshd_config.bak''"
abbreviation osconfigRemediationConf :: string where "osconfigRemediationConf \<equiv> ''/etc/ssh/sshd_config.d/osconfig_remediation.conf''"
abbreviation sshdConfigRemediationHeader :: string where "sshdConfigRemediationHeader \<equiv> ''# Azure OSConfig Remediation''"
abbreviation sshBannerFile :: string where "sshBannerFile \<equiv> ''/etc/azsec/banner.txt''"

subsection \<open>Small helpers\<close>

definition put_desired :: "string \<Rightarrow> cstr \<Rightarrow> 'a baseline_scheme \<Rightarrow> 'a baseline_scheme" where
  "put_desired var v s = s\<lparr>desired := (desired s)(var := v)\<rparr>"

definition desired_or :: "string \<Rightarrow> string \<Rightarrow> 'a baseline_scheme \<Rightarrow> string" where
  "desired_or var dflt s = (case desired s var of None \<Rightarrow> dflt | Some v \<Rightarrow> v)"

definition DuplicateStringToLowercase :: "string \<Rightarrow> 'a runtime_scheme \<Rightarrow> cstr \<times> 'a runtime_scheme" where
  "DuplicateStringToLowercase t s = duplicate (map to_lower t) s"

text \<open>The bytes of a buffer of a given size after \<open>memset\<close> and \<open>snprintf\<close>.\<close>

definition snprintf_buffer :: "nat \<Rightarrow> string \<Rightarrow> string" where
  "snprintf_buffer n t = take (n - 1) t @ replicate (n - length (take (n - 1) t)) NUL"

definition octal_value :: "string \<Rightarrow> 32 word" where
  "octal_value t = word_of_int (strtol t 8)"

definition make_directory :: "string \<Rightarrow> 32 word \<Rightarrow> 'a runtime_scheme \<Rightarrow> int \<times> 'a runtime_scheme" where
  "make_directory p mode s =
     (case ask ''mkdir'' s of
        (failed, s1) \<Rightarrow>
          if failed \<noteq> 0 then (failed, s1)
          else if FileExists (Some p) (fs_of s1) then (EEXIST, s1)
          else (0, put_fs (put_node p (Some ((new_dir s1)\<lparr>st_mode := mode\<rparr>)) (fs_of s1)) s1))"

definition directory_there :: "string \<Rightarrow> 'a runtime_scheme \<Rightarrow> bool \<times> 'a runtime_scheme" where
  "directory_there p = read_fs (\<lambda>m. DirectoryExists m (Some p))"

subsection \<open>The state of the server\<close>

definition GetSshServerState :: "cstr \<Rightarrow> 'a runtime_scheme \<Rightarrow> cstr \<times> 'a runtime_scheme" where
  "GetSshServerState nm s =
     (case nm of
        None \<Rightarrow>
          (case run_text one_line ''sshd -T'' s of ((status, out), s1) \<Rightarrow> (if status \<noteq> 0 then None else out, s1))
      | Some n \<Rightarrow>
          (case format_text (''sshd -T | grep  -m 1 -w '' @ n) s of
             (None, s1) \<Rightarrow> (None, s1)
           | (Some cmd, s1) \<Rightarrow>
               (case run_text one_line cmd s1 of
                  ((status, out), s2) \<Rightarrow>
                    (case out of
                       None \<Rightarrow> (None, s2)
                     | Some t \<Rightarrow>
                         if status \<noteq> 0 then (None, s2)
                         else (Some (if strstr t n \<noteq> None
                                     then RemoveTrailingBlanks (RemovePrefixBlanks (RemovePrefixUpTo (RemovePrefixUpToString t n) CHR '' ''))
                                     else t), s2)))))"

definition IsSshServerActive :: "'a runtime_scheme \<Rightarrow> int \<times> 'a runtime_scheme" where
  "IsSshServerActive s =
     (if \<not> FileExists (Some sshServerConfiguration) (fs_of s) then (EEXIST, s)
      else (case IsDaemonActive (Some sshServerService) s of (active, s1) \<Rightarrow> (if active then 0 else EEXIST, s1)))"

text \<open>The version is taken from one digit on each side of a dot.\<close>

definition ssh_version :: "string \<Rightarrow> (nat \<times> nat) option" where
  "ssh_version textResult =
     (let n = length ''unknown option -- V OpenSSH_''
      in if n + 3 < length textResult
         then (let cursor = drop (n + 1) textResult
               in if isdigit (cursor ! 0) \<and> cursor ! 1 = CHR ''.'' \<and> isdigit (cursor ! 2)
                  then Some (digit_val (cursor ! 0), digit_val (cursor ! 2)) else Some (0, 0))
         else None)"

definition IsSshConfigIncludeSupported :: "'a runtime_scheme \<Rightarrow> int \<times> 'a runtime_scheme" where
  "IsSshConfigIncludeSupported s =
     (case IsDaemonActive (Some sshServerService) s of
        (False, s1) \<Rightarrow> (EEXIST, s1)
      | (True, s1) \<Rightarrow>
          (case run_text one_line ''sshd -V'' s1 of
             ((_, out), s2) \<Rightarrow>
               (case out of
                  None \<Rightarrow> (ENOENT, s2)
                | Some t \<Rightarrow>
                    (case ssh_version t of
                       None \<Rightarrow> (ENOENT, s2)
                     | Some (major, minor) \<Rightarrow> (if 8 \<le> major \<and> 2 \<le> minor then 0 else ENOENT, s2)))))"

subsection \<open>Lists of algorithms\<close>

text \<open>The loop over the parts of a list: the rest is copied and cut at the separator, and the loop goes on behind
  it. The body has the part and the rest; it says whether the loop stops.\<close>

function for_parts :: "char \<Rightarrow> (string \<Rightarrow> string \<Rightarrow> int \<Rightarrow> 'a runtime_scheme \<Rightarrow> (bool \<times> int) \<times> 'a runtime_scheme) \<Rightarrow> string \<Rightarrow> int \<Rightarrow> 'a runtime_scheme \<Rightarrow> int \<times> 'a runtime_scheme" where
  "for_parts separator body rest status s =
     (if rest = [] then (status, s)
      else (case duplicate rest s of
         (None, s1) \<Rightarrow> (ENOMEM, s1)
       | (Some copy, s1) \<Rightarrow>
           (let part = TruncateAtFirst copy separator
            in case body part copy status s1 of
                 ((stop, status'), s2) \<Rightarrow>
                   if stop then (status', s2) else for_parts separator body (drop (length part + 1) rest) status' s2)))"
  by pat_completeness auto
termination
  by (relation "measure (\<lambda>(separator, body, rest, status, s). length rest)") auto

declare for_parts.simps [simp del]

definition CheckOnlyApprovedMacAlgorithmsAreUsed :: "cstr \<Rightarrow> 'a runtime_scheme \<Rightarrow> int \<times> 'a runtime_scheme" where
  "CheckOnlyApprovedMacAlgorithmsAreUsed macs s =
     (case macs of
        None \<Rightarrow> (EINVAL, s)
      | Some approved \<Rightarrow>
          (case IsSshServerActive s of
             (inactive, s1) \<Rightarrow>
               if inactive \<noteq> 0 then (0, s1)
               else (case DuplicateStringToLowercase ''MACs'' s1 of
                  (None, s2) \<Rightarrow> (ENOMEM, s2)
                | (Some sshMacs, s2) \<Rightarrow>
                    (case GetSshServerState (Some sshMacs) s2 of
                       (None, s3) \<Rightarrow> (ENOENT, capture (sq sshMacs @ '' not found in SSH Server response'') s3)
                     | (Some macsValue, s3) \<Rightarrow>
                         (case for_parts CHR '','' (\<lambda>v _ status t.
                                  if strstr approved v = None
                                  then ((False, ENOENT), capture (sq v @ '' MAC algorithm found in SSH Server response is unapproved'') t)
                                  else ((False, status), t)) macsValue 0 s3 of
                            (status, s4) \<Rightarrow>
                              (status, if status = 0
                                       then capture_success (sshServerService @ '' reports that '' @ sq sshMacs @ '' is set to '' @ sq macsValue @ '' (all approved MAC algorithms)'') s4
                                       else s4))))))"

definition CheckAppropriateCiphersForSsh :: "cstr \<Rightarrow> 'a runtime_scheme \<Rightarrow> int \<times> 'a runtime_scheme" where
  "CheckAppropriateCiphersForSsh ciphers s =
     (case ciphers of
        None \<Rightarrow> (EINVAL, s)
      | Some approved \<Rightarrow>
          (case IsSshServerActive s of
             (inactive, s1) \<Rightarrow>
               if inactive \<noteq> 0 then (0, s1)
               else (case DuplicateStringToLowercase ''Ciphers'' s1 of
                  (None, s2) \<Rightarrow> (ENOMEM, s2)
                | (Some sshCiphers, s2) \<Rightarrow>
                    (case GetSshServerState (Some sshCiphers) s2 of
                       (None, s3) \<Rightarrow> (ENOENT, capture (sq sshCiphers @ '' not found in SSH Server response'') s3)
                     | (Some ciphersValue, s3) \<Rightarrow>
                         (case for_parts CHR '','' (\<lambda>v _ status t.
                                  if strstr approved v = None
                                  then ((False, ENOENT), capture (''Cipher '' @ sq v @ '' found in SSH Server response is unapproved'') t)
                                  else ((False, status), t)) ciphersValue 0 s3 of
                            (status, s4) \<Rightarrow>
                              (case for_parts CHR '','' (\<lambda>v rest status t.
                                       if strstr ciphersValue v = None
                                       then ((False, ENOENT), capture (''Cipher '' @ sq rest @ '' is required and is not found in SSH Server response'') t)
                                       else ((False, status), t)) approved status s4 of
                                 (status', s5) \<Rightarrow>
                                   (status', if status' = 0
                                             then capture_success (sshServerService @ '' reports that '' @ sq sshCiphers @ '' is set to '' @ sq ciphersValue @ '' (only approved ciphers)'') s5
                                             else s5)))))))"

subsection \<open>Options\<close>

definition CheckSshOptionIsSet :: "cstr \<Rightarrow> cstr \<Rightarrow> 'a runtime_scheme \<Rightarrow> (int \<times> cstr) \<times> 'a runtime_scheme" where
  "CheckSshOptionIsSet opt expectedValue s =
     (case opt of
        None \<Rightarrow> ((EINVAL, None), s)
      | Some o' \<Rightarrow>
          (case IsSshServerActive s of
             (inactive, s1) \<Rightarrow>
               if inactive \<noteq> 0 then ((0, None), s1)
               else (case GetSshServerState opt s1 of
                  (None, s2) \<Rightarrow> ((ENOENT, None), capture (sq o' @ '' not found in SSH Server response'') s2)
                | (Some v, s2) \<Rightarrow>
                    (let (status, s3) =
                           (case expectedValue of
                              Some e \<Rightarrow>
                                if v \<noteq> e
                                then (ENOENT, capture (sq o' @ '' is not set to '' @ sq e @ '' in SSH Server response (but to '' @ sq v @ '')'') s2)
                                else (0, capture_success (sshServerService @ '' reports that '' @ sq o' @ '' is set to '' @ sq v) s2)
                            | None \<Rightarrow> (0, capture_success (sshServerService @ '' reports that '' @ sq o' @ '' is set to '' @ sq v) s2));
                         (actualValue, s4) = duplicate v s3
                     in ((status, actualValue), s4)))))"

definition check_option :: "string \<Rightarrow> string \<Rightarrow> 'a runtime_scheme \<Rightarrow> int \<times> 'a runtime_scheme" where
  "check_option nm expected s =
     (case DuplicateStringToLowercase nm s of
        (lowercase, s1) \<Rightarrow> (case CheckSshOptionIsSet lowercase (Some expected) s1 of ((status, _), s2) \<Rightarrow> (status, s2)))"

text \<open>The actual value is stored when the status is 0; a failed copy gives -1.\<close>

definition CheckSshOptionIsSetToInteger :: "cstr \<Rightarrow> int option \<Rightarrow> int \<Rightarrow> 'a runtime_scheme \<Rightarrow> (int \<times> int) \<times> 'a runtime_scheme" where
  "CheckSshOptionIsSetToInteger opt expectedValue actualValue s =
     (let (expectedValueString, s1) = (case expectedValue of None \<Rightarrow> (None, s) | Some e \<Rightarrow> format_text (print_int e) s)
      in case CheckSshOptionIsSet opt expectedValueString s1 of
           ((status, v), s2) \<Rightarrow>
             ((status, if status = 0 then (case v of None \<Rightarrow> - 1 | Some t \<Rightarrow> atoi t) else actualValue), s2))"

definition CheckSshClientAliveInterval :: "'a runtime_scheme \<Rightarrow> int \<times> 'a runtime_scheme" where
  "CheckSshClientAliveInterval s =
     (case DuplicateStringToLowercase ''ClientAliveInterval'' s of
        (clientAliveInterval, s1) \<Rightarrow>
          (case IsSshServerActive s1 of
             (inactive, s2) \<Rightarrow>
               if inactive \<noteq> 0 then (0, s2)
               else (case CheckSshOptionIsSetToInteger clientAliveInterval None 0 s2 of
                  ((status, actualValue), s3) \<Rightarrow>
                    if status \<noteq> 0 then (status, s3)
                    else if 0 < actualValue
                    then (0, capture_success (sshServerService @ '' reports that '' @ sq (show_s clientAliveInterval) @ '' is set to '' @ sq (print_int actualValue) @ '' (that is greater than zero)'') (OsConfigResetReason s3))
                    else (ENOENT, capture (sq ''clientaliveinterval'' @ '' is not set to a greater than zero value in SSH Server response (but to '' @ print_int actualValue @ '')'') (OsConfigResetReason s3)))))"

text \<open>The two numbers of the text for success are the desired and the actual value, in this order.\<close>

definition CheckSshLoginGraceTime :: "cstr \<Rightarrow> 'a runtime_scheme \<Rightarrow> int \<times> 'a runtime_scheme" where
  "CheckSshLoginGraceTime v s =
     (case DuplicateStringToLowercase ''LoginGraceTime'' s of
        (loginGraceTime, s1) \<Rightarrow>
          (let targetValue = atoi (case v of None \<Rightarrow> ''60'' | Some t \<Rightarrow> t)
           in case IsSshServerActive s1 of
                (inactive, s2) \<Rightarrow>
                  if inactive \<noteq> 0 then (0, s2)
                  else (case CheckSshOptionIsSetToInteger loginGraceTime None 0 s2 of
                     ((status, actualValue), s3) \<Rightarrow>
                       if status \<noteq> 0 then (status, s3)
                       else if actualValue \<le> targetValue
                       then (0, capture_success (sshServerService @ '' reports that '' @ sq (show_s loginGraceTime) @ '' is set to '' @ sq (print_int targetValue) @ '' (that is '' @ print_int actualValue @ '' or less)'') (OsConfigResetReason s3))
                       else (ENOENT, capture (sq ''logingracetime'' @ '' is not set to a value of '' @ print_int targetValue @ '' or less in SSH Server response (but to '' @ print_int actualValue @ '')'') (OsConfigResetReason s3)))))"

definition CheckSshMaxAuthTries :: "cstr \<Rightarrow> 'a runtime_scheme \<Rightarrow> int \<times> 'a runtime_scheme" where
  "CheckSshMaxAuthTries v s =
     (case DuplicateStringToLowercase ''MaxAuthTries'' s of
        (maxAuthTries, s1) \<Rightarrow>
          (let targetValue = atoi (case v of None \<Rightarrow> ''6'' | Some t \<Rightarrow> t)
           in case IsSshServerActive s1 of
                (inactive, s2) \<Rightarrow>
                  if inactive \<noteq> 0 then (0, s2)
                  else (case CheckSshOptionIsSetToInteger maxAuthTries None 0 s2 of
                     ((status, actualValue), s3) \<Rightarrow>
                       if status \<noteq> 0 then (status, s3)
                       else if actualValue \<le> targetValue
                       then (0, capture_success (''MaxAuthTries'' @ '' reports that '' @ sq (show_s maxAuthTries) @ '' is set to '' @ sq (print_int targetValue) @ '' (that is '' @ print_int actualValue @ '' or less)'') (OsConfigResetReason s3))
                       else (ENOENT, capture (sq ''maxauthtries'' @ '' is not set to a value of '' @ print_int targetValue @ '' or less in SSH Server response (but to '' @ print_int actualValue @ '')'') (OsConfigResetReason s3)))))"

text \<open>The format has \<open>'%' in\<close> where a \<open>%s\<close> is meant: the flags and the conversion \<open>%' i\<close> print the pointer
  as a number (the oracle at \<open>pointer\<close>).\<close>

definition CheckSshWarningBanner :: "'a runtime_scheme \<Rightarrow> int \<times> 'a runtime_scheme" where
  "CheckSshWarningBanner s =
     (case IsSshServerActive s of
        (inactive, s1) \<Rightarrow>
          if inactive \<noteq> 0 then (0, s1)
          else (case GetSshServerState (Some ''banner'') s1 of
             (None, s2) \<Rightarrow> (ENOENT, capture (sq ''banner'' @ '' not found in SSH Server response'') s2)
           | (Some bannerPath, s2) \<Rightarrow>
               if bannerPath = ''none''
               then (case ask ''pointer'' s2 of
                  (x, s3) \<Rightarrow>
                    (ENOENT, capture (sq ''banner'' @ '' is set to '' @ [CHR 0x27] @ (if 0 \<le> x then '' '' else []) @ print_int x @
                       ''n SSH Server response, which means no banner is set'') s3))
               else CheckFileExists_r (Some bannerPath) s2))"

subsection \<open>The protocol\<close>

definition inclusion_text :: string where
  "inclusion_text = sshdConfigRemediationHeader @ [EOL] @ ''Include '' @ osconfigRemediationConf @ [EOL]"

definition FormatInclusionForRemediation :: "'a runtime_scheme \<Rightarrow> cstr \<times> 'a runtime_scheme" where
  "FormatInclusionForRemediation s =
     (case ask ''malloc'' s of
        (failed, s1) \<Rightarrow>
          (if failed \<noteq> 0 then None
           else Some (c_string (snprintf_buffer
                  (length (''%s'' @ [EOL] @ ''Include '' @ ''%s'' @ [EOL]) + length sshdConfigRemediationHeader + length osconfigRemediationConf + 1)
                  inclusion_text)), s1))"

definition protocol_in_include :: "string \<Rightarrow> 'a runtime_scheme \<Rightarrow> int \<times> 'a runtime_scheme" where
  "protocol_in_include protocol s =
     (if \<not> FileExists (Some osconfigRemediationConf) (fs_of s)
      then (EEXIST, capture (''The OSConfig remediation file '' @ sq osconfigRemediationConf @ '' is not present on this device'') s)
      else (case FormatInclusionForRemediation s of
         (None, s1) \<Rightarrow> (ENOMEM, s1)
       | (Some inclusion, s1) \<Rightarrow>
           (case read_fs (\<lambda>m. FindTextInFile m (Some sshServerConfiguration) (Some inclusion)) s1 of
              (r, s2) \<Rightarrow>
                if r \<noteq> 0
                then (ENOENT, capture (sq osconfigRemediationConf @ '' is not found included in '' @ sshServerConfiguration) s2)
                else (case CheckLineFoundNotCommentedOut_r (Some osconfigRemediationConf) CHR ''#'' (Some protocol) s2 of
                   (q, s3) \<Rightarrow> (if q = 0 then 0 else ENOENT, s3)))))"

definition CheckSshProtocol :: "'a baseline_scheme \<Rightarrow> int \<times> 'a baseline_scheme" where
  "CheckSshProtocol s =
     (case IsSshServerActive s of
        (inactive, s1) \<Rightarrow>
          if inactive \<noteq> 0 then (0, s1)
          else (case format_text (''Protocol '' @ desired_or ''g_desiredSshBestPracticeProtocol'' ''2'' s1) s1 of
             (None, s2) \<Rightarrow> (ENOMEM, s2)
           | (Some protocol, s2) \<Rightarrow>
               if \<not> FileExists (Some sshServerConfiguration) (fs_of s2)
               then (ENOENT, capture (sq sshServerConfiguration @ '' is not present on this device'') s2)
               else (case CheckLineFoundNotCommentedOut_r (Some sshServerConfiguration) CHR ''#'' (Some protocol) s2 of
                  (r, s3) \<Rightarrow>
                    if r = 0 then (0, s3)
                    else (case IsSshConfigIncludeSupported s3 of
                       (q, s4) \<Rightarrow> if q = 0 then protocol_in_include protocol s4 else (ENOENT, s4)))))"

subsection \<open>Users and groups\<close>

text \<open>The status of the loop is that of the last command.\<close>

definition CheckAllowDenyUsersGroups :: "cstr \<Rightarrow> cstr \<Rightarrow> 'a runtime_scheme \<Rightarrow> int \<times> 'a runtime_scheme" where
  "CheckAllowDenyUsersGroups lowercase expectedValue s =
     (case (lowercase, expectedValue) of
        (Some l, Some e) \<Rightarrow>
          (case IsSshServerActive s of
             (inactive, s1) \<Rightarrow>
               if inactive \<noteq> 0 then (0, s1)
               else if CHR '' '' \<notin> set e
               then (case CheckSshOptionIsSet lowercase expectedValue s1 of ((status, _), s2) \<Rightarrow> (status, s2))
               else (case for_parts CHR '' '' (\<lambda>v _ status t.
                        case ask ''malloc'' t of
                          (failed, t1) \<Rightarrow>
                            if failed \<noteq> 0 then ((True, ENOMEM), t1)
                            else (case run (sshServerService @ '' -T | grep '' @ [CHR 0x22] @ l @ '' '' @ v @ [CHR 0x22]) t1 of (r, t2) \<Rightarrow> ((False, r), t2))) e 0 s1 of
                  (status, s2) \<Rightarrow>
                    (status, if status = 0 then capture_success (sshServerService @ '' reports that '' @ sq l @ '' is set to '' @ sq e) s2
                             else capture (sq l @ '' is not set to '' @ sq e @ '' in SSH Server response'') s2)))
      | _ \<Rightarrow> (EINVAL, s))"

subsection \<open>Remediation\<close>

definition sshdConfigAccess :: "'a baseline_scheme \<Rightarrow> 32 word" where
  "sshdConfigAccess s = octal_value (desired_or ''g_desiredPermissionsOnEtcSshSshdConfig'' ''600'' s)"

definition SetSshWarningBanner :: "32 word \<Rightarrow> cstr \<Rightarrow> 'a runtime_scheme \<Rightarrow> int \<times> 'a runtime_scheme" where
  "SetSshWarningBanner desiredBannerFileAccess bannerText s =
     (if bannerText = None then (EINVAL, s)
      else let (there, s1) = directory_there ''/etc/azsec/'' s;
               (status, s2) = (if there then (0, s1) else make_directory ''/etc/azsec/'' desiredBannerFileAccess s1);
               (there', s3) = directory_there ''/etc/azsec/'' s2
           in if \<not> there' then (status, s3)
              else (case edit_fs (\<lambda>m _. SavePayloadToFile m (Some sshBannerFile) bannerText) s3 of
                 (saved, s4) \<Rightarrow>
                   if saved then SetFileAccess (Some sshBannerFile) 0 0 desiredBannerFileAccess s4
                   else (case ask ''errno'' s4 of (e, s5) \<Rightarrow> (if e \<noteq> 0 then e else ENOENT, s5))))"

text \<open>The options and their values, in the order of the file.\<close>

definition remediation_values :: "'a baseline_scheme \<Rightarrow> (string \<times> string) list" where
  "remediation_values s =
     [(''Port'', desired_or ''g_desiredSshPort'' ''22'' s),
      (''Protocol'', desired_or ''g_desiredSshBestPracticeProtocol'' ''2'' s),
      (''IgnoreRhosts'', desired_or ''g_desiredSshBestPracticeIgnoreRhosts'' ''yes'' s),
      (''LogLevel'', desired_or ''g_desiredSshLogLevelIsSet'' ''INFO'' s),
      (''MaxAuthTries'', desired_or ''g_desiredSshMaxAuthTriesIsSet'' ''6'' s),
      (''AllowUsers'', desired_or ''g_desiredAllowUsersIsConfigured'' ''*@*'' s),
      (''DenyUsers'', desired_or ''g_desiredDenyUsersIsConfigured'' ''root'' s),
      (''AllowGroups'', desired_or ''g_desiredAllowGroupsIsConfigured'' ''*'' s),
      (''DenyGroups'', desired_or ''g_desiredDenyGroupsConfigured'' ''root'' s),
      (''HostBasedAuthentication'', desired_or ''g_desiredSshHostbasedAuthenticationIsDisabled'' ''no'' s),
      (''PermitRootLogin'', desired_or ''g_desiredSshPermitRootLoginIsDisabled'' ''no'' s),
      (''PermitEmptyPasswords'', desired_or ''g_desiredSshPermitEmptyPasswordsIsDisabled'' ''no'' s),
      (''ClientAliveCountMax'', desired_or ''g_desiredSshClientIntervalCountMaxIsConfigured'' ''3'' s),
      (''ClientAliveInterval'', desired_or ''g_desiredSshClientAliveIntervalIsConfigured'' ''300'' s),
      (''LoginGraceTime'', desired_or ''g_desiredSshLoginGraceTimeIsSet'' ''60'' s),
      (''PermitUserEnvironment'', desired_or ''g_desiredUsersCannotSetSshEnvironmentOptions'' ''no'' s),
      (''Banner'', sshBannerFile),
      (''MACs'', desired_or ''g_desiredOnlyApprovedMacAlgorithmsAreUsed''
         ''hmac-sha2-256,hmac-sha2-256-etm@openssh.com,hmac-sha2-512,hmac-sha2-512-etm@openssh.com'' s),
      (''Ciphers'', desired_or ''g_desiredAppropriateCiphersForSsh'' ''aes128-ctr,aes192-ctr,aes256-ctr'' s)]"

definition remediationTemplate :: string where
  "remediationTemplate = ''%s'' @ [EOL] @ concat (replicate 19 (''%s %s'' @ [EOL]))"

definition remediation_text :: "(string \<times> string) list \<Rightarrow> string" where
  "remediation_text vs =
     sshdConfigRemediationHeader @ [EOL] @ concat (map (\<lambda>(opt, v). opt @ '' '' @ v @ [EOL]) vs)"

definition remediationSize :: "(string \<times> string) list \<Rightarrow> nat" where
  "remediationSize vs =
     length remediationTemplate + length sshdConfigRemediationHeader + sum_list (map (\<lambda>(opt, v). length opt + length v) vs) + 1"

definition FormatRemediationValues :: "'a baseline_scheme \<Rightarrow> cstr \<times> 'a baseline_scheme" where
  "FormatRemediationValues s =
     (case ask ''malloc'' s of
        (failed, s1) \<Rightarrow>
          (if failed \<noteq> 0 then None
           else Some (c_string (snprintf_buffer (remediationSize (remediation_values s)) (remediation_text (remediation_values s)))), s1))"

text \<open>The new configuration, in a buffer of the size of the template and the two texts: all its bytes are
  saved.\<close>

definition new_configuration :: "string \<Rightarrow> string \<Rightarrow> string" where
  "new_configuration first second = snprintf_buffer (length ''%s%s'' + length first + length second + 1) (first @ second)"

definition save_configuration :: "string \<Rightarrow> string \<Rightarrow> 'a runtime_scheme \<Rightarrow> int \<times> 'a runtime_scheme" where
  "save_configuration first second s =
     (case ask ''malloc'' s of
        (failed, s1) \<Rightarrow>
          if failed \<noteq> 0 then (ENOMEM, s1)
          else (case edit_fs (\<lambda>m rnd. SecureSaveToFile m rnd (Some sshServerConfiguration) (Some (new_configuration first second))) s1 of
             (saved, s2) \<Rightarrow> (if saved then 0 else ENOENT, s2)))"

definition load :: "string \<Rightarrow> 'a runtime_scheme \<Rightarrow> cstr \<times> 'a runtime_scheme" where
  "load p = read_fs (\<lambda>m. LoadStringFromFile m (Some p) False)"

definition IncludeRemediationSshConfFile :: "'a baseline_scheme \<Rightarrow> int \<times> 'a baseline_scheme" where
  "IncludeRemediationSshConfFile s =
     (let desiredAccess = sshdConfigAccess s
      in if \<not> FileExists (Some sshServerConfiguration) (fs_of s) then (EEXIST, s)
         else (case FormatInclusionForRemediation s of
            (None, s1) \<Rightarrow> (ENOMEM, s1)
          | (Some inclusion, s1) \<Rightarrow>
              if inclusion = [] then (ENOMEM, s1)
              else (let (there, s2) = directory_there ''/etc/ssh/sshd_config.d'' s1;
                        (status, s3) = (if there then (0, s2) else make_directory ''/etc/ssh/sshd_config.d'' desiredAccess s2);
                        (there', s4) = directory_there ''/etc/ssh/sshd_config.d'' s3;
                        (status', s5) =
                          (if \<not> there' then (status, s4)
                           else (case load sshServerConfiguration s4 of
                              (None, t) \<Rightarrow> (EEXIST, t)
                            | (Some originalConfiguration, t) \<Rightarrow>
                                if prefix inclusion originalConfiguration then (0, t)
                                else save_configuration inclusion originalConfiguration t))
                    in (status', snd (SetFileAccess (Some sshServerConfiguration) 0 0 desiredAccess s5)))))"

definition SaveRemediationToConfFile :: "'a baseline_scheme \<Rightarrow> int \<times> 'a baseline_scheme" where
  "SaveRemediationToConfFile s =
     (case FormatRemediationValues s of
        (None, s1) \<Rightarrow> (ENOMEM, s1)
      | (Some newRemediation, s1) \<Rightarrow>
          if newRemediation = [] then (ENOMEM, s1)
          else (let (currentRemediation, s2) = load osconfigRemediationConf s1;
                    (status, s3) =
                      (if (case currentRemediation of None \<Rightarrow> False | Some c \<Rightarrow> prefix newRemediation c) then (0, s2)
                       else (case edit_fs (\<lambda>m _. SavePayloadToFile m (Some osconfigRemediationConf) (Some newRemediation)) s2 of
                          (saved, t) \<Rightarrow> (if saved then 0 else ENOENT, t)))
                in (status, snd (SetFileAccess (Some osconfigRemediationConf) 0 0 (sshdConfigAccess s) s3))))"

definition BackupSshdConfig :: "cstr \<Rightarrow> 'a runtime_scheme \<Rightarrow> int \<times> 'a runtime_scheme" where
  "BackupSshdConfig configuration s =
     (if \<not> FileExists (Some sshServerConfigurationBackup) (fs_of s) \<and> configuration \<noteq> None \<and> configuration \<noteq> Some []
      then (case edit_fs (\<lambda>m _. SavePayloadToFile m (Some sshServerConfigurationBackup) configuration) s of
         (saved, s1) \<Rightarrow> (if saved then 0 else ENOENT, s1))
      else (0, s))"

definition save_to_sshd_config :: "'a baseline_scheme \<Rightarrow> int \<times> 'a baseline_scheme" where
  "save_to_sshd_config s =
     (if \<not> FileExists (Some sshServerConfiguration) (fs_of s) then (EEXIST, s)
      else (case FormatRemediationValues s of
         (None, s1) \<Rightarrow> (ENOMEM, s1)
       | (Some remediation, s1) \<Rightarrow>
           if remediation = [] then (ENOMEM, s1)
           else (case load sshServerConfiguration s1 of
              (None, s2) \<Rightarrow> (EEXIST, s2)
            | (Some originalConfiguration, s2) \<Rightarrow>
                (case BackupSshdConfig (Some originalConfiguration) s2 of
                   (status, s3) \<Rightarrow>
                     if status \<noteq> 0 then (status, s3)
                     else if prefix remediation originalConfiguration then (0, s3)
                     else (case load sshServerConfigurationBackup s3 of
                        (None, s4) \<Rightarrow> (EEXIST, s4)
                      | (Some original, s4) \<Rightarrow> save_configuration remediation original s4)))))"

definition SaveRemediationToSshdConfig :: "'a baseline_scheme \<Rightarrow> int \<times> 'a baseline_scheme" where
  "SaveRemediationToSshdConfig s =
     (let desiredAccess = sshdConfigAccess s
      in case save_to_sshd_config s of
           (status, s1) \<Rightarrow>
             (status, snd (SetFileAccess (Some sshServerConfiguration) 0 0 desiredAccess
                (snd (SetFileAccess (Some sshServerConfigurationBackup) 0 0 desiredAccess s1)))))"

subsection \<open>The interface\<close>

text \<open>The rules: the name without its verb, the variable, and the default.\<close>

definition default_banner :: string where
  "default_banner =
     replicate 71 CHR ''#'' @ [EOL, EOL] @ ''Authorized access only!'' @ [EOL, EOL] @
     ''If you are not authorized to access or use this system, disconnect now!'' @ [EOL, EOL] @ replicate 71 CHR ''#'' @ [EOL]"

definition ssh_rules :: "(string \<times> string \<times> string) list" where
  "ssh_rules =
     [(''EnsurePermissionsOnEtcSshSshdConfig'', ''g_desiredPermissionsOnEtcSshSshdConfig'', ''600''),
      (''EnsureSshPortIsConfigured'', ''g_desiredSshPort'', ''22''),
      (''EnsureSshBestPracticeProtocol'', ''g_desiredSshBestPracticeProtocol'', ''2''),
      (''EnsureSshBestPracticeIgnoreRhosts'', ''g_desiredSshBestPracticeIgnoreRhosts'', ''yes''),
      (''EnsureSshLogLevelIsSet'', ''g_desiredSshLogLevelIsSet'', ''INFO''),
      (''EnsureSshMaxAuthTriesIsSet'', ''g_desiredSshMaxAuthTriesIsSet'', ''6''),
      (''EnsureAllowUsersIsConfigured'', ''g_desiredAllowUsersIsConfigured'', ''*@*''),
      (''EnsureDenyUsersIsConfigured'', ''g_desiredDenyUsersIsConfigured'', ''root''),
      (''EnsureAllowGroupsIsConfigured'', ''g_desiredAllowGroupsIsConfigured'', ''*''),
      (''EnsureDenyGroupsConfigured'', ''g_desiredDenyGroupsConfigured'', ''root''),
      (''EnsureSshHostbasedAuthenticationIsDisabled'', ''g_desiredSshHostbasedAuthenticationIsDisabled'', ''no''),
      (''EnsureSshPermitRootLoginIsDisabled'', ''g_desiredSshPermitRootLoginIsDisabled'', ''no''),
      (''EnsureSshPermitEmptyPasswordsIsDisabled'', ''g_desiredSshPermitEmptyPasswordsIsDisabled'', ''no''),
      (''EnsureSshClientIntervalCountMaxIsConfigured'', ''g_desiredSshClientIntervalCountMaxIsConfigured'', ''3''),
      (''EnsureSshClientAliveIntervalIsConfigured'', ''g_desiredSshClientAliveIntervalIsConfigured'', ''300''),
      (''EnsureSshLoginGraceTimeIsSet'', ''g_desiredSshLoginGraceTimeIsSet'', ''60''),
      (''EnsureOnlyApprovedMacAlgorithmsAreUsed'', ''g_desiredOnlyApprovedMacAlgorithmsAreUsed'',
         ''hmac-sha2-256,hmac-sha2-256-etm@openssh.com,hmac-sha2-512,hmac-sha2-512-etm@openssh.com''),
      (''EnsureSshWarningBannerIsEnabled'', ''g_desiredSshWarningBannerIsEnabled'', default_banner),
      (''EnsureUsersCannotSetSshEnvironmentOptions'', ''g_desiredUsersCannotSetSshEnvironmentOptions'', ''no''),
      (''EnsureAppropriateCiphersForSsh'', ''g_desiredAppropriateCiphersForSsh'', ''aes128-ctr,aes192-ctr,aes256-ctr'')]"

text \<open>The variables get copies of the defaults one after the other, until a copy fails.\<close>

fun copy_defaults :: "(string \<times> string) list \<Rightarrow> 'a baseline_scheme \<Rightarrow> int \<times> 'a baseline_scheme" where
  "copy_defaults [] s = (0, s)"
| "copy_defaults ((var, dflt) # vs) s =
     (case duplicate dflt s of
        (v, s1) \<Rightarrow>
          (let s2 = put_desired var v s1 in if v = None then (ENOMEM, s2) else copy_defaults vs s2))"

definition InitializeSshAudit :: "'a baseline_scheme \<Rightarrow> int \<times> 'a baseline_scheme" where
  "InitializeSshAudit s = copy_defaults (map snd ssh_rules) (s\<lparr>g_auditOnlySession := True\<rparr>)"

definition free_desired :: "string list \<Rightarrow> 'a baseline_scheme \<Rightarrow> 'a baseline_scheme" where
  "free_desired vars s = s\<lparr>desired := (\<lambda>v. if v \<in> set vars then None else desired s v)\<rparr>"

definition SshAuditCleanup :: "'a baseline_scheme \<Rightarrow> 'a baseline_scheme" where
  "SshAuditCleanup s =
     (let s1 =
        (if g_auditOnlySession s then s
         else (case IsSshConfigIncludeSupported s of
            (included, t) \<Rightarrow>
              (let (status, u) =
                     (if included = 0 then SaveRemediationToConfFile (snd (IncludeRemediationSshConfFile t))
                      else SaveRemediationToSshdConfig t)
               in if status = 0 then snd (RestartDaemon (Some sshServerService) u) else u)))
      in (free_desired (map (fst \<circ> snd) ssh_rules) s1)\<lparr>g_auditOnlySession := True\<rparr>)"

text \<open>The value of a rule, or its default when there is none. A banner with broken line ends is repaired.\<close>

definition valid_value :: "cstr \<Rightarrow> bool" where
  "valid_value v \<longleftrightarrow> v \<noteq> None \<and> v \<noteq> Some []"

definition new_value :: "string \<Rightarrow> string \<Rightarrow> cstr \<Rightarrow> 'a runtime_scheme \<Rightarrow> cstr \<times> 'a runtime_scheme" where
  "new_value rule dflt v s =
     (if rule = ''EnsureSshWarningBannerIsEnabled'' \<and> valid_value v \<and> strstr (the v) (CHR 0x5C # ''n'') \<noteq> None
      then (RepairBrokenEolCharactersIfAny (\<lambda>site i. now s site i = 0) v, tick s)
      else duplicate (if valid_value v then the v else dflt) s)"

definition InitializeSshAuditCheck :: "cstr \<Rightarrow> cstr \<Rightarrow> 'a baseline_scheme \<Rightarrow> int \<times> 'a baseline_scheme" where
  "InitializeSshAuditCheck nm v s =
     (case nm of
        None \<Rightarrow> (EINVAL, s)
      | Some n \<Rightarrow>
          (case find (\<lambda>(rule, var, dflt). n = ''remediate'' @ rule \<or> n = ''init'' @ rule) ssh_rules of
             None \<Rightarrow> (EINVAL, s)
           | Some (rule, var, dflt) \<Rightarrow>
               (case new_value rule dflt v s of (x, s1) \<Rightarrow> (if x = None then ENOMEM else 0, put_desired var x s1))))"

text \<open>The audit of a rule, by its name without \<open>audit\<close>. Its status is not used.\<close>

definition allow_deny :: "string \<Rightarrow> string \<Rightarrow> 'a runtime_scheme \<Rightarrow> 'a runtime_scheme" where
  "allow_deny nm expected s =
     (case DuplicateStringToLowercase nm s of (l, s1) \<Rightarrow> snd (CheckAllowDenyUsersGroups l (Some expected) s1))"

definition ssh_audit :: "string \<Rightarrow> 'a baseline_scheme \<Rightarrow> 'a baseline_scheme" where
  "ssh_audit rule s =
     (if rule = ''EnsurePermissionsOnEtcSshSshdConfig''
      then snd (CheckFileAccess (Some sshServerConfiguration) 0 0 (sshdConfigAccess s) s)
      else if rule = ''EnsureSshPortIsConfigured'' then snd (check_option ''Port'' (desired_or ''g_desiredSshPort'' ''22'' s) s)
      else if rule = ''EnsureSshBestPracticeProtocol'' then snd (CheckSshProtocol s)
      else if rule = ''EnsureSshBestPracticeIgnoreRhosts''
      then snd (check_option ''IgnoreRhosts'' (desired_or ''g_desiredSshBestPracticeIgnoreRhosts'' ''yes'' s) s)
      else if rule = ''EnsureSshLogLevelIsSet''
      then snd (check_option ''LogLevel'' (desired_or ''g_desiredSshLogLevelIsSet'' ''INFO'' s) s)
      else if rule = ''EnsureSshMaxAuthTriesIsSet''
      then snd (CheckSshMaxAuthTries (Some (desired_or ''g_desiredSshMaxAuthTriesIsSet'' ''6'' s))
             (snd (DuplicateStringToLowercase ''MaxAuthTries'' s)))
      else if rule = ''EnsureAllowUsersIsConfigured''
      then allow_deny ''AllowUsers'' (desired_or ''g_desiredAllowUsersIsConfigured'' ''*@*'' s) s
      else if rule = ''EnsureDenyUsersIsConfigured''
      then allow_deny ''DenyUsers'' (desired_or ''g_desiredDenyUsersIsConfigured'' ''root'' s) s
      else if rule = ''EnsureAllowGroupsIsConfigured''
      then allow_deny ''AllowGroups'' (desired_or ''g_desiredAllowGroupsIsConfigured'' ''*'' s) s
      else if rule = ''EnsureDenyGroupsConfigured''
      then allow_deny ''DenyGroups'' (desired_or ''g_desiredDenyGroupsConfigured'' ''root'' s) s
      else if rule = ''EnsureSshHostbasedAuthenticationIsDisabled''
      then snd (check_option ''HostBasedAuthentication'' (desired_or ''g_desiredSshHostbasedAuthenticationIsDisabled'' ''no'' s) s)
      else if rule = ''EnsureSshPermitRootLoginIsDisabled''
      then snd (check_option ''PermitRootLogin'' (desired_or ''g_desiredSshPermitRootLoginIsDisabled'' ''no'' s) s)
      else if rule = ''EnsureSshPermitEmptyPasswordsIsDisabled''
      then snd (check_option ''PermitEmptyPasswords'' (desired_or ''g_desiredSshPermitEmptyPasswordsIsDisabled'' ''no'' s) s)
      else if rule = ''EnsureSshClientIntervalCountMaxIsConfigured''
      then snd (check_option ''ClientAliveCountMax'' (desired_or ''g_desiredSshClientIntervalCountMaxIsConfigured'' ''3'' s) s)
      else if rule = ''EnsureSshClientAliveIntervalIsConfigured'' then snd (CheckSshClientAliveInterval s)
      else if rule = ''EnsureSshLoginGraceTimeIsSet''
      then snd (CheckSshLoginGraceTime (Some (desired_or ''g_desiredSshLoginGraceTimeIsSet'' ''60'' s)) s)
      else if rule = ''EnsureOnlyApprovedMacAlgorithmsAreUsed''
      then snd (CheckOnlyApprovedMacAlgorithmsAreUsed (Some (desired_or ''g_desiredOnlyApprovedMacAlgorithmsAreUsed''
             ''hmac-sha2-256,hmac-sha2-256-etm@openssh.com,hmac-sha2-512,hmac-sha2-512-etm@openssh.com'' s)) s)
      else if rule = ''EnsureSshWarningBannerIsEnabled'' then snd (CheckSshWarningBanner s)
      else if rule = ''EnsureUsersCannotSetSshEnvironmentOptions''
      then snd (check_option ''PermitUserEnvironment'' (desired_or ''g_desiredUsersCannotSetSshEnvironmentOptions'' ''no'' s) s)
      else if rule = ''EnsureAppropriateCiphersForSsh''
      then snd (CheckAppropriateCiphersForSsh (Some (desired_or ''g_desiredAppropriateCiphersForSsh'' ''aes128-ctr,aes192-ctr,aes256-ctr'' s)) s)
      else s)"

definition ssh_remediate :: "string \<Rightarrow> cstr \<Rightarrow> 'a baseline_scheme \<Rightarrow> int \<times> 'a baseline_scheme" where
  "ssh_remediate rule v s =
     (case InitializeSshAuditCheck (Some (''remediate'' @ rule)) v s of
        (status, s1) \<Rightarrow>
          if status \<noteq> 0 then (status, s1)
          else if rule = ''EnsurePermissionsOnEtcSshSshdConfig''
          then SetFileAccess (Some sshServerConfiguration) 0 0 (sshdConfigAccess s1) s1
          else if rule = ''EnsureSshWarningBannerIsEnabled''
          then SetSshWarningBanner (sshdConfigAccess s1) (desired s1 ''g_desiredSshWarningBannerIsEnabled'') s1
          else (0, s1))"

definition strip_verb :: "string \<Rightarrow> string \<Rightarrow> string option" where
  "strip_verb verb n =
     (if prefix verb n \<and> drop (length verb) n \<in> fst ` set ssh_rules then Some (drop (length verb) n) else None)"

definition ProcessSshAuditCheck :: "cstr \<Rightarrow> cstr \<Rightarrow> 'a baseline_scheme \<Rightarrow> int \<times> 'a baseline_scheme" where
  "ProcessSshAuditCheck nm v s =
     (case nm of
        None \<Rightarrow> (EINVAL, s)
      | Some n \<Rightarrow>
          (let s0 = OsConfigResetReason s;
               (status, s1) =
                 (case strip_verb ''audit'' n of
                    Some rule \<Rightarrow> (0, ssh_audit rule s0)
                  | None \<Rightarrow>
                      (case strip_verb ''remediate'' n of
                         Some rule \<Rightarrow> ssh_remediate rule v s0
                       | None \<Rightarrow> (0, s0)))
           in if why s1 = Some None
              then (case IsSshServerActive s1 of
                 (inactive, s2) \<Rightarrow>
                   (status, if inactive \<noteq> 0
                            then capture_success (sshServerService @ '' is not present or active, nothing to audit'') s2
                            else capture ''FAIL'' s2))
              else (status, if v \<noteq> None \<and> why s1 = None then s1\<lparr>g_auditOnlySession := False\<rparr> else s1)))"

end
