(* ===== verification/DeviceInfoUtils.thy ===== *)
theory DeviceInfoUtils
  imports FileChecks
begin

text \<open>
  What the device says of itself (\<open>DeviceInfoUtils.c\<close>): properties of the operating system and of the hardware from
  the output of commands, the distribution, the login umask, core dumps and virtual memory. The static variables of
  \<open>IsRedHatBased\<close> are an argument and part of the result.
\<close>

definition json_line :: command_options where
  "json_line = one_line\<lparr>forJson := True\<rparr>"

text \<open>The text of a command that succeeds, after some edits in place.\<close>

definition property_of :: "command_options \<Rightarrow> string \<Rightarrow> (string \<Rightarrow> string) \<Rightarrow> 'a runtime_scheme \<Rightarrow> cstr \<times> 'a runtime_scheme" where
  "property_of opts cmd edit s =
     (case run_text opts cmd s of ((status, out), s1) \<Rightarrow> (if status = 0 then map_option edit out else None, s1))"

definition trim_blanks :: "string \<Rightarrow> string" where
  "trim_blanks t = RemoveTrailingBlanks (RemovePrefixBlanks t)"

definition cut_prefix :: "char \<Rightarrow> string \<Rightarrow> string" where
  "cut_prefix marker t = RemovePrefix (RemovePrefixUpTo t marker) marker"

subsection \<open>The operating system\<close>

definition GetOsPrettyName :: "'a runtime_scheme \<Rightarrow> cstr \<times> 'a runtime_scheme" where
  "GetOsPrettyName = property_of json_line (''cat /etc/os-release | grep PRETTY_NAME='') (\<lambda>t. trim_blanks (cut_prefix CHR ''='' t))"

definition GetOsName :: "'a runtime_scheme \<Rightarrow> cstr \<times> 'a runtime_scheme" where
  "GetOsName s =
     (case GetOsPrettyName s of
        (Some t, s1) \<Rightarrow> (Some (TruncateAtFirst t CHR '' ''), s1)
      | (None, s1) \<Rightarrow>
          property_of json_line (''cat /etc/os-release | grep ID='') (\<lambda>t. trim_blanks (TruncateAtFirst (cut_prefix CHR ''='' t) CHR '' '')) s1)"

text \<open>The version is cut at the first \<open>=\<close>, where \<open>RemovePrefixUpTo\<close> has left the text to begin.\<close>

definition version_edit :: "string \<Rightarrow> string" where
  "version_edit t = trim_blanks (TruncateAtFirst (TruncateAtFirst (RemovePrefixUpTo t CHR ''='') CHR ''='') CHR '' '')"

definition GetOsVersion :: "'a runtime_scheme \<Rightarrow> cstr \<times> 'a runtime_scheme" where
  "GetOsVersion = property_of json_line (''cat /etc/os-release | grep VERSION='') version_edit"

definition GetHardwareProperty :: "string \<Rightarrow> bool \<Rightarrow> 'a runtime_scheme \<Rightarrow> cstr \<times> 'a runtime_scheme" where
  "GetHardwareProperty command truncateAtFirstSpace =
     property_of json_line command
       (\<lambda>t. let u = RemovePrefixBlanks (cut_prefix CHR '':'' t)
            in if truncateAtFirstSpace then TruncateAtFirst u CHR '' '' else RemoveTrailingBlanks u)"

definition GetAnotherOsProperty :: "cstr \<Rightarrow> 'a runtime_scheme \<Rightarrow> cstr \<times> 'a runtime_scheme" where
  "GetAnotherOsProperty command s =
     (case command of None \<Rightarrow> (None, s) | Some cmd \<Rightarrow> property_of json_line cmd trim_blanks s)"

definition GetOsKernelName :: "'a runtime_scheme \<Rightarrow> cstr \<times> 'a runtime_scheme" where
  "GetOsKernelName = GetAnotherOsProperty (Some ''uname -s'')"

definition GetOsKernelRelease :: "'a runtime_scheme \<Rightarrow> cstr \<times> 'a runtime_scheme" where
  "GetOsKernelRelease = GetAnotherOsProperty (Some ''uname -r'')"

definition GetOsKernelVersion :: "'a runtime_scheme \<Rightarrow> cstr \<times> 'a runtime_scheme" where
  "GetOsKernelVersion = GetAnotherOsProperty (Some ''uname -v'')"

subsection \<open>The hardware\<close>

definition GetCpuType :: "'a runtime_scheme \<Rightarrow> cstr \<times> 'a runtime_scheme" where
  "GetCpuType = GetHardwareProperty (''lscpu | grep Architecture:'') False"

definition GetCpuVendor :: "'a runtime_scheme \<Rightarrow> cstr \<times> 'a runtime_scheme" where
  "GetCpuVendor = GetHardwareProperty (''grep 'vendor_id' /proc/cpuinfo | uniq'') False"

definition GetCpuModel :: "'a runtime_scheme \<Rightarrow> cstr \<times> 'a runtime_scheme" where
  "GetCpuModel = GetHardwareProperty (''grep 'model name' /proc/cpuinfo | uniq'') False"

definition GetNumberOfCpuCores :: "'a runtime_scheme \<Rightarrow> 32 word \<times> 'a runtime_scheme" where
  "GetNumberOfCpuCores s =
     (case GetHardwareProperty ''grep -c ^processor /proc/cpuinfo'' False s of
        (t, s1) \<Rightarrow> (case t of None \<Rightarrow> 1 | Some u \<Rightarrow> word_of_int (atoi u), s1))"

definition GetCpuFlags :: "'a runtime_scheme \<Rightarrow> cstr \<times> 'a runtime_scheme" where
  "GetCpuFlags = GetHardwareProperty (''lscpu | grep '' @ [CHR 0x22] @ ''Flags:'' @ [CHR 0x22]) False"

definition CheckCpuFlagSupported :: "cstr \<Rightarrow> 'a runtime_scheme \<Rightarrow> bool \<times> 'a runtime_scheme" where
  "CheckCpuFlagSupported cpuFlag s =
     (case GetCpuFlags s of
        (cpuFlags, s1) \<Rightarrow>
          if cpuFlag \<noteq> None \<and> cpuFlags \<noteq> None \<and> strstr (the cpuFlags) (the cpuFlag) \<noteq> None
          then (True, capture_success (''The device's CPU supports '' @ sq (the cpuFlag)) s1)
          else (False, capture (''The device's CPU does not support '' @ sq (show_s cpuFlag)) s1))"

definition memory_size :: "string \<Rightarrow> 'a runtime_scheme \<Rightarrow> int \<times> 'a runtime_scheme" where
  "memory_size command s =
     (case GetHardwareProperty command True s of (t, s1) \<Rightarrow> (case t of None \<Rightarrow> 0 | Some u \<Rightarrow> strtol u 10, s1))"

definition GetTotalMemory :: "'a runtime_scheme \<Rightarrow> int \<times> 'a runtime_scheme" where
  "GetTotalMemory = memory_size ''grep MemTotal /proc/meminfo''"

definition GetFreeMemory :: "'a runtime_scheme \<Rightarrow> int \<times> 'a runtime_scheme" where
  "GetFreeMemory = memory_size ''grep MemFree /proc/meminfo''"

text \<open>A property of the product, or the alternate when there is none.\<close>

definition or_alternate ::
  "('a runtime_scheme \<Rightarrow> cstr \<times> 'a runtime_scheme) \<Rightarrow> string \<Rightarrow> 'a runtime_scheme \<Rightarrow> cstr \<times> 'a runtime_scheme" where
  "or_alternate first alternate s =
     (case first s of
        (t, s1) \<Rightarrow> if t = None \<or> t = Some [] then GetHardwareProperty alternate False s1 else (t, s1))"

definition GetProductName :: "'a runtime_scheme \<Rightarrow> cstr \<times> 'a runtime_scheme" where
  "GetProductName = or_alternate (GetAnotherOsProperty (Some ''cat /sys/devices/virtual/dmi/id/product_name''))
     (''lshw -c system | grep -m 1 '' @ [CHR 0x22] @ ''product:'' @ [CHR 0x22])"

definition GetProductVendor :: "'a runtime_scheme \<Rightarrow> cstr \<times> 'a runtime_scheme" where
  "GetProductVendor = or_alternate (GetAnotherOsProperty (Some ''cat /sys/devices/virtual/dmi/id/sys_vendor''))
     (''lshw -c system | grep -m 1 '' @ [CHR 0x22] @ ''vendor:'' @ [CHR 0x22])"

definition GetProductVersion :: "'a runtime_scheme \<Rightarrow> cstr \<times> 'a runtime_scheme" where
  "GetProductVersion = or_alternate (GetHardwareProperty ''cat /sys/devices/virtual/dmi/id/product_version'' False)
     (''lshw -c system | grep -m 1 '' @ [CHR 0x22] @ ''version:'' @ [CHR 0x22])"

definition GetSystemCapabilities :: "'a runtime_scheme \<Rightarrow> cstr \<times> 'a runtime_scheme" where
  "GetSystemCapabilities = GetHardwareProperty (''lshw -c system | grep -m 1 '' @ [CHR 0x22] @ ''capabilities:'' @ [CHR 0x22]) False"

definition GetSystemConfiguration :: "'a runtime_scheme \<Rightarrow> cstr \<times> 'a runtime_scheme" where
  "GetSystemConfiguration = GetHardwareProperty (''lshw -c system | grep -m 1 '' @ [CHR 0x22] @ ''configuration:'' @ [CHR 0x22]) False"

subsection \<open>The distribution\<close>

definition release_edit :: "char \<Rightarrow> string \<Rightarrow> string" where
  "release_edit separator t =
     (let u = RemovePrefixBlanks (cut_prefix separator (trim_blanks t))
      in if u \<noteq> [] \<and> hd u = CHR 0x22 then TruncateAtFirst (cut_prefix CHR 0x22 u) CHR 0x22 else u)"

text \<open>The command is the template filled with the name; a failure is the text \<open>"<null>"\<close>.\<close>

definition GetOsReleaseEntry :: "(string \<Rightarrow> string) \<Rightarrow> string \<Rightarrow> char \<Rightarrow> 'a runtime_scheme \<Rightarrow> cstr \<times> 'a runtime_scheme" where
  "GetOsReleaseEntry commandTemplate nm separator s =
     (let (result, s1) =
            (if nm = [] then duplicate ''<error>'' s
             else (case ask ''malloc'' s of
                (failed, t) \<Rightarrow>
                  if failed \<noteq> 0 then (None, t) else property_of one_line (commandTemplate nm) (release_edit separator) t))
      in if result = None then duplicate ''<null>'' s1 else (result, s1))"

definition GetEtcReleaseEntry :: "string \<Rightarrow> 'a runtime_scheme \<Rightarrow> cstr \<times> 'a runtime_scheme" where
  "GetEtcReleaseEntry nm = GetOsReleaseEntry (\<lambda>n. ''cat /etc/*-release | grep '' @ n @ ''='') nm CHR ''=''"

definition GetLsbReleaseEntry :: "string \<Rightarrow> 'a runtime_scheme \<Rightarrow> cstr \<times> 'a runtime_scheme" where
  "GetLsbReleaseEntry nm = GetOsReleaseEntry (\<lambda>n. ''lsb_release -a | grep '' @ [CHR 0x22] @ n @ '':'' @ [CHR 0x22]) nm CHR '':''"

text \<open>Only one character is compared: the third argument of \<open>strncmp\<close> is a truth value.\<close>

definition same_first_char :: "string \<Rightarrow> string \<Rightarrow> bool" where
  "same_first_char a b \<longleftrightarrow> take 1 a = take 1 b"

definition IsCurrentOs :: "cstr \<Rightarrow> 'a runtime_scheme \<Rightarrow> bool \<times> 'a runtime_scheme" where
  "IsCurrentOs nm s =
     (case nm of
        None \<Rightarrow> (False, s)
      | Some n \<Rightarrow>
          if n = [] then (False, s)
          else (case GetOsPrettyName s of
             (None, s1) \<Rightarrow> (False, s1)
           | (Some prettyName, s1) \<Rightarrow> (prettyName \<noteq> [] \<and> same_first_char n prettyName, s1)))"

definition IsRedHatBasedInternal :: "'a runtime_scheme \<Rightarrow> bool \<times> 'a runtime_scheme" where
  "IsRedHatBasedInternal s =
     (case GetOsPrettyName s of
        (None, s1) \<Rightarrow> (False, s1)
      | (Some prettyName, s1) \<Rightarrow>
          (prettyName \<noteq> [] \<and>
           list_ex (\<lambda>d. same_first_char d prettyName) [''Red Hat'', ''CentOS'', ''AlmaLinux'', ''Rocky Linux'', ''Oracle Linux''], s1))"

definition IsRedHatBased :: "bool \<times> bool \<Rightarrow> 'a runtime_scheme \<Rightarrow> (bool \<times> bool \<times> bool) \<times> 'a runtime_scheme" where
  "IsRedHatBased st s =
     (case st of
        (firstTime, redHatBased) \<Rightarrow>
          if firstTime then (case IsRedHatBasedInternal s of (b, s1) \<Rightarrow> ((b, False, b), s1))
          else ((redHatBased, firstTime, redHatBased), s))"

text \<open>An entry of the distribution, from one of two places. \<open>strcmp\<close> on a missing copy crashes (\<open>None\<close>).\<close>

definition distro_entry :: "string \<Rightarrow> string \<Rightarrow> 'a runtime_scheme \<Rightarrow> cstr option \<times> 'a runtime_scheme" where
  "distro_entry etc lsb s =
     (case GetEtcReleaseEntry etc s of
        (None, s1) \<Rightarrow> (None, s1)
      | (Some v, s1) \<Rightarrow>
          if v = ''<null>'' then (case GetLsbReleaseEntry lsb s1 of (w, s2) \<Rightarrow> (Some w, s2)) else (Some (Some v), s1))"

definition compare_texts :: "(string \<Rightarrow> string \<Rightarrow> bool) \<Rightarrow> cstr \<Rightarrow> cstr \<Rightarrow> bool option" where
  "compare_texts p a b = (case (a, b) of (Some x, Some y) \<Rightarrow> Some (p x y) | _ \<Rightarrow> None)"

fun all_texts :: "bool option list \<Rightarrow> bool option" where
  "all_texts [] = Some True"
| "all_texts (b # bs) = (case b of None \<Rightarrow> None | Some False \<Rightarrow> Some False | Some True \<Rightarrow> all_texts bs)"

record OsDistroInfo =
  distro_id :: cstr
  release :: cstr
  codename :: cstr
  distro_description :: cstr

definition distro_texts :: "OsDistroInfo \<Rightarrow> cstr \<Rightarrow> string" where
  "distro_texts d kernelName =
     sq (show_s (distro_id d)) @ '', '' @ sq (show_s (release d)) @ '', '' @ sq (show_s (codename d)) @ '', '' @ sq (show_s (distro_description d)) @ '', '' @ sq (show_s kernelName)"

definition match_distro :: "OsDistroInfo \<Rightarrow> OsDistroInfo \<Rightarrow> cstr \<Rightarrow> cstr \<Rightarrow> 'a runtime_scheme \<Rightarrow> bool option \<times> 'a runtime_scheme" where
  "match_distro distro os kernelName kernelVersion s =
     (let (ubuntu, s1) = IsCurrentOs (Some ''Ubuntu'') s;
          (known, s2) = (if ubuntu then (True, s1) else IsCurrentOs (Some ''Debian'') s1)
      in if known
         then (case all_texts [compare_texts prefix (distro_id distro) (distro_id os), compare_texts (=) (release distro) (release os),
                      compare_texts (=) (codename distro) (codename os), compare_texts (=) (distro_description distro) (distro_description os),
                      compare_texts (=) kernelName (Some ''Linux'')] of
            None \<Rightarrow> (None, s2)
          | Some True \<Rightarrow> (Some True, capture_success (''Distro and installed image match ('' @ distro_texts distro kernelName @ '')'') s2)
          | Some False \<Rightarrow>
              (Some False, capture (''Distro ('' @ (distro_texts distro (Some ''Linux'')) @ '') and installed image ('' @ distro_texts os kernelName @ '') do not match, automatic remediation is not possible'') s2))
         else (case compare_texts (=) kernelName (Some ''Linux'') of
            None \<Rightarrow> (None, s2)
          | Some True \<Rightarrow>
              (Some True, capture_success (''Distro and installed image match ('' @ sq (show_s kernelName) @ '', '' @ sq (show_s kernelVersion) @ '')'') s2)
          | Some False \<Rightarrow>
              (Some False, capture (''Distro ('Linux') and installed image ('' @ sq (show_s kernelName) @ '', '' @ sq (show_s kernelVersion) @ '') do not match, automatic remediation is not possible'') s2)))"

definition CheckOsAndKernelMatchDistro :: "'a runtime_scheme \<Rightarrow> bool option \<times> 'a runtime_scheme" where
  "CheckOsAndKernelMatchDistro s =
     (let (kernelName, s1) = GetOsKernelName s;
          (kernelVersion, s2) = GetOsKernelVersion s1
      in case distro_entry ''DISTRIB_ID'' ''Distributor ID'' s2 of
           (None, s3) \<Rightarrow> (None, s3)
         | (Some did, s3) \<Rightarrow>
             (case distro_entry ''DISTRIB_RELEASE'' ''Release'' s3 of
                (None, s4) \<Rightarrow> (None, s4)
              | (Some drelease, s4) \<Rightarrow>
                  (case distro_entry ''DISTRIB_CODENAME'' ''Codename'' s4 of
                     (None, s5) \<Rightarrow> (None, s5)
                   | (Some dcodename, s5) \<Rightarrow>
                       (case distro_entry ''DISTRIB_DESCRIPTION'' ''Description'' s5 of
                          (None, s6) \<Rightarrow> (None, s6)
                        | (Some ddescription, s6) \<Rightarrow>
                            (let (oid, s7) = GetEtcReleaseEntry ''-w NAME'' s6;
                                 (orelease, s8) = GetEtcReleaseEntry ''VERSION_ID'' s7;
                                 (ocodename, s9) = GetEtcReleaseEntry ''VERSION_CODENAME'' s8;
                                 (odescription, s10) = GetEtcReleaseEntry ''PRETTY_NAME'' s9
                             in match_distro \<lparr>distro_id = did, release = drelease, codename = dcodename, distro_description = ddescription\<rparr>
                                  \<lparr>distro_id = oid, release = orelease, codename = ocodename, distro_description = odescription\<rparr>
                                  kernelName kernelVersion s10)))))"

subsection \<open>Settings\<close>

definition GetLoginUmask :: "'a runtime_scheme \<Rightarrow> cstr \<times> 'a runtime_scheme" where
  "GetLoginUmask s =
     (let command = ''grep -v '^#' /etc/login.defs | grep UMASK''
      in case property_of json_line command (\<lambda>t. trim_blanks (RemovePrefixUpTo t CHR '' '')) s of
           (None, s1) \<Rightarrow> (None, capture (sq command @ '' failed, cannot check the current login UMASK'') s1)
         | (Some t, s1) \<Rightarrow> (Some t, s1))"

definition CheckLoginUmask :: "cstr \<Rightarrow> 'a runtime_scheme \<Rightarrow> int \<times> 'a runtime_scheme" where
  "CheckLoginUmask wanted s =
     (if wanted = None \<or> wanted = Some [] then (EINVAL, s)
      else (case GetLoginUmask s of
         (None, s1) \<Rightarrow> (ENOENT, s1)
       | (Some current, s1) \<Rightarrow>
           if prefix (the wanted) current
           then (0, capture_success (sq current @ '' (current login UMASK) matches desired '' @ sq (the wanted)) s1)
           else (ENOENT, capture (''Current login UMASK '' @ sq current @ '' does not match desired '' @ sq (the wanted)) s1)))"

definition EnableVirtualMemoryRandomization :: "'a runtime_scheme \<Rightarrow> int \<times> 'a runtime_scheme" where
  "EnableVirtualMemoryRandomization s =
     (case quietly (CheckSmallFileContainsText_r (Some ''/proc/sys/kernel/randomize_va_space'') (Some ''2'')) s of
        (status, s1) \<Rightarrow>
          if status = 0 then (0, s1)
          else (case edit_fs (\<lambda>m _. SavePayloadToFile m (Some ''/proc/sys/kernel/randomize_va_space'') (Some ''2'')) s1 of
             (saved, s2) \<Rightarrow> (if saved then 0 else ENOENT, s2)))"

definition IsCommodore :: "'a runtime_scheme \<Rightarrow> bool \<times> 'a runtime_scheme" where
  "IsCommodore s =
     (case property_of one_line (''cat /etc/os-subrelease | grep PRODUCT_NAME='')
             (\<lambda>t. RemovePrefixBlanks (cut_prefix CHR ''='' (trim_blanks t))) s of
        (t, s1) \<Rightarrow> (t = Some ''Azure Commodore'', s1))"

definition DetectSelinux :: "'a runtime_scheme \<Rightarrow> bool \<times> 'a runtime_scheme" where
  "DetectSelinux s = (case run (''cat /sys/kernel/security/lsm | grep selinux'') s of (status, s1) \<Rightarrow> (status = 0, s1))"

definition check_limit :: "string \<Rightarrow> string \<Rightarrow> string \<Rightarrow> 'a runtime_scheme \<Rightarrow> (int \<times> bool) \<times> 'a runtime_scheme" where
  "check_limit cmd good bad s =
     (case property_of json_line cmd trim_blanks s of
        (None, s1) \<Rightarrow> ((ENOENT, False), s1)
      | (Some t, s1) \<Rightarrow>
          if prefix ''0'' t then ((0, True), capture_success good s1) else ((ENOENT, True), capture bad s1))"

definition CheckCoreDumpsHardLimitIsDisabledForAllUsers :: "'a runtime_scheme \<Rightarrow> int \<times> 'a runtime_scheme" where
  "CheckCoreDumpsHardLimitIsDisabledForAllUsers s =
     (case check_limit
             (''grep -v '^[[:space:]]*#' /etc/security/limits.conf | grep 'hard[[:space:]]'' @ [CHR 0x5C] @ ''+core' | tr '' @ [CHR 0x27] @ [CHR 0x5C] @ ''t' ' ' | tr -s ' ' | cut -d' ' -f4'')
             ([CHR 0x27] @ ''*hard core 0' is present uncommented in '/etc/security/limits.conf'' @ [CHR 0x27])
             ([CHR 0x27] @ ''*hard core 0' is not present or is commented out in '/etc/security/limits.conf'' @ [CHR 0x27]) s of
        ((status, _), s1) \<Rightarrow>
          if status = 0 then (0, s1)
          else (case check_limit
                  (''grep -rh '^[[:space:]]*'' @ [CHR 0x5C] @ ''*[[:space:]]'' @ [CHR 0x5C] @ ''+hard[[:space:]]'' @ [CHR 0x5C] @ ''+core[[:space:]]'' @ [CHR 0x5C] @ ''+[0-9]'' @ [CHR 0x5C] @ ''+' /etc/security/limits.d/ 2>/dev/null | tr '' @ [CHR 0x27] @ [CHR 0x5C] @ ''t' ' ' | tr -s ' ' | cut -d' ' -f4'')
                  ([CHR 0x27] @ ''*hard core 0' is present uncommented in a file under '/etc/security/limits.d/'' @ [CHR 0x27])
                  ([CHR 0x27] @ ''*hard core 0' is not present in any file, or is commented out under '/etc/security/limits.d/'' @ [CHR 0x27]) s1 of
             ((status', answered), s2) \<Rightarrow>
               (status',
                if answered then s2
                else capture ([CHR 0x27] @ ''*hard core 0' is not present uncommented in '/etc/security/limits.conf' or in any file under '/etc/security/limits.d/'' @ [CHR 0x27]) (OsConfigResetReason s2))))"

end
