(* ===== verification/OtherUtils.thy ===== *)
theory OtherUtils
  imports PackageUtils DaemonUtils DeviceInfoUtils
begin

text \<open>
  The rest of \<open>OtherUtils.c\<close>: wireless interfaces, the firewall, the search path and escape sequences in files.
\<close>

subsection \<open>Wireless interfaces\<close>

definition CheckAllWirelessInterfacesAreDisabled :: "'a runtime_scheme \<Rightarrow> int \<times> 'a runtime_scheme" where
  "CheckAllWirelessInterfacesAreDisabled s =
     (case run (''iwconfig 2>&1 | egrep -v 'no wireless extensions|not found' | grep Frequency'') s of
        (status, s1) \<Rightarrow>
          if status = 0 then (EEXIST, capture ''At least one active wireless interface is present'' s1)
          else (0, capture_success ''No active wireless interfaces are present'' s1))"

definition DisableAllWirelessInterfaces :: "'a packages_scheme \<Rightarrow> int \<times> 'a packages_scheme" where
  "DisableAllWirelessInterfaces s =
     (case quietly CheckAllWirelessInterfacesAreDisabled s of
        (none, s1) \<Rightarrow>
          if none = 0 then (0, s1)
          else let (nmcli, s2) = IsPresent (Some ''nmcli'') s1;
                   (rfkill, s3) = (if nmcli \<noteq> 0 then IsPresent (Some ''rfkill'') s2 else (0, s2));
                   (status, s4) =
                     (if nmcli \<noteq> 0 \<and> rfkill \<noteq> 0
                      then (case InstallOrUpdatePackage (Some ''rfkill'') s3 of (r, t) \<Rightarrow> (if r \<noteq> 0 then ENOENT else 0, t))
                      else (0, s3))
               in if status \<noteq> 0 then (status, s4)
                  else let (nmcli', s5) = IsPresent (Some ''nmcli'') s4;
                           (status1, s6) = (if nmcli' = 0 then run ''nmcli radio wifi off'' s5 else (0, s5));
                           (rfkill', s7) = IsPresent (Some ''rfkill'') s6
                       in if rfkill' = 0 then run ''rfkill block all'' s7 else (status1, s7))"

subsection \<open>The firewall\<close>

definition iptables_drops :: "'a runtime_scheme \<Rightarrow> bool \<times> 'a runtime_scheme" where
  "iptables_drops s =
     (case CheckTextFoundInCommandOutput (Some ''iptables -S'') (Some ''-P INPUT DROP'') s of
        (input, s1) \<Rightarrow>
          if input \<noteq> 0 then (False, s1)
          else (case CheckTextFoundInCommandOutput (Some ''iptables -S'') (Some ''-P FORWARD DROP'') s1 of
             (forward, s2) \<Rightarrow>
               if forward \<noteq> 0 then (False, s2)
               else (case CheckTextFoundInCommandOutput (Some ''iptables -S'') (Some ''-P OUTPUT DROP'') s2 of
                  (outcome, s3) \<Rightarrow> (outcome = 0, s3))))"

text \<open>The daemon is compared with 0 although \<open>CheckDaemonActive\<close> returns whether it is active.\<close>

definition firewalld_drops :: "'a runtime_scheme \<Rightarrow> int \<times> 'a runtime_scheme" where
  "firewalld_drops s =
     (case CheckDaemonActive (Some ''firewalld'') s of
        (active, s1) \<Rightarrow>
          if active then (ENOENT, s1)
          else (case run (''firewall-cmd --get-default-zone | grep -q '^drop$' && firewall-cmd --list-all --zone=drop | grep -q '^target: DROP$'' @ [CHR 0x27]) s1 of
             (status, s2) \<Rightarrow>
               (status,
                if status = 0
                then capture_success ([CHR 0x27] @ ''firewalld' is active, 'drop' found in response from command 'firewall-cmd --get-default-zone', 'target: DROP' found in response from command  by 'firewall-cmd --list-all --zone=drop'' @ [CHR 0x27]) s2
                else s2)))"

definition CheckDefaultDenyFirewallPolicy :: "'a runtime_scheme \<Rightarrow> int \<times> 'a runtime_scheme" where
  "CheckDefaultDenyFirewallPolicy s =
     (case iptables_drops s of
        (drops, s1) \<Rightarrow>
          let (status, s2) =
                (if drops
                 then (0, capture_success ([CHR 0x27] @ ''-P INPUT DROP', '-P FORWARD DROP', '-P OUTPUT DROP' all found in output of command 'iptables -S'' @ [CHR 0x27]) s1)
                 else firewalld_drops
                        (capture_success ([CHR 0x27] @ ''-P INPUT DROP', '-P FORWARD DROP', '-P OUTPUT DROP' not all found in response from command 'iptables -S'' @ [CHR 0x27]) s1))
          in (status,
              if status \<noteq> 0
              then capture ([CHR 0x27] @ ''-P INPUT DROP', '-P FORWARD DROP', '-P OUTPUT DROP' not found in response from command 'iptables -S', 'firewalld' is not active, 'drop' not found in response from command 'firewall-cmd --get-default-zone', and/or 'target: DROP' found in response from command  by 'firewall-cmd --list-all --zone=drop'' @ [CHR 0x27]) s2
              else s2))"

text \<open>\<open>strtok\<close> with the delimiters blank and line feed: the tokens, and what the buffer holds after the first one
  is cut.\<close>

definition delimiter :: "char \<Rightarrow> bool" where
  "delimiter c \<longleftrightarrow> c = CHR '' '' \<or> c = EOL"

fun tokens :: "string \<Rightarrow> string \<Rightarrow> string list" where
  "tokens token [] = (if token = [] then [] else [token])"
| "tokens token (c # cs) =
     (if delimiter c then (if token = [] then [] else [token]) @ tokens [] cs else tokens (token @ [c]) cs)"

definition after_strtok :: "string \<Rightarrow> string" where
  "after_strtok t =
     (if tokens [] t = [] then t
      else takeWhile delimiter t @ takeWhile (\<lambda>c. \<not> delimiter c) (dropWhile delimiter t))"

fun allow_tokens :: "string \<Rightarrow> string list \<Rightarrow> int \<Rightarrow> 'a runtime_scheme \<Rightarrow> int \<times> 'a runtime_scheme" where
  "allow_tokens what [] status s = (status, s)"
| "allow_tokens what (token # ts) status s =
     (case format_text (''firewall-cmd --zone=drop --add-'' @ what @ ''='' @ token) s of
        (None, s1) \<Rightarrow> (ENOMEM, s1)
      | (Some cmd, s1) \<Rightarrow> (case run cmd s1 of (_, s2) \<Rightarrow> allow_tokens what ts 0 s2))"

definition allow_column ::
  "string \<Rightarrow> string \<Rightarrow> string \<Rightarrow> int \<Rightarrow> 'a runtime_scheme \<Rightarrow> (int \<times> string) \<times> 'a runtime_scheme" where
  "allow_column column what buffer status s =
     (case strstr buffer column of
        None \<Rightarrow> ((status, buffer), s)
      | Some p \<Rightarrow>
          (let rest = drop (length column) p
           in case allow_tokens what (tokens [] rest) status s of
                (status', s1) \<Rightarrow> ((status', take (length buffer - length rest) buffer @ after_strtok rest), s1)))"

fun allow_lines :: "string list \<Rightarrow> int \<Rightarrow> 'a runtime_scheme \<Rightarrow> int \<times> 'a runtime_scheme" where
  "allow_lines [] status s = (status, s)"
| "allow_lines (buffer # bs) status s =
     (case allow_column ''services:'' ''service'' buffer status s of
        ((status1, buffer'), s1) \<Rightarrow>
          if status1 \<noteq> 0 then (status1, s1)
          else (case allow_column ''ports:'' ''port'' buffer' status1 s1 of
             ((status2, _), s2) \<Rightarrow> allow_lines bs status2 s2))"

definition AllowCurrentTrafficInFirewalldDropZone :: "'a runtime_scheme \<Rightarrow> int \<times> 'a runtime_scheme" where
  "AllowCurrentTrafficInFirewalldDropZone s =
     (case ask ''popen'' s of
        (failed, s1) \<Rightarrow>
          if failed \<noteq> 0 then (- 1, s1)
          else (case shell_exec s1 ''firewall-cmd --list-all-zones'' (host_of s1) of
             (_, out, w) \<Rightarrow> allow_lines (fgets_lines 1023 (case out of None \<Rightarrow> [] | Some t \<Rightarrow> t)) 0 (s1\<lparr>host_of := w\<rparr>)))"

fun run_all :: "string list \<Rightarrow> 'a runtime_scheme \<Rightarrow> int \<times> 'a runtime_scheme" where
  "run_all [] s = (0, s)"
| "run_all (cmd # cmds) s = (case run cmd s of (status, s1) \<Rightarrow> if status \<noteq> 0 then (status, s1) else run_all cmds s1)"

definition firewalld_drop_zone :: "'a runtime_scheme \<Rightarrow> 'a runtime_scheme" where
  "firewalld_drop_zone s =
     snd (run_all [''firewall-cmd --set-default-zone=drop'', ''firewall-cmd --permanent --zone=drop --add-service=ssh'']
       (snd (AllowCurrentTrafficInFirewalldDropZone s)))"

text \<open>The branch for \<open>firewalld\<close> asks for a failure after the six commands have succeeded.\<close>

definition SetDefaultDenyFirewallPolicy :: "'a runtime_scheme \<Rightarrow> int \<times> 'a runtime_scheme" where
  "SetDefaultDenyFirewallPolicy s =
     (case run_all [''iptables -A INPUT -j ACCEPT'', ''iptables -A FORWARD -j ACCEPT'', ''iptables -A OUTPUT -j ACCEPT'',
             ''iptables -P INPUT DROP'', ''iptables -P FORWARD DROP'', ''iptables -P OUTPUT DROP''] s of
        (status, s1) \<Rightarrow>
          if status \<noteq> 0 then (0, s1)
          else (case (if status \<noteq> 0 then StartDaemon (Some ''firewalld'') s1 else (False, s1)) of
             (started, s2) \<Rightarrow> (0, if started then firewalld_drop_zone s2 else s2)))"

subsection \<open>The search path\<close>

definition allocated :: "'a runtime_scheme \<Rightarrow> alloc" where
  "allocated s = (\<lambda>site i. now s site i = 0)"

text \<open>The results of the two commands are compared with the status, which is 0, instead of being assigned to it: the
  branch for success is taken when \<open>printenv\<close> fails.\<close>

definition remove_dots_from_environment :: "'a runtime_scheme \<Rightarrow> int \<times> 'a runtime_scheme" where
  "remove_dots_from_environment s =
     (case run_text plain_output ''printenv PATH'' s of
        ((result, currentPath), s1) \<Rightarrow>
          if result = 0 then (0, s1)
          else (case RemoveCharacterFromString (allocated s1) currentPath CHR ''.'' of
             None \<Rightarrow> (EINVAL, tick s1)
           | Some newPath \<Rightarrow>
               (case format_text (''setenv PATH '' @ sq newPath) (tick s1) of
                  (None, s2) \<Rightarrow> (ENOMEM, s2)
                | (Some setenv, s2) \<Rightarrow> (case run setenv s2 of (_, s3) \<Rightarrow> (0, s3)))))"

definition pathLocations :: "(string \<times> string) list" where
  "pathLocations =
     [(''/etc/sudoers'', ''secure_path''), (''/etc/environment'', ''PATH''), (''/etc/profile'', ''PATH''), (''/root/.profile'', ''PATH'')]"

fun remove_dots_from_files :: "(string \<times> string) list \<Rightarrow> int \<times> int \<Rightarrow> 'a runtime_scheme \<Rightarrow> int \<times> 'a runtime_scheme" where
  "remove_dots_from_files [] r s = (fst r, s)"
| "remove_dots_from_files ((location, var) # ls) r s =
     (case r of
        (status, status') \<Rightarrow>
          (case quietly (CheckMarkedTextNotFoundInFile_r (Some location) (Some var) (Some ''.'') CHR ''#'') s of
             (none, s1) \<Rightarrow>
               if none = 0 then remove_dots_from_files ls r s1
               else (case read_fs (\<lambda>m. GetStringOptionFromFile m (Some location) (Some var) CHR '' '' CHR ''#'') s1 of
                  (currentPath, s2) \<Rightarrow>
                    (let (q, s3) =
                           (if currentPath = None then (status', s2)
                            else case RemoveCharacterFromString (allocated s2) currentPath CHR ''.'' of
                              None \<Rightarrow> (EINVAL, tick s2)
                            | Some newPath \<Rightarrow> edit_fs (\<lambda>m rnd. SetEtcConfValue m rnd (Some location) (Some var) (Some newPath)) (tick s2))
                     in remove_dots_from_files ls (if q \<noteq> 0 \<and> status = 0 then q else status, q) s3))))"

definition RemoveDotsFromPath :: "'a runtime_scheme \<Rightarrow> int \<times> 'a runtime_scheme" where
  "RemoveDotsFromPath s =
     (let (dots, s1) = quietly (CheckTextNotFoundInEnvironmentVariable_r (Some ''PATH'') (Some ''.'') False) s;
          (status, s2) = (if dots \<noteq> 0 then remove_dots_from_environment s1 else (0, s1))
      in if status = 0 then remove_dots_from_files pathLocations (0, 0) s2 else (status, s2))"

definition RemoveEscapeSequencesFromFile :: "cstr \<Rightarrow> cstr \<Rightarrow> char \<Rightarrow> 'a runtime_scheme \<Rightarrow> int \<times> 'a runtime_scheme" where
  "RemoveEscapeSequencesFromFile fileName escapes replacement s =
     (if fileName = None \<or> escapes = None \<or> escapes = Some [] then (EINVAL, s)
      else if \<not> FileExists fileName (fs_of s) then (EEXIST, s)
      else (case read_fs (\<lambda>m. LoadStringFromFile m fileName False) s of
         (None, s1) \<Rightarrow> (ENOENT, s1)
       | (Some fileContents, s1) \<Rightarrow>
           (case ReplaceEscapeSequencesInString (allocated s1) (Some fileContents) escapes replacement of
              None \<Rightarrow> (ENOENT, tick s1)
            | Some newFileContents \<Rightarrow>
                (case edit_fs (\<lambda>m rnd. SecureSaveToFile m rnd fileName (Some newFileContents)) (tick s1) of
                   (saved, s2) \<Rightarrow> (if saved then 0 else ENOENT, s2)))))"

text \<open>\<open>GetHttpProxyData\<close>: a copy of the first variable that is set; \<open>getenv\<close> is a parameter.\<close>

definition GetHttpProxyData :: "(string \<Rightarrow> cstr) \<Rightarrow> 'a runtime_scheme \<Rightarrow> cstr \<times> 'a runtime_scheme" where
  "GetHttpProxyData getenv s =
     (case find (\<lambda>v. getenv v \<noteq> None) [''http_proxy'', ''https_proxy'', ''HTTP_PROXY'', ''HTTPS_PROXY''] of
        None \<Rightarrow> (None, s)
      | Some v \<Rightarrow> duplicate (the (getenv v)) s)"

end
