(* ===== verification/AsbState.thy ===== *)
theory AsbState
  imports PassUtils MountUtils SshUtils OtherUtils ConfigUtils
begin

text \<open>
  The state of the security baseline (\<open>src/common/asb/Asb.c\<close>) and the shapes its checks are written in. A check is an action:
  a function of the state with a result, or \<open>None\<close> when the code follows a \<open>NULL\<close> pointer. The actions below are the
  expressions and statements the checks are made of: a call, the operators \<open>&&\<close> and \<open>||\<close>, a condition, and the macros
  \<open>RETURN_REASON_IF_ZERO\<close> and \<open>RETURN_REASON_IF_NOT_ZERO\<close>.
\<close>

subsection \<open>The state\<close>

datatype file_format = S_IFBLK | S_IFCHR | S_IFDIR | S_IFIFO | S_IFLNK | S_IFREG | S_IFSOCK | S_IFOTHER

text \<open>\<open>lstat_of\<close> is what \<open>lstat\<close> says of the format of a file; the static variables of \<open>IsRedHatBased\<close> are \<open>red_hat\<close>.\<close>

record asb = baseline +
  g_auditOnly :: bool
  process_level :: int
  process_log_size :: int
  process_log_multiplier :: int
  red_hat :: "bool \<times> bool"
  g_prettyName :: cstr
  g_selinuxPresent :: bool
  lstat_of :: "string \<Rightarrow> file_format option"

subsection \<open>Names\<close>

text \<open>The constants of \<open>Asb.c\<close> that the checks use.\<close>

abbreviation g_auditEnsurePermissionsOnEtcSshSshdConfigObject :: string where "g_auditEnsurePermissionsOnEtcSshSshdConfigObject \<equiv> ''auditEnsurePermissionsOnEtcSshSshdConfig''"
abbreviation g_auditEnsureSshPortIsConfiguredObject :: string where "g_auditEnsureSshPortIsConfiguredObject \<equiv> ''auditEnsureSshPortIsConfigured''"
abbreviation g_auditEnsureSshBestPracticeProtocolObject :: string where "g_auditEnsureSshBestPracticeProtocolObject \<equiv> ''auditEnsureSshBestPracticeProtocol''"
abbreviation g_auditEnsureSshBestPracticeIgnoreRhostsObject :: string where "g_auditEnsureSshBestPracticeIgnoreRhostsObject \<equiv> ''auditEnsureSshBestPracticeIgnoreRhosts''"
abbreviation g_auditEnsureSshLogLevelIsSetObject :: string where "g_auditEnsureSshLogLevelIsSetObject \<equiv> ''auditEnsureSshLogLevelIsSet''"
abbreviation g_auditEnsureSshMaxAuthTriesIsSetObject :: string where "g_auditEnsureSshMaxAuthTriesIsSetObject \<equiv> ''auditEnsureSshMaxAuthTriesIsSet''"
abbreviation g_auditEnsureAllowUsersIsConfiguredObject :: string where "g_auditEnsureAllowUsersIsConfiguredObject \<equiv> ''auditEnsureAllowUsersIsConfigured''"
abbreviation g_auditEnsureDenyUsersIsConfiguredObject :: string where "g_auditEnsureDenyUsersIsConfiguredObject \<equiv> ''auditEnsureDenyUsersIsConfigured''"
abbreviation g_auditEnsureAllowGroupsIsConfiguredObject :: string where "g_auditEnsureAllowGroupsIsConfiguredObject \<equiv> ''auditEnsureAllowGroupsIsConfigured''"
abbreviation g_auditEnsureDenyGroupsConfiguredObject :: string where "g_auditEnsureDenyGroupsConfiguredObject \<equiv> ''auditEnsureDenyGroupsConfigured''"
abbreviation g_auditEnsureSshHostbasedAuthenticationIsDisabledObject :: string where "g_auditEnsureSshHostbasedAuthenticationIsDisabledObject \<equiv> ''auditEnsureSshHostbasedAuthenticationIsDisabled''"
abbreviation g_auditEnsureSshPermitRootLoginIsDisabledObject :: string where "g_auditEnsureSshPermitRootLoginIsDisabledObject \<equiv> ''auditEnsureSshPermitRootLoginIsDisabled''"
abbreviation g_auditEnsureSshPermitEmptyPasswordsIsDisabledObject :: string where "g_auditEnsureSshPermitEmptyPasswordsIsDisabledObject \<equiv> ''auditEnsureSshPermitEmptyPasswordsIsDisabled''"
abbreviation g_auditEnsureSshClientIntervalCountMaxIsConfiguredObject :: string where "g_auditEnsureSshClientIntervalCountMaxIsConfiguredObject \<equiv> ''auditEnsureSshClientIntervalCountMaxIsConfigured''"
abbreviation g_auditEnsureSshClientAliveIntervalIsConfiguredObject :: string where "g_auditEnsureSshClientAliveIntervalIsConfiguredObject \<equiv> ''auditEnsureSshClientAliveIntervalIsConfigured''"
abbreviation g_auditEnsureSshLoginGraceTimeIsSetObject :: string where "g_auditEnsureSshLoginGraceTimeIsSetObject \<equiv> ''auditEnsureSshLoginGraceTimeIsSet''"
abbreviation g_auditEnsureOnlyApprovedMacAlgorithmsAreUsedObject :: string where "g_auditEnsureOnlyApprovedMacAlgorithmsAreUsedObject \<equiv> ''auditEnsureOnlyApprovedMacAlgorithmsAreUsed''"
abbreviation g_auditEnsureSshWarningBannerIsEnabledObject :: string where "g_auditEnsureSshWarningBannerIsEnabledObject \<equiv> ''auditEnsureSshWarningBannerIsEnabled''"
abbreviation g_auditEnsureUsersCannotSetSshEnvironmentOptionsObject :: string where "g_auditEnsureUsersCannotSetSshEnvironmentOptionsObject \<equiv> ''auditEnsureUsersCannotSetSshEnvironmentOptions''"
abbreviation g_auditEnsureAppropriateCiphersForSshObject :: string where "g_auditEnsureAppropriateCiphersForSshObject \<equiv> ''auditEnsureAppropriateCiphersForSsh''"
abbreviation g_remediateEnsurePermissionsOnEtcSshSshdConfigObject :: string where "g_remediateEnsurePermissionsOnEtcSshSshdConfigObject \<equiv> ''remediateEnsurePermissionsOnEtcSshSshdConfig''"
abbreviation g_remediateEnsureSshPortIsConfiguredObject :: string where "g_remediateEnsureSshPortIsConfiguredObject \<equiv> ''remediateEnsureSshPortIsConfigured''"
abbreviation g_remediateEnsureSshBestPracticeProtocolObject :: string where "g_remediateEnsureSshBestPracticeProtocolObject \<equiv> ''remediateEnsureSshBestPracticeProtocol''"
abbreviation g_remediateEnsureSshBestPracticeIgnoreRhostsObject :: string where "g_remediateEnsureSshBestPracticeIgnoreRhostsObject \<equiv> ''remediateEnsureSshBestPracticeIgnoreRhosts''"
abbreviation g_remediateEnsureSshLogLevelIsSetObject :: string where "g_remediateEnsureSshLogLevelIsSetObject \<equiv> ''remediateEnsureSshLogLevelIsSet''"
abbreviation g_remediateEnsureSshMaxAuthTriesIsSetObject :: string where "g_remediateEnsureSshMaxAuthTriesIsSetObject \<equiv> ''remediateEnsureSshMaxAuthTriesIsSet''"
abbreviation g_remediateEnsureAllowUsersIsConfiguredObject :: string where "g_remediateEnsureAllowUsersIsConfiguredObject \<equiv> ''remediateEnsureAllowUsersIsConfigured''"
abbreviation g_remediateEnsureDenyUsersIsConfiguredObject :: string where "g_remediateEnsureDenyUsersIsConfiguredObject \<equiv> ''remediateEnsureDenyUsersIsConfigured''"
abbreviation g_remediateEnsureAllowGroupsIsConfiguredObject :: string where "g_remediateEnsureAllowGroupsIsConfiguredObject \<equiv> ''remediateEnsureAllowGroupsIsConfigured''"
abbreviation g_remediateEnsureDenyGroupsConfiguredObject :: string where "g_remediateEnsureDenyGroupsConfiguredObject \<equiv> ''remediateEnsureDenyGroupsConfigured''"
abbreviation g_remediateEnsureSshHostbasedAuthenticationIsDisabledObject :: string where "g_remediateEnsureSshHostbasedAuthenticationIsDisabledObject \<equiv> ''remediateEnsureSshHostbasedAuthenticationIsDisabled''"
abbreviation g_remediateEnsureSshPermitRootLoginIsDisabledObject :: string where "g_remediateEnsureSshPermitRootLoginIsDisabledObject \<equiv> ''remediateEnsureSshPermitRootLoginIsDisabled''"
abbreviation g_remediateEnsureSshPermitEmptyPasswordsIsDisabledObject :: string where "g_remediateEnsureSshPermitEmptyPasswordsIsDisabledObject \<equiv> ''remediateEnsureSshPermitEmptyPasswordsIsDisabled''"
abbreviation g_remediateEnsureSshClientIntervalCountMaxIsConfiguredObject :: string where "g_remediateEnsureSshClientIntervalCountMaxIsConfiguredObject \<equiv> ''remediateEnsureSshClientIntervalCountMaxIsConfigured''"
abbreviation g_remediateEnsureSshClientAliveIntervalIsConfiguredObject :: string where "g_remediateEnsureSshClientAliveIntervalIsConfiguredObject \<equiv> ''remediateEnsureSshClientAliveIntervalIsConfigured''"
abbreviation g_remediateEnsureSshLoginGraceTimeIsSetObject :: string where "g_remediateEnsureSshLoginGraceTimeIsSetObject \<equiv> ''remediateEnsureSshLoginGraceTimeIsSet''"
abbreviation g_remediateEnsureOnlyApprovedMacAlgorithmsAreUsedObject :: string where "g_remediateEnsureOnlyApprovedMacAlgorithmsAreUsedObject \<equiv> ''remediateEnsureOnlyApprovedMacAlgorithmsAreUsed''"
abbreviation g_remediateEnsureSshWarningBannerIsEnabledObject :: string where "g_remediateEnsureSshWarningBannerIsEnabledObject \<equiv> ''remediateEnsureSshWarningBannerIsEnabled''"
abbreviation g_remediateEnsureUsersCannotSetSshEnvironmentOptionsObject :: string where "g_remediateEnsureUsersCannotSetSshEnvironmentOptionsObject \<equiv> ''remediateEnsureUsersCannotSetSshEnvironmentOptions''"
abbreviation g_remediateEnsureAppropriateCiphersForSshObject :: string where "g_remediateEnsureAppropriateCiphersForSshObject \<equiv> ''remediateEnsureAppropriateCiphersForSsh''"
abbreviation g_defaultLoggingLevel :: string where "g_defaultLoggingLevel \<equiv> ''Informational''"
abbreviation g_defaultEnsurePermissionsOnEtcIssue :: string where "g_defaultEnsurePermissionsOnEtcIssue \<equiv> ''00644''"
abbreviation g_defaultEnsurePermissionsOnEtcIssueNet :: string where "g_defaultEnsurePermissionsOnEtcIssueNet \<equiv> ''00644''"
abbreviation g_defaultEnsurePermissionsOnEtcHostsAllow :: string where "g_defaultEnsurePermissionsOnEtcHostsAllow \<equiv> ''00644''"
abbreviation g_defaultEnsurePermissionsOnEtcHostsDeny :: string where "g_defaultEnsurePermissionsOnEtcHostsDeny \<equiv> ''00644''"
abbreviation g_defaultEnsurePermissionsOnEtcShadow :: string where "g_defaultEnsurePermissionsOnEtcShadow \<equiv> ''00400''"
abbreviation g_defaultEnsurePermissionsOnEtcShadowDash :: string where "g_defaultEnsurePermissionsOnEtcShadowDash \<equiv> ''00400''"
abbreviation g_defaultEnsurePermissionsOnEtcGShadow :: string where "g_defaultEnsurePermissionsOnEtcGShadow \<equiv> ''00400''"
abbreviation g_defaultEnsurePermissionsOnEtcGShadowDash :: string where "g_defaultEnsurePermissionsOnEtcGShadowDash \<equiv> ''00400''"
abbreviation g_defaultEnsurePermissionsOnEtcPasswd :: string where "g_defaultEnsurePermissionsOnEtcPasswd \<equiv> ''00644''"
abbreviation g_defaultEnsurePermissionsOnEtcPasswdDash :: string where "g_defaultEnsurePermissionsOnEtcPasswdDash \<equiv> ''00644''"
abbreviation g_defaultEnsurePermissionsOnEtcGroup :: string where "g_defaultEnsurePermissionsOnEtcGroup \<equiv> ''00644''"
abbreviation g_defaultEnsurePermissionsOnEtcGroupDash :: string where "g_defaultEnsurePermissionsOnEtcGroupDash \<equiv> ''00644''"
abbreviation g_defaultEnsurePermissionsOnEtcAnacronTab :: string where "g_defaultEnsurePermissionsOnEtcAnacronTab \<equiv> ''00600''"
abbreviation g_defaultEnsurePermissionsOnEtcCronD :: string where "g_defaultEnsurePermissionsOnEtcCronD \<equiv> ''00700''"
abbreviation g_defaultEnsurePermissionsOnEtcCronDaily :: string where "g_defaultEnsurePermissionsOnEtcCronDaily \<equiv> ''00700''"
abbreviation g_defaultEnsurePermissionsOnEtcCronHourly :: string where "g_defaultEnsurePermissionsOnEtcCronHourly \<equiv> ''00700''"
abbreviation g_defaultEnsurePermissionsOnEtcCronMonthly :: string where "g_defaultEnsurePermissionsOnEtcCronMonthly \<equiv> ''00700''"
abbreviation g_defaultEnsurePermissionsOnEtcCronWeekly :: string where "g_defaultEnsurePermissionsOnEtcCronWeekly \<equiv> ''00700''"
abbreviation g_defaultEnsurePermissionsOnEtcMotd :: string where "g_defaultEnsurePermissionsOnEtcMotd \<equiv> ''00644''"
abbreviation g_defaultEnsureRestrictedUserHomeDirectories :: string where "g_defaultEnsureRestrictedUserHomeDirectories \<equiv> ''00700,00750''"
abbreviation g_defaultEnsurePasswordHashingAlgorithm :: string where "g_defaultEnsurePasswordHashingAlgorithm \<equiv> ''6''"
abbreviation g_defaultEnsureMinDaysBetweenPasswordChanges :: string where "g_defaultEnsureMinDaysBetweenPasswordChanges \<equiv> ''7''"
abbreviation g_defaultEnsureInactivePasswordLockPeriod :: string where "g_defaultEnsureInactivePasswordLockPeriod \<equiv> ''30''"
abbreviation g_defaultEnsureMaxDaysBetweenPasswordChanges :: string where "g_defaultEnsureMaxDaysBetweenPasswordChanges \<equiv> ''365''"
abbreviation g_defaultEnsurePasswordExpiration :: string where "g_defaultEnsurePasswordExpiration \<equiv> ''365''"
abbreviation g_defaultEnsurePasswordExpirationWarning :: string where "g_defaultEnsurePasswordExpirationWarning \<equiv> ''7''"
abbreviation g_defaultEnsureDefaultUmaskForAllUsers :: string where "g_defaultEnsureDefaultUmaskForAllUsers \<equiv> ''077''"
abbreviation g_defaultEnsurePermissionsOnBootloaderConfig :: string where "g_defaultEnsurePermissionsOnBootloaderConfig \<equiv> ''00400''"
abbreviation g_defaultEnsurePasswordReuseIsLimited :: string where "g_defaultEnsurePasswordReuseIsLimited \<equiv> ''5''"
abbreviation g_defaultEnsurePasswordCreationRequirements :: string where "g_defaultEnsurePasswordCreationRequirements \<equiv> ''1,14,4,-1,-1,-1,-1''"
abbreviation g_defaultEnsureFilePermissionsForAllRsyslogLogFiles :: string where "g_defaultEnsureFilePermissionsForAllRsyslogLogFiles \<equiv> ''00600,00640''"
abbreviation g_defaultEnsureUsersDotFilesArentGroupOrWorldWritable :: string where "g_defaultEnsureUsersDotFilesArentGroupOrWorldWritable \<equiv> ''00600,00644,00664,00700,00744''"
abbreviation g_defaultEnsureUnnecessaryAccountsAreRemoved :: string where "g_defaultEnsureUnnecessaryAccountsAreRemoved \<equiv> ''games,test''"
abbreviation g_defaultEnsureDefaultDenyFirewallPolicyIsSet :: string where "g_defaultEnsureDefaultDenyFirewallPolicyIsSet \<equiv> ''0''"
abbreviation g_etcIssue :: string where "g_etcIssue \<equiv> ''/etc/issue''"
abbreviation g_etcIssueNet :: string where "g_etcIssueNet \<equiv> ''/etc/issue.net''"
abbreviation g_etcHostsAllow :: string where "g_etcHostsAllow \<equiv> ''/etc/hosts.allow''"
abbreviation g_etcHostsDeny :: string where "g_etcHostsDeny \<equiv> ''/etc/hosts.deny''"
abbreviation g_etcCronAllow :: string where "g_etcCronAllow \<equiv> ''/etc/cron.allow''"
abbreviation g_etcAtAllow :: string where "g_etcAtAllow \<equiv> ''/etc/at.allow''"
abbreviation g_etcCronDeny :: string where "g_etcCronDeny \<equiv> ''/etc/cron.deny''"
abbreviation g_etcAtDeny :: string where "g_etcAtDeny \<equiv> ''/etc/at.deny''"
abbreviation g_etcShadow :: string where "g_etcShadow \<equiv> ''/etc/shadow''"
abbreviation g_etcShadowDash :: string where "g_etcShadowDash \<equiv> ''/etc/shadow-''"
abbreviation g_etcGShadow :: string where "g_etcGShadow \<equiv> ''/etc/gshadow''"
abbreviation g_etcGShadowDash :: string where "g_etcGShadowDash \<equiv> ''/etc/gshadow-''"
abbreviation g_etcPasswd :: string where "g_etcPasswd \<equiv> ''/etc/passwd''"
abbreviation g_etcPasswdDash :: string where "g_etcPasswdDash \<equiv> ''/etc/passwd-''"
abbreviation g_etcPamdPasswordAuth :: string where "g_etcPamdPasswordAuth \<equiv> ''/etc/pam.d/password-auth''"
abbreviation g_etcPamdSystemAuth :: string where "g_etcPamdSystemAuth \<equiv> ''/etc/pam.d/system-auth''"
abbreviation g_etcPamdLogin :: string where "g_etcPamdLogin \<equiv> ''/etc/pam.d/login''"
abbreviation g_etcPamdCommonAuth :: string where "g_etcPamdCommonAuth \<equiv> ''/etc/pam.d/common-auth''"
abbreviation g_etcSecurityFaillockConf :: string where "g_etcSecurityFaillockConf \<equiv> ''/etc/security/faillock.conf''"
abbreviation g_etcGroup :: string where "g_etcGroup \<equiv> ''/etc/group''"
abbreviation g_etcGroupDash :: string where "g_etcGroupDash \<equiv> ''/etc/group-''"
abbreviation g_etcAnacronTab :: string where "g_etcAnacronTab \<equiv> ''/etc/anacrontab''"
abbreviation g_etcCronD :: string where "g_etcCronD \<equiv> ''/etc/cron.d''"
abbreviation g_etcCronDaily :: string where "g_etcCronDaily \<equiv> ''/etc/cron.daily''"
abbreviation g_etcCronHourly :: string where "g_etcCronHourly \<equiv> ''/etc/cron.hourly''"
abbreviation g_etcCronMonthly :: string where "g_etcCronMonthly \<equiv> ''/etc/cron.monthly''"
abbreviation g_etcCronWeekly :: string where "g_etcCronWeekly \<equiv> ''/etc/cron.weekly''"
abbreviation g_etcMotd :: string where "g_etcMotd \<equiv> ''/etc/motd''"
abbreviation g_etcEnvironment :: string where "g_etcEnvironment \<equiv> ''/etc/environment''"
abbreviation g_etcFstab :: string where "g_etcFstab \<equiv> ''/etc/fstab''"
abbreviation g_etcInetdConf :: string where "g_etcInetdConf \<equiv> ''/etc/inetd.conf''"
abbreviation g_etcModProbeD :: string where "g_etcModProbeD \<equiv> ''/etc/modprobe.d''"
abbreviation g_etcProfile :: string where "g_etcProfile \<equiv> ''/etc/profile''"
abbreviation g_etcRsyslogConf :: string where "g_etcRsyslogConf \<equiv> ''/etc/rsyslog.conf''"
abbreviation g_etcSyslogNgSyslogNgConf :: string where "g_etcSyslogNgSyslogNgConf \<equiv> ''/etc/syslog-ng/syslog-ng.conf''"
abbreviation g_etcNetworkInterfaces :: string where "g_etcNetworkInterfaces \<equiv> ''/etc/network/interfaces''"
abbreviation g_etcSysconfigNetwork :: string where "g_etcSysconfigNetwork \<equiv> ''/etc/sysconfig/network''"
abbreviation g_etcSysctlConf :: string where "g_etcSysctlConf \<equiv> ''/etc/sysctl.conf''"
abbreviation g_etcRcLocal :: string where "g_etcRcLocal \<equiv> ''/etc/rc.local''"
abbreviation g_etcSambaConf :: string where "g_etcSambaConf \<equiv> ''/etc/samba/smb.conf''"
abbreviation g_etcPostfixMainCf :: string where "g_etcPostfixMainCf \<equiv> ''/etc/postfix/main.cf''"
abbreviation g_etcCronDailyLogRotate :: string where "g_etcCronDailyLogRotate \<equiv> ''/etc/cron.daily/logrotate''"
abbreviation g_etcSecurityLimitsConf :: string where "g_etcSecurityLimitsConf \<equiv> ''/etc/security/limits.conf''"
abbreviation g_sysCtlConf :: string where "g_sysCtlConf \<equiv> ''/etc/sysctl.d/99-sysctl.conf''"
abbreviation g_home :: string where "g_home \<equiv> ''/home''"
abbreviation g_devShm :: string where "g_devShm \<equiv> ''/dev/shm''"
abbreviation g_tmp :: string where "g_tmp \<equiv> ''/tmp''"
abbreviation g_varTmp :: string where "g_varTmp \<equiv> ''/var/tmp''"
abbreviation g_varLogJournal :: string where "g_varLogJournal \<equiv> ''/var/log/journal''"
abbreviation g_media :: string where "g_media \<equiv> ''/media/''"
abbreviation g_nodev :: string where "g_nodev \<equiv> ''nodev''"
abbreviation g_nosuid :: string where "g_nosuid \<equiv> ''nosuid''"
abbreviation g_noexec :: string where "g_noexec \<equiv> ''noexec''"
abbreviation g_inetd :: string where "g_inetd \<equiv> ''inetd''"
abbreviation g_inetUtilsInetd :: string where "g_inetUtilsInetd \<equiv> ''inetutils-inetd''"
abbreviation g_rlogin :: string where "g_rlogin \<equiv> ''rlogin''"
abbreviation g_xinetd :: string where "g_xinetd \<equiv> ''xinetd''"
abbreviation g_rshServer :: string where "g_rshServer \<equiv> ''rsh-server''"
abbreviation g_nfs :: string where "g_nfs \<equiv> ''nfs''"
abbreviation g_nis :: string where "g_nis \<equiv> ''nis''"
abbreviation g_tftp :: string where "g_tftp \<equiv> ''tftp''"
abbreviation g_tftpHpa :: string where "g_tftpHpa \<equiv> ''tftpd-hpa''"
abbreviation g_readAheadFedora :: string where "g_readAheadFedora \<equiv> ''readahead-fedora''"
abbreviation g_bluetooth :: string where "g_bluetooth \<equiv> ''bluetooth''"
abbreviation g_isdnUtilsBase :: string where "g_isdnUtilsBase \<equiv> ''isdnutils-base''"
abbreviation g_kdumpTools :: string where "g_kdumpTools \<equiv> ''kdump-tools''"
abbreviation g_iscDhcpServer :: string where "g_iscDhcpServer \<equiv> ''isc-dhcp-server''"
abbreviation g_sendmail :: string where "g_sendmail \<equiv> ''sendmail''"
abbreviation g_slapd :: string where "g_slapd \<equiv> ''slapd''"
abbreviation g_bind9 :: string where "g_bind9 \<equiv> ''bind9''"
abbreviation g_dovecotCore :: string where "g_dovecotCore \<equiv> ''dovecot-core''"
abbreviation g_auoms :: string where "g_auoms \<equiv> ''auoms''"
abbreviation g_audit :: string where "g_audit \<equiv> ''audit''"
abbreviation g_auditd :: string where "g_auditd \<equiv> ''auditd''"
abbreviation g_auditLibs :: string where "g_auditLibs \<equiv> ''audit-libs''"
abbreviation g_auditLibsDevel :: string where "g_auditLibsDevel \<equiv> ''audit-libs-devel''"
abbreviation g_prelink :: string where "g_prelink \<equiv> ''prelink''"
abbreviation g_talk :: string where "g_talk \<equiv> ''talk''"
abbreviation g_cron :: string where "g_cron \<equiv> ''cron''"
abbreviation g_crond :: string where "g_crond \<equiv> ''crond''"
abbreviation g_cronie :: string where "g_cronie \<equiv> ''cronie''"
abbreviation g_syslog :: string where "g_syslog \<equiv> ''syslog''"
abbreviation g_rsyslog :: string where "g_rsyslog \<equiv> ''rsyslog''"
abbreviation g_syslogNg :: string where "g_syslogNg \<equiv> ''syslog-ng''"
abbreviation g_systemd :: string where "g_systemd \<equiv> ''systemd''"
abbreviation g_postfix :: string where "g_postfix \<equiv> ''postfix''"
abbreviation g_avahiDaemon :: string where "g_avahiDaemon \<equiv> ''avahi-daemon''"
abbreviation g_avahiDaemonSocket :: string where "g_avahiDaemonSocket \<equiv> ''avahi-daemon.socket''"
abbreviation g_cups :: string where "g_cups \<equiv> ''cups''"
abbreviation g_rpcgssd :: string where "g_rpcgssd \<equiv> ''rpcgssd''"
abbreviation g_rpcGssd :: string where "g_rpcGssd \<equiv> ''rpc-gssd''"
abbreviation g_rpcidmapd :: string where "g_rpcidmapd \<equiv> ''rpcidmapd''"
abbreviation g_nfsIdmapd :: string where "g_nfsIdmapd \<equiv> ''nfs-idmapd''"
abbreviation g_rpcbind :: string where "g_rpcbind \<equiv> ''rpcbind''"
abbreviation g_rpcbindSocket :: string where "g_rpcbindSocket \<equiv> ''rpcbind.socket''"
abbreviation g_nfsServer :: string where "g_nfsServer \<equiv> ''nfs-server''"
abbreviation g_legacyNetworkService :: string where "g_legacyNetworkService \<equiv> ''network.service''"
abbreviation g_snmpd :: string where "g_snmpd \<equiv> ''snmpd''"
abbreviation g_rsync :: string where "g_rsync \<equiv> ''rsync''"
abbreviation g_ypserv :: string where "g_ypserv \<equiv> ''ypserv''"
abbreviation g_rsh :: string where "g_rsh \<equiv> ''rsh''"
abbreviation g_rshClient :: string where "g_rshClient \<equiv> ''rsh-client''"
abbreviation g_forward :: string where "g_forward \<equiv> ''forward''"
abbreviation g_netrc :: string where "g_netrc \<equiv> ''netrc''"
abbreviation g_rhosts :: string where "g_rhosts \<equiv> ''rhosts''"
abbreviation g_systemdJournald :: string where "g_systemdJournald \<equiv> ''systemd-journald''"
abbreviation g_allTelnetd :: string where "g_allTelnetd \<equiv> ''*telnetd*''"
abbreviation g_samba :: string where "g_samba \<equiv> ''samba''"
abbreviation g_smbd :: string where "g_smbd \<equiv> ''smbd''"
abbreviation g_smb :: string where "g_smb \<equiv> ''smb''"
abbreviation g_rpcSvcgssd :: string where "g_rpcSvcgssd \<equiv> ''rpc.svcgssd''"
abbreviation g_needSvcgssd :: string where "g_needSvcgssd \<equiv> ''NEED_SVCGSSD = yes''"
abbreviation g_inetInterfacesLocalhost :: string where "g_inetInterfacesLocalhost \<equiv> ''inet_interfaces localhost''"
abbreviation g_autofs :: string where "g_autofs \<equiv> ''autofs''"
abbreviation g_ipv4ll :: string where "g_ipv4ll \<equiv> ''ipv4ll''"
abbreviation g_sysCtlA :: string where "g_sysCtlA \<equiv> ''sysctl -a''"
abbreviation g_fileCreateMode :: string where "g_fileCreateMode \<equiv> ''$FileCreateMode''"
abbreviation g_logrotate :: string where "g_logrotate \<equiv> ''logrotate''"
abbreviation g_logrotateTimer :: string where "g_logrotateTimer \<equiv> ''logrotate.timer''"
abbreviation g_telnet :: string where "g_telnet \<equiv> ''telnet''"
abbreviation g_rcpSocket :: string where "g_rcpSocket \<equiv> ''rcp.socket''"
abbreviation g_rshSocket :: string where "g_rshSocket \<equiv> ''rsh.socket''"
abbreviation g_hardCoreZero :: string where "g_hardCoreZero \<equiv> (''*'' @ [CHR 0x09] @ ''hard'' @ [CHR 0x09] @ ''core'' @ [CHR 0x09] @ ''0'' @ [EOL])"
abbreviation g_fsSuidDumpable :: string where "g_fsSuidDumpable \<equiv> ''fs.suid_dumpable = 0''"
abbreviation g_bootGrubGrubCfg :: string where "g_bootGrubGrubCfg \<equiv> ''/boot/grub/grub.cfg''"
abbreviation g_bootGrubGrubConf :: string where "g_bootGrubGrubConf \<equiv> ''/boot/grub/grub.conf''"
abbreviation g_bootGrub2GrubCfg :: string where "g_bootGrub2GrubCfg \<equiv> ''/boot/grub2/grub.cfg''"
abbreviation g_bootGrub2GrubConf :: string where "g_bootGrub2GrubConf \<equiv> ''/boot/grub2/grub.conf''"
abbreviation g_bootGrubUserCfg :: string where "g_bootGrubUserCfg \<equiv> ''/boot/grub/user.cfg''"
abbreviation g_bootGrub2UserCfg :: string where "g_bootGrub2UserCfg \<equiv> ''/boot/grub2/user.cfg''"
abbreviation g_minSambaProtocol :: string where "g_minSambaProtocol \<equiv> ''min protocol = SMB2''"
abbreviation g_login :: string where "g_login \<equiv> ''login''"
abbreviation g_conf :: string where "g_conf \<equiv> ''.conf''"
abbreviation g_remediationIsNotPossible :: string where "g_remediationIsNotPossible \<equiv> ''automatic remediation is not possible''"
abbreviation PRETTY_NAME_SLES_15 :: string where "PRETTY_NAME_SLES_15 \<equiv> ''SUSE Linux Enterprise Server 15''"
abbreviation PRETTY_NAME_UBUNTU_16_04 :: string where "PRETTY_NAME_UBUNTU_16_04 \<equiv> ''Ubuntu 16.04''"
abbreviation PRETTY_NAME_UBUNTU_18_04 :: string where "PRETTY_NAME_UBUNTU_18_04 \<equiv> ''Ubuntu 18.04''"

subsection \<open>Actions\<close>

type_synonym ('s, 'a) act = "'s \<Rightarrow> ('a \<times> 's) option"

named_theorems acts \<open>definitions of the actions\<close>
named_theorems audits \<open>definitions of the audits\<close>
named_theorems inits \<open>definitions of the calls that set a desired value\<close>
named_theorems remediations \<open>definitions of the remediations\<close>

definition call :: "('s \<Rightarrow> 'a \<times> 's) \<Rightarrow> ('s, 'a) act" where [acts]:
  "call f = (\<lambda>s. Some (f s))"

definition ret :: "'a \<Rightarrow> ('s, 'a) act" where [acts]:
  "ret x = (\<lambda>s. Some (x, s))"

definition andThen :: "('s, 'a) act \<Rightarrow> ('a \<Rightarrow> ('s, 'b) act) \<Rightarrow> ('s, 'b) act" where [acts]:
  "andThen f g = (\<lambda>s. case f s of None \<Rightarrow> None | Some (x, s1) \<Rightarrow> g x s1)"

definition seq :: "('s, 'a) act \<Rightarrow> ('s, 'b) act \<Rightarrow> ('s, 'b) act" where [acts]:
  "seq f g = andThen f (\<lambda>_. g)"

text \<open>An action that reads the state it starts in.\<close>

definition with_state :: "('s \<Rightarrow> ('s, 'a) act) \<Rightarrow> ('s, 'a) act" where [acts]:
  "with_state f = (\<lambda>s. f s s)"

definition is_zero :: "('s, int) act \<Rightarrow> ('s, bool) act" where [acts]:
  "is_zero f = andThen f (\<lambda>r. ret (r = 0))"

definition negate :: "('s, bool) act \<Rightarrow> ('s, bool) act" where [acts]:
  "negate f = andThen f (\<lambda>b. ret (\<not> b))"

definition both :: "('s, bool) act \<Rightarrow> ('s, bool) act \<Rightarrow> ('s, bool) act" where [acts]:
  "both f g = andThen f (\<lambda>b. if b then g else ret False)"

definition either :: "('s, bool) act \<Rightarrow> ('s, bool) act \<Rightarrow> ('s, bool) act" where [acts]:
  "either f g = andThen f (\<lambda>b. if b then ret True else g)"

text \<open>Chains of \<open>&&\<close> and of \<open>||\<close>.\<close>

fun all_of :: "('s, bool) act list \<Rightarrow> ('s, bool) act" where
  "all_of [] = ret True"
| "all_of (f # fs) = both f (all_of fs)"

fun any_of :: "('s, bool) act list \<Rightarrow> ('s, bool) act" where
  "any_of [] = ret False"
| "any_of (f # fs) = either f (any_of fs)"

definition branch :: "('s, bool) act \<Rightarrow> ('s, 'a) act \<Rightarrow> ('s, 'a) act \<Rightarrow> ('s, 'a) act" where [acts]:
  "branch c f g = andThen c (\<lambda>b. if b then f else g)"

text \<open>\<open>c ? 0 : ENOENT\<close>.\<close>

definition status_of :: "('s, bool) act \<Rightarrow> ('s, int) act" where [acts]:
  "status_of c = branch c (ret 0) (ret ENOENT)"

text \<open>The macros: what follows is done unless the function returns.\<close>

definition return_if_zero :: "('s, int) act \<Rightarrow> ('s, unit) act \<Rightarrow> ('s, unit) act" where [acts]:
  "return_if_zero f g = branch (is_zero f) (ret ()) g"

definition return_if_not_zero :: "('s, int) act \<Rightarrow> ('s, unit) act \<Rightarrow> ('s, unit) act" where [acts]:
  "return_if_not_zero f g = branch (is_zero f) g (ret ())"

definition ignore :: "('s, 'a) act \<Rightarrow> ('s, unit) act" where [acts]:
  "ignore f = seq f (ret ())"

text \<open>A call with \<open>NULL\<close> for the reason.\<close>

definition silent :: "('a runtime_scheme, 'b) act \<Rightarrow> ('a runtime_scheme, 'b) act" where [acts]:
  "silent f = (\<lambda>s. case f (s\<lparr>why := None\<rparr>) of None \<Rightarrow> None | Some (x, t) \<Rightarrow> Some (x, t\<lparr>why := why s\<rparr>))"

text \<open>An audit begins without a reason and returns the one it has at its end.\<close>

definition reason_of :: "reason \<Rightarrow> cstr" where
  "reason_of r = (case r of None \<Rightarrow> None | Some t \<Rightarrow> t)"

definition audit :: "('a runtime_scheme, unit) act \<Rightarrow> ('a runtime_scheme, cstr) act" where [acts]:
  "audit f = (\<lambda>s. case f (s\<lparr>why := Some None\<rparr>) of None \<Rightarrow> None | Some (_, t) \<Rightarrow> Some (reason_of (why t), t\<lparr>why := why s\<rparr>))"

text \<open>\<open>FREE_MEMORY(reason); reason = ...\<close>, from a format or a copy that may fail.\<close>

definition put_reason :: "('a runtime_scheme \<Rightarrow> cstr \<times> 'a runtime_scheme) \<Rightarrow> ('a runtime_scheme, unit) act" where [acts]:
  "put_reason f = (\<lambda>s. case f s of (t, s1) \<Rightarrow> Some ((), s1\<lparr>why := Some t\<rparr>))"

subsection \<open>Calls of the utilities\<close>

text \<open>Functions of the user utilities: an audit has the reason and leaves the host as it is, a remediation changes the
  host. Some of them may crash.\<close>

definition check :: "('a runtime_scheme \<Rightarrow> reason \<Rightarrow> host \<Rightarrow> 'b \<times> reason) \<Rightarrow> ('a runtime_scheme, 'b) act" where [acts]:
  "check f = (\<lambda>s. case f s (why s) (host_of s) of (x, r) \<Rightarrow> Some (x, tick (s\<lparr>why := r\<rparr>)))"

definition check_or_crash :: "('a runtime_scheme \<Rightarrow> reason \<Rightarrow> host \<Rightarrow> ('b \<times> reason) option) \<Rightarrow> ('a runtime_scheme, 'b) act" where [acts]:
  "check_or_crash f =
     (\<lambda>s. case f s (why s) (host_of s) of None \<Rightarrow> None | Some (x, r) \<Rightarrow> Some (x, tick (s\<lparr>why := r\<rparr>)))"

definition change :: "('a runtime_scheme \<Rightarrow> host \<Rightarrow> 'b \<times> host) \<Rightarrow> ('a runtime_scheme, 'b) act" where [acts]:
  "change f = (\<lambda>s. case f s (host_of s) of (x, w) \<Rightarrow> Some (x, tick (s\<lparr>host_of := w\<rparr>)))"

definition change_or_crash :: "('a runtime_scheme \<Rightarrow> host \<Rightarrow> ('b \<times> host) option) \<Rightarrow> ('a runtime_scheme, 'b) act" where [acts]:
  "change_or_crash f =
     (\<lambda>s. case f s (host_of s) of None \<Rightarrow> None | Some (x, w) \<Rightarrow> Some (x, tick (s\<lparr>host_of := w\<rparr>)))"

text \<open>The random part of the names of temporary files of a call.\<close>

definition rnd_of :: "'a runtime_scheme \<Rightarrow> nat" where
  "rnd_of s = random s (calls s)"

definition replace_in_file :: "string \<Rightarrow> string \<Rightarrow> cstr \<Rightarrow> char \<Rightarrow> bool \<Rightarrow> ('a runtime_scheme, int) act" where [acts]:
  "replace_in_file p marker newLine comment preserveAccess =
     call (edit_fs (\<lambda>m rnd. ReplaceMarkedLinesInFile m rnd (Some p) (Some marker) newLine comment preserveAccess))"

definition save_payload :: "string \<Rightarrow> string \<Rightarrow> ('a runtime_scheme, bool) act" where [acts]:
  "save_payload p t = call (edit_fs (\<lambda>m _. SavePayloadToFile m (Some p) (Some t)))"

definition secure_save :: "string \<Rightarrow> string \<Rightarrow> ('a runtime_scheme, bool) act" where [acts]:
  "secure_save p t = call (edit_fs (\<lambda>m rnd. SecureSaveToFile m rnd (Some p) (Some t)))"

definition set_conf_value :: "string \<Rightarrow> string \<Rightarrow> cstr \<Rightarrow> ('a runtime_scheme, int) act" where [acts]:
  "set_conf_value p opt v = call (edit_fs (\<lambda>m rnd. SetEtcConfValue m rnd (Some p) (Some opt) v))"

definition file_exists :: "string \<Rightarrow> ('a runtime_scheme, bool) act" where [acts]:
  "file_exists p = (\<lambda>s. Some (FileExists (Some p) (fs_of s), s))"

text \<open>\<open>remove\<close> of a file; its result is not used.\<close>

definition unlink_file :: "string \<Rightarrow> ('a runtime_scheme, unit) act" where [acts]:
  "unlink_file p =
     (\<lambda>s. case ask ''remove'' s of (failed, s1) \<Rightarrow> Some ((), if failed \<noteq> 0 then s1 else put_fs (put_node p None (fs_of s1)) s1))"

definition IsATrueFileOrDirectory :: "bool \<Rightarrow> cstr \<Rightarrow> 'a asb_scheme \<Rightarrow> bool" where
  "IsATrueFileOrDirectory directory nm s =
     (case nm of
        None \<Rightarrow> False
      | Some n \<Rightarrow>
          (case lstat_of s n of
             Some S_IFDIR \<Rightarrow> directory
           | Some S_IFREG \<Rightarrow> \<not> directory
           | _ \<Rightarrow> False))"

definition IsAFile :: "cstr \<Rightarrow> 'a asb_scheme \<Rightarrow> bool" where
  "IsAFile fileName s = IsATrueFileOrDirectory False fileName s"

definition IsADirectory :: "cstr \<Rightarrow> 'a asb_scheme \<Rightarrow> bool" where
  "IsADirectory fileName s = IsATrueFileOrDirectory True fileName s"

definition is_red_hat_based :: "('a asb_scheme, bool) act" where [acts]:
  "is_red_hat_based = (\<lambda>s. case IsRedHatBased (red_hat s) s of ((b, st), s1) \<Rightarrow> Some (b, s1\<lparr>red_hat := st\<rparr>))"

text \<open>\<open>strtol\<close>, \<open>atoi\<close> and \<open>ConvertStringToIntegers\<close> of a desired value. The remediations use the variable itself, which is
  \<open>NULL\<close> when its copy failed: \<open>strtol\<close> then crashes.\<close>

definition with_desired :: "string \<Rightarrow> (string \<Rightarrow> ('a baseline_scheme, 'b) act) \<Rightarrow> ('a baseline_scheme, 'b) act" where [acts]:
  "with_desired var f = (\<lambda>s. case desired s var of None \<Rightarrow> None | Some v \<Rightarrow> f v s)"

definition convert :: "cstr \<Rightarrow> nat \<Rightarrow> ('a runtime_scheme, int \<times> int list) act" where [acts]:
  "convert v base = (\<lambda>s. Some (ConvertStringToIntegers (allocated s) v CHR '','' base, tick s))"

definition modes_of :: "int list \<Rightarrow> 32 word list" where
  "modes_of = map word_of_int"

definition encryption_of :: "int \<Rightarrow> PasswordEncryption" where
  "encryption_of n =
     (if n = 1 then md5 else if n = 2 then blowfish else if n = 3 then eksBlowfish else if n = 4 then unknownBlowfish
      else if n = 5 then sha256 else if n = 6 then sha512 else unknown)"

abbreviation g_shadowGid :: "32 word" where "g_shadowGid \<equiv> 42"

definition shadow_group :: "'a runtime_scheme \<Rightarrow> 32 word" where
  "shadow_group s = (if GroupExists g_shadowGid (host_of s) then g_shadowGid else 0)"

definition stop_and_disable :: "cstr \<Rightarrow> ('a runtime_scheme, unit) act" where [acts]:
  "stop_and_disable daemon = (\<lambda>s. Some ((), StopAndDisableDaemon daemon s))"

text \<open>Calls that crash on \<open>None\<close>, texts that replace or extend the reason, and files by their format.\<close>

definition or_crash :: "('s \<Rightarrow> 'a option \<times> 's) \<Rightarrow> ('s, 'a) act" where [acts]:
  "or_crash f = (\<lambda>s. case f s of (None, _) \<Rightarrow> None | (Some x, t) \<Rightarrow> Some (x, t))"

definition is_a_file :: "string \<Rightarrow> ('a asb_scheme, bool) act" where [acts]:
  "is_a_file p = (\<lambda>s. Some (IsAFile (Some p) s, s))"

definition extend_reason :: "string \<Rightarrow> ('a runtime_scheme, unit) act" where [acts]:
  "extend_reason t =
     (\<lambda>s. case format_text (show_s (reason_of (why s)) @ '', '' @ t) s of
            (None, s1) \<Rightarrow> Some ((), s1)
          | (Some r, s1) \<Rightarrow> Some ((), s1\<lparr>why := Some (Some r)\<rparr>))"

definition users_dot_files :: "cstr \<Rightarrow> bool \<Rightarrow> ('a runtime_scheme, int) act" where [acts]:
  "users_dot_files nm removeDotFiles =
     (\<lambda>s. case CheckOrEnsureUsersDontHaveDotFiles (now s) nm removeDotFiles (why s) (host_of s) of
            ((status, r), w) \<Rightarrow> Some (status, tick (s\<lparr>why := r, host_of := w\<rparr>)))"

text \<open>The audits of a list of numbers: the list is parsed, and when it is not as \<open>ok\<close> asks the reason says so.\<close>

definition audit_numbers ::
  "string \<Rightarrow> string \<Rightarrow> nat \<Rightarrow> (int list \<Rightarrow> bool) \<Rightarrow> string \<Rightarrow> (int list \<Rightarrow> ('a baseline_scheme, 'b) act) \<Rightarrow> ('a baseline_scheme, unit) act" where [acts]:
  "audit_numbers var dflt base ok hint f =
     with_state (\<lambda>s. andThen (convert (Some (desired_or var dflt s)) base)
       (\<lambda>(status, vs). if status = 0 \<and> ok vs then ignore (f vs)
                     else put_reason (format_text (''Failed to parse '' @ sq (desired_or var dflt s) @ hint))))"

text \<open>\<open>strncmp\<close> of a missing reason crashes.\<close>

definition CheckAndFreeReason :: "cstr \<Rightarrow> ('a runtime_scheme, int) act" where [acts]:
  "CheckAndFreeReason r = (\<lambda>s. case r of None \<Rightarrow> None | Some t \<Rightarrow> Some (if prefix SECURITY_AUDIT_PASS t then 0 else ENOENT, s))"

subsection \<open>Desired values\<close>

definition GetLoggingLevelFromString :: "cstr \<Rightarrow> int" where
  "GetLoggingLevelFromString v =
     (if v = Some ''Emergency'' then 0 else if v = Some ''Alert'' then 1 else if v = Some ''Critical'' then 2
      else if v = Some ''Error'' then 3 else if v = Some ''Warning'' then 4 else if v = Some ''Notice'' then 5
      else if v = Some ''Informational'' then 6 else if v = Some ''Debug'' then 7 else 6)"

definition set_level :: "int \<Rightarrow> ('a asb_scheme, int) act" where [acts]:
  "set_level level =
     (\<lambda>s. case SetLoggingLevelPersistently (now s) (rnd_of s) (new_dir s) level (fs_of s, process_level s) of
            (status, st, level') \<Rightarrow> Some (status, tick (put_fs st (s\<lparr>process_level := level'\<rparr>))))"

definition ReplaceString :: "string \<Rightarrow> cstr \<Rightarrow> string \<Rightarrow> ('a baseline_scheme, int) act" where
  "ReplaceString var source defaultValue =
     (\<lambda>s. case duplicate (if valid_value source then the source else defaultValue) s of
            (v, s1) \<Rightarrow> Some (if v = None then ENOMEM else 0, put_desired var v s1))"

text \<open>The variables and their defaults, in the order in which \<open>AsbInitialize\<close> copies them.\<close>

definition asb_defaults :: "(string \<times> string) list" where
  "asb_defaults =
     [(''g_desiredLoggingLevel'', ''Informational''),
      (''g_desiredEnsurePermissionsOnEtcIssue'', ''00644''),
      (''g_desiredEnsurePermissionsOnEtcIssueNet'', ''00644''),
      (''g_desiredEnsurePermissionsOnEtcHostsAllow'', ''00644''),
      (''g_desiredEnsurePermissionsOnEtcHostsDeny'', ''00644''),
      (''g_desiredEnsurePermissionsOnEtcShadow'', ''00400''),
      (''g_desiredEnsurePermissionsOnEtcShadowDash'', ''00400''),
      (''g_desiredEnsurePermissionsOnEtcGShadow'', ''00400''),
      (''g_desiredEnsurePermissionsOnEtcGShadowDash'', ''00400''),
      (''g_desiredEnsurePermissionsOnEtcPasswd'', ''00644''),
      (''g_desiredEnsurePermissionsOnEtcPasswdDash'', ''00644''),
      (''g_desiredEnsurePermissionsOnEtcGroup'', ''00644''),
      (''g_desiredEnsurePermissionsOnEtcGroupDash'', ''00644''),
      (''g_desiredEnsurePermissionsOnEtcAnacronTab'', ''00600''),
      (''g_desiredEnsurePermissionsOnEtcCronD'', ''00700''),
      (''g_desiredEnsurePermissionsOnEtcCronDaily'', ''00700''),
      (''g_desiredEnsurePermissionsOnEtcCronHourly'', ''00700''),
      (''g_desiredEnsurePermissionsOnEtcCronMonthly'', ''00700''),
      (''g_desiredEnsurePermissionsOnEtcCronWeekly'', ''00700''),
      (''g_desiredEnsurePermissionsOnEtcMotd'', ''00644''),
      (''g_desiredEnsureRestrictedUserHomeDirectories'', ''00700,00750''),
      (''g_desiredEnsurePasswordHashingAlgorithm'', ''6''),
      (''g_desiredEnsureMinDaysBetweenPasswordChanges'', ''7''),
      (''g_desiredEnsureInactivePasswordLockPeriod'', ''30''),
      (''g_desiredEnsureMaxDaysBetweenPasswordChanges'', ''365''),
      (''g_desiredEnsurePasswordExpiration'', ''365''),
      (''g_desiredEnsurePasswordExpirationWarning'', ''7''),
      (''g_desiredEnsureDefaultUmaskForAllUsers'', ''077''),
      (''g_desiredEnsurePermissionsOnBootloaderConfig'', ''00400''),
      (''g_desiredEnsurePasswordReuseIsLimited'', ''5''),
      (''g_desiredEnsurePasswordCreationRequirements'', ''1,14,4,-1,-1,-1,-1''),
      (''g_desiredEnsureFilePermissionsForAllRsyslogLogFiles'', ''00600,00640''),
      (''g_desiredEnsureUsersDotFilesArentGroupOrWorldWritable'', ''00600,00644,00664,00700,00744''),
      (''g_desiredEnsureUnnecessaryAccountsAreRemoved'', ''games,test''),
      (''g_desiredEnsureDefaultDenyFirewallPolicyIsSet'', ''0'')]"

end
