(* ===== verification/AsbAudit.thy ===== *)
theory AsbAudit
  imports AsbState
begin

text \<open>
  The audits of the baseline, in the order of \<open>src/common/asb/Asb.c\<close>: each calls the checks of the utilities, and its result is the reason they leave.
\<close>

text \<open>What the audit of the logging level says.\<close>

definition level_reason :: "int \<Rightarrow> int \<Rightarrow> 'a runtime_scheme \<Rightarrow> 'a runtime_scheme" where
  "level_reason existingLevel desiredLevel s =
     (if existingLevel \<noteq> desiredLevel
      then capture (''Locally configured logging level for Azure OSConfig is '' @ print_int existingLevel @ '' instead of '' @ print_int desiredLevel) s
      else capture_success (''Locally configured logging level for Azure OSConfig is '' @ print_int desiredLevel) s)"

definition AuditEnsureLoggingLevel :: "('a asb_scheme, cstr) act" where [audits]:
  "AuditEnsureLoggingLevel =
     audit (with_state (\<lambda>s. let level = GetLoggingLevelFromString (Some (desired_or ''g_desiredLoggingLevel'' g_defaultLoggingLevel s))
       in seq (set_level level) (call (\<lambda>t. ((), level_reason (process_level s) level t)))))"

definition AuditEnsurePermissionsOnEtcIssue :: "('a asb_scheme, cstr) act" where [audits]:
  "AuditEnsurePermissionsOnEtcIssue =
     audit (with_state (\<lambda>s. ignore (call (CheckFileAccess (Some g_etcIssue) 0 0 (octal_value (desired_or ''g_desiredEnsurePermissionsOnEtcIssue'' g_defaultEnsurePermissionsOnEtcIssue s))))))"

definition AuditEnsurePermissionsOnEtcIssueNet :: "('a asb_scheme, cstr) act" where [audits]:
  "AuditEnsurePermissionsOnEtcIssueNet =
     audit (with_state (\<lambda>s. ignore (call (CheckFileAccess (Some g_etcIssueNet) 0 0 (octal_value (desired_or ''g_desiredEnsurePermissionsOnEtcIssueNet'' g_defaultEnsurePermissionsOnEtcIssueNet s))))))"

definition AuditEnsurePermissionsOnEtcHostsAllow :: "('a asb_scheme, cstr) act" where [audits]:
  "AuditEnsurePermissionsOnEtcHostsAllow =
     audit (with_state (\<lambda>s. ignore (call (CheckFileAccess (Some g_etcHostsAllow) 0 0 (octal_value (desired_or ''g_desiredEnsurePermissionsOnEtcHostsAllow'' g_defaultEnsurePermissionsOnEtcHostsAllow s))))))"

definition AuditEnsurePermissionsOnEtcHostsDeny :: "('a asb_scheme, cstr) act" where [audits]:
  "AuditEnsurePermissionsOnEtcHostsDeny =
     audit (with_state (\<lambda>s. ignore (call (CheckFileAccess (Some g_etcHostsDeny) 0 0 (octal_value (desired_or ''g_desiredEnsurePermissionsOnEtcHostsDeny'' g_defaultEnsurePermissionsOnEtcHostsDeny s))))))"

definition AuditEnsurePermissionsOnEtcSshSshdConfig :: "('a asb_scheme, cstr) act" where [audits]:
  "AuditEnsurePermissionsOnEtcSshSshdConfig =
     audit (ignore (call (ProcessSshAuditCheck (Some g_auditEnsurePermissionsOnEtcSshSshdConfigObject) None)))"

definition AuditEnsurePermissionsOnEtcShadow :: "('a asb_scheme, cstr) act" where [audits]:
  "AuditEnsurePermissionsOnEtcShadow =
     audit (with_state (\<lambda>s. ignore (call (CheckFileAccess (Some g_etcShadow) 0 (shadow_group s) (octal_value (desired_or ''g_desiredEnsurePermissionsOnEtcShadow'' g_defaultEnsurePermissionsOnEtcShadow s))))))"

definition AuditEnsurePermissionsOnEtcShadowDash :: "('a asb_scheme, cstr) act" where [audits]:
  "AuditEnsurePermissionsOnEtcShadowDash =
     audit (with_state (\<lambda>s. ignore (call (CheckFileAccess (Some g_etcShadowDash) 0 (shadow_group s) (octal_value (desired_or ''g_desiredEnsurePermissionsOnEtcShadowDash'' g_defaultEnsurePermissionsOnEtcShadowDash s))))))"

definition AuditEnsurePermissionsOnEtcGShadow :: "('a asb_scheme, cstr) act" where [audits]:
  "AuditEnsurePermissionsOnEtcGShadow =
     audit (with_state (\<lambda>s. ignore (call (CheckFileAccess (Some g_etcGShadow) 0 (shadow_group s) (octal_value (desired_or ''g_desiredEnsurePermissionsOnEtcGShadow'' g_defaultEnsurePermissionsOnEtcGShadow s))))))"

definition AuditEnsurePermissionsOnEtcGShadowDash :: "('a asb_scheme, cstr) act" where [audits]:
  "AuditEnsurePermissionsOnEtcGShadowDash =
     audit (with_state (\<lambda>s. ignore (call (CheckFileAccess (Some g_etcGShadowDash) 0 (shadow_group s) (octal_value (desired_or ''g_desiredEnsurePermissionsOnEtcGShadowDash'' g_defaultEnsurePermissionsOnEtcGShadowDash s))))))"

definition AuditEnsurePermissionsOnEtcPasswd :: "('a asb_scheme, cstr) act" where [audits]:
  "AuditEnsurePermissionsOnEtcPasswd =
     audit (with_state (\<lambda>s. ignore (call (CheckFileAccess (Some g_etcPasswd) 0 0 (octal_value (desired_or ''g_desiredEnsurePermissionsOnEtcPasswd'' g_defaultEnsurePermissionsOnEtcPasswd s))))))"

definition AuditEnsurePermissionsOnEtcPasswdDash :: "('a asb_scheme, cstr) act" where [audits]:
  "AuditEnsurePermissionsOnEtcPasswdDash =
     audit (with_state (\<lambda>s. ignore (call (CheckFileAccess (Some g_etcPasswdDash) 0 0 (octal_value (desired_or ''g_desiredEnsurePermissionsOnEtcPasswdDash'' g_defaultEnsurePermissionsOnEtcPasswdDash s))))))"

definition AuditEnsurePermissionsOnEtcGroup :: "('a asb_scheme, cstr) act" where [audits]:
  "AuditEnsurePermissionsOnEtcGroup =
     audit (with_state (\<lambda>s. ignore (call (CheckFileAccess (Some g_etcGroup) 0 0 (octal_value (desired_or ''g_desiredEnsurePermissionsOnEtcGroup'' g_defaultEnsurePermissionsOnEtcGroup s))))))"

definition AuditEnsurePermissionsOnEtcGroupDash :: "('a asb_scheme, cstr) act" where [audits]:
  "AuditEnsurePermissionsOnEtcGroupDash =
     audit (with_state (\<lambda>s. ignore (call (CheckFileAccess (Some g_etcGroupDash) 0 0 (octal_value (desired_or ''g_desiredEnsurePermissionsOnEtcGroupDash'' g_defaultEnsurePermissionsOnEtcGroupDash s))))))"

definition AuditEnsurePermissionsOnEtcAnacronTab :: "('a asb_scheme, cstr) act" where [audits]:
  "AuditEnsurePermissionsOnEtcAnacronTab =
     audit (with_state (\<lambda>s. ignore (call (CheckFileAccess (Some g_etcAnacronTab) 0 0 (octal_value (desired_or ''g_desiredEnsurePermissionsOnEtcAnacronTab'' g_defaultEnsurePermissionsOnEtcAnacronTab s))))))"

definition AuditEnsurePermissionsOnEtcCronD :: "('a asb_scheme, cstr) act" where [audits]:
  "AuditEnsurePermissionsOnEtcCronD =
     audit (with_state (\<lambda>s. ignore (call (CheckFileAccess (Some g_etcCronD) 0 0 (octal_value (desired_or ''g_desiredEnsurePermissionsOnEtcCronD'' g_defaultEnsurePermissionsOnEtcCronD s))))))"

definition AuditEnsurePermissionsOnEtcCronDaily :: "('a asb_scheme, cstr) act" where [audits]:
  "AuditEnsurePermissionsOnEtcCronDaily =
     audit (with_state (\<lambda>s. ignore (call (CheckFileAccess (Some g_etcCronDaily) 0 0 (octal_value (desired_or ''g_desiredEnsurePermissionsOnEtcCronDaily'' g_defaultEnsurePermissionsOnEtcCronDaily s))))))"

definition AuditEnsurePermissionsOnEtcCronHourly :: "('a asb_scheme, cstr) act" where [audits]:
  "AuditEnsurePermissionsOnEtcCronHourly =
     audit (with_state (\<lambda>s. ignore (call (CheckFileAccess (Some g_etcCronHourly) 0 0 (octal_value (desired_or ''g_desiredEnsurePermissionsOnEtcCronHourly'' g_defaultEnsurePermissionsOnEtcCronHourly s))))))"

definition AuditEnsurePermissionsOnEtcCronMonthly :: "('a asb_scheme, cstr) act" where [audits]:
  "AuditEnsurePermissionsOnEtcCronMonthly =
     audit (with_state (\<lambda>s. ignore (call (CheckFileAccess (Some g_etcCronMonthly) 0 0 (octal_value (desired_or ''g_desiredEnsurePermissionsOnEtcCronMonthly'' g_defaultEnsurePermissionsOnEtcCronMonthly s))))))"

definition AuditEnsurePermissionsOnEtcCronWeekly :: "('a asb_scheme, cstr) act" where [audits]:
  "AuditEnsurePermissionsOnEtcCronWeekly =
     audit (with_state (\<lambda>s. ignore (call (CheckFileAccess (Some g_etcCronWeekly) 0 0 (octal_value (desired_or ''g_desiredEnsurePermissionsOnEtcCronWeekly'' g_defaultEnsurePermissionsOnEtcCronWeekly s))))))"

definition AuditEnsurePermissionsOnEtcMotd :: "('a asb_scheme, cstr) act" where [audits]:
  "AuditEnsurePermissionsOnEtcMotd =
     audit (with_state (\<lambda>s. ignore (call (CheckFileAccess (Some g_etcMotd) 0 0 (octal_value (desired_or ''g_desiredEnsurePermissionsOnEtcMotd'' g_defaultEnsurePermissionsOnEtcMotd s))))))"

definition AuditEnsureKernelSupportForCpuNx :: "('a asb_scheme, cstr) act" where [audits]:
  "AuditEnsureKernelSupportForCpuNx =
     audit (branch (call (CheckCpuFlagSupported (Some ''nx''))) (ret ())
       (put_reason (duplicate ''A CPU that supports the NX (no-execute) bit technology is necessary. Automatic remediation is not possible'')))"

definition AuditEnsureNodevOptionOnHomePartition :: "('a asb_scheme, cstr) act" where [audits]:
  "AuditEnsureNodevOptionOnHomePartition =
     audit (ignore (call (CheckFileSystemMountingOption (Some g_etcFstab) (Some g_home) None (Some g_nodev))))"

definition AuditEnsureNodevOptionOnTmpPartition :: "('a asb_scheme, cstr) act" where [audits]:
  "AuditEnsureNodevOptionOnTmpPartition =
     audit (ignore (call (CheckFileSystemMountingOption (Some g_etcFstab) (Some g_tmp) None (Some g_nodev))))"

definition AuditEnsureNodevOptionOnVarTmpPartition :: "('a asb_scheme, cstr) act" where [audits]:
  "AuditEnsureNodevOptionOnVarTmpPartition =
     audit (ignore (call (CheckFileSystemMountingOption (Some g_etcFstab) (Some g_varTmp) None (Some g_nodev))))"

definition AuditEnsureNosuidOptionOnTmpPartition :: "('a asb_scheme, cstr) act" where [audits]:
  "AuditEnsureNosuidOptionOnTmpPartition =
     audit (ignore (call (CheckFileSystemMountingOption (Some g_etcFstab) (Some g_tmp) None (Some g_nosuid))))"

definition AuditEnsureNosuidOptionOnVarTmpPartition :: "('a asb_scheme, cstr) act" where [audits]:
  "AuditEnsureNosuidOptionOnVarTmpPartition =
     audit (ignore (call (CheckFileSystemMountingOption (Some g_etcFstab) (Some g_varTmp) None (Some g_nosuid))))"

definition AuditEnsureNoexecOptionOnVarTmpPartition :: "('a asb_scheme, cstr) act" where [audits]:
  "AuditEnsureNoexecOptionOnVarTmpPartition =
     audit (ignore (call (CheckFileSystemMountingOption (Some g_etcFstab) (Some g_varTmp) None (Some g_noexec))))"

definition AuditEnsureNoexecOptionOnDevShmPartition :: "('a asb_scheme, cstr) act" where [audits]:
  "AuditEnsureNoexecOptionOnDevShmPartition =
     audit (ignore (call (CheckFileSystemMountingOption (Some g_etcFstab) (Some g_devShm) None (Some g_noexec))))"

definition AuditEnsureNodevOptionEnabledForAllRemovableMedia :: "('a asb_scheme, cstr) act" where [audits]:
  "AuditEnsureNodevOptionEnabledForAllRemovableMedia =
     audit (ignore (call (CheckFileSystemMountingOption (Some g_etcFstab) (Some g_media) None (Some g_nodev))))"

definition AuditEnsureNoexecOptionEnabledForAllRemovableMedia :: "('a asb_scheme, cstr) act" where [audits]:
  "AuditEnsureNoexecOptionEnabledForAllRemovableMedia =
     audit (ignore (call (CheckFileSystemMountingOption (Some g_etcFstab) (Some g_media) None (Some g_noexec))))"

definition AuditEnsureNosuidOptionEnabledForAllRemovableMedia :: "('a asb_scheme, cstr) act" where [audits]:
  "AuditEnsureNosuidOptionEnabledForAllRemovableMedia =
     audit (ignore (call (CheckFileSystemMountingOption (Some g_etcFstab) (Some g_media) None (Some g_nosuid))))"

definition AuditEnsureNoexecNosuidOptionsEnabledForAllNfsMounts :: "('a asb_scheme, cstr) act" where [audits]:
  "AuditEnsureNoexecNosuidOptionsEnabledForAllNfsMounts =
     audit (return_if_not_zero (call (CheckFileSystemMountingOption (Some g_etcFstab) None (Some g_nfs) (Some g_noexec)))
       (ignore (call (CheckFileSystemMountingOption (Some g_etcFstab) None (Some g_nfs) (Some g_nosuid)))))"

definition AuditEnsureInetdNotInstalled :: "('a asb_scheme, cstr) act" where [audits]:
  "AuditEnsureInetdNotInstalled =
     audit (return_if_not_zero (call (CheckPackageNotInstalled (Some g_inetd)))
       (ignore (call (CheckPackageNotInstalled (Some g_inetUtilsInetd)))))"

definition AuditEnsureXinetdNotInstalled :: "('a asb_scheme, cstr) act" where [audits]:
  "AuditEnsureXinetdNotInstalled =
     audit (ignore (call (CheckPackageNotInstalled (Some g_xinetd))))"

definition AuditEnsureAllTelnetdPackagesUninstalled :: "('a asb_scheme, cstr) act" where [audits]:
  "AuditEnsureAllTelnetdPackagesUninstalled =
     audit (ignore (call (CheckPackageNotInstalled (Some g_allTelnetd))))"

definition AuditEnsureRshServerNotInstalled :: "('a asb_scheme, cstr) act" where [audits]:
  "AuditEnsureRshServerNotInstalled =
     audit (ignore (call (CheckPackageNotInstalled (Some g_rshServer))))"

definition AuditEnsureNisNotInstalled :: "('a asb_scheme, cstr) act" where [audits]:
  "AuditEnsureNisNotInstalled =
     audit (ignore (call (CheckPackageNotInstalled (Some g_nis))))"

definition AuditEnsureTftpdNotInstalled :: "('a asb_scheme, cstr) act" where [audits]:
  "AuditEnsureTftpdNotInstalled =
     audit (ignore (call (CheckPackageNotInstalled (Some g_tftpHpa))))"

definition AuditEnsureReadaheadFedoraNotInstalled :: "('a asb_scheme, cstr) act" where [audits]:
  "AuditEnsureReadaheadFedoraNotInstalled =
     audit (ignore (call (CheckPackageNotInstalled (Some g_readAheadFedora))))"

definition AuditEnsureBluetoothHiddNotInstalled :: "('a asb_scheme, cstr) act" where [audits]:
  "AuditEnsureBluetoothHiddNotInstalled =
     audit (return_if_not_zero (call (CheckPackageNotInstalled (Some g_bluetooth)))
       (ignore (call (CheckDaemonNotActive (Some g_bluetooth)))))"

definition AuditEnsureIsdnUtilsBaseNotInstalled :: "('a asb_scheme, cstr) act" where [audits]:
  "AuditEnsureIsdnUtilsBaseNotInstalled =
     audit (ignore (call (CheckPackageNotInstalled (Some g_isdnUtilsBase))))"

definition AuditEnsureIsdnUtilsKdumpToolsNotInstalled :: "('a asb_scheme, cstr) act" where [audits]:
  "AuditEnsureIsdnUtilsKdumpToolsNotInstalled =
     audit (ignore (call (CheckPackageNotInstalled (Some g_kdumpTools))))"

definition AuditEnsureIscDhcpdServerNotInstalled :: "('a asb_scheme, cstr) act" where [audits]:
  "AuditEnsureIscDhcpdServerNotInstalled =
     audit (ignore (call (CheckPackageNotInstalled (Some g_iscDhcpServer))))"

definition AuditEnsureSendmailNotInstalled :: "('a asb_scheme, cstr) act" where [audits]:
  "AuditEnsureSendmailNotInstalled =
     audit (ignore (call (CheckPackageNotInstalled (Some g_sendmail))))"

definition AuditEnsureSldapdNotInstalled :: "('a asb_scheme, cstr) act" where [audits]:
  "AuditEnsureSldapdNotInstalled =
     audit (ignore (call (CheckPackageNotInstalled (Some g_slapd))))"

definition AuditEnsureBind9NotInstalled :: "('a asb_scheme, cstr) act" where [audits]:
  "AuditEnsureBind9NotInstalled =
     audit (ignore (call (CheckPackageNotInstalled (Some g_bind9))))"

definition AuditEnsureDovecotCoreNotInstalled :: "('a asb_scheme, cstr) act" where [audits]:
  "AuditEnsureDovecotCoreNotInstalled =
     audit (ignore (call (CheckPackageNotInstalled (Some g_dovecotCore))))"

definition AuditEnsureAuditdInstalled :: "('a asb_scheme, cstr) act" where [audits]:
  "AuditEnsureAuditdInstalled =
     audit (return_if_zero (call (CheckPackageInstalled (Some g_audit)))
       (return_if_zero (call (CheckPackageInstalled (Some g_auditd)))
        (return_if_zero (call (CheckPackageInstalled (Some g_auditLibs)))
         (return_if_zero (call (CheckPackageInstalled (Some g_auditLibsDevel)))
          (ret ())))))"

definition AuditEnsureAllEtcPasswdGroupsExistInEtcGroup :: "('a asb_scheme, cstr) act" where [audits]:
  "AuditEnsureAllEtcPasswdGroupsExistInEtcGroup =
     audit (ignore (check (\<lambda>t. CheckAllEtcPasswdGroupsExistInEtcGroup (now t))))"

definition AuditEnsureNoDuplicateUidsExist :: "('a asb_scheme, cstr) act" where [audits]:
  "AuditEnsureNoDuplicateUidsExist =
     audit (branch (is_zero (check (\<lambda>t. CheckNoDuplicateUidsExist (now t)))) (ret ()) (extend_reason g_remediationIsNotPossible))"

definition AuditEnsureNoDuplicateGidsExist :: "('a asb_scheme, cstr) act" where [audits]:
  "AuditEnsureNoDuplicateGidsExist =
     audit (branch (is_zero (check (\<lambda>t. CheckNoDuplicateGidsExist (now t)))) (ret ()) (extend_reason g_remediationIsNotPossible))"

definition AuditEnsureNoDuplicateUserNamesExist :: "('a asb_scheme, cstr) act" where [audits]:
  "AuditEnsureNoDuplicateUserNamesExist =
     audit (branch (is_zero (check (\<lambda>t. CheckNoDuplicateUserNamesExist (now t)))) (ret ()) (extend_reason g_remediationIsNotPossible))"

definition AuditEnsureNoDuplicateGroupsExist :: "('a asb_scheme, cstr) act" where [audits]:
  "AuditEnsureNoDuplicateGroupsExist =
     audit (branch (is_zero (check_or_crash (\<lambda>t. CheckNoDuplicateGroupNamesExist (now t)))) (ret ()) (extend_reason g_remediationIsNotPossible))"

definition AuditEnsureShadowGroupIsEmpty :: "('a asb_scheme, cstr) act" where [audits]:
  "AuditEnsureShadowGroupIsEmpty =
     audit (ignore (check_or_crash (\<lambda>t. CheckShadowGroupIsEmpty (now t))))"

definition AuditEnsureRootGroupExists :: "('a asb_scheme, cstr) act" where [audits]:
  "AuditEnsureRootGroupExists =
     audit (ignore (check_or_crash (\<lambda>t. CheckRootGroupExists (now t))))"

definition AuditEnsureAllAccountsHavePasswords :: "('a asb_scheme, cstr) act" where [audits]:
  "AuditEnsureAllAccountsHavePasswords =
     audit (ignore (check (\<lambda>t. CheckAllUsersHavePasswordsSet (now t))))"

definition AuditEnsureNonRootAccountsHaveUniqueUidsGreaterThanZero :: "('a asb_scheme, cstr) act" where [audits]:
  "AuditEnsureNonRootAccountsHaveUniqueUidsGreaterThanZero =
     audit (ignore (check (\<lambda>t. CheckRootIsOnlyUidZeroAccount (now t))))"

definition AuditEnsureNoLegacyPlusEntriesInEtcPasswd :: "('a asb_scheme, cstr) act" where [audits]:
  "AuditEnsureNoLegacyPlusEntriesInEtcPasswd =
     audit (ignore (call (CheckNoLegacyPlusEntriesInFile_r (Some g_etcPasswd))))"

definition AuditEnsureNoLegacyPlusEntriesInEtcShadow :: "('a asb_scheme, cstr) act" where [audits]:
  "AuditEnsureNoLegacyPlusEntriesInEtcShadow =
     audit (ignore (call (CheckNoLegacyPlusEntriesInFile_r (Some g_etcShadow))))"

definition AuditEnsureNoLegacyPlusEntriesInEtcGroup :: "('a asb_scheme, cstr) act" where [audits]:
  "AuditEnsureNoLegacyPlusEntriesInEtcGroup =
     audit (ignore (call (CheckNoLegacyPlusEntriesInFile_r (Some g_etcGroup))))"

definition AuditEnsureDefaultRootAccountGroupIsGidZero :: "('a asb_scheme, cstr) act" where [audits]:
  "AuditEnsureDefaultRootAccountGroupIsGidZero =
     audit (ignore (check (\<lambda>t. CheckDefaultRootAccountGroupIsGidZero (now t))))"

definition AuditEnsureRootIsOnlyUidZeroAccount :: "('a asb_scheme, cstr) act" where [audits]:
  "AuditEnsureRootIsOnlyUidZeroAccount =
     audit (return_if_not_zero (check_or_crash (\<lambda>t. CheckRootGroupExists (now t)))
       (ignore (check (\<lambda>t. CheckRootIsOnlyUidZeroAccount (now t)))))"

definition AuditEnsureAllUsersHomeDirectoriesExist :: "('a asb_scheme, cstr) act" where [audits]:
  "AuditEnsureAllUsersHomeDirectoriesExist =
     audit (ignore (check (\<lambda>t. CheckAllUsersHomeDirectoriesExist (now t))))"

definition AuditEnsureUsersOwnTheirHomeDirectories :: "('a asb_scheme, cstr) act" where [audits]:
  "AuditEnsureUsersOwnTheirHomeDirectories =
     audit (ignore (check (\<lambda>t. CheckUsersOwnTheirHomeDirectories (now t))))"

definition AuditEnsureRestrictedUserHomeDirectories :: "('a asb_scheme, cstr) act" where [audits]:
  "AuditEnsureRestrictedUserHomeDirectories =
     audit (audit_numbers ''g_desiredEnsureRestrictedUserHomeDirectories'' g_defaultEnsureRestrictedUserHomeDirectories 8 (\<lambda>_. True) []
       (\<lambda>modes. check (\<lambda>t. CheckRestrictedUserHomeDirectories (now t) (modes_of modes))))"

definition AuditEnsurePasswordHashingAlgorithm :: "('a asb_scheme, cstr) act" where [audits]:
  "AuditEnsurePasswordHashingAlgorithm =
     audit (with_state (\<lambda>s. ignore (check (\<lambda>t. CheckPasswordHashingAlgorithm (shell_exec t) (encryption_of (atoi (desired_or ''g_desiredEnsurePasswordHashingAlgorithm'' g_defaultEnsurePasswordHashingAlgorithm s))) (atoi (desired_or ''g_desiredEnsurePasswordHashingAlgorithm'' g_defaultEnsurePasswordHashingAlgorithm s))))))"

definition AuditEnsureMinDaysBetweenPasswordChanges :: "('a asb_scheme, cstr) act" where [audits]:
  "AuditEnsureMinDaysBetweenPasswordChanges =
     audit (with_state (\<lambda>s. ignore (check (\<lambda>t. CheckMinDaysBetweenPasswordChanges (now t) (shell_exec t) (atoi (desired_or ''g_desiredEnsureMinDaysBetweenPasswordChanges'' g_defaultEnsureMinDaysBetweenPasswordChanges s))))))"

definition AuditEnsureInactivePasswordLockPeriod :: "('a asb_scheme, cstr) act" where [audits]:
  "AuditEnsureInactivePasswordLockPeriod =
     audit (with_state (\<lambda>s. return_if_not_zero (check (\<lambda>t. CheckLockoutAfterInactivityLessThan (now t) (atoi (desired_or ''g_desiredEnsureInactivePasswordLockPeriod'' g_defaultEnsureInactivePasswordLockPeriod s))))
       (ignore (check (\<lambda>t. CheckUsersRecordedPasswordChangeDates (now t))))))"

definition AuditEnsureMaxDaysBetweenPasswordChanges :: "('a asb_scheme, cstr) act" where [audits]:
  "AuditEnsureMaxDaysBetweenPasswordChanges =
     audit (with_state (\<lambda>s. ignore (check (\<lambda>t. CheckMaxDaysBetweenPasswordChanges (now t) (shell_exec t) (atoi (desired_or ''g_desiredEnsureMaxDaysBetweenPasswordChanges'' g_defaultEnsureMaxDaysBetweenPasswordChanges s))))))"

definition AuditEnsurePasswordExpiration :: "('a asb_scheme, cstr) act" where [audits]:
  "AuditEnsurePasswordExpiration =
     audit (with_state (\<lambda>s. ignore (check (\<lambda>t. CheckPasswordExpirationLessThan (now t) (strtol (desired_or ''g_desiredEnsurePasswordExpiration'' g_defaultEnsurePasswordExpiration s) 10)))))"

definition AuditEnsurePasswordExpirationWarning :: "('a asb_scheme, cstr) act" where [audits]:
  "AuditEnsurePasswordExpirationWarning =
     audit (with_state (\<lambda>s. ignore (check (\<lambda>t. CheckPasswordExpirationWarning (now t) (shell_exec t) (strtol (desired_or ''g_desiredEnsurePasswordExpirationWarning'' g_defaultEnsurePasswordExpirationWarning s) 10)))))"

definition AuditEnsureSystemAccountsAreNonLogin :: "('a asb_scheme, cstr) act" where [audits]:
  "AuditEnsureSystemAccountsAreNonLogin =
     audit (ignore (check (\<lambda>t. CheckSystemAccountsAreNonLogin (now t))))"

definition AuditEnsureAuthenticationRequiredForSingleUserMode :: "('a asb_scheme, cstr) act" where [audits]:
  "AuditEnsureAuthenticationRequiredForSingleUserMode =
     audit (ignore (check (\<lambda>t. CheckRootPasswordForSingleUserMode (now t))))"

definition AuditEnsurePrelinkIsDisabled :: "('a asb_scheme, cstr) act" where [audits]:
  "AuditEnsurePrelinkIsDisabled =
     audit (ignore (call (CheckPackageNotInstalled (Some g_prelink))))"

definition AuditEnsureTalkClientIsNotInstalled :: "('a asb_scheme, cstr) act" where [audits]:
  "AuditEnsureTalkClientIsNotInstalled =
     audit (ignore (call (CheckPackageNotInstalled (Some g_talk))))"

definition AuditEnsureDotDoesNotAppearInRootsPath :: "('a asb_scheme, cstr) act" where [audits]:
  "AuditEnsureDotDoesNotAppearInRootsPath =
     audit (return_if_not_zero (call (CheckTextNotFoundInEnvironmentVariable_r (Some ''PATH'') (Some ''.'') False))
       (return_if_not_zero (call (CheckMarkedTextNotFoundInFile_r (Some ''/etc/sudoers'') (Some ''secure_path'') (Some ''.'') CHR ''#''))
        (return_if_not_zero (call (CheckMarkedTextNotFoundInFile_r (Some g_etcEnvironment) (Some ''PATH'') (Some ''.'') CHR ''#''))
         (return_if_not_zero (call (CheckMarkedTextNotFoundInFile_r (Some g_etcProfile) (Some ''PATH'') (Some ''.'') CHR ''#''))
          (ignore (call (CheckMarkedTextNotFoundInFile_r (Some ''/root/.profile'') (Some ''PATH'') (Some ''.'') CHR ''#'')))))))"

definition AuditEnsureCronServiceIsEnabled :: "('a asb_scheme, cstr) act" where [audits]:
  "AuditEnsureCronServiceIsEnabled =
     audit (return_if_zero (status_of (both (is_zero (call (CheckPackageInstalled (Some g_cron)))) (call (CheckDaemonActive (Some g_cron)))))
       (return_if_zero (status_of (both (is_zero (call (CheckPackageInstalled (Some g_cronie)))) (call (CheckDaemonActive (Some g_crond)))))
        (ret ())))"

definition AuditEnsureRemoteLoginWarningBannerIsConfigured :: "('a asb_scheme, cstr) act" where [audits]:
  "AuditEnsureRemoteLoginWarningBannerIsConfigured =
     audit (branch (is_zero (call (CheckFileExists_r (Some g_etcIssueNet))))
       (return_if_not_zero (call (CheckTextIsNotFoundInFile_r (Some g_etcIssueNet) (Some ([CHR 0x5C] @ ''m''))))
       (return_if_not_zero (call (CheckTextIsNotFoundInFile_r (Some g_etcIssueNet) (Some ([CHR 0x5C] @ ''r''))))
       (return_if_not_zero (call (CheckTextIsNotFoundInFile_r (Some g_etcIssueNet) (Some ([CHR 0x5C] @ ''s''))))
       (ignore (call (CheckTextIsNotFoundInFile_r (Some g_etcIssueNet) (Some ([CHR 0x5C] @ ''v''))))))))
       (branch (call (IsCurrentOs (Some PRETTY_NAME_SLES_15)))
          (put_reason (format_text (SECURITY_AUDIT_PASS @ sq g_etcIssueNet @ '' does not exist in '' @ sq PRETTY_NAME_SLES_15)))
          (ret ())))"

definition AuditEnsureLocalLoginWarningBannerIsConfigured :: "('a asb_scheme, cstr) act" where [audits]:
  "AuditEnsureLocalLoginWarningBannerIsConfigured =
     audit (return_if_not_zero (call (CheckTextIsNotFoundInFile_r (Some g_etcIssue) (Some ([CHR 0x5C] @ ''m''))))
       (return_if_not_zero (call (CheckTextIsNotFoundInFile_r (Some g_etcIssue) (Some ([CHR 0x5C] @ ''r''))))
        (return_if_not_zero (call (CheckTextIsNotFoundInFile_r (Some g_etcIssue) (Some ([CHR 0x5C] @ ''s''))))
         (ignore (call (CheckTextIsNotFoundInFile_r (Some g_etcIssue) (Some ([CHR 0x5C] @ ''v''))))))))"

definition AuditEnsureAuditdServiceIsRunning :: "('a asb_scheme, cstr) act" where [audits]:
  "AuditEnsureAuditdServiceIsRunning =
     audit (andThen (call (CheckDaemonActive (Some g_auditd))) (\<lambda>auditdActive.
     andThen (call (CheckDaemonNotActive (Some g_auoms))) (\<lambda>auomsNotActive.
       if auditdActive \<and> \<not> auomsNotActive
       then put_reason (format_text (sq g_auoms @ '' is active and collides with '' @ sq g_auditd @ '', '' @ g_remediationIsNotPossible))
       else ret ())))"

definition AuditEnsureSuRestrictedToRootGroup :: "('a asb_scheme, cstr) act" where [audits]:
  "AuditEnsureSuRestrictedToRootGroup =
     audit (ignore (call (CheckTextIsFoundInFile_r (Some ''/etc/pam.d/su'') (Some ''use_uid''))))"

definition AuditEnsureDefaultUmaskForAllUsers :: "('a asb_scheme, cstr) act" where [audits]:
  "AuditEnsureDefaultUmaskForAllUsers =
     audit (with_state (\<lambda>s. ignore (call (CheckLoginUmask (Some (desired_or ''g_desiredEnsureDefaultUmaskForAllUsers'' g_defaultEnsureDefaultUmaskForAllUsers s))))))"

definition AuditEnsureAutomountingDisabled :: "('a asb_scheme, cstr) act" where [audits]:
  "AuditEnsureAutomountingDisabled =
     audit (ignore (call (CheckDaemonNotActive (Some g_autofs))))"

definition AuditEnsureKernelCompiledFromApprovedSources :: "('a asb_scheme, cstr) act" where [audits]:
  "AuditEnsureKernelCompiledFromApprovedSources =
     audit (ignore (or_crash CheckOsAndKernelMatchDistro))"

definition AuditEnsureDefaultDenyFirewallPolicyIsSet :: "('a asb_scheme, cstr) act" where [audits]:
  "AuditEnsureDefaultDenyFirewallPolicyIsSet =
     audit (with_state (\<lambda>s. branch (is_zero (call CheckDefaultDenyFirewallPolicy)) (ret ())
       (put_reason (format_text (''Ensure that all necessary communication channels have explicit ACCEPT firewall policies set and then manually set the default firewall policy for INPUT, FORWARD and OUTPUT to DROP'' @
          (if atoi (desired_or ''g_desiredEnsureDefaultDenyFirewallPolicyIsSet'' g_defaultEnsureDefaultDenyFirewallPolicyIsSet s) \<noteq> 0 then ''.'' else ''. Automatic remediation is not possible''))))))"

definition AuditEnsurePacketRedirectSendingIsDisabled :: "('a asb_scheme, cstr) act" where [audits]:
  "AuditEnsurePacketRedirectSendingIsDisabled =
     audit (return_if_not_zero (call (CheckTextFoundInCommandOutput (Some g_sysCtlA) (Some ''net.ipv4.conf.all.send_redirects = 0'')))
       (ignore (call (CheckTextFoundInCommandOutput (Some g_sysCtlA) (Some ''net.ipv4.conf.default.send_redirects = 0'')))))"

definition AuditEnsureIcmpRedirectsIsDisabled :: "('a asb_scheme, cstr) act" where [audits]:
  "AuditEnsureIcmpRedirectsIsDisabled =
     audit (return_if_not_zero (call (CheckTextFoundInCommandOutput (Some g_sysCtlA) (Some ''net.ipv4.conf.default.accept_redirects = 0'')))
       (return_if_not_zero (call (CheckTextFoundInCommandOutput (Some g_sysCtlA) (Some ''net.ipv6.conf.default.accept_redirects = 0'')))
        (return_if_not_zero (call (CheckTextFoundInCommandOutput (Some g_sysCtlA) (Some ''net.ipv4.conf.all.accept_redirects = 0'')))
         (return_if_not_zero (call (CheckTextFoundInCommandOutput (Some g_sysCtlA) (Some ''net.ipv6.conf.all.accept_redirects = 0'')))
          (return_if_not_zero (call (CheckTextFoundInCommandOutput (Some g_sysCtlA) (Some ''net.ipv4.conf.default.secure_redirects = 0'')))
           (ignore (call (CheckTextFoundInCommandOutput (Some g_sysCtlA) (Some ''net.ipv4.conf.all.secure_redirects = 0'')))))))))"

definition AuditEnsureSourceRoutedPacketsIsDisabled :: "('a asb_scheme, cstr) act" where [audits]:
  "AuditEnsureSourceRoutedPacketsIsDisabled =
     audit (return_if_not_zero (call (CheckLineFoundNotCommentedOut_r (Some ''/proc/sys/net/ipv4/conf/all/accept_source_route'') CHR ''#'' (Some ''0'')))
       (ignore (call (CheckLineFoundNotCommentedOut_r (Some ''/proc/sys/net/ipv6/conf/all/accept_source_route'') CHR ''#'' (Some ''0'')))))"

definition AuditEnsureAcceptingSourceRoutedPacketsIsDisabled :: "('a asb_scheme, cstr) act" where [audits]:
  "AuditEnsureAcceptingSourceRoutedPacketsIsDisabled =
     audit (return_if_not_zero (call (CheckLineFoundNotCommentedOut_r (Some ''/proc/sys/net/ipv4/conf/default/accept_source_route'') CHR ''#'' (Some ''0'')))
       (ignore (call (CheckLineFoundNotCommentedOut_r (Some ''/proc/sys/net/ipv6/conf/default/accept_source_route'') CHR ''#'' (Some ''0'')))))"

definition AuditEnsureIgnoringBogusIcmpBroadcastResponses :: "('a asb_scheme, cstr) act" where [audits]:
  "AuditEnsureIgnoringBogusIcmpBroadcastResponses =
     audit (ignore (call (CheckLineFoundNotCommentedOut_r (Some ''/proc/sys/net/ipv4/icmp_ignore_bogus_error_responses'') CHR ''#'' (Some ''1''))))"

definition AuditEnsureIgnoringIcmpEchoPingsToMulticast :: "('a asb_scheme, cstr) act" where [audits]:
  "AuditEnsureIgnoringIcmpEchoPingsToMulticast =
     audit (ignore (call (CheckLineFoundNotCommentedOut_r (Some ''/proc/sys/net/ipv4/icmp_echo_ignore_broadcasts'') CHR ''#'' (Some ''1''))))"

definition AuditEnsureMartianPacketLoggingIsEnabled :: "('a asb_scheme, cstr) act" where [audits]:
  "AuditEnsureMartianPacketLoggingIsEnabled =
     audit (return_if_not_zero (call (CheckTextFoundInCommandOutput (Some g_sysCtlA) (Some ''net.ipv4.conf.all.log_martians = 1'')))
       (ignore (call (CheckTextFoundInCommandOutput (Some g_sysCtlA) (Some ''net.ipv4.conf.default.log_martians = 1'')))))"

definition AuditEnsureReversePathSourceValidationIsEnabled :: "('a asb_scheme, cstr) act" where [audits]:
  "AuditEnsureReversePathSourceValidationIsEnabled =
     audit (return_if_not_zero (call (CheckLineFoundNotCommentedOut_r (Some ''/proc/sys/net/ipv4/conf/all/rp_filter'') CHR ''#'' (Some ''1'')))
       (ignore (call (CheckLineFoundNotCommentedOut_r (Some ''/proc/sys/net/ipv4/conf/default/rp_filter'') CHR ''#'' (Some ''1'')))))"

definition AuditEnsureTcpSynCookiesAreEnabled :: "('a asb_scheme, cstr) act" where [audits]:
  "AuditEnsureTcpSynCookiesAreEnabled =
     audit (ignore (call (CheckLineFoundNotCommentedOut_r (Some ''/proc/sys/net/ipv4/tcp_syncookies'') CHR ''#'' (Some ''1''))))"

definition AuditEnsureSystemNotActingAsNetworkSniffer :: "('a asb_scheme, cstr) act" where [audits]:
  "AuditEnsureSystemNotActingAsNetworkSniffer =
     audit (return_if_zero (status_of (both (is_zero (call (CheckLineNotFoundOrCommentedOut_r (Some g_etcNetworkInterfaces) CHR ''#'' (Some ''PROMISC'')))) (is_zero (call (CheckLineNotFoundOrCommentedOut_r (Some g_etcRcLocal) CHR ''#'' (Some ''PROMISC''))))))
       (ignore (call (CheckTextNotFoundInCommandOutput (Some ''ip address'') (Some ''PROMISC'')))))"

definition AuditEnsureAllWirelessInterfacesAreDisabled :: "('a asb_scheme, cstr) act" where [audits]:
  "AuditEnsureAllWirelessInterfacesAreDisabled =
     audit (ignore (call CheckAllWirelessInterfacesAreDisabled))"

definition AuditEnsureIpv6ProtocolIsEnabled :: "('a asb_scheme, cstr) act" where [audits]:
  "AuditEnsureIpv6ProtocolIsEnabled =
     audit (return_if_not_zero (call (CheckTextFoundInCommandOutput (Some g_sysCtlA) (Some ''net.ipv6.conf.all.disable_ipv6 = 0'')))
       (ignore (call (CheckTextFoundInCommandOutput (Some g_sysCtlA) (Some ''net.ipv6.conf.default.disable_ipv6 = 0'')))))"

definition AuditEnsureDccpIsDisabled :: "('a asb_scheme, cstr) act" where [audits]:
  "AuditEnsureDccpIsDisabled =
     audit (ignore (call (CheckTextFoundInFolder (Some g_etcModProbeD) (Some ''install dccp /bin/true'') (Some g_conf))))"

definition AuditEnsureSctpIsDisabled :: "('a asb_scheme, cstr) act" where [audits]:
  "AuditEnsureSctpIsDisabled =
     audit (ignore (call (CheckTextFoundInFolder (Some g_etcModProbeD) (Some ''install sctp /bin/true'') (Some g_conf))))"

definition AuditEnsureDisabledSupportForRds :: "('a asb_scheme, cstr) act" where [audits]:
  "AuditEnsureDisabledSupportForRds =
     audit (ignore (call (CheckTextFoundInFolder (Some g_etcModProbeD) (Some ''install rds /bin/true'') (Some g_conf))))"

definition AuditEnsureTipcIsDisabled :: "('a asb_scheme, cstr) act" where [audits]:
  "AuditEnsureTipcIsDisabled =
     audit (ignore (call (CheckTextFoundInFolder (Some g_etcModProbeD) (Some ''install tipc /bin/true'') (Some g_conf))))"

definition AuditEnsureZeroconfNetworkingIsDisabled :: "('a asb_scheme, cstr) act" where [audits]:
  "AuditEnsureZeroconfNetworkingIsDisabled =
     audit (return_if_not_zero (status_of (call (CheckDaemonNotActive (Some g_avahiDaemon))))
       (return_if_not_zero (call (CheckLineNotFoundOrCommentedOut_r (Some g_etcNetworkInterfaces) CHR ''#'' (Some g_ipv4ll)))
         (branch (both (file_exists g_etcSysconfigNetwork) (is_a_file g_etcSysconfigNetwork))
           (branch (call (CheckDaemonNotActive (Some g_legacyNetworkService))) (ret ())
             (ignore (call (CheckLineFoundNotCommentedOut_r (Some g_etcSysconfigNetwork) CHR ''#'' (Some ''NOZEROCONF=yes'')))))
           (ret ()))))"

definition AuditEnsurePermissionsOnBootloaderConfig :: "('a asb_scheme, cstr) act" where [audits]:
  "AuditEnsurePermissionsOnBootloaderConfig =
     audit (with_state (\<lambda>s. let mode = octal_value (desired_or ''g_desiredEnsurePermissionsOnBootloaderConfig'' g_defaultEnsurePermissionsOnBootloaderConfig s) in
       (return_if_not_zero (call (CheckFileAccess (Some g_bootGrubGrubCfg) 0 0 mode))
       (return_if_not_zero (call (CheckFileAccess (Some g_bootGrubGrubConf) 0 0 mode))
       (return_if_not_zero (call (CheckFileAccess (Some g_bootGrub2GrubCfg) 0 0 mode))
       (return_if_not_zero (call (CheckFileAccess (Some g_bootGrub2GrubConf) 0 0 mode))
       (return_if_not_zero (call (CheckFileAccess (Some g_bootGrubUserCfg) 0 0 mode))
       (ignore (call (CheckFileAccess (Some g_bootGrub2UserCfg) 0 0 mode))))))))))"

definition AuditEnsurePasswordReuseIsLimited :: "('a asb_scheme, cstr) act" where [audits]:
  "AuditEnsurePasswordReuseIsLimited =
     audit (with_state (\<lambda>s. ignore (call (CheckEnsurePasswordReuseIsLimited (atoi (desired_or ''g_desiredEnsurePasswordReuseIsLimited'' g_defaultEnsurePasswordReuseIsLimited s))))))"

definition AuditEnsureMountingOfUsbStorageDevicesIsDisabled :: "('a asb_scheme, cstr) act" where [audits]:
  "AuditEnsureMountingOfUsbStorageDevicesIsDisabled =
     audit (ignore (call (CheckTextFoundInFolder (Some g_etcModProbeD) (Some ''install usb-storage /bin/true'') (Some g_conf))))"

definition AuditEnsureCoreDumpsAreRestricted :: "('a asb_scheme, cstr) act" where [audits]:
  "AuditEnsureCoreDumpsAreRestricted =
     audit (return_if_not_zero (call CheckCoreDumpsHardLimitIsDisabledForAllUsers)
       (ignore (call (CheckLineFoundNotCommentedOut_r (Some g_sysCtlConf) CHR ''#'' (Some g_fsSuidDumpable)))))"

definition AuditEnsurePasswordCreationRequirements :: "('a asb_scheme, cstr) act" where [audits]:
  "AuditEnsurePasswordCreationRequirements =
     audit (audit_numbers ''g_desiredEnsurePasswordCreationRequirements'' g_defaultEnsurePasswordCreationRequirements 10 (\<lambda>vs. length vs = 7)
       ''. There must be 7 numbers, comma separated, in this order: retry, minlen, minclass, dcredit, ucredit, ocredit, lcredit''
       (\<lambda>vs. call (CheckPasswordCreationRequirements (vs ! 0) (vs ! 1) (vs ! 2) (vs ! 3) (vs ! 4) (vs ! 5) (vs ! 6))))"

definition AuditEnsureLockoutForFailedPasswordAttempts :: "('a asb_scheme, cstr) act" where [audits]:
  "AuditEnsureLockoutForFailedPasswordAttempts =
     audit (let missing = put_reason (duplicate ''Neither pam_faillock.so, pam_tally2.so or pam_tally.so PAM modules are configured for failed-login lockout on this system. Manually set lockout for failed password attempts following specific instructions for this distribution. Automatic remediation is not possible'')
      in branch (is_zero (call (CheckPamFaillockModernModelInUse (map Some [g_etcPamdSystemAuth, g_etcPamdPasswordAuth, g_etcPamdLogin, g_etcPamdCommonAuth]) (Some g_etcSecurityFaillockConf))))
          (return_if_zero (call (CheckLockoutForFailedPasswordAttemptsViaFaillockConf (Some g_etcPamdSystemAuth) (Some g_etcSecurityFaillockConf)))
          (return_if_zero (call (CheckLockoutForFailedPasswordAttemptsViaFaillockConf (Some g_etcPamdPasswordAuth) (Some g_etcSecurityFaillockConf)))
          (return_if_zero (call (CheckLockoutForFailedPasswordAttemptsViaFaillockConf (Some g_etcPamdLogin) (Some g_etcSecurityFaillockConf)))
          (return_if_zero (call (CheckLockoutForFailedPasswordAttemptsViaFaillockConf (Some g_etcPamdCommonAuth) (Some g_etcSecurityFaillockConf)))
          missing))))
          (return_if_zero (call (CheckLockoutForFailedPasswordAttempts (Some g_etcPamdSystemAuth) (Some ''pam_faillock.so'') CHR ''#''))
          (return_if_zero (call (CheckLockoutForFailedPasswordAttempts (Some g_etcPamdPasswordAuth) (Some ''pam_faillock.so'') CHR ''#''))
          (return_if_zero (call (CheckLockoutForFailedPasswordAttempts (Some g_etcPamdLogin) (Some ''pam_faillock.so'') CHR ''#''))
          (return_if_zero (call (CheckLockoutForFailedPasswordAttempts (Some g_etcPamdCommonAuth) (Some ''pam_faillock.so'') CHR ''#''))
          (return_if_zero (call (CheckLockoutForFailedPasswordAttempts (Some g_etcPamdSystemAuth) (Some ''pam_tally2.so'') CHR ''#''))
          (return_if_zero (call (CheckLockoutForFailedPasswordAttempts (Some g_etcPamdPasswordAuth) (Some ''pam_tally2.so'') CHR ''#''))
          (return_if_zero (call (CheckLockoutForFailedPasswordAttempts (Some g_etcPamdLogin) (Some ''pam_tally2.so'') CHR ''#''))
          (return_if_zero (call (CheckLockoutForFailedPasswordAttempts (Some g_etcPamdCommonAuth) (Some ''pam_tally2.so'') CHR ''#''))
          (return_if_zero (call (CheckLockoutForFailedPasswordAttempts (Some g_etcPamdSystemAuth) (Some ''pam_tally.so'') CHR ''#''))
          (return_if_zero (call (CheckLockoutForFailedPasswordAttempts (Some g_etcPamdPasswordAuth) (Some ''pam_tally.so'') CHR ''#''))
          (return_if_zero (call (CheckLockoutForFailedPasswordAttempts (Some g_etcPamdLogin) (Some ''pam_tally.so'') CHR ''#''))
          (return_if_zero (call (CheckLockoutForFailedPasswordAttempts (Some g_etcPamdCommonAuth) (Some ''pam_tally.so'') CHR ''#''))
          missing)))))))))))))"

definition AuditEnsureDisabledInstallationOfCramfsFileSystem :: "('a asb_scheme, cstr) act" where [audits]:
  "AuditEnsureDisabledInstallationOfCramfsFileSystem =
     audit (ignore (call (CheckTextFoundInFolder (Some g_etcModProbeD) (Some ''install cramfs'') (Some g_conf))))"

definition AuditEnsureDisabledInstallationOfFreevxfsFileSystem :: "('a asb_scheme, cstr) act" where [audits]:
  "AuditEnsureDisabledInstallationOfFreevxfsFileSystem =
     audit (ignore (call (CheckTextFoundInFolder (Some g_etcModProbeD) (Some ''install freevxfs'') (Some g_conf))))"

definition AuditEnsureDisabledInstallationOfHfsFileSystem :: "('a asb_scheme, cstr) act" where [audits]:
  "AuditEnsureDisabledInstallationOfHfsFileSystem =
     audit (ignore (call (CheckTextFoundInFolder (Some g_etcModProbeD) (Some ''install hfs'') (Some g_conf))))"

definition AuditEnsureDisabledInstallationOfHfsplusFileSystem :: "('a asb_scheme, cstr) act" where [audits]:
  "AuditEnsureDisabledInstallationOfHfsplusFileSystem =
     audit (ignore (call (CheckTextFoundInFolder (Some g_etcModProbeD) (Some ''install hfsplus'') (Some g_conf))))"

definition AuditEnsureDisabledInstallationOfJffs2FileSystem :: "('a asb_scheme, cstr) act" where [audits]:
  "AuditEnsureDisabledInstallationOfJffs2FileSystem =
     audit (ignore (call (CheckTextFoundInFolder (Some g_etcModProbeD) (Some ''install jffs2'') (Some g_conf))))"

definition AuditEnsureVirtualMemoryRandomizationIsEnabled :: "('a asb_scheme, cstr) act" where [audits]:
  "AuditEnsureVirtualMemoryRandomizationIsEnabled =
     audit (return_if_zero (call (CheckSmallFileContainsText_r (Some ''/proc/sys/kernel/randomize_va_space'') (Some ''2'')))
       (ignore (call (CheckSmallFileContainsText_r (Some ''/proc/sys/kernel/randomize_va_space'') (Some ''1'')))))"

definition AuditEnsureAllBootloadersHavePasswordProtectionEnabled :: "('a asb_scheme, cstr) act" where [audits]:
  "AuditEnsureAllBootloadersHavePasswordProtectionEnabled =
     audit (return_if_zero (call (CheckLineFoundNotCommentedOut_r (Some g_bootGrubGrubCfg) CHR ''#'' (Some ''password'')))
       (return_if_zero (call (CheckLineFoundNotCommentedOut_r (Some g_bootGrubGrubConf) CHR ''#'' (Some ''password'')))
       (return_if_zero (call (CheckLineFoundNotCommentedOut_r (Some g_bootGrubUserCfg) CHR ''#'' (Some ''password'')))
       (return_if_zero (call (CheckLineFoundNotCommentedOut_r (Some g_bootGrub2GrubCfg) CHR ''#'' (Some ''password'')))
       (return_if_zero (call (CheckLineFoundNotCommentedOut_r (Some g_bootGrub2GrubConf) CHR ''#'' (Some ''password'')))
       (return_if_zero (call (CheckLineFoundNotCommentedOut_r (Some g_bootGrub2UserCfg) CHR ''#'' (Some ''password'')))
       (put_reason (duplicate ''Manually set a boot loader password for GRUB. Automatic remediation is not possible''))))))))"

definition AuditEnsureLoggingIsConfigured :: "('a asb_scheme, cstr) act" where [audits]:
  "AuditEnsureLoggingIsConfigured =
     audit (return_if_not_zero (call (CheckPackageInstalled (Some g_systemd)))
       (return_if_not_zero (status_of (call (CheckDaemonActive (Some g_systemdJournald))))
        (return_if_zero (status_of (both (is_zero (call (CheckPackageInstalled (Some g_rsyslog)))) (call (CheckDaemonActive (Some g_rsyslog)))))
         (return_if_zero (status_of (both (is_zero (call (CheckPackageInstalled (Some g_syslog)))) (call (CheckDaemonActive (Some g_syslog)))))
          (return_if_zero (status_of (both (is_zero (call (CheckPackageInstalled (Some g_syslogNg)))) (call (CheckDaemonActive (Some g_syslogNg)))))
           (ret ()))))))"

definition AuditEnsureSyslogPackageIsInstalled :: "('a asb_scheme, cstr) act" where [audits]:
  "AuditEnsureSyslogPackageIsInstalled =
     audit (branch (is_zero (call (CheckPackageInstalled (Some g_systemd))))
       (return_if_zero (call (CheckPackageInstalled (Some g_syslog)))
       (return_if_zero (call (CheckPackageInstalled (Some g_rsyslog)))
       (ignore (call (CheckPackageInstalled (Some g_syslogNg))))))
       (ignore (call (CheckPackageInstalled (Some g_syslogNg)))))"

definition AuditEnsureSystemdJournaldServicePersistsLogMessages :: "('a asb_scheme, cstr) act" where [audits]:
  "AuditEnsureSystemdJournaldServicePersistsLogMessages =
     audit (return_if_not_zero (call (CheckPackageInstalled (Some g_systemd)))
       (ignore (call (CheckDirectoryAccess (Some g_varLogJournal) 0 (- 1) (octal_value ''02755'')))))"

definition AuditEnsureALoggingServiceIsEnabled :: "('a asb_scheme, cstr) act" where [audits]:
  "AuditEnsureALoggingServiceIsEnabled =
     audit (branch (is_zero (call (CheckPackageNotInstalled (Some g_systemd))))
       (return_if_zero (status_of (both (is_zero (call (CheckPackageNotInstalled (Some g_syslogNg)))) (call (CheckDaemonActive (Some g_rsyslog)))))
       (return_if_zero (status_of (both (is_zero (call (CheckPackageNotInstalled (Some g_rsyslog)))) (call (CheckDaemonActive (Some g_syslogNg)))))
       (ignore (call (CheckDaemonActive (Some g_systemdJournald))))))
       (ignore (call (CheckDaemonActive (Some g_systemdJournald)))))"

definition AuditEnsureFilePermissionsForAllRsyslogLogFiles :: "('a asb_scheme, cstr) act" where [audits]:
  "AuditEnsureFilePermissionsForAllRsyslogLogFiles =
     audit (audit_numbers ''g_desiredEnsureFilePermissionsForAllRsyslogLogFiles'' g_defaultEnsureFilePermissionsForAllRsyslogLogFiles 8 (\<lambda>modes. modes \<noteq> []) []
       (\<lambda>modes. call (CheckIntegerOptionFromFileEqualWithAny_r (Some g_etcRsyslogConf) (Some g_fileCreateMode) CHR '' '' CHR ''#'' modes 8)))"

definition AuditEnsureLoggerConfigurationFilesAreRestricted :: "('a asb_scheme, cstr) act" where [audits]:
  "AuditEnsureLoggerConfigurationFilesAreRestricted =
     audit (return_if_not_zero (call (CheckFileAccess (Some g_etcRsyslogConf) 0 0 (octal_value ''0640'')))
       (ignore (call (CheckFileAccess (Some g_etcSyslogNgSyslogNgConf) 0 0 (octal_value ''0640'')))))"

definition AuditEnsureAllRsyslogLogFilesAreOwnedByAdmGroup :: "('a asb_scheme, cstr) act" where [audits]:
  "AuditEnsureAllRsyslogLogFilesAreOwnedByAdmGroup =
     audit (return_if_not_zero (call (CheckTextIsFoundInFile_r (Some g_etcRsyslogConf) (Some ''$FileGroup adm'')))
       (return_if_not_zero (call (CheckLineFoundNotCommentedOut_r (Some g_etcRsyslogConf) CHR ''#'' (Some ''$FileGroup adm'')))
        (ignore (check (\<lambda>t. CheckGroupExists (now t) (Some ''adm''))))))"

definition AuditEnsureAllRsyslogLogFilesAreOwnedBySyslogUser :: "('a asb_scheme, cstr) act" where [audits]:
  "AuditEnsureAllRsyslogLogFilesAreOwnedBySyslogUser =
     audit (return_if_not_zero (call (CheckTextIsFoundInFile_r (Some g_etcRsyslogConf) (Some ''$FileOwner syslog'')))
       (return_if_not_zero (call (CheckLineFoundNotCommentedOut_r (Some g_etcRsyslogConf) CHR ''#'' (Some ''$FileOwner syslog'')))
        (ignore (check (\<lambda>_. CheckUserExists (Some ''syslog''))))))"

definition AuditEnsureRsyslogNotAcceptingRemoteMessages :: "('a asb_scheme, cstr) act" where [audits]:
  "AuditEnsureRsyslogNotAcceptingRemoteMessages =
     audit (return_if_not_zero (call (CheckLineNotFoundOrCommentedOut_r (Some g_etcRsyslogConf) CHR ''#'' (Some ''$ModLoad imudp'')))
       (ignore (call (CheckLineNotFoundOrCommentedOut_r (Some g_etcRsyslogConf) CHR ''#'' (Some ''$ModLoad imtcp'')))))"

definition AuditEnsureSyslogRotaterServiceIsEnabled :: "('a asb_scheme, cstr) act" where [audits]:
  "AuditEnsureSyslogRotaterServiceIsEnabled =
     audit (return_if_not_zero (call (CheckPackageInstalled (Some g_logrotate)))
       (return_if_not_zero (call (CheckFileAccess (Some g_etcCronDailyLogRotate) 0 0 (octal_value ''0755'')))
       (branch (both (negate is_red_hat_based) (both (negate (call (IsCurrentOs (Some PRETTY_NAME_UBUNTU_16_04)))) (negate (call (IsCurrentOs (Some PRETTY_NAME_UBUNTU_18_04))))))
          (ignore (call (CheckDaemonActive (Some g_logrotateTimer)))) (ret ()))))"

definition AuditEnsureTelnetServiceIsDisabled :: "('a asb_scheme, cstr) act" where [audits]:
  "AuditEnsureTelnetServiceIsDisabled =
     audit (return_if_not_zero (status_of (call (CheckDaemonNotActive (Some g_telnet))))
       (ignore (call (CheckLineNotFoundOrCommentedOut_r (Some g_etcInetdConf) CHR ''#'' (Some g_telnet)))))"

definition AuditEnsureRcprshServiceIsDisabled :: "('a asb_scheme, cstr) act" where [audits]:
  "AuditEnsureRcprshServiceIsDisabled =
     audit (return_if_not_zero (status_of (call (CheckDaemonNotActive (Some g_rcpSocket))))
       (ignore (call (CheckDaemonNotActive (Some g_rshSocket)))))"

definition AuditEnsureTftpServiceisDisabled :: "('a asb_scheme, cstr) act" where [audits]:
  "AuditEnsureTftpServiceisDisabled =
     audit (return_if_not_zero (status_of (call (CheckDaemonNotActive (Some g_tftpHpa))))
       (ignore (call (CheckLineNotFoundOrCommentedOut_r (Some g_etcInetdConf) CHR ''#'' (Some g_tftp)))))"

definition AuditEnsureAtCronIsRestrictedToAuthorizedUsers :: "('a asb_scheme, cstr) act" where [audits]:
  "AuditEnsureAtCronIsRestrictedToAuthorizedUsers =
     audit (return_if_not_zero (status_of (negate (is_zero (call (CheckFileNotFound_r (Some g_etcCronDeny))))))
       (return_if_not_zero (status_of (negate (is_zero (call (CheckFileNotFound_r (Some g_etcAtDeny))))))
        (return_if_not_zero (call (CheckFileExists_r (Some g_etcCronAllow)))
         (return_if_not_zero (call (CheckFileExists_r (Some g_etcAtAllow)))
          (return_if_not_zero (call (CheckFileAccess (Some g_etcCronAllow) 0 0 (octal_value ''0600'')))
           (ignore (call (CheckFileAccess (Some g_etcAtAllow) 0 0 (octal_value ''0600'')))))))))"

definition AuditEnsureSshPortIsConfigured :: "('a asb_scheme, cstr) act" where [audits]:
  "AuditEnsureSshPortIsConfigured =
     audit (ignore (call (ProcessSshAuditCheck (Some g_auditEnsureSshPortIsConfiguredObject) None)))"

definition AuditEnsureSshBestPracticeProtocol :: "('a asb_scheme, cstr) act" where [audits]:
  "AuditEnsureSshBestPracticeProtocol =
     audit (ignore (call (ProcessSshAuditCheck (Some g_auditEnsureSshBestPracticeProtocolObject) None)))"

definition AuditEnsureSshBestPracticeIgnoreRhosts :: "('a asb_scheme, cstr) act" where [audits]:
  "AuditEnsureSshBestPracticeIgnoreRhosts =
     audit (ignore (call (ProcessSshAuditCheck (Some g_auditEnsureSshBestPracticeIgnoreRhostsObject) None)))"

definition AuditEnsureSshLogLevelIsSet :: "('a asb_scheme, cstr) act" where [audits]:
  "AuditEnsureSshLogLevelIsSet =
     audit (ignore (call (ProcessSshAuditCheck (Some g_auditEnsureSshLogLevelIsSetObject) None)))"

definition AuditEnsureSshMaxAuthTriesIsSet :: "('a asb_scheme, cstr) act" where [audits]:
  "AuditEnsureSshMaxAuthTriesIsSet =
     audit (ignore (call (ProcessSshAuditCheck (Some g_auditEnsureSshMaxAuthTriesIsSetObject) None)))"

definition AuditEnsureAllowUsersIsConfigured :: "('a asb_scheme, cstr) act" where [audits]:
  "AuditEnsureAllowUsersIsConfigured =
     audit (ignore (call (ProcessSshAuditCheck (Some g_auditEnsureAllowUsersIsConfiguredObject) None)))"

definition AuditEnsureDenyUsersIsConfigured :: "('a asb_scheme, cstr) act" where [audits]:
  "AuditEnsureDenyUsersIsConfigured =
     audit (ignore (call (ProcessSshAuditCheck (Some g_auditEnsureDenyUsersIsConfiguredObject) None)))"

definition AuditEnsureAllowGroupsIsConfigured :: "('a asb_scheme, cstr) act" where [audits]:
  "AuditEnsureAllowGroupsIsConfigured =
     audit (ignore (call (ProcessSshAuditCheck (Some g_auditEnsureAllowGroupsIsConfiguredObject) None)))"

definition AuditEnsureDenyGroupsConfigured :: "('a asb_scheme, cstr) act" where [audits]:
  "AuditEnsureDenyGroupsConfigured =
     audit (ignore (call (ProcessSshAuditCheck (Some g_auditEnsureDenyGroupsConfiguredObject) None)))"

definition AuditEnsureSshHostbasedAuthenticationIsDisabled :: "('a asb_scheme, cstr) act" where [audits]:
  "AuditEnsureSshHostbasedAuthenticationIsDisabled =
     audit (ignore (call (ProcessSshAuditCheck (Some g_auditEnsureSshHostbasedAuthenticationIsDisabledObject) None)))"

definition AuditEnsureSshPermitRootLoginIsDisabled :: "('a asb_scheme, cstr) act" where [audits]:
  "AuditEnsureSshPermitRootLoginIsDisabled =
     audit (ignore (call (ProcessSshAuditCheck (Some g_auditEnsureSshPermitRootLoginIsDisabledObject) None)))"

definition AuditEnsureSshPermitEmptyPasswordsIsDisabled :: "('a asb_scheme, cstr) act" where [audits]:
  "AuditEnsureSshPermitEmptyPasswordsIsDisabled =
     audit (ignore (call (ProcessSshAuditCheck (Some g_auditEnsureSshPermitEmptyPasswordsIsDisabledObject) None)))"

definition AuditEnsureSshClientIntervalCountMaxIsConfigured :: "('a asb_scheme, cstr) act" where [audits]:
  "AuditEnsureSshClientIntervalCountMaxIsConfigured =
     audit (ignore (call (ProcessSshAuditCheck (Some g_auditEnsureSshClientIntervalCountMaxIsConfiguredObject) None)))"

definition AuditEnsureSshClientAliveIntervalIsConfigured :: "('a asb_scheme, cstr) act" where [audits]:
  "AuditEnsureSshClientAliveIntervalIsConfigured =
     audit (ignore (call (ProcessSshAuditCheck (Some g_auditEnsureSshClientAliveIntervalIsConfiguredObject) None)))"

definition AuditEnsureSshLoginGraceTimeIsSet :: "('a asb_scheme, cstr) act" where [audits]:
  "AuditEnsureSshLoginGraceTimeIsSet =
     audit (ignore (call (ProcessSshAuditCheck (Some g_auditEnsureSshLoginGraceTimeIsSetObject) None)))"

definition AuditEnsureOnlyApprovedMacAlgorithmsAreUsed :: "('a asb_scheme, cstr) act" where [audits]:
  "AuditEnsureOnlyApprovedMacAlgorithmsAreUsed =
     audit (ignore (call (ProcessSshAuditCheck (Some g_auditEnsureOnlyApprovedMacAlgorithmsAreUsedObject) None)))"

definition AuditEnsureSshWarningBannerIsEnabled :: "('a asb_scheme, cstr) act" where [audits]:
  "AuditEnsureSshWarningBannerIsEnabled =
     audit (ignore (call (ProcessSshAuditCheck (Some g_auditEnsureSshWarningBannerIsEnabledObject) None)))"

definition AuditEnsureUsersCannotSetSshEnvironmentOptions :: "('a asb_scheme, cstr) act" where [audits]:
  "AuditEnsureUsersCannotSetSshEnvironmentOptions =
     audit (ignore (call (ProcessSshAuditCheck (Some g_auditEnsureUsersCannotSetSshEnvironmentOptionsObject) None)))"

definition AuditEnsureAppropriateCiphersForSsh :: "('a asb_scheme, cstr) act" where [audits]:
  "AuditEnsureAppropriateCiphersForSsh =
     audit (ignore (call (ProcessSshAuditCheck (Some g_auditEnsureAppropriateCiphersForSshObject) None)))"

definition AuditEnsureAvahiDaemonServiceIsDisabled :: "('a asb_scheme, cstr) act" where [audits]:
  "AuditEnsureAvahiDaemonServiceIsDisabled =
     audit (ignore (call (CheckDaemonNotActive (Some g_avahiDaemon))))"

definition AuditEnsureCupsServiceisDisabled :: "('a asb_scheme, cstr) act" where [audits]:
  "AuditEnsureCupsServiceisDisabled =
     audit (ignore (call (CheckDaemonNotActive (Some g_cups))))"

definition AuditEnsurePostfixPackageIsUninstalled :: "('a asb_scheme, cstr) act" where [audits]:
  "AuditEnsurePostfixPackageIsUninstalled =
     audit (ignore (call (CheckPackageNotInstalled (Some g_postfix))))"

definition AuditEnsurePostfixNetworkListeningIsDisabled :: "('a asb_scheme, cstr) act" where [audits]:
  "AuditEnsurePostfixNetworkListeningIsDisabled =
     audit (branch (both (negate (is_zero (call (CheckPackageNotInstalled (Some g_postfix))))) (is_zero (call (CheckFileExists_r (Some g_etcPostfixMainCf)))))
       (ignore (call (CheckTextIsFoundInFile_r (Some g_etcPostfixMainCf) (Some g_inetInterfacesLocalhost)))) (ret ()))"

definition AuditEnsureRpcgssdServiceIsDisabled :: "('a asb_scheme, cstr) act" where [audits]:
  "AuditEnsureRpcgssdServiceIsDisabled =
     audit (return_if_not_zero (status_of (call (CheckDaemonNotActive (Some g_rpcgssd))))
       (ignore (call (CheckDaemonNotActive (Some g_rpcGssd)))))"

definition AuditEnsureRpcidmapdServiceIsDisabled :: "('a asb_scheme, cstr) act" where [audits]:
  "AuditEnsureRpcidmapdServiceIsDisabled =
     audit (return_if_not_zero (status_of (call (CheckDaemonNotActive (Some g_rpcidmapd))))
       (ignore (call (CheckDaemonNotActive (Some g_nfsIdmapd)))))"

definition AuditEnsurePortmapServiceIsDisabled :: "('a asb_scheme, cstr) act" where [audits]:
  "AuditEnsurePortmapServiceIsDisabled =
     audit (return_if_not_zero (status_of (call (CheckDaemonNotActive (Some g_rpcbindSocket))))
       (ignore (call (CheckDaemonNotActive (Some g_rpcbind)))))"

definition AuditEnsureNetworkFileSystemServiceIsDisabled :: "('a asb_scheme, cstr) act" where [audits]:
  "AuditEnsureNetworkFileSystemServiceIsDisabled =
     audit (ignore (call (CheckDaemonNotActive (Some g_nfsServer))))"

definition AuditEnsureRpcsvcgssdServiceIsDisabled :: "('a asb_scheme, cstr) act" where [audits]:
  "AuditEnsureRpcsvcgssdServiceIsDisabled =
     audit (return_if_not_zero (call (CheckLineNotFoundOrCommentedOut_r (Some g_etcInetdConf) CHR ''#'' (Some g_needSvcgssd)))
       (ignore (call (CheckDaemonNotActive (Some g_rpcSvcgssd)))))"

definition AuditEnsureSnmpServerIsDisabled :: "('a asb_scheme, cstr) act" where [audits]:
  "AuditEnsureSnmpServerIsDisabled =
     audit (ignore (call (CheckDaemonNotActive (Some g_snmpd))))"

definition AuditEnsureRsynServiceIsDisabled :: "('a asb_scheme, cstr) act" where [audits]:
  "AuditEnsureRsynServiceIsDisabled =
     audit (ignore (call (CheckDaemonNotActive (Some g_rsync))))"

definition AuditEnsureNisServerIsDisabled :: "('a asb_scheme, cstr) act" where [audits]:
  "AuditEnsureNisServerIsDisabled =
     audit (ignore (call (CheckDaemonNotActive (Some g_ypserv))))"

definition AuditEnsureRshClientNotInstalled :: "('a asb_scheme, cstr) act" where [audits]:
  "AuditEnsureRshClientNotInstalled =
     audit (return_if_not_zero (call (CheckPackageNotInstalled (Some g_rsh)))
       (ignore (call (CheckPackageNotInstalled (Some g_rshClient)))))"

definition AuditEnsureSmbWithSambaIsDisabled :: "('a asb_scheme, cstr) act" where [audits]:
  "AuditEnsureSmbWithSambaIsDisabled =
     audit (branch (either (call (IsDaemonActive (Some g_smbd))) (call (IsDaemonActive (Some g_smb))))
       (return_if_not_zero (call (CheckLineFoundNotCommentedOut_r (Some g_etcSambaConf) CHR ''#'' (Some g_minSambaProtocol)))
         (ignore (call (CheckLineFoundNotCommentedOut_r (Some g_etcSambaConf) CHR '';'' (Some g_minSambaProtocol)))))
       (return_if_not_zero (call (CheckFileNotFound_r (Some g_etcSambaConf)))
         (ignore (call (CheckPackageNotInstalled (Some g_samba))))))"

definition AuditEnsureUsersDotFilesArentGroupOrWorldWritable :: "('a asb_scheme, cstr) act" where [audits]:
  "AuditEnsureUsersDotFilesArentGroupOrWorldWritable =
     audit (audit_numbers ''g_desiredEnsureUsersDotFilesArentGroupOrWorldWritable'' g_defaultEnsureUsersDotFilesArentGroupOrWorldWritable 8 (\<lambda>modes. 2 \<le> length modes)
       ''. There must be at least two access numbers, comma separated''
       (\<lambda>modes. check (\<lambda>t. CheckUsersRestrictedDotFiles (now t) (readdir_of t) (modes_of modes))))"

definition AuditEnsureNoUsersHaveDotForwardFiles :: "('a asb_scheme, cstr) act" where [audits]:
  "AuditEnsureNoUsersHaveDotForwardFiles =
     audit (ignore (users_dot_files (Some g_forward) False))"

definition AuditEnsureNoUsersHaveDotNetrcFiles :: "('a asb_scheme, cstr) act" where [audits]:
  "AuditEnsureNoUsersHaveDotNetrcFiles =
     audit (ignore (users_dot_files (Some g_netrc) False))"

definition AuditEnsureNoUsersHaveDotRhostsFiles :: "('a asb_scheme, cstr) act" where [audits]:
  "AuditEnsureNoUsersHaveDotRhostsFiles =
     audit (ignore (users_dot_files (Some g_rhosts) False))"

definition AuditEnsureRloginServiceIsDisabled :: "('a asb_scheme, cstr) act" where [audits]:
  "AuditEnsureRloginServiceIsDisabled =
     audit (return_if_not_zero (status_of (call (CheckDaemonNotActive (Some g_rlogin))))
       (return_if_not_zero (call (CheckPackageNotInstalled (Some g_rlogin)))
        (return_if_not_zero (call (CheckPackageNotInstalled (Some g_inetd)))
         (return_if_not_zero (call (CheckPackageNotInstalled (Some g_inetUtilsInetd)))
          (ignore (call (CheckLineNotFoundOrCommentedOut_r (Some g_etcInetdConf) CHR ''#'' (Some g_login))))))))"

definition AuditEnsureUnnecessaryAccountsAreRemoved :: "('a asb_scheme, cstr) act" where [audits]:
  "AuditEnsureUnnecessaryAccountsAreRemoved =
     audit (with_state (\<lambda>s. ignore (check_or_crash (\<lambda>t. CheckUserAccountsNotFound (now t) (Some (desired_or ''g_desiredEnsureUnnecessaryAccountsAreRemoved'' g_defaultEnsureUnnecessaryAccountsAreRemoved s))))))"

end
