(* ===== verification/AsbInit.thy ===== *)
theory AsbInit
  imports AsbState
begin

text \<open>
  The calls of \<open>src/common/asb/Asb.c\<close> that set a desired value: the value of the payload, or the default when there is none.
\<close>

definition InitEnsurePermissionsOnEtcSshSshdConfig :: "cstr \<Rightarrow> ('a baseline_scheme, int) act" where [inits]:
  "InitEnsurePermissionsOnEtcSshSshdConfig v = call (InitializeSshAuditCheck (Some ''initEnsurePermissionsOnEtcSshSshdConfig'') v)"

definition InitEnsureSshPortIsConfigured :: "cstr \<Rightarrow> ('a baseline_scheme, int) act" where [inits]:
  "InitEnsureSshPortIsConfigured v = call (InitializeSshAuditCheck (Some ''initEnsureSshPortIsConfigured'') v)"

definition InitEnsureSshBestPracticeProtocol :: "cstr \<Rightarrow> ('a baseline_scheme, int) act" where [inits]:
  "InitEnsureSshBestPracticeProtocol v = call (InitializeSshAuditCheck (Some ''initEnsureSshBestPracticeProtocol'') v)"

definition InitEnsureSshBestPracticeIgnoreRhosts :: "cstr \<Rightarrow> ('a baseline_scheme, int) act" where [inits]:
  "InitEnsureSshBestPracticeIgnoreRhosts v = call (InitializeSshAuditCheck (Some ''initEnsureSshBestPracticeIgnoreRhosts'') v)"

definition InitEnsureSshLogLevelIsSet :: "cstr \<Rightarrow> ('a baseline_scheme, int) act" where [inits]:
  "InitEnsureSshLogLevelIsSet v = call (InitializeSshAuditCheck (Some ''initEnsureSshLogLevelIsSet'') v)"

definition InitEnsureSshMaxAuthTriesIsSet :: "cstr \<Rightarrow> ('a baseline_scheme, int) act" where [inits]:
  "InitEnsureSshMaxAuthTriesIsSet v = call (InitializeSshAuditCheck (Some ''initEnsureSshMaxAuthTriesIsSet'') v)"

definition InitEnsureAllowUsersIsConfigured :: "cstr \<Rightarrow> ('a baseline_scheme, int) act" where [inits]:
  "InitEnsureAllowUsersIsConfigured v = call (InitializeSshAuditCheck (Some ''initEnsureAllowUsersIsConfigured'') v)"

definition InitEnsureDenyUsersIsConfigured :: "cstr \<Rightarrow> ('a baseline_scheme, int) act" where [inits]:
  "InitEnsureDenyUsersIsConfigured v = call (InitializeSshAuditCheck (Some ''initEnsureDenyUsersIsConfigured'') v)"

definition InitEnsureAllowGroupsIsConfigured :: "cstr \<Rightarrow> ('a baseline_scheme, int) act" where [inits]:
  "InitEnsureAllowGroupsIsConfigured v = call (InitializeSshAuditCheck (Some ''initEnsureAllowGroupsIsConfigured'') v)"

definition InitEnsureDenyGroupsConfigured :: "cstr \<Rightarrow> ('a baseline_scheme, int) act" where [inits]:
  "InitEnsureDenyGroupsConfigured v = call (InitializeSshAuditCheck (Some ''initEnsureDenyGroupsConfigured'') v)"

definition InitEnsureSshHostbasedAuthenticationIsDisabled :: "cstr \<Rightarrow> ('a baseline_scheme, int) act" where [inits]:
  "InitEnsureSshHostbasedAuthenticationIsDisabled v = call (InitializeSshAuditCheck (Some ''initEnsureSshHostbasedAuthenticationIsDisabled'') v)"

definition InitEnsureSshPermitRootLoginIsDisabled :: "cstr \<Rightarrow> ('a baseline_scheme, int) act" where [inits]:
  "InitEnsureSshPermitRootLoginIsDisabled v = call (InitializeSshAuditCheck (Some ''initEnsureSshPermitRootLoginIsDisabled'') v)"

definition InitEnsureSshPermitEmptyPasswordsIsDisabled :: "cstr \<Rightarrow> ('a baseline_scheme, int) act" where [inits]:
  "InitEnsureSshPermitEmptyPasswordsIsDisabled v = call (InitializeSshAuditCheck (Some ''initEnsureSshPermitEmptyPasswordsIsDisabled'') v)"

definition InitEnsureSshClientIntervalCountMaxIsConfigured :: "cstr \<Rightarrow> ('a baseline_scheme, int) act" where [inits]:
  "InitEnsureSshClientIntervalCountMaxIsConfigured v = call (InitializeSshAuditCheck (Some ''initEnsureSshClientIntervalCountMaxIsConfigured'') v)"

definition InitEnsureSshClientAliveIntervalIsConfigured :: "cstr \<Rightarrow> ('a baseline_scheme, int) act" where [inits]:
  "InitEnsureSshClientAliveIntervalIsConfigured v = call (InitializeSshAuditCheck (Some ''initEnsureSshClientAliveIntervalIsConfigured'') v)"

definition InitEnsureSshLoginGraceTimeIsSet :: "cstr \<Rightarrow> ('a baseline_scheme, int) act" where [inits]:
  "InitEnsureSshLoginGraceTimeIsSet v = call (InitializeSshAuditCheck (Some ''initEnsureSshLoginGraceTimeIsSet'') v)"

definition InitEnsureOnlyApprovedMacAlgorithmsAreUsed :: "cstr \<Rightarrow> ('a baseline_scheme, int) act" where [inits]:
  "InitEnsureOnlyApprovedMacAlgorithmsAreUsed v = call (InitializeSshAuditCheck (Some ''initEnsureOnlyApprovedMacAlgorithmsAreUsed'') v)"

definition InitEnsureSshWarningBannerIsEnabled :: "cstr \<Rightarrow> ('a baseline_scheme, int) act" where [inits]:
  "InitEnsureSshWarningBannerIsEnabled v = call (InitializeSshAuditCheck (Some ''initEnsureSshWarningBannerIsEnabled'') v)"

definition InitEnsureUsersCannotSetSshEnvironmentOptions :: "cstr \<Rightarrow> ('a baseline_scheme, int) act" where [inits]:
  "InitEnsureUsersCannotSetSshEnvironmentOptions v = call (InitializeSshAuditCheck (Some ''initEnsureUsersCannotSetSshEnvironmentOptions'') v)"

definition InitEnsureAppropriateCiphersForSsh :: "cstr \<Rightarrow> ('a baseline_scheme, int) act" where [inits]:
  "InitEnsureAppropriateCiphersForSsh v = call (InitializeSshAuditCheck (Some ''initEnsureAppropriateCiphersForSsh'') v)"

definition InitEnsureLoggingLevel :: "cstr \<Rightarrow> ('a baseline_scheme, int) act" where [inits]:
  "InitEnsureLoggingLevel v = ReplaceString ''g_desiredLoggingLevel'' v g_defaultLoggingLevel"

definition InitEnsurePermissionsOnEtcIssue :: "cstr \<Rightarrow> ('a baseline_scheme, int) act" where [inits]:
  "InitEnsurePermissionsOnEtcIssue v = ReplaceString ''g_desiredEnsurePermissionsOnEtcIssue'' v g_defaultEnsurePermissionsOnEtcIssue"

definition InitEnsurePermissionsOnEtcIssueNet :: "cstr \<Rightarrow> ('a baseline_scheme, int) act" where [inits]:
  "InitEnsurePermissionsOnEtcIssueNet v = ReplaceString ''g_desiredEnsurePermissionsOnEtcIssueNet'' v g_defaultEnsurePermissionsOnEtcIssueNet"

definition InitEnsurePermissionsOnEtcHostsAllow :: "cstr \<Rightarrow> ('a baseline_scheme, int) act" where [inits]:
  "InitEnsurePermissionsOnEtcHostsAllow v = ReplaceString ''g_desiredEnsurePermissionsOnEtcHostsAllow'' v g_defaultEnsurePermissionsOnEtcHostsAllow"

definition InitEnsurePermissionsOnEtcHostsDeny :: "cstr \<Rightarrow> ('a baseline_scheme, int) act" where [inits]:
  "InitEnsurePermissionsOnEtcHostsDeny v = ReplaceString ''g_desiredEnsurePermissionsOnEtcHostsDeny'' v g_defaultEnsurePermissionsOnEtcHostsDeny"

definition InitEnsurePermissionsOnEtcShadow :: "cstr \<Rightarrow> ('a baseline_scheme, int) act" where [inits]:
  "InitEnsurePermissionsOnEtcShadow v = ReplaceString ''g_desiredEnsurePermissionsOnEtcShadow'' v g_defaultEnsurePermissionsOnEtcShadow"

definition InitEnsurePermissionsOnEtcShadowDash :: "cstr \<Rightarrow> ('a baseline_scheme, int) act" where [inits]:
  "InitEnsurePermissionsOnEtcShadowDash v = ReplaceString ''g_desiredEnsurePermissionsOnEtcShadowDash'' v g_defaultEnsurePermissionsOnEtcShadowDash"

definition InitEnsurePermissionsOnEtcGShadow :: "cstr \<Rightarrow> ('a baseline_scheme, int) act" where [inits]:
  "InitEnsurePermissionsOnEtcGShadow v = ReplaceString ''g_desiredEnsurePermissionsOnEtcGShadow'' v g_defaultEnsurePermissionsOnEtcGShadow"

definition InitEnsurePermissionsOnEtcGShadowDash :: "cstr \<Rightarrow> ('a baseline_scheme, int) act" where [inits]:
  "InitEnsurePermissionsOnEtcGShadowDash v = ReplaceString ''g_desiredEnsurePermissionsOnEtcGShadowDash'' v g_defaultEnsurePermissionsOnEtcGShadowDash"

definition InitEnsurePermissionsOnEtcPasswd :: "cstr \<Rightarrow> ('a baseline_scheme, int) act" where [inits]:
  "InitEnsurePermissionsOnEtcPasswd v = ReplaceString ''g_desiredEnsurePermissionsOnEtcPasswd'' v g_defaultEnsurePermissionsOnEtcPasswd"

definition InitEnsurePermissionsOnEtcPasswdDash :: "cstr \<Rightarrow> ('a baseline_scheme, int) act" where [inits]:
  "InitEnsurePermissionsOnEtcPasswdDash v = ReplaceString ''g_desiredEnsurePermissionsOnEtcPasswdDash'' v g_defaultEnsurePermissionsOnEtcPasswdDash"

definition InitEnsurePermissionsOnEtcGroup :: "cstr \<Rightarrow> ('a baseline_scheme, int) act" where [inits]:
  "InitEnsurePermissionsOnEtcGroup v = ReplaceString ''g_desiredEnsurePermissionsOnEtcGroup'' v g_defaultEnsurePermissionsOnEtcGroup"

definition InitEnsurePermissionsOnEtcGroupDash :: "cstr \<Rightarrow> ('a baseline_scheme, int) act" where [inits]:
  "InitEnsurePermissionsOnEtcGroupDash v = ReplaceString ''g_desiredEnsurePermissionsOnEtcGroupDash'' v g_defaultEnsurePermissionsOnEtcGroupDash"

definition InitEnsurePermissionsOnEtcAnacronTab :: "cstr \<Rightarrow> ('a baseline_scheme, int) act" where [inits]:
  "InitEnsurePermissionsOnEtcAnacronTab v = ReplaceString ''g_desiredEnsurePermissionsOnEtcAnacronTab'' v g_defaultEnsurePermissionsOnEtcAnacronTab"

definition InitEnsurePermissionsOnEtcCronD :: "cstr \<Rightarrow> ('a baseline_scheme, int) act" where [inits]:
  "InitEnsurePermissionsOnEtcCronD v = ReplaceString ''g_desiredEnsurePermissionsOnEtcCronD'' v g_defaultEnsurePermissionsOnEtcCronD"

definition InitEnsurePermissionsOnEtcCronDaily :: "cstr \<Rightarrow> ('a baseline_scheme, int) act" where [inits]:
  "InitEnsurePermissionsOnEtcCronDaily v = ReplaceString ''g_desiredEnsurePermissionsOnEtcCronDaily'' v g_defaultEnsurePermissionsOnEtcCronDaily"

definition InitEnsurePermissionsOnEtcCronHourly :: "cstr \<Rightarrow> ('a baseline_scheme, int) act" where [inits]:
  "InitEnsurePermissionsOnEtcCronHourly v = ReplaceString ''g_desiredEnsurePermissionsOnEtcCronHourly'' v g_defaultEnsurePermissionsOnEtcCronHourly"

definition InitEnsurePermissionsOnEtcCronMonthly :: "cstr \<Rightarrow> ('a baseline_scheme, int) act" where [inits]:
  "InitEnsurePermissionsOnEtcCronMonthly v = ReplaceString ''g_desiredEnsurePermissionsOnEtcCronMonthly'' v g_defaultEnsurePermissionsOnEtcCronMonthly"

definition InitEnsurePermissionsOnEtcCronWeekly :: "cstr \<Rightarrow> ('a baseline_scheme, int) act" where [inits]:
  "InitEnsurePermissionsOnEtcCronWeekly v = ReplaceString ''g_desiredEnsurePermissionsOnEtcCronWeekly'' v g_defaultEnsurePermissionsOnEtcCronWeekly"

definition InitEnsurePermissionsOnEtcMotd :: "cstr \<Rightarrow> ('a baseline_scheme, int) act" where [inits]:
  "InitEnsurePermissionsOnEtcMotd v = ReplaceString ''g_desiredEnsurePermissionsOnEtcMotd'' v g_defaultEnsurePermissionsOnEtcMotd"

definition InitEnsureRestrictedUserHomeDirectories :: "cstr \<Rightarrow> ('a baseline_scheme, int) act" where [inits]:
  "InitEnsureRestrictedUserHomeDirectories v = ReplaceString ''g_desiredEnsureRestrictedUserHomeDirectories'' v g_defaultEnsureRestrictedUserHomeDirectories"

definition InitEnsurePasswordHashingAlgorithm :: "cstr \<Rightarrow> ('a baseline_scheme, int) act" where [inits]:
  "InitEnsurePasswordHashingAlgorithm v = ReplaceString ''g_desiredEnsurePasswordHashingAlgorithm'' v g_defaultEnsurePasswordHashingAlgorithm"

definition InitEnsureMinDaysBetweenPasswordChanges :: "cstr \<Rightarrow> ('a baseline_scheme, int) act" where [inits]:
  "InitEnsureMinDaysBetweenPasswordChanges v = ReplaceString ''g_desiredEnsureMinDaysBetweenPasswordChanges'' v g_defaultEnsureMinDaysBetweenPasswordChanges"

definition InitEnsureInactivePasswordLockPeriod :: "cstr \<Rightarrow> ('a baseline_scheme, int) act" where [inits]:
  "InitEnsureInactivePasswordLockPeriod v = ReplaceString ''g_desiredEnsureInactivePasswordLockPeriod'' v g_defaultEnsureInactivePasswordLockPeriod"

definition InitEnsureMaxDaysBetweenPasswordChanges :: "cstr \<Rightarrow> ('a baseline_scheme, int) act" where [inits]:
  "InitEnsureMaxDaysBetweenPasswordChanges v = ReplaceString ''g_desiredEnsureMaxDaysBetweenPasswordChanges'' v g_defaultEnsureMaxDaysBetweenPasswordChanges"

definition InitEnsurePasswordExpiration :: "cstr \<Rightarrow> ('a baseline_scheme, int) act" where [inits]:
  "InitEnsurePasswordExpiration v = ReplaceString ''g_desiredEnsurePasswordExpiration'' v g_defaultEnsurePasswordExpiration"

definition InitEnsurePasswordExpirationWarning :: "cstr \<Rightarrow> ('a baseline_scheme, int) act" where [inits]:
  "InitEnsurePasswordExpirationWarning v = ReplaceString ''g_desiredEnsurePasswordExpirationWarning'' v g_defaultEnsurePasswordExpirationWarning"

definition InitEnsureDefaultUmaskForAllUsers :: "cstr \<Rightarrow> ('a baseline_scheme, int) act" where [inits]:
  "InitEnsureDefaultUmaskForAllUsers v = ReplaceString ''g_desiredEnsureDefaultUmaskForAllUsers'' v g_defaultEnsureDefaultUmaskForAllUsers"

definition InitEnsurePermissionsOnBootloaderConfig :: "cstr \<Rightarrow> ('a baseline_scheme, int) act" where [inits]:
  "InitEnsurePermissionsOnBootloaderConfig v = ReplaceString ''g_desiredEnsurePermissionsOnBootloaderConfig'' v g_defaultEnsurePermissionsOnBootloaderConfig"

definition InitEnsurePasswordReuseIsLimited :: "cstr \<Rightarrow> ('a baseline_scheme, int) act" where [inits]:
  "InitEnsurePasswordReuseIsLimited v = ReplaceString ''g_desiredEnsurePasswordReuseIsLimited'' v g_defaultEnsurePasswordReuseIsLimited"

definition InitEnsurePasswordCreationRequirements :: "cstr \<Rightarrow> ('a baseline_scheme, int) act" where [inits]:
  "InitEnsurePasswordCreationRequirements v = ReplaceString ''g_desiredEnsurePasswordCreationRequirements'' v g_defaultEnsurePasswordCreationRequirements"

definition InitEnsureFilePermissionsForAllRsyslogLogFiles :: "cstr \<Rightarrow> ('a baseline_scheme, int) act" where [inits]:
  "InitEnsureFilePermissionsForAllRsyslogLogFiles v = ReplaceString ''g_desiredEnsureFilePermissionsForAllRsyslogLogFiles'' v g_defaultEnsureFilePermissionsForAllRsyslogLogFiles"

definition InitEnsureUsersDotFilesArentGroupOrWorldWritable :: "cstr \<Rightarrow> ('a baseline_scheme, int) act" where [inits]:
  "InitEnsureUsersDotFilesArentGroupOrWorldWritable v = ReplaceString ''g_desiredEnsureUsersDotFilesArentGroupOrWorldWritable'' v g_defaultEnsureUsersDotFilesArentGroupOrWorldWritable"

definition InitEnsureUnnecessaryAccountsAreRemoved :: "cstr \<Rightarrow> ('a baseline_scheme, int) act" where [inits]:
  "InitEnsureUnnecessaryAccountsAreRemoved v = ReplaceString ''g_desiredEnsureUnnecessaryAccountsAreRemoved'' v g_defaultEnsureUnnecessaryAccountsAreRemoved"

definition InitEnsureDefaultDenyFirewallPolicyIsSet :: "cstr \<Rightarrow> ('a baseline_scheme, int) act" where [inits]:
  "InitEnsureDefaultDenyFirewallPolicyIsSet v = ReplaceString ''g_desiredEnsureDefaultDenyFirewallPolicyIsSet'' v g_defaultEnsureDefaultDenyFirewallPolicyIsSet"

end
