(* ===== verification/AsbRemediate.thy ===== *)
theory AsbRemediate
  imports AsbAudit AsbInit
begin

text \<open>
  The remediations of the baseline, in the order of \<open>src/common/asb/Asb.c\<close>: each may set its desired value first, and returns a status.
\<close>

text \<open>The remediations of a list of numbers, and what the one of the port mapper does to each of its units.\<close>

definition remediate_numbers :: "string \<Rightarrow> nat \<Rightarrow> (int list \<Rightarrow> ('a baseline_scheme, int) act) \<Rightarrow> ('a baseline_scheme, int) act" where [acts]:
  "remediate_numbers var base f =
     with_state (\<lambda>s. andThen (convert (desired s var) base) (\<lambda>(status, vs). if status = 0 then f vs else ret status))"

definition mask_if_active :: "string \<Rightarrow> ('a runtime_scheme, unit) act" where [acts]:
  "mask_if_active daemon =
     branch (silent (call (CheckDaemonActive (Some daemon))))
       (seq (call (RestartDaemon (Some daemon))) (seq (call (StopDaemon (Some daemon))) (seq (call (DisableDaemon (Some daemon))) (ignore (call (MaskDaemon (Some daemon)))))))
       (ret ())"

definition RemediateEnsureLoggingLevel :: "cstr \<Rightarrow> ('a asb_scheme, int) act" where [remediations]:
  "RemediateEnsureLoggingLevel v =
     seq (InitEnsureLoggingLevel v)
       (seq (with_state (\<lambda>s. set_level (GetLoggingLevelFromString (desired s ''g_desiredLoggingLevel'')))) (ret 0))"

definition RemediateEnsurePermissionsOnEtcIssue :: "cstr \<Rightarrow> ('a asb_scheme, int) act" where [remediations]:
  "RemediateEnsurePermissionsOnEtcIssue v =
     seq (InitEnsurePermissionsOnEtcIssue v)
       (with_desired ''g_desiredEnsurePermissionsOnEtcIssue'' (\<lambda>d. call (SetFileAccess (Some g_etcIssue) 0 0 (octal_value d))))"

definition RemediateEnsurePermissionsOnEtcIssueNet :: "cstr \<Rightarrow> ('a asb_scheme, int) act" where [remediations]:
  "RemediateEnsurePermissionsOnEtcIssueNet v =
     seq (InitEnsurePermissionsOnEtcIssueNet v)
       (with_desired ''g_desiredEnsurePermissionsOnEtcIssueNet'' (\<lambda>d. call (SetFileAccess (Some g_etcIssueNet) 0 0 (octal_value d))))"

definition RemediateEnsurePermissionsOnEtcHostsAllow :: "cstr \<Rightarrow> ('a asb_scheme, int) act" where [remediations]:
  "RemediateEnsurePermissionsOnEtcHostsAllow v =
     seq (InitEnsurePermissionsOnEtcHostsAllow v)
       (with_desired ''g_desiredEnsurePermissionsOnEtcHostsAllow'' (\<lambda>d. call (SetFileAccess (Some g_etcHostsAllow) 0 0 (octal_value d))))"

definition RemediateEnsurePermissionsOnEtcHostsDeny :: "cstr \<Rightarrow> ('a asb_scheme, int) act" where [remediations]:
  "RemediateEnsurePermissionsOnEtcHostsDeny v =
     seq (InitEnsurePermissionsOnEtcHostsDeny v)
       (with_desired ''g_desiredEnsurePermissionsOnEtcHostsDeny'' (\<lambda>d. call (SetFileAccess (Some g_etcHostsDeny) 0 0 (octal_value d))))"

definition RemediateEnsurePermissionsOnEtcSshSshdConfig :: "cstr \<Rightarrow> ('a asb_scheme, int) act" where [remediations]:
  "RemediateEnsurePermissionsOnEtcSshSshdConfig v =
     silent (call (ProcessSshAuditCheck (Some g_remediateEnsurePermissionsOnEtcSshSshdConfigObject) v))"

definition RemediateEnsurePermissionsOnEtcShadow :: "cstr \<Rightarrow> ('a asb_scheme, int) act" where [remediations]:
  "RemediateEnsurePermissionsOnEtcShadow v =
     seq (InitEnsurePermissionsOnEtcShadow v)
       (with_desired ''g_desiredEnsurePermissionsOnEtcShadow'' (\<lambda>d. with_state (\<lambda>s. call (SetFileAccess (Some g_etcShadow) 0 (shadow_group s) (octal_value d)))))"

definition RemediateEnsurePermissionsOnEtcShadowDash :: "cstr \<Rightarrow> ('a asb_scheme, int) act" where [remediations]:
  "RemediateEnsurePermissionsOnEtcShadowDash v =
     seq (InitEnsurePermissionsOnEtcShadowDash v)
       (with_desired ''g_desiredEnsurePermissionsOnEtcShadowDash'' (\<lambda>d. with_state (\<lambda>s. call (SetFileAccess (Some g_etcShadowDash) 0 (shadow_group s) (octal_value d)))))"

definition RemediateEnsurePermissionsOnEtcGShadow :: "cstr \<Rightarrow> ('a asb_scheme, int) act" where [remediations]:
  "RemediateEnsurePermissionsOnEtcGShadow v =
     seq (InitEnsurePermissionsOnEtcGShadow v)
       (with_desired ''g_desiredEnsurePermissionsOnEtcGShadow'' (\<lambda>d. with_state (\<lambda>s. call (SetFileAccess (Some g_etcGShadow) 0 (shadow_group s) (octal_value d)))))"

definition RemediateEnsurePermissionsOnEtcGShadowDash :: "cstr \<Rightarrow> ('a asb_scheme, int) act" where [remediations]:
  "RemediateEnsurePermissionsOnEtcGShadowDash v =
     seq (InitEnsurePermissionsOnEtcGShadowDash v)
       (with_desired ''g_desiredEnsurePermissionsOnEtcGShadowDash'' (\<lambda>d. with_state (\<lambda>s. call (SetFileAccess (Some g_etcGShadowDash) 0 (shadow_group s) (octal_value d)))))"

definition RemediateEnsurePermissionsOnEtcPasswd :: "cstr \<Rightarrow> ('a asb_scheme, int) act" where [remediations]:
  "RemediateEnsurePermissionsOnEtcPasswd v =
     seq (InitEnsurePermissionsOnEtcPasswd v)
       (with_desired ''g_desiredEnsurePermissionsOnEtcPasswd'' (\<lambda>d. call (SetFileAccess (Some g_etcPasswd) 0 0 (octal_value d))))"

definition RemediateEnsurePermissionsOnEtcPasswdDash :: "cstr \<Rightarrow> ('a asb_scheme, int) act" where [remediations]:
  "RemediateEnsurePermissionsOnEtcPasswdDash v =
     seq (InitEnsurePermissionsOnEtcPasswdDash v)
       (with_desired ''g_desiredEnsurePermissionsOnEtcPasswdDash'' (\<lambda>d. call (SetFileAccess (Some g_etcPasswdDash) 0 0 (octal_value d))))"

definition RemediateEnsurePermissionsOnEtcGroup :: "cstr \<Rightarrow> ('a asb_scheme, int) act" where [remediations]:
  "RemediateEnsurePermissionsOnEtcGroup v =
     seq (InitEnsurePermissionsOnEtcGroup v)
       (with_desired ''g_desiredEnsurePermissionsOnEtcGroup'' (\<lambda>d. call (SetFileAccess (Some g_etcGroup) 0 0 (octal_value d))))"

definition RemediateEnsurePermissionsOnEtcGroupDash :: "cstr \<Rightarrow> ('a asb_scheme, int) act" where [remediations]:
  "RemediateEnsurePermissionsOnEtcGroupDash v =
     seq (InitEnsurePermissionsOnEtcGroupDash v)
       (with_desired ''g_desiredEnsurePermissionsOnEtcGroupDash'' (\<lambda>d. call (SetFileAccess (Some g_etcGroupDash) 0 0 (octal_value d))))"

definition RemediateEnsurePermissionsOnEtcAnacronTab :: "cstr \<Rightarrow> ('a asb_scheme, int) act" where [remediations]:
  "RemediateEnsurePermissionsOnEtcAnacronTab v =
     seq (InitEnsurePermissionsOnEtcAnacronTab v)
       (with_desired ''g_desiredEnsurePermissionsOnEtcAnacronTab'' (\<lambda>d. call (SetFileAccess (Some g_etcAnacronTab) 0 0 (octal_value d))))"

definition RemediateEnsurePermissionsOnEtcCronD :: "cstr \<Rightarrow> ('a asb_scheme, int) act" where [remediations]:
  "RemediateEnsurePermissionsOnEtcCronD v =
     seq (InitEnsurePermissionsOnEtcCronD v)
       (with_desired ''g_desiredEnsurePermissionsOnEtcCronD'' (\<lambda>d. call (SetFileAccess (Some g_etcCronD) 0 0 (octal_value d))))"

definition RemediateEnsurePermissionsOnEtcCronDaily :: "cstr \<Rightarrow> ('a asb_scheme, int) act" where [remediations]:
  "RemediateEnsurePermissionsOnEtcCronDaily v =
     seq (InitEnsurePermissionsOnEtcCronDaily v)
       (with_desired ''g_desiredEnsurePermissionsOnEtcCronDaily'' (\<lambda>d. call (SetFileAccess (Some g_etcCronDaily) 0 0 (octal_value d))))"

definition RemediateEnsurePermissionsOnEtcCronHourly :: "cstr \<Rightarrow> ('a asb_scheme, int) act" where [remediations]:
  "RemediateEnsurePermissionsOnEtcCronHourly v =
     seq (InitEnsurePermissionsOnEtcCronHourly v)
       (with_desired ''g_desiredEnsurePermissionsOnEtcCronHourly'' (\<lambda>d. call (SetFileAccess (Some g_etcCronHourly) 0 0 (octal_value d))))"

definition RemediateEnsurePermissionsOnEtcCronMonthly :: "cstr \<Rightarrow> ('a asb_scheme, int) act" where [remediations]:
  "RemediateEnsurePermissionsOnEtcCronMonthly v =
     seq (InitEnsurePermissionsOnEtcCronMonthly v)
       (with_desired ''g_desiredEnsurePermissionsOnEtcCronMonthly'' (\<lambda>d. call (SetFileAccess (Some g_etcCronMonthly) 0 0 (octal_value d))))"

definition RemediateEnsurePermissionsOnEtcCronWeekly :: "cstr \<Rightarrow> ('a asb_scheme, int) act" where [remediations]:
  "RemediateEnsurePermissionsOnEtcCronWeekly v =
     seq (InitEnsurePermissionsOnEtcCronWeekly v)
       (with_desired ''g_desiredEnsurePermissionsOnEtcCronWeekly'' (\<lambda>d. call (SetFileAccess (Some g_etcCronWeekly) 0 0 (octal_value d))))"

definition RemediateEnsurePermissionsOnEtcMotd :: "cstr \<Rightarrow> ('a asb_scheme, int) act" where [remediations]:
  "RemediateEnsurePermissionsOnEtcMotd v =
     seq (InitEnsurePermissionsOnEtcMotd v)
       (with_desired ''g_desiredEnsurePermissionsOnEtcMotd'' (\<lambda>d. call (SetFileAccess (Some g_etcMotd) 0 0 (octal_value d))))"

definition RemediateEnsureInetdNotInstalled :: "cstr \<Rightarrow> ('a asb_scheme, int) act" where [remediations]:
  "RemediateEnsureInetdNotInstalled v =
     status_of (both (is_zero (call (UninstallPackage (Some g_inetd)))) (is_zero (call (UninstallPackage (Some g_inetUtilsInetd)))))"

definition RemediateEnsureXinetdNotInstalled :: "cstr \<Rightarrow> ('a asb_scheme, int) act" where [remediations]:
  "RemediateEnsureXinetdNotInstalled v =
     call (UninstallPackage (Some g_xinetd))"

definition RemediateEnsureRshServerNotInstalled :: "cstr \<Rightarrow> ('a asb_scheme, int) act" where [remediations]:
  "RemediateEnsureRshServerNotInstalled v =
     call (UninstallPackage (Some g_rshServer))"

definition RemediateEnsureNisNotInstalled :: "cstr \<Rightarrow> ('a asb_scheme, int) act" where [remediations]:
  "RemediateEnsureNisNotInstalled v =
     call (UninstallPackage (Some g_nis))"

definition RemediateEnsureTftpdNotInstalled :: "cstr \<Rightarrow> ('a asb_scheme, int) act" where [remediations]:
  "RemediateEnsureTftpdNotInstalled v =
     call (UninstallPackage (Some g_tftpHpa))"

definition RemediateEnsureReadaheadFedoraNotInstalled :: "cstr \<Rightarrow> ('a asb_scheme, int) act" where [remediations]:
  "RemediateEnsureReadaheadFedoraNotInstalled v =
     call (UninstallPackage (Some g_readAheadFedora))"

definition RemediateEnsureBluetoothHiddNotInstalled :: "cstr \<Rightarrow> ('a asb_scheme, int) act" where [remediations]:
  "RemediateEnsureBluetoothHiddNotInstalled v =
     seq (stop_and_disable (Some g_bluetooth))
       (call (UninstallPackage (Some g_bluetooth)))"

definition RemediateEnsureIsdnUtilsBaseNotInstalled :: "cstr \<Rightarrow> ('a asb_scheme, int) act" where [remediations]:
  "RemediateEnsureIsdnUtilsBaseNotInstalled v =
     call (UninstallPackage (Some g_isdnUtilsBase))"

definition RemediateEnsureIsdnUtilsKdumpToolsNotInstalled :: "cstr \<Rightarrow> ('a asb_scheme, int) act" where [remediations]:
  "RemediateEnsureIsdnUtilsKdumpToolsNotInstalled v =
     call (UninstallPackage (Some g_kdumpTools))"

definition RemediateEnsureIscDhcpdServerNotInstalled :: "cstr \<Rightarrow> ('a asb_scheme, int) act" where [remediations]:
  "RemediateEnsureIscDhcpdServerNotInstalled v =
     call (UninstallPackage (Some g_iscDhcpServer))"

definition RemediateEnsureSendmailNotInstalled :: "cstr \<Rightarrow> ('a asb_scheme, int) act" where [remediations]:
  "RemediateEnsureSendmailNotInstalled v =
     call (UninstallPackage (Some g_sendmail))"

definition RemediateEnsureSldapdNotInstalled :: "cstr \<Rightarrow> ('a asb_scheme, int) act" where [remediations]:
  "RemediateEnsureSldapdNotInstalled v =
     call (UninstallPackage (Some g_slapd))"

definition RemediateEnsureBind9NotInstalled :: "cstr \<Rightarrow> ('a asb_scheme, int) act" where [remediations]:
  "RemediateEnsureBind9NotInstalled v =
     call (UninstallPackage (Some g_bind9))"

definition RemediateEnsureDovecotCoreNotInstalled :: "cstr \<Rightarrow> ('a asb_scheme, int) act" where [remediations]:
  "RemediateEnsureDovecotCoreNotInstalled v =
     call (UninstallPackage (Some g_dovecotCore))"

definition RemediateEnsureAuditdInstalled :: "cstr \<Rightarrow> ('a asb_scheme, int) act" where [remediations]:
  "RemediateEnsureAuditdInstalled v =
     status_of (any_of
         [is_zero (call (InstallPackage (Some g_audit))),
          is_zero (call (InstallPackage (Some g_auditd))),
          is_zero (call (InstallPackage (Some g_auditLibs))),
          is_zero (call (InstallPackage (Some g_auditLibsDevel)))])"

definition RemediateEnsurePrelinkIsDisabled :: "cstr \<Rightarrow> ('a asb_scheme, int) act" where [remediations]:
  "RemediateEnsurePrelinkIsDisabled v =
     call (UninstallPackage (Some g_prelink))"

definition RemediateEnsureTalkClientIsNotInstalled :: "cstr \<Rightarrow> ('a asb_scheme, int) act" where [remediations]:
  "RemediateEnsureTalkClientIsNotInstalled v =
     call (UninstallPackage (Some g_talk))"

definition RemediateEnsureCronServiceIsEnabled :: "cstr \<Rightarrow> ('a asb_scheme, int) act" where [remediations]:
  "RemediateEnsureCronServiceIsEnabled v =
     status_of (either (both (is_zero (call (InstallPackage (Some g_cron)))) (call (EnableAndStartDaemon (Some g_cron)))) (both (is_zero (call (InstallPackage (Some g_cronie)))) (call (EnableAndStartDaemon (Some g_crond)))))"

definition RemediateEnsureAuditdServiceIsRunning :: "cstr \<Rightarrow> ('a asb_scheme, int) act" where [remediations]:
  "RemediateEnsureAuditdServiceIsRunning v =
     seq (branch (call (IsDaemonActive (Some g_auoms))) (stop_and_disable (Some g_auoms)) (ret ()))
       (seq (call (IsDaemonActive (Some g_auoms)))
       (branch (both (negate (is_zero (call (InstallPackage (Some g_audit))))) (both (negate (is_zero (call (InstallPackage (Some g_auditd)))))
                (both (negate (is_zero (call (InstallPackage (Some g_auditLibs))))) (negate (is_zero (call (InstallPackage (Some g_auditLibsDevel))))))))
          (ret ENOENT)
          (branch (both (negate (silent (call (CheckDaemonActive (Some g_auditd))))) (negate (call (EnableAndStartDaemon (Some g_auditd)))))
             (seq (call (run ''restorecon -r -v /var/log/audit''))
             (seq (call (EnableAndStartDaemon (Some g_auditd)))
             (status_of (silent (call (CheckDaemonActive (Some g_auditd)))))))
             (ret 0))))"

definition RemediateEnsureKernelSupportForCpuNx :: "cstr \<Rightarrow> ('a asb_scheme, int) act" where [remediations]:
  "RemediateEnsureKernelSupportForCpuNx v =
     ret 0"

definition RemediateEnsureNodevOptionOnHomePartition :: "cstr \<Rightarrow> ('a asb_scheme, int) act" where [remediations]:
  "RemediateEnsureNodevOptionOnHomePartition v =
     call (SetFileSystemMountingOption (Some g_home) None (Some g_nodev))"

definition RemediateEnsureNodevOptionOnTmpPartition :: "cstr \<Rightarrow> ('a asb_scheme, int) act" where [remediations]:
  "RemediateEnsureNodevOptionOnTmpPartition v =
     call (SetFileSystemMountingOption (Some g_tmp) None (Some g_nodev))"

definition RemediateEnsureNodevOptionOnVarTmpPartition :: "cstr \<Rightarrow> ('a asb_scheme, int) act" where [remediations]:
  "RemediateEnsureNodevOptionOnVarTmpPartition v =
     call (SetFileSystemMountingOption (Some g_varTmp) None (Some g_nodev))"

definition RemediateEnsureNosuidOptionOnTmpPartition :: "cstr \<Rightarrow> ('a asb_scheme, int) act" where [remediations]:
  "RemediateEnsureNosuidOptionOnTmpPartition v =
     call (SetFileSystemMountingOption (Some g_tmp) None (Some g_nosuid))"

definition RemediateEnsureNosuidOptionOnVarTmpPartition :: "cstr \<Rightarrow> ('a asb_scheme, int) act" where [remediations]:
  "RemediateEnsureNosuidOptionOnVarTmpPartition v =
     call (SetFileSystemMountingOption (Some g_varTmp) None (Some g_nosuid))"

definition RemediateEnsureNoexecOptionOnVarTmpPartition :: "cstr \<Rightarrow> ('a asb_scheme, int) act" where [remediations]:
  "RemediateEnsureNoexecOptionOnVarTmpPartition v =
     call (SetFileSystemMountingOption (Some g_varTmp) None (Some g_noexec))"

definition RemediateEnsureNoexecOptionOnDevShmPartition :: "cstr \<Rightarrow> ('a asb_scheme, int) act" where [remediations]:
  "RemediateEnsureNoexecOptionOnDevShmPartition v =
     call (SetFileSystemMountingOption (Some g_devShm) None (Some g_noexec))"

definition RemediateEnsureNodevOptionEnabledForAllRemovableMedia :: "cstr \<Rightarrow> ('a asb_scheme, int) act" where [remediations]:
  "RemediateEnsureNodevOptionEnabledForAllRemovableMedia v =
     call (SetFileSystemMountingOption (Some g_media) None (Some g_nodev))"

definition RemediateEnsureNoexecOptionEnabledForAllRemovableMedia :: "cstr \<Rightarrow> ('a asb_scheme, int) act" where [remediations]:
  "RemediateEnsureNoexecOptionEnabledForAllRemovableMedia v =
     call (SetFileSystemMountingOption (Some g_media) None (Some g_noexec))"

definition RemediateEnsureNosuidOptionEnabledForAllRemovableMedia :: "cstr \<Rightarrow> ('a asb_scheme, int) act" where [remediations]:
  "RemediateEnsureNosuidOptionEnabledForAllRemovableMedia v =
     call (SetFileSystemMountingOption (Some g_media) None (Some g_nosuid))"

definition RemediateEnsureNoexecNosuidOptionsEnabledForAllNfsMounts :: "cstr \<Rightarrow> ('a asb_scheme, int) act" where [remediations]:
  "RemediateEnsureNoexecNosuidOptionsEnabledForAllNfsMounts v =
     status_of (both (is_zero (call (SetFileSystemMountingOption (Some g_nfs) None (Some g_nosuid)))) (is_zero (call (SetFileSystemMountingOption (Some g_nfs) None (Some g_noexec)))))"

definition RemediateEnsureAllTelnetdPackagesUninstalled :: "cstr \<Rightarrow> ('a asb_scheme, int) act" where [remediations]:
  "RemediateEnsureAllTelnetdPackagesUninstalled v =
     call (UninstallPackage (Some g_allTelnetd))"

definition RemediateEnsureAllEtcPasswdGroupsExistInEtcGroup :: "cstr \<Rightarrow> ('a asb_scheme, int) act" where [remediations]:
  "RemediateEnsureAllEtcPasswdGroupsExistInEtcGroup v =
     change (\<lambda>t. SetAllEtcPasswdGroupsToExistInEtcGroup (now t) (shell_exec t))"

definition RemediateEnsureNoDuplicateUidsExist :: "cstr \<Rightarrow> ('a asb_scheme, int) act" where [remediations]:
  "RemediateEnsureNoDuplicateUidsExist v =
     ret 0"

definition RemediateEnsureNoDuplicateGidsExist :: "cstr \<Rightarrow> ('a asb_scheme, int) act" where [remediations]:
  "RemediateEnsureNoDuplicateGidsExist v =
     ret 0"

definition RemediateEnsureNoDuplicateUserNamesExist :: "cstr \<Rightarrow> ('a asb_scheme, int) act" where [remediations]:
  "RemediateEnsureNoDuplicateUserNamesExist v =
     ret 0"

definition RemediateEnsureNoDuplicateGroupsExist :: "cstr \<Rightarrow> ('a asb_scheme, int) act" where [remediations]:
  "RemediateEnsureNoDuplicateGroupsExist v =
     ret 0"

definition RemediateEnsureShadowGroupIsEmpty :: "cstr \<Rightarrow> ('a asb_scheme, int) act" where [remediations]:
  "RemediateEnsureShadowGroupIsEmpty v =
     change_or_crash (\<lambda>t. SetShadowGroupEmpty (now t) (shell_exec t))"

definition RemediateEnsureRootGroupExists :: "cstr \<Rightarrow> ('a asb_scheme, int) act" where [remediations]:
  "RemediateEnsureRootGroupExists v =
     change_or_crash (\<lambda>t. RepairRootGroup (now t) (rnd_of t))"

definition RemediateEnsureAllAccountsHavePasswords :: "cstr \<Rightarrow> ('a asb_scheme, int) act" where [remediations]:
  "RemediateEnsureAllAccountsHavePasswords v =
     change (\<lambda>t. RemoveUsersWithoutPasswords (now t) (shell_exec t))"

definition RemediateEnsureNonRootAccountsHaveUniqueUidsGreaterThanZero :: "cstr \<Rightarrow> ('a asb_scheme, int) act" where [remediations]:
  "RemediateEnsureNonRootAccountsHaveUniqueUidsGreaterThanZero v =
     change (\<lambda>t. SetRootIsOnlyUidZeroAccount (now t) (shell_exec t))"

definition RemediateEnsureNoLegacyPlusEntriesInEtcPasswd :: "cstr \<Rightarrow> ('a asb_scheme, int) act" where [remediations]:
  "RemediateEnsureNoLegacyPlusEntriesInEtcPasswd v =
     replace_in_file g_etcPasswd ''+'' None CHR ''#'' True"

definition RemediateEnsureNoLegacyPlusEntriesInEtcShadow :: "cstr \<Rightarrow> ('a asb_scheme, int) act" where [remediations]:
  "RemediateEnsureNoLegacyPlusEntriesInEtcShadow v =
     replace_in_file g_etcShadow ''+'' None CHR ''#'' True"

definition RemediateEnsureNoLegacyPlusEntriesInEtcGroup :: "cstr \<Rightarrow> ('a asb_scheme, int) act" where [remediations]:
  "RemediateEnsureNoLegacyPlusEntriesInEtcGroup v =
     replace_in_file g_etcGroup ''+'' None CHR ''#'' True"

definition RemediateEnsureDefaultRootAccountGroupIsGidZero :: "cstr \<Rightarrow> ('a asb_scheme, int) act" where [remediations]:
  "RemediateEnsureDefaultRootAccountGroupIsGidZero v =
     change_or_crash (\<lambda>t. SetDefaultRootAccountGroupIsGidZero (now t) (rnd_of t))"

definition RemediateEnsureRootIsOnlyUidZeroAccount :: "cstr \<Rightarrow> ('a asb_scheme, int) act" where [remediations]:
  "RemediateEnsureRootIsOnlyUidZeroAccount v =
     change (\<lambda>t. SetRootIsOnlyUidZeroAccount (now t) (shell_exec t))"

definition RemediateEnsureAllUsersHomeDirectoriesExist :: "cstr \<Rightarrow> ('a asb_scheme, int) act" where [remediations]:
  "RemediateEnsureAllUsersHomeDirectoriesExist v =
     change (\<lambda>t. SetUserHomeDirectories (now t) (new_dir t))"

definition RemediateEnsureUsersOwnTheirHomeDirectories :: "cstr \<Rightarrow> ('a asb_scheme, int) act" where [remediations]:
  "RemediateEnsureUsersOwnTheirHomeDirectories v =
     change (\<lambda>t. SetUserHomeDirectories (now t) (new_dir t))"

definition RemediateEnsureRestrictedUserHomeDirectories :: "cstr \<Rightarrow> ('a asb_scheme, int) act" where [remediations]:
  "RemediateEnsureRestrictedUserHomeDirectories v =
     seq (InitEnsureRestrictedUserHomeDirectories v)
       (remediate_numbers ''g_desiredEnsureRestrictedUserHomeDirectories'' 8 (\<lambda>modes.
          if 1 < length modes
          then change (\<lambda>t. SetRestrictedUserHomeDirectories (now t) (modes_of modes) (word_of_int (hd modes)) (word_of_int (last modes)))
          else ret 0))"

definition RemediateEnsurePasswordHashingAlgorithm :: "cstr \<Rightarrow> ('a asb_scheme, int) act" where [remediations]:
  "RemediateEnsurePasswordHashingAlgorithm v =
     seq (InitEnsurePasswordHashingAlgorithm v)
       (with_desired ''g_desiredEnsurePasswordHashingAlgorithm'' (\<lambda>d. change (\<lambda>t. SetPasswordHashingAlgorithm (now t) (shell_exec t) (rnd_of t) (encryption_of (atoi d)) (atoi d))))"

definition RemediateEnsureMinDaysBetweenPasswordChanges :: "cstr \<Rightarrow> ('a asb_scheme, int) act" where [remediations]:
  "RemediateEnsureMinDaysBetweenPasswordChanges v =
     seq (InitEnsureMinDaysBetweenPasswordChanges v)
       (with_desired ''g_desiredEnsureMinDaysBetweenPasswordChanges'' (\<lambda>d. change (\<lambda>t. SetMinDaysBetweenPasswordChanges (now t) (shell_exec t) (rnd_of t) (strtol d 10))))"

definition RemediateEnsureInactivePasswordLockPeriod :: "cstr \<Rightarrow> ('a asb_scheme, int) act" where [remediations]:
  "RemediateEnsureInactivePasswordLockPeriod v =
     seq (InitEnsureInactivePasswordLockPeriod v)
       (with_desired ''g_desiredEnsureInactivePasswordLockPeriod'' (\<lambda>d. change (\<lambda>t. SetLockoutAfterInactivityLessThan (now t) (shell_exec t) (strtol d 10))))"

definition RemediateEnsureMaxDaysBetweenPasswordChanges :: "cstr \<Rightarrow> ('a asb_scheme, int) act" where [remediations]:
  "RemediateEnsureMaxDaysBetweenPasswordChanges v =
     seq (InitEnsureMaxDaysBetweenPasswordChanges v)
       (with_desired ''g_desiredEnsureMaxDaysBetweenPasswordChanges'' (\<lambda>d. change (\<lambda>t. SetMaxDaysBetweenPasswordChanges (now t) (shell_exec t) (rnd_of t) (strtol d 10))))"

definition RemediateEnsurePasswordExpiration :: "cstr \<Rightarrow> ('a asb_scheme, int) act" where [remediations]:
  "RemediateEnsurePasswordExpiration v =
     seq (InitEnsurePasswordExpiration v)
       (with_desired ''g_desiredEnsurePasswordExpiration'' (\<lambda>d. status_of (all_of
         [is_zero (change (\<lambda>t. EnsureUsersHaveDatesOfLastPasswordChanges (now t) (shell_exec t))),
          is_zero (change (\<lambda>t. SetMaxDaysBetweenPasswordChanges (now t) (shell_exec t) (rnd_of t) (strtol d 10))),
          is_zero (silent (check (\<lambda>t. CheckPasswordExpirationLessThan (now t) (strtol d 10))))])))"

definition RemediateEnsurePasswordExpirationWarning :: "cstr \<Rightarrow> ('a asb_scheme, int) act" where [remediations]:
  "RemediateEnsurePasswordExpirationWarning v =
     seq (InitEnsurePasswordExpirationWarning v)
       (with_desired ''g_desiredEnsurePasswordExpirationWarning'' (\<lambda>d. change (\<lambda>t. SetPasswordExpirationWarning (now t) (shell_exec t) (rnd_of t) (strtol d 10))))"

definition RemediateEnsureSystemAccountsAreNonLogin :: "cstr \<Rightarrow> ('a asb_scheme, int) act" where [remediations]:
  "RemediateEnsureSystemAccountsAreNonLogin v =
     change (\<lambda>t. SetSystemAccountsNonLogin (now t) (shell_exec t))"

definition RemediateEnsureAuthenticationRequiredForSingleUserMode :: "cstr \<Rightarrow> ('a asb_scheme, int) act" where [remediations]:
  "RemediateEnsureAuthenticationRequiredForSingleUserMode v =
     ret 0"

definition RemediateEnsureDotDoesNotAppearInRootsPath :: "cstr \<Rightarrow> ('a asb_scheme, int) act" where [remediations]:
  "RemediateEnsureDotDoesNotAppearInRootsPath v =
     call RemoveDotsFromPath"

definition RemediateEnsureRemoteLoginWarningBannerIsConfigured :: "cstr \<Rightarrow> ('a asb_scheme, int) act" where [remediations]:
  "RemediateEnsureRemoteLoginWarningBannerIsConfigured v =
     branch (is_zero (silent (call (CheckFileExists_r (Some g_etcIssueNet)))))
       (call (RemoveEscapeSequencesFromFile (Some g_etcIssueNet) (Some ''mrsv'') CHR '' '')) (ret 0)"

definition RemediateEnsureLocalLoginWarningBannerIsConfigured :: "cstr \<Rightarrow> ('a asb_scheme, int) act" where [remediations]:
  "RemediateEnsureLocalLoginWarningBannerIsConfigured v =
     call (RemoveEscapeSequencesFromFile (Some g_etcIssue) (Some ''mrsv'') CHR '' '')"

definition RemediateEnsureSuRestrictedToRootGroup :: "cstr \<Rightarrow> ('a asb_scheme, int) act" where [remediations]:
  "RemediateEnsureSuRestrictedToRootGroup v =
     change (\<lambda>t. RestrictSuToRootGroup (now t) (rnd_of t))"

definition RemediateEnsureDefaultUmaskForAllUsers :: "cstr \<Rightarrow> ('a asb_scheme, int) act" where [remediations]:
  "RemediateEnsureDefaultUmaskForAllUsers v =
     seq (InitEnsureDefaultUmaskForAllUsers v)
       (with_state (\<lambda>s. call (edit_fs (\<lambda>m rnd. SetEtcLoginDefValue m rnd (Some ''UMASK'') (desired s ''g_desiredEnsureDefaultUmaskForAllUsers'')))))"

definition RemediateEnsureAutomountingDisabled :: "cstr \<Rightarrow> ('a asb_scheme, int) act" where [remediations]:
  "RemediateEnsureAutomountingDisabled v =
     seq (stop_and_disable (Some g_autofs))
       (status_of (silent (call (CheckDaemonNotActive (Some g_autofs)))))"

definition RemediateEnsureKernelCompiledFromApprovedSources :: "cstr \<Rightarrow> ('a asb_scheme, int) act" where [remediations]:
  "RemediateEnsureKernelCompiledFromApprovedSources v =
     ret 0"

definition RemediateEnsureDefaultDenyFirewallPolicyIsSet :: "cstr \<Rightarrow> ('a asb_scheme, int) act" where [remediations]:
  "RemediateEnsureDefaultDenyFirewallPolicyIsSet v =
     seq (InitEnsureDefaultDenyFirewallPolicyIsSet v)
       (with_desired ''g_desiredEnsureDefaultDenyFirewallPolicyIsSet'' (\<lambda>d. if atoi d \<noteq> 0 then call SetDefaultDenyFirewallPolicy else ret 0))"

definition RemediateEnsurePacketRedirectSendingIsDisabled :: "cstr \<Rightarrow> ('a asb_scheme, int) act" where [remediations]:
  "RemediateEnsurePacketRedirectSendingIsDisabled v =
     status_of (all_of
         [is_zero (call (run ''sysctl -w net.ipv4.conf.all.send_redirects=0'')),
          is_zero (call (run ''sysctl -w net.ipv4.conf.default.send_redirects=0'')),
          is_zero (replace_in_file g_etcSysctlConf ''net.ipv4.conf.all.send_redirects'' (Some (''net.ipv4.conf.all.send_redirects = 0'' @ [EOL])) CHR ''#'' True),
          is_zero (replace_in_file g_etcSysctlConf ''net.ipv4.conf.default.send_redirects'' (Some (''net.ipv4.conf.default.send_redirects = 0'' @ [EOL])) CHR ''#'' True)])"

definition RemediateEnsureIcmpRedirectsIsDisabled :: "cstr \<Rightarrow> ('a asb_scheme, int) act" where [remediations]:
  "RemediateEnsureIcmpRedirectsIsDisabled v =
     status_of (all_of
         [is_zero (call (run ''sysctl -w net.ipv4.conf.default.accept_redirects=0'')),
          is_zero (call (run ''sysctl -w net.ipv6.conf.default.accept_redirects=0'')),
          is_zero (call (run ''sysctl -w net.ipv4.conf.all.accept_redirects=0'')),
          is_zero (call (run ''sysctl -w net.ipv6.conf.all.accept_redirects=0'')),
          is_zero (call (run ''sysctl -w net.ipv4.conf.default.secure_redirects=0'')),
          is_zero (call (run ''sysctl -w net.ipv4.conf.all.secure_redirects=0'')),
          is_zero (replace_in_file g_etcSysctlConf ''net.ipv4.conf.default.accept_redirects'' (Some (''net.ipv4.conf.default.accept_redirects = 0'' @ [EOL])) CHR ''#'' True),
          is_zero (replace_in_file g_etcSysctlConf ''net.ipv6.conf.default.accept_redirects'' (Some (''net.ipv6.conf.default.accept_redirects = 0'' @ [EOL])) CHR ''#'' True),
          is_zero (replace_in_file g_etcSysctlConf ''net.ipv4.conf.all.accept_redirects'' (Some (''net.ipv4.conf.all.accept_redirects = 0'' @ [EOL])) CHR ''#'' True),
          is_zero (replace_in_file g_etcSysctlConf ''net.ipv6.conf.all.accept_redirects'' (Some (''net.ipv6.conf.all.accept_redirects = 0'' @ [EOL])) CHR ''#'' True),
          is_zero (replace_in_file g_etcSysctlConf ''net.ipv4.conf.default.secure_redirects'' (Some (''net.ipv4.conf.default.secure_redirects = 0'' @ [EOL])) (CHR 0x01) True),
          is_zero (replace_in_file g_etcSysctlConf ''net.ipv4.conf.all.secure_redirects'' (Some (''net.ipv4.conf.all.secure_redirects = 0'' @ [EOL])) CHR ''#'' True)])"

definition RemediateEnsureSourceRoutedPacketsIsDisabled :: "cstr \<Rightarrow> ('a asb_scheme, int) act" where [remediations]:
  "RemediateEnsureSourceRoutedPacketsIsDisabled v =
     status_of (both (save_payload ''/proc/sys/net/ipv4/conf/all/accept_source_route'' ''0'') (save_payload ''/proc/sys/net/ipv6/conf/all/accept_source_route'' ''0''))"

definition RemediateEnsureAcceptingSourceRoutedPacketsIsDisabled :: "cstr \<Rightarrow> ('a asb_scheme, int) act" where [remediations]:
  "RemediateEnsureAcceptingSourceRoutedPacketsIsDisabled v =
     status_of (both (save_payload ''/proc/sys/net/ipv4/conf/default/accept_source_route'' ''0'') (save_payload ''/proc/sys/net/ipv6/conf/default/accept_source_route'' ''0''))"

definition RemediateEnsureIgnoringBogusIcmpBroadcastResponses :: "cstr \<Rightarrow> ('a asb_scheme, int) act" where [remediations]:
  "RemediateEnsureIgnoringBogusIcmpBroadcastResponses v =
     status_of (save_payload ''/proc/sys/net/ipv4/icmp_ignore_bogus_error_responses'' ''1'')"

definition RemediateEnsureIgnoringIcmpEchoPingsToMulticast :: "cstr \<Rightarrow> ('a asb_scheme, int) act" where [remediations]:
  "RemediateEnsureIgnoringIcmpEchoPingsToMulticast v =
     status_of (save_payload ''/proc/sys/net/ipv4/icmp_echo_ignore_broadcasts'' ''1'')"

definition RemediateEnsureMartianPacketLoggingIsEnabled :: "cstr \<Rightarrow> ('a asb_scheme, int) act" where [remediations]:
  "RemediateEnsureMartianPacketLoggingIsEnabled v =
     status_of (all_of
         [is_zero (call (run ''sysctl -w net.ipv4.conf.all.log_martians=1'')),
          is_zero (call (run ''sysctl -w net.ipv4.conf.default.log_martians=1'')),
          is_zero (replace_in_file g_etcSysctlConf ''net.ipv4.conf.all.log_martians'' (Some (''net.ipv4.conf.all.log_martians = 1'' @ [EOL])) CHR ''#'' True),
          is_zero (replace_in_file g_etcSysctlConf ''net.ipv4.conf.default.log_martians'' (Some (''net.ipv4.conf.default.log_martians = 1'' @ [EOL])) CHR ''#'' True)])"

definition RemediateEnsureReversePathSourceValidationIsEnabled :: "cstr \<Rightarrow> ('a asb_scheme, int) act" where [remediations]:
  "RemediateEnsureReversePathSourceValidationIsEnabled v =
     status_of (both (save_payload ''/proc/sys/net/ipv4/conf/all/rp_filter'' ''1'') (save_payload ''/proc/sys/net/ipv4/conf/default/rp_filter'' ''1''))"

definition RemediateEnsureTcpSynCookiesAreEnabled :: "cstr \<Rightarrow> ('a asb_scheme, int) act" where [remediations]:
  "RemediateEnsureTcpSynCookiesAreEnabled v =
     status_of (save_payload ''/proc/sys/net/ipv4/tcp_syncookies'' ''1'')"

definition RemediateEnsureSystemNotActingAsNetworkSniffer :: "cstr \<Rightarrow> ('a asb_scheme, int) act" where [remediations]:
  "RemediateEnsureSystemNotActingAsNetworkSniffer v =
     status_of (both (is_zero (replace_in_file g_etcNetworkInterfaces ''PROMISC'' None CHR ''#'' True)) (is_zero (replace_in_file g_etcRcLocal ''PROMISC'' None CHR ''#'' True)))"

definition RemediateEnsureAllWirelessInterfacesAreDisabled :: "cstr \<Rightarrow> ('a asb_scheme, int) act" where [remediations]:
  "RemediateEnsureAllWirelessInterfacesAreDisabled v =
     call DisableAllWirelessInterfaces"

definition RemediateEnsureIpv6ProtocolIsEnabled :: "cstr \<Rightarrow> ('a asb_scheme, int) act" where [remediations]:
  "RemediateEnsureIpv6ProtocolIsEnabled v =
     status_of (all_of
         [is_zero (call (run ''sysctl -w net.ipv6.conf.default.disable_ipv6=0'')),
          is_zero (call (run ''sysctl -w net.ipv6.conf.all.disable_ipv6=0'')),
          is_zero (replace_in_file g_etcSysctlConf ''net.ipv6.conf.default.disable_ipv6'' (Some (''net.ipv6.conf.default.disable_ipv6 = 0'' @ [EOL])) CHR ''#'' True),
          is_zero (replace_in_file g_etcSysctlConf ''net.ipv6.conf.all.disable_ipv6'' (Some (''net.ipv6.conf.all.disable_ipv6 = 0'' @ [EOL])) CHR ''#'' True)])"

definition RemediateEnsureDccpIsDisabled :: "cstr \<Rightarrow> ('a asb_scheme, int) act" where [remediations]:
  "RemediateEnsureDccpIsDisabled v =
     status_of (secure_save ''/etc/modprobe.d/dccp.conf'' ''install dccp /bin/true'')"

definition RemediateEnsureSctpIsDisabled :: "cstr \<Rightarrow> ('a asb_scheme, int) act" where [remediations]:
  "RemediateEnsureSctpIsDisabled v =
     status_of (secure_save ''/etc/modprobe.d/sctp.conf'' ''install sctp /bin/true'')"

definition RemediateEnsureDisabledSupportForRds :: "cstr \<Rightarrow> ('a asb_scheme, int) act" where [remediations]:
  "RemediateEnsureDisabledSupportForRds v =
     status_of (secure_save ''/etc/modprobe.d/rds.conf'' ''install rds /bin/true'')"

definition RemediateEnsureTipcIsDisabled :: "cstr \<Rightarrow> ('a asb_scheme, int) act" where [remediations]:
  "RemediateEnsureTipcIsDisabled v =
     status_of (secure_save ''/etc/modprobe.d/tipc.conf'' ''install tipc /bin/true'')"

definition RemediateEnsureZeroconfNetworkingIsDisabled :: "cstr \<Rightarrow> ('a asb_scheme, int) act" where [remediations]:
  "RemediateEnsureZeroconfNetworkingIsDisabled v =
     seq (stop_and_disable (Some g_avahiDaemonSocket))
       (seq (stop_and_disable (Some g_avahiDaemon))
       (andThen (status_of (silent (call (CheckDaemonNotActive (Some g_avahiDaemon))))) (\<lambda>status.
        if status \<noteq> 0 then ret status
        else andThen (replace_in_file g_etcNetworkInterfaces g_ipv4ll None CHR ''#'' True) (\<lambda>status'.
          if status' \<noteq> 0 then ret status'
          else branch (both (file_exists g_etcSysconfigNetwork) (both (is_a_file g_etcSysconfigNetwork) (call (IsDaemonActive (Some g_legacyNetworkService)))))
             (call (edit_fs (\<lambda>m rnd. ReplaceMarkedLinesInFilePrepend m rnd (Some g_etcSysconfigNetwork) (Some ''NOZEROCONF'') (Some (''NOZEROCONF=yes'' @ [EOL])) CHR ''#'' True)))
             (ret 0)))))"

definition RemediateEnsurePermissionsOnBootloaderConfig :: "cstr \<Rightarrow> ('a asb_scheme, int) act" where [remediations]:
  "RemediateEnsurePermissionsOnBootloaderConfig v =
     seq (InitEnsurePermissionsOnBootloaderConfig v)
       (with_desired ''g_desiredEnsurePermissionsOnBootloaderConfig'' (\<lambda>d. status_of (
          either (both (file_exists g_bootGrubGrubCfg) (is_zero (call (SetFileAccess (Some g_bootGrubGrubCfg) 0 0 (octal_value d))))) (
          either (both (file_exists g_bootGrubGrubConf) (is_zero (call (SetFileAccess (Some g_bootGrubGrubConf) 0 0 (octal_value d))))) (
          either (both (file_exists g_bootGrub2GrubCfg) (is_zero (call (SetFileAccess (Some g_bootGrub2GrubCfg) 0 0 (octal_value d))))) (
          either (both (file_exists g_bootGrubUserCfg) (is_zero (call (SetFileAccess (Some g_bootGrubUserCfg) 0 0 (octal_value d))))) (
          either (both (file_exists g_bootGrub2UserCfg) (is_zero (call (SetFileAccess (Some g_bootGrub2UserCfg) 0 0 (octal_value d))))) (
          both (file_exists g_bootGrub2GrubConf) (is_zero (call (SetFileAccess (Some g_bootGrub2GrubConf) 0 0 (octal_value d))))))))))))"

definition RemediateEnsurePasswordReuseIsLimited :: "cstr \<Rightarrow> ('a asb_scheme, int) act" where [remediations]:
  "RemediateEnsurePasswordReuseIsLimited v =
     seq (InitEnsurePasswordReuseIsLimited v)
       (with_desired ''g_desiredEnsurePasswordReuseIsLimited'' (\<lambda>d. call (SetEnsurePasswordReuseIsLimited (atoi d))))"

definition RemediateEnsureMountingOfUsbStorageDevicesIsDisabled :: "cstr \<Rightarrow> ('a asb_scheme, int) act" where [remediations]:
  "RemediateEnsureMountingOfUsbStorageDevicesIsDisabled v =
     status_of (secure_save ''/etc/modprobe.d/usb-storage.conf'' ''install usb-storage /bin/true'')"

definition RemediateEnsureCoreDumpsAreRestricted :: "cstr \<Rightarrow> ('a asb_scheme, int) act" where [remediations]:
  "RemediateEnsureCoreDumpsAreRestricted v =
     branch (both (is_zero (silent (call CheckCoreDumpsHardLimitIsDisabledForAllUsers)))
                (is_zero (silent (call (CheckLineFoundNotCommentedOut_r (Some g_sysCtlConf) CHR ''#'' (Some g_fsSuidDumpable))))))
       (ret 0)
       (andThen (replace_in_file g_etcSecurityLimitsConf ''hard core'' (Some g_hardCoreZero) CHR ''#'' True) (\<lambda>status.
          if status \<noteq> 0 then ret status
          else branch (negate (file_exists g_sysCtlConf))
             (status_of (save_payload g_sysCtlConf g_fsSuidDumpable))
             (replace_in_file g_sysCtlConf ''fs.suid_dumpable'' (Some g_fsSuidDumpable) CHR ''#'' True)))"

definition RemediateEnsurePasswordCreationRequirements :: "cstr \<Rightarrow> ('a asb_scheme, int) act" where [remediations]:
  "RemediateEnsurePasswordCreationRequirements v =
     seq (InitEnsurePasswordCreationRequirements v)
       (with_state (\<lambda>s. andThen (convert (desired s ''g_desiredEnsurePasswordCreationRequirements'') 10) (\<lambda>(status, vs).
          if status = 0 \<and> length vs = 7
          then call (SetPasswordCreationRequirements (vs ! 0) (vs ! 1) (vs ! 2) (vs ! 3) (vs ! 4) (vs ! 5) (vs ! 6))
          else ret 0)))"

definition RemediateEnsureLockoutForFailedPasswordAttempts :: "cstr \<Rightarrow> ('a asb_scheme, int) act" where [remediations]:
  "RemediateEnsureLockoutForFailedPasswordAttempts v =
     call SetLockoutForFailedPasswordAttempts"

definition RemediateEnsureDisabledInstallationOfCramfsFileSystem :: "cstr \<Rightarrow> ('a asb_scheme, int) act" where [remediations]:
  "RemediateEnsureDisabledInstallationOfCramfsFileSystem v =
     status_of (secure_save ''/etc/modprobe.d/cramfs.conf'' ''install cramfs /bin/true'')"

definition RemediateEnsureDisabledInstallationOfFreevxfsFileSystem :: "cstr \<Rightarrow> ('a asb_scheme, int) act" where [remediations]:
  "RemediateEnsureDisabledInstallationOfFreevxfsFileSystem v =
     status_of (secure_save ''/etc/modprobe.d/freevxfs.conf'' ''install freevxfs /bin/true'')"

definition RemediateEnsureDisabledInstallationOfHfsFileSystem :: "cstr \<Rightarrow> ('a asb_scheme, int) act" where [remediations]:
  "RemediateEnsureDisabledInstallationOfHfsFileSystem v =
     status_of (secure_save ''/etc/modprobe.d/hfs.conf'' ''install hfs /bin/true'')"

definition RemediateEnsureDisabledInstallationOfHfsplusFileSystem :: "cstr \<Rightarrow> ('a asb_scheme, int) act" where [remediations]:
  "RemediateEnsureDisabledInstallationOfHfsplusFileSystem v =
     status_of (secure_save ''/etc/modprobe.d/hfsplus.conf'' ''install hfsplus /bin/true'')"

definition RemediateEnsureDisabledInstallationOfJffs2FileSystem :: "cstr \<Rightarrow> ('a asb_scheme, int) act" where [remediations]:
  "RemediateEnsureDisabledInstallationOfJffs2FileSystem v =
     status_of (secure_save ''/etc/modprobe.d/jffs2.conf'' ''install jffs2 /bin/true'')"

definition RemediateEnsureVirtualMemoryRandomizationIsEnabled :: "cstr \<Rightarrow> ('a asb_scheme, int) act" where [remediations]:
  "RemediateEnsureVirtualMemoryRandomizationIsEnabled v =
     call EnableVirtualMemoryRandomization"

definition RemediateEnsureAllBootloadersHavePasswordProtectionEnabled :: "cstr \<Rightarrow> ('a asb_scheme, int) act" where [remediations]:
  "RemediateEnsureAllBootloadersHavePasswordProtectionEnabled v =
     ret 0"

definition RemediateEnsureLoggingIsConfigured :: "cstr \<Rightarrow> ('a asb_scheme, int) act" where [remediations]:
  "RemediateEnsureLoggingIsConfigured v =
     status_of (all_of
         [either (both (is_zero (call (InstallPackage (Some g_systemd)))) (either (is_zero (call (InstallPackage (Some g_rsyslog)))) (is_zero (call (InstallPackage (Some g_syslog)))))) (is_zero (call (InstallPackage (Some g_syslogNg)))),
          both (is_zero (silent (call (CheckPackageInstalled (Some g_systemd))))) (call (EnableAndStartDaemon (Some g_systemdJournald))),
          any_of
         [both (is_zero (silent (call (CheckPackageInstalled (Some g_rsyslog))))) (call (EnableAndStartDaemon (Some g_rsyslog))),
          both (is_zero (silent (call (CheckPackageInstalled (Some g_syslog))))) (call (EnableAndStartDaemon (Some g_syslog))),
          both (is_zero (silent (call (CheckPackageInstalled (Some g_syslogNg))))) (call (EnableAndStartDaemon (Some g_syslogNg)))]])"

definition RemediateEnsureSyslogPackageIsInstalled :: "cstr \<Rightarrow> ('a asb_scheme, int) act" where [remediations]:
  "RemediateEnsureSyslogPackageIsInstalled v =
     status_of (either (both (is_zero (call (InstallPackage (Some g_systemd)))) (either (is_zero (call (InstallPackage (Some g_rsyslog)))) (is_zero (call (InstallPackage (Some g_syslog)))))) (is_zero (call (InstallPackage (Some g_syslogNg)))))"

definition RemediateEnsureSystemdJournaldServicePersistsLogMessages :: "cstr \<Rightarrow> ('a asb_scheme, int) act" where [remediations]:
  "RemediateEnsureSystemdJournaldServicePersistsLogMessages v =
     status_of (both (is_zero (call (InstallPackage (Some g_systemd)))) (is_zero (call (SetDirectoryAccess (Some g_varLogJournal) 0 (- 1) (octal_value ''02755'')))))"

definition RemediateEnsureALoggingServiceIsEnabled :: "cstr \<Rightarrow> ('a asb_scheme, int) act" where [remediations]:
  "RemediateEnsureALoggingServiceIsEnabled v =
     status_of (either (all_of
         [is_zero (call (InstallPackage (Some g_systemd))),
          call (EnableAndStartDaemon (Some g_systemdJournald)),
          either (both (is_zero (call (InstallPackage (Some g_rsyslog)))) (call (EnableAndStartDaemon (Some g_rsyslog)))) (both (is_zero (call (InstallPackage (Some g_syslog)))) (call (EnableAndStartDaemon (Some g_syslog))))]) (both (is_zero (call (InstallPackage (Some g_syslogNg)))) (call (EnableAndStartDaemon (Some g_syslogNg)))))"

definition RemediateEnsureFilePermissionsForAllRsyslogLogFiles :: "cstr \<Rightarrow> ('a asb_scheme, int) act" where [remediations]:
  "RemediateEnsureFilePermissionsForAllRsyslogLogFiles v =
     seq (InitEnsureFilePermissionsForAllRsyslogLogFiles v)
       (remediate_numbers ''g_desiredEnsureFilePermissionsForAllRsyslogLogFiles'' 8 (\<lambda>modes.
          if modes = [] then ret ENOENT
          else andThen (call (format_text (show_o (word_of_int (last modes))))) (\<lambda>formattedMode.
             if formattedMode = None then ret ENOMEM else set_conf_value g_etcRsyslogConf g_fileCreateMode formattedMode)))"

definition RemediateEnsureLoggerConfigurationFilesAreRestricted :: "cstr \<Rightarrow> ('a asb_scheme, int) act" where [remediations]:
  "RemediateEnsureLoggerConfigurationFilesAreRestricted v =
     status_of (both (is_zero (call (SetFileAccess (Some g_etcSyslogNgSyslogNgConf) 0 0 (octal_value ''0640'')))) (is_zero (call (SetFileAccess (Some g_etcRsyslogConf) 0 0 (octal_value ''0640'')))))"

definition RemediateEnsureAllRsyslogLogFilesAreOwnedByAdmGroup :: "cstr \<Rightarrow> ('a asb_scheme, int) act" where [remediations]:
  "RemediateEnsureAllRsyslogLogFilesAreOwnedByAdmGroup v =
     seq (change (\<lambda>t. AddIfMissingAdmSystemGroup (now t) (shell_exec t)))
       (set_conf_value g_etcRsyslogConf ''$FileGroup'' (Some ''adm''))"

definition RemediateEnsureAllRsyslogLogFilesAreOwnedBySyslogUser :: "cstr \<Rightarrow> ('a asb_scheme, int) act" where [remediations]:
  "RemediateEnsureAllRsyslogLogFilesAreOwnedBySyslogUser v =
     seq (change (\<lambda>t. AddIfMissingSyslogSystemUser (shell_exec t)))
       (set_conf_value g_etcRsyslogConf ''$FileOwner'' (Some ''syslog''))"

definition RemediateEnsureRsyslogNotAcceptingRemoteMessages :: "cstr \<Rightarrow> ('a asb_scheme, int) act" where [remediations]:
  "RemediateEnsureRsyslogNotAcceptingRemoteMessages v =
     status_of (both (is_zero (replace_in_file g_etcRsyslogConf ''$ModLoad imudp'' None CHR ''#'' True)) (is_zero (replace_in_file g_etcRsyslogConf ''$ModLoad imtcp'' None CHR ''#'' True)))"

definition RemediateEnsureSyslogRotaterServiceIsEnabled :: "cstr \<Rightarrow> ('a asb_scheme, int) act" where [remediations]:
  "RemediateEnsureSyslogRotaterServiceIsEnabled v =
     branch (both (is_zero (call (InstallPackage (Some g_logrotate)))) (is_zero (call (SetFileAccess (Some g_etcCronDailyLogRotate) 0 0 (octal_value ''0755'')))))
       (branch (both (negate is_red_hat_based) (both (negate (call (IsCurrentOs (Some PRETTY_NAME_UBUNTU_16_04)))) (negate (call (IsCurrentOs (Some PRETTY_NAME_UBUNTU_18_04))))))
          (status_of (call (EnableAndStartDaemon (Some g_logrotateTimer)))) (ret 0))
       (ret ENOENT)"

definition RemediateEnsureTelnetServiceIsDisabled :: "cstr \<Rightarrow> ('a asb_scheme, int) act" where [remediations]:
  "RemediateEnsureTelnetServiceIsDisabled v =
     seq (stop_and_disable (Some g_telnet))
       (status_of (both (silent (call (CheckDaemonNotActive (Some g_telnet)))) (is_zero (replace_in_file g_etcInetdConf g_telnet None CHR ''#'' True))))"

definition RemediateEnsureRcprshServiceIsDisabled :: "cstr \<Rightarrow> ('a asb_scheme, int) act" where [remediations]:
  "RemediateEnsureRcprshServiceIsDisabled v =
     seq (stop_and_disable (Some g_rcpSocket))
       (seq (stop_and_disable (Some g_rshSocket))
       (status_of (both (silent (call (CheckDaemonNotActive (Some g_rcpSocket)))) (silent (call (CheckDaemonNotActive (Some g_rshSocket)))))))"

definition RemediateEnsureTftpServiceisDisabled :: "cstr \<Rightarrow> ('a asb_scheme, int) act" where [remediations]:
  "RemediateEnsureTftpServiceisDisabled v =
     seq (stop_and_disable (Some g_tftpHpa))
       (status_of (both (silent (call (CheckDaemonNotActive (Some g_tftpHpa)))) (is_zero (replace_in_file g_etcInetdConf g_tftp None CHR ''#'' True))))"

definition RemediateEnsureAtCronIsRestrictedToAuthorizedUsers :: "cstr \<Rightarrow> ('a asb_scheme, int) act" where [remediations]:
  "RemediateEnsureAtCronIsRestrictedToAuthorizedUsers v =
     seq (unlink_file g_etcCronDeny)
       (seq (unlink_file g_etcAtDeny)
       (status_of (all_of
         [secure_save g_etcCronAllow (''root'' @ [EOL]),
          secure_save g_etcAtAllow (''root'' @ [EOL]),
          negate (is_zero (silent (call (CheckFileExists_r (Some g_etcCronDeny))))),
          negate (is_zero (silent (call (CheckFileExists_r (Some g_etcAtDeny))))),
          is_zero (call (SetFileAccess (Some g_etcCronAllow) 0 0 (octal_value ''0600''))),
          is_zero (call (SetFileAccess (Some g_etcAtAllow) 0 0 (octal_value ''0600'')))])))"

definition RemediateEnsureSshPortIsConfigured :: "cstr \<Rightarrow> ('a asb_scheme, int) act" where [remediations]:
  "RemediateEnsureSshPortIsConfigured v =
     silent (call (ProcessSshAuditCheck (Some g_remediateEnsureSshPortIsConfiguredObject) v))"

definition RemediateEnsureSshBestPracticeProtocol :: "cstr \<Rightarrow> ('a asb_scheme, int) act" where [remediations]:
  "RemediateEnsureSshBestPracticeProtocol v =
     silent (call (ProcessSshAuditCheck (Some g_remediateEnsureSshBestPracticeProtocolObject) v))"

definition RemediateEnsureSshBestPracticeIgnoreRhosts :: "cstr \<Rightarrow> ('a asb_scheme, int) act" where [remediations]:
  "RemediateEnsureSshBestPracticeIgnoreRhosts v =
     silent (call (ProcessSshAuditCheck (Some g_remediateEnsureSshBestPracticeIgnoreRhostsObject) v))"

definition RemediateEnsureSshLogLevelIsSet :: "cstr \<Rightarrow> ('a asb_scheme, int) act" where [remediations]:
  "RemediateEnsureSshLogLevelIsSet v =
     silent (call (ProcessSshAuditCheck (Some g_remediateEnsureSshLogLevelIsSetObject) v))"

definition RemediateEnsureSshMaxAuthTriesIsSet :: "cstr \<Rightarrow> ('a asb_scheme, int) act" where [remediations]:
  "RemediateEnsureSshMaxAuthTriesIsSet v =
     silent (call (ProcessSshAuditCheck (Some g_remediateEnsureSshMaxAuthTriesIsSetObject) v))"

definition RemediateEnsureAllowUsersIsConfigured :: "cstr \<Rightarrow> ('a asb_scheme, int) act" where [remediations]:
  "RemediateEnsureAllowUsersIsConfigured v =
     silent (call (ProcessSshAuditCheck (Some g_remediateEnsureAllowUsersIsConfiguredObject) v))"

definition RemediateEnsureDenyUsersIsConfigured :: "cstr \<Rightarrow> ('a asb_scheme, int) act" where [remediations]:
  "RemediateEnsureDenyUsersIsConfigured v =
     silent (call (ProcessSshAuditCheck (Some g_remediateEnsureDenyUsersIsConfiguredObject) v))"

definition RemediateEnsureAllowGroupsIsConfigured :: "cstr \<Rightarrow> ('a asb_scheme, int) act" where [remediations]:
  "RemediateEnsureAllowGroupsIsConfigured v =
     silent (call (ProcessSshAuditCheck (Some g_remediateEnsureAllowGroupsIsConfiguredObject) v))"

definition RemediateEnsureDenyGroupsConfigured :: "cstr \<Rightarrow> ('a asb_scheme, int) act" where [remediations]:
  "RemediateEnsureDenyGroupsConfigured v =
     silent (call (ProcessSshAuditCheck (Some g_remediateEnsureDenyGroupsConfiguredObject) v))"

definition RemediateEnsureSshHostbasedAuthenticationIsDisabled :: "cstr \<Rightarrow> ('a asb_scheme, int) act" where [remediations]:
  "RemediateEnsureSshHostbasedAuthenticationIsDisabled v =
     silent (call (ProcessSshAuditCheck (Some g_remediateEnsureSshHostbasedAuthenticationIsDisabledObject) v))"

definition RemediateEnsureSshPermitRootLoginIsDisabled :: "cstr \<Rightarrow> ('a asb_scheme, int) act" where [remediations]:
  "RemediateEnsureSshPermitRootLoginIsDisabled v =
     silent (call (ProcessSshAuditCheck (Some g_remediateEnsureSshPermitRootLoginIsDisabledObject) v))"

definition RemediateEnsureSshPermitEmptyPasswordsIsDisabled :: "cstr \<Rightarrow> ('a asb_scheme, int) act" where [remediations]:
  "RemediateEnsureSshPermitEmptyPasswordsIsDisabled v =
     silent (call (ProcessSshAuditCheck (Some g_remediateEnsureSshPermitEmptyPasswordsIsDisabledObject) v))"

definition RemediateEnsureSshClientIntervalCountMaxIsConfigured :: "cstr \<Rightarrow> ('a asb_scheme, int) act" where [remediations]:
  "RemediateEnsureSshClientIntervalCountMaxIsConfigured v =
     silent (call (ProcessSshAuditCheck (Some g_remediateEnsureSshClientIntervalCountMaxIsConfiguredObject) v))"

definition RemediateEnsureSshClientAliveIntervalIsConfigured :: "cstr \<Rightarrow> ('a asb_scheme, int) act" where [remediations]:
  "RemediateEnsureSshClientAliveIntervalIsConfigured v =
     silent (call (ProcessSshAuditCheck (Some g_remediateEnsureSshClientAliveIntervalIsConfiguredObject) v))"

definition RemediateEnsureSshLoginGraceTimeIsSet :: "cstr \<Rightarrow> ('a asb_scheme, int) act" where [remediations]:
  "RemediateEnsureSshLoginGraceTimeIsSet v =
     silent (call (ProcessSshAuditCheck (Some g_remediateEnsureSshLoginGraceTimeIsSetObject) v))"

definition RemediateEnsureOnlyApprovedMacAlgorithmsAreUsed :: "cstr \<Rightarrow> ('a asb_scheme, int) act" where [remediations]:
  "RemediateEnsureOnlyApprovedMacAlgorithmsAreUsed v =
     silent (call (ProcessSshAuditCheck (Some g_remediateEnsureOnlyApprovedMacAlgorithmsAreUsedObject) v))"

definition RemediateEnsureSshWarningBannerIsEnabled :: "cstr \<Rightarrow> ('a asb_scheme, int) act" where [remediations]:
  "RemediateEnsureSshWarningBannerIsEnabled v =
     silent (call (ProcessSshAuditCheck (Some g_remediateEnsureSshWarningBannerIsEnabledObject) v))"

definition RemediateEnsureUsersCannotSetSshEnvironmentOptions :: "cstr \<Rightarrow> ('a asb_scheme, int) act" where [remediations]:
  "RemediateEnsureUsersCannotSetSshEnvironmentOptions v =
     silent (call (ProcessSshAuditCheck (Some g_remediateEnsureUsersCannotSetSshEnvironmentOptionsObject) v))"

definition RemediateEnsureAppropriateCiphersForSsh :: "cstr \<Rightarrow> ('a asb_scheme, int) act" where [remediations]:
  "RemediateEnsureAppropriateCiphersForSsh v =
     silent (call (ProcessSshAuditCheck (Some g_remediateEnsureAppropriateCiphersForSshObject) v))"

definition RemediateEnsureAvahiDaemonServiceIsDisabled :: "cstr \<Rightarrow> ('a asb_scheme, int) act" where [remediations]:
  "RemediateEnsureAvahiDaemonServiceIsDisabled v =
     seq (stop_and_disable (Some g_avahiDaemonSocket))
       (seq (stop_and_disable (Some g_avahiDaemon))
       (status_of (silent (call (CheckDaemonNotActive (Some g_avahiDaemon))))))"

definition RemediateEnsureCupsServiceisDisabled :: "cstr \<Rightarrow> ('a asb_scheme, int) act" where [remediations]:
  "RemediateEnsureCupsServiceisDisabled v =
     seq (stop_and_disable (Some g_cups))
       (seq (call (UninstallPackage (Some g_cups)))
       (status_of (silent (call (CheckDaemonNotActive (Some g_cups))))))"

definition RemediateEnsurePostfixPackageIsUninstalled :: "cstr \<Rightarrow> ('a asb_scheme, int) act" where [remediations]:
  "RemediateEnsurePostfixPackageIsUninstalled v =
     call (UninstallPackage (Some g_postfix))"

definition RemediateEnsurePostfixNetworkListeningIsDisabled :: "cstr \<Rightarrow> ('a asb_scheme, int) act" where [remediations]:
  "RemediateEnsurePostfixNetworkListeningIsDisabled v =
     branch (is_zero (call (IsPackageInstalled (Some g_postfix)))) (call DisablePostfixNetworkListening) (ret 0)"

definition RemediateEnsureRpcgssdServiceIsDisabled :: "cstr \<Rightarrow> ('a asb_scheme, int) act" where [remediations]:
  "RemediateEnsureRpcgssdServiceIsDisabled v =
     seq (stop_and_disable (Some g_rpcgssd))
       (seq (stop_and_disable (Some g_rpcGssd))
       (andThen AuditEnsureRpcgssdServiceIsDisabled CheckAndFreeReason))"

definition RemediateEnsureRpcidmapdServiceIsDisabled :: "cstr \<Rightarrow> ('a asb_scheme, int) act" where [remediations]:
  "RemediateEnsureRpcidmapdServiceIsDisabled v =
     seq (stop_and_disable (Some g_rpcidmapd))
       (seq (stop_and_disable (Some g_nfsIdmapd))
       (andThen AuditEnsureRpcidmapdServiceIsDisabled CheckAndFreeReason))"

definition RemediateEnsurePortmapServiceIsDisabled :: "cstr \<Rightarrow> ('a asb_scheme, int) act" where [remediations]:
  "RemediateEnsurePortmapServiceIsDisabled v =
     seq (mask_if_active g_rpcbind)
       (seq (mask_if_active g_rpcbindSocket)
       (status_of (both (silent (call (CheckDaemonNotActive (Some g_rpcbindSocket)))) (silent (call (CheckDaemonNotActive (Some g_rpcbind)))))))"

definition RemediateEnsureNetworkFileSystemServiceIsDisabled :: "cstr \<Rightarrow> ('a asb_scheme, int) act" where [remediations]:
  "RemediateEnsureNetworkFileSystemServiceIsDisabled v =
     seq (stop_and_disable (Some g_nfsServer))
       (andThen AuditEnsureNetworkFileSystemServiceIsDisabled CheckAndFreeReason)"

definition RemediateEnsureRpcsvcgssdServiceIsDisabled :: "cstr \<Rightarrow> ('a asb_scheme, int) act" where [remediations]:
  "RemediateEnsureRpcsvcgssdServiceIsDisabled v =
     seq (stop_and_disable (Some g_rpcSvcgssd))
       (andThen (branch (file_exists g_etcInetdConf) (replace_in_file g_etcInetdConf g_needSvcgssd None CHR ''#'' True) (ret 0)) (\<lambda>status.
          status_of (both (ret (status = 0)) (negate (call (IsDaemonActive (Some g_rpcSvcgssd)))))))"

definition RemediateEnsureSnmpServerIsDisabled :: "cstr \<Rightarrow> ('a asb_scheme, int) act" where [remediations]:
  "RemediateEnsureSnmpServerIsDisabled v =
     seq (stop_and_disable (Some g_snmpd))
       (andThen AuditEnsureSnmpServerIsDisabled CheckAndFreeReason)"

definition RemediateEnsureRsynServiceIsDisabled :: "cstr \<Rightarrow> ('a asb_scheme, int) act" where [remediations]:
  "RemediateEnsureRsynServiceIsDisabled v =
     seq (stop_and_disable (Some g_rsync))
       (andThen AuditEnsureRsynServiceIsDisabled CheckAndFreeReason)"

definition RemediateEnsureNisServerIsDisabled :: "cstr \<Rightarrow> ('a asb_scheme, int) act" where [remediations]:
  "RemediateEnsureNisServerIsDisabled v =
     seq (stop_and_disable (Some g_ypserv))
       (andThen AuditEnsureNisServerIsDisabled CheckAndFreeReason)"

definition RemediateEnsureRshClientNotInstalled :: "cstr \<Rightarrow> ('a asb_scheme, int) act" where [remediations]:
  "RemediateEnsureRshClientNotInstalled v =
     status_of (both (is_zero (call (UninstallPackage (Some g_rsh)))) (is_zero (call (UninstallPackage (Some g_rshClient)))))"

definition RemediateEnsureSmbWithSambaIsDisabled :: "cstr \<Rightarrow> ('a asb_scheme, int) act" where [remediations]:
  "RemediateEnsureSmbWithSambaIsDisabled v =
     branch (either (call (IsDaemonActive (Some g_smbd))) (call (IsDaemonActive (Some g_smb))))
       (andThen (replace_in_file g_etcSambaConf ''SMB1'' None CHR ''#'' True) (\<lambda>status.
          if status \<noteq> 0 then ret status
          else branch (is_zero (call (read_fs (\<lambda>m. FindTextInFile m (Some g_etcSambaConf) (Some g_minSambaProtocol))))) (ret 0)
             (call (run (''sed -i '' @ sq (''/^'' @ [CHR 0x5C] @ ''[global'' @ [CHR 0x5C] @ '']/a min protocol = SMB2'') @ '' /etc/samba/smb.conf'')))))
       (seq (call (UninstallPackage (Some g_samba)))
       (seq (unlink_file g_etcSambaConf)
       (silent (call (CheckPackageNotInstalled (Some g_samba))))))"

definition RemediateEnsureUsersDotFilesArentGroupOrWorldWritable :: "cstr \<Rightarrow> ('a asb_scheme, int) act" where [remediations]:
  "RemediateEnsureUsersDotFilesArentGroupOrWorldWritable v =
     seq (InitEnsureUsersDotFilesArentGroupOrWorldWritable v)
       (remediate_numbers ''g_desiredEnsureUsersDotFilesArentGroupOrWorldWritable'' 8 (\<lambda>modes.
          if modes = [] then ret 0
          else change (\<lambda>t. SetUsersRestrictedDotFiles (now t) (readdir_of t) (modes_of modes) (word_of_int (last modes)))))"

definition RemediateEnsureNoUsersHaveDotForwardFiles :: "cstr \<Rightarrow> ('a asb_scheme, int) act" where [remediations]:
  "RemediateEnsureNoUsersHaveDotForwardFiles v =
     silent (users_dot_files (Some g_forward) True)"

definition RemediateEnsureNoUsersHaveDotNetrcFiles :: "cstr \<Rightarrow> ('a asb_scheme, int) act" where [remediations]:
  "RemediateEnsureNoUsersHaveDotNetrcFiles v =
     silent (users_dot_files (Some g_netrc) True)"

definition RemediateEnsureNoUsersHaveDotRhostsFiles :: "cstr \<Rightarrow> ('a asb_scheme, int) act" where [remediations]:
  "RemediateEnsureNoUsersHaveDotRhostsFiles v =
     silent (users_dot_files (Some g_rhosts) True)"

definition RemediateEnsureRloginServiceIsDisabled :: "cstr \<Rightarrow> ('a asb_scheme, int) act" where [remediations]:
  "RemediateEnsureRloginServiceIsDisabled v =
     seq (stop_and_disable (Some g_rlogin))
       (seq (call (UninstallPackage (Some g_rlogin)))
       (seq (call (UninstallPackage (Some g_inetd)))
       (seq (call (UninstallPackage (Some g_inetUtilsInetd)))
       (status_of (all_of
         [is_zero (silent (call (CheckPackageNotInstalled (Some g_rlogin)))),
          is_zero (silent (call (CheckPackageNotInstalled (Some g_inetd)))),
          is_zero (silent (call (CheckPackageNotInstalled (Some g_inetUtilsInetd)))),
          is_zero (replace_in_file g_etcInetdConf g_login None CHR ''#'' True)])))))"

definition RemediateEnsureUnnecessaryAccountsAreRemoved :: "cstr \<Rightarrow> ('a asb_scheme, int) act" where [remediations]:
  "RemediateEnsureUnnecessaryAccountsAreRemoved v =
     seq (InitEnsureUnnecessaryAccountsAreRemoved v)
       (with_state (\<lambda>s. change_or_crash (\<lambda>t. RemoveUserAccounts (now t) (shell_exec t) (desired s ''g_desiredEnsureUnnecessaryAccountsAreRemoved''))))"

end
