(* ===== verification/Asb.thy ===== *)
theory Asb
  imports AsbRemediate
begin

text \<open>
  The interface of the security baseline (\<open>src/common/asb/Asb.c\<close>): the rules, the session, and the calls that audit,
  remediate and set desired values by the name of an object. The chains of \<open>strcmp\<close> of \<open>AsbMmiGet\<close> and \<open>AsbMmiSet\<close> are
  tables from names to actions, in the order of the code.
\<close>

named_theorems tables \<open>the tables of the baseline\<close>

subsection \<open>The rules\<close>

record BaselineRule =
  resourceId :: string
  ruleId :: string
  payloadKey :: string

definition rule_of :: "string \<Rightarrow> string \<Rightarrow> string \<Rightarrow> BaselineRule" where
  "rule_of resource rule key = \<lparr>resourceId = resource, ruleId = rule, payloadKey = key\<rparr>"

definition g_rules_1 :: "BaselineRule list" where [tables]:
  "g_rules_1 =
     [rule_of ''Ensure permissions on /etc/ssh/sshd_config are configured (CIS: L1 - Server - 5.2.1)'' ''43119747-263c-2c92-4ce5-726e63259049'' ''EnsurePermissionsOnEtcSshSshdConfig'',
      rule_of ''Ensure that the SSH protocol is configured (CIS: L1 - Server - 5.2.4)'' ''35868e8c-97eb-4981-ab79-99b25101cc86'' ''EnsureSshBestPracticeProtocol'',
      rule_of ''Ensure that the SSH IgnoreRhosts is configured (CIS: L1 - Server - 5.2.8)'' ''43945588-1bdc-495c-bac8-6a71a62d30aa'' ''EnsureSshBestPracticeIgnoreRhosts'',
      rule_of ''Ensure that the SSH LogLevel is configured (CIS: L1 - Server - 5.2.5)'' ''31f1a912-1b98-42fd-8381-1e8d1033bfd1'' ''EnsureSshLogLevelIsSet'',
      rule_of ''Ensure that the SSH MaxAuthTries is configured (CIS: L1 - Server - 5.2.7)'' ''e7708534-5d98-406f-83ae-1de835b2906e'' ''EnsureSshMaxAuthTriesIsSet'',
      rule_of ''Ensure that the allowed users for SSH access are configured (CIS: L1 - Server - 5.2.18)'' ''dc8da71d-aeba-4c03-8835-36fe158e372a'' ''EnsureAllowUsersIsConfigured'',
      rule_of ''Ensure that the denied users for SSH are configured (CIS: L1 - Server - 5.2.18)'' ''1db7d147-3a75-4637-8cdc-c119e22d0206'' ''EnsureDenyUsersIsConfigured'',
      rule_of ''Ensure that the allowed groups for SSH are configured (CIS: L1 - Server - 5.2.18)'' ''d9868b1f-0c8e-4adb-889e-14e374874ece'' ''EnsureAllowGroupsIsConfigured'',
      rule_of ''Ensure that the denied groups for SSH are configured (CIS: L1 - Server - 5.2.18)'' ''f85c04a4-427b-4ee1-b988-c3ff7b4998cc'' ''EnsureDenyGroupsConfigured'',
      rule_of ''Ensure that the SSH HostBasedAuthentication is configured (CIS: L1 - Server - 5.2.9)'' ''66511f6b-f690-43df-9654-642260699eec'' ''EnsureSshHostbasedAuthenticationIsDisabled'',
      rule_of ''Ensure that the SSH PermitRootLogin is configured (CIS: L1 - Server - 5.2.10)'' ''16511f6b-f690-43df-9654-642260699eec'' ''EnsureSshPermitRootLoginIsDisabled'',
      rule_of ''Ensure that the SSH PermitEmptyPasswords is configured (CIS: L1 - Server - 5.2.11)'' ''d50c3f39-264c-4cdc-b0ba-89de8a0f6828'' ''EnsureSshPermitEmptyPasswordsIsDisabled'',
      rule_of ''Ensure that the SSH ClientAliveCountMax is configured'' ''fd9f1554-6b72-8610-826e-78578e6f7811'' ''EnsureSshClientIntervalCountMaxIsConfigured'',
      rule_of ''Ensure that the SSH ClientAliveInterval is configured'' ''c848bba4-93b1-4756-b08a-ff94c2b4814c'' ''EnsureSshClientAliveIntervalIsConfigured'',
      rule_of ''Ensure that the SSH LoginGraceTime is configured (CIS: L1 - Server - 5.2.17)'' ''39aa5c2b-5b36-84a7-4022-570a53c86ff9'' ''EnsureSshLoginGraceTimeIsSet'',
      rule_of ''Ensure that only approved MAC algorithms are used (CIS: L1 - Server - 5.2.14)'' ''483e8b0c-7572-8467-7e0c-26e1e9ce6359'' ''EnsureOnlyApprovedMacAlgorithmsAreUsed'',
      rule_of ''Ensure that the SSH warning banner is configured (CIS: L1 - Server - 5.2.19)'' ''9e240540-5e0a-4b60-beb2-57421c65a0b9'' ''EnsureSshWarningBannerIsEnabled'',
      rule_of ''Ensure that the SSH PermitUserEnvironment is configured (CIS: L1 - Server - 5.2.12)'' ''0e665978-91f4-45af-bb7b-e4090b600c8d'' ''EnsureUsersCannotSetSshEnvironmentOptions'',
      rule_of ''Ensure that appropriate ciphers are used for SSH (CIS: L1 - Server - 5.2.13)'' ''b07d4c69-a1d9-4c22-a486-634ec3b8c380'' ''EnsureAppropriateCiphersForSsh'',
      rule_of ''Ensure that the SSH port is configured'' ''1310042d-193f-414a-a7e3-b2c4e89aa537'' ''EnsureSshPortIsConfigured'',
      rule_of ''Ensure nodev option set on /home partition (CIS: L1 - Server - 1.1.14)'' ''a87f15ed-1115-a22d-6f43-17db97c91111'' ''EnsureNodevOptionOnHomePartition'',
      rule_of ''Ensure nodev option set on /tmp partition (CIS: L1 - Server - 1.1.3)'' ''a87f15ed-1115-a22d-6f43-17db97c91161'' ''EnsureNodevOptionOnTmpPartition'',
      rule_of ''Ensure nodev option set on /var/tmp partition (CIS: L1 - Server - 1.1.8)'' ''a87f15ed-1115-a22d-6f43-17db97c91181'' ''EnsureNodevOptionOnVarTmpPartition'',
      rule_of ''Ensure nosuid option set on /tmp partition (CIS: L1 - Server - 1.1.4)'' ''a87f15ed-1115-a22d-6f43-17db97c91191'' ''EnsureNosuidOptionOnTmpPartition'',
      rule_of ''Ensure nosuid option set on /var/tmp partition (CIS: L1 - Server - 1.1.9)'' ''a87f15ed-1115-a22d-6f43-17db97c91171'' ''EnsureNosuidOptionOnVarTmpPartition'',
      rule_of ''Ensure noexec option set on /var/tmp partition (CIS: L1 - Server - 1.1.10)'' ''b97f15dd-8185-a12d-6f43-17db97c98477'' ''EnsureNoexecOptionOnVarTmpPartition'',
      rule_of ''Ensure noexec option set on /dev/shm partition (CIS: L1 - Server - 1.1.17)'' ''11e6dc3b-0659-3dc8-7d12-8eb0bb6c0890'' ''EnsureNoexecOptionOnDevShmPartition'',
      rule_of ''Ensure automounting is disabled (CIS: L1 - Server - 1.1.22)'' ''8cffbbca-3e5b-9af9-65fe-ff7b6316565d'' ''EnsureAutomountingDisabled'',
      rule_of ''Ensure mounting of USB storage devices is disabled (CIS: L1 - Server - 1.1.23)'' ''acffbbca-3e5b-9aa9-65ee-ff7b6116565f'' ''EnsureMountingOfUsbStorageDevicesIsDisabled'',
      rule_of ''Ensure core dumps are restricted (CIS: L1 - Server - 1.5.1)'' ''429123d4-7e7d-2737-6542-2e86b82c16a1'' ''EnsureCoreDumpsAreRestricted'',
      rule_of ''Ensure prelink is disabled (CIS: L1 - Server - 1.5.4)'' ''cdee3703-321a-69c4-107f-e7b350a95e5a'' ''EnsurePrelinkIsDisabled'',
      rule_of ''Ensure permissions on /etc/motd are configured (CIS: L1 - Server - 1.7.1.4)'' ''b08735e4-8565-0ab1-0fba-b15e31be98e4'' ''EnsurePermissionsOnEtcMotd'',
      rule_of ''Ensure permissions on /etc/issue are configured (CIS: L1 - Server - 1.7.1.5)'' ''69032884-324a-3289-a171-b17a541f7adb'' ''EnsurePermissionsOnEtcIssue'',
      rule_of ''Ensure permissions on /etc/issue.net are configured (CIS: L1 - Server - 1.7.1.6)'' ''9110c0c6-27f1-065e-140d-2672c1ad055b'' ''EnsurePermissionsOnEtcIssueNet'',
      rule_of ''Ensure the nodev option is enabled for all removable media (CIS: L1 - Server - 1.1.18)'' ''5c7537f2-b90b-44a4-89c9-4fca5fd79ef7'' ''EnsureNodevOptionEnabledForAllRemovableMedia'',
      rule_of ''Ensure the noexec option is enabled for all removable media (CIS: L1 - Server - 1.1.20)'' ''7976cc38-fddb-4913-9295-4fcac2e641c3'' ''EnsureNoexecOptionEnabledForAllRemovableMedia'',
      rule_of ''Ensure the nosuid option is enabled for all removable media (CIS: L1 - Server - 1.1.19)'' ''cdc390c9-fb4a-47f6-90a7-4e1bd6d0e9e6'' ''EnsureNosuidOptionEnabledForAllRemovableMedia'',
      rule_of ''Ensure talk client is not installed (CIS: L1 - Server - 2.3.3)'' ''5133422e-990f-971e-661d-ccfc913c1d2c'' ''EnsureTalkClientIsNotInstalled'',
      rule_of ''Ensure permissions on /etc/hosts.allow are configured (CIS: L1 - Server - 3.3.2 + 3.3.4)'' ''1d498679-5780-6db3-14cc-6433011e0310'' ''EnsurePermissionsOnEtcHostsAllow'',
      rule_of ''Ensure permissions on /etc/hosts.deny are configured (CIS: L1 - Server - 3.3.3 + 3.3.5)'' ''71d554b5-1436-9676-1966-939ded8d0a37'' ''EnsurePermissionsOnEtcHostsDeny'',
      rule_of ''Ensure default deny firewall policy is set (CIS: L1 - Server - 3.5.2.1)'' ''eb6c608a-2316-41bd-aa00-604249e31f27'' ''EnsureDefaultDenyFirewallPolicyIsSet'',
      rule_of ''Ensure the nodev/nosuid option is enabled for all NFS mounts'' ''7ca24433-3c08-4ff5-9fe2-d8e1830c5829'' ''EnsureNoexecNosuidOptionsEnabledForAllNfsMounts'',
      rule_of ''Ensure password creation requirements are configured (CIS: L1 - Server - 5.3.1)'' ''b042fda5-55f6-17ba-78d5-1ba33a4709f5'' ''EnsurePasswordCreationRequirements'',
      rule_of ''Ensure lockout for failed password attempts is configured (CIS: L1 - Server - 5.3.2)'' ''1895704d-a326-90ca-3795-3a1289e7482d'' ''EnsureLockoutForFailedPasswordAttempts'',
      rule_of ''Ensure the cramfs file system is disabled (CIS: L1 - Server - 1.1.1.1)'' ''9967cbaf-44be-0dd1-92ab-d4f4034b2d28'' ''EnsureDisabledInstallationOfCramfsFileSystem'',
      rule_of ''Ensure the freevxfs file system is disabled (CIS: L1 - Server - 1.1.1.2)'' ''4c066a3d-8eba-a210-3228-cff300039363'' ''EnsureDisabledInstallationOfFreevxfsFileSystem'',
      rule_of ''Ensure all users' home directories exist (CIS: L1 - Server - 6.2.7)'' ''c07e6adc-93ab-1d40-2c6d-f3f16ca9561d'' ''EnsureAllUsersHomeDirectoriesExist'',
      rule_of ''Ensure users own their home directories (CIS: L1 - Server - 6.2.9)'' ''54e255d1-038a-860b-48a2-3d1821e34661'' ''EnsureUsersOwnTheirHomeDirectories'',
      rule_of ''Ensure users' dot files aren't group or world writable (CIS: L1 - Server - 6.2.10)'' ''086cb95b-5427-3ac0-9b98-c5c5b593579a'' ''EnsureUsersDotFilesArentGroupOrWorldWritable'',
      rule_of ''Ensure no users have .forward files (CIS: L1 - Server - 6.2.11)'' ''d02297d2-9f49-5276-0a92-5ac1e42e243c'' ''EnsureNoUsersHaveDotForwardFiles'',
      rule_of ''Ensure no users have .netrc files (CIS: L1 - Server - 6.2.12)'' ''c1b7767e-6c84-6a54-10b8-b9797a8d707a'' ''EnsureNoUsersHaveDotNetrcFiles'',
      rule_of ''Ensure no users have .rhosts files (CIS: L1 - Server - 6.2.14)'' ''28884fab-89e2-2250-a057-6f35637b4848'' ''EnsureNoUsersHaveDotRhostsFiles'',
      rule_of ''Ensure all groups in /etc/passwd exist in /etc/group (CIS: L1 - Server - 6.2.15)'' ''835a98f5-46da-5332-6b45-38df223e9d9a'' ''EnsureAllEtcPasswdGroupsExistInEtcGroup'',
      rule_of ''Ensure no duplicate UIDs exist (CIS: L1 - Server - 6.2.16)'' ''df7fd9e2-0cd0-47c1-92b0-f3cab6e06869'' ''EnsureNoDuplicateUidsExist'',
      rule_of ''Ensure no duplicate GIDs exist (CIS: L1 - Server - 6.2.17)'' ''70f3d785-1410-440f-6f6d-79b051039d21'' ''EnsureNoDuplicateGidsExist'',
      rule_of ''Ensure no duplicate user names exist (CIS: L1 - Server - 6.2.18)'' ''017e0242-25b9-2c72-7ac6-d601086f5c8b'' ''EnsureNoDuplicateUserNamesExist'',
      rule_of ''Ensure no duplicate groups exist (CIS: L1 - Server - 6.2.19)'' ''bc5844b6-7e40-4f2f-7e81-1cbd18885dae'' ''EnsureNoDuplicateGroupsExist'',
      rule_of ''Ensure shadow group is empty (CIS: L1 - Server - 6.2.20)'' ''cbdc33fa-0f1c-0a90-7fe9-8ef1cf6643c2'' ''EnsureShadowGroupIsEmpty'',
      rule_of ''Ensure the hfs file system is disabled (CIS: L1 - Server - 1.1.1.4)'' ''39595d95-88a4-78e2-6e0e-fbde7fd95eed'' ''EnsureDisabledInstallationOfHfsFileSystem'',
      rule_of ''Ensure the hfsplus file systems is disabled (CIS: L1 - Server - 1.1.1.5)'' ''68fb9c92-1009-9e24-694e-3d996a5e09c5'' ''EnsureDisabledInstallationOfHfsplusFileSystem'',
      rule_of ''Ensure the jffs2 file systems is disabled (CIS: L1 - Server - 1.1.1.3)'' ''859c7aa0-6eeb-6aac-6160-2fdead2537bf'' ''EnsureDisabledInstallationOfJffs2FileSystem'',
      rule_of ''Ensure the kernel is compiled from approved sources'' ''34e19f66-2387-4cdc-8ab2-cfac8e5865f0'' ''EnsureKernelCompiledFromApprovedSources'',
      rule_of ''Ensure file permissions on /etc/shadow are configured (CIS: L1 - Server - 6.1.3)'' ''13dabe7c-02ea-09d2-1a97-42cc7ac94eaa'' ''EnsurePermissionsOnEtcShadow'',
      rule_of ''Ensure file permissions on /etc/shadow- are configured (CIS: L1 - Server - 6.1.7)'' ''1e941132-a3a7-5ccb-1817-50551b65202e'' ''EnsurePermissionsOnEtcShadowDash'',
      rule_of ''Ensure file permissions on /etc/gshadow are configured (CIS: L1 - Server - 6.1.5)'' ''0a7f2b28-8586-6cef-512e-a28f991d83cd'' ''EnsurePermissionsOnEtcGShadow'',
      rule_of ''Ensure file permissions on /etc/gshadow- are configured (CIS: L1 - Server - 6.1.9)'' ''0fe59dec-472c-4b11-a221-36053a47afb6'' ''EnsurePermissionsOnEtcGShadowDash'',
      rule_of ''Ensure file permissions on /etc/passwd are configured (CIS: L1 - Server - 6.1.2)'' ''ad534c97-1070-415c-9fc7-c92366d3fc30'' ''EnsurePermissionsOnEtcPasswd'',
      rule_of ''Ensure file permissions on /etc/group are configured (CIS: L1 - Server - 6.1.4)'' ''c41a47e9-1ba0-4e72-9f43-4659a4bfed63'' ''EnsurePermissionsOnEtcGroup'',
      rule_of ''Ensure file permissions on /etc/passwd- are configured (CIS: L1 - Server - 6.1.6)'' ''0c67cac0-1e99-8a8f-32e1-841d18b01a9a'' ''EnsurePermissionsOnEtcPasswdDash'',
      rule_of ''Ensure file permissions on /etc/group- are configured (CIS: L1 - Server - 6.1.8)'' ''865ebb92-8e64-4e3a-aa9b-0290768aa8f1'' ''EnsurePermissionsOnEtcGroupDash'',
      rule_of ''Ensure that access to the root account via su is restricted to the 'root' group (CIS: L1 - Server - 5.5)'' ''0c77cac0-1e99-8a8f-32e1-841d18b01a9a'' ''EnsureSuRestrictedToRootGroup'',
      rule_of ''Ensure the 'root' group exists, and contain all members who can su to root (CIS: L1 - Server - 5.6)'' ''8cac0c32-1add-42b9-9300-5ccb9f91aab3'' ''EnsureRootGroupExists'',
      rule_of ''Ensure that all user accounts that can login have a password set'' ''ca9d29b7-79bd-4c99-85e2-1454295c3c8e'' ''EnsureAllAccountsHavePasswords'',
      rule_of ''Ensure that all user accounts other than root have unique UIDs greater than zero (0)'' ''7de0f0e6-f97b-4e12-8f9e-c6538ca5a85b'' ''EnsureNonRootAccountsHaveUniqueUidsGreaterThanZero'',
      rule_of ''Ensure that randomized placement (ASLR) of virtual memory regions is enabled (CIS: L1 - Server - 1.5.3)'' ''d790e942-efd3-42e6-a3a5-9eb1d651a588'' ''EnsureVirtualMemoryRandomizationIsEnabled'',
      rule_of ''Ensure that kernel support for the XD/NX processor feature is enabled (CIS: L1 - Server - 1.5.2)'' ''49c89437-d116-4d84-a91d-0dd59daafa0d'' ''EnsureKernelSupportForCpuNx'',
      rule_of ''Ensure '.' does not appear in root's $PATH (CIS: L1 - Server - 6.2.6)'' ''d66f8908-7b9f-77fc-18d4-af85197e0aeb'' ''EnsureDotDoesNotAppearInRootsPath'',
      rule_of ''Ensure access to user home directories is restricted'' ''0754488a-75c7-a4e8-0fb4-9212f771623f'' ''EnsureRestrictedUserHomeDirectories'',
      rule_of ''Ensure the default umask for all users is configured'' ''0753438a-75c7-a4e8-0fb4-9213f771623f'' ''EnsureDefaultUmaskForAllUsers'',
      rule_of ''Ensure all bootloaders have password protection enabled (CIS: L1 - Server - 1.4.2)'' ''8a4f5ce8-41c4-710c-631e-fbc36a2fa53e'' ''EnsureAllBootloadersHavePasswordProtectionEnabled'',
      rule_of ''Ensure permissions on bootloader config are configured (CIS: L1 - Server - 1.4.1)'' ''091f0150-80d1-0e2d-7353-8cdb77fc6aa1'' ''EnsurePermissionsOnBootloaderConfig'',
      rule_of ''Ensure authentication is required for single user mode (CIS: L1 - Server - 1.4.3)'' ''13a48ca1-92bc-63a1-a4de-b984375fa332'' ''EnsureAuthenticationRequiredForSingleUserMode'',
      rule_of ''Ensure packet redirect sending is disabled (CIS: L1 - Server - 3.1.2)'' ''5ea9d618-1af4-4e59-65be-ffac234872e9'' ''EnsurePacketRedirectSendingIsDisabled'',
      rule_of ''Ensure ICMP redirects are not accepted (CIS: L1 - Server - 3.2.2)'' ''a492f72a-6b79-8a9d-3b4f-3fface972ab7'' ''EnsureIcmpRedirectsIsDisabled'']"

definition g_rules_2 :: "BaselineRule list" where [tables]:
  "g_rules_2 =
     [rule_of ''Ensure accepting source routed packets is disabled for all interfaces (CIS: L1 - Server - 3.2.1)'' ''4ecae4e6-a3e2-44f5-9985-ea2a21962450'' ''EnsureSourceRoutedPacketsIsDisabled'',
      rule_of ''Ensure the default setting for accepting source routed packets is disabled for network interfaces (CIS: L1 - Server - 3.2.1)'' ''63613c25-8ae1-4792-9572-02bdc941febf'' ''EnsureAcceptingSourceRoutedPacketsIsDisabled'',
      rule_of ''Ensure ignoring bogus ICMP responses to broadcasts is enabled (CIS: L1 - Server - 3.2.6)'' ''88acc143-2f76-4418-9aa9-d0d5f244ab5f'' ''EnsureIgnoringBogusIcmpBroadcastResponses'',
      rule_of ''Ensure ignoring ICMP echo requests (pings) sent to broadcast/multicast addresses is enabled (CIS: L1 - Server - 3.2.5)'' ''f5a5926d-9c64-41fa-8220-5bc0f8213550'' ''EnsureIgnoringIcmpEchoPingsToMulticast'',
      rule_of ''Ensure logging of martian packets (those with impossible addresses) is enabled for all interfaces'' ''dc1c08a3-91e8-1d60-9210-c18bdebd8778'' ''EnsureMartianPacketLoggingIsEnabled'',
      rule_of ''Ensure performing source validation by reverse path is enabled for all interfaces (CIS: L1 - Server - 3.2.7)'' ''177e6190-1026-49fb-a1f9-fd5b10302280'' ''EnsureReversePathSourceValidationIsEnabled'',
      rule_of ''Ensure TCP SYN cookies are enabled (CIS: L1 - Server - 3.2.8)'' ''db6ca14e-26c5-48cd-a6b7-fc953861043c'' ''EnsureTcpSynCookiesAreEnabled'',
      rule_of ''Ensure the system does not act as a network sniffer'' ''45766f27-5af3-453d-bade-f8195925cde1'' ''EnsureSystemNotActingAsNetworkSniffer'',
      rule_of ''Ensure all wireless interfaces are disabled (CIS: L1 - Server - 3.6)'' ''8def2d0c-303a-4c0b-858c-319f80f7c814'' ''EnsureAllWirelessInterfacesAreDisabled'',
      rule_of ''Ensure the IPv6 protocol is enabled'' ''f04b1de8-1fd3-40da-a27f-39b7ea97bf8c'' ''EnsureIpv6ProtocolIsEnabled'',
      rule_of ''Ensure DCCP is disabled'' ''93d2736e-7329-8806-3ef6-e71bb2203d11'' ''EnsureDccpIsDisabled'',
      rule_of ''Ensure SCTP is disabled'' ''78228616-15d4-33fe-0357-88e77f228f05'' ''EnsureSctpIsDisabled'',
      rule_of ''Ensure support for RDS is disabled'' ''d9ed5e76-2348-4409-94dd-c76352407fe8'' ''EnsureDisabledSupportForRds'',
      rule_of ''Ensure TIPC is disabled'' ''8ace9b14-820f-6e0d-37d8-c6df950454cd'' ''EnsureTipcIsDisabled'',
      rule_of ''Ensure logging is configured (CIS: L1 - Server - 4.2.1.2 + 4.2.1.3)'' ''15ca11bf-034a-56d6-564f-2f857d1f96c6'' ''EnsureLoggingIsConfigured'',
      rule_of ''Ensure the syslog, rsyslog, or syslog-ng package is installed (CIS: L1 - Server - 4.2.1.1)'' ''8720959b-c356-4eaa-bb4f-720fb8006183'' ''EnsureSyslogPackageIsInstalled'',
      rule_of ''Ensure the systemd-journald service persists log messages (CIS: L1 - Server - 4.2.2.3)'' ''7b3aa0e4-0464-4a0e-a265-9a585c4f266e'' ''EnsureSystemdJournaldServicePersistsLogMessages'',
      rule_of ''Ensure a logging service is enabled'' ''4c4e42e2-4cd2-3eaf-147b-ea4f61164d3e'' ''EnsureALoggingServiceIsEnabled'',
      rule_of ''Ensure file permissions for all rsyslog log files are configured (CIS: L1 - Server - 4.2.1.4)'' ''fcc86485-487a-4644-87a0-f29f1b1cd28b'' ''EnsureFilePermissionsForAllRsyslogLogFiles'',
      rule_of ''Ensure logger configuration files are restricted (CIS: L1 - Server - 4.2.1.4)'' ''afd57de2-4365-9949-79f7-f8e92c198746'' ''EnsureLoggerConfigurationFilesAreRestricted'',
      rule_of ''Ensure that all rsyslog log files are owned by the adm group'' ''c1d99621-913e-45f7-96e1-a60b1af83015'' ''EnsureAllRsyslogLogFilesAreOwnedByAdmGroup'',
      rule_of ''Ensure all rsyslog log files are owned by the syslog user (CIS: L1 - Server - 4.2.1.4)'' ''2830790c-5b3f-43cb-be6b-7572e441acc1'' ''EnsureAllRsyslogLogFilesAreOwnedBySyslogUser'',
      rule_of ''Ensure rsyslog does not accept remote messages'' ''1e9567e1-d96d-4f90-be1a-0809947e789c'' ''EnsureRsyslogNotAcceptingRemoteMessages'',
      rule_of ''Ensure the logrotate (syslog rotater) service is enabled (CIS: L1 - Server - 4.3)'' ''2d2355e7-7b07-4c0e-a395-16499c27ae94'' ''EnsureSyslogRotaterServiceIsEnabled'',
      rule_of ''Ensure the rlogin service is disabled'' ''f57ef648-bdaa-45a3-9e3a-f4649c48896f'' ''EnsureRloginServiceIsDisabled'',
      rule_of ''Ensure inetd is not installed (CIS: L1 - Server - 2.1.10)'' ''a8a37e7f-9aae-41cf-8313-42d1f69506b9'' ''EnsureInetdNotInstalled'',
      rule_of ''Ensure xinetd is not installed (CIS: L1 - Server - 2.1.10)'' ''1d9557b2-b58f-4f81-bde9-4f9b08a3b2f1'' ''EnsureXinetdNotInstalled'',
      rule_of ''Ensure the telnet service is disabled (CIS: L1 - Server - 2.1.8)'' ''0617b91c-2a28-42bd-b5b3-7562555b41ed'' ''EnsureTelnetServiceIsDisabled'',
      rule_of ''Ensure all telnetd packages are uninstalled'' ''6c716f88-a252-4fe9-9c5c-ba9236a80beb'' ''EnsureAllTelnetdPackagesUninstalled'',
      rule_of ''Ensure the rcp/rsh service is disabled'' ''dda66a42-30d1-4621-9565-f09628ac8047'' ''EnsureRcprshServiceIsDisabled'',
      rule_of ''Ensure the rsh-server package is uninstalled (CIS: L1 - Server - 2.1.6)'' ''b256491f-f804-4c44-bfa4-057dd2f44c30'' ''EnsureRshServerNotInstalled'',
      rule_of ''Ensure the ypbind service is disabled and the nis package is not installed'' ''58f5187e-88bd-4f24-8570-2c295d5c93c6'' ''EnsureNisNotInstalled'',
      rule_of ''Ensure the tftp service is disabled (CIS: L1 - Server - 2.1.9)'' ''cb086aef-fec2-467f-a03b-627c00020926'' ''EnsureTftpServiceisDisabled'',
      rule_of ''Ensure the tftpd package is not installed (CIS: L1 - Server - 2.1.9)'' ''ae9ce111-ef4d-4d34-8f76-fdc38263f153'' ''EnsureTftpdNotInstalled'',
      rule_of ''Ensure the readahead-fedora package is not installed'' ''dbae0d26-55e9-49d5-8782-86cb7412f99f'' ''EnsureReadaheadFedoraNotInstalled'',
      rule_of ''Ensure the bluetooth package is not installed'' ''9f107bb8-eaf3-445d-acbb-7ab635b442e9'' ''EnsureBluetoothHiddNotInstalled'',
      rule_of ''Ensure the isdn service is disabled and the isdnutils-base package is not installed'' ''51ebf409-911a-4d92-9d3a-1e331e7e4b27'' ''EnsureIsdnUtilsBaseNotInstalled'',
      rule_of ''Ensure the kdump service is disabled and the kdump-tools package is not installed'' ''290d7102-c4e3-4e88-863d-6ddc7e952a5a'' ''EnsureIsdnUtilsKdumpToolsNotInstalled'',
      rule_of ''Ensure zeroconf networking is disabled'' ''083550af-f4fe-4e1a-a304-dac894d58908'' ''EnsureZeroconfNetworkingIsDisabled'',
      rule_of ''Ensure the cron service is enabled (CIS: L1 - Server - 5.1.1)'' ''80302f61-d760-4165-a92b-a789e579380f'' ''EnsureCronServiceIsEnabled'',
      rule_of ''Ensure File permissions on /etc/anacrontab are configured'' ''8199ae98-8d9c-4a26-88ca-e6d9b87d3644'' ''EnsurePermissionsOnEtcAnacronTab'',
      rule_of ''Ensure permissions on /etc/cron.d are configured (CIS: L1 - Server - 5.1.7)'' ''efa30987-4c67-73f5-979f-cb50f79466de'' ''EnsurePermissionsOnEtcCronD'',
      rule_of ''Ensure permissions on /etc/cron.daily are configured (CIS: L1 - Server - 5.1.4)'' ''0cc35843-7687-60cf-5280-bb98cf9a87c2'' ''EnsurePermissionsOnEtcCronDaily'',
      rule_of ''Ensure permissions on /etc/cron.hourly are configured (CIS: L1 - Server - 5.1.3)'' ''ecdce8a2-9986-5833-8211-baf1938c1940'' ''EnsurePermissionsOnEtcCronHourly'',
      rule_of ''Ensure permissions on /etc/cron.monthly are configured (CIS: L1 - Server - 5.1.6)'' ''b5e94c1f-4d12-8bde-4c5e-98c651bd4430'' ''EnsurePermissionsOnEtcCronMonthly'',
      rule_of ''Ensure permissions on /etc/cron.weekly are configured (CIS: L1 - Server - 5.1.5)'' ''61417e01-8cc4-86ab-0e3b-867d42dea66d'' ''EnsurePermissionsOnEtcCronWeekly'',
      rule_of ''Ensure at/cron is restricted to authorized users (CIS: L1 - Server - 5.1.8)'' ''7ac5f3c8-917b-548e-3138-c6e326a362fc'' ''EnsureAtCronIsRestrictedToAuthorizedUsers'',
      rule_of ''Ensure the remote login warning banner is properly configured (CIS: L1 - Server - 1.7.1.3)'' ''d8bba1aa-69e9-2caf-1632-72938ff6759a'' ''EnsureRemoteLoginWarningBannerIsConfigured'',
      rule_of ''Ensure the local login warning banner is properly configured (CIS: L1 - Server - 1.7.1.2)'' ''14c168de-4508-a69d-0feb-2f1efe245a71'' ''EnsureLocalLoginWarningBannerIsConfigured'',
      rule_of ''Ensure the avahi-daemon service is disabled (CIS: L1 - Server - 2.2.3)'' ''c3bf78d8-43a0-4768-b790-c940621057b6'' ''EnsureAvahiDaemonServiceIsDisabled'',
      rule_of ''Ensure the cups service is disabled (CIS: L1 - Server - 2.2.4)'' ''4854666c-061b-4945-8a25-19133b8d5c7d'' ''EnsureCupsServiceisDisabled'',
      rule_of ''Ensure the isc-dhcp-server package is not installed (CIS: L1 - Server - 2.2.5)'' ''660fa012-ca99-4314-a2a8-11728020bac7'' ''EnsureIscDhcpdServerNotInstalled'',
      rule_of ''Ensure the sendmail package is not installed'' ''43356a32-24bb-401c-9746-a27b2be668fa'' ''EnsureSendmailNotInstalled'',
      rule_of ''Ensure the postfix package is not installed'' ''f56bf32f-528f-48b3-9f82-62f5ff4e9787'' ''EnsurePostfixPackageIsUninstalled'',
      rule_of ''Ensure that postfix network listening is disabled'' ''d0cc4e35-70a1-4ee5-b572-3b969201562e'' ''EnsurePostfixNetworkListeningIsDisabled'',
      rule_of ''Ensure the ldap service is disabled and the sldapd package is not installed (CIS: L1 - Server - 2.2.6)'' ''b577b358-6ec9-4ed7-b0df-259e44713b16'' ''EnsureSldapdNotInstalled'',
      rule_of ''Ensure the rpcgssd service is disabled'' ''9c11dc9f-ab7e-4c3f-923f-5a8fc4e97cb9'' ''EnsureRpcgssdServiceIsDisabled'',
      rule_of ''Ensure the rpcidmapd service is disabled'' ''b600d670-5b01-4458-9143-8aa7cd25dadc'' ''EnsureRpcidmapdServiceIsDisabled'',
      rule_of ''Ensure the portmap service is disabled'' ''f4a80328-1d67-45ed-b915-274d2e6c699e'' ''EnsurePortmapServiceIsDisabled'',
      rule_of ''Ensure the Network File System (NFS) service is disabled (CIS: L1 - Server - 2.2.7 - partial)'' ''ee372ff3-9221-498b-b467-7406bf421168'' ''EnsureNetworkFileSystemServiceIsDisabled'',
      rule_of ''Ensure the rpcsvcgssd service is disabled'' ''78963287-11b9-471b-9122-e6829e105989'' ''EnsureRpcsvcgssdServiceIsDisabled'',
      rule_of ''Ensure the named service is disabled and the bind9 package is not installed (CIS: L1 - Server - 2.2.8)'' ''361a6cb4-f761-426f-a9d0-9e82ec0b3285'' ''EnsureBind9NotInstalled'',
      rule_of ''Ensure the dovecot service is disabled and the dovecot-core package is not installed'' ''b0b6cf96-bd8a-40c5-b051-4615078a0bf0'' ''EnsureDovecotCoreNotInstalled'',
      rule_of ''Ensure no legacy + entries exist in /etc/passwd (CIS: L1 - Server - 6.2.2)'' ''cc627f0c-3b72-6cc9-36b0-d2a3957431f4'' ''EnsureNoLegacyPlusEntriesInEtcPasswd'',
      rule_of ''Ensure no legacy + entries exist in /etc/shadow (CIS: L1 - Server - 6.2.3)'' ''1a102d2e-76db-5ccf-3580-ccda064e8df3'' ''EnsureNoLegacyPlusEntriesInEtcShadow'',
      rule_of ''Ensure no legacy + entries exist in /etc/group (CIS: L1 - Server - 6.2.4)'' ''b487e075-15b4-0df1-550f-d8d5edd78eb4'' ''EnsureNoLegacyPlusEntriesInEtcGroup'',
      rule_of ''Ensure password expiration is configured (CIS: L1 - Server - 5.4.1.1)'' ''6ee7250d-142f-57db-25d0-c58207135059'' ''EnsurePasswordExpiration'',
      rule_of ''Ensure password expiration warning days is configured (CIS: L1 - Server - 5.4.1.3)'' ''b7ac978f-0963-a61f-58ae-5cf84ab76b5d'' ''EnsurePasswordExpirationWarning'',
      rule_of ''Ensure password reuse is limited (CIS: L1 - Server - 5.3.3)'' ''57bdeae2-863e-14fb-a463-d6ee64816b33'' ''EnsurePasswordReuseIsLimited'',
      rule_of ''Ensure the password hashing algorithm is SHA-512 (CIS: L1 - Server - 5.3.4)'' ''01ec5346-882b-485d-8960-01dedd608792'' ''EnsurePasswordHashingAlgorithm'',
      rule_of ''Ensure the minimum days between password changes is configured (CIS: L1 - Server - 5.4.1.2)'' ''50272a84-672d-4c11-a67e-9d058adaf67a'' ''EnsureMinDaysBetweenPasswordChanges'',
      rule_of ''Ensure the maximum days between password changes is configured'' ''7f84f3a4-360d-494c-aa1e-1e15ae9fc9ac'' ''EnsureMaxDaysBetweenPasswordChanges'',
      rule_of ''Ensure the inactive password lock period is configured (CIS: L1 - Server - 5.4.1.4)'' ''91fbaeac-f5d0-4ac9-aa1b-52215aef1ed8'' ''EnsureInactivePasswordLockPeriod'',
      rule_of ''Ensure all system accounts are non-login (CIS: L1 - Server - 5.4.2)'' ''448b668a-738c-420b-b332-51ea49922933'' ''EnsureSystemAccountsAreNonLogin'',
      rule_of ''Ensure default group for the root account is GID 0 (CIS: L1 - Server - 5.4.3)'' ''732fa92f-647e-47b8-b5a4-fdf00b02d9e2'' ''EnsureDefaultRootAccountGroupIsGidZero'',
      rule_of ''Ensure root is the only UID 0 account (CIS: L1 - Server - 6.2.5)'' ''b5845ff3-42f4-4112-b2a2-5b827232a053'' ''EnsureRootIsOnlyUidZeroAccount'',
      rule_of ''Ensure unnecessary accounts are removed'' ''627b7494-0e62-4093-9f77-db8d526d036b'' ''EnsureUnnecessaryAccountsAreRemoved'',
      rule_of ''Ensure the auditd package is installed'' ''f9fd03d2-75e4-4564-84a9-4e955f1e7c30'' ''EnsureAuditdInstalled'',
      rule_of ''Ensure the auditd service is running'' ''c146c4a4-5eb6-4205-88da-5a71a82f2d45'' ''EnsureAuditdServiceIsRunning'',
      rule_of ''Ensure the SNMP Server is not enabled (CIS: L1 - Server - 2.2.14)'' ''ca1aea32-3969-49ab-abfc-2c5796a9a8bb'' ''EnsureSnmpServerIsDisabled'',
      rule_of ''Ensure the rsync service is not enabled (CIS: L1 - Server - 2.2.16)'' ''63aba603-b1f8-40df-82c5-38915452ce23'' ''EnsureRsynServiceIsDisabled'',
      rule_of ''Ensure the NIS server is not enabled (CIS: L1 - Server - 2.2.17)'' ''b4ad3fdd-7b68-4b11-a3ed-84b37a68b995'' ''EnsureNisServerIsDisabled'',
      rule_of ''Ensure the rsh client is not installed (CIS: L1 - Server - 2.3.2)'' ''6d441f31-f888-4f4f-b1da-7cfc26263e3f'' ''EnsureRshClientNotInstalled'',
      rule_of ''Ensure SMB V1 with Samba is disabled (CIS: L1 - Server - 2.2.12)'' ''7624efb0-3026-4c72-8920-48d5be78a50e'' ''EnsureSmbWithSambaIsDisabled'']"

definition g_rules :: "BaselineRule list" where
  "g_rules = g_rules_1 @ g_rules_2"

text \<open>\<open>strncmp\<close> and \<open>strncasecmp\<close> with the length of the rule's text.\<close>

definition AsbIsValidResourceIdRuleId :: "cstr \<Rightarrow> cstr \<Rightarrow> cstr \<Rightarrow> int" where
  "AsbIsValidResourceIdRuleId resource rule key =
     (if key = None \<or> (resource = None \<and> rule = None) then EINVAL
      else (case find (\<lambda>r. payloadKey r = the key) g_rules of
         None \<Rightarrow> 0
       | Some r \<Rightarrow>
           if resource \<noteq> None \<and> \<not> prefix (resourceId r) (the resource) then ENOENT
           else if rule \<noteq> None \<and> \<not> prefix (map to_lower (ruleId r)) (map to_lower (the rule)) then ENOENT
           else 0))"

subsection \<open>The session\<close>

definition IsLoggingLevelSupported :: "int \<Rightarrow> bool" where
  "IsLoggingLevelSupported level \<longleftrightarrow> 0 \<le> level \<and> level \<le> 7"

text \<open>The configuration file, when there is one, sets the level and the sizes of the log.\<close>

definition load_log_settings :: "'a asb_scheme \<Rightarrow> 'a asb_scheme" where
  "load_log_settings s =
     (if FileExists (Some config_file) (fs_of s)
      then let json = LoadStringFromFile (now s) (Some config_file) False (fs_of s);
               s1 = (if json = None then s
                     else s\<lparr>process_level := (let level = GetLoggingLevelFromJsonConfig json in if IsLoggingLevelSupported level then level else 6),
                            process_log_size := GetMaxLogSizeFromJsonConfig json,
                            process_log_multiplier := GetMaxLogSizeDebugMultiplierFromJsonConfig json\<rparr>)
           in tick (put_fs (RestrictFileAccessToCurrentAccountOnly (now s) config_file (fs_of s)) s1)
      else s)"

text \<open>A total memory of zero is divided by.\<close>

definition measure_memory :: "('a runtime_scheme, unit) act" where
  "measure_memory =
     seq (call GetCpuModel) (seq (call GetNumberOfCpuCores)
       (andThen (call GetTotalMemory) (\<lambda>totalMemory.
          andThen (call GetFreeMemory) (\<lambda>freeMemory. if totalMemory = 0 then (\<lambda>_. None) else ret ()))))"

definition backup_fstab :: "'a runtime_scheme \<Rightarrow> 'a runtime_scheme" where
  "backup_fstab s =
     (if FileExists (Some ''/etc/fstab.copy'') (fs_of s) then s
      else snd (edit_fs (\<lambda>m rnd. MakeFileBackupCopy m rnd (Some ''/etc/fstab'') (Some ''/etc/fstab.copy'') False) s))"

definition AsbInitialize :: "('a asb_scheme, unit) act" where
  "AsbInitialize s0 =
     (case measure_memory (load_log_settings s0) of
        None \<Rightarrow> None
      | Some (_, s1) \<Rightarrow>
          (let s2 = backup_fstab (snd (copy_defaults asb_defaults (snd (InitializeSshAudit s1))));
               (_, s3) = GetOsKernelVersion s2;
               (prettyName, s4) = GetOsPrettyName s3;
               (_, s5) = IsCommodore (s4\<lparr>g_prettyName := prettyName\<rparr>);
               (selinux, s6) = DetectSelinux s5
           in Some ((), s6\<lparr>g_selinuxPresent := selinux\<rparr>)))"

definition AsbShutdown :: "'a asb_scheme \<Rightarrow> 'a asb_scheme" where
  "AsbShutdown s =
     (let s1 = PackageUtilsCleanup (SshAuditCleanup (free_desired (map fst asb_defaults) s));
          s2 = snd (SetFileAccess (Some ''/var/log/osconfig_asb_perf.log'') 0 0 (octal_value ''0644'') (s1\<lparr>g_prettyName := None\<rparr>))
      in snd (SetFileAccess (Some ''/var/log/osconfig_asb_perf.bak'') 0 0 (octal_value ''0644'') s2))"

subsection \<open>The objects\<close>

definition audit_objects_1 :: "(string \<times> ('a asb_scheme, cstr) act) list" where [tables]:
  "audit_objects_1 =
     [(''auditEnsureLoggingLevel'', AuditEnsureLoggingLevel),
      (''auditEnsurePermissionsOnEtcIssue'', AuditEnsurePermissionsOnEtcIssue),
      (''auditEnsurePermissionsOnEtcIssueNet'', AuditEnsurePermissionsOnEtcIssueNet),
      (''auditEnsurePermissionsOnEtcHostsAllow'', AuditEnsurePermissionsOnEtcHostsAllow),
      (''auditEnsurePermissionsOnEtcHostsDeny'', AuditEnsurePermissionsOnEtcHostsDeny),
      (''auditEnsurePermissionsOnEtcSshSshdConfig'', AuditEnsurePermissionsOnEtcSshSshdConfig),
      (''auditEnsurePermissionsOnEtcShadow'', AuditEnsurePermissionsOnEtcShadow),
      (''auditEnsurePermissionsOnEtcShadowDash'', AuditEnsurePermissionsOnEtcShadowDash),
      (''auditEnsurePermissionsOnEtcGShadow'', AuditEnsurePermissionsOnEtcGShadow),
      (''auditEnsurePermissionsOnEtcGShadowDash'', AuditEnsurePermissionsOnEtcGShadowDash),
      (''auditEnsurePermissionsOnEtcPasswd'', AuditEnsurePermissionsOnEtcPasswd),
      (''auditEnsurePermissionsOnEtcPasswdDash'', AuditEnsurePermissionsOnEtcPasswdDash),
      (''auditEnsurePermissionsOnEtcGroup'', AuditEnsurePermissionsOnEtcGroup),
      (''auditEnsurePermissionsOnEtcGroupDash'', AuditEnsurePermissionsOnEtcGroupDash),
      (''auditEnsurePermissionsOnEtcAnacronTab'', AuditEnsurePermissionsOnEtcAnacronTab),
      (''auditEnsurePermissionsOnEtcCronD'', AuditEnsurePermissionsOnEtcCronD),
      (''auditEnsurePermissionsOnEtcCronDaily'', AuditEnsurePermissionsOnEtcCronDaily),
      (''auditEnsurePermissionsOnEtcCronHourly'', AuditEnsurePermissionsOnEtcCronHourly),
      (''auditEnsurePermissionsOnEtcCronMonthly'', AuditEnsurePermissionsOnEtcCronMonthly),
      (''auditEnsurePermissionsOnEtcCronWeekly'', AuditEnsurePermissionsOnEtcCronWeekly),
      (''auditEnsurePermissionsOnEtcMotd'', AuditEnsurePermissionsOnEtcMotd),
      (''auditEnsureKernelSupportForCpuNx'', AuditEnsureKernelSupportForCpuNx),
      (''auditEnsureNodevOptionOnHomePartition'', AuditEnsureNodevOptionOnHomePartition),
      (''auditEnsureNodevOptionOnTmpPartition'', AuditEnsureNodevOptionOnTmpPartition),
      (''auditEnsureNodevOptionOnVarTmpPartition'', AuditEnsureNodevOptionOnVarTmpPartition),
      (''auditEnsureNosuidOptionOnTmpPartition'', AuditEnsureNosuidOptionOnTmpPartition),
      (''auditEnsureNosuidOptionOnVarTmpPartition'', AuditEnsureNosuidOptionOnVarTmpPartition),
      (''auditEnsureNoexecOptionOnVarTmpPartition'', AuditEnsureNoexecOptionOnVarTmpPartition),
      (''auditEnsureNoexecOptionOnDevShmPartition'', AuditEnsureNoexecOptionOnDevShmPartition),
      (''auditEnsureNodevOptionEnabledForAllRemovableMedia'', AuditEnsureNodevOptionEnabledForAllRemovableMedia),
      (''auditEnsureNoexecOptionEnabledForAllRemovableMedia'', AuditEnsureNoexecOptionEnabledForAllRemovableMedia),
      (''auditEnsureNosuidOptionEnabledForAllRemovableMedia'', AuditEnsureNosuidOptionEnabledForAllRemovableMedia),
      (''auditEnsureNoexecNosuidOptionsEnabledForAllNfsMounts'', AuditEnsureNoexecNosuidOptionsEnabledForAllNfsMounts),
      (''auditEnsureInetdNotInstalled'', AuditEnsureInetdNotInstalled),
      (''auditEnsureXinetdNotInstalled'', AuditEnsureXinetdNotInstalled),
      (''auditEnsureAllTelnetdPackagesUninstalled'', AuditEnsureAllTelnetdPackagesUninstalled),
      (''auditEnsureRshServerNotInstalled'', AuditEnsureRshServerNotInstalled)]"

definition audit_objects_2 :: "(string \<times> ('a asb_scheme, cstr) act) list" where [tables]:
  "audit_objects_2 =
     [(''auditEnsureNisNotInstalled'', AuditEnsureNisNotInstalled),
      (''auditEnsureTftpdNotInstalled'', AuditEnsureTftpdNotInstalled),
      (''auditEnsureReadaheadFedoraNotInstalled'', AuditEnsureReadaheadFedoraNotInstalled),
      (''auditEnsureBluetoothHiddNotInstalled'', AuditEnsureBluetoothHiddNotInstalled),
      (''auditEnsureIsdnUtilsBaseNotInstalled'', AuditEnsureIsdnUtilsBaseNotInstalled),
      (''auditEnsureIsdnUtilsKdumpToolsNotInstalled'', AuditEnsureIsdnUtilsKdumpToolsNotInstalled),
      (''auditEnsureIscDhcpdServerNotInstalled'', AuditEnsureIscDhcpdServerNotInstalled),
      (''auditEnsureSendmailNotInstalled'', AuditEnsureSendmailNotInstalled),
      (''auditEnsureSldapdNotInstalled'', AuditEnsureSldapdNotInstalled),
      (''auditEnsureBind9NotInstalled'', AuditEnsureBind9NotInstalled),
      (''auditEnsureDovecotCoreNotInstalled'', AuditEnsureDovecotCoreNotInstalled),
      (''auditEnsureAuditdInstalled'', AuditEnsureAuditdInstalled),
      (''auditEnsureAllEtcPasswdGroupsExistInEtcGroup'', AuditEnsureAllEtcPasswdGroupsExistInEtcGroup),
      (''auditEnsureNoDuplicateUidsExist'', AuditEnsureNoDuplicateUidsExist),
      (''auditEnsureNoDuplicateGidsExist'', AuditEnsureNoDuplicateGidsExist),
      (''auditEnsureNoDuplicateUserNamesExist'', AuditEnsureNoDuplicateUserNamesExist),
      (''auditEnsureNoDuplicateGroupsExist'', AuditEnsureNoDuplicateGroupsExist),
      (''auditEnsureShadowGroupIsEmpty'', AuditEnsureShadowGroupIsEmpty),
      (''auditEnsureRootGroupExists'', AuditEnsureRootGroupExists),
      (''auditEnsureAllAccountsHavePasswords'', AuditEnsureAllAccountsHavePasswords),
      (''auditEnsureNonRootAccountsHaveUniqueUidsGreaterThanZero'', AuditEnsureNonRootAccountsHaveUniqueUidsGreaterThanZero),
      (''auditEnsureNoLegacyPlusEntriesInEtcPasswd'', AuditEnsureNoLegacyPlusEntriesInEtcPasswd),
      (''auditEnsureNoLegacyPlusEntriesInEtcShadow'', AuditEnsureNoLegacyPlusEntriesInEtcShadow),
      (''auditEnsureNoLegacyPlusEntriesInEtcGroup'', AuditEnsureNoLegacyPlusEntriesInEtcGroup),
      (''auditEnsureDefaultRootAccountGroupIsGidZero'', AuditEnsureDefaultRootAccountGroupIsGidZero),
      (''auditEnsureRootIsOnlyUidZeroAccount'', AuditEnsureRootIsOnlyUidZeroAccount),
      (''auditEnsureAllUsersHomeDirectoriesExist'', AuditEnsureAllUsersHomeDirectoriesExist),
      (''auditEnsureUsersOwnTheirHomeDirectories'', AuditEnsureUsersOwnTheirHomeDirectories),
      (''auditEnsureRestrictedUserHomeDirectories'', AuditEnsureRestrictedUserHomeDirectories),
      (''auditEnsurePasswordHashingAlgorithm'', AuditEnsurePasswordHashingAlgorithm),
      (''auditEnsureMinDaysBetweenPasswordChanges'', AuditEnsureMinDaysBetweenPasswordChanges),
      (''auditEnsureInactivePasswordLockPeriod'', AuditEnsureInactivePasswordLockPeriod),
      (''auditEnsureMaxDaysBetweenPasswordChanges'', AuditEnsureMaxDaysBetweenPasswordChanges),
      (''auditEnsurePasswordExpiration'', AuditEnsurePasswordExpiration),
      (''auditEnsurePasswordExpirationWarning'', AuditEnsurePasswordExpirationWarning),
      (''auditEnsureSystemAccountsAreNonLogin'', AuditEnsureSystemAccountsAreNonLogin),
      (''auditEnsureAuthenticationRequiredForSingleUserMode'', AuditEnsureAuthenticationRequiredForSingleUserMode)]"

definition audit_objects_3 :: "(string \<times> ('a asb_scheme, cstr) act) list" where [tables]:
  "audit_objects_3 =
     [(''auditEnsurePrelinkIsDisabled'', AuditEnsurePrelinkIsDisabled),
      (''auditEnsureTalkClientIsNotInstalled'', AuditEnsureTalkClientIsNotInstalled),
      (''auditEnsureDotDoesNotAppearInRootsPath'', AuditEnsureDotDoesNotAppearInRootsPath),
      (''auditEnsureCronServiceIsEnabled'', AuditEnsureCronServiceIsEnabled),
      (''auditEnsureRemoteLoginWarningBannerIsConfigured'', AuditEnsureRemoteLoginWarningBannerIsConfigured),
      (''auditEnsureLocalLoginWarningBannerIsConfigured'', AuditEnsureLocalLoginWarningBannerIsConfigured),
      (''auditEnsureAuditdServiceIsRunning'', AuditEnsureAuditdServiceIsRunning),
      (''auditEnsureSuRestrictedToRootGroup'', AuditEnsureSuRestrictedToRootGroup),
      (''auditEnsureDefaultUmaskForAllUsers'', AuditEnsureDefaultUmaskForAllUsers),
      (''auditEnsureAutomountingDisabled'', AuditEnsureAutomountingDisabled),
      (''auditEnsureKernelCompiledFromApprovedSources'', AuditEnsureKernelCompiledFromApprovedSources),
      (''auditEnsureDefaultDenyFirewallPolicyIsSet'', AuditEnsureDefaultDenyFirewallPolicyIsSet),
      (''auditEnsurePacketRedirectSendingIsDisabled'', AuditEnsurePacketRedirectSendingIsDisabled),
      (''auditEnsureIcmpRedirectsIsDisabled'', AuditEnsureIcmpRedirectsIsDisabled),
      (''auditEnsureSourceRoutedPacketsIsDisabled'', AuditEnsureSourceRoutedPacketsIsDisabled),
      (''auditEnsureAcceptingSourceRoutedPacketsIsDisabled'', AuditEnsureAcceptingSourceRoutedPacketsIsDisabled),
      (''auditEnsureIgnoringBogusIcmpBroadcastResponses'', AuditEnsureIgnoringBogusIcmpBroadcastResponses),
      (''auditEnsureIgnoringIcmpEchoPingsToMulticast'', AuditEnsureIgnoringIcmpEchoPingsToMulticast),
      (''auditEnsureMartianPacketLoggingIsEnabled'', AuditEnsureMartianPacketLoggingIsEnabled),
      (''auditEnsureReversePathSourceValidationIsEnabled'', AuditEnsureReversePathSourceValidationIsEnabled),
      (''auditEnsureTcpSynCookiesAreEnabled'', AuditEnsureTcpSynCookiesAreEnabled),
      (''auditEnsureSystemNotActingAsNetworkSniffer'', AuditEnsureSystemNotActingAsNetworkSniffer),
      (''auditEnsureAllWirelessInterfacesAreDisabled'', AuditEnsureAllWirelessInterfacesAreDisabled),
      (''auditEnsureIpv6ProtocolIsEnabled'', AuditEnsureIpv6ProtocolIsEnabled),
      (''auditEnsureDccpIsDisabled'', AuditEnsureDccpIsDisabled),
      (''auditEnsureSctpIsDisabled'', AuditEnsureSctpIsDisabled),
      (''auditEnsureDisabledSupportForRds'', AuditEnsureDisabledSupportForRds),
      (''auditEnsureTipcIsDisabled'', AuditEnsureTipcIsDisabled),
      (''auditEnsureZeroconfNetworkingIsDisabled'', AuditEnsureZeroconfNetworkingIsDisabled),
      (''auditEnsurePermissionsOnBootloaderConfig'', AuditEnsurePermissionsOnBootloaderConfig),
      (''auditEnsurePasswordReuseIsLimited'', AuditEnsurePasswordReuseIsLimited),
      (''auditEnsureMountingOfUsbStorageDevicesIsDisabled'', AuditEnsureMountingOfUsbStorageDevicesIsDisabled),
      (''auditEnsureCoreDumpsAreRestricted'', AuditEnsureCoreDumpsAreRestricted),
      (''auditEnsurePasswordCreationRequirements'', AuditEnsurePasswordCreationRequirements),
      (''auditEnsureLockoutForFailedPasswordAttempts'', AuditEnsureLockoutForFailedPasswordAttempts),
      (''auditEnsureDisabledInstallationOfCramfsFileSystem'', AuditEnsureDisabledInstallationOfCramfsFileSystem),
      (''auditEnsureDisabledInstallationOfFreevxfsFileSystem'', AuditEnsureDisabledInstallationOfFreevxfsFileSystem)]"

definition audit_objects_4 :: "(string \<times> ('a asb_scheme, cstr) act) list" where [tables]:
  "audit_objects_4 =
     [(''auditEnsureDisabledInstallationOfHfsFileSystem'', AuditEnsureDisabledInstallationOfHfsFileSystem),
      (''auditEnsureDisabledInstallationOfHfsplusFileSystem'', AuditEnsureDisabledInstallationOfHfsplusFileSystem),
      (''auditEnsureDisabledInstallationOfJffs2FileSystem'', AuditEnsureDisabledInstallationOfJffs2FileSystem),
      (''auditEnsureVirtualMemoryRandomizationIsEnabled'', AuditEnsureVirtualMemoryRandomizationIsEnabled),
      (''auditEnsureAllBootloadersHavePasswordProtectionEnabled'', AuditEnsureAllBootloadersHavePasswordProtectionEnabled),
      (''auditEnsureLoggingIsConfigured'', AuditEnsureLoggingIsConfigured),
      (''auditEnsureSyslogPackageIsInstalled'', AuditEnsureSyslogPackageIsInstalled),
      (''auditEnsureSystemdJournaldServicePersistsLogMessages'', AuditEnsureSystemdJournaldServicePersistsLogMessages),
      (''auditEnsureALoggingServiceIsEnabled'', AuditEnsureALoggingServiceIsEnabled),
      (''auditEnsureFilePermissionsForAllRsyslogLogFiles'', AuditEnsureFilePermissionsForAllRsyslogLogFiles),
      (''auditEnsureLoggerConfigurationFilesAreRestricted'', AuditEnsureLoggerConfigurationFilesAreRestricted),
      (''auditEnsureAllRsyslogLogFilesAreOwnedByAdmGroup'', AuditEnsureAllRsyslogLogFilesAreOwnedByAdmGroup),
      (''auditEnsureAllRsyslogLogFilesAreOwnedBySyslogUser'', AuditEnsureAllRsyslogLogFilesAreOwnedBySyslogUser),
      (''auditEnsureRsyslogNotAcceptingRemoteMessages'', AuditEnsureRsyslogNotAcceptingRemoteMessages),
      (''auditEnsureSyslogRotaterServiceIsEnabled'', AuditEnsureSyslogRotaterServiceIsEnabled),
      (''auditEnsureTelnetServiceIsDisabled'', AuditEnsureTelnetServiceIsDisabled),
      (''auditEnsureRcprshServiceIsDisabled'', AuditEnsureRcprshServiceIsDisabled),
      (''auditEnsureTftpServiceisDisabled'', AuditEnsureTftpServiceisDisabled),
      (''auditEnsureAtCronIsRestrictedToAuthorizedUsers'', AuditEnsureAtCronIsRestrictedToAuthorizedUsers),
      (''auditEnsureSshPortIsConfigured'', AuditEnsureSshPortIsConfigured),
      (''auditEnsureSshBestPracticeProtocol'', AuditEnsureSshBestPracticeProtocol),
      (''auditEnsureSshBestPracticeIgnoreRhosts'', AuditEnsureSshBestPracticeIgnoreRhosts),
      (''auditEnsureSshLogLevelIsSet'', AuditEnsureSshLogLevelIsSet),
      (''auditEnsureSshMaxAuthTriesIsSet'', AuditEnsureSshMaxAuthTriesIsSet),
      (''auditEnsureAllowUsersIsConfigured'', AuditEnsureAllowUsersIsConfigured),
      (''auditEnsureDenyUsersIsConfigured'', AuditEnsureDenyUsersIsConfigured),
      (''auditEnsureAllowGroupsIsConfigured'', AuditEnsureAllowGroupsIsConfigured),
      (''auditEnsureDenyGroupsConfigured'', AuditEnsureDenyGroupsConfigured),
      (''auditEnsureSshHostbasedAuthenticationIsDisabled'', AuditEnsureSshHostbasedAuthenticationIsDisabled),
      (''auditEnsureSshPermitRootLoginIsDisabled'', AuditEnsureSshPermitRootLoginIsDisabled),
      (''auditEnsureSshPermitEmptyPasswordsIsDisabled'', AuditEnsureSshPermitEmptyPasswordsIsDisabled),
      (''auditEnsureSshClientIntervalCountMaxIsConfigured'', AuditEnsureSshClientIntervalCountMaxIsConfigured),
      (''auditEnsureSshClientAliveIntervalIsConfigured'', AuditEnsureSshClientAliveIntervalIsConfigured),
      (''auditEnsureSshLoginGraceTimeIsSet'', AuditEnsureSshLoginGraceTimeIsSet),
      (''auditEnsureOnlyApprovedMacAlgorithmsAreUsed'', AuditEnsureOnlyApprovedMacAlgorithmsAreUsed),
      (''auditEnsureSshWarningBannerIsEnabled'', AuditEnsureSshWarningBannerIsEnabled),
      (''auditEnsureUsersCannotSetSshEnvironmentOptions'', AuditEnsureUsersCannotSetSshEnvironmentOptions)]"

definition audit_objects_5 :: "(string \<times> ('a asb_scheme, cstr) act) list" where [tables]:
  "audit_objects_5 =
     [(''auditEnsureAppropriateCiphersForSsh'', AuditEnsureAppropriateCiphersForSsh),
      (''auditEnsureAvahiDaemonServiceIsDisabled'', AuditEnsureAvahiDaemonServiceIsDisabled),
      (''auditEnsureCupsServiceisDisabled'', AuditEnsureCupsServiceisDisabled),
      (''auditEnsurePostfixPackageIsUninstalled'', AuditEnsurePostfixPackageIsUninstalled),
      (''auditEnsurePostfixNetworkListeningIsDisabled'', AuditEnsurePostfixNetworkListeningIsDisabled),
      (''auditEnsureRpcgssdServiceIsDisabled'', AuditEnsureRpcgssdServiceIsDisabled),
      (''auditEnsureRpcidmapdServiceIsDisabled'', AuditEnsureRpcidmapdServiceIsDisabled),
      (''auditEnsurePortmapServiceIsDisabled'', AuditEnsurePortmapServiceIsDisabled),
      (''auditEnsureNetworkFileSystemServiceIsDisabled'', AuditEnsureNetworkFileSystemServiceIsDisabled),
      (''auditEnsureRpcsvcgssdServiceIsDisabled'', AuditEnsureRpcsvcgssdServiceIsDisabled),
      (''auditEnsureSnmpServerIsDisabled'', AuditEnsureSnmpServerIsDisabled),
      (''auditEnsureRsynServiceIsDisabled'', AuditEnsureRsynServiceIsDisabled),
      (''auditEnsureNisServerIsDisabled'', AuditEnsureNisServerIsDisabled),
      (''auditEnsureRshClientNotInstalled'', AuditEnsureRshClientNotInstalled),
      (''auditEnsureSmbWithSambaIsDisabled'', AuditEnsureSmbWithSambaIsDisabled),
      (''auditEnsureUsersDotFilesArentGroupOrWorldWritable'', AuditEnsureUsersDotFilesArentGroupOrWorldWritable),
      (''auditEnsureNoUsersHaveDotForwardFiles'', AuditEnsureNoUsersHaveDotForwardFiles),
      (''auditEnsureNoUsersHaveDotNetrcFiles'', AuditEnsureNoUsersHaveDotNetrcFiles),
      (''auditEnsureNoUsersHaveDotRhostsFiles'', AuditEnsureNoUsersHaveDotRhostsFiles),
      (''auditEnsureRloginServiceIsDisabled'', AuditEnsureRloginServiceIsDisabled),
      (''auditEnsureUnnecessaryAccountsAreRemoved'', AuditEnsureUnnecessaryAccountsAreRemoved)]"

definition audit_objects :: "(string \<times> ('a asb_scheme, cstr) act) list" where
  "audit_objects = audit_objects_1 @ audit_objects_2 @ audit_objects_3 @ audit_objects_4 @ audit_objects_5"

definition remediate_objects_1 :: "(string \<times> (cstr \<Rightarrow> ('a asb_scheme, int) act)) list" where [tables]:
  "remediate_objects_1 =
     [(''remediateEnsureLoggingLevel'', RemediateEnsureLoggingLevel),
      (''remediateEnsurePermissionsOnEtcIssue'', RemediateEnsurePermissionsOnEtcIssue),
      (''remediateEnsurePermissionsOnEtcIssueNet'', RemediateEnsurePermissionsOnEtcIssueNet),
      (''remediateEnsurePermissionsOnEtcHostsAllow'', RemediateEnsurePermissionsOnEtcHostsAllow),
      (''remediateEnsurePermissionsOnEtcHostsDeny'', RemediateEnsurePermissionsOnEtcHostsDeny),
      (''remediateEnsurePermissionsOnEtcSshSshdConfig'', RemediateEnsurePermissionsOnEtcSshSshdConfig),
      (''remediateEnsurePermissionsOnEtcShadow'', RemediateEnsurePermissionsOnEtcShadow),
      (''remediateEnsurePermissionsOnEtcShadowDash'', RemediateEnsurePermissionsOnEtcShadowDash),
      (''remediateEnsurePermissionsOnEtcGShadow'', RemediateEnsurePermissionsOnEtcGShadow),
      (''remediateEnsurePermissionsOnEtcGShadowDash'', RemediateEnsurePermissionsOnEtcGShadowDash),
      (''remediateEnsurePermissionsOnEtcPasswd'', RemediateEnsurePermissionsOnEtcPasswd),
      (''remediateEnsurePermissionsOnEtcPasswdDash'', RemediateEnsurePermissionsOnEtcPasswdDash),
      (''remediateEnsurePermissionsOnEtcGroup'', RemediateEnsurePermissionsOnEtcGroup),
      (''remediateEnsurePermissionsOnEtcGroupDash'', RemediateEnsurePermissionsOnEtcGroupDash),
      (''remediateEnsurePermissionsOnEtcAnacronTab'', RemediateEnsurePermissionsOnEtcAnacronTab),
      (''remediateEnsurePermissionsOnEtcCronD'', RemediateEnsurePermissionsOnEtcCronD),
      (''remediateEnsurePermissionsOnEtcCronDaily'', RemediateEnsurePermissionsOnEtcCronDaily),
      (''remediateEnsurePermissionsOnEtcCronHourly'', RemediateEnsurePermissionsOnEtcCronHourly),
      (''remediateEnsurePermissionsOnEtcCronMonthly'', RemediateEnsurePermissionsOnEtcCronMonthly),
      (''remediateEnsurePermissionsOnEtcCronWeekly'', RemediateEnsurePermissionsOnEtcCronWeekly),
      (''remediateEnsurePermissionsOnEtcMotd'', RemediateEnsurePermissionsOnEtcMotd),
      (''remediateEnsureInetdNotInstalled'', RemediateEnsureInetdNotInstalled),
      (''remediateEnsureXinetdNotInstalled'', RemediateEnsureXinetdNotInstalled),
      (''remediateEnsureRshServerNotInstalled'', RemediateEnsureRshServerNotInstalled),
      (''remediateEnsureNisNotInstalled'', RemediateEnsureNisNotInstalled),
      (''remediateEnsureTftpdNotInstalled'', RemediateEnsureTftpdNotInstalled),
      (''remediateEnsureReadaheadFedoraNotInstalled'', RemediateEnsureReadaheadFedoraNotInstalled),
      (''remediateEnsureBluetoothHiddNotInstalled'', RemediateEnsureBluetoothHiddNotInstalled),
      (''remediateEnsureIsdnUtilsBaseNotInstalled'', RemediateEnsureIsdnUtilsBaseNotInstalled),
      (''remediateEnsureIsdnUtilsKdumpToolsNotInstalled'', RemediateEnsureIsdnUtilsKdumpToolsNotInstalled),
      (''remediateEnsureIscDhcpdServerNotInstalled'', RemediateEnsureIscDhcpdServerNotInstalled),
      (''remediateEnsureSendmailNotInstalled'', RemediateEnsureSendmailNotInstalled),
      (''remediateEnsureSldapdNotInstalled'', RemediateEnsureSldapdNotInstalled),
      (''remediateEnsureBind9NotInstalled'', RemediateEnsureBind9NotInstalled),
      (''remediateEnsureDovecotCoreNotInstalled'', RemediateEnsureDovecotCoreNotInstalled),
      (''remediateEnsureAuditdInstalled'', RemediateEnsureAuditdInstalled),
      (''remediateEnsurePrelinkIsDisabled'', RemediateEnsurePrelinkIsDisabled)]"

definition remediate_objects_2 :: "(string \<times> (cstr \<Rightarrow> ('a asb_scheme, int) act)) list" where [tables]:
  "remediate_objects_2 =
     [(''remediateEnsureTalkClientIsNotInstalled'', RemediateEnsureTalkClientIsNotInstalled),
      (''remediateEnsureCronServiceIsEnabled'', RemediateEnsureCronServiceIsEnabled),
      (''remediateEnsureAuditdServiceIsRunning'', RemediateEnsureAuditdServiceIsRunning),
      (''remediateEnsureKernelSupportForCpuNx'', RemediateEnsureKernelSupportForCpuNx),
      (''remediateEnsureNodevOptionOnHomePartition'', RemediateEnsureNodevOptionOnHomePartition),
      (''remediateEnsureNodevOptionOnTmpPartition'', RemediateEnsureNodevOptionOnTmpPartition),
      (''remediateEnsureNodevOptionOnVarTmpPartition'', RemediateEnsureNodevOptionOnVarTmpPartition),
      (''remediateEnsureNosuidOptionOnTmpPartition'', RemediateEnsureNosuidOptionOnTmpPartition),
      (''remediateEnsureNosuidOptionOnVarTmpPartition'', RemediateEnsureNosuidOptionOnVarTmpPartition),
      (''remediateEnsureNoexecOptionOnVarTmpPartition'', RemediateEnsureNoexecOptionOnVarTmpPartition),
      (''remediateEnsureNoexecOptionOnDevShmPartition'', RemediateEnsureNoexecOptionOnDevShmPartition),
      (''remediateEnsureNodevOptionEnabledForAllRemovableMedia'', RemediateEnsureNodevOptionEnabledForAllRemovableMedia),
      (''remediateEnsureNoexecOptionEnabledForAllRemovableMedia'', RemediateEnsureNoexecOptionEnabledForAllRemovableMedia),
      (''remediateEnsureNosuidOptionEnabledForAllRemovableMedia'', RemediateEnsureNosuidOptionEnabledForAllRemovableMedia),
      (''remediateEnsureNoexecNosuidOptionsEnabledForAllNfsMounts'', RemediateEnsureNoexecNosuidOptionsEnabledForAllNfsMounts),
      (''remediateEnsureAllTelnetdPackagesUninstalled'', RemediateEnsureAllTelnetdPackagesUninstalled),
      (''remediateEnsureAllEtcPasswdGroupsExistInEtcGroup'', RemediateEnsureAllEtcPasswdGroupsExistInEtcGroup),
      (''remediateEnsureNoDuplicateUidsExist'', RemediateEnsureNoDuplicateUidsExist),
      (''remediateEnsureNoDuplicateGidsExist'', RemediateEnsureNoDuplicateGidsExist),
      (''remediateEnsureNoDuplicateUserNamesExist'', RemediateEnsureNoDuplicateUserNamesExist),
      (''remediateEnsureNoDuplicateGroupsExist'', RemediateEnsureNoDuplicateGroupsExist),
      (''remediateEnsureShadowGroupIsEmpty'', RemediateEnsureShadowGroupIsEmpty),
      (''remediateEnsureRootGroupExists'', RemediateEnsureRootGroupExists),
      (''remediateEnsureAllAccountsHavePasswords'', RemediateEnsureAllAccountsHavePasswords),
      (''remediateEnsureNonRootAccountsHaveUniqueUidsGreaterThanZero'', RemediateEnsureNonRootAccountsHaveUniqueUidsGreaterThanZero),
      (''remediateEnsureNoLegacyPlusEntriesInEtcPasswd'', RemediateEnsureNoLegacyPlusEntriesInEtcPasswd),
      (''remediateEnsureNoLegacyPlusEntriesInEtcShadow'', RemediateEnsureNoLegacyPlusEntriesInEtcShadow),
      (''remediateEnsureNoLegacyPlusEntriesInEtcGroup'', RemediateEnsureNoLegacyPlusEntriesInEtcGroup),
      (''remediateEnsureDefaultRootAccountGroupIsGidZero'', RemediateEnsureDefaultRootAccountGroupIsGidZero),
      (''remediateEnsureRootIsOnlyUidZeroAccount'', RemediateEnsureRootIsOnlyUidZeroAccount),
      (''remediateEnsureAllUsersHomeDirectoriesExist'', RemediateEnsureAllUsersHomeDirectoriesExist),
      (''remediateEnsureUsersOwnTheirHomeDirectories'', RemediateEnsureUsersOwnTheirHomeDirectories),
      (''remediateEnsureRestrictedUserHomeDirectories'', RemediateEnsureRestrictedUserHomeDirectories),
      (''remediateEnsurePasswordHashingAlgorithm'', RemediateEnsurePasswordHashingAlgorithm),
      (''remediateEnsureMinDaysBetweenPasswordChanges'', RemediateEnsureMinDaysBetweenPasswordChanges),
      (''remediateEnsureInactivePasswordLockPeriod'', RemediateEnsureInactivePasswordLockPeriod),
      (''remediateEnsureMaxDaysBetweenPasswordChanges'', RemediateEnsureMaxDaysBetweenPasswordChanges)]"

definition remediate_objects_3 :: "(string \<times> (cstr \<Rightarrow> ('a asb_scheme, int) act)) list" where [tables]:
  "remediate_objects_3 =
     [(''remediateEnsurePasswordExpiration'', RemediateEnsurePasswordExpiration),
      (''remediateEnsurePasswordExpirationWarning'', RemediateEnsurePasswordExpirationWarning),
      (''remediateEnsureSystemAccountsAreNonLogin'', RemediateEnsureSystemAccountsAreNonLogin),
      (''remediateEnsureAuthenticationRequiredForSingleUserMode'', RemediateEnsureAuthenticationRequiredForSingleUserMode),
      (''remediateEnsureDotDoesNotAppearInRootsPath'', RemediateEnsureDotDoesNotAppearInRootsPath),
      (''remediateEnsureRemoteLoginWarningBannerIsConfigured'', RemediateEnsureRemoteLoginWarningBannerIsConfigured),
      (''remediateEnsureLocalLoginWarningBannerIsConfigured'', RemediateEnsureLocalLoginWarningBannerIsConfigured),
      (''remediateEnsureAuditdServiceIsRunning'', RemediateEnsureAuditdServiceIsRunning),
      (''remediateEnsureSuRestrictedToRootGroup'', RemediateEnsureSuRestrictedToRootGroup),
      (''remediateEnsureDefaultUmaskForAllUsers'', RemediateEnsureDefaultUmaskForAllUsers),
      (''remediateEnsureAutomountingDisabled'', RemediateEnsureAutomountingDisabled),
      (''remediateEnsureKernelCompiledFromApprovedSources'', RemediateEnsureKernelCompiledFromApprovedSources),
      (''remediateEnsureDefaultDenyFirewallPolicyIsSet'', RemediateEnsureDefaultDenyFirewallPolicyIsSet),
      (''remediateEnsurePacketRedirectSendingIsDisabled'', RemediateEnsurePacketRedirectSendingIsDisabled),
      (''remediateEnsureIcmpRedirectsIsDisabled'', RemediateEnsureIcmpRedirectsIsDisabled),
      (''remediateEnsureSourceRoutedPacketsIsDisabled'', RemediateEnsureSourceRoutedPacketsIsDisabled),
      (''remediateEnsureAcceptingSourceRoutedPacketsIsDisabled'', RemediateEnsureAcceptingSourceRoutedPacketsIsDisabled),
      (''remediateEnsureIgnoringBogusIcmpBroadcastResponses'', RemediateEnsureIgnoringBogusIcmpBroadcastResponses),
      (''remediateEnsureIgnoringIcmpEchoPingsToMulticast'', RemediateEnsureIgnoringIcmpEchoPingsToMulticast),
      (''remediateEnsureMartianPacketLoggingIsEnabled'', RemediateEnsureMartianPacketLoggingIsEnabled),
      (''remediateEnsureReversePathSourceValidationIsEnabled'', RemediateEnsureReversePathSourceValidationIsEnabled),
      (''remediateEnsureTcpSynCookiesAreEnabled'', RemediateEnsureTcpSynCookiesAreEnabled),
      (''remediateEnsureSystemNotActingAsNetworkSniffer'', RemediateEnsureSystemNotActingAsNetworkSniffer),
      (''remediateEnsureAllWirelessInterfacesAreDisabled'', RemediateEnsureAllWirelessInterfacesAreDisabled),
      (''remediateEnsureIpv6ProtocolIsEnabled'', RemediateEnsureIpv6ProtocolIsEnabled),
      (''remediateEnsureDccpIsDisabled'', RemediateEnsureDccpIsDisabled),
      (''remediateEnsureSctpIsDisabled'', RemediateEnsureSctpIsDisabled),
      (''remediateEnsureDisabledSupportForRds'', RemediateEnsureDisabledSupportForRds),
      (''remediateEnsureTipcIsDisabled'', RemediateEnsureTipcIsDisabled),
      (''remediateEnsureZeroconfNetworkingIsDisabled'', RemediateEnsureZeroconfNetworkingIsDisabled),
      (''remediateEnsurePermissionsOnBootloaderConfig'', RemediateEnsurePermissionsOnBootloaderConfig),
      (''remediateEnsurePasswordReuseIsLimited'', RemediateEnsurePasswordReuseIsLimited),
      (''remediateEnsureMountingOfUsbStorageDevicesIsDisabled'', RemediateEnsureMountingOfUsbStorageDevicesIsDisabled),
      (''remediateEnsureCoreDumpsAreRestricted'', RemediateEnsureCoreDumpsAreRestricted),
      (''remediateEnsurePasswordCreationRequirements'', RemediateEnsurePasswordCreationRequirements),
      (''remediateEnsureLockoutForFailedPasswordAttempts'', RemediateEnsureLockoutForFailedPasswordAttempts),
      (''remediateEnsureDisabledInstallationOfCramfsFileSystem'', RemediateEnsureDisabledInstallationOfCramfsFileSystem)]"

definition remediate_objects_4 :: "(string \<times> (cstr \<Rightarrow> ('a asb_scheme, int) act)) list" where [tables]:
  "remediate_objects_4 =
     [(''remediateEnsureDisabledInstallationOfFreevxfsFileSystem'', RemediateEnsureDisabledInstallationOfFreevxfsFileSystem),
      (''remediateEnsureDisabledInstallationOfHfsFileSystem'', RemediateEnsureDisabledInstallationOfHfsFileSystem),
      (''remediateEnsureDisabledInstallationOfHfsplusFileSystem'', RemediateEnsureDisabledInstallationOfHfsplusFileSystem),
      (''remediateEnsureDisabledInstallationOfJffs2FileSystem'', RemediateEnsureDisabledInstallationOfJffs2FileSystem),
      (''remediateEnsureVirtualMemoryRandomizationIsEnabled'', RemediateEnsureVirtualMemoryRandomizationIsEnabled),
      (''remediateEnsureAllBootloadersHavePasswordProtectionEnabled'', RemediateEnsureAllBootloadersHavePasswordProtectionEnabled),
      (''remediateEnsureLoggingIsConfigured'', RemediateEnsureLoggingIsConfigured),
      (''remediateEnsureSyslogPackageIsInstalled'', RemediateEnsureSyslogPackageIsInstalled),
      (''remediateEnsureSystemdJournaldServicePersistsLogMessages'', RemediateEnsureSystemdJournaldServicePersistsLogMessages),
      (''remediateEnsureALoggingServiceIsEnabled'', RemediateEnsureALoggingServiceIsEnabled),
      (''remediateEnsureFilePermissionsForAllRsyslogLogFiles'', RemediateEnsureFilePermissionsForAllRsyslogLogFiles),
      (''remediateEnsureLoggerConfigurationFilesAreRestricted'', RemediateEnsureLoggerConfigurationFilesAreRestricted),
      (''remediateEnsureAllRsyslogLogFilesAreOwnedByAdmGroup'', RemediateEnsureAllRsyslogLogFilesAreOwnedByAdmGroup),
      (''remediateEnsureAllRsyslogLogFilesAreOwnedBySyslogUser'', RemediateEnsureAllRsyslogLogFilesAreOwnedBySyslogUser),
      (''remediateEnsureRsyslogNotAcceptingRemoteMessages'', RemediateEnsureRsyslogNotAcceptingRemoteMessages),
      (''remediateEnsureSyslogRotaterServiceIsEnabled'', RemediateEnsureSyslogRotaterServiceIsEnabled),
      (''remediateEnsureTelnetServiceIsDisabled'', RemediateEnsureTelnetServiceIsDisabled),
      (''remediateEnsureRcprshServiceIsDisabled'', RemediateEnsureRcprshServiceIsDisabled),
      (''remediateEnsureTftpServiceisDisabled'', RemediateEnsureTftpServiceisDisabled),
      (''remediateEnsureAtCronIsRestrictedToAuthorizedUsers'', RemediateEnsureAtCronIsRestrictedToAuthorizedUsers),
      (''remediateEnsureSshPortIsConfigured'', RemediateEnsureSshPortIsConfigured),
      (''remediateEnsureSshBestPracticeProtocol'', RemediateEnsureSshBestPracticeProtocol),
      (''remediateEnsureSshBestPracticeIgnoreRhosts'', RemediateEnsureSshBestPracticeIgnoreRhosts),
      (''remediateEnsureSshLogLevelIsSet'', RemediateEnsureSshLogLevelIsSet),
      (''remediateEnsureSshMaxAuthTriesIsSet'', RemediateEnsureSshMaxAuthTriesIsSet),
      (''remediateEnsureAllowUsersIsConfigured'', RemediateEnsureAllowUsersIsConfigured),
      (''remediateEnsureDenyUsersIsConfigured'', RemediateEnsureDenyUsersIsConfigured),
      (''remediateEnsureAllowGroupsIsConfigured'', RemediateEnsureAllowGroupsIsConfigured),
      (''remediateEnsureDenyGroupsConfigured'', RemediateEnsureDenyGroupsConfigured),
      (''remediateEnsureSshHostbasedAuthenticationIsDisabled'', RemediateEnsureSshHostbasedAuthenticationIsDisabled),
      (''remediateEnsureSshPermitRootLoginIsDisabled'', RemediateEnsureSshPermitRootLoginIsDisabled),
      (''remediateEnsureSshPermitEmptyPasswordsIsDisabled'', RemediateEnsureSshPermitEmptyPasswordsIsDisabled),
      (''remediateEnsureSshClientIntervalCountMaxIsConfigured'', RemediateEnsureSshClientIntervalCountMaxIsConfigured),
      (''remediateEnsureSshClientAliveIntervalIsConfigured'', RemediateEnsureSshClientAliveIntervalIsConfigured),
      (''remediateEnsureSshLoginGraceTimeIsSet'', RemediateEnsureSshLoginGraceTimeIsSet),
      (''remediateEnsureOnlyApprovedMacAlgorithmsAreUsed'', RemediateEnsureOnlyApprovedMacAlgorithmsAreUsed),
      (''remediateEnsureSshWarningBannerIsEnabled'', RemediateEnsureSshWarningBannerIsEnabled)]"

definition remediate_objects_5 :: "(string \<times> (cstr \<Rightarrow> ('a asb_scheme, int) act)) list" where [tables]:
  "remediate_objects_5 =
     [(''remediateEnsureUsersCannotSetSshEnvironmentOptions'', RemediateEnsureUsersCannotSetSshEnvironmentOptions),
      (''remediateEnsureAppropriateCiphersForSsh'', RemediateEnsureAppropriateCiphersForSsh),
      (''remediateEnsureAvahiDaemonServiceIsDisabled'', RemediateEnsureAvahiDaemonServiceIsDisabled),
      (''remediateEnsureCupsServiceisDisabled'', RemediateEnsureCupsServiceisDisabled),
      (''remediateEnsurePostfixPackageIsUninstalled'', RemediateEnsurePostfixPackageIsUninstalled),
      (''remediateEnsurePostfixNetworkListeningIsDisabled'', RemediateEnsurePostfixNetworkListeningIsDisabled),
      (''remediateEnsureRpcgssdServiceIsDisabled'', RemediateEnsureRpcgssdServiceIsDisabled),
      (''remediateEnsureRpcidmapdServiceIsDisabled'', RemediateEnsureRpcidmapdServiceIsDisabled),
      (''remediateEnsurePortmapServiceIsDisabled'', RemediateEnsurePortmapServiceIsDisabled),
      (''remediateEnsureNetworkFileSystemServiceIsDisabled'', RemediateEnsureNetworkFileSystemServiceIsDisabled),
      (''remediateEnsureRpcsvcgssdServiceIsDisabled'', RemediateEnsureRpcsvcgssdServiceIsDisabled),
      (''remediateEnsureSnmpServerIsDisabled'', RemediateEnsureSnmpServerIsDisabled),
      (''remediateEnsureRsynServiceIsDisabled'', RemediateEnsureRsynServiceIsDisabled),
      (''remediateEnsureNisServerIsDisabled'', RemediateEnsureNisServerIsDisabled),
      (''remediateEnsureRshClientNotInstalled'', RemediateEnsureRshClientNotInstalled),
      (''remediateEnsureSmbWithSambaIsDisabled'', RemediateEnsureSmbWithSambaIsDisabled),
      (''remediateEnsureUsersDotFilesArentGroupOrWorldWritable'', RemediateEnsureUsersDotFilesArentGroupOrWorldWritable),
      (''remediateEnsureNoUsersHaveDotForwardFiles'', RemediateEnsureNoUsersHaveDotForwardFiles),
      (''remediateEnsureNoUsersHaveDotNetrcFiles'', RemediateEnsureNoUsersHaveDotNetrcFiles),
      (''remediateEnsureNoUsersHaveDotRhostsFiles'', RemediateEnsureNoUsersHaveDotRhostsFiles),
      (''remediateEnsureRloginServiceIsDisabled'', RemediateEnsureRloginServiceIsDisabled),
      (''remediateEnsureUnnecessaryAccountsAreRemoved'', RemediateEnsureUnnecessaryAccountsAreRemoved),
      (''initEnsureLoggingLevel'', InitEnsureLoggingLevel),
      (''initEnsurePermissionsOnEtcSshSshdConfig'', InitEnsurePermissionsOnEtcSshSshdConfig),
      (''initEnsureSshPortIsConfigured'', InitEnsureSshPortIsConfigured),
      (''initEnsureSshBestPracticeProtocol'', InitEnsureSshBestPracticeProtocol),
      (''initEnsureSshBestPracticeIgnoreRhosts'', InitEnsureSshBestPracticeIgnoreRhosts),
      (''initEnsureSshLogLevelIsSet'', InitEnsureSshLogLevelIsSet),
      (''initEnsureSshMaxAuthTriesIsSet'', InitEnsureSshMaxAuthTriesIsSet),
      (''initEnsureAllowUsersIsConfigured'', InitEnsureAllowUsersIsConfigured),
      (''initEnsureDenyUsersIsConfigured'', InitEnsureDenyUsersIsConfigured),
      (''initEnsureAllowGroupsIsConfigured'', InitEnsureAllowGroupsIsConfigured),
      (''initEnsureDenyGroupsConfigured'', InitEnsureDenyGroupsConfigured),
      (''initEnsureSshHostbasedAuthenticationIsDisabled'', InitEnsureSshHostbasedAuthenticationIsDisabled),
      (''initEnsureSshPermitRootLoginIsDisabled'', InitEnsureSshPermitRootLoginIsDisabled),
      (''initEnsureSshPermitEmptyPasswordsIsDisabled'', InitEnsureSshPermitEmptyPasswordsIsDisabled),
      (''initEnsureSshClientIntervalCountMaxIsConfigured'', InitEnsureSshClientIntervalCountMaxIsConfigured)]"

definition remediate_objects_6 :: "(string \<times> (cstr \<Rightarrow> ('a asb_scheme, int) act)) list" where [tables]:
  "remediate_objects_6 =
     [(''initEnsureSshClientAliveIntervalIsConfigured'', InitEnsureSshClientAliveIntervalIsConfigured),
      (''initEnsureSshLoginGraceTimeIsSet'', InitEnsureSshLoginGraceTimeIsSet),
      (''initEnsureOnlyApprovedMacAlgorithmsAreUsed'', InitEnsureOnlyApprovedMacAlgorithmsAreUsed),
      (''initEnsureSshWarningBannerIsEnabled'', InitEnsureSshWarningBannerIsEnabled),
      (''initEnsureUsersCannotSetSshEnvironmentOptions'', InitEnsureUsersCannotSetSshEnvironmentOptions),
      (''initEnsureAppropriateCiphersForSsh'', InitEnsureAppropriateCiphersForSsh),
      (''initEnsurePermissionsOnEtcIssue'', InitEnsurePermissionsOnEtcIssue),
      (''initEnsurePermissionsOnEtcIssueNet'', InitEnsurePermissionsOnEtcIssueNet),
      (''initEnsurePermissionsOnEtcHostsAllow'', InitEnsurePermissionsOnEtcHostsAllow),
      (''initEnsurePermissionsOnEtcHostsDeny'', InitEnsurePermissionsOnEtcHostsDeny),
      (''initEnsurePermissionsOnEtcShadow'', InitEnsurePermissionsOnEtcShadow),
      (''initEnsurePermissionsOnEtcShadowDash'', InitEnsurePermissionsOnEtcShadowDash),
      (''initEnsurePermissionsOnEtcGShadow'', InitEnsurePermissionsOnEtcGShadow),
      (''initEnsurePermissionsOnEtcGShadowDash'', InitEnsurePermissionsOnEtcGShadowDash),
      (''initEnsurePermissionsOnEtcPasswd'', InitEnsurePermissionsOnEtcPasswd),
      (''initEnsurePermissionsOnEtcPasswdDash'', InitEnsurePermissionsOnEtcPasswdDash),
      (''initEnsurePermissionsOnEtcGroup'', InitEnsurePermissionsOnEtcGroup),
      (''initEnsurePermissionsOnEtcGroupDash'', InitEnsurePermissionsOnEtcGroupDash),
      (''initEnsurePermissionsOnEtcAnacronTab'', InitEnsurePermissionsOnEtcAnacronTab),
      (''initEnsurePermissionsOnEtcCronD'', InitEnsurePermissionsOnEtcCronD),
      (''initEnsurePermissionsOnEtcCronDaily'', InitEnsurePermissionsOnEtcCronDaily),
      (''initEnsurePermissionsOnEtcCronHourly'', InitEnsurePermissionsOnEtcCronHourly),
      (''initEnsurePermissionsOnEtcCronMonthly'', InitEnsurePermissionsOnEtcCronMonthly),
      (''initEnsurePermissionsOnEtcCronWeekly'', InitEnsurePermissionsOnEtcCronWeekly),
      (''initEnsurePermissionsOnEtcMotd'', InitEnsurePermissionsOnEtcMotd),
      (''initEnsureRestrictedUserHomeDirectories'', InitEnsureRestrictedUserHomeDirectories),
      (''initEnsurePasswordHashingAlgorithm'', InitEnsurePasswordHashingAlgorithm),
      (''initEnsureMinDaysBetweenPasswordChanges'', InitEnsureMinDaysBetweenPasswordChanges),
      (''initEnsureInactivePasswordLockPeriod'', InitEnsureInactivePasswordLockPeriod),
      (''initEnsureMaxDaysBetweenPasswordChanges'', InitEnsureMaxDaysBetweenPasswordChanges),
      (''initEnsurePasswordExpiration'', InitEnsurePasswordExpiration),
      (''initEnsurePasswordExpirationWarning'', InitEnsurePasswordExpirationWarning),
      (''initEnsureDefaultUmaskForAllUsers'', InitEnsureDefaultUmaskForAllUsers),
      (''initEnsurePermissionsOnBootloaderConfig'', InitEnsurePermissionsOnBootloaderConfig),
      (''initEnsurePasswordReuseIsLimited'', InitEnsurePasswordReuseIsLimited),
      (''initEnsurePasswordCreationRequirements'', InitEnsurePasswordCreationRequirements),
      (''initEnsureFilePermissionsForAllRsyslogLogFiles'', InitEnsureFilePermissionsForAllRsyslogLogFiles)]"

definition remediate_objects_7 :: "(string \<times> (cstr \<Rightarrow> ('a asb_scheme, int) act)) list" where [tables]:
  "remediate_objects_7 =
     [(''initEnsureUsersDotFilesArentGroupOrWorldWritable'', InitEnsureUsersDotFilesArentGroupOrWorldWritable),
      (''initEnsureUnnecessaryAccountsAreRemoved'', InitEnsureUnnecessaryAccountsAreRemoved),
      (''initEnsureDefaultDenyFirewallPolicyIsSet'', InitEnsureDefaultDenyFirewallPolicyIsSet)]"

definition remediate_objects :: "(string \<times> (cstr \<Rightarrow> ('a asb_scheme, int) act)) list" where
  "remediate_objects = remediate_objects_1 @ remediate_objects_2 @ remediate_objects_3 @ remediate_objects_4 @ remediate_objects_5 @ remediate_objects_6 @ remediate_objects_7"

subsection \<open>Audits\<close>

abbreviation g_securityBaselineComponentName :: string where
  "g_securityBaselineComponentName \<equiv> ''SecurityBaseline''"

text \<open>The result as a JSON string. A missing reason, or one that is not valid UTF-8, is reported as a failure; a payload
  longer than the client accepts is cut.\<close>

definition valid_result :: "cstr \<Rightarrow> 'a runtime_scheme \<Rightarrow> cstr \<times> 'a runtime_scheme" where
  "valid_result result s = (if json_value_init_string result = None then duplicate ''FAIL'' s else (result, s))"

definition payload_size :: "32 word \<Rightarrow> string \<Rightarrow> nat" where
  "payload_size maxPayloadSizeBytes t =
     (if 0 < maxPayloadSizeBytes \<and> unat maxPayloadSizeBytes < length t then unat maxPayloadSizeBytes else length t)"

definition audit_payload :: "32 word \<Rightarrow> cstr \<Rightarrow> 'a runtime_scheme \<Rightarrow> (int \<times> cstr \<times> int) \<times> 'a runtime_scheme" where
  "audit_payload maxPayloadSizeBytes result s =
     (case valid_result result s of
        (r, s1) \<Rightarrow>
          (case json_serialize_to_string (json_value_init_string r) of
             None \<Rightarrow> ((ENOMEM, None, 0), s1)
           | Some t \<Rightarrow>
               (case ask ''malloc'' s1 of
                  (failed, s2) \<Rightarrow>
                    if failed \<noteq> 0 then ((ENOMEM, None, 0), s2)
                    else (let n = payload_size maxPayloadSizeBytes t in ((0, Some (take n t), int n), s2)))))"

definition AsbMmiGet :: "cstr \<Rightarrow> cstr \<Rightarrow> 32 word \<Rightarrow> ('a asb_scheme, int \<times> cstr \<times> int) act" where
  "AsbMmiGet componentName objectName maxPayloadSizeBytes s =
     (case (componentName, objectName) of
        (Some c, Some ob) \<Rightarrow>
          if c \<noteq> g_securityBaselineComponentName then Some ((EINVAL, None, 0), s)
          else (case map_of audit_objects ob of
             None \<Rightarrow> Some ((EINVAL, None, 0), s)
           | Some f \<Rightarrow>
               (case f s of None \<Rightarrow> None | Some (result, s1) \<Rightarrow> Some (audit_payload maxPayloadSizeBytes result s1)))
      | _ \<Rightarrow> Some ((EINVAL, None, 0), s))"

subsection \<open>Remediations and desired values\<close>

text \<open>The payload, when there is one, is the text of a JSON string.\<close>

definition payload_string :: "cstr \<Rightarrow> int \<Rightarrow> ('a runtime_scheme, int \<times> cstr) act" where
  "payload_string payload n =
     (\<lambda>s. case payload of
            None \<Rightarrow> Some ((0, None), s)
          | Some p \<Rightarrow>
              if n \<le> 0 then Some ((0, None), s)
              else (case ask ''malloc'' s of
                 (failed, s1) \<Rightarrow>
                   if failed \<noteq> 0 then Some ((ENOMEM, None), s1)
                   else if length p < nat n then None
                   else (case json_parse_string (Some (take (nat n) p)) of
                      None \<Rightarrow> Some ((EINVAL, None), s1)
                    | Some v \<Rightarrow>
                        (case json_value_get_string (Some v) of
                           None \<Rightarrow> Some ((EINVAL, None), s1)
                         | Some t \<Rightarrow> Some ((0, Some t), s1)))))"

definition remediate_object :: "cstr \<Rightarrow> string \<Rightarrow> cstr \<Rightarrow> int \<Rightarrow> ('a asb_scheme, int) act" where
  "remediate_object componentName ob payload n =
     (if componentName \<noteq> Some g_securityBaselineComponentName then ret EINVAL
      else andThen (payload_string payload n) (\<lambda>(status, jsonString).
             if status \<noteq> 0 then ret status
             else (case map_of remediate_objects ob of None \<Rightarrow> ret EINVAL | Some f \<Rightarrow> f jsonString)))"

text \<open>Unless the clock cannot be read, an object that does not begin with \<open>init\<close> ends the audit-only session.\<close>

definition end_audit_only :: "string \<Rightarrow> 'a asb_scheme \<Rightarrow> 'a asb_scheme" where
  "end_audit_only ob s =
     (case ask ''clock_gettime'' s of
        (failed, s1) \<Rightarrow> if failed = 0 \<and> \<not> prefix ''init'' ob then s1\<lparr>g_auditOnly := False\<rparr> else s1)"

definition AsbMmiSet :: "cstr \<Rightarrow> cstr \<Rightarrow> cstr \<Rightarrow> int \<Rightarrow> ('a asb_scheme, int) act" where
  "AsbMmiSet componentName objectName payload n s =
     (case (componentName, objectName) of
        (Some _, Some ob) \<Rightarrow>
          (case remediate_object componentName ob payload n s of
             None \<Rightarrow> None
           | Some (status, s1) \<Rightarrow> Some (status, end_audit_only ob s1))
      | _ \<Rightarrow> Some (EINVAL, s))"

end
