(* ===== verification/AuditEffects.thy ===== *)
theory AuditEffects
  imports Asb
begin

text \<open>
  What the audits do to the host: nothing, when the commands they run do nothing to it. The relation \<open>reads\<close> between the
  state before and after an operation is an \<open>effect_relation\<close>; every check the audits call keeps it.
\<close>

subsection \<open>Reading\<close>

definition quiet_shell :: "'a baseline_scheme \<Rightarrow> bool" where
  "quiet_shell s \<longleftrightarrow> (\<forall>cmd w. snd (snd (shell_exec s cmd w)) = w)"

definition reads :: "'a baseline_scheme \<Rightarrow> 'a baseline_scheme \<Rightarrow> bool" where
  "reads s t \<longleftrightarrow> g_auditOnlySession t = g_auditOnlySession s \<and> (quiet_shell s \<longrightarrow> same_host s t)"

interpretation reading: effect_relation reads
  by unfold_locales (auto simp: reads_def same_host_def quiet_shell_def)

named_theorems reading_rules \<open>checks that only read\<close>

lemma reads_same [simp]:
  "reads s (tick t) \<longleftrightarrow> reads s t" "reads s (t\<lparr>why := r\<rparr>) \<longleftrightarrow> reads s t"
  "reads s (capture msg t) \<longleftrightarrow> reads s t" "reads s (capture_success msg t) \<longleftrightarrow> reads s t"
  by (simp_all add: reads_def same_host_def tick_def capture_def capture_success_def)

lemma reads_capture_same [simp]: "reads s (capture_same a b t) \<longleftrightarrow> reads s t"
  by (simp add: capture_same_def)

lemma reads_run_text: "reads s (snd (run_text opts cmd s))"
  by (auto simp: reads_def same_host_def quiet_shell_def run_text_def split: prod.splits) (metis snd_conv)

text \<open>Rules that follow the shape of an operation.\<close>

lemma reads_then: "reading.keeps f \<Longrightarrow> reads s t \<Longrightarrow> reads s (snd (f t))"
  by (rule reading.keeps_step)

lemma reads_case_state:
  "reads s (snd p) \<Longrightarrow> (\<And>x t. reads s t \<Longrightarrow> reads s (snd (B x t))) \<Longrightarrow> reads s (snd (case p of (x, t) \<Rightarrow> B x t))"
  by (cases p) simp

lemma reads_case_state':
  "reads s (snd p) \<Longrightarrow> (\<And>x t. reads s t \<Longrightarrow> reads s (B x t)) \<Longrightarrow> reads s (case p of (x, t) \<Rightarrow> B x t)"
  by (cases p) simp

lemma reads_case_value:
  "(\<And>a b. x = (a, b) \<Longrightarrow> reads s (snd (B a b))) \<Longrightarrow> reads s (snd (case x of (a, b) \<Rightarrow> B a b))"
  by (cases x) simp

lemma reads_case_fun:
  "(\<And>a b. x = (a, b) \<Longrightarrow> reads s (snd (B a b t))) \<Longrightarrow> reads s (snd ((case x of (a, b) \<Rightarrow> B a b) t))"
  by (cases x) simp

lemma reads_case_option:
  "(x = None \<Longrightarrow> reads s (snd a)) \<Longrightarrow> (\<And>y. x = Some y \<Longrightarrow> reads s (snd (b y))) \<Longrightarrow> reads s (snd (case x of None \<Rightarrow> a | Some y \<Rightarrow> b y))"
  by (cases x) simp_all

lemma reads_case_option':
  "(x = None \<Longrightarrow> reads s a) \<Longrightarrow> (\<And>y. x = Some y \<Longrightarrow> reads s (b y)) \<Longrightarrow> reads s (case x of None \<Rightarrow> a | Some y \<Rightarrow> b y)"
  by (cases x) simp_all

lemma reads_case_bool: "reads s (snd a) \<Longrightarrow> reads s (snd b) \<Longrightarrow> reads s (snd (case x of True \<Rightarrow> a | False \<Rightarrow> b))"
  by (cases x) simp_all

lemma reads_if: "reads s (snd a) \<Longrightarrow> reads s (snd b) \<Longrightarrow> reads s (snd (if c then a else b))"
  by simp

lemma reads_if': "reads s a \<Longrightarrow> reads s b \<Longrightarrow> reads s (if c then a else b)"
  by simp

text \<open>A \<open>let\<close> of a state, without a copy of what it stands for; any other \<open>let\<close>.\<close>

lemma reads_let: "reads s u \<Longrightarrow> (\<And>t. reads s t \<Longrightarrow> reads s (snd (B t))) \<Longrightarrow> reads s (snd (let t = u in B t))"
  by (simp add: Let_def)

lemma reads_let_value: "reads s (snd (B x)) \<Longrightarrow> reads s (snd (let y = x in B y))"
  by (simp add: Let_def)

lemma reads_let_state: "reads s u \<Longrightarrow> (\<And>t. reads s t \<Longrightarrow> reads s (B t)) \<Longrightarrow> reads s (let t = u in B t)"
  by (simp add: Let_def)

lemma reads_let_state_value: "reads s (B x) \<Longrightarrow> reads s (let y = x in B y)"
  by (simp add: Let_def)

lemma reads_value: "reads s t \<Longrightarrow> reads s (snd (x, t))"
  by simp

lemma reads_self: "reads s s"
  by (rule reading.rel_refl)

lemmas reads_shape = reads_self reads_value reads_if reads_if' reads_case_bool reads_case_option reads_case_option' reads_case_state reads_case_state'
  reads_case_value reads_case_fun reads_let reads_let_state reads_let_value reads_let_state_value

lemma keeps_run_text [reading_rules]: "reading.keeps (run_text opts cmd)"
  by (simp add: reading.keeps_def reads_run_text)

lemmas [reading_rules] = reading.keeps_ask reading.keeps_format_text reading.keeps_read_fs

lemma keeps_duplicate [reading_rules]: "reading.keeps (duplicate t)"
  by (simp add: reading.keeps_def duplicate_def)

lemma keeps_run [reading_rules]: "reading.keeps (run cmd)"
  unfolding reading.keeps_def run_def
  by (intro allI reads_shape reading_rules [THEN reads_then] | assumption)+

subsection \<open>Checks of files\<close>

lemma reads_access_text: "reads s t \<Longrightarrow> reads s (access_text m d nm u g a t)"
  by (auto simp: access_text_def split: option.splits)

lemma keeps_files [reading_rules]:
  "reading.keeps (CheckFileExists_r p)" "reading.keeps (CheckFileNotFound_r p)" "reading.keeps (CheckFileAccess p u g a)"
  "reading.keeps (CheckDirectoryAccess p u g a)" "reading.keeps (CheckNoLegacyPlusEntriesInFile_r p)"
  "reading.keeps (CheckTextIsFoundInFile_r p t)" "reading.keeps (CheckTextIsNotFoundInFile_r p t)"
  "reading.keeps (CheckSmallFileContainsText_r p t)" "reading.keeps (IsLineNotFoundOrCommentedOut_r p c t)"
  "reading.keeps (CheckIntegerOptionFromFileEqualWithAny_r p opt sep c vals base)"
  "reading.keeps (CheckIntegerOptionFromFileLessOrEqualWith_r p opt sep c val base)"
  "reading.keeps (FindTextInCommandOutput cmd t)"
  unfolding reading.keeps_def CheckFileExists_r_def CheckFileNotFound_r_def CheckFileAccess_def CheckDirectoryAccess_def CheckAccess_r_def
    CheckNoLegacyPlusEntriesInFile_r_def CheckTextIsFoundInFile_r_def CheckTextIsNotFoundInFile_r_def CheckSmallFileContainsText_r_def
    IsLineNotFoundOrCommentedOut_r_def CheckIntegerOptionFromFileEqualWithAny_r_def CheckIntegerOptionFromFileLessOrEqualWith_r_def
    FindTextInCommandOutput_def
  by (intro allI reads_shape reading_rules [THEN reads_then] | assumption | simp add: reads_access_text)+

lemma reads_marker_loop: "reads s (snd (marker_loop mk msg t s))"
proof (induction mk msg t s rule: marker_loop.induct)
  case (1 mk msg t s)
  then show ?case
    by (subst marker_loop.simps) (auto split: option.splits list.splits prod.splits simp: reads_def same_host_def quiet_shell_def capture_def)
qed

lemma keeps_find_in_entries [reading_rules]: "reading.keeps (find_in_entries d x e status es)"
proof (induction es arbitrary: status)
  case (Cons d_name es)
  show ?case
    unfolding reading.keeps_def find_in_entries.simps
    by (intro allI reads_shape Cons.IH [THEN reads_then] reading_rules [THEN reads_then] | assumption | simp)+
qed (simp add: reading.keeps_def)

lemma keeps_marker_loop [reading_rules]: "reading.keeps (marker_loop mk msg t)"
  by (simp add: reading.keeps_def reads_marker_loop)

lemma keeps_FindTextInFolder [reading_rules]: "reading.keeps (FindTextInFolder d t e)"
  unfolding reading.keeps_def FindTextInFolder_def
  by (intro allI reads_shape reading_rules [THEN reads_then] | assumption | simp)+

lemma keeps_texts [reading_rules]:
  "reading.keeps (CheckMarkedTextNotFoundInFile_r p t mk c)" "reading.keeps (CheckTextNotFoundInEnvironmentVariable_r v t b)"
  "reading.keeps (CheckTextNotFoundInFolder d t e)" "reading.keeps (CheckTextFoundInFolder d t e)"
  "reading.keeps (CheckLineNotFoundOrCommentedOut_r p c t)" "reading.keeps (CheckLineFoundNotCommentedOut_r p c t)"
  "reading.keeps (CheckTextFoundInCommandOutput cmd t)" "reading.keeps (CheckTextNotFoundInCommandOutput cmd t)"
  unfolding reading.keeps_def CheckMarkedTextNotFoundInFile_r_def CheckTextNotFoundInEnvironmentVariable_r_def CheckTextNotFoundInFolder_def
    CheckTextFoundInFolder_def CheckLineNotFoundOrCommentedOut_r_def CheckLineFoundNotCommentedOut_r_def
    CheckTextFoundInCommandOutput_def CheckTextNotFoundInCommandOutput_def
  by (intro allI reads_shape reading_rules [THEN reads_then] | assumption | simp)+

subsection \<open>Checks of daemons and packages\<close>

lemma keeps_ExecuteSystemctlCommand [reading_rules]: "reading.keeps (ExecuteSystemctlCommand c d)"
  unfolding reading.keeps_def ExecuteSystemctlCommand_def
  by (intro allI reads_shape reading_rules [THEN reads_then] | assumption | simp)+

lemma keeps_IsDaemonActive [reading_rules]: "reading.keeps (IsDaemonActive d)"
  unfolding reading.keeps_def IsDaemonActive_def
  by (intro allI reads_shape reading_rules [THEN reads_then] | assumption | simp)+

lemma keeps_daemons [reading_rules]: "reading.keeps (CheckDaemonActive d)" "reading.keeps (CheckDaemonNotActive d)"
  unfolding reading.keeps_def CheckDaemonActive_def CheckDaemonNotActive_def
  by (intro allI reads_shape reading_rules [THEN reads_then] | assumption | simp)+

lemma reads_package_fields [simp]:
  "reads s (t\<lparr>g_checkedPackageManagersPresence := b\<rparr>) \<longleftrightarrow> reads s t" "reads s (t\<lparr>g_aptGetIsPresent := b\<rparr>) \<longleftrightarrow> reads s t"
  "reads s (t\<lparr>g_dpkgIsPresent := b\<rparr>) \<longleftrightarrow> reads s t" "reads s (t\<lparr>g_tdnfIsPresent := b\<rparr>) \<longleftrightarrow> reads s t"
  "reads s (t\<lparr>g_dnfIsPresent := b\<rparr>) \<longleftrightarrow> reads s t" "reads s (t\<lparr>g_yumIsPresent := b\<rparr>) \<longleftrightarrow> reads s t"
  "reads s (t\<lparr>g_zypperIsPresent := b\<rparr>) \<longleftrightarrow> reads s t" "reads s (t\<lparr>g_rpmIsPresent := b\<rparr>) \<longleftrightarrow> reads s t"
  "reads s (t\<lparr>g_updateInstalledPackagesCache := b\<rparr>) \<longleftrightarrow> reads s t" "reads s (t\<lparr>g_installedPackagesCache := c\<rparr>) \<longleftrightarrow> reads s t"
  by (simp_all add: reads_def same_host_def)

lemma keeps_IsPresent [reading_rules]: "reading.keeps (IsPresent x)"
  unfolding reading.keeps_def IsPresent_def
  by (intro allI reads_shape reading_rules [THEN reads_then] | assumption | simp)+

lemma keeps_is_present [reading_rules]: "reading.keeps (is_present x)"
  unfolding reading.keeps_def is_present_def
  by (intro allI reads_shape reading_rules [THEN reads_then] | assumption | simp)+

lemma reads_CheckPackageManagersPresence: "reads s t \<Longrightarrow> reads s (CheckPackageManagersPresence t)"
  unfolding CheckPackageManagersPresence_def
  by (intro reads_shape reading_rules [THEN reads_then] | assumption | simp)+

lemma keeps_CheckAllPackages [reading_rules]: "reading.keeps (CheckAllPackages f pm)"
  unfolding reading.keeps_def CheckAllPackages_def
  by (intro allI reads_shape reading_rules [THEN reads_then] | assumption | simp)+

lemma keeps_UpdateInstalledPackagesCache [reading_rules]: "reading.keeps UpdateInstalledPackagesCache"
  unfolding reading.keeps_def UpdateInstalledPackagesCache_def
  by (intro allI reads_shape reading_rules [THEN reads_then] reads_CheckPackageManagersPresence | assumption | simp only: reads_package_fields)+

lemma keeps_IsPackageInstalled [reading_rules]: "reading.keeps (IsPackageInstalled p)"
  unfolding reading.keeps_def IsPackageInstalled_def
  by (intro allI reads_shape reading_rules [THEN reads_then] reads_CheckPackageManagersPresence | assumption | simp only: reads_package_fields)+

lemma keeps_packages [reading_rules]: "reading.keeps (CheckPackageInstalled p)" "reading.keeps (CheckPackageNotInstalled p)"
  unfolding reading.keeps_def CheckPackageInstalled_def CheckPackageNotInstalled_def
  by (intro allI reads_shape reading_rules [THEN reads_then] | assumption | simp)+

subsection \<open>Checks of passwords\<close>

lemma keeps_int_option [reading_rules]:
  "reading.keeps (int_option l opt)"
  unfolding reading.keeps_def int_option_def
  by (intro allI reads_shape reading_rules [THEN reads_then] | assumption | simp)+

lemma keeps_find_pam_path [reading_rules]: "reading.keeps (find_pam_path x ds)"
proof (induction ds)
  case (Cons d ds)
  show ?case
    unfolding reading.keeps_def find_pam_path.simps
    by (intro allI reads_shape Cons.IH [THEN reads_then] reading_rules [THEN reads_then] | assumption | simp)+
qed (simp add: reading.keeps_def)

lemma keeps_FindPamModule [reading_rules]:
  "reading.keeps (FindPamModule x)"
  unfolding reading.keeps_def FindPamModule_def
  by (intro allI reads_shape reading_rules [THEN reads_then] | assumption | simp)+

lemma keeps_check_remember [reading_rules]:
  "reading.keeps (check_remember p n)"
  unfolding reading.keeps_def check_remember_def
  by (intro allI reads_shape reading_rules [THEN reads_then] | assumption | simp)+

lemma keeps_CheckEnsurePasswordReuseIsLimited [reading_rules]:
  "reading.keeps (CheckEnsurePasswordReuseIsLimited n)"
  unfolding reading.keeps_def CheckEnsurePasswordReuseIsLimited_def
  by (intro allI reads_shape reading_rules [THEN reads_then] | assumption | simp)+

lemma keeps_lockout_lines [reading_rules]: "reading.keeps (lockout_lines so c ls r)"
proof (induction ls arbitrary: r)
  case (Cons l ls)
  obtain a b d where r: "r = (a, b, d)" by (cases r) auto
  show ?case
    unfolding reading.keeps_def r lockout_lines.simps
    by (intro allI reads_shape Cons.IH [THEN reads_then] reading_rules [THEN reads_then] | assumption | simp)+
qed (auto simp: reading.keeps_def)

lemma reads_lockout_texts [simp]: "reads s (lockout_texts p so r t) \<longleftrightarrow> reads s t"
  by (simp add: lockout_texts_def Let_def split: prod.splits)

lemma keeps_CheckLockoutForFailedPasswordAttempts [reading_rules]:
  "reading.keeps (CheckLockoutForFailedPasswordAttempts p so c)"
  unfolding reading.keeps_def CheckLockoutForFailedPasswordAttempts_def
  by (intro allI reads_shape reading_rules [THEN reads_then] | assumption | simp)+

lemma keeps_GetFaillockConfIntegerOption [reading_rules]:
  "reading.keeps (GetFaillockConfIntegerOption p k)"
  unfolding reading.keeps_def GetFaillockConfIntegerOption_def
  by (intro allI reads_shape reading_rules [THEN reads_then] | assumption | simp)+

lemma keeps_ViaFaillockConf [reading_rules]:
  "reading.keeps (CheckLockoutForFailedPasswordAttemptsViaFaillockConf p c)"
  unfolding reading.keeps_def CheckLockoutForFailedPasswordAttemptsViaFaillockConf_def
  by (intro allI reads_shape reading_rules [THEN reads_then] | assumption | simp)+

lemma keeps_modern_in_files [reading_rules]: "reading.keeps (modern_in_files fs)"
proof (induction fs)
  case (Cons f fs)
  show ?case
    unfolding reading.keeps_def modern_in_files.simps
    by (intro allI reads_shape Cons.IH [THEN reads_then] reading_rules [THEN reads_then] | assumption | simp)+
qed (simp add: reading.keeps_def)

lemma keeps_CheckPamFaillockModernModelInUse [reading_rules]:
  "reading.keeps (CheckPamFaillockModernModelInUse fs c)"
  unfolding reading.keeps_def CheckPamFaillockModernModelInUse_def
  by (intro allI reads_shape reading_rules [THEN reads_then] | assumption | simp)+

lemma keeps_read_options [reading_rules]: "reading.keeps (read_options l os)"
proof (induction os)
  case (Cons od os)
  obtain opt v where od: "od = (opt, v)" by (cases od)
  show ?case
    unfolding reading.keeps_def od read_options.simps
    by (intro allI reads_shape Cons.IH [THEN reads_then] reading_rules [THEN reads_then] | assumption | simp)+
qed (simp add: reading.keeps_def)

lemma reads_case_value_state:
  "(\<And>a b. x = (a, b) \<Longrightarrow> reads s (B a b)) \<Longrightarrow> reads s (case x of (a, b) \<Rightarrow> B a b)"
  by (cases x) simp

lemma reads_common_password_text: "reads s t \<Longrightarrow> reads s (common_password_text od v t)"
  unfolding common_password_text_def
  by (intro reads_shape reads_case_value_state | assumption | simp only: reads_same)+

lemma reads_fold_text [simp]: "reads s t \<Longrightarrow> reads s (fold (\<lambda>(od, v). common_password_text od v) ovs t)"
  by (induction ovs arbitrary: t) (auto intro: reads_common_password_text)

lemma keeps_CheckRequirementsForCommonPassword [reading_rules]:
  "reading.keeps (CheckRequirementsForCommonPassword a b c d e f)"
  unfolding reading.keeps_def CheckRequirementsForCommonPassword_def
  by (intro allI reads_shape reading_rules [THEN reads_then] | assumption | simp)+

lemma keeps_CheckPasswordRequirementFromBuffer [reading_rules]:
  "reading.keeps (CheckPasswordRequirementFromBuffer a b c d e f)"
  unfolding reading.keeps_def CheckPasswordRequirementFromBuffer_def
  by (intro allI reads_shape reading_rules [THEN reads_then] | assumption | simp)+

lemma keeps_pwquality_lines [reading_rules]: "reading.keeps (pwquality_lines os ls st)"
proof (induction ls arbitrary: st)
  case (Cons l ls)
  obtain a b where st: "st = (a, b)" by (cases st)
  show ?case
    unfolding reading.keeps_def st pwquality_lines.simps
    by (intro allI reads_shape Cons.IH [THEN reads_then] reading_rules [THEN reads_then] | assumption | simp)+
qed (auto simp: reading.keeps_def)

lemma keeps_CheckRequirementsForPwQualityConf [reading_rules]:
  "reading.keeps (CheckRequirementsForPwQualityConf a b c d e f g)"
  unfolding reading.keeps_def CheckRequirementsForPwQualityConf_def
  by (intro allI reads_shape reading_rules [THEN reads_then] | assumption | simp)+

lemma keeps_CheckPasswordCreationRequirements [reading_rules]:
  "reading.keeps (CheckPasswordCreationRequirements a b c d e f g)"
  unfolding reading.keeps_def CheckPasswordCreationRequirements_def
  by (intro allI reads_shape reading_rules [THEN reads_then] | assumption | simp)+

subsection \<open>Checks of mounts, the system and the network\<close>

lemma reads_option_texts [simp]: "reads s (option_texts p d ty opt n e t) \<longleftrightarrow> reads s t"
  by (simp add: option_texts_def Let_def split: option.splits)

lemma reads_check_entries: "reads s t \<Longrightarrow> reads s (snd (check_entries p d ty opt n es r t))"
  by (induction es arbitrary: n r t) auto

lemma keeps_check_entries [reading_rules]: "reading.keeps (check_entries p d ty opt n es r)"
  by (simp add: reading.keeps_def reads_check_entries)

lemma keeps_CheckFileSystemMountingOption [reading_rules]:
  "reading.keeps (CheckFileSystemMountingOption f d ty opt)"
  unfolding reading.keeps_def CheckFileSystemMountingOption_def
  by (intro allI reads_shape reading_rules [THEN reads_then] | assumption | simp)+

lemma keeps_property_of [reading_rules]:
  "reading.keeps (property_of opts cmd e)"
  unfolding reading.keeps_def property_of_def
  by (intro allI reads_shape reading_rules [THEN reads_then] | assumption | simp)+

lemma keeps_device [reading_rules]:
  "reading.keeps GetOsPrettyName"
  "reading.keeps (GetHardwareProperty c tr)"
  "reading.keeps (GetAnotherOsProperty x)"
  "reading.keeps (check_limit cmd good bad)"
  unfolding reading.keeps_def GetOsPrettyName_def GetHardwareProperty_def GetAnotherOsProperty_def check_limit_def
  by (intro allI reads_shape reading_rules [THEN reads_then] | assumption | simp)+

lemma keeps_device2 [reading_rules]:
  "reading.keeps GetCpuFlags"
  "reading.keeps GetOsKernelName"
  "reading.keeps GetOsKernelVersion"
  unfolding reading.keeps_def GetCpuFlags_def GetOsKernelName_def GetOsKernelVersion_def
  by (intro allI reads_shape reading_rules [THEN reads_then] | assumption | simp)+

lemma keeps_GetOsReleaseEntry [reading_rules]:
  "reading.keeps (GetOsReleaseEntry f n c)"
  unfolding reading.keeps_def GetOsReleaseEntry_def
  by (intro allI reads_shape reading_rules [THEN reads_then] | assumption | simp)+

lemma keeps_device3 [reading_rules]:
  "reading.keeps (GetEtcReleaseEntry n)"
  "reading.keeps (GetLsbReleaseEntry n)"
  "reading.keeps (IsCurrentOs nm)"
  "reading.keeps IsRedHatBasedInternal"
  "reading.keeps (CheckCpuFlagSupported x)"
  "reading.keeps GetLoginUmask"
  unfolding reading.keeps_def GetEtcReleaseEntry_def GetLsbReleaseEntry_def IsCurrentOs_def IsRedHatBasedInternal_def CheckCpuFlagSupported_def GetLoginUmask_def
  by (intro allI reads_shape reading_rules [THEN reads_then] | assumption | simp)+

lemma reads_reset [simp]: "reads s (OsConfigResetReason t) \<longleftrightarrow> reads s t"
  by (simp add: OsConfigResetReason_def)

lemma keeps_device4 [reading_rules]:
  "reading.keeps (IsRedHatBased st)"
  "reading.keeps (distro_entry a b)"
  "reading.keeps (CheckLoginUmask u)"
  "reading.keeps CheckCoreDumpsHardLimitIsDisabledForAllUsers"
  "reading.keeps CheckAllWirelessInterfacesAreDisabled"
  "reading.keeps iptables_drops"
  "reading.keeps firewalld_drops"
  unfolding reading.keeps_def IsRedHatBased_def distro_entry_def CheckLoginUmask_def CheckCoreDumpsHardLimitIsDisabledForAllUsers_def CheckAllWirelessInterfacesAreDisabled_def iptables_drops_def firewalld_drops_def
  by (intro allI reads_shape reading_rules [THEN reads_then] | assumption | simp)+

lemma keeps_match_distro [reading_rules]:
  "reading.keeps (match_distro d os k v)"
  "reading.keeps CheckDefaultDenyFirewallPolicy"
  unfolding reading.keeps_def match_distro_def CheckDefaultDenyFirewallPolicy_def
  by (intro allI reads_shape reading_rules [THEN reads_then] | assumption | simp)+

lemma keeps_CheckOsAndKernelMatchDistro [reading_rules]:
  "reading.keeps CheckOsAndKernelMatchDistro"
  unfolding reading.keeps_def CheckOsAndKernelMatchDistro_def
  by (intro allI reads_shape reading_rules [THEN reads_then] | assumption | simp)+

subsection \<open>Checks of the SSH server\<close>

lemma keeps_ssh1 [reading_rules]:
  "reading.keeps (GetSshServerState nm)"
  "reading.keeps IsSshServerActive"
  "reading.keeps IsSshConfigIncludeSupported"
  "reading.keeps (DuplicateStringToLowercase t)"
  "reading.keeps FormatInclusionForRemediation"
  unfolding reading.keeps_def GetSshServerState_def IsSshServerActive_def IsSshConfigIncludeSupported_def DuplicateStringToLowercase_def FormatInclusionForRemediation_def
  by (intro allI reads_shape reading_rules [THEN reads_then] | assumption | simp)+

lemma keeps_for_parts:
  assumes body: "\<And>v r st. reading.keeps (body v r st)"
  shows "reading.keeps (for_parts c body rest status)"
proof (induction "length rest" arbitrary: rest status rule: less_induct)
  case less
  show ?case
  proof (cases "rest = []")
    case True
    then show ?thesis by (simp add: reading.keeps_def for_parts.simps)
  next
    case False
    then have IH: "reading.keeps (for_parts c body (drop (Suc k) rest) st)" for k st
      by (intro less) simp
    show ?thesis
      unfolding reading.keeps_def for_parts.simps [of c body rest] Suc_eq_plus1 [symmetric] using False
      by (intro allI reads_shape body [THEN reads_then] IH [THEN reads_then] reading_rules [THEN reads_then] | assumption | simp)+
  qed
qed

lemma keeps_part_bodies [reading_rules]:
  "reading.keeps (\<lambda>t. if p then ((b, x), capture m t) else ((b', x'), t))"
  "reading.keeps (\<lambda>t. case ask site t of (failed, t1) \<Rightarrow> if failed \<noteq> 0 then ((b, x), t1) else (case run cmd t1 of (r, t2) \<Rightarrow> ((b', r), t2)))"
  unfolding reading.keeps_def
  by (intro allI reads_shape reading_rules [THEN reads_then] | assumption | simp)+

lemmas [reading_rules] = keeps_for_parts [OF keeps_part_bodies(1)] keeps_for_parts [OF keeps_part_bodies(2)]

lemma keeps_ssh2 [reading_rules]:
  "reading.keeps (CheckOnlyApprovedMacAlgorithmsAreUsed a)"
  "reading.keeps (CheckAppropriateCiphersForSsh a)"
  "reading.keeps (CheckSshOptionIsSet opt e)"
  "reading.keeps CheckSshWarningBanner"
  "reading.keeps (protocol_in_include p)"
  unfolding reading.keeps_def CheckOnlyApprovedMacAlgorithmsAreUsed_def CheckAppropriateCiphersForSsh_def CheckSshOptionIsSet_def CheckSshWarningBanner_def protocol_in_include_def
  by (intro allI reads_shape reading_rules [THEN reads_then] | assumption | simp)+

lemma keeps_ssh3 [reading_rules]:
  "reading.keeps (check_option nm e)"
  "reading.keeps (CheckSshOptionIsSetToInteger opt ev av)"
  "reading.keeps (CheckAllowDenyUsersGroups l x)"
  "reading.keeps CheckSshProtocol"
  unfolding reading.keeps_def check_option_def CheckSshOptionIsSetToInteger_def CheckAllowDenyUsersGroups_def CheckSshProtocol_def
  by (intro allI reads_shape reading_rules [THEN reads_then] | assumption | simp)+

lemma keeps_ssh4 [reading_rules]:
  "reading.keeps CheckSshClientAliveInterval"
  "reading.keeps (CheckSshLoginGraceTime a)"
  "reading.keeps (CheckSshMaxAuthTries a)"
  unfolding reading.keeps_def CheckSshClientAliveInterval_def CheckSshLoginGraceTime_def CheckSshMaxAuthTries_def
  by (intro allI reads_shape reading_rules [THEN reads_then] | assumption | simp)+

lemma reads_allow_deny: "reads s t \<Longrightarrow> reads s (allow_deny nm e t)"
  unfolding allow_deny_def
  by (intro reads_shape reading_rules [THEN reads_then] | assumption)+

lemma reads_ssh_audit: "reads s t \<Longrightarrow> reads s (ssh_audit rule t)"
  unfolding ssh_audit_def
  by (intro reads_shape reads_allow_deny reading_rules [THEN reads_then] | assumption)+

lemma not_remediate: "prefix ''audit'' n \<Longrightarrow> strip_verb ''remediate'' n = None"
  by (auto simp: strip_verb_def prefix_def)

lemma reads_baseline_fields [simp]:
  "reads s (t\<lparr>desired := d\<rparr>) \<longleftrightarrow> reads s t"
  "reads r (u\<lparr>red_hat := c\<rparr>) \<longleftrightarrow> reads r u"
  by (simp_all add: reads_def same_host_def)

lemma keeps_ProcessSshAuditCheck: "prefix ''audit'' n \<Longrightarrow> reading.keeps (ProcessSshAuditCheck (Some n) None)"
  unfolding reading.keeps_def ProcessSshAuditCheck_def simp_thms if_False
  by (intro allI reads_shape reads_ssh_audit reading_rules [THEN reads_then] | assumption | simp add: not_remediate)+

subsection \<open>Actions that only read\<close>

definition only_reads :: "('a baseline_scheme, 'b) act \<Rightarrow> bool" where
  "only_reads f \<longleftrightarrow> (\<forall>s x t. f s = Some (x, t) \<longrightarrow> reads s t)"

lemma only_readsI: "(\<And>s x t. f s = Some (x, t) \<Longrightarrow> reads s t) \<Longrightarrow> only_reads f"
  by (simp add: only_reads_def)

lemma only_readsD: "only_reads f \<Longrightarrow> f s = Some (x, t) \<Longrightarrow> reads s t"
  by (simp add: only_reads_def)

lemma only_reads_call: "reading.keeps f \<Longrightarrow> only_reads (call f)"
  by (rule only_readsI) (auto simp: call_def dest: reading.keeps_pair)

lemma only_reads_ret: "only_reads (ret x)"
  by (simp add: only_reads_def ret_def)

lemma only_reads_andThen: "only_reads f \<Longrightarrow> (\<And>x. only_reads (g x)) \<Longrightarrow> only_reads (andThen f g)"
  by (rule only_readsI) (auto simp: andThen_def split: option.splits dest!: only_readsD intro: reading.rel_trans)

lemma only_reads_branch: "only_reads c \<Longrightarrow> only_reads f \<Longrightarrow> only_reads g \<Longrightarrow> only_reads (branch c f g)"
  by (simp add: branch_def only_reads_andThen)

lemma only_reads_conditions:
  "only_reads f \<Longrightarrow> only_reads (is_zero f)" "only_reads c \<Longrightarrow> only_reads (negate c)"
  "only_reads c \<Longrightarrow> only_reads d \<Longrightarrow> only_reads (both c d)" "only_reads c \<Longrightarrow> only_reads d \<Longrightarrow> only_reads (either c d)"
  "only_reads c \<Longrightarrow> only_reads (status_of c)"
  by (simp_all add: is_zero_def negate_def both_def either_def status_of_def only_reads_andThen only_reads_ret only_reads_branch)

lemma only_reads_statements:
  "only_reads f \<Longrightarrow> only_reads g \<Longrightarrow> only_reads (seq f g)" "only_reads f \<Longrightarrow> only_reads (ignore f)"
  "only_reads v \<Longrightarrow> only_reads u \<Longrightarrow> only_reads (return_if_zero v u)"
  "only_reads v \<Longrightarrow> only_reads u \<Longrightarrow> only_reads (return_if_not_zero v u)"
  by (simp_all add: seq_def ignore_def return_if_zero_def return_if_not_zero_def only_reads_andThen only_reads_ret
      only_reads_branch only_reads_conditions)

lemma reads_why_left [simp]: "reads (s\<lparr>why := r\<rparr>) t \<longleftrightarrow> reads s t"
  by (simp add: reads_def same_host_def quiet_shell_def)

lemma only_reads_audit: "only_reads f \<Longrightarrow> only_reads (audit f)"
  by (rule only_readsI) (auto simp: audit_def split: option.splits dest!: only_readsD)

lemma only_reads_checks:
  "only_reads (check f1)" "only_reads (check_or_crash f2)" "only_reads (file_exists p)" "only_reads (is_a_file p)"
  "only_reads (extend_reason t)" "only_reads (convert v base)" "only_reads is_red_hat_based"
  by (auto simp: only_reads_def check_def check_or_crash_def file_exists_def is_a_file_def extend_reason_def convert_def is_red_hat_based_def
      format_text_def split: prod.splits option.splits if_splits dest!: reading.keeps_pair [OF keeps_device4(1)])

lemma only_reads_texts:
  "only_reads (put_reason (format_text t))" "only_reads (put_reason (duplicate t))"
  by (auto simp: only_reads_def put_reason_def format_text_def duplicate_def)

lemma only_reads_or_crash: "reading.keeps f \<Longrightarrow> only_reads (or_crash f)"
  by (rule only_readsI) (auto simp: or_crash_def split: prod.splits option.splits dest: reading.keeps_pair)

lemma only_reads_state: "(\<And>s. only_reads (f s)) \<Longrightarrow> only_reads (with_state f)"
  by (auto simp: only_reads_def with_state_def)

lemma only_reads_let: "(\<And>y. only_reads (f y)) \<Longrightarrow> only_reads (let y = x in f y)"
  by (simp add: Let_def)

lemma only_reads_if: "only_reads f \<Longrightarrow> only_reads g \<Longrightarrow> only_reads (if c then f else g)"
  by simp

lemma dot_files_reads: "snd (dot_files m nm False i us acc w) = w"
  by (induction us arbitrary: i acc) (auto split: option.splits)

lemma only_reads_users_dot_files: "only_reads (users_dot_files nm False)"
proof (rule only_readsI)
  fix s :: "'a baseline_scheme" and x t
  assume "users_dot_files nm False s = Some (x, t)"
  then show "reads s t"
    using dot_files_reads [of "now s"]
    by (auto simp: users_dot_files_def CheckOrEnsureUsersDontHaveDotFiles_def reads_def same_host_def tick_def
        split: option.splits prod.splits if_splits) (metis snd_conv)+
qed

lemma only_reads_audit_numbers: "(\<And>vs. only_reads (f vs)) \<Longrightarrow> only_reads (audit_numbers var d base ok hint f)"
  unfolding audit_numbers_def
  by (rule only_reads_state)
    (auto intro!: only_reads_andThen only_reads_checks only_reads_texts only_reads_statements split: prod.splits)

lemmas only_reads_rules = only_reads_audit only_reads_audit_numbers only_reads_statements only_reads_conditions only_reads_branch
  only_reads_andThen only_reads_checks only_reads_texts only_reads_or_crash only_reads_users_dot_files only_reads_state
  only_reads_if only_reads_call only_reads_ret

lemma audits_1_read: "list_all (\<lambda>(ob, f). only_reads f) (tl audit_objects_1)"
  unfolding audit_objects_1_def list.sel list.pred_inject prod.case audits Let_def
  by (intro conjI TrueI only_reads_rules reading_rules keeps_ProcessSshAuditCheck | simp)+

lemma audits_2_read: "list_all (\<lambda>(ob, f). only_reads f) audit_objects_2"
  unfolding audit_objects_2_def list.sel list.pred_inject prod.case audits Let_def
  by (intro conjI TrueI only_reads_rules reading_rules keeps_ProcessSshAuditCheck | simp)+

lemma audits_3_read: "list_all (\<lambda>(ob, f). only_reads f) audit_objects_3"
  unfolding audit_objects_3_def list.sel list.pred_inject prod.case audits Let_def
  by (intro conjI TrueI only_reads_rules reading_rules keeps_ProcessSshAuditCheck | simp)+

lemma audits_4_read: "list_all (\<lambda>(ob, f). only_reads f) audit_objects_4"
  unfolding audit_objects_4_def list.sel list.pred_inject prod.case audits Let_def
  by (intro conjI TrueI only_reads_rules reading_rules keeps_ProcessSshAuditCheck | simp)+

lemma audits_5_read: "list_all (\<lambda>(ob, f). only_reads f) audit_objects_5"
  unfolding audit_objects_5_def list.sel list.pred_inject prod.case audits Let_def
  by (intro conjI TrueI only_reads_rules reading_rules keeps_ProcessSshAuditCheck | simp)+

lemma audit_objects_first: "audit_objects = (''auditEnsureLoggingLevel'', AuditEnsureLoggingLevel) # tl audit_objects"
  by (simp add: audit_objects_def audit_objects_1_def)

lemma audits_read: "(ob, f) \<in> set (tl audit_objects) \<Longrightarrow> only_reads f"
  using audits_1_read audits_2_read audits_3_read audits_4_read audits_5_read
  by (auto simp: audit_objects_def list_all_iff tl_append audit_objects_1_def split: list.splits)

end
