(* ===== verification/SecurityBaseline.thy ===== *)
theory SecurityBaseline
  imports Asb ManagerProps
begin

text \<open>
  The SecurityBaseline module (\<open>src/modules/securitybaseline/src/lib/SecurityBaseline.c\<close>): a session shared by all clients
  around the baseline of \<open>src/common/asb/Asb.c\<close>. \<open>str\<close> is the C string at an address, \<open>self\<close> the address of the name of the
  module, which is its session handle. A crash of the process is \<open>None\<close>.
\<close>

record security_baseline = asb +
  sb_referenceCount :: int
  sb_maxPayloadSizeBytes :: "32 word"

definition g_securityBaselineModuleName :: string where
  "g_securityBaselineModuleName = ''OSConfig SecurityBaseline module''"

definition SecurityBaselineInitialize :: "(security_baseline, unit) act" where
  "SecurityBaselineInitialize = AsbInitialize"

definition SecurityBaselineShutdown :: "security_baseline \<Rightarrow> security_baseline" where
  "SecurityBaselineShutdown = AsbShutdown"

definition SecurityBaselineMmiOpen ::
  "MMI_HANDLE \<Rightarrow> cstr \<Rightarrow> 32 word \<Rightarrow> security_baseline \<Rightarrow> MMI_HANDLE \<times> security_baseline" where
  "SecurityBaselineMmiOpen self clientName maxPayloadSizeBytes s =
     (self, s\<lparr>sb_maxPayloadSizeBytes := maxPayloadSizeBytes, sb_referenceCount := sb_referenceCount s + 1\<rparr>)"

definition IsValidSession :: "(MMI_HANDLE \<Rightarrow> string) \<Rightarrow> MMI_HANDLE \<Rightarrow> security_baseline \<Rightarrow> bool" where
  "IsValidSession str h s \<longleftrightarrow> h \<noteq> 0 \<and> str h = g_securityBaselineModuleName \<and> 0 < sb_referenceCount s"

definition SecurityBaselineMmiClose :: "(MMI_HANDLE \<Rightarrow> string) \<Rightarrow> MMI_HANDLE \<Rightarrow> security_baseline \<Rightarrow> security_baseline" where
  "SecurityBaselineMmiClose str h s =
     (if IsValidSession str h s then s\<lparr>sb_referenceCount := sb_referenceCount s - 1\<rparr> else s)"

definition g_securityBaselineModuleInfo :: string where
  "g_securityBaselineModuleInfo =
     ''{'' @ quoted ''Name'' @ '': '' @ quoted ''SecurityBaseline'' @ '','' @
     quoted ''Description'' @ '': '' @ quoted ''Provides functionality to audit and remediate Security Baseline policies on device'' @ '','' @
     quoted ''Manufacturer'' @ '': '' @ quoted ''Microsoft'' @ '','' @
     quoted ''VersionMajor'' @ '': 2,'' @
     quoted ''VersionMinor'' @ '': 0,'' @
     quoted ''VersionInfo'' @ '': '' @ quoted ''Dilithium'' @ '','' @
     quoted ''Components'' @ '': ['' @ quoted ''SecurityBaseline'' @ ''],'' @
     quoted ''Lifetime'' @ '': 2,'' @
     quoted ''UserAccount'' @ '': 0}''"

definition SecurityBaselineMmiGetInfo :: "cstr \<Rightarrow> security_baseline \<Rightarrow> (int \<times> cstr \<times> int) \<times> security_baseline" where
  "SecurityBaselineMmiGetInfo clientName s =
     (case ask ''malloc'' s of
        (failed, s1) \<Rightarrow>
          if failed = 0 then ((MMI_OK, Some g_securityBaselineModuleInfo, int (length g_securityBaselineModuleInfo)), s1)
          else ((ENOMEM, None, 0), s1))"

definition SecurityBaselineMmiGet ::
  "(MMI_HANDLE \<Rightarrow> string) \<Rightarrow> MMI_HANDLE \<Rightarrow> cstr \<Rightarrow> cstr \<Rightarrow> (security_baseline, int \<times> cstr \<times> int) act" where
  "SecurityBaselineMmiGet str h componentName objectName s =
     (if componentName = None \<or> objectName = None then Some ((EINVAL, None, 0), s)
      else if IsValidSession str h s then AsbMmiGet componentName objectName (sb_maxPayloadSizeBytes s) s
      else Some ((EINVAL, None, 0), s))"

definition SecurityBaselineMmiSet ::
  "(MMI_HANDLE \<Rightarrow> string) \<Rightarrow> MMI_HANDLE \<Rightarrow> cstr \<Rightarrow> cstr \<Rightarrow> cstr \<Rightarrow> int \<Rightarrow> (security_baseline, int) act" where
  "SecurityBaselineMmiSet str h componentName objectName payload n s =
     (if IsValidSession str h s then AsbMmiSet componentName objectName payload n s else Some (EINVAL, s))"

definition SecurityBaselineMmiFree :: "cstr \<Rightarrow> security_baseline \<Rightarrow> security_baseline" where
  "SecurityBaselineMmiFree payload s = s"

text \<open>The entry points over a process that may have crashed.\<close>

definition security_baseline_mmi :: "(MMI_HANDLE \<Rightarrow> string) \<Rightarrow> MMI_HANDLE \<Rightarrow> security_baseline option mmi" where
  "security_baseline_mmi str self =
     \<lparr>mmiOpen = (\<lambda>cn mx w. case w of None \<Rightarrow> (0, None)
        | Some s \<Rightarrow> (case SecurityBaselineMmiOpen self cn mx s of (h, s') \<Rightarrow> (h, Some s'))),
      mmiClose = (\<lambda>h. map_option (SecurityBaselineMmiClose str h)),
      mmiGetInfo = (\<lambda>cn w. case w of None \<Rightarrow> ((EINVAL, None, 0), None)
        | Some s \<Rightarrow> (case SecurityBaselineMmiGetInfo cn s of (r, s') \<Rightarrow> (r, Some s'))),
      mmiSet = (\<lambda>h c ob p n w. case w of None \<Rightarrow> (EINVAL, None)
        | Some s \<Rightarrow> (case SecurityBaselineMmiSet str h c ob p n s of
             None \<Rightarrow> (EINVAL, None) | Some (status, s') \<Rightarrow> (status, Some s'))),
      mmiGet = (\<lambda>h c ob w. case w of None \<Rightarrow> ((EINVAL, None, 0), None)
        | Some s \<Rightarrow> (case SecurityBaselineMmiGet str h c ob s of
             None \<Rightarrow> ((EINVAL, None, 0), None) | Some (r, s') \<Rightarrow> (r, Some s'))),
      mmiFree = (\<lambda>p. map_option (SecurityBaselineMmiFree p))\<rparr>"

lemma audit_payload_delivers:
  "audit_payload mx result s = ((0, p, n), s') \<Longrightarrow> \<exists>bs. p = Some bs \<and> n = int (length bs)"
  by (auto simp: audit_payload_def payload_size_def Let_def codes split: prod.splits option.splits if_splits dest: sym)

lemma AsbMmiGet_delivers:
  "AsbMmiGet c ob mx s = Some ((0, p, n), s') \<Longrightarrow> \<exists>bs. p = Some bs \<and> n = int (length bs)"
  by (auto simp: AsbMmiGet_def codes split: option.splits if_splits prod.splits dest: audit_payload_delivers)

interpretation security_baseline: mmi_module "security_baseline_mmi str self" for str self
  by unfold_locales
    (auto simp: security_baseline_mmi_def SecurityBaselineMmiGet_def codes split: option.splits prod.splits if_splits
      dest!: AsbMmiGet_delivers)

end
