(* ===== verification/AsbProps.thy ===== *)
theory AsbProps
  imports AuditEffects SecurityBaseline JsonText
begin

text \<open>
  Properties of the security baseline: audits read, calls that set a desired value change nothing on the host, every rule has
  its objects, a client gets the reason of an audit, and the remediations of permissions make their audits pass.
\<close>

subsection \<open>A sample\<close>

text \<open>A host with \<open>/etc/issue\<close>, whose commands change nothing and print nothing.\<close>

definition issue_fs :: fs where
  "issue_fs = \<lparr>node = [''/etc/issue'' \<mapsto> \<lparr>is_dir = False, bytes = ''hello'', st_uid = 0, st_gid = 7, st_mode = MODE_0644\<rparr>],
     new_file = \<lparr>is_dir = False, bytes = [], st_uid = 0, st_gid = 0, st_mode = MODE_0660\<rparr>, line_max = 16\<rparr>"

definition issue_host :: host where
  "issue_host = \<lparr>host_fs = issue_fs, getpwent = [], getspnam = (\<lambda>_. None), spnam_errno = (\<lambda>_. 0), getgrent = [],
     getgrgid = (\<lambda>_. None), grgid_errno = (\<lambda>_. 0), getgrouplist = (\<lambda>_ _. []), today = 0\<rparr>"

definition sample_asb :: asb where
  "sample_asb = \<lparr>faults = sys_ok, calls = 0, shell_exec = (\<lambda>cmd w. (0, None, w)), random = (\<lambda>_. 0), readdir_of = (\<lambda>_. None),
     new_dir = \<lparr>is_dir = True, bytes = [], st_uid = 0, st_gid = 0, st_mode = 0\<rparr>, host_of = issue_host, why = None,
     g_checkedPackageManagersPresence = False, g_aptGetIsPresent = False, g_dpkgIsPresent = False, g_tdnfIsPresent = False,
     g_dnfIsPresent = False, g_yumIsPresent = False, g_zypperIsPresent = False, g_rpmIsPresent = False,
     g_aptGetUpdateExecuted = False, g_zypperRefreshExecuted = False, g_tdnfCheckUpdateExecuted = False,
     g_dnfCheckUpdateExecuted = False, g_yumCheckUpdateExecuted = False, g_updateInstalledPackagesCache = False,
     g_installedPackagesCache = None, desired = (\<lambda>_. None), g_auditOnlySession = True, g_auditOnly = True, process_level = 6,
     process_log_size = 1048576, process_log_multiplier = 5, red_hat = (True, False), g_prettyName = None, g_selinuxPresent = False,
     lstat_of = (\<lambda>_. None)\<rparr>"

lemma sample_asb_fields [simp]:
  "faults sample_asb = sys_ok" "quiet_shell sample_asb" "node (fs_of sample_asb) ''/etc/issue'' \<noteq> None"
  by (simp_all add: sample_asb_def quiet_shell_def fs_of_def issue_host_def issue_fs_def)

lemma issue_object: "map_of audit_objects ''auditEnsurePermissionsOnEtcIssue'' = Some AuditEnsurePermissionsOnEtcIssue"
  by (simp add: audit_objects_def audit_objects_1_def)

lemma issue_audit: "\<exists>r t. AuditEnsurePermissionsOnEtcIssue s = Some (r, t) \<and> faults t = faults s"
  by (simp add: AuditEnsurePermissionsOnEtcIssue_def acts CheckFileAccess_def CheckAccess_r_def access_text_def tick_def
      capture_same_def capture_def capture_success_def split: option.splits)

subsection \<open>Audits only read\<close>

lemma reads_audit_payload: "reads s (snd (audit_payload mx r s))"
proof -
  have "reads s (snd (valid_result r s))"
    by (simp add: valid_result_def duplicate_def)
  then show ?thesis
    by (auto simp: audit_payload_def Let_def ask_def split: prod.splits option.splits)
qed

lemma map_of_audit_objects: "map_of audit_objects ob = (if ob = ''auditEnsureLoggingLevel'' then Some AuditEnsureLoggingLevel else map_of (tl audit_objects) ob)"
  using arg_cong [OF audit_objects_first, of "\<lambda>xs. map_of xs ob"] by (simp only: map_of.simps fst_conv snd_conv fun_upd_apply)

lemma AsbMmiGet_reads:
  assumes "AsbMmiGet c ob mx s = Some (r, t)" and "ob \<noteq> Some ''auditEnsureLoggingLevel''"
  shows "reads s t"
proof (cases "\<exists>f result s1 o'. ob = Some o' \<and> map_of audit_objects o' = Some f \<and> f s = Some (result, s1) \<and> t = snd (audit_payload mx result s1)")
  case True
  then obtain f result s1 o' where f: "ob = Some o'" "map_of audit_objects o' = Some f" "f s = Some (result, s1)"
    and t: "t = snd (audit_payload mx result s1)" by blast
  have "o' \<noteq> ''auditEnsureLoggingLevel''" using assms(2) f(1) by blast
  then have "map_of (tl audit_objects) o' = Some f"
    using f(2) by (simp only: map_of_audit_objects [of o'] if_False)
  then have "only_reads f" using audits_read map_of_SomeD by metis
  then have "reads s s1" using f(3) by (rule only_readsD)
  from reading.rel_trans [OF this reads_audit_payload] show ?thesis by (simp add: t)
next
  case False
  then have "t = s"
    using assms(1) by (force simp: AsbMmiGet_def split: option.splits if_splits)
  then show ?thesis by simp
qed



subsection \<open>Desired values\<close>

definition same_session :: "'a asb_scheme \<Rightarrow> 'a asb_scheme \<Rightarrow> bool" where
  "same_session s t \<longleftrightarrow> host_of t = host_of s \<and> shell_exec t = shell_exec s \<and> g_auditOnly t = g_auditOnly s \<and>
     g_auditOnlySession t = g_auditOnlySession s"

definition keeps_session :: "('a asb_scheme, 'b) act \<Rightarrow> bool" where
  "keeps_session f \<longleftrightarrow> (\<forall>s. \<exists>x t. f s = Some (x, t) \<and> same_session s t)"

lemma same_session_refl [simp]: "same_session s s"
  by (simp add: same_session_def)

lemma same_session_trans: "same_session s t \<Longrightarrow> same_session t u \<Longrightarrow> same_session s u"
  by (simp add: same_session_def)

lemma ReplaceString_session: "keeps_session (ReplaceString var v d)"
  by (auto simp: keeps_session_def same_session_def ReplaceString_def duplicate_def put_desired_def tick_def)

lemma new_value_session:
  "new_value rule d v s = (x, t) \<Longrightarrow> same_session s t"
  by (auto simp: same_session_def new_value_def duplicate_def tick_def split: if_splits)

lemma InitializeSshAuditCheck_session: "keeps_session (call (InitializeSshAuditCheck nm v))"
  by (auto simp: keeps_session_def call_def InitializeSshAuditCheck_def put_desired_def same_session_def split: option.splits prod.splits
      dest!: new_value_session)

lemma inits_1: "list_all (\<lambda>(ob, f). prefix ''init'' ob \<longrightarrow> (\<forall>v. keeps_session (f v))) remediate_objects_1"
  by (simp add: remediate_objects_1_def inits ReplaceString_session InitializeSshAuditCheck_session)

lemma inits_2: "list_all (\<lambda>(ob, f). prefix ''init'' ob \<longrightarrow> (\<forall>v. keeps_session (f v))) remediate_objects_2"
  by (simp add: remediate_objects_2_def inits ReplaceString_session InitializeSshAuditCheck_session)

lemma inits_3: "list_all (\<lambda>(ob, f). prefix ''init'' ob \<longrightarrow> (\<forall>v. keeps_session (f v))) remediate_objects_3"
  by (simp add: remediate_objects_3_def inits ReplaceString_session InitializeSshAuditCheck_session)

lemma inits_4: "list_all (\<lambda>(ob, f). prefix ''init'' ob \<longrightarrow> (\<forall>v. keeps_session (f v))) remediate_objects_4"
  by (simp add: remediate_objects_4_def inits ReplaceString_session InitializeSshAuditCheck_session)

lemma inits_5: "list_all (\<lambda>(ob, f). prefix ''init'' ob \<longrightarrow> (\<forall>v. keeps_session (f v))) remediate_objects_5"
  by (simp add: remediate_objects_5_def inits ReplaceString_session InitializeSshAuditCheck_session)

lemma inits_6: "list_all (\<lambda>(ob, f). prefix ''init'' ob \<longrightarrow> (\<forall>v. keeps_session (f v))) remediate_objects_6"
  by (simp add: remediate_objects_6_def inits ReplaceString_session InitializeSshAuditCheck_session)

lemma inits_7: "list_all (\<lambda>(ob, f). prefix ''init'' ob \<longrightarrow> (\<forall>v. keeps_session (f v))) remediate_objects_7"
  by (simp add: remediate_objects_7_def inits ReplaceString_session InitializeSshAuditCheck_session)

lemma inits_keep_session: "map_of remediate_objects ob = Some f \<Longrightarrow> prefix ''init'' ob \<Longrightarrow> keeps_session (f v)"
  using inits_1 inits_2 inits_3 inits_4 inits_5 inits_6 inits_7
  by (auto simp: remediate_objects_def list_all_iff map_add_Some_iff dest!: map_of_SomeD)

lemma payload_string_session:
  assumes "p = None \<or> n \<le> 0 \<or> nat n \<le> length (the p)"
  shows "\<exists>status js t. payload_string p n s = Some ((status, js), t) \<and> same_session s t"
  using assms by (auto simp: payload_string_def same_session_def ask_def tick_def split: option.splits)

lemma end_audit_only_init:
  "prefix ''init'' ob \<Longrightarrow> same_session s (end_audit_only ob s)"
  by (simp add: same_session_def end_audit_only_def ask_def tick_def)

lemma remediate_object_session:
  fixes s :: "'a asb_scheme"
  assumes "prefix ''init'' ob" and "p = None \<or> n \<le> 0 \<or> nat n \<le> length (the p)"
  shows "\<exists>r t. remediate_object c ob p n s = Some (r, t) \<and> same_session s t"
proof (cases "c = Some g_securityBaselineComponentName")
  case True
  obtain status js s1 where s1: "payload_string p n s = Some ((status, js), s1)" "same_session s s1"
    using payload_string_session [OF assms(2)] by blast
  define g :: "('a asb_scheme, int) act" where "g = (case map_of remediate_objects ob of None \<Rightarrow> ret EINVAL | Some f \<Rightarrow> f js)"
  have "keeps_session g"
    using inits_keep_session [OF _ assms(1), of _ js]
    by (auto simp: g_def keeps_session_def ret_def split: option.split)
  moreover have "remediate_object c ob p n s = (if status \<noteq> 0 then Some (status, s1) else g s1)"
    using True s1(1) by (simp add: remediate_object_def andThen_def ret_def g_def)
  moreover obtain x t where "g s1 = Some (x, t)" "same_session s1 t"
    using \<open>keeps_session g\<close> unfolding keeps_session_def by blast
  ultimately show ?thesis using s1 same_session_trans by simp blast
next
  case False
  then show ?thesis by (simp add: remediate_object_def ret_def)
qed

lemma AsbMmiSet_init_session:
  assumes "prefix ''init'' ob" and "p = None \<or> n \<le> 0 \<or> nat n \<le> length (the p)"
  shows "\<exists>r t. AsbMmiSet c (Some ob) p n s = Some (r, t) \<and> same_session s t"
proof (cases c)
  case (Some c')
  obtain r t where "remediate_object c ob p n s = Some (r, t)" "same_session s t"
    using remediate_object_session [OF assms] by blast
  then show ?thesis using same_session_trans [OF _ end_audit_only_init [OF assms(1), of t]] by (simp add: AsbMmiSet_def Some)
qed (simp add: AsbMmiSet_def)

text \<open>C30: An object that sets a desired value returns, changes nothing on the host and keeps the session audit-only, whatever the
  payload and whatever fails.\<close>

theorem AsbMmiSet_init:
  assumes "prefix ''init'' ob" and "p = None \<or> n \<le> 0 \<or> nat n \<le> length (the p)"
  shows "\<exists>r t. AsbMmiSet c (Some ob) p n s = Some (r, t) \<and> host_of t = host_of s \<and> g_auditOnly t = g_auditOnly s"
  using AsbMmiSet_init_session [OF assms] unfolding same_session_def by blast

theorem AsbMmiSet_init_witness:
  "\<exists>r t. AsbMmiSet (Some g_securityBaselineComponentName) (Some ''initEnsurePermissionsOnEtcIssue'') None 0 sample_asb = Some (r, t) \<and>
    host_of t = host_of sample_asb \<and> g_auditOnly t = g_auditOnly sample_asb"
  by (rule AsbMmiSet_init) simp_all

subsection \<open>An audit-only session\<close>

text \<open>The calls of a client that only audits: gets, and sets of desired values. The audit of the logging level writes the
  configuration file on purpose and is left out.\<close>

inductive audit_step :: "'a asb_scheme \<Rightarrow> 'a asb_scheme \<Rightarrow> bool" where
  get: "AsbMmiGet c ob mx s = Some (r, t) \<Longrightarrow> ob \<noteq> Some ''auditEnsureLoggingLevel'' \<Longrightarrow> audit_step s t"
| init: "AsbMmiSet c (Some ob) p n s = Some (r, t) \<Longrightarrow> prefix ''init'' ob \<Longrightarrow> p = None \<or> n \<le> 0 \<or> nat n \<le> length (the p) \<Longrightarrow>
    audit_step s t"

definition untouched :: "'a asb_scheme \<Rightarrow> 'a asb_scheme \<Rightarrow> bool" where
  "untouched s t \<longleftrightarrow> host_of t = host_of s \<and> quiet_shell t \<and> g_auditOnlySession t"

lemma audit_step_untouched:
  assumes "audit_step s t" and "quiet_shell s" and "g_auditOnlySession s"
  shows "untouched s t"
  using assms
proof (cases rule: audit_step.cases)
  case (get c ob mx r)
  from AsbMmiGet_reads [OF get] show ?thesis
    using assms(2,3) by (simp add: reads_def same_host_def untouched_def quiet_shell_def)
next
  case (init c ob p n r)
  from AsbMmiSet_init_session [OF init(2,3), of c s] show ?thesis using init(1) assms(2,3)
    by (auto simp: same_session_def untouched_def quiet_shell_def)
qed

lemma audit_steps_untouched:
  assumes "audit_step\<^sup>*\<^sup>* s t" and "quiet_shell s" and "g_auditOnlySession s"
  shows "untouched s t"
  using assms(1)
proof (induction rule: rtranclp_induct)
  case base
  then show ?case using assms(2,3) by (simp add: untouched_def)
next
  case (step t u)
  then show ?case using audit_step_untouched [of t u] by (simp add: untouched_def)
qed

lemma SetFileAccess_elsewhere: "p \<noteq> q \<Longrightarrow> node (fs_of (snd (SetFileAccess (Some q) u g a s))) p = node (fs_of s) p"
  by (simp add: SetFileAccess_def edit_fs_def SetAccess_def Let_def put_node_def fs_of_def put_fs_def tick_def split: option.split)



subsection \<open>Permissions\<close>

lemma access_text_ok:
  assumes "node (fs_of s) p = Some n" and "m ''stat'' 0 = 0" and "CheckAccess m False (Some p) u g a (fs_of s) = 0"
  shows "\<exists>msg. access_text m False (Some p) u g a s = capture_success msg s"
  using assms by (auto simp: access_text_def CheckAccess_def found_as_def codes split: if_splits)

lemma SetAccess_file:
  assumes "node st p = Some n" and "a AND MODE_07777 = desired_mode False a"
  shows "\<exists>n'. SetAccess sys_ok False (Some p) 0 0 a st = (0, put_node p (Some n') st) \<and>
    CheckAccess sys_ok False (Some p) 0 0 a (put_node p (Some n') st) = 0"
proof (cases "CheckAccess sys_ok False (Some p) 0 0 a st = 0")
  case True
  then show ?thesis
    using assms put_node_same [of st p "Some n"]
    by (intro exI [of _ n]) (simp add: SetAccess_def found_as_def)
next
  case False
  have mode: "(a AND MODE_07777) AND MODE_07777 = a AND MODE_07777" by (simp add: and.assoc)
  show ?thesis
    using False assms mode
    by (intro exI [of _ "(chown_node 0 0 n)\<lparr>st_mode := a AND MODE_07777\<rparr>"])
      (simp add: SetAccess_def CheckAccess_def found_as_def chown_node_def Let_def)
qed

lemma now_ok: "faults s = sys_ok \<Longrightarrow> now s = sys_ok"
  by (simp add: now_def)

lemma permission_remediated:
  fixes s :: "'a asb_scheme"
  assumes ok: "faults s = sys_ok" and f: "node (fs_of s) p \<noteq> None" and v: "v \<noteq> []"
    and m: "octal_value v AND MODE_07777 = desired_mode False (octal_value v)"
  shows "\<exists>s1 r s2. seq (ReplaceString var (Some v) dflt) (with_desired var (\<lambda>d. call (SetFileAccess (Some p) 0 0 (octal_value d)))) s = Some (0, s1) \<and>
     audit (with_state (\<lambda>s. ignore (call (CheckFileAccess (Some p) 0 0 (octal_value (desired_or var dflt s)))))) s1 = Some (Some r, s2) \<and>
     prefix SECURITY_AUDIT_PASS r"
proof -
  define t where "t = put_desired var (Some v) (tick s)"
  have t: "faults t = sys_ok" "fs_of t = fs_of s" "desired t var = Some v"
    using ok by (simp_all add: t_def put_desired_def tick_def fs_of_def)
  obtain n' where n': "SetAccess sys_ok False (Some p) 0 0 (octal_value v) (fs_of t) = (0, put_node p (Some n') (fs_of t))"
    "CheckAccess sys_ok False (Some p) 0 0 (octal_value v) (put_node p (Some n') (fs_of t)) = 0"
    using f SetAccess_file [OF _ m] t(2) by fastforce
  define u where "u = tick (put_fs (put_node p (Some n') (fs_of t)) t)"
  have u: "faults u = sys_ok" "fs_of u = put_node p (Some n') (fs_of t)" "desired u var = Some v"
    using t by (simp_all add: u_def put_fs_def tick_def fs_of_def)
  have 1: "ReplaceString var (Some v) dflt s = Some (0, t)"
    using ok v by (simp add: ReplaceString_def duplicate_def now_ok valid_value_def t_def)
  have 2: "with_desired var (\<lambda>d. call (SetFileAccess (Some p) 0 0 (octal_value d))) t = Some (0, u)"
    using t n'(1) by (simp add: with_desired_def call_def SetFileAccess_def edit_fs_def now_ok u_def)
  define w where "w = u\<lparr>why := Some None\<rparr>"
  have w: "faults w = sys_ok" "fs_of w = put_node p (Some n') (fs_of t)" "desired_or var dflt w = v" "why w = Some None"
    using u by (simp_all add: w_def fs_of_def desired_or_def)
  obtain msg where msg: "access_text sys_ok False (Some p) 0 0 (octal_value v) w = capture_success msg w"
    using access_text_ok [of w p n' sys_ok 0 0 "octal_value v"] n'(2) w(2) by auto
  have "audit (with_state (\<lambda>s. ignore (call (CheckFileAccess (Some p) 0 0 (octal_value (desired_or var dflt s)))))) u =
      Some (reason_of (why (capture_success msg w)), (tick (capture_success msg w))\<lparr>why := why u\<rparr>)"
    using w msg by (simp add: audit_def with_state_def ignore_def seq_def andThen_def call_def ret_def CheckFileAccess_def CheckAccess_r_def
        now_ok w_def [symmetric] tick_def)
  moreover have "\<exists>r. reason_of (why (capture_success msg w)) = Some r \<and> prefix SECURITY_AUDIT_PASS r"
    using w(4) by (simp add: capture_success_def OsConfigCaptureSuccessReason_def reason_of_def)
  ultimately show ?thesis
    using 1 2 by (auto simp: seq_def andThen_def)
qed

text \<open>The rules that fix the mode of one file that belongs to root: its audit, its remediation and the file.\<close>

definition permission_rules :: "(('a asb_scheme, cstr) act \<times> (cstr \<Rightarrow> ('a asb_scheme, int) act) \<times> string) list" where
  "permission_rules =
     [(AuditEnsurePermissionsOnEtcIssue, RemediateEnsurePermissionsOnEtcIssue, g_etcIssue),
      (AuditEnsurePermissionsOnEtcIssueNet, RemediateEnsurePermissionsOnEtcIssueNet, g_etcIssueNet),
      (AuditEnsurePermissionsOnEtcHostsAllow, RemediateEnsurePermissionsOnEtcHostsAllow, g_etcHostsAllow),
      (AuditEnsurePermissionsOnEtcHostsDeny, RemediateEnsurePermissionsOnEtcHostsDeny, g_etcHostsDeny),
      (AuditEnsurePermissionsOnEtcPasswd, RemediateEnsurePermissionsOnEtcPasswd, g_etcPasswd),
      (AuditEnsurePermissionsOnEtcPasswdDash, RemediateEnsurePermissionsOnEtcPasswdDash, g_etcPasswdDash),
      (AuditEnsurePermissionsOnEtcGroup, RemediateEnsurePermissionsOnEtcGroup, g_etcGroup),
      (AuditEnsurePermissionsOnEtcGroupDash, RemediateEnsurePermissionsOnEtcGroupDash, g_etcGroupDash),
      (AuditEnsurePermissionsOnEtcAnacronTab, RemediateEnsurePermissionsOnEtcAnacronTab, g_etcAnacronTab),
      (AuditEnsurePermissionsOnEtcCronD, RemediateEnsurePermissionsOnEtcCronD, g_etcCronD),
      (AuditEnsurePermissionsOnEtcCronDaily, RemediateEnsurePermissionsOnEtcCronDaily, g_etcCronDaily),
      (AuditEnsurePermissionsOnEtcCronHourly, RemediateEnsurePermissionsOnEtcCronHourly, g_etcCronHourly),
      (AuditEnsurePermissionsOnEtcCronMonthly, RemediateEnsurePermissionsOnEtcCronMonthly, g_etcCronMonthly),
      (AuditEnsurePermissionsOnEtcCronWeekly, RemediateEnsurePermissionsOnEtcCronWeekly, g_etcCronWeekly),
      (AuditEnsurePermissionsOnEtcMotd, RemediateEnsurePermissionsOnEtcMotd, g_etcMotd)]"

lemma permission_rules_remediated:
  fixes s :: "'a asb_scheme"
  assumes "faults s = sys_ok" and "v \<noteq> []" and "octal_value v AND MODE_07777 = desired_mode False (octal_value v)"
  shows "list_all (\<lambda>(aud, rem, p). node (fs_of s) p \<noteq> None \<longrightarrow>
     (\<exists>s1 r s2. rem (Some v) s = Some (0, s1) \<and> aud s1 = Some (Some r, s2) \<and> prefix SECURITY_AUDIT_PASS r)) permission_rules"
  unfolding permission_rules_def list.pred_inject prod.case audits remediations inits
  by (intro conjI impI permission_remediated [OF assms(1) _ assms(2,3)] | simp)+

text \<open>C27: The remediation of a mode makes its audit pass: for each of the rules that fix the mode of a file of root, when the file is
  there and no call of the system fails, the remediation with a mode (of permission bits, without the sticky bit) succeeds and
  the audit that follows reports a pass.\<close>

theorem permissions_remediated:
  fixes s :: "'a asb_scheme"
  assumes "(aud, rem, p) \<in> set permission_rules" and "faults s = sys_ok" and "node (fs_of s) p \<noteq> None"
    and "v \<noteq> []" and "octal_value v AND MODE_07777 = desired_mode False (octal_value v)"
  shows "\<exists>s1 r s2. rem (Some v) s = Some (0, s1) \<and> aud s1 = Some (Some r, s2) \<and> prefix SECURITY_AUDIT_PASS r"
  using permission_rules_remediated [OF assms(2,4,5)] assms(1,3) unfolding list_all_iff by blast

theorem permissions_remediated_witness:
  "\<exists>s1 r s2. RemediateEnsurePermissionsOnEtcIssue (Some ''0600'') sample_asb = Some (0, s1) \<and>
    AuditEnsurePermissionsOnEtcIssue s1 = Some (Some r, s2) \<and> prefix SECURITY_AUDIT_PASS r"
proof (rule permissions_remediated [where p = g_etcIssue])
  show "octal_value ''0600'' AND MODE_07777 = desired_mode False (octal_value ''0600'')" by code_simp
qed (simp_all add: permission_rules_def)

subsection \<open>The rules\<close>

text \<open>The places of the objects of the rules in the tables.\<close>

definition audit_index :: "nat list" where
  "audit_index =
     [5, 131, 132, 133, 134, 135, 136, 137, 138, 139, 140, 141, 142, 143, 144, 145, 146, 147, 148, 130, 22, 23, 24,
      25, 26, 27, 28, 83, 105, 106, 74, 20, 1, 2, 29, 30, 31, 75, 3, 4, 85, 32, 107, 108, 109, 110, 63, 64,
      163, 164, 165, 166, 49, 50, 51, 52, 53, 54, 111, 112, 113, 84, 6, 7, 8, 9, 10, 12, 11, 13, 81, 55, 56,
      57, 114, 21, 76, 65, 82, 115, 103, 73, 86, 87, 88, 89, 90, 91, 92, 93, 94, 95, 96, 97, 98, 99, 100, 101,
      116, 117, 118, 119, 120, 121, 122, 123, 124, 125, 167, 33, 34, 126, 35, 127, 36, 37, 128, 38, 39, 40,
      41, 42, 102, 77, 14, 15, 16, 17, 18, 19, 129, 78, 79, 149, 150, 43, 44, 151, 152, 45, 153, 154, 155,
      156, 157, 46, 47, 58, 59, 60, 70, 71, 104, 66, 67, 69, 68, 72, 61, 62, 168, 48, 80, 158, 159, 160, 161,
      162]"

definition remediate_index :: "nat list" where
  "remediate_index =
     [5, 132, 133, 134, 135, 136, 137, 138, 139, 140, 141, 142, 143, 144, 145, 146, 147, 148, 149, 131, 41, 42, 43,
      44, 45, 46, 47, 84, 106, 107, 36, 20, 1, 2, 48, 49, 50, 37, 3, 4, 86, 51, 108, 109, 110, 111, 67, 68,
      164, 165, 166, 167, 53, 54, 55, 56, 57, 58, 112, 113, 114, 85, 6, 7, 8, 9, 10, 12, 11, 13, 82, 59, 60,
      61, 115, 40, 78, 69, 83, 116, 104, 77, 87, 88, 89, 90, 91, 92, 93, 94, 95, 96, 97, 98, 99, 100, 101,
      102, 117, 118, 119, 120, 121, 122, 123, 124, 125, 126, 168, 21, 22, 127, 52, 128, 23, 24, 129, 25, 26,
      27, 28, 29, 103, 38, 14, 15, 16, 17, 18, 19, 130, 79, 80, 150, 151, 30, 31, 152, 153, 32, 154, 155, 156,
      157, 158, 33, 34, 62, 63, 64, 74, 75, 105, 70, 71, 73, 72, 76, 65, 66, 169, 35, 39, 159, 160, 161, 162,
      163]"

lemma audit_names: "map ((!) (map fst audit_objects)) audit_index = map (\<lambda>r. ''audit'' @ payloadKey r) g_rules"
  unfolding audit_objects_def tables map_append list.map fst_conv g_rules_def
  by code_simp

lemma remediate_names: "map ((!) (map fst remediate_objects)) remediate_index = map (\<lambda>r. ''remediate'' @ payloadKey r) g_rules"
  unfolding remediate_objects_def tables map_append list.map fst_conv g_rules_def
  by code_simp

lemma index_bounds: "list_all (\<lambda>i. i < 169) audit_index" "list_all (\<lambda>i. i < 225) remediate_index"
  by code_simp+

lemma table_lengths: "length audit_objects = 169" "length remediate_objects = 225"
  by (simp_all add: audit_objects_def remediate_objects_def tables)

lemma named_by_index:
  assumes "map ((!) (map fst xs)) is = map f rs" and "list_all (\<lambda>i. i < length xs) is" and "r \<in> set rs"
  shows "map_of xs (f r) \<noteq> None"
proof -
  have "f r \<in> set (map ((!) (map fst xs)) is)" using assms(1,3) by simp
  then obtain i where "i < length xs" "f r = fst (xs ! i)" using assms(2) by (auto simp: list_all_iff)
  then have "f r \<in> fst ` set xs" by auto
  then show ?thesis by (simp add: map_of_eq_None_iff)
qed


subsection \<open>What a client gets\<close>

text \<open>C28: A client gets the reason of the audit, as a JSON string: when memory does not run out and the payload is not cut, the
  payload of \<open>AsbMmiGet\<close> parses as the reason the audit left, or as \<open>FAIL\<close> when it left none or one that is not valid UTF-8.\<close>

theorem AsbMmiGet_reports:
  assumes "map_of audit_objects ob = Some f" and "f s = Some (result, s1)" and "faults s1 = sys_ok"
  shows "\<exists>p s2. AsbMmiGet (Some g_securityBaselineComponentName) (Some ob) 0 s = Some ((0, Some p, int (length p)), s2) \<and>
    json_parse_string (Some p) = Some (JSONString (if json_value_init_string result = None then ''FAIL'' else the result))"
proof -
  define r where "r = (if json_value_init_string result = None then ''FAIL'' else the result)"
  have v: "valid_result result s1 = (Some r, if json_value_init_string result = None then tick s1 else s1)"
    using assms(3) by (auto simp: valid_result_def r_def duplicate_def now_ok json_value_init_string_def split: option.splits)
  have utf: "json_value_init_string (Some r) = Some (JSONString r)"
    by (auto simp: r_def json_value_init_string_def ascii_valid_utf8 split: option.splits)
  have parse: "json_parse_string (Some (json_serialize_r False 0 (JSONString r))) = Some (JSONString r)"
    by (rule json_parse_string_serialize) (simp_all add: MAX_NESTING_def)
  show ?thesis
    using assms parse
    by (auto simp: AsbMmiGet_def audit_payload_def v utf json_serialize_to_string_def ask_def payload_size_def Let_def r_def [symmetric]
        now_ok tick_def)
qed

theorem AsbMmiGet_reports_witness:
  "\<exists>p s2 r. AsbMmiGet (Some g_securityBaselineComponentName) (Some ''auditEnsurePermissionsOnEtcIssue'') 0 sample_asb =
      Some ((0, Some p, int (length p)), s2) \<and> json_parse_string (Some p) = Some (JSONString r)"
proof -
  obtain r t where "AuditEnsurePermissionsOnEtcIssue sample_asb = Some (r, t)" "faults t = sys_ok"
    using issue_audit [of sample_asb] by auto
  from AsbMmiGet_reports [OF issue_object this] show ?thesis by blast
qed


end
