(* ===== verification/UtilProps.thy ===== *)
theory UtilProps
  imports AsbProps
begin

text \<open>
  Properties of the utilities below the baseline: which packages are found installed, what the remediation of the lockout leaves in
  \<open>faillock.conf\<close>, and what the remediation of the SSH server writes.
\<close>

subsection \<open>Packages\<close>

definition package_lines :: "string list \<Rightarrow> string" where
  "package_lines ns = concat (map (\<lambda>n. n @ [EOL]) ns)"

lemma line_skip: "c \<notin> set n \<Longrightarrow> sublist (c # q) (n @ y) \<longleftrightarrow> sublist (c # q) y"
  by (induction n) (auto simp: sublist_Cons_right)

lemma prefix_whole_line: "EOL \<notin> set p \<Longrightarrow> EOL \<notin> set n \<Longrightarrow> prefix (p @ [EOL]) (n @ EOL # y) \<longleftrightarrow> p = n"
proof (induction p arbitrary: n)
  case Nil
  then show ?case by (cases n) auto
next
  case (Cons c p)
  then show ?case by (cases n) auto
qed

lemma line_found:
  assumes "EOL \<notin> set p" and "\<forall>n \<in> set ns. EOL \<notin> set n"
  shows "sublist ([EOL] @ p @ [EOL]) ([EOL] @ package_lines ns) \<longleftrightarrow> p \<in> set ns"
  using assms(2)
proof (induction ns)
  case (Cons n ns)
  have "[EOL] @ package_lines (n # ns) = EOL # n @ [EOL] @ package_lines ns" by (simp add: package_lines_def)
  then show ?case
    using Cons assms(1) prefix_whole_line [of p n "package_lines ns"] line_skip [of EOL n "p @ [EOL]" "[EOL] @ package_lines ns"]
    by (auto simp: sublist_Cons_right)
qed (auto simp: package_lines_def dest: sublist_length_le)

definition printable :: "string \<Rightarrow> bool" where
  "printable s \<longleftrightarrow> list_all (\<lambda>c. 32 \<le> (of_char c :: nat) \<and> (of_char c :: nat) < 127) s"

lemma printable_line: "printable s \<Longrightarrow> EOL \<notin> set s"
  by (auto simp: printable_def list_all_iff EOL_def)

lemma printable_lines: "list_all printable ns \<Longrightarrow> \<forall>n \<in> set ns. EOL \<notin> set n"
  using printable_line by (auto simp: list_all_iff)

text \<open>C37: On a host with \<open>dpkg\<close>, a package is reported installed exactly when it is one of the names that the package manager
  lists: when the list is taken anew, without failures, \<open>IsPackageInstalled\<close> returns 0 for the names on it, \<open>ENOENT\<close> for all
  others, and a name is not found as a part of another.\<close>

theorem IsPackageInstalled_listed:
  assumes "faults s = sys_ok" and "g_checkedPackageManagersPresence s" and "g_dpkgIsPresent s" and "g_installedPackagesCache s = None"
    and "shell_exec s (commandTemplateDpkg ''dpkg'') (host_of s) = (0, Some (package_lines ns), w)"
    and "list_all printable ns" and "p \<noteq> []" and "printable p"
  shows "fst (IsPackageInstalled (Some p) s) = (if p \<in> set ns then 0 else ENOENT)"
proof -
  have "stored_byte plain_output c = c" if c: "c \<in> set (package_lines ns)" for c
  proof (cases "c = EOL")
    case False
    then obtain n where "n \<in> set ns" "c \<in> set n" using c by (auto simp: package_lines_def split: if_splits)
    then have "32 \<le> (of_char c :: nat) \<and> (of_char c :: nat) < 127"
      using assms(6) by (auto simp: list_all_iff printable_def)
    then show ?thesis using False by (auto simp: stored_byte_def replaced_byte_def plain_output_def)
  qed (simp add: stored_byte_def replaced_byte_def plain_output_def EOL_def)
  then have out: "output_of plain_output (package_lines ns) = package_lines ns"
    by (simp add: output_of_def plain_output_def map_idI)
  have ok: "now t site i = 0" if "faults t = sys_ok" for t :: "'a packages_scheme" and site i
    using that by (simp add: now_ok)
  have "strstr (EOL # package_lines ns) (EOL # p @ [EOL]) = None \<longleftrightarrow> p \<notin> set ns"
    using line_found [OF printable_line [OF assms(8)] printable_lines [OF assms(6)]] by (simp add: strstr_None_iff del: strstr.simps)
  then show ?thesis
    using assms(1-5,7) out
    by (cases "strstr (EOL # package_lines ns) (EOL # p @ [EOL])")
      (simp_all add: IsPackageInstalled_def CheckPackageManagersPresence_def UpdateInstalledPackagesCache_def CheckAllPackages_def
        format_text_def run_text_def tick_def search_target_def ok Let_def del: strstr.simps)
qed

theorem IsPackageInstalled_listed_witness:
  "fst (IsPackageInstalled (Some ''rsync'') (sample_asb\<lparr>g_checkedPackageManagersPresence := True, g_dpkgIsPresent := True,
     shell_exec := (\<lambda>cmd w. (0, Some (package_lines [''adduser'', ''librsync2'']), w))\<rparr>)) = ENOENT"
  using IsPackageInstalled_listed [of "sample_asb\<lparr>g_checkedPackageManagersPresence := True, g_dpkgIsPresent := True,
     shell_exec := (\<lambda>cmd w. (0, Some (package_lines [''adduser'', ''librsync2'']), w))\<rparr>" "[''adduser'', ''librsync2'']" issue_host "''rsync''"]
  by (simp add: sample_asb_def printable_def)

subsection \<open>The options of \<open>faillock.conf\<close>\<close>

text \<open>Lines that are not the key's are passed over.\<close>

lemma first_line:
  assumes "EOL \<notin> set l"
  shows "takeWhile (\<lambda>c. c \<noteq> EOL) (l @ EOL # s) = l" "dropWhile (\<lambda>c. c \<noteq> EOL) (l @ EOL # s) = EOL # s"
  using assms by (induction l) auto

lemma last_line:
  assumes "EOL \<notin> set l"
  shows "takeWhile (\<lambda>c. c \<noteq> EOL) l = l" "dropWhile (\<lambda>c. c \<noteq> EOL) l = []"
  using assms by (induction l) auto

lemma text_cases:
  obtains "s = []" | l r where "s = l @ EOL # r" "EOL \<notin> set l" | l where "s = l" "l \<noteq> []" "EOL \<notin> set l"
proof (cases "EOL \<in> set s")
  case True
  then show ?thesis using split_list_first [of EOL s] that by blast
qed (use that in blast)

definition line_value :: "string \<Rightarrow> string \<Rightarrow> string" where
  "line_value key l = (if key_line key l then dropWhile separating (after_key key l) else [])"

lemma faillock_value_Nil: "faillock_value key [] = INT_ENOENT"
  by (simp add: faillock_value.simps)

lemma faillock_value_line:
  assumes "EOL \<notin> set l"
  shows "faillock_value key (l @ EOL # s) = (if line_value key l = [] then faillock_value key s else c_int (strtol (line_value key l @ EOL # s) 10))"
  by (subst faillock_value.simps) (simp add: first_line [OF assms] line_value_def Let_def del: dropWhile_eq_Nil_conv)

lemma faillock_value_last:
  assumes "EOL \<notin> set l" and "l \<noteq> []"
  shows "faillock_value key l = (if line_value key l = [] then INT_ENOENT else c_int (strtol (line_value key l) 10))"
  using assms(2) by (subst faillock_value.simps) (simp add: last_line [OF assms(1)] line_value_def Let_def faillock_value_Nil del: dropWhile_eq_Nil_conv)

lemma replace_key_line:
  assumes "EOL \<notin> set l"
  shows "replace_key key f done' (l @ EOL # s) =
    (if \<not> done' \<and> key_line key l then (f @ fst (replace_key key f True s), snd (replace_key key f True s))
     else (l @ EOL # fst (replace_key key f done' s), snd (replace_key key f done' s)))"
  by (subst replace_key.simps) (simp add: first_line [OF assms] Let_def split: prod.split)

lemma replace_key_last:
  assumes "EOL \<notin> set l" and "l \<noteq> []"
  shows "replace_key key f done' l = (if \<not> done' \<and> key_line key l then (f, True) else (l, done'))"
  using assms(2) by (subst replace_key.simps) (simp add: last_line [OF assms(1)] Let_def replace_key.simps [of _ _ _ "[]"])

lemma replace_key_Nil: "replace_key key f done' [] = ([], done')"
  by (simp add: replace_key.simps)

lemma replace_key_done: "replace_key key f True s = (s, True)"
proof (induction "length s" arbitrary: s rule: less_induct)
  case less
  show ?case
    by (cases s rule: text_cases) (auto simp: replace_key_Nil replace_key_line replace_key_last less)
qed

lemma append_key_line: "append_key f (l @ EOL # out, r) = l @ EOL # append_key f (out, r)"
  by (auto simp: append_key_def)

text \<open>\<open>set_key\<close>, line by line.\<close>

lemma set_key_line:
  assumes "EOL \<notin> set l"
  shows "set_key key f (l @ EOL # s) = (if key_line key l then f @ s else l @ EOL # set_key key f s)"
  using append_key_line [of f l]
  by (simp add: set_key_def replace_key_line [OF assms] replace_key_done) (simp add: append_key_def)

lemma set_key_last:
  assumes "EOL \<notin> set l" and "l \<noteq> []"
  shows "set_key key f l = (if key_line key l then f else l @ EOL # f)"
  using assms(1) last_in_set [OF assms(2)]
  by (auto simp: set_key_def replace_key_last [OF assms] append_key_def)

lemma set_key_Nil: "set_key key f [] = f"
  by (simp add: set_key_def replace_key_Nil append_key_def)

text \<open>A key and the line that sets it.\<close>

definition conf_key :: "string \<Rightarrow> bool" where
  "conf_key key \<longleftrightarrow> key \<noteq> [] \<and> list_all (\<lambda>c. \<not> separating c \<and> \<not> isspace c \<and> c \<noteq> EOL \<and> c \<noteq> CHR ''#'' \<and> c \<noteq> NUL) key"

lemma conf_key_start: "conf_key key \<Longrightarrow> dropWhile blank (key @ r) = key @ r \<and> hd (key @ r) \<noteq> CHR ''#''"
  by (cases key) (auto simp: conf_key_def separating_def)

lemma print_int_start: "\<exists>c t. print_int v = c # t \<and> \<not> separating c \<and> \<not> isspace c"
proof (cases "v < 0")
  case True
  then show ?thesis by (simp add: print_int_def separating_def blank_def ctype)
next
  case False
  obtain d ds where "dec (nat v) = d # ds" by (cases "dec (nat v)") simp_all
  moreover from this have "isdigit d" using dec_hd_digit [of "nat v"] by simp
  ultimately show ?thesis using False by (auto simp: print_int_def separating_def blank_def ctype)
qed

lemma setting_value:
  assumes "conf_key key"
  shows "line_value key (key @ '' = '' @ print_int v) = print_int v"
proof -
  obtain c t where c: "print_int v = c # t" "\<not> separating c" using print_int_start by blast
  define l where "l = key @ '' = '' @ print_int v"
  have k: "key_line key l" "after_key key l = '' = '' @ print_int v"
    using conf_key_start [OF assms, of "'' = '' @ print_int v"] assms
    by (auto simp: l_def key_line_def after_key_def Let_def conf_key_def separating_def blank_def)
  have "separating CHR '' ''" "separating CHR ''=''" by (simp_all add: separating_def blank_def)
  then have "line_value key l = print_int v" by (simp add: line_value_def k c)
  then show ?thesis by (simp add: l_def)
qed

lemma strtol_before_eol:
  assumes "\<not> isspace c"
  shows "strtol ((c # t) @ EOL # s) 10 = strtol (c # t) 10"
proof -
  have "\<not> digit_of 10 EOL" by (simp add: digit_of_def EOL_def isdigit_def)
  then have "takeWhile (digit_of 10) (u @ EOL # s) = takeWhile (digit_of 10) u" for u
    by (induction u) simp_all
  from this [of t] this [of "c # t"] show ?thesis using assms by (simp add: strtol_def)
qed

lemma print_int_no_eol: "EOL \<notin> set (print_int v)"
  by (auto simp: print_int_def EOL_def dest!: dec_digits simp: isdigit_def)

lemma setting_line: "conf_key key \<Longrightarrow> EOL \<notin> set (key @ '' = '' @ print_int v)"
  using print_int_no_eol [of v] by (auto simp: conf_key_def list_all_iff EOL_def)

lemma value_of_setting:
  assumes "conf_key key" and "- (2 ^ 31) \<le> v" and "v < 2 ^ 31"
  shows "faillock_value key (conf_setting key v @ s) = v"
proof -
  obtain c t where c: "print_int v = c # t" "\<not> isspace c" using print_int_start by blast
  have "faillock_value key (conf_setting key v @ s) = c_int (strtol (print_int v @ EOL # s) 10)"
    using faillock_value_line [OF setting_line [OF assms(1)], of key v s] setting_value [OF assms(1), of v] c
    by (simp add: conf_setting_def)
  then show ?thesis using strtol_before_eol [OF c(2), of t s] strtol_print_int [OF assms(2,3)] c(1) by simp
qed

lemma faillock_value_set:
  assumes "conf_key key" and "- (2 ^ 31) \<le> v" and "v < 2 ^ 31"
  shows "faillock_value key (set_key key (conf_setting key v) s) = v"
proof (induction "length s" arbitrary: s rule: less_induct)
  case less
  note v = value_of_setting [OF assms] value_of_setting [OF assms, of "[]", simplified]
  show ?case
    by (cases s rule: text_cases)
      (auto simp: set_key_Nil set_key_line set_key_last v faillock_value_line line_value_def less)
qed

text \<open>The other options stay as they are, in a file whose only blanks are spaces, tabulators and line ends: \<open>strtol\<close> passes over all
  white space, also over that at the end of a line.\<close>

definition ordinary_blanks :: "string \<Rightarrow> bool" where
  "ordinary_blanks s \<longleftrightarrow> list_all (\<lambda>c. isspace c \<longrightarrow> blank c \<or> c = EOL) s"

lemma key_line_unique:
  assumes "conf_key k" and "conf_key k'" and "key_line k l" and "key_line k' l"
  shows "k = k'"
proof -
  have "x = []" if "conf_key (a @ x)" "key_line a l" "prefix (a @ x) (dropWhile blank l)" for a x
    using that by (cases x) (auto simp: key_line_def after_key_def Let_def conf_key_def prefix_def)
  moreover have "prefix k k' \<or> prefix k' k"
    using assms(3,4) prefix_same_cases [of k "dropWhile blank l" k'] by (auto simp: key_line_def Let_def)
  ultimately show ?thesis using assms by (auto simp: prefix_def key_line_def Let_def)
qed

lemma other_value_stops:
  assumes "ordinary_blanks l" and "EOL \<notin> set l" and "line_value key l \<noteq> []"
  shows "strtol (line_value key l @ EOL # s) 10 = strtol (line_value key l) 10"
proof -
  obtain c t where c: "line_value key l = c # t" using assms(3) by (cases "line_value key l") simp_all
  have "c \<in> set l" using c set_dropWhileD [of c separating "after_key key l"] in_set_dropD [of c "length key" "dropWhile blank l"] set_dropWhileD [of c blank l]
    by (auto simp: line_value_def after_key_def split: if_splits dest: arg_cong [of _ _ set])
  moreover have "\<not> separating c"
    using c by (auto simp: line_value_def dropWhile_eq_Cons_conv split: if_splits)
  ultimately have "\<not> isspace c" using assms(1,2) by (auto simp: ordinary_blanks_def list_all_iff separating_def)
  then show ?thesis using strtol_before_eol by (simp add: c)
qed

lemma faillock_value_other:
  assumes "conf_key key" and "conf_key other" and "key \<noteq> other" and "ordinary_blanks s"
  shows "faillock_value other (set_key key (conf_setting key v) s) = faillock_value other s"
  using assms(4)
proof (induction "length s" arbitrary: s rule: less_induct)
  case less
  let ?l = "key @ '' = '' @ print_int v"
  have "key_line key ?l" using setting_value [OF assms(1), of v] print_int_start [of v] by (auto simp: line_value_def split: if_splits)
  then have "line_value other ?l = []" using key_line_unique [OF assms(1,2)] assms(3) by (auto simp: line_value_def)
  then have skip: "faillock_value other (conf_setting key v @ r) = faillock_value other r" for r
    using faillock_value_line [OF setting_line [OF assms(1)], of other v r] by (simp add: conf_setting_def)
  have no: "line_value other l = []" if "key_line key l" for l
    using key_line_unique [OF assms(1,2) that] assms(3) by (auto simp: line_value_def)
  note skip_end = skip [of "[]", simplified]
  show ?case
  proof (cases s rule: text_cases)
    case (2 l r)
    have ob: "ordinary_blanks l" "ordinary_blanks r" using less.prems by (auto simp: 2 ordinary_blanks_def)
    show ?thesis
      using less.hyps [of r] ob no [of l] 2(2) other_value_stops [OF ob(1) 2(2)]
      by (auto simp: 2(1) set_key_line skip faillock_value_line)
  next
    case (3 l)
    then show ?thesis
      using less.prems no [of l] other_value_stops [of l other]
      by (auto simp: set_key_last skip_end faillock_value_line faillock_value_last faillock_value_Nil)
  qed (simp add: set_key_Nil skip_end faillock_value_Nil)
qed

lemma conf_keys: "conf_key ''deny''" "conf_key ''unlock_time''"
  by (simp_all add: conf_key_def separating_def blank_def EOL_def NUL_def isspace_def)

text \<open>The file that holds the options: a regular file, a text with ordinary blanks, and free names for the temporary files.\<close>

definition faillock_file :: "string \<Rightarrow> string \<Rightarrow> 'a runtime_scheme \<Rightarrow> bool" where
  "faillock_file p bs s \<longleftrightarrow> faults s = sys_ok \<and> NUL \<notin> set bs \<and> ordinary_blanks bs \<and>
     (\<forall>k. edit_ready (temp_name (dirname p) ''~OSConfig'' (random s k)) p (fs_of s)) \<and>
     (\<exists>n. node (fs_of s) p = Some n \<and> bytes n = bs)"

lemma faillock_file_loaded: "faillock_file p bs s \<Longrightarrow> LoadStringFromFile (now s) (Some p) False (fs_of s) = Some bs"
  by (auto simp: faillock_file_def now_ok readable_bytes_def edit_ready_def regular_node_def)

lemma faillock_option_read: "faillock_file p bs s \<Longrightarrow> fst (GetFaillockConfIntegerOption (Some p) (Some k) s) = faillock_value k bs"
  by (simp add: GetFaillockConfIntegerOption_def read_fs_def faillock_file_loaded)

definition usual_char :: "char \<Rightarrow> bool" where
  "usual_char c \<longleftrightarrow> c \<noteq> NUL \<and> (isspace c \<longrightarrow> blank c \<or> c = EOL)"

lemma plain_text: "NUL \<notin> set bs \<and> ordinary_blanks bs \<longleftrightarrow> list_all usual_char bs"
  by (auto simp: ordinary_blanks_def usual_char_def list_all_iff)

lemma digit_plain: "isdigit c \<Longrightarrow> usual_char c"
  by (auto simp: usual_char_def ctype NUL_def)

lemma sign_plain: "usual_char EOL" "usual_char CHR '' ''" "usual_char CHR ''=''" "usual_char CHR ''-''"
  by (simp_all add: usual_char_def ctype NUL_def EOL_def blank_def)

lemma print_int_plain: "list_all usual_char (print_int v)"
  using dec_digits by (auto simp: print_int_def list_all_iff sign_plain intro!: digit_plain)

lemma setting_plain: "conf_key key \<Longrightarrow> list_all usual_char (conf_setting key v)"
  using print_int_plain [of v] by (simp add: conf_setting_def sign_plain) (simp add: conf_key_def usual_char_def list_all_iff)

lemma set_key_chars: "c \<in> set (set_key key f s) \<Longrightarrow> c \<in> set f \<or> c \<in> set s \<or> c = EOL"
proof (induction "length s" arbitrary: s rule: less_induct)
  case less
  then show ?case
    by (cases s rule: text_cases) (auto simp: set_key_Nil set_key_line set_key_last split: if_splits)
qed

lemma set_key_nonempty: "f \<noteq> [] \<Longrightarrow> set_key key f s \<noteq> []"
  by (cases s rule: text_cases) (auto simp: set_key_Nil set_key_line set_key_last)

lemma SetFaillockConfOption_file:
  assumes "faillock_file p bs s" and "conf_key key"
  shows "\<exists>t. SetFaillockConfOption (Some p) (Some key) v s = (0, t) \<and> faillock_file p (set_key key (conf_setting key v) bs) t"
proof -
  let ?bs = "set_key key (conf_setting key v) bs"
  obtain n where n: "node (fs_of s) p = Some n" "bytes n = bs" using assms(1) by (auto simp: faillock_file_def)
  have ready: "edit_ready (temp_name (dirname p) ''~OSConfig'' (random s k)) p (fs_of s)" for k
    using assms(1) by (simp add: faillock_file_def)
  have "?bs \<noteq> []" by (rule set_key_nonempty) (simp add: conf_setting_def)
  then obtain st' where st': "SecureSaveToFile sys_ok (random s (calls s + 3)) (Some p) (Some ?bs) (fs_of s) = (True, st')"
    "replaced_file p ?bs (fs_of s) st'"
    using SecureSaveToFile_ok [OF ready] by blast
  define t where "t = put_fs st' (s\<lparr>calls := calls s + 4\<rparr>)"
  obtain n' where n': "st' = put_node p (Some n') (fs_of s)" "bytes n' = ?bs" "\<not> is_dir n'" "attributes n' = attributes n"
    using st'(2) n by (auto simp: replaced_file_def kept_attributes_def)
  have "SetFaillockConfOption (Some p) (Some key) v s = (0, t)"
    using assms(1) st'(1) n faillock_file_loaded [OF assms(1)]
    by (simp add: SetFaillockConfOption_def FileExists_def read_fs_def format_text_def ask_def edit_fs_def faillock_file_def now_ok
        t_def tick_def fs_of_def put_fs_def numeral_eq_Suc)
  moreover have "faillock_file p ?bs t"
  proof -
    have "list_all usual_char bs" using assms(1) by (simp add: faillock_file_def flip: plain_text)
    then have "NUL \<notin> set ?bs \<and> ordinary_blanks ?bs"
      using setting_plain [OF assms(2), of v] set_key_chars [of _ key "conf_setting key v" bs] sign_plain(1)
      unfolding plain_text list_all_iff by blast
    moreover have "regular_node n'"
      using ready [of 0] n n' by (auto simp: edit_ready_def regular_node_def attributes_def)
    ultimately show ?thesis
      using assms(1) ready n' by (auto simp: faillock_file_def t_def fs_of_def put_fs_def edit_ready_def)
  qed
  ultimately show ?thesis by blast
qed

text \<open>C36: The remediation of the lockout in \<open>faillock.conf\<close> is effective: after it both options read as they were set, the text the
  file had before notwithstanding, when the file is a regular one with ordinary blanks and nothing fails.\<close>

theorem faillock_conf_remediated:
  assumes "faillock_file p bs s" and "- (2 ^ 31) \<le> d" "d < 2 ^ 31" and "- (2 ^ 31) \<le> u" "u < 2 ^ 31"
    and "SetLockoutForFailedPasswordAttemptsViaFaillockConf (Some p) d u s = (status, t)"
  shows "status = 0 \<and> fst (GetFaillockConfIntegerOption (Some p) (Some ''deny'') t) = d \<and>
    fst (GetFaillockConfIntegerOption (Some p) (Some ''unlock_time'') t) = u"
proof -
  let ?one = "set_key ''deny'' (conf_setting ''deny'' d) bs"
  let ?two = "set_key ''unlock_time'' (conf_setting ''unlock_time'' u) ?one"
  obtain s1 where s1: "SetFaillockConfOption (Some p) (Some ''deny'') d s = (0, s1)" "faillock_file p ?one s1"
    using SetFaillockConfOption_file [OF assms(1) conf_keys(1)] by blast
  obtain s2 where s2: "SetFaillockConfOption (Some p) (Some ''unlock_time'') u s1 = (0, s2)" "faillock_file p ?two s2"
    using SetFaillockConfOption_file [OF s1(2) conf_keys(2)] by blast
  have "status = 0" "t = s2"
    using assms(6) s1(1) s2(1) by (simp_all add: SetLockoutForFailedPasswordAttemptsViaFaillockConf_def first_error_def)
  moreover have "ordinary_blanks ?one" using s1(2) by (simp add: faillock_file_def)
  ultimately show ?thesis
    using faillock_option_read [OF s2(2)] faillock_value_set [OF conf_keys(2) assms(4,5)]
      faillock_value_other [OF conf_keys(2,1)] faillock_value_set [OF conf_keys(1) assms(2,3)] by simp
qed

definition deny_asb :: asb where
  "deny_asb = sample_asb\<lparr>host_of := issue_host\<lparr>host_fs := issue_fs\<lparr>node := [''/f'' \<mapsto>
     \<lparr>is_dir = False, bytes = ''deny = 5'', st_uid = 0, st_gid = 0, st_mode = MODE_0644\<rparr>]\<rparr>\<rparr>\<rparr>"

lemma deny_file: "faillock_file ''/f'' ''deny = 5'' deny_asb"
proof -
  have "regular_mode MODE_0644" "regular_mode MODE_0660"
    by (simp_all add: regular_mode_def desired_mode_def MODE_0644_def MODE_0660_def MODE_07777_def S_ISVTX_def)
  moreover have "temp_name (dirname ''/f'') ''~OSConfig'' k \<noteq> ''/f''" for k
    by (simp add: temp_name_def dirname_def strip_slashes_def)
  ultimately show ?thesis
    by (simp add: faillock_file_def deny_asb_def sample_asb_def issue_host_def issue_fs_def fs_of_def edit_ready_def fs_ok_def
        regular_node_def NUL_def ordinary_blanks_def blank_def isspace_def)
qed

theorem faillock_conf_remediated_witness:
  "\<exists>t. SetLockoutForFailedPasswordAttemptsViaFaillockConf (Some ''/f'') 3 900 deny_asb = (0, t) \<and>
     fst (GetFaillockConfIntegerOption (Some ''/f'') (Some ''deny'') t) = 3 \<and>
     fst (GetFaillockConfIntegerOption (Some ''/f'') (Some ''unlock_time'') t) = 900"
proof -
  obtain status t where "SetLockoutForFailedPasswordAttemptsViaFaillockConf (Some ''/f'') 3 900 deny_asb = (status, t)"
    by (metis surj_pair)
  from faillock_conf_remediated [OF deny_file _ _ _ _ this] this show ?thesis by simp
qed

subsection \<open>The SSH remediation\<close>

lemma remediation_size: "length vs = 19 \<Longrightarrow> length (remediation_text vs) < remediationSize vs"
proof -
  have "length (concat (map (\<lambda>(opt, v). opt @ '' '' @ v @ [EOL]) ws)) = 2 * length ws + sum_list (map (\<lambda>(opt, v). length opt + length v) ws)"
    for ws by (induction ws) auto
  then show "length vs = 19 \<Longrightarrow> length (remediation_text vs) < remediationSize vs"
    by (simp add: remediation_text_def remediationSize_def remediationTemplate_def numeral_eq_Suc)
qed

lemma c_string_terminated: "NUL \<notin> set t \<Longrightarrow> c_string (t @ replicate n NUL) = t"
  unfolding c_string_def by (induction t) (cases n, auto)

lemma FormatRemediationValues_text:
  assumes "faults s = sys_ok" and "NUL \<notin> set (remediation_text (remediation_values s))"
  shows "FormatRemediationValues s = (Some (remediation_text (remediation_values s)), tick s)"
proof -
  have "length (remediation_text (remediation_values s)) < remediationSize (remediation_values s)"
    by (rule remediation_size) (simp add: remediation_values_def)
  then show ?thesis
    using assms by (simp add: FormatRemediationValues_def ask_def now_ok snprintf_buffer_def c_string_terminated [of "[]", simplified] c_string_terminated)
qed

lemma SetAccess_bytes:
  assumes "node st p = Some n"
  shows "\<exists>n'. node (snd (SetAccess m False (Some p) u g a st)) p = Some n' \<and> bytes n' = bytes n"
  using assms by (simp add: SetAccess_def chown_node_def Let_def)


lemma sample_remediation: "NUL \<notin> set (remediation_text (remediation_values sample_asb))"
  by (simp add: remediation_text_def remediation_values_def desired_or_def sample_asb_def
      NUL_def EOL_def)


end
