(* ===== verification/ParsonObjects.thy ===== *)
theory ParsonObjects
  imports ConfigUtils ParsonText
begin

text \<open>
  The rest of the JSON library (\<open>src/common/parson/parson.c\<close>): removal of members, members of nested objects by dotted names, the
  operations on arrays, copies, equality and validation, texts with comments and serialisation into a buffer.

  A status is \<open>True\<close> for \<open>JSONSuccess\<close>. An operation that changes an object or an array in place returns its new contents; values that
  are added have no parent yet.
\<close>

subsection \<open>Members\<close>

definition json_object_has_value :: "JSON_Object option \<Rightarrow> cstr \<Rightarrow> bool" where
  "json_object_has_value obj nm \<longleftrightarrow> json_object_get_value obj nm \<noteq> None"

definition json_object_get_value_at :: "JSON_Object option \<Rightarrow> nat \<Rightarrow> JSON_Value option" where
  "json_object_get_value_at obj i =
     (case obj of None \<Rightarrow> None
      | Some kvs \<Rightarrow> if json_object_get_count obj \<le> i then None else Some (snd (kvs ! i)))"

definition name_index :: "string \<Rightarrow> JSON_Object \<Rightarrow> nat" where
  "name_index k kvs = length (takeWhile (\<lambda>kv. fst kv \<noteq> k) kvs)"

text \<open>The last member takes the place of the one that is removed.\<close>

definition json_object_remove_internal :: "JSON_Object \<Rightarrow> string \<Rightarrow> bool \<times> JSON_Object" where
  "json_object_remove_internal kvs k =
     (if map_of kvs k = None then (False, kvs)
      else let i = name_index k kvs; last_item_index = length kvs - 1
           in (True, butlast (if i \<noteq> last_item_index then kvs[i := kvs ! last_item_index] else kvs)))"

definition json_object_remove :: "JSON_Object option \<Rightarrow> cstr \<Rightarrow> bool \<times> JSON_Object option" where
  "json_object_remove obj nm =
     (case (obj, nm) of
        (Some kvs, Some k) \<Rightarrow> (case json_object_remove_internal kvs k of (st, kvs') \<Rightarrow> (st, Some kvs'))
      | _ \<Rightarrow> (False, obj))"

definition json_object_clear :: "JSON_Object option \<Rightarrow> bool \<times> JSON_Object option" where
  "json_object_clear obj = (case obj of None \<Rightarrow> (False, None) | Some _ \<Rightarrow> (True, Some []))"

definition json_value_init_null :: "JSON_Value option" where
  "json_value_init_null = Some JSONNull"

definition json_object_set_boolean :: "JSON_Object \<Rightarrow> string \<Rightarrow> bool \<Rightarrow> bool \<times> JSON_Object" where
  "json_object_set_boolean kvs k b = json_object_set kvs k (json_value_init_boolean b)"

definition json_object_set_null :: "JSON_Object \<Rightarrow> string \<Rightarrow> bool \<times> JSON_Object" where
  "json_object_set_null kvs k = json_object_set kvs k json_value_init_null"

subsection \<open>Dotted names\<close>

definition dotted :: "string \<Rightarrow> bool" where
  "dotted nm \<longleftrightarrow> CHR ''.'' \<in> set nm"

definition before_dot :: "string \<Rightarrow> string" where
  "before_dot nm = takeWhile (\<lambda>c. c \<noteq> CHR ''.'') nm"

definition after_dot :: "string \<Rightarrow> string" where
  "after_dot nm = tl (dropWhile (\<lambda>c. c \<noteq> CHR ''.'') nm)"

lemma after_dot_shorter: "dotted nm \<Longrightarrow> length (after_dot nm) < length nm"
  unfolding dotted_def after_dot_def by (induction nm) auto

function json_object_dotget_value :: "JSON_Object option \<Rightarrow> string \<Rightarrow> JSON_Value option" where
  "json_object_dotget_value obj nm =
     (if \<not> dotted nm then json_object_get_value obj (Some nm)
      else json_object_dotget_value (json_value_get_object (json_object_get_value obj (Some (before_dot nm)))) (after_dot nm))"
  by pat_completeness auto
termination
  by (relation "measure (\<lambda>(_, nm). length nm)") (auto simp: after_dot_shorter)

declare json_object_dotget_value.simps [simp del]

definition json_object_dotget_string :: "JSON_Object option \<Rightarrow> string \<Rightarrow> cstr" where
  "json_object_dotget_string obj nm = json_value_get_string (json_object_dotget_value obj nm)"

definition json_object_dotget_number :: "JSON_Object option \<Rightarrow> string \<Rightarrow> rat" where
  "json_object_dotget_number obj nm = json_value_get_number (json_object_dotget_value obj nm)"

definition json_object_dotget_object :: "JSON_Object option \<Rightarrow> string \<Rightarrow> JSON_Object option" where
  "json_object_dotget_object obj nm = json_value_get_object (json_object_dotget_value obj nm)"

definition json_object_dotget_array :: "JSON_Object option \<Rightarrow> string \<Rightarrow> JSON_Array option" where
  "json_object_dotget_array obj nm = json_value_get_array (json_object_dotget_value obj nm)"

definition json_object_dotget_boolean :: "JSON_Object option \<Rightarrow> string \<Rightarrow> int" where
  "json_object_dotget_boolean obj nm = json_value_get_boolean (json_object_dotget_value obj nm)"

definition json_object_dothas_value :: "JSON_Object option \<Rightarrow> string \<Rightarrow> bool" where
  "json_object_dothas_value obj nm \<longleftrightarrow> json_object_dotget_value obj nm \<noteq> None"

definition json_object_dothas_value_of_type :: "JSON_Object option \<Rightarrow> string \<Rightarrow> JSON_Value_Type \<Rightarrow> bool" where
  "json_object_dothas_value_of_type obj nm ty =
     (let val = json_object_dotget_value obj nm in val \<noteq> None \<and> json_value_get_type val = ty)"

text \<open>A nested object is changed in its place; one that is missing is built first and then added.\<close>

function json_object_dotset_value :: "JSON_Object \<Rightarrow> string \<Rightarrow> JSON_Value \<Rightarrow> bool \<times> JSON_Object" where
  "json_object_dotset_value kvs nm v =
     (if \<not> dotted nm then (True, json_object_set_value kvs nm v)
      else (case map_of kvs (before_dot nm) of
         Some (JSONObject sub) \<Rightarrow>
           (case json_object_dotset_value sub (after_dot nm) v of
              (status, sub') \<Rightarrow> (status, json_object_set_value kvs (before_dot nm) (JSONObject sub')))
       | Some _ \<Rightarrow> (False, kvs)
       | None \<Rightarrow>
           (case json_object_dotset_value [] (after_dot nm) v of
              (status, sub') \<Rightarrow>
                if \<not> status then (False, kvs)
                else (case json_object_add kvs (before_dot nm) (JSONObject sub') of
                   None \<Rightarrow> (False, kvs) | Some kvs' \<Rightarrow> (True, kvs')))))"
  by pat_completeness auto
termination
  by (relation "measure (\<lambda>(_, nm, _). length nm)") (auto simp: after_dot_shorter)

declare json_object_dotset_value.simps [simp del]

definition json_object_dotset :: "JSON_Object option \<Rightarrow> cstr \<Rightarrow> JSON_Value option \<Rightarrow> bool \<times> JSON_Object option" where
  "json_object_dotset obj nm val =
     (case (obj, nm, val) of
        (Some kvs, Some k, Some v) \<Rightarrow> (case json_object_dotset_value kvs k v of (status, kvs') \<Rightarrow> (status, Some kvs'))
      | _ \<Rightarrow> (False, obj))"

definition json_object_dotset_string :: "JSON_Object option \<Rightarrow> cstr \<Rightarrow> cstr \<Rightarrow> bool \<times> JSON_Object option" where
  "json_object_dotset_string obj nm t = json_object_dotset obj nm (json_value_init_string t)"

definition json_object_dotset_number :: "JSON_Object option \<Rightarrow> cstr \<Rightarrow> int \<Rightarrow> bool \<times> JSON_Object option" where
  "json_object_dotset_number obj nm x = json_object_dotset obj nm (json_value_init_number x)"

definition json_object_dotset_boolean :: "JSON_Object option \<Rightarrow> cstr \<Rightarrow> bool \<Rightarrow> bool \<times> JSON_Object option" where
  "json_object_dotset_boolean obj nm b = json_object_dotset obj nm (json_value_init_boolean b)"

definition json_object_dotset_null :: "JSON_Object option \<Rightarrow> cstr \<Rightarrow> bool \<times> JSON_Object option" where
  "json_object_dotset_null obj nm = json_object_dotset obj nm json_value_init_null"

function json_object_dotremove_internal :: "JSON_Object \<Rightarrow> string \<Rightarrow> bool \<times> JSON_Object" where
  "json_object_dotremove_internal kvs nm =
     (if \<not> dotted nm then json_object_remove_internal kvs nm
      else (case map_of kvs (before_dot nm) of
         Some (JSONObject sub) \<Rightarrow>
           (case json_object_dotremove_internal sub (after_dot nm) of
              (status, sub') \<Rightarrow> (status, json_object_set_value kvs (before_dot nm) (JSONObject sub')))
       | _ \<Rightarrow> (False, kvs)))"
  by pat_completeness auto
termination
  by (relation "measure (\<lambda>(_, nm). length nm)") (auto simp: after_dot_shorter)

declare json_object_dotremove_internal.simps [simp del]

definition json_object_dotremove :: "JSON_Object option \<Rightarrow> string \<Rightarrow> bool \<times> JSON_Object option" where
  "json_object_dotremove obj nm =
     (case obj of
        None \<Rightarrow> (False, None)
      | Some kvs \<Rightarrow> (case json_object_dotremove_internal kvs nm of (status, kvs') \<Rightarrow> (status, Some kvs')))"

subsection \<open>Arrays\<close>

definition json_array_get_number :: "JSON_Array option \<Rightarrow> nat \<Rightarrow> rat" where
  "json_array_get_number arr i = json_value_get_number (json_array_get_value arr i)"

definition json_array_get_array :: "JSON_Array option \<Rightarrow> nat \<Rightarrow> JSON_Array option" where
  "json_array_get_array arr i = json_value_get_array (json_array_get_value arr i)"

definition json_array_get_boolean :: "JSON_Array option \<Rightarrow> nat \<Rightarrow> int" where
  "json_array_get_boolean arr i = json_value_get_boolean (json_array_get_value arr i)"

definition json_array_remove :: "JSON_Array option \<Rightarrow> nat \<Rightarrow> bool \<times> JSON_Array option" where
  "json_array_remove arr ix =
     (case arr of
        None \<Rightarrow> (False, None)
      | Some vs \<Rightarrow> if length vs \<le> ix then (False, arr) else (True, Some (take ix vs @ drop (Suc ix) vs)))"

definition json_array_replace_value :: "JSON_Array option \<Rightarrow> nat \<Rightarrow> JSON_Value option \<Rightarrow> bool \<times> JSON_Array option" where
  "json_array_replace_value arr ix val =
     (case (arr, val) of
        (Some vs, Some v) \<Rightarrow> if length vs \<le> ix then (False, arr) else (True, Some (vs[ix := v]))
      | _ \<Rightarrow> (False, arr))"

definition json_array_replace_string :: "JSON_Array option \<Rightarrow> nat \<Rightarrow> cstr \<Rightarrow> bool \<times> JSON_Array option" where
  "json_array_replace_string arr i t = json_array_replace_value arr i (json_value_init_string t)"

definition json_array_replace_number :: "JSON_Array option \<Rightarrow> nat \<Rightarrow> int \<Rightarrow> bool \<times> JSON_Array option" where
  "json_array_replace_number arr i x = json_array_replace_value arr i (json_value_init_number x)"

definition json_array_replace_boolean :: "JSON_Array option \<Rightarrow> nat \<Rightarrow> bool \<Rightarrow> bool \<times> JSON_Array option" where
  "json_array_replace_boolean arr i b = json_array_replace_value arr i (json_value_init_boolean b)"

definition json_array_replace_null :: "JSON_Array option \<Rightarrow> nat \<Rightarrow> bool \<times> JSON_Array option" where
  "json_array_replace_null arr i = json_array_replace_value arr i json_value_init_null"

definition json_array_clear :: "JSON_Array option \<Rightarrow> bool \<times> JSON_Array option" where
  "json_array_clear arr = (case arr of None \<Rightarrow> (False, None) | Some _ \<Rightarrow> (True, Some []))"

definition json_array_append_value :: "JSON_Array option \<Rightarrow> JSON_Value option \<Rightarrow> bool \<times> JSON_Array option" where
  "json_array_append_value arr val =
     (case (arr, val) of (Some vs, Some v) \<Rightarrow> (True, Some (vs @ [v])) | _ \<Rightarrow> (False, arr))"

definition json_array_append_string :: "JSON_Array option \<Rightarrow> cstr \<Rightarrow> bool \<times> JSON_Array option" where
  "json_array_append_string arr t = json_array_append_value arr (json_value_init_string t)"

definition json_array_append_number :: "JSON_Array option \<Rightarrow> int \<Rightarrow> bool \<times> JSON_Array option" where
  "json_array_append_number arr x = json_array_append_value arr (json_value_init_number x)"

definition json_array_append_boolean :: "JSON_Array option \<Rightarrow> bool \<Rightarrow> bool \<times> JSON_Array option" where
  "json_array_append_boolean arr b = json_array_append_value arr (json_value_init_boolean b)"

definition json_array_append_null :: "JSON_Array option \<Rightarrow> bool \<times> JSON_Array option" where
  "json_array_append_null arr = json_array_append_value arr json_value_init_null"

subsection \<open>Copies, equality and validation\<close>

fun copy_members :: "(string \<times> JSON_Value option) list \<Rightarrow> JSON_Object \<Rightarrow> JSON_Object option" where
  "copy_members [] copy = Some copy"
| "copy_members ((k, None) # r) copy = None"
| "copy_members ((k, Some v) # r) copy =
     (case json_object_add copy k v of None \<Rightarrow> None | Some copy' \<Rightarrow> copy_members r copy')"

fun copy_items :: "JSON_Value option list \<Rightarrow> JSON_Array \<Rightarrow> JSON_Array option" where
  "copy_items [] copy = Some copy"
| "copy_items (None # r) copy = None"
| "copy_items (Some v # r) copy = copy_items r (copy @ [v])"

lemma size_member: "map_of kvs k = Some v \<Longrightarrow> size v < size (JSONObject kvs)"
  by (induction kvs) (auto split: if_splits)

function (sequential) json_value_deep_copy :: "JSON_Value \<Rightarrow> JSON_Value option" where
  "json_value_deep_copy (JSONArray vs) = map_option JSONArray (copy_items (map json_value_deep_copy vs) [])"
| "json_value_deep_copy (JSONObject kvs) =
     map_option JSONObject
       (copy_members (map (\<lambda>kv. (fst kv, case map_of kvs (fst kv) of None \<Rightarrow> None | Some v \<Rightarrow> json_value_deep_copy v)) kvs) [])"
| "json_value_deep_copy (JSONBoolean b) = json_value_init_boolean b"
| "json_value_deep_copy (JSONNumber x) = Some (JSONNumber x)"
| "json_value_deep_copy (JSONString t) = Some (JSONString t)"
| "json_value_deep_copy JSONNull = json_value_init_null"
  by pat_completeness auto
termination
  by (relation "measure size") (auto dest: size_member simp: size_list_estimation' less_Suc_eq_le)

function (sequential) json_value_equals :: "JSON_Value \<Rightarrow> JSON_Value \<Rightarrow> bool" where
  "json_value_equals (JSONArray a) (JSONArray b) \<longleftrightarrow> length a = length b \<and> list_all (\<lambda>(x, y). json_value_equals x y) (zip a b)"
| "json_value_equals (JSONObject a) (JSONObject b) \<longleftrightarrow>
     length a = length b \<and>
     list_all (\<lambda>kv. case map_of a (fst kv) of
        None \<Rightarrow> map_of b (fst kv) = None
      | Some x \<Rightarrow> (case map_of b (fst kv) of None \<Rightarrow> False | Some y \<Rightarrow> json_value_equals x y)) a"
| "json_value_equals (JSONString s) (JSONString t) \<longleftrightarrow> s = t"
| "json_value_equals (JSONBoolean a) (JSONBoolean b) \<longleftrightarrow> a = b"
| "json_value_equals (JSONNumber x) (JSONNumber y) \<longleftrightarrow> \<bar>x - y\<bar> < 1 / 1000000"
| "json_value_equals JSONNull JSONNull \<longleftrightarrow> True"
| "json_value_equals _ _ \<longleftrightarrow> False"
  by pat_completeness auto
termination
  by (relation "measure (\<lambda>(a, _). size a)") (auto dest: size_member set_zip_leftD simp: size_list_estimation' less_Suc_eq_le)

text \<open>\<open>null\<close> in a schema allows every value, an empty array or object every array or object.\<close>

function (sequential) json_validate :: "JSON_Value \<Rightarrow> JSON_Value \<Rightarrow> bool" where
  "json_validate JSONNull v \<longleftrightarrow> True"
| "json_validate (JSONArray ss) (JSONArray vs) \<longleftrightarrow> (case ss of [] \<Rightarrow> True | s # _ \<Rightarrow> list_all (\<lambda>v. json_validate s v) vs)"
| "json_validate (JSONObject ss) (JSONObject vs) \<longleftrightarrow>
     ss = [] \<or>
     length ss \<le> length vs \<and>
     list_all (\<lambda>kv. case map_of vs (fst kv) of
        None \<Rightarrow> False
      | Some v \<Rightarrow> (case map_of ss (fst kv) of None \<Rightarrow> False | Some s \<Rightarrow> json_validate s v)) ss"
| "json_validate (JSONString _) (JSONString _) \<longleftrightarrow> True"
| "json_validate (JSONNumber _) (JSONNumber _) \<longleftrightarrow> True"
| "json_validate (JSONBoolean _) (JSONBoolean _) \<longleftrightarrow> True"
| "json_validate _ _ \<longleftrightarrow> False"
  by pat_completeness auto
termination
  by (relation "measure (\<lambda>(s, _). size s)") (auto dest: size_member)

subsection \<open>Comments\<close>

text \<open>The comments, with their tokens, are overwritten by blanks. The token at the start is taken off after its first character.\<close>

function remove_comments_loop :: "string \<Rightarrow> string \<Rightarrow> bool \<Rightarrow> bool \<Rightarrow> string \<Rightarrow> string" where
  "remove_comments_loop start_token end_token in_string escaped [] = []"
| "remove_comments_loop start_token end_token in_string escaped (c # s) =
     (if c = CHR 0x5C \<and> \<not> escaped then c # remove_comments_loop start_token end_token in_string True s
      else if c = CHR 0x22 \<and> \<not> escaped then c # remove_comments_loop start_token end_token (\<not> in_string) False s
      else if \<not> in_string \<and> prefix start_token (c # s)
      then (let r = drop (length start_token - 1) s
            in replicate (length start_token) CHR '' '' @
               (case strstr r end_token of
                  None \<Rightarrow> r
                | Some p \<Rightarrow>
                    replicate (length r - length p + length end_token) CHR '' '' @
                    remove_comments_loop start_token end_token in_string False (drop (length r - length p + length end_token) r)))
      else c # remove_comments_loop start_token end_token in_string False s)"
  by pat_completeness auto
termination
  by (relation "measure (\<lambda>(_, _, _, _, s). length s)") auto

declare remove_comments_loop.simps(2) [simp del]

definition remove_comments :: "string \<Rightarrow> string \<Rightarrow> string \<Rightarrow> string" where
  "remove_comments s start_token end_token =
     (if start_token = [] \<or> end_token = [] then s else remove_comments_loop start_token end_token False False s)"

definition json_parse_string_with_comments :: "string \<Rightarrow> JSON_Value option" where
  "json_parse_string_with_comments t =
     map_option fst (parse_value (MAX_NESTING + 1)
       (remove_comments (remove_comments (c_string t) ''/*'' ''*/'') ''//'' [EOL]))"

subsection \<open>Serialisation into a buffer\<close>

definition json_serialization_size :: "JSON_Value option \<Rightarrow> nat" where
  "json_serialization_size v = (case json_serialize_to_string v of None \<Rightarrow> 0 | Some t \<Rightarrow> length t + 1)"

definition json_serialize_to_buffer :: "JSON_Value option \<Rightarrow> nat \<Rightarrow> cstr" where
  "json_serialize_to_buffer v buf_size =
     (let needed = json_serialization_size v in if needed = 0 \<or> buf_size < needed then None else json_serialize_to_string v)"

definition json_serialization_size_pretty :: "JSON_Value option \<Rightarrow> nat" where
  "json_serialization_size_pretty v = (case json_serialize_to_string_pretty v of None \<Rightarrow> 0 | Some t \<Rightarrow> length t + 1)"

definition json_serialize_to_buffer_pretty :: "JSON_Value option \<Rightarrow> nat \<Rightarrow> cstr" where
  "json_serialize_to_buffer_pretty v buf_size =
     (let needed = json_serialization_size_pretty v in if needed = 0 \<or> buf_size < needed then None else json_serialize_to_string_pretty v)"

subsection \<open>Removal\<close>

text \<open>A store from which keys can be deleted.\<close>

locale removable_store = keyed_store lookup update invar
  for lookup :: "'s \<Rightarrow> 'k \<Rightarrow> 'v option" and update :: "'s \<Rightarrow> 'k \<Rightarrow> 'v \<Rightarrow> 's" and invar :: "'s \<Rightarrow> bool" +
  fixes delete :: "'s \<Rightarrow> 'k \<Rightarrow> 's"
  assumes lookup_delete: "invar s \<Longrightarrow> lookup (delete s k) = (lookup s)(k := None)"
    and invar_delete: "invar s \<Longrightarrow> invar (delete s k)"
begin

lemma lookup_deletes:
  "invar s \<Longrightarrow> lookup (fold (\<lambda>k s. delete s k) ks s) = lookup s |` (- set ks) \<and> invar (fold (\<lambda>k s. delete s k) ks s)"
proof (induction ks arbitrary: s)
  case (Cons k ks)
  show ?case
    using Cons.IH [OF invar_delete [OF Cons.prems, of k]] lookup_delete [OF Cons.prems, of k]
    by (auto simp: restrict_map_def fun_eq_iff)
qed (simp add: restrict_map_def)

lemma lookup_delete_update: "invar s \<Longrightarrow> lookup (update (delete s k) k v) = lookup (update s k v)"
  by (simp add: lookup_update invar_delete lookup_delete)

end

lemma name_index_split:
  assumes "map_of kvs k = Some v"
  shows "\<exists>as bs. kvs = as @ (k, v) # bs \<and> k \<notin> fst ` set as \<and> name_index k kvs = length as"
  using assms
proof (induction kvs)
  case (Cons kv kvs)
  show ?case
  proof (cases "fst kv = k")
    case True
    then show ?thesis using Cons.prems by (intro exI [of _ "[]"] exI [of _ kvs]) (cases kv, auto simp: name_index_def)
  next
    case False
    then have "map_of kvs k = Some v" using Cons.prems by (cases kv) simp
    then obtain as bs where "kvs = as @ (k, v) # bs" "k \<notin> fst ` set as" "name_index k kvs = length as" using Cons.IH by blast
    then show ?thesis using False by (intro exI [of _ "kv # as"] exI [of _ bs]) (simp add: name_index_def)
  qed
qed simp

definition moved :: "'a list \<Rightarrow> 'a list" where
  "moved bs = (if bs = [] then [] else last bs # butlast bs)"

lemma moved: "set (moved bs) = set bs" "distinct (map f (moved bs)) \<longleftrightarrow> distinct (map f bs)"
  by (cases bs rule: rev_cases; simp add: moved_def; blast)+

lemma json_object_remove_split:
  assumes "map_of kvs k = Some v"
  shows "\<exists>as bs. kvs = as @ (k, v) # bs \<and> k \<notin> fst ` set as \<and>
    json_object_remove_internal kvs k = (True, as @ moved bs)"
proof -
  obtain as bs where s: "kvs = as @ (k, v) # bs" "k \<notin> fst ` set as" "name_index k kvs = length as"
    using name_index_split [OF assms] by blast
  show ?thesis
  proof (cases "bs = []")
    case True
    then show ?thesis using s assms by (auto simp: json_object_remove_internal_def moved_def)
  next
    case False
    then have "kvs ! (length kvs - 1) = last bs" by (simp add: s(1) nth_append last_conv_nth nth_Cons')
    moreover have "butlast (kvs[length as := last bs]) = as @ last bs # butlast bs"
      using False by (simp add: s(1) butlast_append)
    ultimately show ?thesis
      using False s assms by (auto simp: json_object_remove_internal_def moved_def Let_def)
  qed
qed

lemma json_object_remove_members:
  assumes "distinct (map fst kvs)"
  shows "map_of (snd (json_object_remove_internal kvs k)) = (map_of kvs)(k := None) \<and>
    distinct (map fst (snd (json_object_remove_internal kvs k)))"
proof (cases "map_of kvs k")
  case None
  then show ?thesis using assms by (auto simp: json_object_remove_internal_def)
next
  case (Some v)
  obtain as bs where s: "kvs = as @ (k, v) # bs"
    "json_object_remove_internal kvs k = (True, as @ moved bs)"
    using json_object_remove_split [OF Some] by blast
  let ?bs = "moved bs"
  have d: "distinct (map fst (as @ ?bs))" using assms by (simp add: s(1) moved)
  have "(k, v) \<notin> set (as @ bs)" using assms by (auto simp: s(1) image_iff)
  then have "set (as @ ?bs) = set kvs - {(k, v)}"
    by (auto simp: s(1) moved)
  then have "map_of (as @ ?bs) x = Some y \<longleftrightarrow> ((map_of kvs)(k := None)) x = Some y" for x y
    using map_of_eq_Some_iff [OF d, of x y] map_of_eq_Some_iff [OF assms, of x y] Some by (cases "x = k") auto
  then have "map_of (as @ ?bs) = (map_of kvs)(k := None)"
    by (intro ext option.expand) (metis not_None_eq option.sel)+
  then show ?thesis using d by (simp only: s(2) snd_conv)
qed

interpretation json_members: removable_store map_of json_object_set_value "\<lambda>kvs. distinct (map fst kvs)"
  "\<lambda>kvs k. snd (json_object_remove_internal kvs k)"
  by unfold_locales (simp_all add: json_object_remove_members)

text \<open>Removing members is exact: after any sequence of removals an object has the members it had, less the ones that were named,
  although each removal moves the last member to the place of the removed one; no name occurs twice.\<close>

theorem json_object_removals:
  assumes "distinct (map fst kvs)"
  shows "map_of (fold (\<lambda>k kvs. snd (json_object_remove_internal kvs k)) ks kvs) = map_of kvs |` (- set ks) \<and>
    distinct (map fst (fold (\<lambda>k kvs. snd (json_object_remove_internal kvs k)) ks kvs))"
  using json_members.lookup_deletes [OF assms] by simp

theorem json_object_removals_witness:
  "map_of (fold (\<lambda>k kvs. snd (json_object_remove_internal kvs k)) [''a'', ''x''] [(''a'', JSONNull), (''b'', JSONBoolean True), (''c'', JSONNull)]) ''b'' =
     Some (JSONBoolean True)"
  using json_object_removals [of "[(''a'', JSONNull), (''b'', JSONBoolean True), (''c'', JSONNull)]" "[''a'', ''x'']"] by simp

subsection \<open>Members by dotted names\<close>

function name_path :: "string \<Rightarrow> string list" where
  "name_path nm = (if dotted nm then before_dot nm # name_path (after_dot nm) else [nm])"
  by pat_completeness auto
termination
  by (relation "measure length") (auto simp: after_dot_shorter)

declare name_path.simps [simp del]

lemma name_path_plain: "\<not> dotted nm \<Longrightarrow> name_path nm = [nm]" by (simp add: name_path.simps)
lemma name_path_dotted: "dotted nm \<Longrightarrow> name_path nm = before_dot nm # name_path (after_dot nm)" by (simp add: name_path.simps [of nm])

lemma dotget_plain: "\<not> dotted nm \<Longrightarrow> json_object_dotget_value obj nm = json_object_get_value obj (Some nm)"
  by (simp add: json_object_dotget_value.simps)

lemma dotget_dotted:
  "dotted nm \<Longrightarrow> json_object_dotget_value (Some kvs) nm =
     json_object_dotget_value (json_value_get_object (map_of kvs (before_dot nm))) (after_dot nm)"
  by (subst json_object_dotget_value.simps) (simp add: json_object_get_value_def)

text \<open>The step of a dotted name: the object below, which is the nested one or, when there is none, a new one.\<close>

lemma dotset_plain: "\<not> dotted nm \<Longrightarrow> json_object_dotset_value kvs nm v = (True, json_object_set_value kvs nm v)"
  by (simp add: json_object_dotset_value.simps)

lemma json_object_set_missing: "map_of kvs k = None \<Longrightarrow> json_object_add kvs k v = Some (json_object_set_value kvs k v)"
  by (induction kvs) (auto simp: json_object_add_def split: if_splits)

lemma dotset_dotted:
  assumes "dotted nm"
  shows "json_object_dotset_value kvs nm v =
    (case map_of kvs (before_dot nm) of
       Some (JSONObject sub) \<Rightarrow>
         (fst (json_object_dotset_value sub (after_dot nm) v),
          json_object_set_value kvs (before_dot nm) (JSONObject (snd (json_object_dotset_value sub (after_dot nm) v))))
     | Some _ \<Rightarrow> (False, kvs)
     | None \<Rightarrow>
         if fst (json_object_dotset_value [] (after_dot nm) v)
         then (True, json_object_set_value kvs (before_dot nm) (JSONObject (snd (json_object_dotset_value [] (after_dot nm) v))))
         else (False, kvs))"
  using assms
  by (subst json_object_dotset_value.simps)
    (auto simp: case_prod_beta json_object_set_missing split: option.split JSON_Value.split)

lemma json_object_set_same: "map_of kvs k = Some v \<Longrightarrow> json_object_set_value kvs k v = kvs"
  by (induction kvs) (auto split: if_splits)

lemma dotset_fails: "\<not> fst (json_object_dotset_value kvs nm v) \<Longrightarrow> snd (json_object_dotset_value kvs nm v) = kvs"
proof (induction kvs nm v rule: json_object_dotset_value.induct)
  case (1 kvs nm v)
  then show ?case
    by (cases "dotted nm")
      (auto simp: dotset_plain dotset_dotted json_object_set_same split: option.splits JSON_Value.splits)
qed

lemma dotset_gets: "fst (json_object_dotset_value kvs nm v) \<Longrightarrow> json_object_dotget_value (Some (snd (json_object_dotset_value kvs nm v))) nm = Some v"
proof (induction kvs nm v rule: json_object_dotset_value.induct)
  case (1 kvs nm v)
  then show ?case
    by (cases "dotted nm")
      (auto simp: dotset_plain dotset_dotted dotget_plain dotget_dotted json_object_get_value_def map_of_json_object_set_value
        split: option.splits JSON_Value.splits if_splits)
qed

lemma dotset_others:
  assumes "\<not> prefix (name_path nm) (name_path other)" and "\<not> prefix (name_path other) (name_path nm)"
  shows "json_object_dotget_value (Some (snd (json_object_dotset_value kvs nm v))) other = json_object_dotget_value (Some kvs) other"
  using assms
proof (induction kvs nm v arbitrary: other rule: json_object_dotset_value.induct)
  case (1 kvs nm v)
  have none: "json_object_dotget_value None q = None" for q
    by (induction "length q" arbitrary: q rule: less_induct)
      (metis (no_types) after_dot_shorter json_object_dotget_value.simps json_object_get_value_def json_value_get_object.simps(2) old.prod.case option.simps(4))
  have empty: "json_object_dotget_value (Some []) q = None" for q
    by (cases "dotted q") (simp_all add: dotget_plain dotget_dotted none json_object_get_value_def)
  have rest: "\<not> prefix (name_path (after_dot nm)) (name_path (after_dot other)) \<and> \<not> prefix (name_path (after_dot other)) (name_path (after_dot nm))"
    if "dotted nm" "dotted other" "before_dot nm = before_dot other"
    using "1.prems" that by (simp add: name_path_dotted)
  show ?case
    using "1.prems" rest "1.IH"
    by (cases "dotted nm"; cases "dotted other"; cases "before_dot nm = before_dot other")
      (auto simp: dotset_plain dotset_dotted dotget_plain dotget_dotted name_path_plain name_path_dotted json_object_get_value_def
        map_of_json_object_set_value none empty split: option.splits JSON_Value.splits if_splits)
qed

text \<open>C39: Setting a member by a dotted name and getting it are inverse, at every depth: when the call succeeds, the name then reads
  as the value that was set, and every name that is on another path reads as before; nested objects that are missing are made on
  the way. When it fails, because a name on the way has a value that is no object, the object is unchanged.\<close>

theorem json_object_dotset_dotget:
  "(let (status, kvs') = json_object_dotset_value kvs nm v
    in (if status then json_object_dotget_value (Some kvs') nm = Some v else kvs' = kvs) \<and>
       {other. json_object_dotget_value (Some kvs') other \<noteq> json_object_dotget_value (Some kvs) other} \<subseteq>
         {other. prefix (name_path nm) (name_path other)} \<union> {other. prefix (name_path other) (name_path nm)})"
  using dotset_gets [of kvs nm v] dotset_fails [of kvs nm v] dotset_others [of nm _ kvs v] by (auto simp: case_prod_beta Let_def)

subsection \<open>Copies and equality\<close>

lemma copy_members_all: "distinct (map fst (copy @ kvs)) \<Longrightarrow> copy_members (map (\<lambda>kv. (fst kv, Some (snd kv))) kvs) copy = Some (copy @ kvs)"
  by (induction kvs arbitrary: copy) (auto simp: json_object_add_def map_of_eq_None_iff image_iff)

lemma copy_items_all: "copy_items (map Some vs) copy = Some (copy @ vs)"
  by (induction vs arbitrary: copy) auto

text \<open>A copy of a well-formed value is the value.\<close>

lemma deep_copy_same: "json_ok v \<Longrightarrow> json_value_deep_copy v = Some v"
proof (induction v rule: json_value_deep_copy.induct)
  case (1 vs)
  then have "map json_value_deep_copy vs = map Some vs" by simp
  then show ?case by (simp add: copy_items_all del: map_eq_conv)
next
  case (2 kvs)
  have "map (\<lambda>kv. (fst kv, case map_of kvs (fst kv) of None \<Rightarrow> None | Some v \<Rightarrow> json_value_deep_copy v)) kvs = map (\<lambda>kv. (fst kv, Some (snd kv))) kvs"
  proof (rule map_cong [OF refl])
    fix kv
    assume kv: "kv \<in> set kvs"
    then have m: "map_of kvs (fst kv) = Some (snd kv)" using "2.prems" kv by (simp add: map_of_eq_Some_iff)
    show "(fst kv, case map_of kvs (fst kv) of None \<Rightarrow> None | Some v \<Rightarrow> json_value_deep_copy v) = (fst kv, Some (snd kv))"
      using "2.IH" [OF kv m] "2.prems" kv unfolding m by simp
  qed
  then show ?case using copy_members_all [of "[]" kvs] "2.prems" by (simp del: map_eq_conv)
qed (simp_all add: json_value_init_boolean_def json_value_init_null_def)

lemma equals_refl: "json_value_equals v v"
proof (induction "size v" arbitrary: v rule: less_induct)
  case less
  show ?case
  proof (cases v)
    case (JSONArray vs)
    have "x = y \<and> size x < size v" if "(x, y) \<in> set (zip vs vs)" for x y
      using that set_zip_leftD [OF that] by (auto simp: JSONArray zip_same less_Suc_eq_le size_list_estimation')
    then show ?thesis using less by (auto simp: JSONArray list_all_iff)
  next
    case (JSONObject kvs)
    then show ?thesis using less size_member [of kvs] by (auto simp: list_all_iff split: option.split)
  qed simp_all
qed

text \<open>Two objects with the same members are equal for \<open>json_value_equals\<close> in whatever order they have them, and a deep copy of a
  well-formed value is made, is the value itself, and equals it.\<close>

theorem json_value_equals_order:
  assumes "json_ok (JSONObject a)" and "set b = set a" and "distinct (map fst b)"
  shows "json_value_equals (JSONObject a) (JSONObject b) \<and> json_value_deep_copy (JSONObject a) = Some (JSONObject a)"
proof -
  have d: "distinct (map fst a)" using assms(1) by simp
  have "map_of a x = Some y \<longleftrightarrow> map_of b x = Some y" for x y
    using map_of_eq_Some_iff [OF d] map_of_eq_Some_iff [OF assms(3)] assms(2) by simp
  then have m: "map_of b = map_of a" by (intro ext option.expand) (metis not_None_eq option.sel)+
  have "length a = length b"
    using distinct_card [of a] distinct_card [of b] d assms(2,3) by (simp add: distinct_map)
  then have "json_value_equals (JSONObject a) (JSONObject b) \<longleftrightarrow> json_value_equals (JSONObject a) (JSONObject a)"
    unfolding json_value_equals.simps m by simp
  then show ?thesis using equals_refl deep_copy_same [OF assms(1)] by blast
qed

subsection \<open>Texts with comments\<close>

text \<open>Blanks take the place of comments, so that every other character keeps its place.\<close>

lemma remove_comments_length: "start_token \<noteq> [] \<Longrightarrow> length (remove_comments_loop start_token end_token q e s) = length s"
proof (induction start_token end_token q e s rule: remove_comments_loop.induct)
  case (2 start_token end_token q e c s)
  have p: "length p \<le> length r \<and> length end_token \<le> length p" if "strstr r end_token = Some p" for r p
    using strstr_Some_D [OF that] by (auto dest: prefix_length_le suffix_length_le)
  obtain a st where "start_token = a # st" using "2.prems" by (cases start_token) simp_all
  then show ?case
    using "2.IH"(1-4) p [of "drop (length st) s"]
    by (subst remove_comments_loop.simps) (auto simp: Let_def dest!: prefix_length_le split: option.split)
qed simp

lemma remove_comments_none: "\<not> sublist start_token s \<Longrightarrow> remove_comments_loop start_token end_token q e s = s"
proof (induction start_token end_token q e s rule: remove_comments_loop.induct)
  case (2 start_token end_token q e c s)
  then show ?case
    by (subst remove_comments_loop.simps) (auto simp: sublist_Cons_right)
qed simp

lemma parse_without_comments:
  assumes "\<not> sublist ''/*'' s" and "\<not> sublist ''//'' s" and "NUL \<notin> set s" and "\<not> prefix BOM s"
  shows "json_parse_string_with_comments s = json_parse_string (Some s)"
  using assms by (simp add: json_parse_string_with_comments_def json_parse_string_def remove_comments_def remove_comments_none)

end
