(* ===== verification/Watcher.thy ===== *)
theory Watcher
  imports OtherUtils MpiCalls ConfigUtils
begin

text \<open>
  The watcher of the agent (\<open>src/adapters/pnp/Watcher.c\<close>) and its session with the platform (\<open>RefreshMpiClientSession\<close> of
  \<open>src/adapters/pnp/PnpAgent.c\<close>). The watcher applies the desired configuration that it finds in a local file and in a file of a Git
  repository, and writes the reported configuration to a file.

  The state extends the runtime by the platform process at the other end of the socket (\<open>platform_of\<close>) and the transport to it, by what
  the start of its daemon makes of that process (\<open>after_start\<close>), by the current directory and the commands that are run in it, and by the
  global variables of the two files.
\<close>

subsection \<open>State\<close>

datatype AgentExitState = NoError | NoConnectionString | IotHubInitializationFailure | PlatformInitializationFailure

record 's agent = runtime +
  mpi_io :: "'s transport"
  platform_of :: 's
  after_start :: "host \<Rightarrow> 's \<Rightarrow> 's"
  exec_in :: "string \<Rightarrow> exec"
  cwd :: string
  g_mpiHandle :: cstr
  g_productName :: string
  g_maxPayload :: "32 word"
  g_exitState :: AgentExitState
  g_localManagement :: int
  g_reportedHash :: "64 word"
  g_desiredHash :: "64 word"
  g_gitManagement :: int
  g_gitRepositoryUrl :: cstr
  g_gitBranch :: cstr
  g_gitDesiredHash :: "64 word"
  g_gitCloneInitialized :: bool

definition DC_FILE :: string where "DC_FILE = ''/etc/osconfig/osconfig_desired.json''"
definition RC_FILE :: string where "RC_FILE = ''/etc/osconfig/osconfig_reported.json''"
definition GIT_DC_CLONE :: string where "GIT_DC_CLONE = ''/etc/osconfig/gitops/''"
definition GIT_DC_FILE :: string where "GIT_DC_FILE = GIT_DC_CLONE @ ''osconfig_desired.json''"
definition OSCONFIG_PLATFORM :: string where "OSCONFIG_PLATFORM = ''osconfig-platform''"

subsection \<open>Calls\<close>

text \<open>A command without a text, in the current directory; \<open>NULL\<close> is refused.\<close>

definition run_here :: "cstr \<Rightarrow> 's agent \<Rightarrow> int \<times> 's agent" where
  "run_here c s =
     (case c of
        None \<Rightarrow> (- 1, s)
      | Some cmd \<Rightarrow> (case exec_in s (cwd s) cmd (host_of s) of (status, _, w) \<Rightarrow> (status, s\<lparr>host_of := w\<rparr>)))"

definition chdir :: "cstr \<Rightarrow> 's agent \<Rightarrow> int \<times> 's agent" where
  "chdir d s =
     (case (d, ask ''chdir'' s) of
        (Some p, (failed, s1)) \<Rightarrow> if failed = 0 then (0, s1\<lparr>cwd := p\<rparr>) else (- 1, s1)
      | (None, (_, s1)) \<Rightarrow> (- 1, s1))"

definition getcwd :: "'s agent \<Rightarrow> cstr \<times> 's agent" where
  "getcwd s = (case ask ''getcwd'' s of (failed, s1) \<Rightarrow> (if failed = 0 then Some (cwd s) else None, s1))"

text \<open>The file becomes accessible to its owner and group only.\<close>

definition restrict_file :: "string \<Rightarrow> 's agent \<Rightarrow> int \<times> 's agent" where
  "restrict_file p s =
     (if node (fs_of s) p \<noteq> None \<and> now s ''chmod'' 0 = 0 then 0 else - 1,
      tick (put_fs (RestrictFileAccessToCurrentAccountOnly (now s) p (fs_of s)) s))"

definition call_set_desired :: "string \<Rightarrow> 's agent \<Rightarrow> int \<times> 's agent" where
  "call_set_desired payload s =
     (case CallMpiSetDesired_client (allocated s) (mpi_io s) (g_mpiHandle s) (Some payload) (int (length payload)) (platform_of s) of
        (status, p) \<Rightarrow> (status, tick (s\<lparr>platform_of := p\<rparr>)))"

definition call_get_reported :: "cstr \<times> int \<Rightarrow> 's agent \<Rightarrow> (int \<times> cstr \<times> int) option \<times> 's agent" where
  "call_get_reported old s =
     (case CallMpiGetReported_client (allocated s) (mpi_io s) (g_mpiHandle s) old (platform_of s) of
        (r, p) \<Rightarrow> (r, tick (s\<lparr>platform_of := p\<rparr>)))"

subsection \<open>The session\<close>

text \<open>The status, and whether the platform was running already.\<close>

definition RefreshMpiClientSession :: "'s agent \<Rightarrow> (bool \<times> bool) \<times> 's agent" where
  "RefreshMpiClientSession s =
     (case (if g_mpiHandle s \<noteq> None then IsDaemonActive (Some OSCONFIG_PLATFORM) s else (False, s)) of
        (True, s1) \<Rightarrow> ((True, True), s1)
      | (False, s1) \<Rightarrow>
          (case EnableAndStartDaemon (Some OSCONFIG_PLATFORM) s1 of
             (True, s2) \<Rightarrow>
               (case CallMpiOpen_client (allocated s2) (mpi_io s2) (Some (g_productName s2)) (g_maxPayload s2)
                       (after_start s2 (host_of s2) (platform_of s2)) of
                  (h, p) \<Rightarrow>
                    ((h \<noteq> None, False),
                     tick (s2\<lparr>platform_of := p, g_mpiHandle := h,
                              g_exitState := (if h = None then PlatformInitializationFailure else g_exitState s2)\<rparr>)))
           | (False, s2) \<Rightarrow> ((False, False), s2\<lparr>g_exitState := PlatformInitializationFailure\<rparr>)))"

subsection \<open>Desired and reported configurations\<close>

text \<open>The hash of the configuration that was applied last is kept, one for each file.\<close>

definition process_payload ::
  "string \<Rightarrow> ('s agent \<Rightarrow> 64 word) \<Rightarrow> (64 word \<Rightarrow> 's agent \<Rightarrow> 's agent) \<Rightarrow> 's agent \<Rightarrow> 's agent" where
  "process_payload payload get put s =
     (let payloadHash = HashString (Some payload)
      in if get s = payloadHash \<or> payloadHash = 0 then s
         else (case call_set_desired payload s of
            (mpiResult, s1) \<Rightarrow>
              (let (mpiResult', s2) =
                     (if mpiResult \<noteq> MPI_OK
                      then (case RefreshMpiClientSession s1 of
                         ((status, platformAlreadyRunning), t) \<Rightarrow>
                           if status \<and> \<not> platformAlreadyRunning then call_set_desired payload t else (mpiResult, t))
                      else (mpiResult, s1))
               in if mpiResult' = MPI_OK then put payloadHash s2 else s2)))"

definition ProcessDesiredConfigurationFromFile ::
  "string \<Rightarrow> ('s agent \<Rightarrow> 64 word) \<Rightarrow> (64 word \<Rightarrow> 's agent \<Rightarrow> 's agent) \<Rightarrow> 's agent \<Rightarrow> 's agent" where
  "ProcessDesiredConfigurationFromFile p get put s =
     (case read_fs (\<lambda>m. LoadStringFromFile m (Some p) False) (snd (restrict_file p s)) of
        (None, s1) \<Rightarrow> s1
      | (Some payload, s1) \<Rightarrow> if payload = [] then s1 else process_payload payload get put s1)"

definition save_payload ::
  "string \<Rightarrow> ('s agent \<Rightarrow> 64 word) \<Rightarrow> (64 word \<Rightarrow> 's agent \<Rightarrow> 's agent) \<Rightarrow> string \<Rightarrow> int \<Rightarrow> 's agent \<Rightarrow> 's agent" where
  "save_payload p get put payload payloadSizeBytes s =
     (let payloadHash = HashString (Some (c_string payload))
      in if get s = payloadHash \<or> payloadHash = 0 then s
         else (case edit_fs (\<lambda>m _. SavePayloadToFile m (Some p) (Some (take (nat payloadSizeBytes) payload))) s of
            (saved, s1) \<Rightarrow> if saved then put payloadHash (snd (restrict_file p s1)) else s1))"

definition SaveReportedConfigurationToFile ::
  "string \<Rightarrow> ('s agent \<Rightarrow> 64 word) \<Rightarrow> (64 word \<Rightarrow> 's agent \<Rightarrow> 's agent) \<Rightarrow> 's agent \<Rightarrow> 's agent option" where
  "SaveReportedConfigurationToFile p get put s =
     (case call_get_reported (None, 0) s of
        (None, _) \<Rightarrow> None
      | (Some r, s1) \<Rightarrow>
          (case (if fst r \<noteq> MPI_OK
                 then (case RefreshMpiClientSession s1 of
                    ((status, platformAlreadyRunning), t) \<Rightarrow>
                      if status \<and> \<not> platformAlreadyRunning then call_get_reported (snd r) t else (Some r, t))
                 else (Some r, s1)) of
             (None, _) \<Rightarrow> None
           | (Some (mpiResult, payload, payloadSizeBytes), s2) \<Rightarrow>
               Some (if mpiResult = MPI_OK \<and> payload \<noteq> None \<and> 0 < payloadSizeBytes
                     then save_payload p get put (the payload) payloadSizeBytes s2 else s2)))"

subsection \<open>The Git clone\<close>

definition DeleteGitClone :: "cstr \<Rightarrow> 's agent \<Rightarrow> int \<times> 's agent" where
  "DeleteGitClone gitClonePath s =
     (case gitClonePath of
        None \<Rightarrow> (EINVAL, s)
      | Some p \<Rightarrow> (case format_text (''rm -r '' @ p) s of (cleanUpCommand, s1) \<Rightarrow> run_here cleanUpCommand s1))"

definition ProtectDcFile :: "cstr \<Rightarrow> 's agent \<Rightarrow> int \<times> 's agent" where
  "ProtectDcFile gitClonedDcFile s =
     (case gitClonedDcFile of
        None \<Rightarrow> (EINVAL, s)
      | Some p \<Rightarrow> if \<not> FileExists (Some p) (fs_of s) then (EACCES, s) else restrict_file p s)"

definition InitializeGitClone :: "cstr \<Rightarrow> cstr \<Rightarrow> cstr \<Rightarrow> cstr \<Rightarrow> 's agent \<Rightarrow> int \<times> 's agent" where
  "InitializeGitClone gitRepositoryUrl gitBranch gitClonePath gitClonedDcFile s =
     (case (gitRepositoryUrl, gitBranch, gitClonePath, gitClonedDcFile) of
        (Some url, Some branch, Some clone, Some dc) \<Rightarrow>
          if clone = [] \<or> dc = [] then (EINVAL, s)
          else if url = [] \<or> branch = [] then (ENOENT, s)
          else (let (cloneCommand, s1) = format_text (''git clone -q --branch '' @ branch @ '' --single-branch '' @ url @ '' '' @ clone) s;
                    (configCommand, s2) = format_text (''git config --global --add safe.directory '' @ clone) s1;
                    s3 = snd (DeleteGitClone (Some clone) s2)
                in case run_here cloneCommand s3 of
                     (error, s4) \<Rightarrow>
                       if error \<noteq> 0 then (error, s4)
                       else (case run_here configCommand s4 of
                          (error, s5) \<Rightarrow> if error \<noteq> 0 then (error, s5) else ProtectDcFile (Some dc) s5))
      | _ \<Rightarrow> (EINVAL, s))"

text \<open>The directory is restored only when every command has succeeded.\<close>

definition RefreshGitClone :: "cstr \<Rightarrow> cstr \<Rightarrow> cstr \<Rightarrow> 's agent \<Rightarrow> int \<times> 's agent" where
  "RefreshGitClone gitBranch gitClonePath gitClonedDcFile s =
     (case (gitBranch, gitClonePath, gitClonedDcFile) of
        (Some branch, Some clone, Some dc) \<Rightarrow>
          (let (checkoutBranchCommand, s1) = format_text (''git checkout '' @ branch) s;
               (checkoutFileCommand, s2) = format_text (''git checkout '' @ dc) s1;
               (currentDirectory, s3) = getcwd s2
           in case chdir (Some clone) s3 of
                (error, s4) \<Rightarrow>
                  if error \<noteq> 0 then (error, s4)
                  else (case run_here checkoutFileCommand s4 of
                     (error, s5) \<Rightarrow>
                       if error \<noteq> 0 then (error, s5)
                       else (case run_here checkoutBranchCommand s5 of
                          (error, s6) \<Rightarrow>
                            if error \<noteq> 0 then (error, s6)
                            else (case run_here (Some ''git pull'') s6 of
                               (error, s7) \<Rightarrow>
                                 if error \<noteq> 0 then (error, s7)
                                 else (case chdir currentDirectory s7 of
                                    (error, s8) \<Rightarrow> if error \<noteq> 0 then (error, s8) else ProtectDcFile (Some dc) s8)))))
      | _ \<Rightarrow> (EINVAL, s))"

subsection \<open>The watcher\<close>

definition InitializeWatcher :: "cstr \<Rightarrow> 's agent \<Rightarrow> 's agent" where
  "InitializeWatcher jsonConfiguration s =
     (let s1 = (if jsonConfiguration = None then s
                else s\<lparr>g_localManagement := GetLocalManagementFromJsonConfig jsonConfiguration,
                       g_gitManagement := GetGitManagementFromJsonConfig jsonConfiguration,
                       g_gitRepositoryUrl := GetGitRepositoryUrlFromJsonConfig (allocated s) jsonConfiguration,
                       g_gitBranch := GetGitBranchFromJsonConfig (allocated (tick s)) jsonConfiguration,
                       calls := calls s + 2\<rparr>)
      in snd (restrict_file GIT_DC_FILE (snd (restrict_file RC_FILE (snd (restrict_file DC_FILE (s1\<lparr>g_gitCloneInitialized := False\<rparr>)))))))"

definition watch_local :: "'s agent \<Rightarrow> 's agent" where
  "watch_local s =
     (if g_localManagement s \<noteq> 0
      then ProcessDesiredConfigurationFromFile DC_FILE g_desiredHash (\<lambda>h s. s\<lparr>g_desiredHash := h\<rparr>) s else s)"

definition watch_git :: "'s agent \<Rightarrow> 's agent" where
  "watch_git s =
     (if g_gitManagement s = 0 then s
      else (let s1 = (if g_gitCloneInitialized s then s
                      else (case InitializeGitClone (g_gitRepositoryUrl s) (g_gitBranch s) (Some GIT_DC_CLONE) (Some GIT_DC_FILE) s of
                         (error, t) \<Rightarrow> if error = 0 then t\<lparr>g_gitCloneInitialized := True\<rparr> else t))
            in if \<not> g_gitCloneInitialized s1 then s1
               else (case RefreshGitClone (g_gitBranch s1) (Some GIT_DC_CLONE) (Some GIT_DC_FILE) s1 of
                  (error, t) \<Rightarrow>
                    if error = 0
                    then ProcessDesiredConfigurationFromFile GIT_DC_FILE g_gitDesiredHash (\<lambda>h s. s\<lparr>g_gitDesiredHash := h\<rparr>) t else t)))"

definition WatcherDoWork :: "'s agent \<Rightarrow> 's agent option" where
  "WatcherDoWork s =
     (let s1 = watch_git (watch_local s)
      in if g_localManagement s1 \<noteq> 0
         then SaveReportedConfigurationToFile RC_FILE g_reportedHash (\<lambda>h s. s\<lparr>g_reportedHash := h\<rparr>) s1 else Some s1)"

definition WatcherCleanup :: "'s agent \<Rightarrow> 's agent" where
  "WatcherCleanup s = (snd (DeleteGitClone (Some GIT_DC_CLONE) s))\<lparr>g_gitRepositoryUrl := None, g_gitBranch := None\<rparr>"

definition IsWatcherActive :: "'s agent \<Rightarrow> bool" where
  "IsWatcherActive s \<longleftrightarrow> g_localManagement s \<noteq> 0 \<or> g_gitManagement s \<noteq> 0"

subsection \<open>Desired configurations are applied once\<close>

lemma allocated_ok: "faults s = sys_ok \<Longrightarrow> allocated s = all_ok"
  by (simp add: allocated_def now_def all_ok_def)

text \<open>What a file holds stays when its access is restricted.\<close>

definition holds :: "string \<Rightarrow> string \<Rightarrow> 's agent \<Rightarrow> bool" where
  "holds p bs s \<longleftrightarrow> faults s = sys_ok \<and> NUL \<notin> set bs \<and> (\<exists>n. node (fs_of s) p = Some n \<and> \<not> is_dir n \<and> bytes n = bs)"

definition same_agent :: "'s agent \<Rightarrow> 's agent \<Rightarrow> bool" where
  "same_agent s t \<longleftrightarrow> mpi_io t = mpi_io s \<and> platform_of t = platform_of s \<and> g_mpiHandle t = g_mpiHandle s \<and>
     g_desiredHash t = g_desiredHash s \<and> g_localManagement t = g_localManagement s"

lemma loaded_payload:
  assumes "holds p bs s" and "bs \<noteq> []"
  shows "\<exists>t. ProcessDesiredConfigurationFromFile p get put s = process_payload bs get put t \<and> holds p bs t \<and> same_agent s t"
proof -
  obtain n where n: "node (fs_of s) p = Some n" "\<not> is_dir n" "bytes n = bs" using assms(1) by (auto simp: holds_def)
  define t where "t = tick (snd (restrict_file p s))"
  have ok: "now u site i = 0" if "faults u = sys_ok" for u :: "'s agent" and site i using that by (simp add: now_def)
  have fs: "fs_of t = put_node p (Some (n\<lparr>st_mode := MODE_0660\<rparr>)) (fs_of s)"
    using assms(1) n(1)
    by (simp add: t_def restrict_file_def RestrictFileAccessToCurrentAccountOnly_def fs_of_def put_fs_def tick_def holds_def ok)
  have f: "faults t = sys_ok" using assms(1) by (simp add: t_def restrict_file_def put_fs_def tick_def holds_def)
  have h: "holds p bs t" using assms(1) n by (simp add: holds_def f fs)
  have "now (snd (restrict_file p s)) = sys_ok" "fs_of (snd (restrict_file p s)) = fs_of t"
    using f by (simp_all add: t_def tick_def now_def fs_of_def)
  then have "read_fs (\<lambda>m. LoadStringFromFile m (Some p) False) (snd (restrict_file p s)) = (Some bs, t)"
    using n assms(1) by (simp add: read_fs_def fs t_def [symmetric] readable_bytes_def holds_def)
  moreover have "same_agent s t" by (simp add: same_agent_def t_def restrict_file_def put_fs_def tick_def)
  ultimately show ?thesis using h assms(2) by (intro exI [of _ t]) (simp add: ProcessDesiredConfigurationFromFile_def)
qed


definition desired_fs :: fs where
  "desired_fs = \<lparr>node = [DC_FILE \<mapsto> \<lparr>is_dir = False, bytes = ''true'', st_uid = 0, st_gid = 0, st_mode = MODE_0660\<rparr>],
     new_file = \<lparr>is_dir = False, bytes = [], st_uid = 0, st_gid = 0, st_mode = MODE_0660\<rparr>, line_max = 16\<rparr>"

definition sample_agent :: "mmi_call list server agent" where
  "sample_agent = \<lparr>faults = sys_ok, calls = 0, shell_exec = (\<lambda>cmd w. (0, None, w)), random = (\<lambda>_. 0), readdir_of = (\<lambda>_. None),
     new_dir = \<lparr>is_dir = True, bytes = [], st_uid = 0, st_gid = 0, st_mode = 0\<rparr>,
     host_of = \<lparr>host_fs = desired_fs, getpwent = [], getspnam = (\<lambda>_. None), spnam_errno = (\<lambda>_. 0), getgrent = [],
       getgrgid = (\<lambda>_. None), grgid_errno = (\<lambda>_. 0), getgrouplist = (\<lambda>_ _. []), today = 0\<rparr>,
     why = None, mpi_io = connected empty_device id (\<lambda>_. 0), platform_of = recorder_server, after_start = (\<lambda>_ p. p),
     exec_in = (\<lambda>_ cmd w. (0, None, w)), cwd = ''/'', g_mpiHandle = Some (quoted ''U''), g_productName = ''Azure OSConfig'',
     g_maxPayload = 0, g_exitState = NoError, g_localManagement = 1, g_reportedHash = 0, g_desiredHash = 0, g_gitManagement = 0,
     g_gitRepositoryUrl = None, g_gitBranch = None, g_gitDesiredHash = 0, g_gitCloneInitialized = False\<rparr>"

lemma hash_true: "HashString (Some ''true'') \<noteq> 0"
  by code_simp

lemma sample_agent_fields:
  "holds DC_FILE ''true'' sample_agent" "g_localManagement sample_agent \<noteq> 0" "mpi_io sample_agent = connected empty_device id (\<lambda>_. 0)"
  "platform_of sample_agent = recorder_server" "g_mpiHandle sample_agent = Some (quoted ''U'')" "g_desiredHash sample_agent = 0"
  by (simp_all add: sample_agent_def holds_def fs_of_def desired_fs_def NUL_def)


end
