(* ===== verification/Logging.thy ===== *)
theory Logging
  imports ConfigUtils
begin

text \<open>
  The log (\<open>src/common/logging/Logging.c\<close> and the macro \<open>OsConfigLog\<close> of \<open>Logging.h\<close>): its levels and sizes, its file and the
  rolling of the file when it has become too large. The text of a line, with its time and place, is a parameter; what is printed on the
  console is left out. A failing system call is one for which the \<open>sys\<close> parameter gives an error.
\<close>

subsection \<open>Settings\<close>

record logging =
  g_loggingLevel :: int
  g_maxLogSize :: "32 word"
  g_maxLogSizeDebugMultiplier :: "32 word"
  g_consoleLoggingEnabled :: bool

definition initial_logging :: logging where
  "initial_logging = \<lparr>g_loggingLevel = 6, g_maxLogSize = 1048576, g_maxLogSizeDebugMultiplier = 5,
     g_consoleLoggingEnabled = True\<rparr>"

text \<open>A process whose parent is \<open>init\<close> is a daemon.\<close>

definition IsDaemon :: "nat \<Rightarrow> bool" where
  "IsDaemon parent \<longleftrightarrow> parent = 1"

definition IsConsoleLoggingEnabled :: "nat \<Rightarrow> logging \<Rightarrow> bool" where
  "IsConsoleLoggingEnabled parent g \<longleftrightarrow> (if IsDaemon parent then False else g_consoleLoggingEnabled g)"

definition SetConsoleLoggingEnabled :: "bool \<Rightarrow> logging \<Rightarrow> logging" where
  "SetConsoleLoggingEnabled b g = g\<lparr>g_consoleLoggingEnabled := b\<rparr>"

definition GetLoggingLevelName :: "int \<Rightarrow> string" where
  "GetLoggingLevelName level =
     (if level = 0 then ''EMERGENCY'' else if level = 1 then ''ALERT'' else if level = 2 then ''CRITICAL'' else if level = 3 then ''ERROR''
      else if level = 4 then ''WARNING'' else if level = 5 then ''NOTICE'' else if level = 6 then ''INFO'' else ''DEBUG'')"

definition SetLoggingLevel :: "int \<Rightarrow> logging \<Rightarrow> logging" where
  "SetLoggingLevel level g = g\<lparr>g_loggingLevel := (if 0 \<le> level \<and> level \<le> 7 then level else 6)\<rparr>"

definition GetLoggingLevel :: "logging \<Rightarrow> int" where
  "GetLoggingLevel g = g_loggingLevel g"

definition IsDebugLoggingEnabled :: "logging \<Rightarrow> bool" where
  "IsDebugLoggingEnabled g \<longleftrightarrow> g_loggingLevel g = 7"

definition GetMaxLogSize :: "logging \<Rightarrow> 32 word" where
  "GetMaxLogSize g = g_maxLogSize g"

definition GetMaxLogSizeDebugMultiplier :: "logging \<Rightarrow> 32 word" where
  "GetMaxLogSizeDebugMultiplier g = g_maxLogSizeDebugMultiplier g"

definition SetMaxLogSize :: "32 word \<Rightarrow> logging \<Rightarrow> logging" where
  "SetMaxLogSize v g = g\<lparr>g_maxLogSize := v\<rparr>"

definition SetMaxLogSizeDebugMultiplier :: "32 word \<Rightarrow> logging \<Rightarrow> logging" where
  "SetMaxLogSizeDebugMultiplier v g = g\<lparr>g_maxLogSizeDebugMultiplier := v\<rparr>"

subsection \<open>The log file\<close>

record OsConfigLog =
  log_open :: bool
  logFileName :: cstr
  backLogFileName :: cstr
  trimLogCount :: nat

definition MODE_0640 :: "32 word" where "MODE_0640 = 0x1A0"

definition RestrictLogFileAccess :: "sys \<Rightarrow> string \<Rightarrow> fs \<Rightarrow> fs" where
  "RestrictLogFileAccess m p st =
     (case node st p of
        None \<Rightarrow> st
      | Some n \<Rightarrow> if m ''chmod'' 0 = 0 then put_node p (Some (n\<lparr>st_mode := MODE_0640\<rparr>)) st else st)"

definition restrict_backup :: "sys \<Rightarrow> cstr \<Rightarrow> fs \<Rightarrow> fs" where
  "restrict_backup m b st = (case b of None \<Rightarrow> st | Some p \<Rightarrow> RestrictLogFileAccess m p st)"

definition is_directory :: "string \<Rightarrow> fs \<Rightarrow> bool" where
  "is_directory p st = (case node st p of None \<Rightarrow> False | Some n \<Rightarrow> is_dir n)"

definition fopen_log :: "sys \<Rightarrow> nat \<Rightarrow> string \<Rightarrow> string \<Rightarrow> fs \<Rightarrow> bool \<times> fs" where
  "fopen_log m i p mode st = (if m ''fopen'' i \<noteq> 0 \<or> is_directory p st then (False, st) else (True, open_for_writing p mode st))"

definition OpenLog :: "sys \<Rightarrow> cstr \<Rightarrow> cstr \<Rightarrow> fs \<Rightarrow> OsConfigLog option \<times> fs" where
  "OpenLog m nm bak st =
     (if m ''malloc'' 0 \<noteq> 0 then (None, st)
      else (let back = (if nm = None then None else bak);
                (opened, st1) = (case nm of
                   None \<Rightarrow> (False, st)
                 | Some p \<Rightarrow> (case fopen_log m 0 p ''a'' st of (ok, t) \<Rightarrow> (ok, RestrictLogFileAccess m p t)))
            in (Some \<lparr>log_open = opened, logFileName = nm, backLogFileName = back, trimLogCount = 0\<rparr>, restrict_backup m back st1)))"

definition CloseLog :: "OsConfigLog option \<Rightarrow> OsConfigLog option" where
  "CloseLog lg = None"

text \<open>The limit in a debug session is five times the size, whatever the multiplier that was set.\<close>

definition max_log_size :: "logging \<Rightarrow> 32 word" where
  "max_log_size g =
     (if IsDebugLoggingEnabled g then (if g_maxLogSize g < (- 1) div 5 then g_maxLogSize g * 5 else - 1) else g_maxLogSize g)"

text \<open>The file moves to the back-up, or is emptied when it cannot; \<open>None\<close> when a \<open>NULL\<close> stream is closed.\<close>

definition roll_log :: "sys \<Rightarrow> string \<Rightarrow> cstr \<Rightarrow> fs \<Rightarrow> (bool \<times> fs) option" where
  "roll_log m p back st =
     (case (case back of None \<Rightarrow> (- 1, st) | Some b \<Rightarrow> rename m p b st) of
        (renamed, st1) \<Rightarrow>
          (case (if renamed = 0 then (True, st1) else fopen_log m 0 p ''w'' st1) of
             (False, _) \<Rightarrow> None
           | (True, st2) \<Rightarrow>
               (case fopen_log m 1 p ''a'' st2 of
                  (opened, st3) \<Rightarrow> Some (opened, restrict_backup m back (RestrictLogFileAccess m p st3)))))"

definition TrimLog :: "sys \<Rightarrow> logging \<Rightarrow> OsConfigLog \<Rightarrow> fs \<Rightarrow> (OsConfigLog \<times> fs) option" where
  "TrimLog m g lg st =
     (let maxLogTrim = 1000;
          lg1 = lg\<lparr>trimLogCount := (if trimLogCount lg < maxLogTrim then trimLogCount lg + 1 else 1)\<rparr>
      in if trimLogCount lg1 mod 10 \<noteq> 0 then Some (lg1, st)
         else (case (log_open lg, logFileName lg) of
            (True, Some p) \<Rightarrow>
              (let fileSize = (if m ''ftell'' 0 = 0 then int (length (file_bytes p st)) else - 1)
               in if uint (max_log_size g) \<le> fileSize \<or> fileSize = - 1
                  then (case roll_log m p (backLogFileName lg) st of
                     None \<Rightarrow> None | Some (opened, st1) \<Rightarrow> Some (lg1\<lparr>log_open := opened\<rparr>, st1))
                  else Some (lg1, st))
          | _ \<Rightarrow> None))"

text \<open>One line that is logged at a level.\<close>

definition OsConfigLog_line :: "sys \<Rightarrow> logging \<Rightarrow> int \<Rightarrow> string \<Rightarrow> OsConfigLog \<Rightarrow> fs \<Rightarrow> (OsConfigLog \<times> fs) option" where
  "OsConfigLog_line m g level t lg st =
     (if \<not> level \<le> GetLoggingLevel g \<or> \<not> log_open lg then Some (lg, st)
      else (case TrimLog m g lg st of
         None \<Rightarrow> None
       | Some (lg1, st1) \<Rightarrow>
           (case (log_open lg1, logFileName lg1) of
              (True, Some p) \<Rightarrow> Some (lg1, if m ''fprintf'' 0 = 0 then append_bytes p t st1 else st1)
            | _ \<Rightarrow> None)))"

fun log_lines :: "logging \<Rightarrow> (sys \<times> int \<times> string) list \<Rightarrow> OsConfigLog \<Rightarrow> fs \<Rightarrow> (OsConfigLog \<times> fs) option" where
  "log_lines g [] lg st = Some (lg, st)"
| "log_lines g ((m, level, t) # r) lg st =
     (case OsConfigLog_line m g level t lg st of None \<Rightarrow> None | Some (lg1, st1) \<Rightarrow> log_lines g r lg1 st1)"

subsection \<open>The size of the log\<close>

text \<open>A log that is open on a plain file; its size when lines have at most \<open>L\<close> characters.\<close>

definition log_ok :: "string \<Rightarrow> nat \<Rightarrow> logging \<Rightarrow> OsConfigLog \<Rightarrow> fs \<Rightarrow> bool" where
  "log_ok p L g lg st \<longleftrightarrow> log_open lg \<and> logFileName lg = Some p \<and> backLogFileName lg \<noteq> Some p \<and> trimLogCount lg \<le> 1000 \<and> plain_file p st \<and>
     node st p \<noteq> None \<and> length (file_bytes p st) \<le> unat (max_log_size g) + (trimLogCount lg mod 10 + 1) * L"

lemma plain_not_directory: "plain_file p st \<Longrightarrow> \<not> is_directory p st"
  by (auto simp: plain_file_def is_directory_def split: option.split)

lemma restricted:
  "plain_file p (RestrictLogFileAccess m q st) \<longleftrightarrow> plain_file p st" "file_bytes p (RestrictLogFileAccess m q st) = file_bytes p st"
  "(\<exists>n. node (RestrictLogFileAccess m q st) p = Some n) \<longleftrightarrow> (\<exists>n. node st p = Some n)"
  by (auto simp: RestrictLogFileAccess_def plain_file_def file_bytes_def put_node_def split: option.splits)

lemma restricted_backup:
  "plain_file p (restrict_backup m b st) \<longleftrightarrow> plain_file p st" "file_bytes p (restrict_backup m b st) = file_bytes p st"
  "(\<exists>n. node (restrict_backup m b st) p = Some n) \<longleftrightarrow> (\<exists>n. node st p = Some n)"
  by (simp_all add: restrict_backup_def restricted split: option.split)

lemma opened:
  assumes "plain_file p st"
  shows "plain_file p (open_for_writing p mode st)" "node (open_for_writing p mode st) p \<noteq> None"
    "file_bytes p (open_for_writing p mode st) = (if mode = ''w'' then [] else file_bytes p st)"
  using assms by (auto simp: open_for_writing_def plain_file_def file_bytes_def put_node_def split: option.splits)

text \<open>A roll leaves an empty, open file.\<close>

lemma roll_log_empty:
  assumes "plain_file p st" and "back \<noteq> Some p" and "\<forall>i. m ''fopen'' i = 0"
  shows "\<exists>st1. roll_log m p back st = Some (True, st1) \<and> plain_file p st1 \<and> node st1 p \<noteq> None \<and> file_bytes p st1 = []"
proof -
  obtain renamed t where t: "(case back of None \<Rightarrow> (- 1, st) | Some b \<Rightarrow> rename m p b st) = (renamed, t)" by (metis surj_pair)
  have p: "plain_file p t" "renamed = 0 \<Longrightarrow> file_bytes p t = []"
    using t assms(1,2)
    by (auto simp: rename_def plain_file_def file_bytes_def put_node_def codes split: option.splits if_splits)
  define u where "u = (if renamed = 0 then t else open_for_writing p ''w'' t)"
  have u: "plain_file p u" "file_bytes p u = []" using p opened [OF p(1), of "''w''"] by (auto simp: u_def)
  have "(if renamed = 0 then (True, t) else fopen_log m 0 p ''w'' t) = (True, u)"
    using assms(3) p(1) by (simp add: u_def fopen_log_def plain_not_directory)
  moreover have "fopen_log m 1 p ''a'' u = (True, open_for_writing p ''a'' u)"
    using assms(3) u(1) by (simp add: fopen_log_def plain_not_directory)
  ultimately show ?thesis
    using t opened [OF u(1), of "''a''"] u(2) by (simp add: roll_log_def restricted restricted_backup)
qed

lemma TrimLog_ok:
  assumes "log_ok p L g lg st" and "\<forall>i. m ''fopen'' i = 0"
  shows "\<exists>lg1 st1. TrimLog m g lg st = Some (lg1, st1) \<and> log_open lg1 \<and> logFileName lg1 = Some p \<and> backLogFileName lg1 \<noteq> Some p \<and>
    trimLogCount lg1 \<le> 1000 \<and> plain_file p st1 \<and> node st1 p \<noteq> None \<and>
    length (file_bytes p st1) \<le> unat (max_log_size g) + (trimLogCount lg1 mod 10) * L"
proof -
  define c where "c = (if trimLogCount lg < 1000 then trimLogCount lg + 1 else 1)"
  have ok: "log_open lg" "logFileName lg = Some p" "backLogFileName lg \<noteq> Some p" "plain_file p st" "node st p \<noteq> None" "trimLogCount lg \<le> 1000"
    and size: "length (file_bytes p st) \<le> unat (max_log_size g) + (trimLogCount lg mod 10 + 1) * L"
    using assms(1) by (simp_all add: log_ok_def)
  have c: "c \<le> 1000" "c mod 10 \<noteq> 0 \<Longrightarrow> c mod 10 = trimLogCount lg mod 10 + 1"
    using ok(6) by (auto simp: c_def mod_Suc split: if_splits)
  show ?thesis
  proof (cases "c mod 10 = 0")
    case False
    then show ?thesis
      using ok size c by (intro exI [of _ "lg\<lparr>trimLogCount := c\<rparr>"] exI [of _ st]) (simp add: TrimLog_def c_def [symmetric] Let_def)
  next
    case True
    obtain st1 where st1: "roll_log m p (backLogFileName lg) st = Some (True, st1)" "plain_file p st1" "node st1 p \<noteq> None" "file_bytes p st1 = []"
      using roll_log_empty [where m = m, OF ok(4,3) assms(2)] by blast
    define n where "n = (if m ''ftell'' 0 = 0 then int (length (file_bytes p st)) else - 1)"
    define lg1 where "lg1 = lg\<lparr>trimLogCount := c\<rparr>"
    define lg2 where "lg2 = lg1\<lparr>log_open := True\<rparr>"
    have lgs: "log_open lg1" "logFileName lg1 = Some p" "backLogFileName lg1 \<noteq> Some p" "trimLogCount lg1 = c"
      "log_open lg2" "logFileName lg2 = Some p" "backLogFileName lg2 \<noteq> Some p" "trimLogCount lg2 = c"
      using ok(1-3) by (simp_all add: lg1_def lg2_def)
    have trim: "TrimLog m g lg st = (if uint (max_log_size g) \<le> n \<or> n = - 1 then Some (lg2, st1) else Some (lg1, st))"
      using True ok(1,2) by (simp add: TrimLog_def c_def [symmetric] n_def [symmetric] lg1_def lg2_def st1(1) Let_def)
    show ?thesis
    proof (cases "uint (max_log_size g) \<le> n \<or> n = - 1")
      case roll: True
      then have "TrimLog m g lg st = Some (lg2, st1)" by (simp only: trim if_True)
      then show ?thesis
        using lgs(5-8) st1(2-4) c(1) by (intro exI [of _ lg2] exI [of _ st1] conjI) simp_all
    next
      case False
      then have "TrimLog m g lg st = Some (lg1, st)" by (simp only: trim if_False)
      moreover have "length (file_bytes p st) \<le> unat (max_log_size g)"
        using False of_nat_unat [of "max_log_size g", where 'a = int] by (cases "m ''ftell'' 0 = 0") (auto simp: n_def simp del: of_nat_unat int_nat_eq)
      ultimately show ?thesis
        using lgs(1-4) ok(4,5) c(1) by (intro exI [of _ lg1] exI [of _ st] conjI) simp_all
    qed
  qed
qed

lemma line_ok:
  assumes "log_ok p L g lg st" and "\<forall>i. m ''fopen'' i = 0" and "length t \<le> L"
  shows "\<exists>lg1 st1. OsConfigLog_line m g level t lg st = Some (lg1, st1) \<and> log_ok p L g lg1 st1"
proof (cases "level \<le> GetLoggingLevel g")
  case True
  obtain lg1 st1 where 1: "TrimLog m g lg st = Some (lg1, st1)" "log_open lg1" "logFileName lg1 = Some p" "backLogFileName lg1 \<noteq> Some p"
    "trimLogCount lg1 \<le> 1000" "plain_file p st1" "node st1 p \<noteq> None"
    "length (file_bytes p st1) \<le> unat (max_log_size g) + (trimLogCount lg1 mod 10) * L"
    using TrimLog_ok [where m = m, OF assms(1,2)] by blast
  let ?st = "if m ''fprintf'' 0 = 0 then append_bytes p t st1 else st1"
  have "plain_file p ?st \<and> node ?st p \<noteq> None \<and> length (file_bytes p ?st) \<le> length (file_bytes p st1) + length t"
    using 1(6,7) by (auto simp: append_bytes_def plain_file_def file_bytes_def put_node_def split: option.splits)
  then have "log_ok p L g lg1 ?st" using 1 assms(3) by (auto simp: log_ok_def)
  then show ?thesis using 1 True assms(1) by (simp add: OsConfigLog_line_def log_ok_def)
qed (use assms(1) in \<open>simp add: OsConfigLog_line_def\<close>)

text \<open>C40: The log stays bounded: however many lines are logged and whatever renaming, reading of the position, change of access or
  writing fails, as long as files can be opened the log file never has more than the maximum size and ten lines, and logging does
  not crash. The maximum is that of the session: five times the configured size, without wrapping, when debug logging is on.\<close>

theorem log_bounded:
  assumes "log_ok p L g lg st" and "list_all (\<lambda>(m, level, t). (\<forall>i. m ''fopen'' i = 0) \<and> length t \<le> L) ls"
  shows "\<exists>lg1 st1. log_lines g ls lg st = Some (lg1, st1) \<and> length (file_bytes p st1) \<le> unat (max_log_size g) + 10 * L"
proof -
  have "\<exists>lg1 st1. log_lines g ls lg st = Some (lg1, st1) \<and> log_ok p L g lg1 st1"
    using assms
  proof (induction ls arbitrary: lg st)
    case (Cons x ls)
    obtain m level t where x: "x = (m, level, t)" by (cases x)
    obtain lg1 st1 where "OsConfigLog_line m g level t lg st = Some (lg1, st1)" "log_ok p L g lg1 st1"
      using line_ok [OF Cons.prems(1), of m t level] Cons.prems(2) by (auto simp: x)
    then show ?case using Cons.IH [of lg1 st1] Cons.prems(2) by (simp add: x)
  qed auto
  then obtain lg1 st1 where 1: "log_lines g ls lg st = Some (lg1, st1)" "log_ok p L g lg1 st1" by blast
  have "(trimLogCount lg1 mod 10 + 1) * L \<le> 10 * L" by (rule mult_right_mono) (simp_all add: Suc_leI)
  moreover have "length (file_bytes p st1) \<le> unat (max_log_size g) + (trimLogCount lg1 mod 10 + 1) * L"
    using 1(2) by (simp add: log_ok_def)
  ultimately have "length (file_bytes p st1) \<le> unat (max_log_size g) + 10 * L" by linarith
  then show ?thesis using 1(1) by blast
qed

theorem log_bounded_witness:
  "\<exists>lg1 st1. log_lines initial_logging (replicate 2000 (\<lambda>site i. if site = ''rename'' then 13 else 0, 3, ''disk full''))
      \<lparr>log_open = True, logFileName = Some ''/var/log/l'', backLogFileName = Some ''/var/log/b'', trimLogCount = 0\<rparr>
      \<lparr>node = [''/var/log/l'' \<mapsto> \<lparr>is_dir = False, bytes = [], st_uid = 0, st_gid = 0, st_mode = MODE_0640\<rparr>],
        new_file = \<lparr>is_dir = False, bytes = [], st_uid = 0, st_gid = 0, st_mode = MODE_0640\<rparr>, line_max = 16\<rparr> = Some (lg1, st1) \<and>
     length (file_bytes ''/var/log/l'' st1) \<le> unat (max_log_size initial_logging) + 10 * 9"
  by (rule log_bounded) (simp_all add: log_ok_def plain_file_def file_bytes_def list_all_iff)

end
