(* ===== verification/Adhs.thy ===== *)
theory Adhs
  imports FileUtils ManagerProps
begin

text \<open>
  The Adhs module (\<open>src/modules/adhs/src/lib/Adhs.c\<close>): one setting of the device health services, kept as a line of a
  TOML file and found there with a regular expression. \<open>str\<close> is the C string at an address and \<open>self\<close> the address of the
  name of the module, which is its session handle.
\<close>

subsection \<open>State\<close>

record adhs =
  g_adhsConfigFile :: cstr
  a_referenceCount :: int
  a_maxPayloadSizeBytes :: "32 word"
  a_files :: fs

definition g_adhsModuleName :: string where
  "g_adhsModuleName = ''Adhs module''"

definition g_adhsComponentName :: string where
  "g_adhsComponentName = ''Adhs''"

text \<open>\<open>g_permissionConfigMapKeys\<close> and \<open>g_permissionConfigMapValues\<close>, side by side.\<close>

definition g_permissionConfigMap :: "(string \<times> string) list" where
  "g_permissionConfigMap = [(''None'', ''0''), (''Required'', ''1''), (''Optional'', ''2'')]"

definition adhsConfigFileFormat :: "string \<Rightarrow> string" where
  "adhsConfigFileFormat v = ''Permission = '' @ quoted v @ [EOL]"

definition AdhsInitialize :: "cstr \<Rightarrow> adhs \<Rightarrow> adhs" where
  "AdhsInitialize configFile st = st\<lparr>g_adhsConfigFile := configFile\<rparr>"

definition AdhsShutdown :: "adhs \<Rightarrow> adhs" where
  "AdhsShutdown st = st\<lparr>g_adhsConfigFile := None\<rparr>"

definition AdhsMmiOpen :: "MMI_HANDLE \<Rightarrow> cstr \<Rightarrow> 32 word \<Rightarrow> adhs \<Rightarrow> MMI_HANDLE \<times> adhs" where
  "AdhsMmiOpen self clientName maxSize st =
     (self, st\<lparr>a_maxPayloadSizeBytes := maxSize, a_referenceCount := a_referenceCount st + 1\<rparr>)"

definition IsValidSession :: "(MMI_HANDLE \<Rightarrow> string) \<Rightarrow> MMI_HANDLE \<Rightarrow> adhs \<Rightarrow> bool" where
  "IsValidSession str h st \<longleftrightarrow> h \<noteq> 0 \<and> str h = g_adhsModuleName \<and> 0 < a_referenceCount st"

definition IsValidPayload :: "string \<Rightarrow> int \<Rightarrow> bool" where
  "IsValidPayload payload n \<longleftrightarrow>
     list_ex (\<lambda>(_, v). n = int (length v) \<and> take (length v) payload = v) g_permissionConfigMap"

definition IsValidMatchOffsets :: "nat \<times> nat \<Rightarrow> nat \<Rightarrow> bool" where
  "IsValidMatchOffsets m n \<longleftrightarrow> fst m < n \<and> fst m < snd m"

definition AdhsMmiClose :: "(MMI_HANDLE \<Rightarrow> string) \<Rightarrow> MMI_HANDLE \<Rightarrow> adhs \<Rightarrow> adhs" where
  "AdhsMmiClose str h st = (if IsValidSession str h st then st\<lparr>a_referenceCount := a_referenceCount st - 1\<rparr> else st)"

definition g_adhsModuleInfo :: string where
  "g_adhsModuleInfo =
     ''{'' @ quoted ''Name'' @ '': '' @ quoted ''Adhs'' @ '','' @
     quoted ''Description'' @ '': '' @ quoted ''Provides functionality to observe and configure Azure Device Health Services (ADHS)'' @ '','' @
     quoted ''Manufacturer'' @ '': '' @ quoted ''Microsoft'' @ '','' @
     quoted ''VersionMajor'' @ '': 1,'' @
     quoted ''VersionMinor'' @ '': 0,'' @
     quoted ''VersionInfo'' @ '': '' @ quoted ''Copper'' @ '','' @
     quoted ''Components'' @ '': ['' @ quoted ''Adhs'' @ ''],'' @
     quoted ''Lifetime'' @ '': 2,'' @
     quoted ''UserAccount'' @ '': 0}''"

definition AdhsMmiGetInfo :: "sys \<Rightarrow> cstr \<Rightarrow> adhs \<Rightarrow> (int \<times> cstr \<times> int) \<times> adhs" where
  "AdhsMmiGetInfo m clientName st =
     (if m ''MmiGetInfo'' 0 = 0 then ((MMI_OK, Some g_adhsModuleInfo, int (length g_adhsModuleInfo)), st)
      else ((ENOMEM, None, 0), st))"

subsection \<open>The regular expression\<close>

text \<open>
  \<open>\bPermission\s*=\s*(["'])([A-Za-z0-9]*)\1\<close>. At one place in a text the expression matches in at most one way, since the
  characters that end its repetitions are none of those repeated: \<open>permission_at\<close> is the length of that match and its
  second group. \<open>regexec\<close> finds the leftmost match, \<open>find_permission\<close>, as the offsets of the match and the second group.
\<close>

definition word_char :: "char \<Rightarrow> bool" where
  "word_char c \<longleftrightarrow> isalnum c \<or> c = CHR ''_''"

definition quotes :: "char list" where
  "quotes = [CHR 0x22, CHR 0x27]"

definition quoted_word :: "string \<Rightarrow> (string \<times> string) option" where
  "quoted_word s =
     (case s of
        [] \<Rightarrow> None
      | q # t \<Rightarrow>
          if q \<notin> set quotes then None
          else (case dropWhile isalnum t of
                  [] \<Rightarrow> None
                | c # u \<Rightarrow> if c = q then Some (takeWhile isalnum t, u) else None))"

definition permission_at :: "string \<Rightarrow> (nat \<times> string) option" where
  "permission_at s =
     (if \<not> prefix ''Permission'' s then None
      else (case dropWhile isspace (drop 10 s) of
              [] \<Rightarrow> None
            | c # t \<Rightarrow>
                if c \<noteq> CHR ''='' then None
                else (case quoted_word (dropWhile isspace t) of
                        None \<Rightarrow> None
                      | Some (k, u) \<Rightarrow> Some (length s - length u, k))))"

fun find_permission :: "nat \<Rightarrow> bool \<Rightarrow> string \<Rightarrow> ((nat \<times> nat) \<times> string) option" where
  "find_permission i inside [] = None"
| "find_permission i inside (c # s) =
     (case (if inside then None else permission_at (c # s)) of
        Some (n, k) \<Rightarrow> Some ((i, i + n), k)
      | None \<Rightarrow> find_permission (Suc i) (word_char c) s)"

subsection \<open>Get and set\<close>

text \<open>The value of the setting, or \<open>None\<close> where the code finds an error.\<close>

definition configured_value :: "sys \<Rightarrow> adhs \<Rightarrow> string option" where
  "configured_value m st =
     (case LoadStringFromFile (nested ''Load'' m) (g_adhsConfigFile st) False (a_files st) of
        None \<Rightarrow> None
      | Some fileContent \<Rightarrow>
          if m ''regcomp'' 0 \<noteq> 0 \<or> m ''regexec'' 0 \<noteq> 0 then None
          else (case find_permission 0 False fileContent of
                  None \<Rightarrow> None
                | Some (match, k) \<Rightarrow>
                    if IsValidMatchOffsets match (length fileContent) then map_of g_permissionConfigMap k else None))"

definition AdhsMmiGet ::
  "sys \<Rightarrow> (MMI_HANDLE \<Rightarrow> string) \<Rightarrow> MMI_HANDLE \<Rightarrow> cstr \<Rightarrow> cstr \<Rightarrow> adhs \<Rightarrow> (int \<times> cstr \<times> int) \<times> adhs" where
  "AdhsMmiGet m str h componentName objectName st =
     (if componentName = None \<or> objectName = None then ((EINVAL, None, 0), st)
      else if \<not> IsValidSession str h st then ((EINVAL, None, 0), st)
      else if componentName \<noteq> Some g_adhsComponentName then ((EINVAL, None, 0), st)
      else if objectName \<noteq> Some ''optIn'' then ((EINVAL, None, 0), st)
      else (let v = (case configured_value m st of None \<Rightarrow> ''0'' | Some v \<Rightarrow> v);
                limit = a_maxPayloadSizeBytes st;
                p = (if 0 < limit \<and> unat limit < length v then take (unat limit) v else v)
            in if m ''MmiGet'' 0 = 0 then ((MMI_OK, Some p, int (length p)), st) else ((ENOMEM, None, 0), st)))"

definition AdhsMmiSet ::
  "sys \<Rightarrow> (MMI_HANDLE \<Rightarrow> string) \<Rightarrow> MMI_HANDLE \<Rightarrow> cstr \<Rightarrow> cstr \<Rightarrow> cstr \<Rightarrow> int \<Rightarrow> adhs \<Rightarrow> int \<times> adhs" where
  "AdhsMmiSet m str h componentName objectName payload n st =
     (case (componentName, objectName, payload) of
        (Some c, Some ob, Some p) \<Rightarrow>
          if n \<le> 0 then (EINVAL, st)
          else if \<not> IsValidSession str h st then (EINVAL, st)
          else if c \<noteq> g_adhsComponentName then (EINVAL, st)
          else if ob \<noteq> ''desiredOptIn'' then (EINVAL, st)
          else if \<not> IsValidPayload p n then (EINVAL, st)
          else (case find (\<lambda>(_, v). n = int (length v) \<and> take (length v) p = v) g_permissionConfigMap of
                  None \<Rightarrow> (MMI_OK, st)
                | Some (k, _) \<Rightarrow>
                    if m ''malloc'' 0 \<noteq> 0 then (ENOMEM, st)
                    else (case SavePayloadToFile (nested ''Save'' m) (g_adhsConfigFile st) (Some (adhsConfigFileFormat k)) (a_files st) of
                            (saved, fs') \<Rightarrow> (if saved then MMI_OK else EIO, st\<lparr>a_files := fs'\<rparr>)))
      | _ \<Rightarrow> (EINVAL, st))"

definition AdhsMmiFree :: "cstr \<Rightarrow> adhs \<Rightarrow> adhs" where
  "AdhsMmiFree payload st = st"

definition adhs_mmi :: "sys \<Rightarrow> (MMI_HANDLE \<Rightarrow> string) \<Rightarrow> MMI_HANDLE \<Rightarrow> adhs mmi" where
  "adhs_mmi m str self =
     \<lparr>mmiOpen = AdhsMmiOpen self, mmiClose = AdhsMmiClose str, mmiGetInfo = AdhsMmiGetInfo m,
      mmiSet = AdhsMmiSet m str, mmiGet = AdhsMmiGet m str, mmiFree = AdhsMmiFree\<rparr>"

interpretation adhs: mmi_module "adhs_mmi m str self" for m str self
  by unfold_locales (auto simp: adhs_mmi_def AdhsMmiGet_def Let_def codes split: if_splits option.splits)

subsection \<open>The leftmost match\<close>

text \<open>What the expression says of a text: some text before that does not end in a word character, and the parts of the
  expression one after the other.\<close>

definition permission_match :: "string \<Rightarrow> string \<Rightarrow> bool" where
  "permission_match s k \<longleftrightarrow>
     (\<exists>a b q u. s = ''Permission'' @ a @ ''='' @ b @ [q] @ k @ [q] @ u \<and> list_all isspace a \<and> list_all isspace b \<and>
        q \<in> set quotes \<and> list_all isalnum k)"

lemma span_unique:
  assumes "list_all P a" and "\<not> P c"
  shows "takeWhile P (a @ c # t) = a" "dropWhile P (a @ c # t) = c # t"
  using assms by (auto simp: list_all_iff takeWhile_append dropWhile_append)

lemma span_split: "dropWhile P s = c # t \<Longrightarrow> s = takeWhile P s @ c # t \<and> list_all P (takeWhile P s) \<and> \<not> P c"
  using takeWhile_dropWhile_id [of P s] hd_dropWhile [of P s] by (auto simp: list_all_iff dest: set_takeWhileD)

lemma quote_chars [simp]: "q \<in> set quotes \<Longrightarrow> \<not> isalnum q" "q \<in> set quotes \<Longrightarrow> \<not> isspace q" "\<not> isspace CHR ''=''"
  by (auto simp: quotes_def ctype)

lemma quoted_word_iff: "quoted_word s = Some (k, u) \<longleftrightarrow> (\<exists>q. s = [q] @ k @ [q] @ u \<and> q \<in> set quotes \<and> list_all isalnum k)"
proof
  assume "quoted_word s = Some (k, u)"
  then obtain q t where "s = q # t" "q \<in> set quotes" "dropWhile isalnum t = q # u" "k = takeWhile isalnum t"
    by (auto simp: quoted_word_def split: list.splits if_splits)
  then show "\<exists>q. s = [q] @ k @ [q] @ u \<and> q \<in> set quotes \<and> list_all isalnum k"
    using span_split [of isalnum t q u] by auto
qed (auto simp: quoted_word_def span_unique)

lemma permission_at_iff: "(\<exists>n. permission_at s = Some (n, k)) \<longleftrightarrow> permission_match s k"
proof
  assume "\<exists>n. permission_at s = Some (n, k)"
  then obtain t u where p: "prefix ''Permission'' s" and t: "dropWhile isspace (drop 10 s) = CHR ''='' # t"
    and u: "quoted_word (dropWhile isspace t) = Some (k, u)"
    by (auto simp: permission_at_def split: list.splits option.splits if_splits)
  obtain r where s: "s = ''Permission'' @ r" using p by (auto simp: prefix_def)
  have r: "r = takeWhile isspace r @ CHR ''='' # t" "list_all isspace (takeWhile isspace r)"
    using span_split [of isspace r] t by (auto simp: s)
  obtain q where q: "dropWhile isspace t = [q] @ k @ [q] @ u" "q \<in> set quotes" "list_all isalnum k"
    using u by (auto simp only: quoted_word_iff)
  have b: "list_all isspace (takeWhile isspace t)" by (auto simp: list_all_iff dest: set_takeWhileD)
  have "s = ''Permission'' @ takeWhile isspace r @ ''='' @ takeWhile isspace t @ dropWhile isspace t"
    using r(1) by (simp add: s)
  then show "permission_match s k" unfolding permission_match_def q(1) using r(2) b q(2,3) by blast
next
  assume "permission_match s k"
  then obtain a b q u where s: "s = ''Permission'' @ a @ CHR ''='' # b @ q # k @ q # u" "list_all isspace a" "list_all isspace b"
    "q \<in> set quotes" "list_all isalnum k"
    by (auto simp: permission_match_def)
  then have "quoted_word (dropWhile isspace (b @ q # k @ q # u)) = Some (k, u)"
    by (auto simp: span_unique quoted_word_iff)
  then show "\<exists>n. permission_at s = Some (n, k)"
    using s by (auto simp: permission_at_def span_unique)
qed

text \<open>Whether no word character stands before a place of a text, where \<open>inside\<close> tells whether one stands before the text.\<close>

definition at_boundary :: "bool \<Rightarrow> string \<Rightarrow> nat \<Rightarrow> bool" where
  "at_boundary inside s i \<longleftrightarrow> (case i of 0 \<Rightarrow> \<not> inside | Suc j \<Rightarrow> \<not> word_char (s ! j))"

lemma at_boundary_Suc [simp]: "at_boundary inside (c # s) (Suc i) = at_boundary (word_char c) s i"
  by (simp add: at_boundary_def split: nat.split)

definition first_match :: "bool \<Rightarrow> string \<Rightarrow> nat \<Rightarrow> string \<Rightarrow> bool" where
  "first_match inside s i k \<longleftrightarrow> i < length s \<and> at_boundary inside s i \<and> permission_match (drop i s) k \<and>
     (\<forall>i' < i. at_boundary inside s i' \<longrightarrow> \<not> (\<exists>k'. permission_match (drop i' s) k'))"

lemma permission_at_None: "permission_at s = None \<longleftrightarrow> \<not> (\<exists>k. permission_match s k)"
  using permission_at_iff [of s] by (cases "permission_at s") auto

lemma first_match_Suc:
  "first_match inside (c # s) (Suc i) k \<longleftrightarrow>
     (inside \<or> permission_at (c # s) = None) \<and> first_match (word_char c) s i k"
  unfolding first_match_def permission_at_None All_less_Suc2 at_boundary_Suc by (auto simp: at_boundary_def [of _ _ 0])

lemma first_match_0: "first_match inside (c # s) 0 k \<longleftrightarrow> \<not> inside \<and> (\<exists>n. permission_at (c # s) = Some (n, k))"
  by (simp add: first_match_def at_boundary_def permission_at_iff)

lemma find_permission_iff:
  "(\<exists>j. find_permission d inside s = Some ((d + i, j), k)) \<longleftrightarrow> first_match inside s i k"
proof (induction s arbitrary: d inside i)
  case Nil
  then show ?case by (simp add: first_match_def)
next
  case (Cons c s)
  have later: "find_permission d' w s = Some ((a, j), k) \<Longrightarrow> d' \<le> a" for d' w s a j k
    by (induction d' w s rule: find_permission.induct) (auto split: option.splits if_splits)
  show ?case
  proof (cases i)
    case 0
    then show ?thesis using later [of "Suc d" "word_char c" s d]
      by (auto simp: first_match_0 split: option.splits)
  next
    case (Suc i')
    then show ?thesis using Cons.IH [of "Suc d" "word_char c" i'] by (auto simp: first_match_Suc split: option.splits)
  qed
qed


subsection \<open>A set value is read back\<close>

lemma written_values_read:
  "list_all (\<lambda>(k, _). let t = adhsConfigFileFormat k
     in find_permission 0 False t = Some ((0, length t - 1), k) \<and> IsValidMatchOffsets (0, length t - 1) (length t) \<and> NUL \<notin> set t)
     g_permissionConfigMap"
  by code_simp

lemma written_value:
  assumes "(k, v) \<in> set g_permissionConfigMap"
  shows "\<exists>m. find_permission 0 False (adhsConfigFileFormat k) = Some (m, k) \<and>
    IsValidMatchOffsets m (length (adhsConfigFileFormat k)) \<and> NUL \<notin> set (adhsConfigFileFormat k)"
  using written_values_read assms by (auto simp: list_all_iff Let_def)

lemma permission_map:
  "list_all (\<lambda>(k, v). length v = 1 \<and> map_of g_permissionConfigMap k = Some v \<and>
     find (\<lambda>(_, w). v = w) g_permissionConfigMap = Some (k, v)) g_permissionConfigMap"
  by code_simp

lemma permission_values:
  assumes "(k, v) \<in> set g_permissionConfigMap"
  shows "length v = 1 \<and> map_of g_permissionConfigMap k = Some v \<and>
    find (\<lambda>(_, w). 1 = int (length w) \<and> take (length w) (v @ rest) = w) g_permissionConfigMap = Some (k, v)"
proof -
  have kv: "length v = 1 \<and> map_of g_permissionConfigMap k = Some v \<and> find (\<lambda>(_, w). v = w) g_permissionConfigMap = Some (k, v)"
    using permission_map assms by (auto simp: list_all_iff)
  have "find (\<lambda>(_, w). 1 = int (length w) \<and> take (length w) (v @ rest) = w) g_permissionConfigMap =
      find (\<lambda>(_, w). v = w) g_permissionConfigMap"
    using permission_map kv by (intro find_cong refl) (auto simp: list_all_iff)
  with kv show ?thesis by simp
qed

text \<open>C33: In a session, setting an opt-in value that the module knows writes the configuration file and succeeds, whatever
  follows the value in the payload buffer, and a get then returns that value; without errors of the system calls.\<close>

theorem AdhsMmiSet_AdhsMmiGet:
  assumes "IsValidSession str h st" and "g_adhsConfigFile st = Some f" and "plain_file f (a_files st)"
    and "(k, v) \<in> set g_permissionConfigMap"
    and "AdhsMmiSet sys_ok str h (Some ''Adhs'') (Some ''desiredOptIn'') (Some (v @ rest)) 1 st = (status, st')"
  shows "status = MMI_OK \<and> AdhsMmiGet sys_ok str h (Some ''Adhs'') (Some ''optIn'') st' = ((MMI_OK, Some v, 1), st')"
proof -
  note v = permission_values [OF assms(4)]
  have valid: "IsValidPayload (v @ rest) 1"
    using v [of rest] assms(4) unfolding IsValidPayload_def list_ex_iff by (intro bexI [of _ "(k, v)"]) auto
  let ?t = "adhsConfigFileFormat k"
  have saved: "SaveToFile sys_ok (Some f) ''w'' (Some ?t) (a_files st) = (True, put_node f (Some (written_node f ?t (a_files st))) (a_files st))"
    using SaveToFile_ok [OF assms(3), of ?t "''w''"] by (simp add: adhsConfigFileFormat_def)
  have st': "status = MMI_OK" "st' = st\<lparr>a_files := put_node f (Some (written_node f ?t (a_files st))) (a_files st)\<rparr>"
    using assms(5) valid v [of rest] assms(1,2) saved
    by (auto simp: AdhsMmiSet_def g_adhsComponentName_def SavePayloadToFile_def)
  have "IsValidSession str h st'" using assms(1) by (simp add: IsValidSession_def st')
  moreover have "configured_value sys_ok st' = Some v"
    using written_value [OF assms(4)] assms(2,3) v
    by (auto simp: configured_value_def st' readable_bytes_def)
  ultimately show ?thesis using v st'(1) by (auto simp: AdhsMmiGet_def g_adhsComponentName_def Let_def word_less_nat_alt)
qed

definition sample_adhs :: adhs where
  "sample_adhs = \<lparr>g_adhsConfigFile = Some ''/etc/azure-device-health-services/config.toml'', a_referenceCount = 1, a_maxPayloadSizeBytes = 0,
     a_files = \<lparr>node = (\<lambda>_. None), new_file = \<lparr>is_dir = False, bytes = [], st_uid = 0, st_gid = 0, st_mode = 0\<rparr>, line_max = 255\<rparr>\<rparr>"

theorem AdhsMmiSet_AdhsMmiGet_witness:
  "AdhsMmiGet sys_ok (\<lambda>_. ''Adhs module'') 1 (Some ''Adhs'') (Some ''optIn'')
     (snd (AdhsMmiSet sys_ok (\<lambda>_. ''Adhs module'') 1 (Some ''Adhs'') (Some ''desiredOptIn'') (Some ''2,'') 1 sample_adhs)) =
   ((MMI_OK, Some ''2'', 1),
     snd (AdhsMmiSet sys_ok (\<lambda>_. ''Adhs module'') 1 (Some ''Adhs'') (Some ''desiredOptIn'') (Some ''2,'') 1 sample_adhs))"
  using AdhsMmiSet_AdhsMmiGet [of "\<lambda>_. ''Adhs module''" 1 sample_adhs "''/etc/azure-device-health-services/config.toml''" "''Optional''"
      "''2''" "'',''", OF _ _ _ _ surjective_pairing]
  by (simp add: sample_adhs_def IsValidSession_def g_adhsModuleName_def plain_file_def g_permissionConfigMap_def)

end
