(* ===== verification/DeliveryOptimization.thy ===== *)
theory DeliveryOptimization
  imports ConfigurationProps
begin

text \<open>
  The DeliveryOptimization module (\<open>src/modules/deliveryoptimization/src/lib/DeliveryOptimization.c\<close>): the settings of the
  delivery optimization agent, kept as the members of one JSON file, and the functions of \<open>src/common/parson/parson.c\<close>
  that read and write such a file. \<open>str\<close> is the C string at an address and \<open>self\<close> the address of the name of the module,
  which is its session handle. A crash of the process is \<open>None\<close>.
\<close>

subsection \<open>JSON files\<close>

text \<open>\<open>fopen\<close> of \<open>NULL\<close> fails. An empty file is read as a failure.\<close>

definition read_file :: "sys \<Rightarrow> cstr \<Rightarrow> fs \<Rightarrow> cstr" where
  "read_file m filename st =
     (case filename of
        None \<Rightarrow> None
      | Some p \<Rightarrow>
          (case node st p of
             None \<Rightarrow> None
           | Some n \<Rightarrow>
               if m ''fopen'' 0 \<noteq> 0 \<or> m ''ftell'' 0 \<noteq> 0 \<or> m ''malloc'' 0 \<noteq> 0 \<or> m ''fread'' 0 \<noteq> 0 \<or> readable_bytes n = [] then None
               else Some (c_string (readable_bytes n))))"

definition json_parse_file :: "sys \<Rightarrow> cstr \<Rightarrow> fs \<Rightarrow> JSON_Value option" where
  "json_parse_file m filename st =
     (case read_file m filename st of None \<Rightarrow> None | Some file_contents \<Rightarrow> json_parse_string (Some file_contents))"

text \<open>When \<open>fputs\<close> or \<open>fclose\<close> fails, some of the text may have been written.\<close>

definition json_serialize_to_file_pretty :: "sys \<Rightarrow> JSON_Value option \<Rightarrow> cstr \<Rightarrow> fs \<Rightarrow> bool \<times> fs" where
  "json_serialize_to_file_pretty m v filename st =
     (case (json_serialize_to_string_pretty v, filename) of
        (Some serialized_string, Some p) \<Rightarrow>
          if m ''fopen'' 0 \<noteq> 0 \<or> (\<exists>n. node st p = Some n \<and> is_dir n) then (False, st)
          else (let st1 = open_for_writing p ''w'' st
                in if m ''fputs'' 0 \<noteq> 0 \<or> m ''fclose'' 0 \<noteq> 0
                   then (False, append_bytes p (take (nat (m ''written'' 0)) serialized_string) st1)
                   else (True, append_bytes p serialized_string st1))
      | _ \<Rightarrow> (False, st))"

subsection \<open>State\<close>

record delivery_optimization =
  g_deliveryOptimizationConfigFile :: cstr
  d_referenceCount :: int
  d_maxPayloadSizeBytes :: "32 word"
  d_files :: fs

definition g_deliveryOptimizationModuleName :: string where
  "g_deliveryOptimizationModuleName = ''DeliveryOptimization module''"

definition g_deliveryOptimizationComponentName :: string where
  "g_deliveryOptimizationComponentName = ''DeliveryOptimization''"

definition DeliveryOptimizationInitialize :: "cstr \<Rightarrow> delivery_optimization \<Rightarrow> delivery_optimization" where
  "DeliveryOptimizationInitialize configFile st = st\<lparr>g_deliveryOptimizationConfigFile := configFile\<rparr>"

definition DeliveryOptimizationShutdown :: "delivery_optimization \<Rightarrow> delivery_optimization" where
  "DeliveryOptimizationShutdown st = st\<lparr>g_deliveryOptimizationConfigFile := None\<rparr>"

definition DeliveryOptimizationMmiOpen ::
  "MMI_HANDLE \<Rightarrow> cstr \<Rightarrow> 32 word \<Rightarrow> delivery_optimization \<Rightarrow> MMI_HANDLE \<times> delivery_optimization" where
  "DeliveryOptimizationMmiOpen self clientName maxSize st =
     (self, st\<lparr>d_maxPayloadSizeBytes := maxSize, d_referenceCount := d_referenceCount st + 1\<rparr>)"

definition IsValidSession :: "(MMI_HANDLE \<Rightarrow> string) \<Rightarrow> MMI_HANDLE \<Rightarrow> delivery_optimization \<Rightarrow> bool" where
  "IsValidSession str h st \<longleftrightarrow> h \<noteq> 0 \<and> str h = g_deliveryOptimizationModuleName \<and> 0 < d_referenceCount st"

definition DeliveryOptimizationMmiClose ::
  "(MMI_HANDLE \<Rightarrow> string) \<Rightarrow> MMI_HANDLE \<Rightarrow> delivery_optimization \<Rightarrow> delivery_optimization" where
  "DeliveryOptimizationMmiClose str h st =
     (if IsValidSession str h st then st\<lparr>d_referenceCount := d_referenceCount st - 1\<rparr> else st)"

definition g_deliveryOptimizationModuleInfo :: string where
  "g_deliveryOptimizationModuleInfo =
     ''{'' @ quoted ''Name'' @ '': '' @ quoted ''DeliveryOptimization'' @ '','' @
     quoted ''Description'' @ '': '' @ quoted ''Provides functionality to observe and configure Delivery Optimization (DO)'' @ '','' @
     quoted ''Manufacturer'' @ '': '' @ quoted ''Microsoft'' @ '','' @
     quoted ''VersionMajor'' @ '': 1,'' @
     quoted ''VersionMinor'' @ '': 0,'' @
     quoted ''VersionInfo'' @ '': '' @ quoted ''Copper'' @ '','' @
     quoted ''Components'' @ '': ['' @ quoted ''DeliveryOptimization'' @ ''],'' @
     quoted ''Lifetime'' @ '': 2,'' @
     quoted ''UserAccount'' @ '': 0}''"

definition DeliveryOptimizationMmiGetInfo ::
  "sys \<Rightarrow> cstr \<Rightarrow> delivery_optimization \<Rightarrow> (int \<times> cstr \<times> int) \<times> delivery_optimization" where
  "DeliveryOptimizationMmiGetInfo m clientName st =
     (if m ''MmiGetInfo'' 0 = 0
      then ((MMI_OK, Some g_deliveryOptimizationModuleInfo, int (length g_deliveryOptimizationModuleInfo)), st)
      else ((ENOMEM, None, 0), st))"

subsection \<open>Get\<close>

text \<open>The member of the file that an object reports, and whether it is a string (else a number).\<close>

definition property_of_object :: "string \<Rightarrow> (string \<times> bool) option" where
  "property_of_object objectName =
     (if objectName = ''cacheHost'' then Some (''DOCacheHost'', True)
      else if objectName = ''cacheHostSource'' then Some (''DOCacheHostSource'', False)
      else if objectName = ''cacheHostFallback'' then Some (''DOCacheHostFallback'', False)
      else if objectName = ''percentageDownloadThrottle'' then Some (''DOPercentageDownloadThrottle'', False)
      else None)"

definition JSON_type_of :: "bool \<Rightarrow> JSON_Value_Type" where
  "JSON_type_of isString = (if isString then TypeString else TypeNumber)"

text \<open>The text of the member in the file: \<open>None\<close> where the code finds an error.\<close>

definition property_text :: "sys \<Rightarrow> string \<Rightarrow> bool \<Rightarrow> delivery_optimization \<Rightarrow> cstr" where
  "property_text m jsonPropertyName isString st =
     (let rootValue = json_parse_file (nested ''Load'' m) (g_deliveryOptimizationConfigFile st) (d_files st)
      in if json_value_get_type rootValue \<noteq> TypeObject then None
         else (let rootObject = json_value_get_object rootValue
               in if json_object_has_value_of_type rootObject (Some jsonPropertyName) (JSON_type_of isString)
                  then json_serialize_to_string (json_object_get_value rootObject (Some jsonPropertyName))
                  else None))"

text \<open>After an error the default is reported; its copy is written to whether or not it could be allocated.\<close>

definition report_default ::
  "sys \<Rightarrow> bool \<Rightarrow> delivery_optimization \<Rightarrow> ((int \<times> cstr \<times> int) \<times> delivery_optimization) option" where
  "report_default m isString st =
     (let emptyJsonPayload = (if isString then quoted [] else ''0'')
      in if m ''malloc'' 1 \<noteq> 0 then None
         else Some ((MMI_OK, Some emptyJsonPayload, int (length emptyJsonPayload)), st))"

definition DeliveryOptimizationMmiGet ::
  "sys \<Rightarrow> (MMI_HANDLE \<Rightarrow> string) \<Rightarrow> MMI_HANDLE \<Rightarrow> cstr \<Rightarrow> cstr \<Rightarrow> delivery_optimization \<Rightarrow>
   ((int \<times> cstr \<times> int) \<times> delivery_optimization) option" where
  "DeliveryOptimizationMmiGet m str h componentName objectName st =
     (case (componentName, objectName) of
        (Some c, Some ob) \<Rightarrow>
          if \<not> IsValidSession str h st then Some ((EINVAL, None, 0), st)
          else if c \<noteq> g_deliveryOptimizationComponentName then Some ((EINVAL, None, 0), st)
          else (case property_of_object ob of
             None \<Rightarrow> Some ((EINVAL, None, 0), st)
           | Some (jsonPropertyName, isString) \<Rightarrow>
               (case property_text m jsonPropertyName isString st of
                  None \<Rightarrow> report_default m isString st
                | Some json \<Rightarrow>
                    (let limit = d_maxPayloadSizeBytes st;
                         p = (if 0 < limit \<and> unat limit < length json then take (unat limit) json else json)
                     in if m ''malloc'' 0 = 0 then Some ((MMI_OK, Some p, int (length p)), st)
                        else report_default m isString st)))
      | _ \<Rightarrow> Some ((EINVAL, None, 0), st))"

subsection \<open>Set\<close>

text \<open>One member of the payload: the status so far and the new object.\<close>

definition take_number :: "string \<Rightarrow> (int \<Rightarrow> bool) \<Rightarrow> JSON_Value option \<Rightarrow> int \<times> JSON_Object \<Rightarrow> int \<times> JSON_Object" where
  "take_number configName valid v s =
     (let x = double_to_int (json_value_get_number v)
      in if valid x then (fst s, snd (json_object_set_number (snd s) configName x)) else (EINVAL, snd s))"

definition take_member :: "JSON_Value option \<Rightarrow> string \<Rightarrow> int \<times> JSON_Object \<Rightarrow> int \<times> JSON_Object" where
  "take_member currentValue nm s =
     (let ty = json_value_get_type currentValue
      in if nm = ''cacheHost'' \<and> ty = TypeString then
           (fst s, snd (json_object_set_string (snd s) ''DOCacheHost'' (json_value_get_string currentValue)))
         else if nm = ''cacheHostSource'' \<and> ty = TypeNumber then
           take_number ''DOCacheHostSource'' (\<lambda>x. 0 \<le> x \<and> x \<le> 3) currentValue s
         else if nm = ''cacheHostFallback'' \<and> ty = TypeNumber then
           take_number ''DOCacheHostFallback'' (\<lambda>x. True) currentValue s
         else if nm = ''percentageDownloadThrottle'' \<and> ty = TypeNumber then
           take_number ''DOPercentageDownloadThrottle'' (\<lambda>x. 0 \<le> x \<and> x \<le> 100) currentValue s
         else s)"

definition take_members :: "JSON_Object \<Rightarrow> int \<times> JSON_Object" where
  "take_members rootObject =
     fold (\<lambda>nm. take_member (json_object_get_value (Some rootObject) (Some nm)) nm) (map fst rootObject) (MMI_OK, [])"

definition DeliveryOptimizationMmiSet ::
  "sys \<Rightarrow> (MMI_HANDLE \<Rightarrow> string) \<Rightarrow> MMI_HANDLE \<Rightarrow> cstr \<Rightarrow> cstr \<Rightarrow> cstr \<Rightarrow> int \<Rightarrow> delivery_optimization \<Rightarrow>
   (int \<times> delivery_optimization) option" where
  "DeliveryOptimizationMmiSet m str h componentName objectName payload n st =
     (case (componentName, objectName, payload) of
        (Some c, Some ob, Some p) \<Rightarrow>
          if n \<le> 0 then Some (EINVAL, st)
          else if \<not> IsValidSession str h st then Some (EINVAL, st)
          else if c \<noteq> g_deliveryOptimizationComponentName then Some (EINVAL, st)
          else if ob \<noteq> ''desiredDeliveryOptimizationPolicies'' then Some (EINVAL, st)
          else if m ''malloc'' 0 \<noteq> 0 then Some (ENOMEM, st)
          else if length p < nat n then None
          else (case json_value_get_object (json_parse_string (Some (c_string (take (nat n) p)))) of
             None \<Rightarrow> Some (EINVAL, st)
           | Some rootObject \<Rightarrow>
               (case take_members rootObject of
                  (status, newObject) \<Rightarrow>
                    (case json_serialize_to_file_pretty (nested ''Save'' m) (Some (JSONObject newObject))
                            (g_deliveryOptimizationConfigFile st) (d_files st) of
                       (saved, fs') \<Rightarrow> Some (if saved then status else EIO, st\<lparr>d_files := fs'\<rparr>))))
      | _ \<Rightarrow> Some (EINVAL, st))"

definition DeliveryOptimizationMmiFree :: "cstr \<Rightarrow> delivery_optimization \<Rightarrow> delivery_optimization" where
  "DeliveryOptimizationMmiFree payload st = st"

text \<open>The entry points over a process that may have crashed.\<close>

definition delivery_optimization_mmi ::
  "sys \<Rightarrow> (MMI_HANDLE \<Rightarrow> string) \<Rightarrow> MMI_HANDLE \<Rightarrow> delivery_optimization option mmi" where
  "delivery_optimization_mmi m str self =
     \<lparr>mmiOpen = (\<lambda>cn mx w. case w of None \<Rightarrow> (0, None)
        | Some st \<Rightarrow> (case DeliveryOptimizationMmiOpen self cn mx st of (h, st') \<Rightarrow> (h, Some st'))),
      mmiClose = (\<lambda>h. map_option (DeliveryOptimizationMmiClose str h)),
      mmiGetInfo = (\<lambda>cn w. case w of None \<Rightarrow> ((EINVAL, None, 0), None)
        | Some st \<Rightarrow> (case DeliveryOptimizationMmiGetInfo m cn st of (r, st') \<Rightarrow> (r, Some st'))),
      mmiSet = (\<lambda>h c ob p n w. case w of None \<Rightarrow> (EINVAL, None)
        | Some st \<Rightarrow> (case DeliveryOptimizationMmiSet m str h c ob p n st of
             None \<Rightarrow> (EINVAL, None) | Some (status, st') \<Rightarrow> (status, Some st'))),
      mmiGet = (\<lambda>h c ob w. case w of None \<Rightarrow> ((EINVAL, None, 0), None)
        | Some st \<Rightarrow> (case DeliveryOptimizationMmiGet m str h c ob st of
             None \<Rightarrow> ((EINVAL, None, 0), None) | Some (r, st') \<Rightarrow> (r, Some st'))),
      mmiFree = (\<lambda>p. map_option (DeliveryOptimizationMmiFree p))\<rparr>"

lemma delivery_optimization_get_delivers:
  "DeliveryOptimizationMmiGet m str h c ob st = Some ((0, p, n), st') \<Longrightarrow> \<exists>bs. p = Some bs \<and> n = int (length bs)"
  by (auto simp: DeliveryOptimizationMmiGet_def report_default_def Let_def codes split: option.splits if_splits dest: sym)

interpretation delivery_optimization: mmi_module "delivery_optimization_mmi m str self" for m str self
  by unfold_locales
    (auto simp: delivery_optimization_mmi_def codes split: option.splits prod.splits dest!: delivery_optimization_get_delivers)

subsection \<open>The policies that are set are the policies that are reported\<close>

text \<open>
  What the module promises of a payload: which members it accepts, as which values, and which it rejects. An accepted
  string is one the file can hold; an accepted number is the integer that the conversion to \<open>int\<close> makes of it.
\<close>

definition accepts_number :: "string \<Rightarrow> int \<Rightarrow> bool" where
  "accepts_number nm x \<longleftrightarrow> nm = ''cacheHostSource'' \<and> 0 \<le> x \<and> x \<le> 3 \<or> nm = ''cacheHostFallback'' \<or>
     nm = ''percentageDownloadThrottle'' \<and> 0 \<le> x \<and> x \<le> 100"

fun accepted :: "string \<Rightarrow> JSON_Value \<Rightarrow> JSON_Value option" where
  "accepted nm (JSONString t) =
     (if nm = ''cacheHost'' \<and> is_valid_utf8 (c_string t) then Some (JSONString (c_string t)) else None)"
| "accepted nm (JSONNumber x) =
     (if accepts_number nm (double_to_int x) then Some (JSONNumber (of_int (double_to_int x))) else None)"
| "accepted nm _ = None"

fun rejected :: "string \<times> JSON_Value \<Rightarrow> bool" where
  "rejected (nm, JSONNumber x) \<longleftrightarrow>
     nm \<in> {''cacheHostSource'', ''percentageDownloadThrottle''} \<and> \<not> accepts_number nm (double_to_int x)"
| "rejected _ \<longleftrightarrow> False"

definition policy_text :: "JSON_Object \<Rightarrow> string \<Rightarrow> string" where
  "policy_text kvs ob =
     (case Option.bind (map_of kvs ob) (accepted ob) of
        Some v \<Rightarrow> json_serialize_r False 0 v
      | None \<Rightarrow> if ob = ''cacheHost'' then quoted [] else ''0'')"

definition stored :: "string \<Rightarrow> JSON_Value option \<Rightarrow> JSON_Object \<Rightarrow> JSON_Object" where
  "stored nm v kvs =
     (case (property_of_object nm, Option.bind v (accepted nm)) of
        (Some (c, _), Some w) \<Rightarrow> json_object_set_value kvs c w
      | _ \<Rightarrow> kvs)"

lemma set_string_eq:
  "snd (json_object_set_string kvs k (Some t)) = (if is_valid_utf8 t then json_object_set_value kvs k (JSONString t) else kvs)"
  by (simp add: json_object_set_string_def json_object_set_def json_value_init_string_def)

lemma take_member_eq:
  "take_member v nm s = (if v \<noteq> None \<and> rejected (nm, the v) then EINVAL else fst s, stored nm v (snd s))"
proof (cases v)
  case (Some x)
  then show ?thesis
    by (cases x) (auto simp: take_member_def take_number_def stored_def property_of_object_def accepts_number_def Let_def
        set_string_eq set_number_eq)
qed (simp add: take_member_def stored_def split: option.splits)

lemma double_to_int_range: "- (2 ^ 31) \<le> double_to_int x" "double_to_int x < 2 ^ 31"
  by (simp_all add: double_to_int_def Let_def)

lemma accepted_ok: "accepted nm v = Some w \<Longrightarrow> json_ok w \<and> json_depth w = 1"
  using exact_int [OF double_to_int_range] by (cases v) (auto split: if_splits)

lemma accepted_type: "accepted nm v = Some w \<Longrightarrow> property_of_object nm = Some (c, b) \<Longrightarrow> json_value_get_type (Some w) = JSON_type_of b"
  by (cases v) (auto simp: property_of_object_def JSON_type_of_def accepts_number_def split: if_splits)

lemma property_no_nul: "property_of_object nm = Some (c, b) \<Longrightarrow> NUL \<notin> set c"
  by (auto simp: property_of_object_def NUL_def split: if_splits)

lemma property_inj: "property_of_object nm = Some (c, b) \<Longrightarrow> property_of_object nm' = Some (c, b') \<Longrightarrow> nm = nm'"
  by (auto simp: property_of_object_def split: if_splits)

lemma stored_ok: "text_ok kvs \<Longrightarrow> text_ok (stored nm v kvs)"
  by (auto simp: stored_def Option.bind_eq_Some_conv split: option.splits intro!: text_ok_set_value dest: accepted_ok property_no_nul)

lemma map_of_stored:
  assumes "property_of_object ob = Some (c, b)"
  shows "map_of (stored nm v kvs) c =
    (if nm = ob \<and> Option.bind v (accepted ob) \<noteq> None then Option.bind v (accepted ob) else map_of kvs c)"
proof (cases "property_of_object nm")
  case (Some cb)
  moreover have "nm = ob" if "fst cb = c" using property_inj [OF assms] that Some by (cases cb) auto
  ultimately show ?thesis using assms
    by (cases cb) (auto simp: stored_def map_of_json_object_set_value split: option.splits)
qed (use assms in \<open>auto simp: stored_def\<close>)

definition stored_all :: "(string \<Rightarrow> JSON_Value option) \<Rightarrow> string list \<Rightarrow> JSON_Object \<Rightarrow> JSON_Object" where
  "stored_all g nms = fold (\<lambda>nm. stored nm (g nm)) nms"

lemma take_members_fold:
  "fold (\<lambda>nm. take_member (g nm) nm) nms s =
     (if \<exists>nm \<in> set nms. g nm \<noteq> None \<and> rejected (nm, the (g nm)) then EINVAL else fst s, stored_all g nms (snd s))"
  by (induction nms arbitrary: s) (auto simp: take_member_eq stored_all_def)

lemma stored_all_ok: "text_ok kvs \<Longrightarrow> text_ok (stored_all g nms kvs)"
  by (induction nms arbitrary: kvs) (auto simp: stored_all_def stored_ok)

lemma map_of_stored_all:
  assumes "property_of_object ob = Some (c, b)"
  shows "map_of (stored_all g nms kvs) c =
    (if ob \<in> set nms \<and> Option.bind (g ob) (accepted ob) \<noteq> None then Option.bind (g ob) (accepted ob) else map_of kvs c)"
  by (induction nms arbitrary: kvs) (auto simp: stored_all_def map_of_stored [OF assms])

lemma take_members_object:
  assumes "property_of_object ob = Some (c, b)"
  shows "map_of (snd (take_members kvs)) c = Option.bind (map_of kvs ob) (accepted ob)"
  unfolding take_members_def take_members_fold
  using map_of_stored_all [OF assms, of "\<lambda>nm. json_object_get_value (Some kvs) (Some nm)" "map fst kvs" "[]"]
  by (auto simp: json_object_get_value_def map_of_eq_None_iff [THEN iffD2])

lemma text_ok_empty: "text_ok []"
  by (simp add: text_ok_def)

lemma take_members_ok: "text_ok (snd (take_members kvs))"
  unfolding take_members_def take_members_fold snd_conv by (intro stored_all_ok text_ok_empty)

lemma take_members_status:
  assumes "distinct (map fst kvs)"
  shows "fst (take_members kvs) = (if list_ex rejected kvs then EINVAL else MMI_OK)"
  unfolding take_members_def take_members_fold
  using assms by (auto simp: json_object_get_value_def list_ex_iff map_of_eq_Some_iff)

lemma parsed_object_distinct: "json_parse_string (Some s) = Some (JSONObject kvs) \<Longrightarrow> distinct (map fst kvs)"
  by (auto simp: json_parse_string_def Let_def map_option_case parsed_ok_def simp del: parse_value.simps split: option.splits dest!: parse_value_ok)

text \<open>Writing a file that is not a directory and reading it back.\<close>

lemma serialize_to_file_ok:
  assumes "plain_file f st" and "json_serialize_to_string_pretty v = Some bs"
  shows "\<exists>n. json_serialize_to_file_pretty sys_ok v (Some f) st = (True, put_node f (Some n) st) \<and> \<not> is_dir n \<and> bytes n = bs"
  using assms
  by (auto simp: json_serialize_to_file_pretty_def Let_def open_for_writing_def append_bytes_def plain_file_def
      split: option.splits)

lemma parse_file_ok:
  assumes "text_ok kvs" and "node st f = Some n" and "\<not> is_dir n" and "bytes n = json_serialize_r p l (JSONObject kvs)"
  shows "json_parse_file sys_ok (Some f) st = Some (JSONObject kvs)"
  using assms json_parse_string_serialize [of "JSONObject kvs" p l] serialize_no_nul [of "JSONObject kvs" p l] pretty_nonempty [of p l kvs]
  by (simp add: json_parse_file_def read_file_def readable_bytes_def text_ok_def)

lemma get_after_write:
  assumes "IsValidSession str h st" and "g_deliveryOptimizationConfigFile st = Some f" and "d_maxPayloadSizeBytes st = 0"
    and "json_parse_file sys_ok (Some f) (d_files st) = Some (JSONObject (snd (take_members kvs)))"
    and ob: "property_of_object ob = Some (c, b)"
  shows "DeliveryOptimizationMmiGet sys_ok str h (Some ''DeliveryOptimization'') (Some ob) st =
    Some ((MMI_OK, Some (policy_text kvs ob), int (length (policy_text kvs ob))), st)"
proof -
  have host: "ob = ''cacheHost'' \<longleftrightarrow> b" using ob by (auto simp: property_of_object_def split: if_splits)
  show ?thesis
  proof (cases "Option.bind (map_of kvs ob) (accepted ob)")
    case None
    then show ?thesis using assms host take_members_object [OF ob, of kvs]
      by (simp add: DeliveryOptimizationMmiGet_def g_deliveryOptimizationComponentName_def property_text_def policy_text_def
          report_default_def json_get_defs)
  next
    case (Some w)
    then have "json_value_get_type (Some w) = JSON_type_of b" using ob
      by (auto simp: Option.bind_eq_Some_conv dest: accepted_type)
    then show ?thesis using assms Some take_members_object [OF ob, of kvs]
      by (simp add: DeliveryOptimizationMmiGet_def g_deliveryOptimizationComponentName_def property_text_def policy_text_def
          json_get_defs json_serialize_to_string_def Let_def)
  qed
qed

text \<open>C32: Setting the policies replaces all of them, in a session, when the file can be written: afterwards every object reports
  the value that the payload has for it if that value is accepted, and its default otherwise. The status tells whether some
  number of the payload was out of its range; even then the other members are written.\<close>

theorem DeliveryOptimization_policies:
  assumes "IsValidSession str h st" and "g_deliveryOptimizationConfigFile st = Some f" and "plain_file f (d_files st)"
    and "d_maxPayloadSizeBytes st = 0" and "0 < length p"
    and "json_value_get_object (json_parse_string (Some (c_string p))) = Some kvs"
    and "property_of_object ob = Some (c, b)"
  shows "\<exists>st'. DeliveryOptimizationMmiSet sys_ok str h (Some ''DeliveryOptimization'') (Some ''desiredDeliveryOptimizationPolicies'')
      (Some p) (int (length p)) st = Some (if list_ex rejected kvs then EINVAL else MMI_OK, st') \<and>
    DeliveryOptimizationMmiGet sys_ok str h (Some ''DeliveryOptimization'') (Some ob) st' =
      Some ((MMI_OK, Some (policy_text kvs ob), int (length (policy_text kvs ob))), st')"
proof -
  have v: "json_parse_string (Some (c_string p)) = Some (JSONObject kvs)"
    using assms(6) by (auto elim!: json_value_get_object.elims)
  note dist = parsed_object_distinct [OF v]
  let ?new = "snd (take_members kvs)"
  let ?t = "json_serialize_r True 0 (JSONObject ?new)"
  obtain n where n: "json_serialize_to_file_pretty sys_ok (Some (JSONObject ?new)) (Some f) (d_files st) = (True, put_node f (Some n) (d_files st))"
    "\<not> is_dir n" "bytes n = ?t"
    using serialize_to_file_ok [OF assms(3), of "Some (JSONObject ?new)" ?t] by (auto simp: json_serialize_to_string_pretty_def)
  define st' where "st' = st\<lparr>d_files := put_node f (Some n) (d_files st)\<rparr>"
  have "DeliveryOptimizationMmiSet sys_ok str h (Some ''DeliveryOptimization'') (Some ''desiredDeliveryOptimizationPolicies'')
      (Some p) (int (length p)) st = Some (fst (take_members kvs), st')"
    using assms(1,2,5) v n(1)
    by (simp add: DeliveryOptimizationMmiSet_def g_deliveryOptimizationComponentName_def st'_def case_prod_beta)
  moreover have "json_parse_file sys_ok (Some f) (d_files st') = Some (JSONObject ?new)"
    by (rule parse_file_ok [OF take_members_ok]) (use n in \<open>simp_all add: st'_def\<close>)
  ultimately show ?thesis
    using get_after_write [of str h st' f kvs ob c b] assms(1,2,4,7) take_members_status [OF dist]
    by (simp add: st'_def IsValidSession_def)
qed

definition sample_policies :: JSON_Object where
  "sample_policies = [(''cacheHost'', JSONString ''cache.example''), (''cacheHostSource'', JSONNumber 9), (''percentageDownloadThrottle'', JSONNumber 50)]"

definition sample_optimization :: delivery_optimization where
  "sample_optimization = \<lparr>g_deliveryOptimizationConfigFile = Some ''/etc/deliveryoptimization-agent/admin-config.json'',
     d_referenceCount = 1, d_maxPayloadSizeBytes = 0,
     d_files = \<lparr>node = (\<lambda>_. None), new_file = \<lparr>is_dir = False, bytes = [], st_uid = 0, st_gid = 0, st_mode = 0\<rparr>, line_max = 255\<rparr>\<rparr>"

theorem DeliveryOptimization_policies_witness:
  "\<exists>st'. DeliveryOptimizationMmiSet sys_ok (\<lambda>_. ''DeliveryOptimization module'') 1 (Some ''DeliveryOptimization'')
      (Some ''desiredDeliveryOptimizationPolicies'') (Some (json_serialize_r False 0 (JSONObject sample_policies)))
      (int (length (json_serialize_r False 0 (JSONObject sample_policies)))) sample_optimization = Some (EINVAL, st') \<and>
    DeliveryOptimizationMmiGet sys_ok (\<lambda>_. ''DeliveryOptimization module'') 1 (Some ''DeliveryOptimization'') (Some ''percentageDownloadThrottle'') st' =
      Some ((MMI_OK, Some (json_serialize_r False 0 (JSONNumber 50)), int (length (json_serialize_r False 0 (JSONNumber 50)))), st')"
proof -
  let ?p = "json_serialize_r False 0 (JSONObject sample_policies)"
  have ok: "json_ok (JSONObject sample_policies)" "json_depth (JSONObject sample_policies) \<le> Suc MAX_NESTING"
    by (simp_all add: sample_policies_def exact_number_def NUL_def MAX_NESTING_def)
  have parsed: "json_value_get_object (json_parse_string (Some (c_string ?p))) = Some sample_policies"
    using json_parse_string_serialize [OF ok, of False 0] serialize_no_nul [OF ok(1), of False 0] by simp
  have kvs: "list_ex rejected sample_policies" "map_of sample_policies ''percentageDownloadThrottle'' = Some (JSONNumber 50)"
    by (simp_all add: sample_policies_def accepts_number_def double_to_int_def trunc_rat_def)
  have "policy_text sample_policies ''percentageDownloadThrottle'' = json_serialize_r False 0 (JSONNumber 50)"
    by (simp add: policy_text_def kvs accepts_number_def double_to_int_def trunc_rat_def del: json_serialize_r.simps)
  then show ?thesis
    using DeliveryOptimization_policies [of "\<lambda>_. ''DeliveryOptimization module''" 1 sample_optimization
        "''/etc/deliveryoptimization-agent/admin-config.json''" ?p sample_policies "''percentageDownloadThrottle''"
        "''DOPercentageDownloadThrottle''" False] parsed kvs pretty_nonempty [of False 0 sample_policies]
    by (simp add: sample_optimization_def IsValidSession_def g_deliveryOptimizationModuleName_def plain_file_def property_of_object_def
        del: json_serialize_r.simps)
qed

end
