(* ===== verification/Spec2Isabelle.thy ===== *)
theory Spec2Isabelle
  imports MpiCalls DeviceInfo UrlUtils ProxyUtils ConfigProps ConfigurationProps CommandUtils UserProps UtilProps ParsonObjects Watcher Logging Adhs DeliveryOptimization
begin

text \<open>
  Verification of the OSConfig platform (\<open>azure-osconfig\<close>).

  \<^bold>\<open>The program.\<close> OSConfig manages the configuration of a device through modules: shared objects
  that implement the module interface (MMI). The platform process (\<open>src/platform\<close>) loads the
  modules, opens a session with each for every client, and routes the clients' requests to the
  module that has the component a request names. Clients (adapters and agents) are other
  processes: they link the MPI client (\<open>src/common/mpiclient\<close>) and talk to the platform over a
  local socket, one HTTP request with a JSON body per call. Every component exchanges data as
  JSON text through one library (\<open>src/common/parson\<close>). The largest module is the security baseline
  (\<open>src/common/asb\<close>): some 170 rules, each with an audit that gives a reason and a remediation, built
  on the utilities for files, users, packages, daemons, mounts, passwords and SSH
  (\<open>src/common/commonutils\<close>).

  \<^bold>\<open>The theories.\<close>
  \<^item> \<open>Prelude\<close>: C strings, integers, decimal notation, status codes, the allocation oracle, and the
    locale \<open>keyed_store\<close> (lookup and update by key), the contract of a JSON object and of a report.
  \<^item> \<open>Parson\<close>, \<open>ParsonText\<close>, \<open>JsonText\<close>: \<open>parson.c\<close>. Values are a datatype, an object the list of
    its members in order; one function per accessor; \<open>parse_value\<close> and its loops; the
    serialiser. Shown: what is parsed is well formed; serialised text parses back, compact and
    pretty; texts that components write by format strings parse to the values they denote.
    \<open>keyed_store\<close> is interpreted on \<open>map_of\<close> and \<open>json_object_set_value\<close>.
  \<^item> \<open>ParsonObjects\<close>: the rest of \<open>parson.c\<close>: removal, dotted names, arrays, copies, equality, validation and
    comments. Shown: dotted names round trip at every depth; removal through the locale
    \<open>removable_store\<close>, which extends \<open>keyed_store\<close>; copies and equality.
  \<^item> \<open>MmiClient\<close>: \<open>MmiClient.c\<close>. A module is a record of its description and its entry points, which
    are functions on a world \<open>'w\<close>. Shown: which descriptions are accepted.
  \<^item> \<open>ModulesManager\<close>, \<open>ManagerProps\<close>: \<open>ModulesManager.c\<close>. The state is a record of the four global
    variables; a list head is \<open>Live\<close> with its elements or \<open>Freed\<close>. Shown: the invariant on all
    reachable states and that no operation crashes in them; refinement of sessions to a finite map
    and of \<open>MpiSetDesired\<close> to a sequence of calls; the contents of a report, through the
    interpretation \<open>report\<close> of \<open>keyed_store\<close> and the contract \<open>mmi_module\<close> of a module; what
    \<open>UnloadModules\<close> leaves behind.
  \<^item> \<open>Sockets\<close>: \<open>SocketUtils.c\<close> on the bytes a peer has sent.
  \<^item> \<open>MpiServer\<close>, \<open>ServerProps\<close>: \<open>MpiServer.c\<close>. \<open>HandleMpiCall\<close> takes the operations as a record, as
    the source does; \<open>serve_connection\<close> is one iteration of the worker. Shown: the dispatcher is
    safe for every record that meets the contract \<open>mpi_contract\<close>, which is interpreted on the
    operations of the manager; refused requests change nothing; responses are never cut.
  \<^item> \<open>Platform\<close>: \<open>Main.c\<close>, the signal handlers, the main loop and the refresh, with a step relation.
    Shown: the invariant until the first refresh, and the dangling state after one.
  \<^item> \<open>MpiClient\<close>, \<open>MpiExchange\<close>, \<open>MpiCalls\<close>: \<open>MpiClient.c\<close>, what the server reads of what the
    client writes and the reverse, and the theorems that a call through the socket is the call
    of the operation.
  \<^item> \<open>DeviceInfo\<close>: \<open>DeviceInfo.c\<close>, a module; it meets \<open>mmi_module\<close> (interpretation \<open>deviceinfo\<close>).
  \<^item> \<open>UrlUtils\<close>, \<open>ProxyUtils\<close>: percent encoding and the parser of proxy settings. Shown: round trips.
  \<^item> \<open>TextUtils\<close>: the functions on C strings of \<open>DeviceInfoUtils.c\<close>, \<open>OtherUtils.c\<close> and \<open>DaemonUtils.c\<close>.
  \<^item> \<open>FileUtils\<close>, \<open>FileEdits\<close>, \<open>MarkedLines\<close>, \<open>FileOptions\<close>, \<open>FileProps\<close>: \<open>FileUtils.c\<close> over a file system that
    maps names to nodes (record \<open>fs\<close>). Shown: saved payloads load back; the editing of marked lines
    refines an operation on the list of lines; an option that was set is read back; what the
    searches for lines decide.
  \<^item> \<open>ConfigUtils\<close>, \<open>ConfigProps\<close>: the getters of \<open>ConfigUtils.c\<close>, with the bounds of every setting.
  \<^item> \<open>Configuration\<close>, \<open>ConfigurationProps\<close>: \<open>Configuration.c\<close>, a module that keeps settings in memory and
    in a file. Shown: an accepted set persists; the invariant of all reachable states.
  \<^item> \<open>CommandUtils\<close>: \<open>ExecuteCommand\<close>, whose loop consumes a list of events. Shown: the text does not
    depend on how it was read in pieces; with a deadline the call returns.
  \<^item> \<open>UserAccounts\<close>, \<open>UserChecks\<close>, \<open>UserGroups\<close>, \<open>UserPasswords\<close>, \<open>UserHomes\<close>, \<open>UserProps\<close>: \<open>UserUtils.c\<close> and
    \<open>Reasons.h\<close>. The record \<open>host\<close> holds the file system and the entries of the user databases. Shown:
    which audits decide what they are named for, which never find anything, and what
    remediations reach.
  \<^item> \<open>Runtime\<close>: the state that the baseline and its utilities share, a record with the host, the shell, the
    failures to come, the reason pointer and a counter of calls; the combinators for sequences of calls.
    Utilities extend it by their own global variables (record extension).
  \<^item> \<open>DaemonUtils\<close>, \<open>PackageUtils\<close>, \<open>FileChecks\<close>, \<open>PassUtils\<close>, \<open>MountUtils\<close>, \<open>SshUtils\<close>, \<open>DeviceInfoUtils\<close>,
    \<open>OtherUtils\<close>: the C files of these names, and the checks of \<open>FileUtils.c\<close> that record a reason. Shown in
    \<open>UtilProps\<close>: which packages are found, that the lockout settings read back as they were set,
    and that the SSH remediation is written in full.
  \<^item> \<open>AsbState\<close>, \<open>AsbInit\<close>, \<open>AsbAudit\<close>, \<open>AsbRemediate\<close>, \<open>Asb\<close>: \<open>Asb.c\<close>, in the groups of the source: the rules and
    the names, the setters of desired values, one definition per audit and per remediation, the
    initialisation, the shutdown and the two dispatchers. \<open>SecurityBaseline\<close> is the module around it.
    \<open>AuditEffects\<close> holds the facts that audits only read, and \<open>AsbProps\<close> the properties: no audit
    changes the host, a session that only audits leaves the files alone, remediations of
    permissions make their audits pass, every rule has its two objects, what a client gets.
  \<^item> \<open>Adhs\<close>, \<open>DeliveryOptimization\<close>: the C modules \<open>Adhs.c\<close> and \<open>DeliveryOptimization.c\<close>. Shown: what is set is
    read back, the regular expression by its leftmost match, and the policies as replaced as a whole.
  \<^item> \<open>Watcher\<close>: \<open>Watcher.c\<close> of the agent and its session with the platform. Shown: a desired configuration
    found in the local file is applied through the socket, once.
  \<^item> \<open>Logging\<close>: \<open>Logging.c\<close>, the log file and its rolling. Shown: the file stays bounded.

  \<^bold>\<open>Conventions.\<close> \<open>None\<close> as the result of an operation is undefined behaviour of the C code, a
  \<open>NULL\<close> or dangling pointer that is followed or a buffer that is overrun. Every allocation asks
  an oracle, named by its place; a theorem over all oracles covers all patterns of failure, one
  with \<open>all_ok\<close> assumes memory. In the utilities an oracle of type \<open>sys\<close> gives the error of each system
  call by its place and number; \<open>nested\<close> names the calls a callee makes, and \<open>sys_ok\<close> is the oracle
  without failures. A shell command is a parameter of type \<open>exec\<close>: from the text of the command and the
  host to a status, an output and the changed host. Modules, shared objects and the results of
  other system calls are parameters. The calls that log and trace have no effect on the state of a
  component and are left out of it.

  \<^bold>\<open>Bounds.\<close> \<open>parse_value\<close> takes the number of levels left, \<open>MAX_NESTING + 1\<close> at the start, so that its
  recursion is structural. The loops over members and items have a counter that starts above
  the length of the text; each further iteration follows a comma that was consumed. The read
  loop of a command is a recursion over the events it meets, and a loop that has used up its
  events has not returned. All other loops are recursions over the list they traverse.
  Integers are \<open>int\<close> with \<open>c_int\<close> where a conversion wraps, sizes of payloads, identifiers and
  times are 32-bit words.

  \<^bold>\<open>Not modelled.\<close> Telemetry, the clock and the performance log of the baseline (output only); the
  rest of the PnP agent, which is glue to the Azure IoT SDK; the MC adapter, which is glue to the
  machine configuration interfaces and a generated schema; the driver of module tests; the C++
  modules and the compliance engine. Concurrency is the interleaving of connections, signals and
  iterations of the main loop as whole steps: the worker is the only thread that touches the
  manager while it runs, and the main thread joins it before it unloads the modules.
\<close>

section \<open>Properties that span components\<close>


definition device_module :: "deviceinfo MODULE" where
  "device_module =
     \<lparr>path = ''p'',
      info = \<lparr>name = ''DeviceInfo'', description = [], manufacturer = [],
              version = \<lparr>major = 3, minor = 0, patch = 0, tweak = 0\<rparr>, versionInfo = [],
              components = [g_deviceInfoComponentName], lifetime = 2, licenseUri = None, projectUri = None,
              userAccount = 0\<rparr>,
      entry = deviceinfo_mmi all_ok (\<lambda>_. g_deviceInfoModuleName) 1 sample_probes ''1''\<rparr>"

definition device_world :: deviceinfo where
  "device_world = snd (DeviceInfoMmiOpen 1 None 0 (DeviceInfoInitialize sample_probes no_device))"

definition device_server :: "deviceinfo server" where
  "device_server = (initial_server device_world)\<lparr>manager := \<lparr>
     g_sessions = Live [\<lparr>uuid = ''U'', client = ''c'', modules = [\<lparr>module = device_module, handle = 1\<rparr>]\<rparr>],
     g_modules = Live [device_module], g_reported = Live [], g_reportedTotal = 0\<rparr>\<rparr>"


lemma HandleMpiCall_open_crash:
  assumes "plain cn" and "0 \<le> sint mx" and "CallMpiOpen all_ok rnd (Some cn) mx st = None"
  shows "HandleMpiCall all_ok (mpiCalls all_ok rnd) (Some MPI_OPEN_URI) (Some (open_request cn mx)) (None, 0) st = None"
proof -
  have k: "double_to_int (of_int (sint mx)) = sint mx"
    using sint_ge [of mx] sint_lt [of mx] by (intro double_to_int_of_int) simp_all
  show ?thesis
    using parse_open_request [OF assms(1)] assms(2,3) plain_nul assms(1) k
    by (simp add: HandleMpiCall_def handle_open_def string_member_def json_get_defs mpi_uris)
qed

text \<open>C13: After a \<open>SIGHUP\<close> that refreshes a platform with loaded modules, the request with which any
  client opens a session makes the server follow a freed list.\<close>

theorem refresh_then_client_open:
  assumes "server_ok (server p)" and "g_modules (manager (server p)) = Live mds" and "mds \<noteq> []"
    and "socket_ok io" and "bind_ok io" and "listen_ok io"
    and "plain cn" and "length cn < 2 ^ 30" and "0 \<le> sint mx" and "\<And>n. n \<le> cap n"
  shows "\<exists>p'. main_iteration io t_now t_now' (SignalReloadConfiguration SIGHUP p) = Some p' \<and>
    serve_connection all_ok ma dev cap rnd (request_data MPI_OPEN_URI (open_request cn mx)) (server p') = None"
proof -
  let ?q = "(PlatformDoWork t_now t_now' (SignalReloadConfiguration SIGHUP p))\<lparr>g_refreshSignal := 0\<rparr>"
  have q: "server ?q = server p"
    by (simp add: PlatformDoWork_def SignalReloadConfiguration_def)
  obtain p' where p': "Refresh io ?q = Some p'" "g_modules (manager (server p')) = Freed"
    "CallMpiOpen all_ok rnd (Some cn) mx (server p') = None"
    using refresh_dangling [of ?q mds io, unfolded q, OF assms(1-6)] by blast
  let ?body = "open_request cn mx"
  have "length (print_int (sint mx)) \<le> 10"
    using assms(9) sint_lt [of mx] length_dec_bound [of "nat (sint mx)" 10]
    by (simp add: print_int_def nat_less_iff)
  then have body: "?body \<noteq> [] \<and> length ?body < 2 ^ 31"
    unfolding open_request_eq using assms(8) by (simp add: quoted_def)
  obtain r where r: "ReadUriFromSocket all_ok (request_data MPI_OPEN_URI ?body) = (Some MPI_OPEN_URI, r)"
    "ReadHttpContentLengthFromSocket all_ok r = (int (length ?body), ?body)"
    using request_read [of all_ok MPI_OPEN_URI ?body] mpi_uri_letters [of MPI_OPEN_URI] body by auto
  have "read_body all_ok cap (int (length ?body)) ?body = Some (HTTP_OK, Some ?body)"
    using assms(10) [of "length ?body"] body by (simp add: read_body_def sock_read_def min_absorb1)
  moreover have "(server p')\<lparr>manager := manager (server p'), world := world (server p')\<rparr> = server p'" by simp
  ultimately have "serve_connection all_ok ma dev cap rnd (request_data MPI_OPEN_URI ?body) (server p') = None"
    using r p'(2) HandleMpiCall_open_crash [OF assms(7,9) p'(3)]
    by (simp add: serve_connection_def AreModulesLoadedAndLoadIfNot_def)
  moreover have "main_iteration io t_now t_now' (SignalReloadConfiguration SIGHUP p) = Refresh io ?q"
    by (simp add: main_iteration_def Let_def PlatformDoWork_def SignalReloadConfiguration_def codes)
  ultimately show ?thesis using p'(1) by auto
qed

theorem refresh_then_client_open_witness:
  "\<exists>p'. main_iteration \<lparr>socket_ok = True, bind_ok = True, listen_ok = True, pthread_create = 0\<rparr> 7 7
      (SignalReloadConfiguration SIGHUP recorder_platform) = Some p' \<and>
    serve_connection all_ok (\<lambda>_. all_ok) empty_device id (\<lambda>_. 0)
      (request_data MPI_OPEN_URI (open_request ''me'' 4)) (server p') = None"
  by (rule refresh_then_client_open [OF recorder_platform_ok, where mds = "[recorder_module [''A''], recorder_module [''B'']]"])
    (simp_all add: recorder_platform_def plain_char_def)

end
